(* ===== verification/Prelude.thy ===== *)
theory Prelude
  imports Main "HOL-Library.AList" "HOL-Library.List_Lexorder" "HOL-Library.Char_ord"
begin

section \<open>Prelude: results, stateful operations, Python text and dictionaries\<close>

text \<open>
  Shared vocabulary of the development.
  \<^item> A Python exception is a value \<open>Exn cls msg\<close>: the name of its class and its text.
    A computation that may raise has type \<open>'a res\<close> (\<open>exn + 'a\<close>).
  \<^item> A method that changes the object and may raise has type \<open>('s, 'a) op\<close>: the new state is
    returned in both cases, because an exception does not undo the assignments made before it.
  \<^item> A \<open>str\<close> is the list of the bytes of its UTF-8 encoding (\<open>string\<close>). Byte-wise order of
    UTF-8 is code point order, so \<open>sort\<close> on \<open>string\<close> is Python's \<open>sorted\<close>, and
    \<open>encode("utf-8")\<close> is the identity.
  \<^item> A \<open>dict\<close> is an association list in insertion order; \<open>AList.update\<close> replaces in place or
    appends at the end, as a \<open>dict\<close> assignment does.
\<close>

named_theorems res_simps \<open>rewriting of results and operations\<close>
named_theorems sha_simps \<open>shape of digests\<close>

subsection \<open>Exceptions and results\<close>

datatype exn = Exn (exn_class: string) (exn_msg: string)

type_synonym 'a res = "exn + 'a"

definition rbind :: "'a res \<Rightarrow> ('a \<Rightarrow> 'b res) \<Rightarrow> 'b res" where
  "rbind m f = (case m of Inl e \<Rightarrow> Inl e | Inr x \<Rightarrow> f x)"

lemma rbind_Inl [simp, res_simps]: "rbind (Inl e) f = Inl e"
  by (simp add: rbind_def)

lemma rbind_Inr [simp, res_simps]: "rbind (Inr x) f = f x"
  by (simp add: rbind_def)

lemma rbind_eq_Inr [res_simps]: "rbind m f = Inr y \<longleftrightarrow> (\<exists>x. m = Inr x \<and> f x = Inr y)"
  by (cases m) auto

lemma rbind_eq_Inl: "rbind m f = Inl e \<longleftrightarrow> m = Inl e \<or> (\<exists>x. m = Inr x \<and> f x = Inl e)"
  by (cases m) auto

lemma if_Inl_eq_Inr [res_simps]: "(if c then Inl e else m) = Inr y \<longleftrightarrow> \<not> c \<and> m = Inr y"
  by simp

text \<open>A Python list comprehension whose body may raise: left to right, first exception wins.\<close>

primrec rmap :: "('a \<Rightarrow> 'b res) \<Rightarrow> 'a list \<Rightarrow> 'b list res" where
  "rmap f [] = Inr []"
| "rmap f (x # xs) = rbind (f x) (\<lambda>y. rbind (rmap f xs) (\<lambda>ys. Inr (y # ys)))"

lemma rmap_Inr_iff: "rmap f xs = Inr ys \<longleftrightarrow> list_all2 (\<lambda>x y. f x = Inr y) xs ys"
proof (induction xs arbitrary: ys)
  case (Cons x xs)
  then show ?case
    by (cases ys) (auto simp: rbind_eq_Inr)
qed auto

lemma rmap_id: "(\<And>x. x \<in> set xs \<Longrightarrow> f x = Inr (g x)) \<Longrightarrow> rmap f xs = Inr (map g xs)"
  by (induction xs) auto

lemma rmap_set: "rmap f xs = Inr ys \<Longrightarrow> y \<in> set ys \<Longrightarrow> \<exists>x \<in> set xs. f x = Inr y"
  by (induction xs arbitrary: ys) (fastforce simp: rbind_eq_Inr)+

subsection \<open>Stateful operations\<close>

type_synonym ('s, 'a) op = "'s \<Rightarrow> 'a res \<times> 's"

definition obind :: "('s, 'a) op \<Rightarrow> ('a \<Rightarrow> ('s, 'b) op) \<Rightarrow> ('s, 'b) op" where
  "obind m f s = (case m s of (Inl e, s') \<Rightarrow> (Inl e, s') | (Inr x, s') \<Rightarrow> f x s')"

definition oret :: "'a \<Rightarrow> ('s, 'a) op" where
  "oret x s = (Inr x, s)"

definition oraise :: "exn \<Rightarrow> ('s, 'a) op" where
  "oraise e s = (Inl e, s)"

definition olift :: "'a res \<Rightarrow> ('s, 'a) op" where
  "olift r s = (r, s)"

definition omodify :: "('s \<Rightarrow> 's) \<Rightarrow> ('s, unit) op" where
  "omodify f s = (Inr (), f s)"

lemmas op_defs = obind_def oret_def oraise_def olift_def omodify_def

lemma obind_Inr: "m s = (Inr x, s') \<Longrightarrow> obind m f s = f x s'"
  by (simp add: obind_def)

lemma obind_Inl: "m s = (Inl e, s') \<Longrightarrow> obind m f s = (Inl e, s')"
  by (simp add: obind_def)

lemma obind_simps [simp]:
  "obind (oret x) f = f x"
  "obind (oraise e) f s = (Inl e, s)"
  "obind (olift (Inr x)) f = f x"
  "obind (olift (Inl e)) f s = (Inl e, s)"
  "obind (omodify g) f' s = f' () (g s)"
  by (auto simp: op_defs fun_eq_iff)

lemma op_apply [simp]:
  "oret x s = (Inr x, s)" "oraise e s = (Inl e, s)" "olift r s = (r, s)" "omodify g s = (Inr (), g s)"
  by (simp_all add: op_defs)

lemma obind_cases:
  "obind m f s = (r, t) \<longleftrightarrow>
     (\<exists>e. m s = (Inl e, t) \<and> r = Inl e) \<or> (\<exists>x s'. m s = (Inr x, s') \<and> f x s' = (r, t))"
  by (auto simp: obind_def split: prod.splits sum.splits)

lemma obind_eq_Inr:
  "obind m f s = (Inr y, t) \<longleftrightarrow> (\<exists>x s'. m s = (Inr x, s') \<and> f x s' = (Inr y, t))"
  by (auto simp: obind_cases)

text \<open>\<open>try: m except Exception as exc: h\<close>.\<close>

definition otry :: "('s, 'a) op \<Rightarrow> (exn \<Rightarrow> ('s, 'a) op) \<Rightarrow> ('s, 'a) op" where
  "otry m h s = (case m s of (Inl e, t) \<Rightarrow> h e t | (Inr x, t) \<Rightarrow> (Inr x, t))"

lemma otry_cases:
  "otry m h s = (r, t) \<longleftrightarrow> (\<exists>e s'. m s = (Inl e, s') \<and> h e s' = (r, t)) \<or> (\<exists>x. m s = (Inr x, t) \<and> r = Inr x)"
  by (auto simp: otry_def split: prod.splits sum.splits)

text \<open>An operation on one half of a pair of states: the object that is called and the rest.\<close>

definition on_fst :: "('a, 'x) op \<Rightarrow> ('a \<times> 'b, 'x) op" where
  "on_fst m s = (case m (fst s) of (r, a) \<Rightarrow> (r, (a, snd s)))"

definition on_snd :: "('b, 'x) op \<Rightarrow> ('a \<times> 'b, 'x) op" where
  "on_snd m s = (case m (snd s) of (r, b) \<Rightarrow> (r, (fst s, b)))"

lemma on_fst_eq: "on_fst m (a, b) = (r, (a', b')) \<longleftrightarrow> m a = (r, a') \<and> b' = b"
  by (auto simp: on_fst_def split: prod.splits)

lemma on_snd_eq: "on_snd m (a, b) = (r, (a', b')) \<longleftrightarrow> m b = (r, b') \<and> a' = a"
  by (auto simp: on_snd_def split: prod.splits)

lemma on_pair [simp]:
  "on_fst m (a, b) = (fst (m a), (snd (m a), b))" "on_snd m' (a, b) = (fst (m' b), (a, snd (m' b)))"
  by (simp_all add: on_fst_def on_snd_def split: prod.splits)

text \<open>A property of the state that a step keeps whatever its outcome.\<close>

definition keeps :: "('s \<Rightarrow> bool) \<Rightarrow> ('s, 'a) op \<Rightarrow> bool" where
  "keeps P m \<longleftrightarrow> (\<forall>s. P s \<longrightarrow> P (snd (m s)))"

lemma keepsI: "(\<And>s. P s \<Longrightarrow> P (snd (m s))) \<Longrightarrow> keeps P m"
  by (simp add: keeps_def)

lemma keepsD: "keeps P m \<Longrightarrow> P s \<Longrightarrow> m s = (r, t) \<Longrightarrow> P t"
  by (metis keeps_def snd_conv)

lemma keeps_obind: "keeps P m \<Longrightarrow> (\<And>x. keeps P (f x)) \<Longrightarrow> keeps P (obind m f)"
  unfolding keeps_def obind_def by (auto split: prod.split sum.split)

lemma keeps_otry: "keeps P m \<Longrightarrow> (\<And>e. keeps P (h e)) \<Longrightarrow> keeps P (otry m h)"
  unfolding keeps_def otry_def by (auto split: prod.split sum.split)

lemma keeps_case:
  "keeps P m \<Longrightarrow> (\<And>e. keeps P (f e)) \<Longrightarrow> (\<And>x. keeps P (g x)) \<Longrightarrow>
    keeps P (\<lambda>s. case m s of (Inl e, t) \<Rightarrow> f e t | (Inr x, t) \<Rightarrow> g x t)"
  unfolding keeps_def by (auto split: prod.split sum.split)

lemma keeps_If: "keeps P f \<Longrightarrow> keeps P g \<Longrightarrow> keeps P (if c then f else g)"
  by simp

lemma keeps_modify: "(\<And>s. P s \<Longrightarrow> P (g s)) \<Longrightarrow> keeps P (\<lambda>s. (f s, g s))"
  unfolding keeps_def by simp

lemma keeps_on_fst: "keeps (\<lambda>sm. P (snd sm)) (on_fst f)"
  unfolding keeps_def on_fst_def by (auto split: prod.splits)

lemma keeps_on_snd: "keeps P f \<Longrightarrow> keeps (\<lambda>sm. P (snd sm)) (on_snd f)"
  unfolding keeps_def on_snd_def by (auto split: prod.splits)

lemma keeps_if: "keeps P f \<Longrightarrow> keeps P g \<Longrightarrow> keeps P (\<lambda>s. if c s then f s else g s)"
  unfolding keeps_def by simp

lemma keeps_simple [simp, intro]:
  "keeps P (oret x)" "keeps P (oraise e)" "keeps P (olift r)"
  by (simp_all add: keeps_def)

end
