(* ===== verification/Sha256.thy ===== *)
theory Sha256
  imports Json "HOL-Library.Word"
begin

section \<open>SHA-256 and the digest of a document\<close>

text \<open>
  \<open>sha256_hex\<close> is \<open>hashlib.sha256(data).hexdigest()\<close> on a byte string: padding, message schedule,
  sixty-four rounds on eight 32-bit words, and the lowercase hexadecimal text of the state.
  \<open>canonical_sha256\<close> is the function of that name of src/sdk/liminal_post_sandbox_contracts.
  The other theories use two facts only: a digest is a string of 64 lowercase hexadecimal
  characters, and equal digests of different canonical texts are a collision of SHA-256.
\<close>

unbundle bit_operations_syntax

type_synonym u32 = "32 word"

definition sha_K :: "u32 list" where
  "sha_K =
     [0x428A2F98, 0x71374491, 0xB5C0FBCF, 0xE9B5DBA5, 0x3956C25B, 0x59F111F1,
      0x923F82A4, 0xAB1C5ED5, 0xD807AA98, 0x12835B01, 0x243185BE, 0x550C7DC3,
      0x72BE5D74, 0x80DEB1FE, 0x9BDC06A7, 0xC19BF174, 0xE49B69C1, 0xEFBE4786,
      0x0FC19DC6, 0x240CA1CC, 0x2DE92C6F, 0x4A7484AA, 0x5CB0A9DC, 0x76F988DA,
      0x983E5152, 0xA831C66D, 0xB00327C8, 0xBF597FC7, 0xC6E00BF3, 0xD5A79147,
      0x06CA6351, 0x14292967, 0x27B70A85, 0x2E1B2138, 0x4D2C6DFC, 0x53380D13,
      0x650A7354, 0x766A0ABB, 0x81C2C92E, 0x92722C85, 0xA2BFE8A1, 0xA81A664B,
      0xC24B8B70, 0xC76C51A3, 0xD192E819, 0xD6990624, 0xF40E3585, 0x106AA070,
      0x19A4C116, 0x1E376C08, 0x2748774C, 0x34B0BCB5, 0x391C0CB3, 0x4ED8AA4A,
      0x5B9CCA4F, 0x682E6FF3, 0x748F82EE, 0x78A5636F, 0x84C87814, 0x8CC70208,
      0x90BEFFFA, 0xA4506CEB, 0xBEF9A3F7, 0xC67178F2]"

definition sha_H0 :: "u32 list" where
  "sha_H0 =
     [0x6A09E667, 0xBB67AE85, 0x3C6EF372, 0xA54FF53A,
      0x510E527F, 0x9B05688C, 0x1F83D9AB, 0x5BE0CD19]"

subsection \<open>Padding and blocks\<close>

definition be_bytes :: "nat \<Rightarrow> int \<Rightarrow> int list" where
  "be_bytes w n = map (\<lambda>i. (n div 256 ^ (w - 1 - i)) mod 256) [0..<w]"

definition sha_pad :: "int list \<Rightarrow> int list" where
  "sha_pad bs =
     bs @ [128] @ replicate ((119 - length bs mod 64) mod 64) 0 @ be_bytes 8 (8 * int (length bs))"

fun be_words :: "int list \<Rightarrow> u32 list" where
  "be_words (a # b # c # d # xs) =
     of_int (((a * 256 + b) * 256 + c) * 256 + d) # be_words xs"
| "be_words _ = []"

fun chunks :: "u32 list \<Rightarrow> u32 list list" where
  "chunks [] = []"
| "chunks (x # xs) = take 16 (x # xs) # chunks (drop 15 xs)"

subsection \<open>Schedule and rounds\<close>

definition small_sigma0 :: "u32 \<Rightarrow> u32" where
  "small_sigma0 x = word_rotr 7 x XOR word_rotr 18 x XOR drop_bit 3 x"

definition small_sigma1 :: "u32 \<Rightarrow> u32" where
  "small_sigma1 x = word_rotr 17 x XOR word_rotr 19 x XOR drop_bit 10 x"

definition big_sigma0 :: "u32 \<Rightarrow> u32" where
  "big_sigma0 x = word_rotr 2 x XOR word_rotr 13 x XOR word_rotr 22 x"

definition big_sigma1 :: "u32 \<Rightarrow> u32" where
  "big_sigma1 x = word_rotr 6 x XOR word_rotr 11 x XOR word_rotr 25 x"

text \<open>The schedule is extended from its last sixteen words, kept most recent last.\<close>

fun sha_extend :: "nat \<Rightarrow> u32 list \<Rightarrow> u32 list" where
  "sha_extend 0 w = []"
| "sha_extend (Suc n) w =
     (let x = small_sigma1 (w ! 14) + w ! 9 + small_sigma0 (w ! 1) + w ! 0
      in x # sha_extend n (tl w @ [x]))"

fun sha_round :: "u32 \<times> u32 \<Rightarrow> u32 list \<Rightarrow> u32 list" where
  "sha_round (k, w) [a, b, c, d, e, f, g, h] =
     (let t1 = h + big_sigma1 e + ((e AND f) XOR (NOT e AND g)) + k + w;
          t2 = big_sigma0 a + ((a AND b) XOR (a AND c) XOR (b AND c))
      in [t1 + t2, a, b, c, d + t1, e, f, g])"
| "sha_round kw st = st"

definition sha_block :: "u32 list \<Rightarrow> u32 list \<Rightarrow> u32 list" where
  "sha_block blk st =
     map2 (+) st (fold sha_round (zip sha_K (blk @ sha_extend 48 blk)) st)"

definition hex_word :: "u32 \<Rightarrow> string" where
  "hex_word x = map (\<lambda>i. digit_char (unat (drop_bit (28 - 4 * i) x AND 15))) [0..<8]"

definition sha256_bytes :: "int list \<Rightarrow> u32 list" where
  "sha256_bytes bs = fold sha_block (chunks (be_words (sha_pad bs))) sha_H0"

definition sha256_hex :: "string \<Rightarrow> string" where
  "sha256_hex s = concat (map hex_word (sha256_bytes (map of_char s)))"

definition canonical_sha256 :: "json \<Rightarrow> string" where
  "canonical_sha256 v = sha256_hex (canonical_json v)"

subsection \<open>Shape of a digest\<close>

definition is_sha256 :: "string \<Rightarrow> bool" where
  "is_sha256 s \<longleftrightarrow> length s = 64 \<and> list_all (\<lambda>c. c \<in> set ''0123456789abcdef'') s"

definition ZERO_SHA256 :: string where
  "ZERO_SHA256 = replicate 64 (CHR ''0'')"

lemma digit_char_in: "n < 16 \<Longrightarrow> digit_char n \<in> set ''0123456789abcdef''"
  unfolding digit_char_def by (rule nth_mem) simp

lemma unat_and_15: "unat (x AND 15 :: u32) < 16"
proof -
  have "x AND 15 \<le> (15 :: u32)"
    by (rule word_and_le1)
  then have "unat (x AND 15) \<le> unat (15 :: u32)"
    by (simp only: word_le_nat_alt)
  then show ?thesis by simp
qed

lemma hex_word_shape:
  "length (hex_word x) = 8" "list_all (\<lambda>c. c \<in> set ''0123456789abcdef'') (hex_word x)"
  by (auto simp: hex_word_def list_all_iff simp del: set_simps intro!: digit_char_in unat_and_15)

lemma length_sha_round: "length st = 8 \<Longrightarrow> length (sha_round kw st) = 8"
  by (induction kw st rule: sha_round.induct) (auto simp: Let_def)

lemma length_sha_rounds: "length st = 8 \<Longrightarrow> length (fold sha_round kws st) = 8"
  by (induction kws arbitrary: st) (auto simp: length_sha_round)

lemma length_sha_block: "length st = 8 \<Longrightarrow> length (sha_block blk st) = 8"
  by (simp add: sha_block_def length_sha_rounds)

lemma length_sha_blocks: "length st = 8 \<Longrightarrow> length (fold sha_block bs st) = 8"
  by (induction bs arbitrary: st) (auto simp: length_sha_block)

lemma length_concat_hex: "length (concat (map hex_word ws)) = 8 * length ws"
  by (induction ws) (auto simp: hex_word_shape)

lemma list_all_concat_hex:
  "list_all (\<lambda>c. c \<in> set ''0123456789abcdef'') (concat (map hex_word ws))"
  by (induction ws) (auto simp: hex_word_shape simp del: set_simps)

lemma is_sha256_sha256_hex [simp, sha_simps]: "is_sha256 (sha256_hex s)"
proof -
  have "length (sha256_bytes bs) = 8" for bs
    unfolding sha256_bytes_def by (rule length_sha_blocks) (simp add: sha_H0_def)
  then show ?thesis
    by (simp add: is_sha256_def sha256_hex_def length_concat_hex list_all_concat_hex del: set_simps)
qed

lemma is_sha256_canonical [simp, sha_simps]: "is_sha256 (canonical_sha256 v)"
  by (simp add: canonical_sha256_def)

lemma is_sha256_zero [simp, sha_simps]: "is_sha256 ZERO_SHA256"
  by (simp add: is_sha256_def ZERO_SHA256_def list_all_iff)

text \<open>A published test vector, evaluated by the kernel's simplifier.\<close>

lemma sha256_abc:
  "sha256_hex ''abc'' = ''ba7816bf8f01cfea414140de5dae2223b00361a396177a9cb410ff61f20015ad''"
  by code_simp

end
