(* ===== verification/Json_Injective.thy ===== *)
theory Json_Injective
  imports Json
begin

section \<open>The canonical text determines the value\<close>

text \<open>
  \<open>canonical_json\<close> factors through \<open>json_norm\<close> and a rendering \<open>json_text\<close> that sorts nothing.
  The rendering is prefix-injective: followed by the end of the text or by one of the three
  delimiters a value can be followed by, it can be read back in one way only. Hence two values
  with the same canonical text have the same normal form.
\<close>

subsection \<open>Decimal text\<close>

lemma digit_char_inj: "m < 16 \<Longrightarrow> n < 16 \<Longrightarrow> digit_char m = digit_char n \<longleftrightarrow> m = n"
  unfolding digit_char_def by (rule nth_eq_iff_index_eq) simp_all

definition is_digit :: "char \<Rightarrow> bool" where
  "is_digit c \<longleftrightarrow> c \<in> set ''0123456789''"

lemma digit_char_decimal: "n < 10 \<Longrightarrow> is_digit (digit_char n)"
  by (simp add: is_digit_def digit_char_def less_Suc_eq numeral_eq_Suc) auto

lemma nat_str_nonempty: "nat_str n \<noteq> []"
  by (subst nat_str.simps) simp

lemma nat_str_digits: "list_all is_digit (nat_str n)"
proof (induction n rule: nat_str.induct)
  case (1 n)
  then show ?case
    by (subst nat_str.simps) (simp add: digit_char_decimal)
qed

lemma nat_str_inj: "nat_str m = nat_str n \<Longrightarrow> m = n"
proof (induction m arbitrary: n rule: nat_str.induct)
  case (1 m)
  show ?case
  proof (cases "m < 10 \<or> n < 10")
    case True
    with "1.prems" show ?thesis
      using nat_str_nonempty [of "m div 10"] nat_str_nonempty [of "n div 10"]
      by (auto simp: nat_str.simps [of m] nat_str.simps [of n] digit_char_inj split: if_splits)
  next
    case False
    with "1.prems" have eq: "nat_str (m div 10) = nat_str (n div 10)"
      and last: "m mod 10 = n mod 10"
      by (simp_all add: nat_str.simps [of m] nat_str.simps [of n] digit_char_inj)
    from "1.IH" False eq have "m div 10 = n div 10" by simp
    with last show ?thesis by (metis div_mult_mod_eq)
  qed
qed

lemma int_str_hd: "int_str i \<noteq> []" "hd (int_str i) = CHR ''-'' \<or> is_digit (hd (int_str i))"
  using nat_str_nonempty [of "nat i"] nat_str_digits [of "nat i"]
  by (auto simp: int_str_def list_all_iff)

lemma int_str_hd_neq:
  "hd (int_str i) \<noteq> CHR '',''" "hd (int_str i) \<noteq> CHR '']''" "hd (int_str i) \<noteq> CHR 0x7D"
  "hd (int_str i) \<noteq> CHR 0x22" "hd (int_str i) \<noteq> CHR ''[''" "hd (int_str i) \<noteq> CHR 0x7B"
  "hd (int_str i) \<noteq> CHR ''n''" "hd (int_str i) \<noteq> CHR ''t''" "hd (int_str i) \<noteq> CHR ''f''"
  using int_str_hd(2) [of i] by (auto simp: is_digit_def)

definition delimited :: "string \<Rightarrow> bool" where
  "delimited x \<longleftrightarrow> x = [] \<or> hd x = CHR '','' \<or> hd x = CHR '']'' \<or> hd x = CHR 0x7D"

lemma delimited_not_digit: "delimited x \<Longrightarrow> takeWhile is_digit x = []"
  by (cases x) (auto simp: delimited_def is_digit_def)

lemma digits_prefix:
  assumes "list_all is_digit s" "list_all is_digit t" "delimited x" "delimited y" "s @ x = t @ y"
  shows "s = t \<and> x = y"
proof -
  have "takeWhile is_digit (s @ x) = s" "takeWhile is_digit (t @ y) = t"
    using assms(1-4) by (auto simp: takeWhile_append list_all_iff delimited_not_digit takeWhile_eq_all_conv)
  with assms(5) show ?thesis by simp
qed

lemma int_str_prefix:
  assumes "delimited x" "delimited y" "int_str i @ x = int_str j @ y"
  shows "i = j \<and> x = y"
proof -
  have minus: "hd (nat_str n @ z) \<noteq> CHR ''-''" for n z
    using nat_str_nonempty [of n] nat_str_digits [of n]
    by (cases "nat_str n") (auto simp: is_digit_def)
  have same: "(i < 0) = (j < 0)"
    using assms(3) minus by (auto simp: int_str_def split: if_splits) (metis list.sel(1))+
  then have "nat_str (nat \<bar>i\<bar>) @ x = nat_str (nat \<bar>j\<bar>) @ y"
    using assms(3) by (auto simp: int_str_def split: if_splits)
  from digits_prefix [OF nat_str_digits nat_str_digits assms(1,2) this]
  have "nat \<bar>i\<bar> = nat \<bar>j\<bar>" "x = y" by (auto dest: nat_str_inj)
  with same show ?thesis by auto
qed

subsection \<open>Quoted text\<close>

lemma json_esc_nonempty: "json_esc c \<noteq> []"
  by (simp add: json_esc_def)

lemma json_esc_not_quote: "hd (json_esc c @ x) \<noteq> CHR 0x22"
  by (simp add: json_esc_def)

lemma control_hex_inj:
  assumes "of_char c < (32 :: nat)" "of_char d < (32 :: nat)"
    and "digit_char (of_char c div 16) = digit_char (of_char d div 16)"
    and "digit_char (of_char c mod 16) = digit_char (of_char d mod 16)"
  shows "c = d"
proof -
  have "of_char c div 16 = (of_char d div 16 :: nat)" "of_char c mod 16 = (of_char d mod 16 :: nat)"
    using assms by (auto simp: digit_char_inj less_mult_imp_div_less)
  then have "of_char c = (of_char d :: nat)" by (metis div_mult_mod_eq)
  then show ?thesis by simp
qed

lemma json_esc_prefix: "json_esc c @ x = json_esc d @ y \<Longrightarrow> c = d \<and> x = y"
  unfolding json_esc_def
  by (auto split: if_splits dest: control_hex_inj)

lemma concat_esc_prefix:
  "concat (map json_esc s) @ CHR 0x22 # x = concat (map json_esc t) @ CHR 0x22 # y \<Longrightarrow> s = t \<and> x = y"
proof (induction s arbitrary: t)
  case Nil
  then show ?case
    using json_esc_not_quote by (cases t) (auto, metis list.sel(1) append_assoc)
next
  case (Cons c s)
  show ?case
  proof (cases t)
    case Nil
    with Cons.prems show ?thesis
      using json_esc_not_quote by (auto, metis list.sel(1) append_assoc)
  next
    case (Cons d t')
    with Cons.prems json_esc_prefix
    have "c = d" "concat (map json_esc s) @ CHR 0x22 # x = concat (map json_esc t') @ CHR 0x22 # y"
      by (auto simp: append_assoc)
    with Cons.IH Cons show ?thesis by auto
  qed
qed

lemma json_quote_prefix: "json_quote s @ x = json_quote t @ y \<Longrightarrow> s = t \<and> x = y"
  using concat_esc_prefix [of s x t y] by (simp add: json_quote_def)

subsection \<open>Values\<close>

fun json_text :: "json \<Rightarrow> string" where
  "json_text JNull = ''null''"
| "json_text (JBool b) = (if b then ''true'' else ''false'')"
| "json_text (JInt i) = int_str i"
| "json_text (JStr s) = json_quote s"
| "json_text (JList xs) = ''['' @ join '','' (map json_text xs) @ '']''"
| "json_text (JObj kvs) =
     ''{'' @ join '','' (map (\<lambda>(k, v). json_quote k @ '':'' @ json_text v) kvs) @ ''}''"

text \<open>Items in a list or object: each is readable in one way before a delimiter, and none starts
  with a delimiter.\<close>

definition readable :: "('a \<Rightarrow> string) \<Rightarrow> 'a \<Rightarrow> bool" where
  "readable r a \<longleftrightarrow>
     (\<forall>b x y. delimited x \<longrightarrow> delimited y \<longrightarrow> r a @ x = r b @ y \<longrightarrow> a = b \<and> x = y)"

definition proper :: "string \<Rightarrow> bool" where
  "proper s \<longleftrightarrow> \<not> delimited s"

lemma readableD: "readable r a \<Longrightarrow> delimited x \<Longrightarrow> delimited y \<Longrightarrow> r a @ x = r b @ y \<Longrightarrow> a = b \<and> x = y"
  unfolding readable_def by blast

lemma proper_append: "proper s \<Longrightarrow> s @ x \<noteq> CHR '']'' # y \<and> s @ x \<noteq> CHR 0x7D # y"
  by (cases s) (auto simp: proper_def delimited_def)

lemma join_Cons: "join sep (x # xs) = x @ concat (map (\<lambda>y. sep @ y) xs)"
  by (induction xs arbitrary: x) auto

lemma tail_delimited:
  "c = CHR '']'' \<or> c = CHR 0x7D \<Longrightarrow> delimited (concat (map (\<lambda>y. '','' @ y) xs) @ c # x)"
  by (cases xs) (auto simp: delimited_def)

lemma tail_prefix:
  assumes "\<forall>a \<in> set xs. readable r a" "c = CHR '']'' \<or> c = CHR 0x7D"
    and "concat (map (\<lambda>y. '','' @ y) (map r xs)) @ c # x = concat (map (\<lambda>y. '','' @ y) (map r ys)) @ c # y"
  shows "xs = ys \<and> x = y"
  using assms
proof (induction xs arbitrary: ys)
  case Nil
  then show ?case by (cases ys) auto
next
  case (Cons a xs)
  from Cons.prems obtain b ys' where ys: "ys = b # ys'" by (cases ys) auto
  have "a = b \<and> concat (map (\<lambda>y. '','' @ y) (map r xs)) @ c # x
          = concat (map (\<lambda>y. '','' @ y) (map r ys')) @ c # y"
    using Cons.prems ys by (intro readableD [of r] tail_delimited) auto
  with Cons.IH [of ys'] Cons.prems ys show ?case by auto
qed

lemma items_prefix:
  assumes "\<forall>a \<in> set xs. readable r a" "\<And>b. proper (r b)" "c = CHR '']'' \<or> c = CHR 0x7D"
    and "join '','' (map r xs) @ c # x = join '','' (map r ys) @ c # y"
  shows "xs = ys \<and> x = y"
proof (cases xs)
  case Nil
  show ?thesis
  proof (cases ys)
    case (Cons b ys')
    with Nil assms(3,4) proper_append [OF assms(2) [of b]] show ?thesis
      by (auto simp: join_Cons) metis+
  qed (use Nil assms in auto)
next
  case (Cons a xs')
  show ?thesis
  proof (cases ys)
    case Nil
    with Cons assms(3,4) proper_append [OF assms(2) [of a]] show ?thesis
      by (auto simp: join_Cons)
  next
    case ys: (Cons b ys')
    have "a = b \<and> concat (map (\<lambda>y. '','' @ y) (map r xs')) @ c # x
          = concat (map (\<lambda>y. '','' @ y) (map r ys')) @ c # y"
      using assms Cons ys by (intro readableD [of r] tail_delimited) (auto simp: join_Cons)
    with tail_prefix [of xs' r c x ys' y] assms Cons ys show ?thesis by auto
  qed
qed

lemma proper_json_text: "proper (json_text v)"
  by (cases v) (auto simp: proper_def delimited_def json_quote_def int_str_hd int_str_hd_neq)

lemma proper_item: "proper (case kv of (k, v) \<Rightarrow> json_quote k @ '':'' @ json_text v)"
  by (cases kv) (simp add: proper_def delimited_def json_quote_def)

lemma readable_item:
  "readable json_text v \<Longrightarrow> readable (\<lambda>(k, v). json_quote k @ '':'' @ json_text v) (k, v)"
  unfolding readable_def by (auto dest!: json_quote_prefix)

lemma json_text_hd: "hd (json_text v @ x) = hd (json_text v)"
  using proper_json_text [of v] by (cases "json_text v") (auto simp: proper_def delimited_def)

text \<open>The first character tells which constructor was rendered.\<close>

lemma json_text_kind:
  "hd (json_text b) = CHR ''n'' \<Longrightarrow> b = JNull"
  "hd (json_text b) = CHR ''t'' \<Longrightarrow> b = JBool True"
  "hd (json_text b) = CHR ''f'' \<Longrightarrow> b = JBool False"
  "hd (json_text b) = CHR 0x22 \<Longrightarrow> \<exists>s. b = JStr s"
  "hd (json_text b) = CHR ''['' \<Longrightarrow> \<exists>xs. b = JList xs"
  "hd (json_text b) = CHR 0x7B \<Longrightarrow> \<exists>kvs. b = JObj kvs"
  "hd (json_text b) = CHR ''-'' \<or> is_digit (hd (json_text b)) \<Longrightarrow> \<exists>i. b = JInt i"
  by (cases b; auto simp: json_quote_def is_digit_def int_str_hd_neq split: if_splits)+

lemma readableI:
  assumes "\<And>b x y. delimited x \<Longrightarrow> delimited y \<Longrightarrow> json_text v @ x = json_text b @ y \<Longrightarrow>
     hd (json_text b) = hd (json_text v) \<Longrightarrow> v = b \<and> x = y"
  shows "readable json_text v"
  unfolding readable_def using assms by (metis json_text_hd)

lemma readable_json_text: "readable json_text v"
proof (induction v rule: json_text.induct)
  case 1
  show ?case by (rule readableI) (auto dest: json_text_kind)
next
  case (2 b)
  show ?case by (rule readableI, cases b) (auto dest: json_text_kind)
next
  case (3 i)
  show ?case
  proof (rule readableI)
    fix b x y
    assume *: "delimited x" "delimited y" "json_text (JInt i) @ x = json_text b @ y"
      "hd (json_text b) = hd (json_text (JInt i))"
    then obtain j where "b = JInt j"
      using int_str_hd [of i] json_text_kind(7) [of b] by auto
    with * int_str_prefix [of x y i j] show "JInt i = b \<and> x = y" by simp
  qed
next
  case (4 s)
  show ?case
  proof (rule readableI)
    fix b x y
    assume *: "json_text (JStr s) @ x = json_text b @ y" "hd (json_text b) = hd (json_text (JStr s))"
    then obtain t where "b = JStr t"
      using json_text_kind(4) [of b] by (auto simp: json_quote_def)
    with * json_quote_prefix [of s x t y] show "JStr s = b \<and> x = y" by simp
  qed
next
  case (5 xs)
  show ?case
  proof (rule readableI)
    fix b x y
    assume *: "json_text (JList xs) @ x = json_text b @ y" "hd (json_text b) = hd (json_text (JList xs))"
    then obtain ys where "b = JList ys"
      using json_text_kind(5) [of b] by auto
    with * items_prefix [of xs json_text "CHR '']''" x ys y] "5.IH" proper_json_text
    show "JList xs = b \<and> x = y" by simp
  qed
next
  case (6 kvs)
  show ?case
  proof (rule readableI)
    fix b x y
    assume *: "json_text (JObj kvs) @ x = json_text b @ y" "hd (json_text b) = hd (json_text (JObj kvs))"
    then obtain ys where "b = JObj ys"
      using json_text_kind(6) [of b] by auto
    moreover have "\<forall>kv \<in> set kvs. readable (\<lambda>(k, v). json_quote k @ '':'' @ json_text v) kv"
    proof
      fix kv
      assume "kv \<in> set kvs"
      then have "readable json_text (snd kv)" using "6.IH" [of kv "fst kv" "snd kv"] by simp
      then show "readable (\<lambda>(k, v). json_quote k @ '':'' @ json_text v) kv"
        using readable_item [of "snd kv" "fst kv"] by simp
    qed
    ultimately show "JObj kvs = b \<and> x = y"
      using * items_prefix [of kvs "\<lambda>(k, v). json_quote k @ '':'' @ json_text v" "CHR 0x7D" x ys y]
        proper_item by simp
  qed
qed

lemma json_text_inj: "json_text a = json_text b \<Longrightarrow> a = b"
  using readableD [OF readable_json_text, of "[]" "[]" a b] by (simp add: delimited_def)

subsection \<open>Canonical text\<close>

lemma insort_key_map: "(\<And>x. k' (f x) = k x) \<Longrightarrow> map f (insort_key k a xs) = insort_key k' (f a) (map f xs)"
  by (induction xs) auto

lemma sort_key_map: "(\<And>x. k' (f x) = k x) \<Longrightarrow> map f (sort_key k xs) = sort_key k' (map f xs)"
  by (induction xs) (auto simp: insort_key_map [where k' = k'])

lemma canonical_json_norm: "canonical_json v = json_text (json_norm v)"
proof (induction v rule: canonical_json.induct)
  case (5 xs)
  then have "map canonical_json xs = map (\<lambda>x. json_text (json_norm x)) xs" by simp
  then show ?case by (simp add: comp_def del: map_eq_conv)
next
  case (6 kvs)
  let ?f = "\<lambda>(k, v). (k, json_text v)"
  have "map (\<lambda>(k, v). (k, canonical_json v)) kvs = map ?f (map (\<lambda>(k, v). (k, json_norm v)) kvs)"
    using 6 by auto
  then have "sort_key fst (map (\<lambda>(k, v). (k, canonical_json v)) kvs)
      = map ?f (sort_key fst (map (\<lambda>(k, v). (k, json_norm v)) kvs))"
    by (simp add: sort_key_map [where k' = fst, symmetric] split_beta)
  then show ?case by (simp add: comp_def case_prod_unfold)
qed auto

theorem canonical_json_inj: "canonical_json a = canonical_json b \<longleftrightarrow> json_norm a = json_norm b"
  by (auto simp: canonical_json_norm dest: json_text_inj)

end
