(* ===== verification/Pytext.thy ===== *)
theory Pytext
  imports Sha256 Json_Injective
begin

section \<open>Python text and dictionary primitives used by the contracts\<close>

text \<open>
  What the source uses of \<open>str\<close> (\<open>strip\<close>, \<open>lower\<close>, \<open>len\<close>), of \<open>re.fullmatch\<close> (the patterns of
  src/sdk/liminal_post_sandbox_contracts written as predicates) and of \<open>dict\<close>
  (\<open>get\<close>, \<open>pop\<close>, key sets). Text is UTF-8, so a multi-byte white space character is a byte
  sequence.
\<close>

subsection \<open>White space, case, length\<close>

definition ws_seqs :: "string list" where
  "ws_seqs =
     map (\<lambda>c. [c]) [CHR 0x09, CHR 0x0A, CHR 0x0B, CHR 0x0C, CHR 0x0D, CHR 0x1C, CHR 0x1D, CHR 0x1E,
       CHR 0x1F, CHR 0x20] @
     [[CHR 0xC2, CHR 0x85], [CHR 0xC2, CHR 0xA0], [CHR 0xE1, CHR 0x9A, CHR 0x80]] @
     map (\<lambda>c. [CHR 0xE2, CHR 0x80, c]) [CHR 0x80, CHR 0x81, CHR 0x82, CHR 0x83, CHR 0x84, CHR 0x85,
       CHR 0x86, CHR 0x87, CHR 0x88, CHR 0x89, CHR 0x8A, CHR 0xA8, CHR 0xA9, CHR 0xAF] @
     [[CHR 0xE2, CHR 0x81, CHR 0x9F], [CHR 0xE3, CHR 0x80, CHR 0x80]]"

definition ws_prefix :: "string list \<Rightarrow> string \<Rightarrow> nat" where
  "ws_prefix seqs s = (case find (\<lambda>w. take (length w) s = w) seqs of None \<Rightarrow> 0 | Some w \<Rightarrow> length w)"

fun strip_with :: "string list \<Rightarrow> string \<Rightarrow> string" where
  "strip_with seqs [] = []"
| "strip_with seqs (c # cs) =
     (if ws_prefix seqs (c # cs) = 0 then c # cs
      else strip_with seqs (drop (ws_prefix seqs (c # cs) - 1) cs))"

text \<open>\<open>str.strip()\<close>: leading, then trailing white space.\<close>

definition py_strip :: "string \<Rightarrow> string" where
  "py_strip s = rev (strip_with (map rev ws_seqs) (rev (strip_with ws_seqs s)))"

text \<open>\<open>str.lower()\<close> on ASCII letters and on U+212A (the one other character whose lower case is an
  ASCII letter). Every caller matches the result against an ASCII pattern, which the remaining
  non-ASCII characters fail in either case.\<close>

definition ascii_lower :: "char \<Rightarrow> char" where
  "ascii_lower c =
     (if CHR ''A'' \<le> c \<and> c \<le> CHR ''Z'' then char_of ((of_char c :: nat) + 32) else c)"

fun py_lower :: "string \<Rightarrow> string" where
  "py_lower [] = []"
| "py_lower (c # cs) =
     (if c = CHR 0xE2 \<and> take 2 cs = [CHR 0x84, CHR 0xAA] then CHR ''k'' # py_lower (drop 2 cs)
      else ascii_lower c # py_lower cs)"

text \<open>\<open>len\<close>: code points, that is bytes that do not continue a multi-byte sequence.\<close>

definition py_len :: "string \<Rightarrow> nat" where
  "py_len s = length (filter (\<lambda>c. \<not> (CHR 0x80 \<le> c \<and> c \<le> CHR 0xBF)) s)"

subsection \<open>Character classes and patterns\<close>

definition is_alpha :: "char \<Rightarrow> bool" where
  "is_alpha c \<longleftrightarrow> CHR ''A'' \<le> c \<and> c \<le> CHR ''Z'' \<or> CHR ''a'' \<le> c \<and> c \<le> CHR ''z''"

definition is_alnum :: "char \<Rightarrow> bool" where
  "is_alnum c \<longleftrightarrow> is_alpha c \<or> CHR ''0'' \<le> c \<and> c \<le> CHR ''9''"

fun split_on :: "char \<Rightarrow> string \<Rightarrow> string list" where
  "split_on d [] = [[]]"
| "split_on d (c # cs) =
     (if c = d then [] # split_on d cs
      else (case split_on d cs of [] \<Rightarrow> [[c]] | w # ws \<Rightarrow> (c # w) # ws))"

text \<open>\<open>^[A-Za-z0-9][A-Za-z0-9_.:@/-]{0,191}$\<close>\<close>

fun ident_re :: "string \<Rightarrow> bool" where
  "ident_re [] = False"
| "ident_re (c # cs) =
     (is_alnum c \<and> length cs \<le> 191 \<and> list_all (\<lambda>c. is_alnum c \<or> c \<in> set ''_.:@/-'') cs)"

text \<open>\<open>^[A-Za-z0-9_.-]+/[A-Za-z0-9_.-]+$\<close>\<close>

definition repo_re :: "string \<Rightarrow> bool" where
  "repo_re s =
     (let parts = split_on (CHR ''/'') s
      in length parts = 2 \<and>
         list_all (\<lambda>p. p \<noteq> [] \<and> list_all (\<lambda>c. is_alnum c \<or> c \<in> set ''_.-'') p) parts)"

text \<open>\<open>^(?:[A-Za-z0-9](?:[A-Za-z0-9-]{0,61}[A-Za-z0-9])?\.)+[A-Za-z]{2,63}$\<close>\<close>

definition dns_label :: "string \<Rightarrow> bool" where
  "dns_label p \<longleftrightarrow> p \<noteq> [] \<and> length p \<le> 63 \<and> is_alnum (hd p) \<and> is_alnum (last p) \<and>
     list_all (\<lambda>c. is_alnum c \<or> c = CHR ''-'') p"

definition domain_re :: "string \<Rightarrow> bool" where
  "domain_re s =
     (let parts = split_on (CHR ''.'') s
      in 2 \<le> length parts \<and> list_all dns_label (butlast parts) \<and>
         2 \<le> length (last parts) \<and> length (last parts) \<le> 63 \<and> list_all is_alpha (last parts))"

subsection \<open>Dictionaries\<close>

text \<open>\<open>d.get(k)\<close>, and \<open>d[k]\<close> where \<open>k\<close> is known to be a key.\<close>

definition dget :: "(string \<times> json) list \<Rightarrow> string \<Rightarrow> json" where
  "dget d k = (case map_of d k of None \<Rightarrow> JNull | Some v \<Rightarrow> v)"

text \<open>\<open>d[k]\<close> where \<open>k\<close> may be missing.\<close>

definition dreq :: "(string \<times> json) list \<Rightarrow> string \<Rightarrow> json res" where
  "dreq d k = (case map_of d k of None \<Rightarrow> Inl (Exn ''KeyError'' (CHR 0x27 # k @ [CHR 0x27])) | Some v \<Rightarrow> Inr v)"

definition dpop :: "(string \<times> json) list \<Rightarrow> string \<Rightarrow> (string \<times> json) list" where
  "dpop d k = filter (\<lambda>(k', v). k' \<noteq> k) d"

definition dkeys :: "(string \<times> json) list \<Rightarrow> string list" where
  "dkeys d = map fst d"

definition same_keys :: "(string \<times> json) list \<Rightarrow> string list \<Rightarrow> bool" where
  "same_keys d ks \<longleftrightarrow> set (dkeys d) = set ks"

fun jobj :: "json \<Rightarrow> (string \<times> json) list" where
  "jobj (JObj d) = d"
| "jobj _ = []"

fun jstr :: "json \<Rightarrow> string" where
  "jstr (JStr s) = s"
| "jstr _ = []"

fun jstrs :: "json \<Rightarrow> string list" where
  "jstrs (JList xs) = map jstr xs"
| "jstrs _ = []"

definition jopt :: "string option \<Rightarrow> json" where
  "jopt x = (case x of None \<Rightarrow> JNull | Some s \<Rightarrow> JStr s)"

end
