(* ===== verification/Contracts.thy ===== *)
theory Contracts
  imports Pytext
begin

section \<open>Phase 0 contracts\<close>

text \<open>
  Model of src/sdk/liminal_post_sandbox_contracts: the field validators, \<open>validate_scope\<close>, the
  dataclasses \<open>CapabilityContract\<close>, \<open>CausalRuntimeEvent\<close> and \<open>RuntimeEvidenceRequirement\<close> with
  \<open>build\<close>, \<open>body\<close>, \<open>as_document\<close> and \<open>from_document\<close>, and the two stateless validators. A document
  is a \<open>json\<close> value; every check of the source on its type or content is a branch.
\<close>

abbreviation ContractError :: "string \<Rightarrow> exn" where
  "ContractError m \<equiv> Exn ''ContractError'' m"

subsection \<open>Constants\<close>

definition CAPABILITY_SCHEMA :: string where
  "CAPABILITY_SCHEMA = ''liminal-capability-contract-v0.1''"

definition CAUSAL_EVENT_SCHEMA :: string where
  "CAUSAL_EVENT_SCHEMA = ''liminal-causal-runtime-event-v0.1''"

definition EVIDENCE_SCHEMA :: string where
  "EVIDENCE_SCHEMA = ''liminal-runtime-evidence-requirement-v0.1''"

definition CONTAINMENT_SCHEMA :: string where
  "CONTAINMENT_SCHEMA = ''liminal-containment-transition-v0.1''"

definition OBJECTIVE_INTEGRITY_SCHEMA :: string where
  "OBJECTIVE_INTEGRITY_SCHEMA = ''liminal-objective-integrity-contract-v0.1''"

definition CAPABILITY_TYPES :: "string list" where
  "CAPABILITY_TYPES =
     [''repository.read'', ''repository.write'', ''process.execute'', ''package.install'',
      ''network.open'', ''network.connect_domain'', ''credential.access'',
      ''filesystem.write_outside_workspace'', ''process.spawn_child'', ''runtime.configure'']"

definition CAPABILITY_EVENTS :: "string list" where
  "CAPABILITY_EVENTS = [''grant'', ''use'', ''deny'', ''revoke'', ''expire'']"

definition EFFECTS :: "string list" where
  "EFFECTS = [''read'', ''write'', ''execute'', ''network'', ''secret'', ''config'']"

definition DECISIONS :: "string list" where
  "DECISIONS = [''ALLOW'', ''REVISE'', ''BLOCK'', ''CONTAIN'']"

definition CONTAINMENT_STATES :: "string list" where
  "CONTAINMENT_STATES =
     [''IDLE'', ''DETECT'', ''FREEZE'', ''REVOKE'', ''SEAL'', ''SNAPSHOT'', ''REVIEW'', ''RELEASED'']"

definition CONTAINMENT_TRANSITIONS :: "(string \<times> string) list" where
  "CONTAINMENT_TRANSITIONS =
     [(''IDLE'', ''DETECT''), (''DETECT'', ''FREEZE''), (''FREEZE'', ''REVOKE''), (''REVOKE'', ''SEAL''),
      (''SEAL'', ''SNAPSHOT''), (''SNAPSHOT'', ''REVIEW''), (''REVIEW'', ''RELEASED'')]"

definition OBJECTIVE_VIOLATIONS :: "string list" where
  "OBJECTIVE_VIOLATIONS =
     [''hidden_answer_access'', ''evaluator_state_access'', ''grader_or_benchmark_modification'',
      ''result_fabrication'', ''evidence_tampering'', ''task_constraint_mutation'',
      ''evaluation_environment_exploitation'', ''unauthorized_policy_mutation'',
      ''unauthorized_runtime_mutation'']"

definition AUTHORITY :: json where
  "AUTHORITY = JObj
     [(''mode'', JStr ''contract_definition_only''), (''capability_grant'', JBool False),
      (''capability_use'', JBool False), (''execution'', JBool False),
      (''network_mediation'', JBool False), (''credential_access'', JBool False),
      (''process_control'', JBool False), (''containment_execution'', JBool False),
      (''human_release'', JBool False), (''policy_mutation'', JBool False)]"

subsection \<open>Field validators\<close>

fun c_mapping :: "json \<Rightarrow> string \<Rightarrow> (string \<times> json) list res" where
  "c_mapping (JObj d) name = Inr d"
| "c_mapping v name = Inl (ContractError (name @ '' must be a JSON object''))"

definition trimmed :: "string \<Rightarrow> bool" where
  "trimmed s \<longleftrightarrow> py_strip s \<noteq> [] \<and> s = py_strip s \<and> CHR 0x00 \<notin> set s"

fun c_string :: "json \<Rightarrow> string \<Rightarrow> string res" where
  "c_string (JStr s) name =
     (if trimmed s then Inr s
      else Inl (ContractError (name @ '' must be a non-empty trimmed string without NUL'')))"
| "c_string v name = Inl (ContractError (name @ '' must be a non-empty trimmed string without NUL''))"

definition c_identifier :: "json \<Rightarrow> string \<Rightarrow> string res" where
  "c_identifier v name = rbind (c_string v name) (\<lambda>item.
     if \<not> ident_re item then Inl (ContractError (name @ '' contains unsupported characters''))
     else Inr item)"

definition c_sha :: "json \<Rightarrow> string \<Rightarrow> string res" where
  "c_sha v name = rbind (c_string v name) (\<lambda>s.
     let item = py_lower s
     in if \<not> is_sha256 item then Inl (ContractError (name @ '' must be a lowercase SHA-256 digest''))
        else Inr item)"

fun c_int :: "json \<Rightarrow> string \<Rightarrow> int \<Rightarrow> int res" where
  "c_int (JInt i) name minimum =
     (if i < minimum then Inl (ContractError (name @ '' must be an integer >= '' @ int_str minimum))
      else Inr i)"
| "c_int v name minimum = Inl (ContractError (name @ '' must be an integer >= '' @ int_str minimum))"

fun c_time :: "json \<Rightarrow> string \<Rightarrow> int res" where
  "c_time (JInt i) name =
     (if i < 0 then Inl (ContractError (name @ '' must be a non-negative Unix timestamp'')) else Inr i)"
| "c_time v name = Inl (ContractError (name @ '' must be a non-negative Unix timestamp''))"

fun c_bool :: "json \<Rightarrow> string \<Rightarrow> bool res" where
  "c_bool (JBool b) name = Inr b"
| "c_bool v name = Inl (ContractError (name @ '' must be boolean''))"

definition c_exact :: "(string \<times> json) list \<Rightarrow> string list \<Rightarrow> string \<Rightarrow> unit res" where
  "c_exact raw expected name =
     (let missing = sort (filter (\<lambda>k. k \<notin> set (dkeys raw)) expected);
          extra = sort (filter (\<lambda>k. k \<notin> set expected) (dkeys raw))
      in if missing \<noteq> [] then Inl (ContractError (name @ '' missing keys: '' @ join '', '' missing))
         else if extra \<noteq> [] then
           Inl (ContractError (name @ '' contains unsupported keys: '' @ join '', '' extra))
         else Inr ())"

definition sorted_unique_strings :: "json \<Rightarrow> string \<Rightarrow> string list res" where
  "sorted_unique_strings v name =
     (case v of
        JList xs \<Rightarrow> rbind (rmap (\<lambda>x. c_identifier x (name @ ''[]'')) xs) (\<lambda>ids.
          let result = sort ids
          in if \<not> distinct result then Inl (ContractError (name @ '' contains duplicates''))
             else Inr result)
      | _ \<Rightarrow> Inl (ContractError (name @ '' must be an array'')))"

definition c_optional :: "(json \<Rightarrow> string \<Rightarrow> string res) \<Rightarrow> json \<Rightarrow> string \<Rightarrow> string option res" where
  "c_optional f v name = (case v of JNull \<Rightarrow> Inr None | _ \<Rightarrow> rbind (f v name) (\<lambda>s. Inr (Some s)))"

subsection \<open>Scopes\<close>

definition allowed_by_type :: "(string \<times> string list) list" where
  "allowed_by_type =
     [(''repository.read'', [''repository'', ''refs'', ''paths'']),
      (''repository.write'', [''repository'', ''refs'', ''paths'']),
      (''process.execute'', [''executables'', ''working_directory'', ''argument_profile'']),
      (''package.install'', [''registries'', ''packages'']),
      (''network.open'', [''protocols'']),
      (''network.connect_domain'', [''domains'', ''protocols'', ''ports'']),
      (''credential.access'', [''credential_ids'', ''purpose'']),
      (''filesystem.write_outside_workspace'', [''paths'']),
      (''process.spawn_child'', [''executables'', ''max_children'']),
      (''runtime.configure'', [''setting_keys''])]"

text \<open>\<open>sorted(item)\<close> on the raw port list runs before the types are checked. Numbers (booleans
  included) sort by value and strings by text; a list that mixes them raises \<open>TypeError\<close>, as does
  one of two or more values without an order.\<close>

fun num_of :: "json \<Rightarrow> int option" where
  "num_of (JInt i) = Some i"
| "num_of (JBool b) = Some (if b then 1 else 0)"
| "num_of _ = None"

fun is_jstr :: "json \<Rightarrow> bool" where
  "is_jstr (JStr s) = True"
| "is_jstr _ = False"

definition py_sorted :: "json list \<Rightarrow> json list res" where
  "py_sorted xs =
     (if list_all (\<lambda>v. num_of v \<noteq> None) xs then Inr (sort_key (\<lambda>v. the (num_of v)) xs)
      else if list_all is_jstr xs then Inr (sort_key jstr xs)
      else if length xs = 1 then Inr xs
      else Inl (Exn ''TypeError'' ''unorderable values''))"

fun valid_port :: "json \<Rightarrow> bool" where
  "valid_port (JInt p) = (1 \<le> p \<and> p \<le> 65535)"
| "valid_port _ = False"

definition scope_item :: "string \<Rightarrow> json \<Rightarrow> json res" where
  "scope_item key item =
     (if key = ''repository'' then
        rbind (c_string item ''scope.repository'') (\<lambda>repo.
          if \<not> repo_re repo then Inl (ContractError ''scope.repository must use owner/name form'')
          else Inr (JStr repo))
      else if key = ''domains'' then
        (case item of
           JList (x # xs) \<Rightarrow>
             rbind (rmap (\<lambda>d. rbind (c_string d ''scope.domains[]'') (\<lambda>s. Inr (py_lower s))) (x # xs))
               (\<lambda>ds. let domains = sort ds
                     in if \<not> distinct domains \<or> \<not> list_all domain_re domains
                        then Inl (ContractError ''scope.domains must contain unique DNS names'')
                        else Inr (JList (map JStr domains)))
         | _ \<Rightarrow> Inl (ContractError ''scope.domains must be a non-empty array''))
      else if key = ''ports'' then
        (case item of
           JList (x # xs) \<Rightarrow>
             rbind (py_sorted (x # xs)) (\<lambda>ports.
               if \<not> list_all valid_port ports
               then Inl (ContractError ''scope.ports must contain valid TCP/UDP ports'')
               else if \<not> distinct ports then Inl (ContractError ''scope.ports contains duplicates'')
               else Inr (JList ports))
         | _ \<Rightarrow> Inl (ContractError ''scope.ports must be a non-empty array''))
      else if key = ''max_children'' then
        rbind (c_int item ''scope.max_children'' 1) (\<lambda>n. Inr (JInt n))
      else
        (case item of
           JList xs \<Rightarrow>
             if xs = [] then Inl (ContractError (''scope.'' @ key @ '' must not be empty''))
             else rbind (rmap (\<lambda>v. c_string v (''scope.'' @ key @ ''[]'')) xs) (\<lambda>values.
               if \<not> distinct values then Inl (ContractError (''scope.'' @ key @ '' contains duplicates''))
               else Inr (JList (map JStr (sort values))))
         | _ \<Rightarrow> rbind (c_string item (''scope.'' @ key)) (\<lambda>s. Inr (JStr s))))"

definition validate_scope :: "string \<Rightarrow> json \<Rightarrow> (string \<times> json) list res" where
  "validate_scope capability_type v =
     rbind (c_mapping v ''scope'') (\<lambda>raw.
       case map_of allowed_by_type capability_type of
         None \<Rightarrow> Inl (Exn ''KeyError'' (CHR 0x27 # capability_type @ [CHR 0x27]))
       | Some allowed \<Rightarrow>
           (let unknown = sort (filter (\<lambda>k. k \<notin> set allowed) (dkeys raw))
            in if unknown \<noteq> []
               then Inl (ContractError (''scope contains unsupported keys: '' @ join '', '' unknown))
               else if raw = [] then Inl (ContractError ''scope must not be empty'')
               else rbind (rmap (\<lambda>(k, i). rbind (scope_item k i) (\<lambda>w. Inr (k, w))) raw)
                      (\<lambda>result. Inr (sort_key fst result))))"

subsection \<open>Capability contracts\<close>

record capability_contract =
  cc_capability_id :: string
  cc_capability_type :: string
  cc_subject_id :: string
  cc_issuer_id :: string
  cc_scope :: "(string \<times> json) list"
  cc_issued_at_unix :: int
  cc_not_before_unix :: int
  cc_expires_at_unix :: int
  cc_max_uses :: int
  cc_delegable :: bool
  cc_parent_capability_id :: "string option"
  cc_policy_sha256 :: string
  cc_contract_sha256 :: string

definition cc_body :: "capability_contract \<Rightarrow> (string \<times> json) list" where
  "cc_body c =
     [(''schema'', JStr CAPABILITY_SCHEMA),
      (''capability_id'', JStr (cc_capability_id c)),
      (''capability_type'', JStr (cc_capability_type c)),
      (''subject_id'', JStr (cc_subject_id c)),
      (''issuer_id'', JStr (cc_issuer_id c)),
      (''scope'', JObj (cc_scope c)),
      (''issued_at_unix'', JInt (cc_issued_at_unix c)),
      (''not_before_unix'', JInt (cc_not_before_unix c)),
      (''expires_at_unix'', JInt (cc_expires_at_unix c)),
      (''max_uses'', JInt (cc_max_uses c)),
      (''delegable'', JBool (cc_delegable c)),
      (''parent_capability_id'', jopt (cc_parent_capability_id c)),
      (''policy_sha256'', JStr (cc_policy_sha256 c)),
      (''authority'', AUTHORITY)]"

definition cc_as_document :: "capability_contract \<Rightarrow> json" where
  "cc_as_document c = JObj (cc_body c @ [(''contract_sha256'', JStr (cc_contract_sha256 c))])"

definition cc_from_document :: "json \<Rightarrow> capability_contract res" where
  "cc_from_document v =
     rbind (c_mapping v ''capability'') (\<lambda>raw.
     rbind (c_exact raw
       [''schema'', ''capability_id'', ''capability_type'', ''subject_id'', ''issuer_id'', ''scope'',
        ''issued_at_unix'', ''not_before_unix'', ''expires_at_unix'', ''max_uses'', ''delegable'',
        ''parent_capability_id'', ''policy_sha256'', ''authority'', ''contract_sha256''] ''capability'') (\<lambda>_.
     if \<not> py_eq (dget raw ''schema'') (JStr CAPABILITY_SCHEMA) \<or> \<not> py_eq (dget raw ''authority'') AUTHORITY
     then Inl (ContractError ''capability schema or authority boundary mismatch'')
     else rbind (c_string (dget raw ''capability_type'') ''capability_type'') (\<lambda>capability_type.
     if capability_type \<notin> set CAPABILITY_TYPES then Inl (ContractError ''unsupported capability_type'')
     else rbind (c_time (dget raw ''issued_at_unix'') ''issued_at_unix'') (\<lambda>issued.
     rbind (c_time (dget raw ''not_before_unix'') ''not_before_unix'') (\<lambda>not_before.
     rbind (c_time (dget raw ''expires_at_unix'') ''expires_at_unix'') (\<lambda>expires.
     if \<not> (issued \<le> not_before \<and> not_before < expires)
     then Inl (ContractError ''capability validity window is invalid'')
     else rbind (c_int (dget raw ''max_uses'') ''max_uses'' 1) (\<lambda>max_uses.
     if max_uses > 1000 then Inl (ContractError ''max_uses exceeds Phase 0 bounded contract limit'')
     else rbind (c_bool (dget raw ''delegable'') ''delegable'') (\<lambda>delegable.
     rbind (c_optional c_identifier (dget raw ''parent_capability_id'') ''parent_capability_id'') (\<lambda>parent.
     if delegable \<and> parent = None
     then Inl (ContractError ''delegable capabilities require explicit parent_capability_id'')
     else rbind (c_identifier (dget raw ''capability_id'') ''capability_id'') (\<lambda>capability_id.
     rbind (c_identifier (dget raw ''subject_id'') ''subject_id'') (\<lambda>subject_id.
     rbind (c_identifier (dget raw ''issuer_id'') ''issuer_id'') (\<lambda>issuer_id.
     rbind (validate_scope capability_type (dget raw ''scope'')) (\<lambda>scope.
     rbind (c_sha (dget raw ''policy_sha256'') ''policy_sha256'') (\<lambda>policy.
     rbind (c_sha (dget raw ''contract_sha256'') ''contract_sha256'') (\<lambda>digest.
     let item = \<lparr>cc_capability_id = capability_id, cc_capability_type = capability_type,
           cc_subject_id = subject_id, cc_issuer_id = issuer_id, cc_scope = scope,
           cc_issued_at_unix = issued, cc_not_before_unix = not_before, cc_expires_at_unix = expires,
           cc_max_uses = max_uses, cc_delegable = delegable, cc_parent_capability_id = parent,
           cc_policy_sha256 = policy, cc_contract_sha256 = digest\<rparr>
     in if canonical_sha256 (JObj (cc_body item)) \<noteq> cc_contract_sha256 item
        then Inl (ContractError ''capability contract_sha256 mismatch'')
        else Inr item)))))))))))))))"

definition dmerge :: "(string \<times> json) list \<Rightarrow> (string \<times> json) list \<Rightarrow> (string \<times> json) list" where
  "dmerge d e = fold (\<lambda>(k, v). AList.update k v) e d"

definition cc_build :: "(string \<times> json) list \<Rightarrow> capability_contract res" where
  "cc_build kwargs =
     (let provisional = AList.update ''authority'' AUTHORITY
            (dmerge [(''schema'', JStr CAPABILITY_SCHEMA)] kwargs)
      in cc_from_document (JObj (AList.update ''contract_sha256''
           (JStr (canonical_sha256 (JObj provisional))) provisional)))"

subsection \<open>Causal runtime events\<close>

record causal_event =
  ce_event_id :: string
  ce_event_type :: string
  ce_subject_id :: string
  ce_capability_id :: "string option"
  ce_recorder_event_id :: "string option"
  ce_recorder_entry_sha256 :: "string option"
  ce_effect :: string
  ce_decision :: string
  ce_observed_at_unix :: int
  ce_previous_causal_event_sha256 :: string
  ce_input_sha256 :: string
  ce_output_sha256 :: "string option"
  ce_reason_codes :: "string list"
  ce_event_sha256 :: string

definition ce_body :: "causal_event \<Rightarrow> (string \<times> json) list" where
  "ce_body e =
     [(''schema'', JStr CAUSAL_EVENT_SCHEMA),
      (''event_id'', JStr (ce_event_id e)),
      (''event_type'', JStr (ce_event_type e)),
      (''subject_id'', JStr (ce_subject_id e)),
      (''capability_id'', jopt (ce_capability_id e)),
      (''recorder_event_id'', jopt (ce_recorder_event_id e)),
      (''recorder_entry_sha256'', jopt (ce_recorder_entry_sha256 e)),
      (''effect'', JStr (ce_effect e)),
      (''decision'', JStr (ce_decision e)),
      (''observed_at_unix'', JInt (ce_observed_at_unix e)),
      (''previous_causal_event_sha256'', JStr (ce_previous_causal_event_sha256 e)),
      (''input_sha256'', JStr (ce_input_sha256 e)),
      (''output_sha256'', jopt (ce_output_sha256 e)),
      (''reason_codes'', JList (map JStr (ce_reason_codes e))),
      (''authority'', AUTHORITY)]"

definition ce_as_document :: "causal_event \<Rightarrow> json" where
  "ce_as_document e = JObj (ce_body e @ [(''event_sha256'', JStr (ce_event_sha256 e))])"

definition ce_from_document :: "json \<Rightarrow> causal_event res" where
  "ce_from_document v =
     rbind (c_mapping v ''causal_event'') (\<lambda>raw.
     rbind (c_exact raw
       [''schema'', ''event_id'', ''event_type'', ''subject_id'', ''capability_id'',
        ''recorder_event_id'', ''recorder_entry_sha256'', ''effect'', ''decision'',
        ''observed_at_unix'', ''previous_causal_event_sha256'', ''input_sha256'',
        ''output_sha256'', ''reason_codes'', ''authority'', ''event_sha256''] ''causal_event'') (\<lambda>_.
     if \<not> py_eq (dget raw ''schema'') (JStr CAUSAL_EVENT_SCHEMA) \<or> \<not> py_eq (dget raw ''authority'') AUTHORITY
     then Inl (ContractError ''causal-event schema or authority boundary mismatch'')
     else rbind (c_string (dget raw ''event_type'') ''event_type'') (\<lambda>event_type.
     if event_type \<notin> set (CAPABILITY_EVENTS @ [''runtime_action'', ''objective_violation'', ''containment_transition''])
     then Inl (ContractError ''unsupported causal event_type'')
     else rbind (c_string (dget raw ''effect'') ''effect'') (\<lambda>effect.
     if effect \<notin> set EFFECTS then Inl (ContractError ''unsupported effect'')
     else rbind (c_string (dget raw ''decision'') ''decision'') (\<lambda>decision.
     if decision \<notin> set DECISIONS then Inl (ContractError ''unsupported decision'')
     else rbind (c_optional c_identifier (dget raw ''capability_id'') ''capability_id'') (\<lambda>capability_id.
     if event_type \<in> set [''grant'', ''use'', ''deny'', ''revoke'', ''expire''] \<and> capability_id = None
     then Inl (ContractError ''capability lifecycle event requires capability_id'')
     else rbind (c_optional c_identifier (dget raw ''recorder_event_id'') ''recorder_event_id'') (\<lambda>recorder_id.
     rbind (c_optional c_sha (dget raw ''recorder_entry_sha256'') ''recorder_entry_sha256'') (\<lambda>recorder_hash.
     if (recorder_id = None) \<noteq> (recorder_hash = None)
     then Inl (ContractError ''recorder_event_id and recorder_entry_sha256 must appear together'')
     else rbind (sorted_unique_strings (dget raw ''reason_codes'') ''reason_codes'') (\<lambda>reasons.
     if reasons = [] then Inl (ContractError ''reason_codes must not be empty'')
     else rbind (c_optional c_sha (dget raw ''output_sha256'') ''output_sha256'') (\<lambda>output_hash.
     rbind (c_identifier (dget raw ''event_id'') ''event_id'') (\<lambda>event_id.
     rbind (c_identifier (dget raw ''subject_id'') ''subject_id'') (\<lambda>subject_id.
     rbind (c_time (dget raw ''observed_at_unix'') ''observed_at_unix'') (\<lambda>observed.
     rbind (c_sha (dget raw ''previous_causal_event_sha256'') ''previous_causal_event_sha256'') (\<lambda>previous.
     rbind (c_sha (dget raw ''input_sha256'') ''input_sha256'') (\<lambda>input_sha.
     rbind (c_sha (dget raw ''event_sha256'') ''event_sha256'') (\<lambda>digest.
     let item = \<lparr>ce_event_id = event_id, ce_event_type = event_type, ce_subject_id = subject_id,
           ce_capability_id = capability_id, ce_recorder_event_id = recorder_id,
           ce_recorder_entry_sha256 = recorder_hash, ce_effect = effect, ce_decision = decision,
           ce_observed_at_unix = observed, ce_previous_causal_event_sha256 = previous,
           ce_input_sha256 = input_sha, ce_output_sha256 = output_hash, ce_reason_codes = reasons,
           ce_event_sha256 = digest\<rparr>
     in if canonical_sha256 (JObj (ce_body item)) \<noteq> ce_event_sha256 item
        then Inl (ContractError ''causal event_sha256 mismatch'')
        else Inr item))))))))))))))))"

definition ce_build :: "(string \<times> json) list \<Rightarrow> causal_event res" where
  "ce_build kwargs =
     (let body = AList.update ''authority'' AUTHORITY
            (dmerge [(''schema'', JStr CAUSAL_EVENT_SCHEMA)] kwargs)
      in ce_from_document (JObj (AList.update ''event_sha256'' (JStr (canonical_sha256 (JObj body))) body)))"

subsection \<open>Evidence requirements\<close>

record evidence_requirement =
  er_action_class :: string
  er_required_roots :: "string list"
  er_require_capability :: bool
  er_require_recorder_link :: bool
  er_require_result_digest :: bool
  er_fail_closed_on_missing :: bool
  er_requirement_sha256 :: string

definition er_body :: "evidence_requirement \<Rightarrow> (string \<times> json) list" where
  "er_body r =
     [(''schema'', JStr EVIDENCE_SCHEMA),
      (''action_class'', JStr (er_action_class r)),
      (''required_roots'', JList (map JStr (er_required_roots r))),
      (''require_capability'', JBool (er_require_capability r)),
      (''require_recorder_link'', JBool (er_require_recorder_link r)),
      (''require_result_digest'', JBool (er_require_result_digest r)),
      (''fail_closed_on_missing'', JBool (er_fail_closed_on_missing r)),
      (''authority'', AUTHORITY)]"

definition er_as_document :: "evidence_requirement \<Rightarrow> json" where
  "er_as_document r = JObj (er_body r @ [(''requirement_sha256'', JStr (er_requirement_sha256 r))])"

definition er_from_document :: "json \<Rightarrow> evidence_requirement res" where
  "er_from_document v =
     rbind (c_mapping v ''evidence_requirement'') (\<lambda>raw.
     rbind (c_exact raw
       [''schema'', ''action_class'', ''required_roots'', ''require_capability'', ''require_recorder_link'',
        ''require_result_digest'', ''fail_closed_on_missing'', ''authority'', ''requirement_sha256'']
       ''evidence_requirement'') (\<lambda>_.
     if \<not> py_eq (dget raw ''schema'') (JStr EVIDENCE_SCHEMA) \<or> \<not> py_eq (dget raw ''authority'') AUTHORITY
     then Inl (ContractError ''evidence schema or authority boundary mismatch'')
     else rbind (sorted_unique_strings (dget raw ''required_roots'') ''required_roots'') (\<lambda>roots.
     if roots = [] then Inl (ContractError ''required_roots must not be empty'')
     else rbind (c_identifier (dget raw ''action_class'') ''action_class'') (\<lambda>action_class.
     rbind (c_bool (dget raw ''require_capability'') ''require_capability'') (\<lambda>capability.
     rbind (c_bool (dget raw ''require_recorder_link'') ''require_recorder_link'') (\<lambda>link.
     rbind (c_bool (dget raw ''require_result_digest'') ''require_result_digest'') (\<lambda>result.
     rbind (c_bool (dget raw ''fail_closed_on_missing'') ''fail_closed_on_missing'') (\<lambda>fail_closed.
     rbind (c_sha (dget raw ''requirement_sha256'') ''requirement_sha256'') (\<lambda>digest.
     let item = \<lparr>er_action_class = action_class, er_required_roots = roots,
           er_require_capability = capability, er_require_recorder_link = link,
           er_require_result_digest = result, er_fail_closed_on_missing = fail_closed,
           er_requirement_sha256 = digest\<rparr>
     in if \<not> er_fail_closed_on_missing item
        then Inl (ContractError ''Phase 0 sensitive runtime evidence must fail closed'')
        else if canonical_sha256 (JObj (er_body item)) \<noteq> er_requirement_sha256 item
        then Inl (ContractError ''evidence requirement_sha256 mismatch'')
        else Inr item)))))))))"

definition er_build ::
    "string \<Rightarrow> string list \<Rightarrow> bool \<Rightarrow> bool \<Rightarrow> bool \<Rightarrow> bool \<Rightarrow> evidence_requirement res" where
  "er_build action_class required_roots capability link result fail_closed =
     rbind (c_identifier (JStr action_class) ''action_class'') (\<lambda>ac.
       let body =
         [(''schema'', JStr EVIDENCE_SCHEMA),
          (''action_class'', JStr ac),
          (''required_roots'', JList (map JStr (sort required_roots))),
          (''require_capability'', JBool capability),
          (''require_recorder_link'', JBool link),
          (''require_result_digest'', JBool result),
          (''fail_closed_on_missing'', JBool fail_closed),
          (''authority'', AUTHORITY)]
       in er_from_document (JObj (body @ [(''requirement_sha256'', JStr (canonical_sha256 (JObj body)))])))"

definition default_evidence_requirements :: "evidence_requirement list res" where
  "default_evidence_requirements =
     rmap (\<lambda>capability_type.
       er_build (map (\<lambda>c. if c = CHR ''.'' then CHR '':'' else c) capability_type)
         ([''policy_sha256'', ''capability_sha256'', ''input_sha256'', ''recorder_entry_sha256''] @
          (if capability_type \<noteq> ''network.open'' then [''result_sha256''] else [''network_receipt_sha256'']))
         True True True True)
       (sort CAPABILITY_TYPES)"

subsection \<open>Containment transitions and objective integrity\<close>

definition validate_containment_transition :: "json \<Rightarrow> json res" where
  "validate_containment_transition v =
     rbind (c_mapping v ''containment_transition'') (\<lambda>raw.
     rbind (c_exact raw
       [''schema'', ''incident_id'', ''from_state'', ''to_state'', ''reason_codes'', ''evidence_sha256'',
        ''at_unix'', ''human_release_id'', ''authority''] ''containment_transition'') (\<lambda>_.
     if \<not> py_eq (dget raw ''schema'') (JStr CONTAINMENT_SCHEMA) \<or> \<not> py_eq (dget raw ''authority'') AUTHORITY
     then Inl (ContractError ''containment schema or authority boundary mismatch'')
     else rbind (c_string (dget raw ''from_state'') ''from_state'') (\<lambda>before.
     rbind (c_string (dget raw ''to_state'') ''to_state'') (\<lambda>after.
     if before \<notin> set CONTAINMENT_STATES \<or> after \<notin> set CONTAINMENT_STATES \<or>
        (before, after) \<notin> set CONTAINMENT_TRANSITIONS
     then Inl (ContractError ''illegal containment transition'')
     else rbind (sorted_unique_strings (dget raw ''reason_codes'') ''reason_codes'') (\<lambda>reasons.
     if reasons = [] then Inl (ContractError ''containment reason_codes must not be empty'')
     else rbind
       (if after = ''RELEASED'' then
          (if dget raw ''human_release_id'' = JNull
           then Inl (ContractError ''RELEASED requires explicit human_release_id'')
           else rbind (c_identifier (dget raw ''human_release_id'') ''human_release_id'') (\<lambda>i. Inr (JStr i)))
        else if dget raw ''human_release_id'' \<noteq> JNull
          then Inl (ContractError ''human_release_id is allowed only for RELEASED'')
        else Inr JNull) (\<lambda>release_id.
     rbind (c_identifier (dget raw ''incident_id'') ''incident_id'') (\<lambda>incident_id.
     rbind (c_sha (dget raw ''evidence_sha256'') ''evidence_sha256'') (\<lambda>evidence.
     rbind (c_time (dget raw ''at_unix'') ''at_unix'') (\<lambda>at_unix.
     Inr (JObj
       [(''schema'', JStr CONTAINMENT_SCHEMA),
        (''incident_id'', JStr incident_id),
        (''from_state'', JStr before),
        (''to_state'', JStr after),
        (''reason_codes'', JList (map JStr reasons)),
        (''evidence_sha256'', JStr evidence),
        (''at_unix'', JInt at_unix),
        (''human_release_id'', release_id),
        (''authority'', AUTHORITY)]))))))))))"

definition validate_objective_integrity :: "json \<Rightarrow> json res" where
  "validate_objective_integrity v =
     rbind (c_mapping v ''objective_integrity'') (\<lambda>raw.
     rbind (c_exact raw
       [''schema'', ''objective_id'', ''method_policy_sha256'', ''observed_violation_codes'', ''decision'',
        ''evidence_sha256'', ''authority''] ''objective_integrity'') (\<lambda>_.
     if \<not> py_eq (dget raw ''schema'') (JStr OBJECTIVE_INTEGRITY_SCHEMA) \<or>
        \<not> py_eq (dget raw ''authority'') AUTHORITY
     then Inl (ContractError ''objective-integrity schema or authority boundary mismatch'')
     else rbind (sorted_unique_strings (dget raw ''observed_violation_codes'') ''observed_violation_codes'') (\<lambda>violations.
     let unknown = sort (filter (\<lambda>c. c \<notin> set OBJECTIVE_VIOLATIONS) violations)
     in if unknown \<noteq> []
        then Inl (ContractError (''unknown objective-integrity violation: '' @ join '', '' unknown))
        else rbind (c_string (dget raw ''decision'') ''decision'') (\<lambda>decision.
     if decision \<notin> set DECISIONS then Inl (ContractError ''unsupported objective-integrity decision'')
     else if violations \<noteq> [] \<and> decision = ''ALLOW''
     then Inl (ContractError ''observed objective-integrity violations cannot yield ALLOW'')
     else rbind (c_identifier (dget raw ''objective_id'') ''objective_id'') (\<lambda>objective_id.
     rbind (c_sha (dget raw ''method_policy_sha256'') ''method_policy_sha256'') (\<lambda>policy.
     rbind (c_sha (dget raw ''evidence_sha256'') ''evidence_sha256'') (\<lambda>evidence.
     Inr (JObj
       [(''schema'', JStr OBJECTIVE_INTEGRITY_SCHEMA),
        (''objective_id'', JStr objective_id),
        (''method_policy_sha256'', JStr policy),
        (''observed_violation_codes'', JList (map JStr violations)),
        (''decision'', JStr decision),
        (''evidence_sha256'', JStr evidence),
        (''authority'', AUTHORITY)]))))))))"

end
