(* ===== verification/Contract_Facts.thy ===== *)
theory Contract_Facts
  imports Contracts
begin

section \<open>Facts about validators, scopes and contracts\<close>

text \<open>
  Inversion and success rules of the field validators (collection \<open>field_simps_c\<close>), idempotence
  of \<open>validate_scope\<close>, and for each dataclass the well-formedness that \<open>from_document\<close>
  establishes and under which it inverts \<open>as_document\<close>.
\<close>

named_theorems field_ok \<open>validators accept well-formed fields\<close>

subsection \<open>Trimmed text\<close>

definition graphic :: "char \<Rightarrow> bool" where
  "graphic c \<longleftrightarrow> CHR 0x21 \<le> c \<and> c \<le> CHR 0x7E"

lemma ws_prefix_graphic:
  assumes "list_all (\<lambda>w. w \<noteq> [] \<and> \<not> graphic (hd w)) seqs" "graphic c"
  shows "ws_prefix seqs (c # cs) = 0"
proof -
  have "find (\<lambda>w. take (length w) (c # cs) = w) seqs = None"
    using assms by (auto simp: find_None_iff list_all_iff take_Cons' split: if_splits) (metis list.sel(1))+
  then show ?thesis by (simp add: ws_prefix_def)
qed

lemma ws_seqs_not_graphic:
  "list_all (\<lambda>w. w \<noteq> [] \<and> \<not> graphic (hd w)) ws_seqs"
  "list_all (\<lambda>w. w \<noteq> [] \<and> \<not> graphic (hd w)) (map rev ws_seqs)"
  by (simp_all add: ws_seqs_def graphic_def)

lemma strip_with_graphic:
  assumes "list_all (\<lambda>w. w \<noteq> [] \<and> \<not> graphic (hd w)) seqs" "s \<noteq> []" "graphic (hd s)"
  shows "strip_with seqs s = s"
  using assms by (cases s) (auto simp: ws_prefix_graphic)

lemma py_strip_graphic: "s \<noteq> [] \<Longrightarrow> graphic (hd s) \<Longrightarrow> graphic (last s) \<Longrightarrow> py_strip s = s"
  by (simp add: py_strip_def strip_with_graphic ws_seqs_not_graphic hd_rev)

lemma trimmed_graphic: "s \<noteq> [] \<Longrightarrow> list_all graphic s \<Longrightarrow> trimmed s"
  by (cases s rule: rev_cases)
    (auto simp: trimmed_def list_all_iff py_strip_graphic hd_append graphic_def)

lemma char_trans: "\<lbrakk>(a :: char) \<le> b; b \<le> c\<rbrakk> \<Longrightarrow> a \<le> c"
  by (rule order.trans)

lemma is_alnum_graphic: "is_alnum c \<Longrightarrow> graphic c"
  unfolding is_alnum_def is_alpha_def graphic_def
  by (elim disjE conjE; intro conjI; (erule char_trans [rotated] | erule char_trans); simp)

lemma ident_char_graphic: "c \<in> set ''_.:@/-'' \<Longrightarrow> graphic c"
  by (auto simp: graphic_def)

lemma ident_graphic: "ident_re s \<Longrightarrow> s \<noteq> [] \<and> list_all graphic s"
  using ident_char_graphic is_alnum_graphic unfolding list_all_iff
  by (cases s) (auto simp del: set_simps simp: list_all_iff list.set(2))

lemma ident_trimmed: "ident_re s \<Longrightarrow> trimmed s"
  by (simp add: ident_graphic trimmed_graphic)

lemma hex_char:
  "c \<in> set ''0123456789abcdef'' \<Longrightarrow> graphic c \<and> ascii_lower c = c \<and> c \<noteq> CHR 0xE2"
  by (auto simp: graphic_def ascii_lower_def)

lemma py_lower_fix:
  "(\<And>c. c \<in> set s \<Longrightarrow> ascii_lower c = c \<and> c \<noteq> CHR 0xE2) \<Longrightarrow> py_lower s = s"
  by (induction s rule: py_lower.induct) auto

lemma is_sha256_chars: "is_sha256 s \<Longrightarrow> c \<in> set s \<Longrightarrow> c \<in> set ''0123456789abcdef''"
  unfolding is_sha256_def list_all_iff by blast

lemma is_sha256_lower [sha_simps]: "is_sha256 s \<Longrightarrow> py_lower s = s"
  by (rule py_lower_fix) (use is_sha256_chars hex_char in blast)

lemma is_sha256_trimmed [sha_simps]: "is_sha256 s \<Longrightarrow> trimmed s"
proof (rule trimmed_graphic)
  assume sha: "is_sha256 s"
  then show "s \<noteq> []" by (auto simp: is_sha256_def)
  show "list_all graphic s"
    unfolding list_all_iff using is_sha256_chars [OF sha] hex_char by blast
qed

lemma ascii_lower_idem: "ascii_lower (ascii_lower c) = ascii_lower c"
  by (auto simp: ascii_lower_def less_eq_char_def)

lemma py_lower_chars: "c \<in> set (py_lower s) \<Longrightarrow> ascii_lower c = c"
proof (induction s rule: py_lower.induct)
  case (2 d cs)
  have "ascii_lower (CHR ''k'') = CHR ''k''" by (simp add: ascii_lower_def)
  with 2 show ?case by (auto simp: ascii_lower_idem split: if_splits)
qed simp

lemma py_lower_idem:
  assumes "list_all graphic (py_lower s)"
  shows "py_lower (py_lower s) = py_lower s"
  by (rule py_lower_fix) (use assms in \<open>auto simp: py_lower_chars list_all_iff graphic_def\<close>)

subsection \<open>Validators\<close>

lemma c_string_Inr: "c_string v n = Inr s \<longleftrightarrow> v = JStr s \<and> trimmed s"
  by (cases v) auto

lemma c_identifier_Inr: "c_identifier v n = Inr s \<longleftrightarrow> v = JStr s \<and> ident_re s"
  by (auto simp: c_identifier_def rbind_eq_Inr c_string_Inr ident_trimmed)

lemma c_sha_Inr: "c_sha v n = Inr s \<Longrightarrow> is_sha256 s"
  by (auto simp: c_sha_def rbind_eq_Inr Let_def split: if_splits)

lemma c_time_Inr: "c_time v n = Inr i \<longleftrightarrow> v = JInt i \<and> 0 \<le> i"
  by (cases v) auto

lemma c_int_Inr: "c_int v n m = Inr i \<longleftrightarrow> v = JInt i \<and> m \<le> i"
  by (cases v) auto

lemma c_bool_Inr: "c_bool v n = Inr b \<longleftrightarrow> v = JBool b"
  by (cases v) auto

lemma c_mapping_Inr: "c_mapping v n = Inr d \<longleftrightarrow> v = JObj d"
  by (cases v) auto

lemma filter_empty_subset: "filter (\<lambda>k. k \<notin> set xs) ys = [] \<longleftrightarrow> set ys \<subseteq> set xs"
  by (auto simp: filter_empty_conv)

lemma sort_empty_iff [simp]: "sort xs = [] \<longleftrightarrow> xs = []"
  by (metis length_0_conv length_sort)

lemma sort_sort [simp]: "sort (sort xs) = sort xs"
  by (rule sorted_sort_id) simp

lemma c_exact_Inr: "c_exact raw ks n = Inr u \<longleftrightarrow> same_keys raw ks"
  by (auto simp: c_exact_def Let_def same_keys_def filter_empty_conv)

lemma c_optional_Inr:
  "c_optional f v n = Inr x \<longleftrightarrow> (v = JNull \<and> x = None) \<or> (v \<noteq> JNull \<and> (\<exists>s. f v n = Inr s \<and> x = Some s))"
  by (cases v) (auto simp: c_optional_def rbind_eq_Inr)

lemma field_ok_rules [field_ok]:
  "trimmed s \<Longrightarrow> c_string (JStr s) n = Inr s"
  "ident_re s \<Longrightarrow> c_identifier (JStr s) n = Inr s"
  "is_sha256 s \<Longrightarrow> c_sha (JStr s) n = Inr s"
  "0 \<le> i \<Longrightarrow> c_time (JInt i) n = Inr i"
  "m \<le> i \<Longrightarrow> c_int (JInt i) n m = Inr i"
  "c_bool (JBool b) n = Inr b"
  by (auto simp: c_identifier_Inr c_sha_def is_sha256_trimmed is_sha256_lower)

lemma c_optional_ok [field_ok]:
  "c_optional f JNull n = Inr None"
  "f (JStr s) n = Inr t \<Longrightarrow> c_optional f (JStr s) n = Inr (Some t)"
  "(\<And>s. x = Some s \<Longrightarrow> f (JStr s) n = Inr s) \<Longrightarrow> c_optional f (jopt x) n = Inr x"
  by (auto simp: c_optional_def jopt_def split: option.splits)

declare c_string.simps [simp del] c_time.simps [simp del] c_int.simps [simp del] c_bool.simps [simp del]

lemma c_optional_ident_Inr:
  "c_optional c_identifier v n = Inr x \<Longrightarrow> (case x of None \<Rightarrow> True | Some p \<Rightarrow> ident_re p)"
  by (auto simp: c_optional_Inr c_identifier_Inr)

lemma c_optional_sha_Inr:
  "c_optional c_sha v n = Inr x \<Longrightarrow> (case x of None \<Rightarrow> True | Some p \<Rightarrow> is_sha256 p)"
  by (auto simp: c_optional_Inr c_sha_Inr)

lemma sorted_unique_Inr:
  "sorted_unique_strings v n = Inr r \<Longrightarrow> sorted r \<and> distinct r \<and> list_all ident_re r"
  by (cases v) (auto simp: sorted_unique_strings_def rbind_eq_Inr Let_def list_all_iff c_identifier_Inr
      split: if_splits dest: rmap_set)

lemma rmap_JStr: "(\<And>s. s \<in> set r \<Longrightarrow> f (JStr s) = Inr s) \<Longrightarrow> rmap f (map JStr r) = Inr r"
  by (induction r) auto

lemma sorted_unique_ok [field_ok]:
  "sorted r \<Longrightarrow> distinct r \<Longrightarrow> list_all ident_re r \<Longrightarrow>
   sorted_unique_strings (JList (map JStr r)) n = Inr r"
  by (simp add: sorted_unique_strings_def rmap_JStr c_identifier_Inr list_all_iff sort_key_id_if_sorted
      sorted_sort_id)

subsection \<open>Scopes are normal forms\<close>

lemma split_on_nonempty: "split_on d s \<noteq> []"
  by (induction s) (auto split: list.splits)

lemma split_on_chars: "c \<in> set s \<Longrightarrow> c = d \<or> (\<exists>p \<in> set (split_on d s). c \<in> set p)"
proof (induction s)
  case (Cons a s)
  obtain w ws where "split_on d s = w # ws" by (cases "split_on d s") (auto simp: split_on_nonempty)
  with Cons show ?case by auto
qed simp

lemma split_on_single: "length (split_on d s) \<ge> 2 \<Longrightarrow> s \<noteq> []"
  by auto

lemma butlast_or_last: "p \<in> set ps \<Longrightarrow> p \<in> set (butlast ps) \<or> p = last ps"
  by (induction ps) auto

lemma domain_graphic:
  assumes "domain_re s"
  shows "s \<noteq> []" "list_all graphic s"
proof -
  let ?ps = "split_on (CHR ''.'') s"
  from assms have len: "2 \<le> length ?ps" and labels: "list_all dns_label (butlast ?ps)"
    and tld: "list_all is_alpha (last ?ps)"
    by (auto simp: domain_re_def Let_def)
  from len show "s \<noteq> []" by auto
  have "graphic c" if "p \<in> set ?ps" "c \<in> set p" for p c
  proof -
    have "is_alnum c \<or> c = CHR ''-''"
      using butlast_or_last [OF that(1)] that(2) labels tld
      by (auto simp: list_all_iff dns_label_def is_alnum_def)
    then show ?thesis using is_alnum_graphic ident_char_graphic by auto
  qed
  moreover have "graphic (CHR ''.'')" by (simp add: graphic_def)
  ultimately show "list_all graphic s"
    unfolding list_all_iff using split_on_chars [of _ s "CHR ''.''"] by blast
qed

lemma domain_trimmed: "domain_re s \<Longrightarrow> trimmed s"
  by (simp add: domain_graphic trimmed_graphic)

lemma valid_port_num: "valid_port v \<Longrightarrow> num_of v \<noteq> None"
  by (cases v) auto

lemma py_sorted_again:
  assumes "py_sorted xs = Inr ys" "list_all valid_port ys"
  shows "py_sorted ys = Inr ys"
proof (cases "list_all (\<lambda>v. num_of v \<noteq> None) xs")
  case True
  with assms have "ys = sort_key (\<lambda>v. the (num_of v)) xs" by (simp add: py_sorted_def)
  then have "sort_key (\<lambda>v. the (num_of v)) ys = ys" by (simp add: sort_key_id_if_sorted)
  with assms show ?thesis by (auto simp: py_sorted_def list_all_iff valid_port_num)
next
  case False
  have ys: "ys = xs \<or> ys = sort_key jstr xs"
    using assms False by (auto simp: py_sorted_def split: if_splits)
  with assms(2) have "list_all valid_port xs" by (auto simp: list_all_iff)
  with False show ?thesis by (auto simp: list_all_iff valid_port_num)
qed

lemma domains_again:
  assumes "rmap (\<lambda>d. rbind (c_string d n) (\<lambda>s. Inr (py_lower s))) xs = Inr ds"
    and "list_all domain_re ds"
  shows "rmap (\<lambda>d. rbind (c_string d n) (\<lambda>s. Inr (py_lower s))) (map JStr (sort ds)) = Inr (sort ds)"
proof (rule rmap_JStr)
  fix d assume d: "d \<in> set (sort ds)"
  then obtain s where "d = py_lower s"
    using rmap_set [OF assms(1), of d] by (auto simp: rbind_eq_Inr)
  moreover from d assms(2) have dom: "domain_re d" by (simp add: list_all_iff)
  ultimately have "py_lower d = d" using domain_graphic(2) [OF dom] py_lower_idem by simp
  with domain_trimmed [OF dom] show "rbind (c_string (JStr d) n) (\<lambda>s. Inr (py_lower s)) = Inr d"
    by (simp add: field_ok)
qed

lemma strings_again:
  assumes "rmap (\<lambda>v. c_string v n) xs = Inr vs"
  shows "rmap (\<lambda>v. c_string v n) (map JStr (sort vs)) = Inr (sort vs)"
  by (rule rmap_JStr) (use assms in \<open>auto simp: c_string_Inr dest: rmap_set\<close>)

lemma rmap_length: "rmap f xs = Inr ys \<Longrightarrow> length ys = length xs"
  by (auto simp: rmap_Inr_iff dest: list_all2_lengthD)

lemma rmap_nonempty: "rmap f xs = Inr ys \<Longrightarrow> xs \<noteq> [] \<Longrightarrow> ys \<noteq> []"
  by (auto dest: rmap_length)

text \<open>A non-empty validated array stays a non-empty array.\<close>

lemma list_case_nonempty:
  "xs \<noteq> [] \<Longrightarrow> (case JList xs of JList (y # ys) \<Rightarrow> f (y # ys) | _ \<Rightarrow> e) = f xs"
  by (cases xs) auto

lemma scope_domains_again:
  assumes "scope_item ''domains'' i = Inr w"
  shows "scope_item ''domains'' w = Inr w"
proof -
  from assms obtain x xs ds where
      ds: "rmap (\<lambda>d. rbind (c_string d ''scope.domains[]'') (\<lambda>s. Inr (py_lower s))) (x # xs) = Inr ds"
    and ok: "distinct ds" "list_all domain_re ds" and w: "w = JList (map JStr (sort ds))"
    by (auto simp: scope_item_def rbind_eq_Inr Let_def list_all_iff simp del: rmap.simps
        split: json.splits list.splits if_splits)
  from rmap_nonempty [OF ds] obtain y ys where ys: "map JStr (sort ds) = y # ys"
    by (cases "map JStr (sort ds)") auto
  show ?thesis
    using domains_again [OF ds ok(2)] ok w ys by (simp add: scope_item_def list_all_iff)
qed

lemma scope_ports_again:
  assumes "scope_item ''ports'' i = Inr w"
  shows "scope_item ''ports'' w = Inr w"
proof -
  from assms obtain x xs ps where ps: "py_sorted (x # xs) = Inr ps"
    and ok: "distinct ps" "list_all valid_port ps" and w: "w = JList ps"
    by (auto simp: scope_item_def rbind_eq_Inr Let_def split: json.splits list.splits if_splits)
  have "length ps = Suc (length xs)"
    using ps by (auto simp: py_sorted_def split: if_splits)
  then obtain y ys where "ps = y # ys" by (cases ps) auto
  then show ?thesis
    using py_sorted_again [OF ps ok(2)] ok w by (simp add: scope_item_def)
qed

lemma scope_other_again:
  assumes "scope_item k i = Inr w" "k \<noteq> ''domains''" "k \<noteq> ''ports''"
  shows "scope_item k w = Inr w"
proof -
  consider "k = ''repository''" | "k = ''max_children''"
    | "k \<noteq> ''repository''" "k \<noteq> ''max_children''" by blast
  then show ?thesis
  proof cases
    case 3
    with assms consider
        xs vs where "i = JList xs" "xs \<noteq> []" "rmap (\<lambda>v. c_string v (''scope.'' @ k @ ''[]'')) xs = Inr vs"
          "distinct vs" "w = JList (map JStr (sort vs))"
      | s where "w = JStr s" "trimmed s"
      by (auto simp: scope_item_def rbind_eq_Inr c_string_Inr split: json.splits if_splits)
    then show ?thesis
    proof cases
      case 1
      then show ?thesis
        using 3 assms(2,3) strings_again [OF 1(3)] rmap_nonempty [OF 1(3,2)] by (simp add: scope_item_def)
    qed (use 3 assms(2,3) in \<open>simp add: scope_item_def field_ok\<close>)
  qed (use assms in \<open>auto simp: scope_item_def rbind_eq_Inr c_string_Inr c_int_Inr split: if_splits\<close>)
qed

lemma scope_item_idem: "scope_item k i = Inr w \<Longrightarrow> scope_item k w = Inr w"
  using scope_domains_again scope_ports_again scope_other_again by blast

lemma rmap_items_Inr:
  assumes "rmap (\<lambda>(k, i). rbind (scope_item k i) (\<lambda>w. Inr (k, w))) raw = Inr result"
  shows "map fst result = map fst raw" "\<forall>(k, w) \<in> set result. scope_item k w = Inr w"
  using assms
  by (induction raw arbitrary: result) (auto simp: rbind_eq_Inr scope_item_idem)

lemma rmap_items_fix:
  "\<forall>(k, w) \<in> set d. scope_item k w = Inr w \<Longrightarrow>
   rmap (\<lambda>(k, i). rbind (scope_item k i) (\<lambda>w. Inr (k, w))) d = Inr d"
  by (induction d) auto

lemma validate_scope_shape:
  assumes "validate_scope ct v = Inr s"
  shows "sorted (map fst s)" "\<forall>(k, w) \<in> set s. scope_item k w = Inr w" "s \<noteq> []"
    "\<exists>allowed. map_of allowed_by_type ct = Some allowed \<and> set (map fst s) \<subseteq> set allowed"
proof -
  from assms obtain raw allowed result where v: "v = JObj raw" "raw \<noteq> []"
    and al: "map_of allowed_by_type ct = Some allowed" "set (dkeys raw) \<subseteq> set allowed"
    and r: "rmap (\<lambda>(k, i). rbind (scope_item k i) (\<lambda>w. Inr (k, w))) raw = Inr result"
    and s: "s = sort_key fst result"
    unfolding validate_scope_def
    by (cases "map_of allowed_by_type ct")
      (auto simp: rbind_eq_Inr c_mapping_Inr Let_def filter_empty_conv split: if_splits)
  show "sorted (map fst s)" by (simp add: s)
  show "\<forall>(k, w) \<in> set s. scope_item k w = Inr w"
    using rmap_items_Inr(2) [OF r] by (simp add: s)
  show "s \<noteq> []" using rmap_nonempty [OF r v(2)] s by (metis length_0_conv length_sort)
  have "set (map fst s) = set (dkeys raw)"
    using rmap_items_Inr(1) [OF r] by (simp add: s dkeys_def) (metis list.set_map)
  with al show "\<exists>allowed. map_of allowed_by_type ct = Some allowed \<and> set (map fst s) \<subseteq> set allowed"
    by auto
qed

definition wf_scope :: "string \<Rightarrow> (string \<times> json) list \<Rightarrow> bool" where
  "wf_scope ct s \<longleftrightarrow> validate_scope ct (JObj s) = Inr s"

lemma validate_scope_wf: "validate_scope ct v = Inr s \<Longrightarrow> wf_scope ct s"
  using validate_scope_shape [of ct v s]
  by (auto simp: wf_scope_def validate_scope_def rmap_items_fix sort_key_id_if_sorted dkeys_def
      filter_empty_conv subset_iff)

lemma validate_scope_ok: "wf_scope ct s \<Longrightarrow> validate_scope ct (JObj s) = Inr s"
  by (simp add: wf_scope_def)

subsection \<open>Capability contracts\<close>

definition wf_contract :: "capability_contract \<Rightarrow> bool" where
  "wf_contract c \<longleftrightarrow>
     ident_re (cc_capability_id c) \<and> cc_capability_type c \<in> set CAPABILITY_TYPES \<and>
     ident_re (cc_subject_id c) \<and> ident_re (cc_issuer_id c) \<and>
     wf_scope (cc_capability_type c) (cc_scope c) \<and>
     0 \<le> cc_issued_at_unix c \<and> cc_issued_at_unix c \<le> cc_not_before_unix c \<and>
     cc_not_before_unix c < cc_expires_at_unix c \<and>
     1 \<le> cc_max_uses c \<and> cc_max_uses c \<le> 1000 \<and>
     (cc_delegable c \<longrightarrow> cc_parent_capability_id c \<noteq> None) \<and>
     (case cc_parent_capability_id c of None \<Rightarrow> True | Some p \<Rightarrow> ident_re p) \<and>
     is_sha256 (cc_policy_sha256 c) \<and>
     cc_contract_sha256 c = canonical_sha256 (JObj (cc_body c))"

lemma py_eq_refl [simp]: "py_eq v v"
  by (simp add: py_eq_def)

lemma capability_type_trimmed: "ct \<in> set CAPABILITY_TYPES \<Longrightarrow> trimmed ct"
  by (rule trimmed_graphic) (auto simp: CAPABILITY_TYPES_def graphic_def)

lemma cc_from_document_wf: "cc_from_document v = Inr c \<Longrightarrow> wf_contract c"
  unfolding cc_from_document_def
  by (clarsimp simp: rbind_eq_Inr if_Inl_eq_Inr Let_def simp del: list.set not_None_eq)
    (simp add: wf_contract_def c_sha_Inr c_identifier_Inr c_time_Inr c_int_Inr c_bool_Inr
      c_optional_ident_Inr validate_scope_wf del: not_None_eq)

lemma cc_keys_exact:
  "c_exact (cc_body c @ [(''contract_sha256'', d)])
     [''schema'', ''capability_id'', ''capability_type'', ''subject_id'', ''issuer_id'', ''scope'',
      ''issued_at_unix'', ''not_before_unix'', ''expires_at_unix'', ''max_uses'', ''delegable'',
      ''parent_capability_id'', ''policy_sha256'', ''authority'', ''contract_sha256''] n = Inr ()"
  by (simp add: c_exact_Inr same_keys_def dkeys_def cc_body_def)

lemma c_optional_ident_ok:
  "(case x of None \<Rightarrow> True | Some p \<Rightarrow> ident_re p) \<Longrightarrow> c_optional c_identifier (jopt x) n = Inr x"
  by (rule c_optional_ok(3)) (simp add: field_ok)

lemma c_optional_sha_ok:
  "(case x of None \<Rightarrow> True | Some p \<Rightarrow> is_sha256 p) \<Longrightarrow> c_optional c_sha (jopt x) n = Inr x"
  by (rule c_optional_ok(3)) (simp add: field_ok)

lemma cc_dget:
  fixes c d
  defines "doc \<equiv> cc_body c @ [(''contract_sha256'', d)]"
  shows "dget doc ''schema'' = JStr CAPABILITY_SCHEMA" "dget doc ''authority'' = AUTHORITY"
    "dget doc ''capability_id'' = JStr (cc_capability_id c)"
    "dget doc ''capability_type'' = JStr (cc_capability_type c)"
    "dget doc ''subject_id'' = JStr (cc_subject_id c)"
    "dget doc ''issuer_id'' = JStr (cc_issuer_id c)"
    "dget doc ''scope'' = JObj (cc_scope c)"
    "dget doc ''issued_at_unix'' = JInt (cc_issued_at_unix c)"
    "dget doc ''not_before_unix'' = JInt (cc_not_before_unix c)"
    "dget doc ''expires_at_unix'' = JInt (cc_expires_at_unix c)"
    "dget doc ''max_uses'' = JInt (cc_max_uses c)"
    "dget doc ''delegable'' = JBool (cc_delegable c)"
    "dget doc ''parent_capability_id'' = jopt (cc_parent_capability_id c)"
    "dget doc ''policy_sha256'' = JStr (cc_policy_sha256 c)"
    "dget doc ''contract_sha256'' = d"
  by (simp_all add: doc_def dget_def cc_body_def)

lemma cc_eta:
  "\<lparr>cc_capability_id = cc_capability_id c, cc_capability_type = cc_capability_type c,
    cc_subject_id = cc_subject_id c, cc_issuer_id = cc_issuer_id c, cc_scope = cc_scope c,
    cc_issued_at_unix = cc_issued_at_unix c, cc_not_before_unix = cc_not_before_unix c,
    cc_expires_at_unix = cc_expires_at_unix c, cc_max_uses = cc_max_uses c,
    cc_delegable = cc_delegable c, cc_parent_capability_id = cc_parent_capability_id c,
    cc_policy_sha256 = cc_policy_sha256 c, cc_contract_sha256 = cc_contract_sha256 c\<rparr> = c"
  by simp

lemma cc_roundtrip: "wf_contract c \<Longrightarrow> cc_from_document (cc_as_document c) = Inr c"
proof -
  assume wf: "wf_contract c"
  then have digest: "canonical_sha256 (JObj (cc_body c)) = cc_contract_sha256 c"
    and sha: "is_sha256 (cc_contract_sha256 c)"
    by (simp_all add: wf_contract_def)
  have fields: "ident_re (cc_capability_id c)" "cc_capability_type c \<in> set CAPABILITY_TYPES"
    "ident_re (cc_subject_id c)" "ident_re (cc_issuer_id c)"
    "wf_scope (cc_capability_type c) (cc_scope c)" "0 \<le> cc_issued_at_unix c"
    "0 \<le> cc_not_before_unix c" "0 \<le> cc_expires_at_unix c"
    "cc_issued_at_unix c \<le> cc_not_before_unix c" "cc_not_before_unix c < cc_expires_at_unix c"
    "1 \<le> cc_max_uses c" "\<not> cc_max_uses c > 1000"
    "\<not> (cc_delegable c \<and> cc_parent_capability_id c = None)"
    "case cc_parent_capability_id c of None \<Rightarrow> True | Some p \<Rightarrow> ident_re p"
    "is_sha256 (cc_policy_sha256 c)"
    using wf by (simp_all add: wf_contract_def)
  show ?thesis
    unfolding cc_from_document_def cc_as_document_def
    by (simp add: cc_keys_exact cc_dget field_ok capability_type_trimmed validate_scope_ok
        c_optional_ident_ok fields sha digest cc_eta Let_def del: not_None_eq)
qed

subsection \<open>Causal events\<close>

definition wf_event :: "causal_event \<Rightarrow> bool" where
  "wf_event e \<longleftrightarrow>
     ident_re (ce_event_id e) \<and>
     ce_event_type e \<in> set (CAPABILITY_EVENTS @ [''runtime_action'', ''objective_violation'', ''containment_transition'']) \<and>
     ident_re (ce_subject_id e) \<and> ce_effect e \<in> set EFFECTS \<and> ce_decision e \<in> set DECISIONS \<and>
     (case ce_capability_id e of None \<Rightarrow> True | Some p \<Rightarrow> ident_re p) \<and>
     (ce_event_type e \<in> set CAPABILITY_EVENTS \<longrightarrow> ce_capability_id e \<noteq> None) \<and>
     (case ce_recorder_event_id e of None \<Rightarrow> True | Some p \<Rightarrow> ident_re p) \<and>
     (case ce_recorder_entry_sha256 e of None \<Rightarrow> True | Some p \<Rightarrow> is_sha256 p) \<and>
     (ce_recorder_event_id e = None) = (ce_recorder_entry_sha256 e = None) \<and>
     ce_reason_codes e \<noteq> [] \<and> sorted (ce_reason_codes e) \<and> distinct (ce_reason_codes e) \<and>
     list_all ident_re (ce_reason_codes e) \<and>
     (case ce_output_sha256 e of None \<Rightarrow> True | Some p \<Rightarrow> is_sha256 p) \<and>
     0 \<le> ce_observed_at_unix e \<and> is_sha256 (ce_previous_causal_event_sha256 e) \<and>
     is_sha256 (ce_input_sha256 e) \<and>
     ce_event_sha256 e = canonical_sha256 (JObj (ce_body e))"

lemma ce_dget:
  fixes e d
  defines "doc \<equiv> ce_body e @ [(''event_sha256'', d)]"
  shows "dget doc ''schema'' = JStr CAUSAL_EVENT_SCHEMA" "dget doc ''authority'' = AUTHORITY"
    "dget doc ''event_id'' = JStr (ce_event_id e)"
    "dget doc ''event_type'' = JStr (ce_event_type e)"
    "dget doc ''subject_id'' = JStr (ce_subject_id e)"
    "dget doc ''capability_id'' = jopt (ce_capability_id e)"
    "dget doc ''recorder_event_id'' = jopt (ce_recorder_event_id e)"
    "dget doc ''recorder_entry_sha256'' = jopt (ce_recorder_entry_sha256 e)"
    "dget doc ''effect'' = JStr (ce_effect e)"
    "dget doc ''decision'' = JStr (ce_decision e)"
    "dget doc ''observed_at_unix'' = JInt (ce_observed_at_unix e)"
    "dget doc ''previous_causal_event_sha256'' = JStr (ce_previous_causal_event_sha256 e)"
    "dget doc ''input_sha256'' = JStr (ce_input_sha256 e)"
    "dget doc ''output_sha256'' = jopt (ce_output_sha256 e)"
    "dget doc ''reason_codes'' = JList (map JStr (ce_reason_codes e))"
    "dget doc ''event_sha256'' = d"
  by (simp_all add: doc_def dget_def ce_body_def)

lemma ce_keys_exact:
  "c_exact (ce_body e @ [(''event_sha256'', d)])
     [''schema'', ''event_id'', ''event_type'', ''subject_id'', ''capability_id'',
      ''recorder_event_id'', ''recorder_entry_sha256'', ''effect'', ''decision'',
      ''observed_at_unix'', ''previous_causal_event_sha256'', ''input_sha256'',
      ''output_sha256'', ''reason_codes'', ''authority'', ''event_sha256''] n = Inr ()"
  by (simp add: c_exact_Inr same_keys_def dkeys_def ce_body_def)

lemma word_trimmed:
  "t \<in> set (CAPABILITY_EVENTS @ [''runtime_action'', ''objective_violation'', ''containment_transition'']) \<Longrightarrow> trimmed t"
  "t \<in> set EFFECTS \<Longrightarrow> trimmed t"
  "t \<in> set DECISIONS \<Longrightarrow> trimmed t"
  by (rule trimmed_graphic; auto simp: CAPABILITY_EVENTS_def EFFECTS_def DECISIONS_def graphic_def)+

lemma ce_from_document_wf: "ce_from_document v = Inr e \<Longrightarrow> wf_event e"
  unfolding ce_from_document_def CAPABILITY_EVENTS_def [symmetric]
  by (clarsimp simp: rbind_eq_Inr if_Inl_eq_Inr Let_def simp del: set_append list.set not_None_eq)
    (simp add: wf_event_def c_sha_Inr sorted_unique_Inr c_identifier_Inr c_time_Inr
      c_optional_ident_Inr c_optional_sha_Inr del: set_append list.set)

lemma ce_eta:
  "\<lparr>ce_event_id = ce_event_id e, ce_event_type = ce_event_type e, ce_subject_id = ce_subject_id e,
    ce_capability_id = ce_capability_id e, ce_recorder_event_id = ce_recorder_event_id e,
    ce_recorder_entry_sha256 = ce_recorder_entry_sha256 e, ce_effect = ce_effect e,
    ce_decision = ce_decision e, ce_observed_at_unix = ce_observed_at_unix e,
    ce_previous_causal_event_sha256 = ce_previous_causal_event_sha256 e,
    ce_input_sha256 = ce_input_sha256 e, ce_output_sha256 = ce_output_sha256 e,
    ce_reason_codes = ce_reason_codes e, ce_event_sha256 = ce_event_sha256 e\<rparr> = e"
  by simp

lemma ce_roundtrip: "wf_event e \<Longrightarrow> ce_from_document (ce_as_document e) = Inr e"
proof -
  assume wf: "wf_event e"
  then have digest: "canonical_sha256 (JObj (ce_body e)) = ce_event_sha256 e"
    and sha: "is_sha256 (ce_event_sha256 e)"
    by (simp_all add: wf_event_def)
  have fields: "ident_re (ce_event_id e)" "ident_re (ce_subject_id e)"
     "ce_event_type e \<in> set (CAPABILITY_EVENTS @ [''runtime_action'', ''objective_violation'', ''containment_transition''])"
     "ce_effect e \<in> set EFFECTS" "ce_decision e \<in> set DECISIONS"
     "case ce_capability_id e of None \<Rightarrow> True | Some p \<Rightarrow> ident_re p"
     "\<not> (ce_event_type e \<in> set CAPABILITY_EVENTS \<and> ce_capability_id e = None)"
     "case ce_recorder_event_id e of None \<Rightarrow> True | Some p \<Rightarrow> ident_re p"
     "case ce_recorder_entry_sha256 e of None \<Rightarrow> True | Some p \<Rightarrow> is_sha256 p"
     "(ce_recorder_event_id e = None) = (ce_recorder_entry_sha256 e = None)"
     "ce_reason_codes e \<noteq> []" "sorted (ce_reason_codes e)" "distinct (ce_reason_codes e)"
     "list_all ident_re (ce_reason_codes e)"
     "case ce_output_sha256 e of None \<Rightarrow> True | Some p \<Rightarrow> is_sha256 p"
     "0 \<le> ce_observed_at_unix e" "is_sha256 (ce_previous_causal_event_sha256 e)"
     "is_sha256 (ce_input_sha256 e)"
    using wf unfolding wf_event_def by blast+
  show ?thesis
    unfolding ce_from_document_def ce_as_document_def CAPABILITY_EVENTS_def [symmetric]
    by (simp add: ce_keys_exact ce_dget field_ok word_trimmed c_optional_ident_ok c_optional_sha_ok
        fields sha digest ce_eta Let_def del: not_None_eq set_append)
qed

end
