(* ===== verification/Capability_Broker.thy ===== *)
theory Capability_Broker
  imports Contract_Facts
begin

section \<open>The capability broker\<close>

text \<open>
  Model of src/sdk/liminal_capability_broker/broker.py. \<open>broker\<close> is the object's state:
  \<open>_states\<close> (a dictionary from capability id to its lifecycle state), \<open>_events\<close>, \<open>_receipts\<close> and
  \<open>_head\<close>. Each method is an \<open>op\<close>. An exception raised after an assignment leaves the assignment in
  place, as in the source.
\<close>

subsection \<open>Data\<close>

abbreviation BrokerError :: "string \<Rightarrow> exn" where
  "BrokerError m \<equiv> Exn ''BrokerError'' m"

definition DECISION_SCHEMA :: string where
  "DECISION_SCHEMA = ''liminal-capability-decision-receipt-v0.1''"

definition BROKER_AUTHORITY :: json where
  "BROKER_AUTHORITY = JObj
     [(''mode'', JStr ''capability_lifecycle_enforcement_only''), (''capability_admission'', JBool True),
      (''capability_grant'', JBool True), (''capability_use_decision'', JBool True),
      (''capability_revoke'', JBool True), (''capability_expire'', JBool True),
      (''execution'', JBool False), (''network_mediation'', JBool False),
      (''credential_material_access'', JBool False), (''process_control'', JBool False),
      (''containment_execution'', JBool False), (''automatic_github_write_authorization'', JBool False),
      (''merge'', JBool False), (''deployment'', JBool False), (''rollback'', JBool False)]"

record decision_receipt =
  dr_decision_id :: string
  dr_capability_id :: "string option"
  dr_subject_id :: string
  dr_capability_type :: string
  dr_policy_sha256 :: string
  dr_action_sha256 :: string
  dr_requested_scope :: "(string \<times> json) list"
  dr_decision :: string
  dr_reason_codes :: "string list"
  dr_at_unix :: int
  dr_use_count_before :: int
  dr_use_count_after :: int
  dr_causal_event_sha256 :: string
  dr_broker_head_sha256 :: string
  dr_receipt_sha256 :: string

definition dr_body :: "decision_receipt \<Rightarrow> (string \<times> json) list" where
  "dr_body r =
     [(''schema'', JStr DECISION_SCHEMA),
      (''decision_id'', JStr (dr_decision_id r)),
      (''capability_id'', jopt (dr_capability_id r)),
      (''subject_id'', JStr (dr_subject_id r)),
      (''capability_type'', JStr (dr_capability_type r)),
      (''policy_sha256'', JStr (dr_policy_sha256 r)),
      (''action_sha256'', JStr (dr_action_sha256 r)),
      (''requested_scope'', JObj (dr_requested_scope r)),
      (''decision'', JStr (dr_decision r)),
      (''reason_codes'', JList (map JStr (dr_reason_codes r))),
      (''at_unix'', JInt (dr_at_unix r)),
      (''use_count_before'', JInt (dr_use_count_before r)),
      (''use_count_after'', JInt (dr_use_count_after r)),
      (''causal_event_sha256'', JStr (dr_causal_event_sha256 r)),
      (''broker_head_sha256'', JStr (dr_broker_head_sha256 r)),
      (''authority'', BROKER_AUTHORITY)]"

definition dr_as_document :: "decision_receipt \<Rightarrow> (string \<times> json) list" where
  "dr_as_document r = dr_body r @ [(''receipt_sha256'', JStr (dr_receipt_sha256 r))]"

datatype cap_status = Active | Revoked | Expired

primrec status_str :: "cap_status \<Rightarrow> string" where
  "status_str Active = ''active''"
| "status_str Revoked = ''revoked''"
| "status_str Expired = ''expired''"

record cap_state =
  st_contract :: capability_contract
  st_status :: cap_status
  st_use_count :: int
  st_revoked_at_unix :: "int option"
  st_expired_at_unix :: "int option"

definition new_state :: "capability_contract \<Rightarrow> cap_state" where
  "new_state c = \<lparr>st_contract = c, st_status = Active, st_use_count = 0,
     st_revoked_at_unix = None, st_expired_at_unix = None\<rparr>"

record broker =
  b_broker_id :: string
  b_states :: "(string \<times> cap_state) list"
  b_events :: "causal_event list"
  b_receipts :: "decision_receipt list"
  b_head :: string

definition broker_init :: "string \<Rightarrow> broker res" where
  "broker_init broker_id =
     (if py_strip broker_id = [] then Inl (BrokerError ''broker_id must be non-empty'')
      else Inr \<lparr>b_broker_id = broker_id, b_states = [], b_events = [], b_receipts = [],
                b_head = ZERO_SHA256\<rparr>)"

text \<open>The keyword arguments of \<open>authorize\<close>.\<close>

record authz_request =
  rq_subject_id :: string
  rq_capability_type :: string
  rq_policy_sha256 :: string
  rq_requested_scope :: "(string \<times> json) list"
  rq_action :: "(string \<times> json) list"
  rq_at_unix :: int
  rq_recorder_event_id :: "string option"
  rq_recorder_entry_sha256 :: "string option"

subsection \<open>Scope containment and effects\<close>

text \<open>The requested scope was validated before, so the values under \<open>max_children\<close> are integers and
  the elements of arrays are strings or integers.\<close>

definition scope_value_contains :: "string \<Rightarrow> json \<Rightarrow> json \<Rightarrow> bool" where
  "scope_value_contains key granted_value requested_value =
     (case requested_value of
        JList rs \<Rightarrow>
          (case granted_value of
             JList gs \<Rightarrow> list_all (\<lambda>r. list_ex (\<lambda>g. py_eq r g) gs) rs
           | _ \<Rightarrow> False)
      | _ \<Rightarrow>
          if key = ''max_children'' then
            (case (num_of granted_value, num_of requested_value) of
               (Some g, Some r) \<Rightarrow> \<not> r > g
             | _ \<Rightarrow> False)
          else py_eq granted_value requested_value)"

definition scope_contains :: "string \<Rightarrow> (string \<times> json) list \<Rightarrow> (string \<times> json) list \<Rightarrow> bool" where
  "scope_contains capability_type granted requested \<longleftrightarrow>
     \<not> (capability_type \<in> set [''repository.read'', ''repository.write''] \<and>
        \<not> py_eq (dget granted ''repository'') (dget requested ''repository'')) \<and>
     list_all (\<lambda>(key, requested_value).
       case map_of granted key of
         None \<Rightarrow> False
       | Some granted_value \<Rightarrow> scope_value_contains key granted_value requested_value) requested"

definition effect_for :: "string \<Rightarrow> string" where
  "effect_for capability_type =
     (if capability_type = ''repository.read'' then ''read''
      else if capability_type \<in> set [''repository.write'', ''filesystem.write_outside_workspace''] then ''write''
      else if capability_type \<in> set [''process.execute'', ''package.install'', ''process.spawn_child''] then ''execute''
      else if capability_type \<in> set [''network.open'', ''network.connect_domain''] then ''network''
      else if capability_type = ''credential.access'' then ''secret''
      else ''config'')"

subsection \<open>Events and receipts\<close>

definition b_event ::
  "string \<Rightarrow> string \<Rightarrow> string \<Rightarrow> string \<Rightarrow> string \<Rightarrow> int \<Rightarrow> string \<Rightarrow> string option \<Rightarrow> string list \<Rightarrow>
   string option \<Rightarrow> string option \<Rightarrow> (broker, causal_event) op" where
  "b_event event_type subject_id capability_id capability_type decision at_unix input_sha output_sha
     reasons recorder_event_id recorder_entry_sha256 b =
     (case ce_build
        [(''event_id'', JStr (''broker-event:'' @ nat_str (length (b_events b) + 1))),
         (''event_type'', JStr event_type),
         (''subject_id'', JStr subject_id),
         (''capability_id'', JStr capability_id),
         (''recorder_event_id'', jopt recorder_event_id),
         (''recorder_entry_sha256'', jopt recorder_entry_sha256),
         (''effect'', JStr (effect_for capability_type)),
         (''decision'', JStr decision),
         (''observed_at_unix'', JInt at_unix),
         (''previous_causal_event_sha256'', JStr (b_head b)),
         (''input_sha256'', JStr input_sha),
         (''output_sha256'', jopt output_sha),
         (''reason_codes'', JList (map JStr reasons))] of
        Inl e \<Rightarrow> (Inl e, b)
      | Inr event \<Rightarrow>
          (Inr event, b\<lparr>b_events := b_events b @ [event], b_head := ce_event_sha256 event\<rparr>))"

definition b_receipt ::
  "string option \<Rightarrow> string \<Rightarrow> string \<Rightarrow> string \<Rightarrow> string \<Rightarrow> (string \<times> json) list \<Rightarrow> string \<Rightarrow> string list \<Rightarrow>
   int \<Rightarrow> int \<Rightarrow> int \<Rightarrow> causal_event \<Rightarrow> (broker, (string \<times> json) list) op" where
  "b_receipt capability_id subject_id capability_type policy_sha action_sha scope decision reasons
     at_unix before after event b =
     (let base = \<lparr>dr_decision_id = ''broker-decision:'' @ nat_str (length (b_receipts b) + 1),
            dr_capability_id = capability_id, dr_subject_id = subject_id,
            dr_capability_type = capability_type, dr_policy_sha256 = policy_sha,
            dr_action_sha256 = action_sha, dr_requested_scope = scope, dr_decision = decision,
            dr_reason_codes = sort (remdups reasons), dr_at_unix = at_unix,
            dr_use_count_before = before, dr_use_count_after = after,
            dr_causal_event_sha256 = ce_event_sha256 event, dr_broker_head_sha256 = b_head b,
            dr_receipt_sha256 = []\<rparr>;
          receipt = base\<lparr>dr_receipt_sha256 := canonical_sha256 (JObj (dr_body base))\<rparr>
      in (Inr (dr_as_document receipt), b\<lparr>b_receipts := b_receipts b @ [receipt]\<rparr>))"

definition b_lifecycle ::
  "cap_state \<Rightarrow> string \<Rightarrow> string \<Rightarrow> string list \<Rightarrow> int \<Rightarrow> (broker, (string \<times> json) list) op" where
  "b_lifecycle state event_type decision reasons at_unix =
     (let c = st_contract state in
      obind (b_event event_type (cc_subject_id c) (cc_capability_id c) (cc_capability_type c) decision
               at_unix (cc_contract_sha256 c) None reasons None None)
        (\<lambda>event. b_receipt (Some (cc_capability_id c)) (cc_subject_id c) (cc_capability_type c)
               (cc_policy_sha256 c) (cc_contract_sha256 c) (cc_scope c) decision reasons at_unix
               (st_use_count state) (st_use_count state) event))"

definition put_state :: "string \<Rightarrow> cap_state \<Rightarrow> broker \<Rightarrow> broker" where
  "put_state cid st b = b\<lparr>b_states := AList.update cid st (b_states b)\<rparr>"

subsection \<open>Operations\<close>

definition validate_parent :: "broker \<Rightarrow> capability_contract \<Rightarrow> unit res" where
  "validate_parent b child =
     (case cc_parent_capability_id child of
        None \<Rightarrow> Inr ()
      | Some pid \<Rightarrow>
          (case map_of (b_states b) pid of
             None \<Rightarrow> Inl (BrokerError ''delegation parent is not active'')
           | Some parent_state \<Rightarrow>
               (let parent = st_contract parent_state in
                if st_status parent_state \<noteq> Active
                then Inl (BrokerError ''delegation parent is not active'')
                else if \<not> cc_delegable parent then Inl (BrokerError ''parent is not delegable'')
                else if cc_capability_type child \<noteq> cc_capability_type parent
                then Inl (BrokerError ''child capability_type exceeds parent'')
                else if cc_policy_sha256 child \<noteq> cc_policy_sha256 parent
                then Inl (BrokerError ''child policy differs from parent'')
                else if cc_expires_at_unix child > cc_expires_at_unix parent \<or>
                        cc_max_uses child > cc_max_uses parent
                then Inl (BrokerError ''child validity or use bounds exceed parent'')
                else if \<not> scope_contains (cc_capability_type child) (cc_scope parent) (cc_scope child)
                then Inl (BrokerError ''child scope exceeds parent'')
                else Inr ())))"

definition check_time :: "int \<Rightarrow> unit res" where
  "check_time at_unix =
     (if at_unix < 0 then Inl (BrokerError ''at_unix must be a non-negative integer'') else Inr ())"

definition b_admit :: "(string \<times> json) list \<Rightarrow> int \<Rightarrow> (broker, (string \<times> json) list) op" where
  "b_admit document at_unix =
     obind (olift (check_time at_unix)) (\<lambda>_.
     obind (olift (cc_from_document (JObj document))) (\<lambda>contract b.
       case map_of (b_states b) (cc_capability_id contract) of
         Some existing \<Rightarrow>
           if cc_contract_sha256 (st_contract existing) \<noteq> cc_contract_sha256 contract
           then (Inl (BrokerError ''duplicate capability_id with different contract''), b)
           else b_lifecycle existing ''grant'' ''ALLOW'' [''already_admitted''] at_unix b
       | None \<Rightarrow>
           if at_unix < cc_issued_at_unix contract \<or> at_unix \<ge> cc_expires_at_unix contract
           then (Inl (BrokerError ''capability is outside admissible time window''), b)
           else (case validate_parent b contract of
                   Inl e \<Rightarrow> (Inl e, b)
                 | Inr _ \<Rightarrow>
                     b_lifecycle (new_state contract) ''grant'' ''ALLOW'' [''capability_admitted''] at_unix
                       (put_state (cc_capability_id contract) (new_state contract) b))))"

definition ineligible :: "cap_state \<Rightarrow> string \<Rightarrow> (string \<times> json) list \<Rightarrow> int \<Rightarrow> string list" where
  "ineligible state policy_sha scope at_unix =
     (let c = st_contract state in
      sort (remdups (
        (if st_status state \<noteq> Active then [status_str (st_status state)] else []) @
        (if at_unix < cc_not_before_unix c then [''not_yet_valid''] else []) @
        (if at_unix \<ge> cc_expires_at_unix c then [''expired''] else []) @
        (if cc_policy_sha256 c \<noteq> policy_sha then [''policy_mismatch''] else []) @
        (if st_use_count state \<ge> cc_max_uses c then [''use_exhausted''] else []) @
        (if \<not> scope_contains (cc_capability_type c) (cc_scope c) scope then [''scope_mismatch''] else []))))"

text \<open>The loop over the candidates: the reasons collected so far, and the first eligible one.\<close>

fun pick_candidate ::
  "string \<Rightarrow> (string \<times> json) list \<Rightarrow> int \<Rightarrow> cap_state list \<Rightarrow> string list \<Rightarrow> string list \<times> cap_state option" where
  "pick_candidate policy scope at_unix [] reasons = (reasons, None)"
| "pick_candidate policy scope at_unix (st # sts) reasons =
     (let bad = ineligible st policy scope at_unix
      in if bad \<noteq> [] then pick_candidate policy scope at_unix sts (reasons @ bad)
         else (reasons, Some st))"

definition candidates :: "broker \<Rightarrow> string \<Rightarrow> string \<Rightarrow> cap_state list" where
  "candidates b subject_id capability_type =
     sort_key (\<lambda>s. cc_capability_id (st_contract s))
       (filter (\<lambda>s. cc_subject_id (st_contract s) = subject_id \<and>
                    cc_capability_type (st_contract s) = capability_type) (map snd (b_states b)))"

definition as_broker_error :: "exn \<Rightarrow> exn" where
  "as_broker_error e = (if exn_class e = ''ContractError'' then BrokerError (exn_msg e) else e)"

text \<open>The two ends of \<open>authorize\<close>: a use is counted before its event is built.\<close>

definition b_allow :: "authz_request \<Rightarrow> (string \<times> json) list \<Rightarrow> cap_state \<Rightarrow> (broker, (string \<times> json) list) op" where
  "b_allow rq scope state b =
     (let c = st_contract state;
          action_sha = canonical_sha256 (JObj (rq_action rq));
          before = st_use_count state;
          state' = state\<lparr>st_use_count := before + 1\<rparr>;
          reasons = [''capability_scope_match'', ''policy_match'', ''use_committed'']
      in obind (b_event ''use'' (rq_subject_id rq) (cc_capability_id c) (rq_capability_type rq)
                  ''ALLOW'' (rq_at_unix rq) action_sha (Some (cc_contract_sha256 c)) reasons
                  (rq_recorder_event_id rq) (rq_recorder_entry_sha256 rq))
           (\<lambda>event. b_receipt (Some (cc_capability_id c)) (rq_subject_id rq) (rq_capability_type rq)
                  (rq_policy_sha256 rq) action_sha scope ''ALLOW'' reasons (rq_at_unix rq)
                  before (st_use_count state') event)
           (put_state (cc_capability_id c) state' b))"

definition b_deny :: "authz_request \<Rightarrow> (string \<times> json) list \<Rightarrow> string list \<Rightarrow> (broker, (string \<times> json) list) op" where
  "b_deny rq scope reasons =
     (let action_sha = canonical_sha256 (JObj (rq_action rq));
          deny_reasons = sort (remdups
            (if reasons \<noteq> [] then reasons else [''default_deny'', ''no_matching_capability'']))
      in obind (b_event ''deny'' (rq_subject_id rq) ''capability:none'' (rq_capability_type rq)
                  ''BLOCK'' (rq_at_unix rq) action_sha None deny_reasons
                  (rq_recorder_event_id rq) (rq_recorder_entry_sha256 rq))
           (\<lambda>event. b_receipt None (rq_subject_id rq) (rq_capability_type rq)
                  (rq_policy_sha256 rq) action_sha scope ''BLOCK'' deny_reasons (rq_at_unix rq)
                  0 0 event))"

definition b_authorize :: "authz_request \<Rightarrow> (broker, (string \<times> json) list) op" where
  "b_authorize rq b =
     (if rq_at_unix rq < 0 then (Inl (BrokerError ''at_unix must be a non-negative integer''), b)
      else if rq_capability_type rq \<notin> set CAPABILITY_TYPES
      then (Inl (BrokerError ''unsupported capability_type''), b)
      else case validate_scope (rq_capability_type rq) (JObj (rq_requested_scope rq)) of
        Inl e \<Rightarrow> (Inl (as_broker_error e), b)
      | Inr scope \<Rightarrow>
          (case pick_candidate (rq_policy_sha256 rq) scope (rq_at_unix rq)
                  (candidates b (rq_subject_id rq) (rq_capability_type rq)) [] of
             (_, Some state) \<Rightarrow> b_allow rq scope state b
           | (reasons, None) \<Rightarrow> b_deny rq scope reasons b))"

definition b_revoke :: "string \<Rightarrow> int \<Rightarrow> (broker, (string \<times> json) list) op" where
  "b_revoke capability_id at_unix =
     obind (olift (check_time at_unix)) (\<lambda>_ b.
       case map_of (b_states b) capability_id of
         None \<Rightarrow> (Inl (BrokerError ''unknown capability_id''), b)
       | Some state \<Rightarrow>
           if st_status state \<noteq> Active
           then b_lifecycle state ''revoke'' ''BLOCK'' [''already_'' @ status_str (st_status state)] at_unix b
           else (let state' = state\<lparr>st_status := Revoked, st_revoked_at_unix := Some at_unix\<rparr>
                 in b_lifecycle state' ''revoke'' ''ALLOW'' [''explicit_revoke''] at_unix
                      (put_state capability_id state' b)))"

fun b_expire_loop :: "int \<Rightarrow> string list \<Rightarrow> (broker, (string \<times> json) list list) op" where
  "b_expire_loop at_unix [] b = (Inr [], b)"
| "b_expire_loop at_unix (cid # cids) b =
     (case map_of (b_states b) cid of
        None \<Rightarrow> b_expire_loop at_unix cids b
      | Some state \<Rightarrow>
          if st_status state = Active \<and> at_unix \<ge> cc_expires_at_unix (st_contract state)
          then (let state' = state\<lparr>st_status := Expired, st_expired_at_unix := Some at_unix\<rparr>
                in obind (b_lifecycle state' ''expire'' ''ALLOW'' [''ttl_expired''] at_unix)
                     (\<lambda>doc. obind (b_expire_loop at_unix cids) (\<lambda>docs. oret (doc # docs)))
                     (put_state cid state' b))
          else b_expire_loop at_unix cids b)"

definition b_expire_due :: "int \<Rightarrow> (broker, (string \<times> json) list list) op" where
  "b_expire_due at_unix =
     obind (olift (check_time at_unix)) (\<lambda>_ b. b_expire_loop at_unix (sort (map fst (b_states b))) b)"

definition cap_item :: "string \<Rightarrow> cap_state \<Rightarrow> (string \<times> json) list" where
  "cap_item capability_id state =
     [(''capability_id'', JStr capability_id),
      (''contract_sha256'', JStr (cc_contract_sha256 (st_contract state))),
      (''status'', JStr (status_str (st_status state))),
      (''use_count'', JInt (st_use_count state)),
      (''max_uses'', JInt (cc_max_uses (st_contract state))),
      (''expires_at_unix'', JInt (cc_expires_at_unix (st_contract state)))]"

definition b_capabilities :: "broker \<Rightarrow> (string \<times> json) list list" where
  "b_capabilities b = map (\<lambda>(cid, st). cap_item cid st) (sort_key fst (b_states b))"

definition b_state_document :: "broker \<Rightarrow> (string \<times> json) list" where
  "b_state_document b =
     (let body =
        [(''schema'', JStr ''liminal-capability-broker-state-v0.1''),
         (''broker_id'', JStr (b_broker_id b)),
         (''head_sha256'', JStr (b_head b)),
         (''event_count'', JInt (int (length (b_events b)))),
         (''receipt_count'', JInt (int (length (b_receipts b)))),
         (''capabilities'', JList (map JObj (b_capabilities b))),
         (''authority'', BROKER_AUTHORITY)]
      in body @ [(''state_sha256'', JStr (canonical_sha256 (JObj body)))])"

end
