(* ===== verification/Hash_Chain.thy ===== *)
theory Hash_Chain
  imports Contract_Facts
begin

section \<open>Hash-linked logs\<close>

text \<open>
  The broker, the mediator and the containment coordinator each keep a log whose entries carry the
  digest of their own body and the digest of the previous entry. \<open>hash_linked\<close> is the interface of
  such an entry; inside it, the number of entries and the head digest bind the whole log: two logs
  with the same length and head are equal, or two of their bodies collide under SHA-256.
  A collision is always stated of the documents at hand (\<open>collides\<close>), never of SHA-256 at large.
\<close>

definition collides :: "json list \<Rightarrow> bool" where
  "collides vs \<longleftrightarrow>
     (\<exists>a \<in> set vs. \<exists>b \<in> set vs. canonical_json a \<noteq> canonical_json b \<and> canonical_sha256 a = canonical_sha256 b)"

lemma sha_eq_norm:
  assumes "canonical_sha256 a = canonical_sha256 b" "a \<in> set vs" "b \<in> set vs"
  shows "json_norm a = json_norm b \<or> collides vs"
  using assms unfolding collides_def canonical_json_inj [symmetric] by blast

lemma collides_mono: "collides vs \<Longrightarrow> set vs \<subseteq> set ws \<Longrightarrow> collides ws"
  unfolding collides_def by blast

lemma norm_same_sha: "json_norm a = json_norm b \<Longrightarrow> canonical_sha256 a = canonical_sha256 b"
  unfolding canonical_json_inj [symmetric] by (simp only: canonical_sha256_def)

subsection \<open>Reading fields from a normalised document\<close>

lemma map_of_insort_key: "map_of (insort_key fst p ps) k = (if k = fst p then Some (snd p) else map_of ps k)"
  by (induction ps) auto

lemma map_of_sort_key: "map_of (sort_key fst ps) k = map_of ps k"
  by (induction ps) (auto simp: map_of_insort_key)

lemma json_norm_dget:
  assumes "json_norm (JObj d) = json_norm (JObj d')"
  shows "json_norm (dget d k) = json_norm (dget d' k)"
proof -
  have "map_of (map (\<lambda>(k, v). (k, json_norm v)) ps) k = map_option json_norm (map_of ps k)" for ps
    by (simp add: map_of_map)
  moreover from assms have "map_of (sort_key fst (map (\<lambda>(k, v). (k, json_norm v)) d)) k
      = map_of (sort_key fst (map (\<lambda>(k, v). (k, json_norm v)) d')) k"
    by simp
  ultimately have "map_option json_norm (map_of d k) = map_option json_norm (map_of d' k)"
    by (simp add: map_of_sort_key)
  then show ?thesis
    by (auto simp: dget_def split: option.splits)
qed

lemma json_norm_jopt [simp]: "json_norm (jopt x) = json_norm (jopt y) \<longleftrightarrow> x = y"
  by (auto simp: jopt_def split: option.splits)

lemma json_norm_strs [simp]:
  "json_norm (JList (map JStr xs)) = json_norm (JList (map JStr ys)) \<longleftrightarrow> xs = ys"
  by (simp add: comp_def inj_map_eq_map inj_def)

subsection \<open>The interface and its consequence\<close>

fun linked :: "('e \<Rightarrow> string) \<Rightarrow> ('e \<Rightarrow> string) \<Rightarrow> string \<Rightarrow> 'e list \<Rightarrow> string \<Rightarrow> bool" where
  "linked prev sha h [] t \<longleftrightarrow> h = t"
| "linked prev sha h (e # es) t \<longleftrightarrow> prev e = h \<and> linked prev sha (sha e) es t"

lemma linked_append: "linked prev sha h (es @ fs) t \<longleftrightarrow> (\<exists>m. linked prev sha h es m \<and> linked prev sha m fs t)"
  by (induction es arbitrary: h) auto

lemma linked_snoc: "linked prev sha h (es @ [e]) t \<longleftrightarrow> linked prev sha h es (prev e) \<and> t = sha e"
  by (auto simp: linked_append)

locale hashed_record =
  fixes link_sha :: "'e \<Rightarrow> string"
    and link_body :: "'e \<Rightarrow> json"
    and link_ok :: "'e \<Rightarrow> bool"
  assumes link_digest: "link_ok e \<Longrightarrow> link_sha e = canonical_sha256 (link_body e)"
    and link_inj: "link_ok e \<Longrightarrow> link_ok f \<Longrightarrow> json_norm (link_body e) = json_norm (link_body f) \<Longrightarrow> e = f"
begin

lemma same_digest:
  assumes "link_ok e" "link_ok f" "link_sha e = link_sha f" "link_body e \<in> set vs" "link_body f \<in> set vs"
  shows "e = f \<or> collides vs"
  using sha_eq_norm [of "link_body e" "link_body f" vs] assms link_digest link_inj by metis

end

locale hash_linked = hashed_record link_sha link_body link_ok
  for link_sha :: "'e \<Rightarrow> string" and link_body and link_ok +
  fixes link_prev :: "'e \<Rightarrow> string"
begin

lemma log_bound_from:
  assumes "linked link_prev link_sha h es t" "linked link_prev link_sha h' fs t"
    and "length es = length fs" "list_all link_ok es" "list_all link_ok fs"
  shows "es = fs \<or> collides (map link_body (es @ fs))"
  using assms
proof (induction es arbitrary: fs t rule: rev_induct)
  case (snoc e es)
  from snoc.prems(3) obtain f fs' where fs: "fs = fs' @ [f]" by (cases fs rule: rev_cases) auto
  let ?vs = "map link_body ((es @ [e]) @ fs)"
  have "e = f \<or> collides ?vs"
    using snoc.prems fs by (intro same_digest) (auto simp: linked_snoc)
  moreover have "es = fs' \<or> collides (map link_body (es @ fs'))" if "e = f"
    using snoc.IH [of "link_prev e" fs'] snoc.prems fs that by (auto simp: linked_snoc)
  ultimately show ?case
    using fs collides_mono [of "map link_body (es @ fs')" ?vs] by auto
qed auto

end

subsection \<open>Contracts and causal events are bound by their digests\<close>

lemma ports_norm: "list_all valid_port ps \<Longrightarrow> map json_norm ps = ps"
  by (rule map_idI) (metis list_all_iff json_norm.simps(5) valid_port.elims(2))

lemma scope_item_norm: "scope_item k i = Inr w \<Longrightarrow> json_norm w = w"
  unfolding scope_item_def
  by (auto simp: rbind_eq_Inr if_Inl_eq_Inr Let_def ports_norm comp_def simp del: rmap.simps
      split: if_splits json.splits list.splits)

lemma wf_scope_norm:
  assumes "wf_scope ct s"
  shows "json_norm (JObj s) = JObj s"
proof -
  note shape = validate_scope_shape [OF assms [unfolded wf_scope_def]]
  have "map (\<lambda>(k, v). (k, json_norm v)) s = s"
    by (rule map_idI) (use shape(2) scope_item_norm in fastforce)
  then show ?thesis
    using shape(1) by (simp add: sort_key_id_if_sorted)
qed

lemma cc_fields_inj:
  assumes "wf_contract c" "wf_contract d"
    and same: "\<And>k. json_norm (dget (cc_body c) k) = json_norm (dget (cc_body d) k)"
  shows "c = d"
proof -
  have body: "dget (cc_body x) k = dget (cc_body x @ [(''contract_sha256'', JNull)]) k" for x k
    by (simp add: dget_def map_add_def split: option.splits)
  note eq = same [unfolded body]
  have "cc_capability_id c = cc_capability_id d" using eq [of "''capability_id''"] by (simp add: cc_dget)
  moreover have ct: "cc_capability_type c = cc_capability_type d"
    using eq [of "''capability_type''"] by (simp add: cc_dget)
  moreover have "cc_subject_id c = cc_subject_id d" using eq [of "''subject_id''"] by (simp add: cc_dget)
  moreover have "cc_issuer_id c = cc_issuer_id d" using eq [of "''issuer_id''"] by (simp add: cc_dget)
  moreover have "cc_scope c = cc_scope d"
  proof -
    have "json_norm (JObj (cc_scope c)) = json_norm (JObj (cc_scope d))"
      using eq [of "''scope''"] by (simp only: cc_dget)
    then show ?thesis
      using assms(1,2) wf_scope_norm unfolding wf_contract_def by (metis json.inject(5))
  qed
  moreover have "cc_issued_at_unix c = cc_issued_at_unix d"
    using eq [of "''issued_at_unix''"] by (simp add: cc_dget)
  moreover have "cc_not_before_unix c = cc_not_before_unix d"
    using eq [of "''not_before_unix''"] by (simp add: cc_dget)
  moreover have "cc_expires_at_unix c = cc_expires_at_unix d"
    using eq [of "''expires_at_unix''"] by (simp add: cc_dget)
  moreover have "cc_max_uses c = cc_max_uses d" using eq [of "''max_uses''"] by (simp add: cc_dget)
  moreover have "cc_delegable c = cc_delegable d" using eq [of "''delegable''"] by (simp add: cc_dget)
  moreover have "cc_parent_capability_id c = cc_parent_capability_id d"
    using eq [of "''parent_capability_id''"] by (simp add: cc_dget)
  moreover have "cc_policy_sha256 c = cc_policy_sha256 d" using eq [of "''policy_sha256''"] by (simp add: cc_dget)
  ultimately have rest: "cc_body c = cc_body d" "c\<lparr>cc_contract_sha256 := []\<rparr> = d\<lparr>cc_contract_sha256 := []\<rparr>"
    by (simp_all add: cc_body_def)
  from rest(1) have "cc_contract_sha256 c = cc_contract_sha256 d"
    using assms(1,2) by (simp only: wf_contract_def)
  with rest(2) show ?thesis by (metis capability_contract.surjective capability_contract.update_convs(13))
qed

lemma cc_body_inj:
  assumes "wf_contract c" "wf_contract d" "json_norm (JObj (cc_body c)) = json_norm (JObj (cc_body d))"
  shows "c = d"
  using cc_fields_inj [OF assms(1,2)] json_norm_dget [OF assms(3)] by blast

lemma cc_as_document_inj:
  assumes "wf_contract c" "wf_contract d" "json_norm (cc_as_document c) = json_norm (cc_as_document d)"
  shows "c = d"
proof (rule cc_fields_inj [OF assms(1,2)])
  fix k
  have "dget (cc_body x) k = (if k = ''contract_sha256'' then JNull else dget (cc_body x @ [(''contract_sha256'', v)]) k)" for x v
    by (simp add: dget_def map_add_def cc_body_def)
  with json_norm_dget [OF assms(3) [unfolded cc_as_document_def], of k]
  show "json_norm (dget (cc_body c) k) = json_norm (dget (cc_body d) k)" by metis
qed

lemma ce_body_inj:
  assumes "wf_event e" "wf_event f" and norm: "json_norm (JObj (ce_body e)) = json_norm (JObj (ce_body f))"
  shows "e = f"
proof -
  have body: "dget (ce_body x) k = dget (ce_body x @ [(''event_sha256'', JNull)]) k" for x k
    by (simp add: dget_def map_add_def split: option.splits)
  note eq = json_norm_dget [OF norm, unfolded body]
  have "ce_event_id e = ce_event_id f" using eq [of "''event_id''"] by (simp add: ce_dget)
  moreover have "ce_event_type e = ce_event_type f" using eq [of "''event_type''"] by (simp add: ce_dget)
  moreover have "ce_subject_id e = ce_subject_id f" using eq [of "''subject_id''"] by (simp add: ce_dget)
  moreover have "ce_capability_id e = ce_capability_id f" using eq [of "''capability_id''"] by (simp add: ce_dget)
  moreover have "ce_recorder_event_id e = ce_recorder_event_id f"
    using eq [of "''recorder_event_id''"] by (simp add: ce_dget)
  moreover have "ce_recorder_entry_sha256 e = ce_recorder_entry_sha256 f"
    using eq [of "''recorder_entry_sha256''"] by (simp add: ce_dget)
  moreover have "ce_effect e = ce_effect f" using eq [of "''effect''"] by (simp add: ce_dget)
  moreover have "ce_decision e = ce_decision f" using eq [of "''decision''"] by (simp add: ce_dget)
  moreover have "ce_observed_at_unix e = ce_observed_at_unix f"
    using eq [of "''observed_at_unix''"] by (simp add: ce_dget)
  moreover have "ce_previous_causal_event_sha256 e = ce_previous_causal_event_sha256 f"
    using eq [of "''previous_causal_event_sha256''"] by (simp add: ce_dget)
  moreover have "ce_input_sha256 e = ce_input_sha256 f" using eq [of "''input_sha256''"] by (simp add: ce_dget)
  moreover have "ce_output_sha256 e = ce_output_sha256 f" using eq [of "''output_sha256''"] by (simp add: ce_dget)
  moreover have "ce_reason_codes e = ce_reason_codes f"
    using eq [of "''reason_codes''"] by (simp add: ce_dget del: json_norm.simps)
  moreover have "ce_event_sha256 e = ce_event_sha256 f"
  proof -
    from assms(1,2) norm_same_sha [OF norm] show ?thesis by (simp only: wf_event_def)
  qed
  ultimately show ?thesis by simp
qed

interpretation contract_digest: hashed_record cc_contract_sha256 "\<lambda>c. JObj (cc_body c)" wf_contract
  by unfold_locales (simp only: wf_contract_def, rule cc_body_inj)

interpretation causal_log: hash_linked ce_event_sha256 "\<lambda>e. JObj (ce_body e)" wf_event
    ce_previous_causal_event_sha256
  by unfold_locales (simp only: wf_event_def, rule ce_body_inj)

end
