(* ===== verification/Broker_Facts.thy ===== *)
theory Broker_Facts
  imports Capability_Broker Hash_Chain
begin

section \<open>Correctness of the capability broker\<close>

text \<open>
  The invariant \<open>wf_broker\<close> (keys and contracts agree, uses stay within bounds, the event log is
  hash-linked up to the head, receipts carry their digests), its preservation by every method, the
  evolution order on lifecycle states, and what an authorization does on each branch.
\<close>

subsection \<open>Building an event\<close>

definition seal_event :: "causal_event \<Rightarrow> causal_event" where
  "seal_event e = e\<lparr>ce_event_sha256 := canonical_sha256 (JObj (ce_body e))\<rparr>"

lemma ce_body_seal [simp]: "ce_body (seal_event e) = ce_body e"
  by (simp add: seal_event_def ce_body_def)

lemma ce_build_record:
  "ce_build
     [(''event_id'', JStr (ce_event_id e)), (''event_type'', JStr (ce_event_type e)),
      (''subject_id'', JStr (ce_subject_id e)), (''capability_id'', jopt (ce_capability_id e)),
      (''recorder_event_id'', jopt (ce_recorder_event_id e)),
      (''recorder_entry_sha256'', jopt (ce_recorder_entry_sha256 e)),
      (''effect'', JStr (ce_effect e)), (''decision'', JStr (ce_decision e)),
      (''observed_at_unix'', JInt (ce_observed_at_unix e)),
      (''previous_causal_event_sha256'', JStr (ce_previous_causal_event_sha256 e)),
      (''input_sha256'', JStr (ce_input_sha256 e)), (''output_sha256'', jopt (ce_output_sha256 e)),
      (''reason_codes'', JList (map JStr (ce_reason_codes e)))]
   = ce_from_document (ce_as_document (seal_event e))"
  by (simp add: ce_build_def dmerge_def ce_as_document_def Let_def)
    (simp add: ce_body_def seal_event_def)

lemma c_optional_ident_jopt: "c_optional c_identifier (jopt x) n = Inr y \<longleftrightarrow> y = x \<and> (case x of None \<Rightarrow> True | Some p \<Rightarrow> ident_re p)"
  by (auto simp: c_optional_Inr c_identifier_Inr jopt_def split: option.splits)

lemma ce_from_document_fields:
  assumes "ce_from_document (ce_as_document e) = Inr f" "is_sha256 (ce_previous_causal_event_sha256 e)"
  shows "ce_event_id f = ce_event_id e \<and> ce_event_type f = ce_event_type e \<and>
    ce_subject_id f = ce_subject_id e \<and> ce_capability_id f = ce_capability_id e \<and>
    ce_decision f = ce_decision e \<and> ce_observed_at_unix f = ce_observed_at_unix e \<and>
    ce_previous_causal_event_sha256 f = ce_previous_causal_event_sha256 e"
  using assms unfolding ce_from_document_def ce_as_document_def
  by (clarsimp simp: rbind_eq_Inr if_Inl_eq_Inr Let_def ce_dget c_identifier_Inr c_string_Inr c_time_Inr
      c_optional_ident_jopt field_ok_rules(3) simp del: set_append list.set not_None_eq)

lemma b_event_cases:
  assumes "b_event ty subj cid ct dec at_unix inp out rs rid rsha b = (r, b')" "is_sha256 (b_head b)"
  obtains (error) err where "r = Inl err" "b' = b"
  | (logged) ev where "r = Inr ev" "b' = b\<lparr>b_events := b_events b @ [ev], b_head := ce_event_sha256 ev\<rparr>"
      "wf_event ev" "ce_previous_causal_event_sha256 ev = b_head b" "ce_event_type ev = ty"
      "ce_capability_id ev = Some cid" "ce_subject_id ev = subj" "ce_decision ev = dec"
      "ce_observed_at_unix ev = at_unix"
      "ce_event_id ev = ''broker-event:'' @ nat_str (length (b_events b) + 1)"
proof -
  let ?e = "\<lparr>ce_event_id = ''broker-event:'' @ nat_str (length (b_events b) + 1), ce_event_type = ty,
      ce_subject_id = subj, ce_capability_id = Some cid, ce_recorder_event_id = rid,
      ce_recorder_entry_sha256 = rsha, ce_effect = effect_for ct, ce_decision = dec,
      ce_observed_at_unix = at_unix, ce_previous_causal_event_sha256 = b_head b, ce_input_sha256 = inp,
      ce_output_sha256 = out, ce_reason_codes = rs, ce_event_sha256 = []\<rparr>"
  have build: "b_event ty subj cid ct dec at_unix inp out rs rid rsha b =
      (case ce_from_document (ce_as_document (seal_event ?e)) of Inl e \<Rightarrow> (Inl e, b)
       | Inr ev \<Rightarrow> (Inr ev, b\<lparr>b_events := b_events b @ [ev], b_head := ce_event_sha256 ev\<rparr>))"
    using ce_build_record [of ?e] by (simp add: b_event_def jopt_def)
  show thesis
  proof (cases "ce_from_document (ce_as_document (seal_event ?e))")
    case (Inl err)
    with build assms(1) error show thesis by simp
  next
    case (Inr ev)
    then have "wf_event ev" by (rule ce_from_document_wf)
    moreover have "ce_event_id ev = ce_event_id ?e \<and> ce_event_type ev = ty \<and> ce_subject_id ev = subj \<and>
        ce_capability_id ev = Some cid \<and> ce_decision ev = dec \<and> ce_observed_at_unix ev = at_unix \<and>
        ce_previous_causal_event_sha256 ev = b_head b"
      using ce_from_document_fields [OF Inr] assms(2) by (simp add: seal_event_def)
    ultimately show thesis
      using build assms(1) Inr by (intro logged [of ev]) simp_all
  qed
qed

subsection \<open>Capacity of the log\<close>

text \<open>An event id is an identifier of at most 192 characters, so the broker can number its events
  as long as the counter has at most 179 digits.\<close>

definition log_capacity :: "broker \<Rightarrow> nat \<Rightarrow> bool" where
  "log_capacity b n \<longleftrightarrow> length (b_events b) + n < 10 ^ 179"

lemma length_nat_str: "n < 10 ^ k \<Longrightarrow> 0 < k \<Longrightarrow> length (nat_str n) \<le> k"
proof (induction n arbitrary: k rule: nat_str.induct)
  case (1 n)
  show ?case
  proof (cases "n < 10")
    case True
    with "1.prems" show ?thesis by (simp add: nat_str.simps)
  next
    case False
    with "1.prems" have "1 < k"
      by (metis One_nat_def Suc_lessI power_one_right)
    moreover have "n div 10 < 10 ^ (k - 1)"
      using "1.prems" \<open>1 < k\<close> by (simp add: less_mult_imp_div_less power_eq_if)
    ultimately have "length (nat_str (n div 10)) \<le> k - 1"
      using "1.IH" False by simp
    with False \<open>1 < k\<close> show ?thesis by (simp add: nat_str.simps [of n])
  qed
qed

lemma is_digit_alnum: "is_digit c \<Longrightarrow> is_alnum c"
  by (auto simp: is_digit_def is_alnum_def)

lemma event_id_ident:
  assumes "n < 10 ^ 179"
  shows "ident_re (''broker-event:'' @ nat_str n)"
proof -
  have "length (nat_str n) \<le> 179" by (rule length_nat_str [OF assms]) simp
  moreover have "list_all is_alnum (nat_str n)"
    using nat_str_digits [of n] by (auto simp: list_all_iff is_digit_alnum)
  ultimately show ?thesis
    by (auto simp: list_all_iff is_alnum_def is_alpha_def)
qed

lemma effect_for_EFFECTS: "effect_for ct \<in> set EFFECTS"
  by (simp add: effect_for_def EFFECTS_def)

lemma b_event_ok:
  assumes "is_sha256 (b_head b)" "log_capacity b 1" "ident_re subj" "ident_re cid"
    and "ty \<in> set CAPABILITY_EVENTS" "dec \<in> set DECISIONS" "0 \<le> at_unix" "is_sha256 inp"
    and "case out of None \<Rightarrow> True | Some p \<Rightarrow> is_sha256 p"
    and "rs \<noteq> []" "sorted rs" "distinct rs" "list_all ident_re rs"
    and "case rid of None \<Rightarrow> True | Some p \<Rightarrow> ident_re p" "case rsha of None \<Rightarrow> True | Some p \<Rightarrow> is_sha256 p"
    and "(rid = None) = (rsha = None)"
  shows "\<exists>ev. b_event ty subj cid ct dec at_unix inp out rs rid rsha b =
      (Inr ev, b\<lparr>b_events := b_events b @ [ev], b_head := ce_event_sha256 ev\<rparr>)"
proof -
  let ?e = "\<lparr>ce_event_id = ''broker-event:'' @ nat_str (length (b_events b) + 1), ce_event_type = ty,
      ce_subject_id = subj, ce_capability_id = Some cid, ce_recorder_event_id = rid,
      ce_recorder_entry_sha256 = rsha, ce_effect = effect_for ct, ce_decision = dec,
      ce_observed_at_unix = at_unix, ce_previous_causal_event_sha256 = b_head b, ce_input_sha256 = inp,
      ce_output_sha256 = out, ce_reason_codes = rs, ce_event_sha256 = []\<rparr>"
  have event_id: "ident_re (''broker-event:'' @ nat_str (length (b_events b) + 1))"
    using assms(2) unfolding log_capacity_def by (rule event_id_ident)
  have "wf_event (seal_event ?e)"
    unfolding wf_event_def ce_body_seal using assms event_id effect_for_EFFECTS [of ct]
    by (simp add: seal_event_def del: not_None_eq ident_re.simps)
  from ce_roundtrip [OF this] show ?thesis
    using ce_build_record [of ?e] by (intro exI [of _ "seal_event ?e"]) (simp add: b_event_def jopt_def)
qed

subsection \<open>The invariant\<close>

definition state_ok :: "string \<Rightarrow> cap_state \<Rightarrow> bool" where
  "state_ok k st \<longleftrightarrow> k = cc_capability_id (st_contract st) \<and> wf_contract (st_contract st) \<and>
     0 \<le> st_use_count st \<and> st_use_count st \<le> cc_max_uses (st_contract st)"

definition wf_receipt :: "decision_receipt \<Rightarrow> bool" where
  "wf_receipt r \<longleftrightarrow> dr_receipt_sha256 r = canonical_sha256 (JObj (dr_body r))"

definition wf_broker :: "broker \<Rightarrow> bool" where
  "wf_broker b \<longleftrightarrow>
     distinct (map fst (b_states b)) \<and> (\<forall>(k, st) \<in> set (b_states b). state_ok k st) \<and>
     is_sha256 (b_head b) \<and> list_all wf_event (b_events b) \<and>
     linked ce_previous_causal_event_sha256 ce_event_sha256 ZERO_SHA256 (b_events b) (b_head b) \<and>
     list_all wf_receipt (b_receipts b)"

lemma set_AList_update: "p \<in> set (AList.update k v al) \<Longrightarrow> p = (k, v) \<or> p \<in> set al"
  by (induction al) (auto split: if_splits)

lemma wf_put_state: "wf_broker b \<Longrightarrow> state_ok k st \<Longrightarrow> wf_broker (put_state k st b)"
  by (auto simp: wf_broker_def put_state_def distinct_update dest!: set_AList_update)

lemma map_of_state_ok: "wf_broker b \<Longrightarrow> map_of (b_states b) k = Some st \<Longrightarrow> state_ok k st"
  by (auto simp: wf_broker_def dest: map_of_SomeD)

lemma state_ok_new: "wf_contract c \<Longrightarrow> state_ok (cc_capability_id c) (new_state c)"
  by (auto simp: state_ok_def new_state_def wf_contract_def)

lemma ineligible_Nil: "ineligible st pol sc t = [] \<longleftrightarrow>
    st_status st = Active \<and> cc_not_before_unix (st_contract st) \<le> t \<and> t < cc_expires_at_unix (st_contract st) \<and>
    cc_policy_sha256 (st_contract st) = pol \<and> st_use_count st < cc_max_uses (st_contract st) \<and>
    scope_contains (cc_capability_type (st_contract st)) (cc_scope (st_contract st)) sc"
  by (auto simp: ineligible_def Let_def)

subsection \<open>The primitive steps of the broker\<close>

text \<open>
  Every method is a sequence of these steps: a contract enters, an active capability is closed, a use
  is counted (with its event, or without one when building the event raises), an event of another
  type or a receipt is recorded. Invariants are proved once per step.
\<close>

definition log_event :: "causal_event \<Rightarrow> broker \<Rightarrow> broker" where
  "log_event ev b = b\<lparr>b_events := b_events b @ [ev], b_head := ce_event_sha256 ev\<rparr>"

definition linkable :: "broker \<Rightarrow> causal_event \<Rightarrow> bool" where
  "linkable b ev \<longleftrightarrow> wf_event ev \<and> ce_previous_causal_event_sha256 ev = b_head b"

inductive bstep :: "broker \<Rightarrow> broker \<Rightarrow> bool" where
  grant: "wf_contract c \<Longrightarrow> map_of (b_states b) (cc_capability_id c) = None \<Longrightarrow> validate_parent b c = Inr () \<Longrightarrow>
    bstep b (put_state (cc_capability_id c) (new_state c) b)"
| close: "map_of (b_states b) k = Some st \<Longrightarrow> st_status st = Active \<Longrightarrow> status \<noteq> Active \<Longrightarrow>
    bstep b (put_state k (st\<lparr>st_status := status, st_revoked_at_unix := r, st_expired_at_unix := x\<rparr>) b)"
| use: "map_of (b_states b) k = Some st \<Longrightarrow> ineligible st pol sc t = [] \<Longrightarrow> linkable b ev \<Longrightarrow>
    ce_event_type ev = ''use'' \<Longrightarrow> ce_capability_id ev = Some k \<Longrightarrow> ce_subject_id ev = cc_subject_id (st_contract st) \<Longrightarrow>
    bstep b (log_event ev (put_state k (st\<lparr>st_use_count := st_use_count st + 1\<rparr>) b))"
| burn: "map_of (b_states b) k = Some st \<Longrightarrow> ineligible st pol sc t = [] \<Longrightarrow>
    bstep b (put_state k (st\<lparr>st_use_count := st_use_count st + 1\<rparr>) b)"
| note_event: "linkable b ev \<Longrightarrow> ce_event_type ev \<noteq> ''use'' \<Longrightarrow> bstep b (log_event ev b)"
| receipt: "wf_receipt r \<Longrightarrow> bstep b (b\<lparr>b_receipts := b_receipts b @ [r]\<rparr>)"

abbreviation bsteps :: "broker \<Rightarrow> broker \<Rightarrow> bool" where
  "bsteps \<equiv> bstep\<^sup>*\<^sup>*"

lemma wf_log_event: "wf_broker b \<Longrightarrow> linkable b ev \<Longrightarrow> wf_broker (log_event ev b)"
  by (auto simp: wf_broker_def linkable_def log_event_def linked_snoc wf_event_def)

lemma linkable_put_state [simp]: "linkable (put_state k st b) ev = linkable b ev"
  by (simp add: linkable_def put_state_def)

lemma wf_bstep: "bstep b b' \<Longrightarrow> wf_broker b \<Longrightarrow> wf_broker b'"
proof (induction rule: bstep.induct)
  case (grant c b)
  then show ?case by (intro wf_put_state state_ok_new)
next
  case (close b k st status r x)
  then show ?case by (intro wf_put_state) (use map_of_state_ok in \<open>fastforce simp: state_ok_def\<close>)+
next
  case (use b k st pol sc t ev)
  then show ?case
    by (intro wf_log_event wf_put_state) (use map_of_state_ok in \<open>fastforce simp: state_ok_def ineligible_Nil\<close>)+
next
  case (burn b k st pol sc t)
  then show ?case
    by (intro wf_put_state) (use map_of_state_ok in \<open>fastforce simp: state_ok_def ineligible_Nil\<close>)+
next
  case (note_event b ev)
  then show ?case by (intro wf_log_event)
next
  case (receipt r b)
  then show ?case by (simp add: wf_broker_def)
qed

lemma wf_bsteps: "bsteps b b' \<Longrightarrow> wf_broker b \<Longrightarrow> wf_broker b'"
  by (induction rule: rtranclp_induct) (auto intro: wf_bstep)

subsection \<open>Every method is a sequence of steps\<close>

lemma steps_b_event:
  assumes "wf_broker b" "b_event ty subj cid ct dec at_unix inp out rs rid rsha b = (r, b')" "ty \<noteq> ''use''"
  shows "bsteps b b'"
proof (rule b_event_cases [OF assms(2)])
  show "is_sha256 (b_head b)" using assms(1) by (simp add: wf_broker_def)
next
  fix ev
  assume ev: "wf_event ev" "ce_previous_causal_event_sha256 ev = b_head b" "ce_event_type ev = ty"
    and b': "b' = b\<lparr>b_events := b_events b @ [ev], b_head := ce_event_sha256 ev\<rparr>"
  then have "bstep b (log_event ev b)"
    using assms(3) by (intro note_event) (simp_all add: linkable_def)
  with b' show "bsteps b b'" by (simp add: log_event_def)
qed simp

lemma steps_b_receipt:
  "b_receipt cid subj ct pol act sc dec rs at_unix before after ev b = (r, b') \<Longrightarrow> bsteps b b'"
  by (auto simp: b_receipt_def Let_def wf_receipt_def dr_body_def intro!: r_into_rtranclp receipt)

lemma steps_b_lifecycle:
  assumes "wf_broker b" "b_lifecycle st ty dec rs at_unix b = (r, b')" "ty \<noteq> ''use''"
  shows "bsteps b b'"
  using assms
  by (auto simp: b_lifecycle_def Let_def obind_cases intro: steps_b_event rtranclp_trans steps_b_receipt)

lemma step_then_lifecycle:
  assumes "wf_broker b" "bstep b c" "b_lifecycle st ty dec rs at_unix c = (r, b')" "ty \<noteq> ''use''"
  shows "bsteps b b'"
  using assms steps_b_lifecycle wf_bstep by (meson converse_rtranclp_into_rtranclp)

lemma steps_b_admit:
  assumes wf: "wf_broker b" and run: "b_admit doc at_unix b = (r, b')"
  shows "bsteps b b'"
proof -
  consider (same) "b' = b" | (again) st where "b_lifecycle st ''grant'' ''ALLOW'' [''already_admitted''] at_unix b = (r, b')"
    | (new) c where "cc_from_document (JObj doc) = Inr c" "map_of (b_states b) (cc_capability_id c) = None"
      "validate_parent b c = Inr ()"
      "b_lifecycle (new_state c) ''grant'' ''ALLOW'' [''capability_admitted''] at_unix
         (put_state (cc_capability_id c) (new_state c) b) = (r, b')"
    using run by (force simp: b_admit_def obind_cases split: option.splits if_splits sum.splits)
  then show ?thesis
  proof cases
    case again
    with wf show ?thesis by (auto intro: steps_b_lifecycle)
  next
    case new
    then have "bstep b (put_state (cc_capability_id c) (new_state c) b)"
      by (intro bstep.grant cc_from_document_wf)
    with new wf show ?thesis by (auto intro: step_then_lifecycle)
  qed simp
qed

lemma pick_candidate_Some:
  "pick_candidate pol sc t sts acc = (acc', Some st) \<Longrightarrow> st \<in> set sts \<and> ineligible st pol sc t = []"
  by (induction sts arbitrary: acc) (auto simp: Let_def split: if_splits)

lemma candidate_lookup:
  assumes "wf_broker b" "st \<in> set (candidates b subj ct)"
  shows "map_of (b_states b) (cc_capability_id (st_contract st)) = Some st"
    "cc_subject_id (st_contract st) = subj" "cc_capability_type (st_contract st) = ct"
proof -
  from assms(2) obtain k where k: "(k, st) \<in> set (b_states b)" and other: "cc_subject_id (st_contract st) = subj"
      "cc_capability_type (st_contract st) = ct"
    by (auto simp: candidates_def)
  from k assms(1) have "k = cc_capability_id (st_contract st)" "distinct (map fst (b_states b))"
    by (auto simp: wf_broker_def state_ok_def)
  with k show "map_of (b_states b) (cc_capability_id (st_contract st)) = Some st" by simp
  show "cc_subject_id (st_contract st) = subj" "cc_capability_type (st_contract st) = ct" by fact+
qed

lemma steps_b_allow:
  assumes wf: "wf_broker b" and look: "map_of (b_states b) (cc_capability_id (st_contract st)) = Some st"
    and elig: "ineligible st pol sc t = []" and subj: "cc_subject_id (st_contract st) = rq_subject_id rq"
    and run: "b_allow rq scope st b = (r, b')"
  shows "bsteps b b'"
proof -
  let ?k = "cc_capability_id (st_contract st)"
  let ?b = "put_state ?k (st\<lparr>st_use_count := st_use_count st + 1\<rparr>) b"
  from run obtain o1 b1 where
    event: "b_event ''use'' (rq_subject_id rq) ?k (rq_capability_type rq) ''ALLOW'' (rq_at_unix rq)
       (canonical_sha256 (JObj (rq_action rq))) (Some (cc_contract_sha256 (st_contract st)))
       [''capability_scope_match'', ''policy_match'', ''use_committed''] (rq_recorder_event_id rq)
       (rq_recorder_entry_sha256 rq) ?b = (o1, b1)" and rest: "bsteps b1 b'"
    by (auto simp: b_allow_def Let_def obind_cases intro: steps_b_receipt)
  have "bstep b b1"
  proof (rule b_event_cases [OF event])
    show "is_sha256 (b_head ?b)" using wf by (simp add: wf_broker_def put_state_def)
  next
    show "b1 = ?b \<Longrightarrow> bstep b b1" using look elig by (simp add: bstep.burn)
  next
    fix ev
    assume "b1 = ?b\<lparr>b_events := b_events ?b @ [ev], b_head := ce_event_sha256 ev\<rparr>" "wf_event ev"
      "ce_previous_causal_event_sha256 ev = b_head ?b" "ce_event_type ev = ''use''" "ce_capability_id ev = Some ?k"
      "ce_subject_id ev = rq_subject_id rq"
    moreover from this have "bstep b (log_event ev ?b)"
      by (intro bstep.use [OF look elig]) (simp_all add: linkable_def put_state_def subj)
    ultimately show "bstep b b1" by (simp add: log_event_def)
  qed
  with rest show ?thesis by (rule converse_rtranclp_into_rtranclp [rotated])
qed

lemma steps_b_deny: "wf_broker b \<Longrightarrow> b_deny rq scope rs b = (r, b') \<Longrightarrow> bsteps b b'"
  by (auto simp: b_deny_def Let_def obind_cases intro: steps_b_event rtranclp_trans steps_b_receipt)

lemma steps_b_authorize:
  assumes wf: "wf_broker b" and run: "b_authorize rq b = (r, b')"
  shows "bsteps b b'"
proof -
  consider (same) "b' = b" | (deny) sc rs where "b_deny rq sc rs b = (r, b')"
    | (allow) sc acc st where "pick_candidate (rq_policy_sha256 rq) sc (rq_at_unix rq)
        (candidates b (rq_subject_id rq) (rq_capability_type rq)) [] = (acc, Some st)" "b_allow rq sc st b = (r, b')"
    using run by (auto simp: b_authorize_def split: if_splits sum.splits prod.splits option.splits)
  then show ?thesis
  proof cases
    case allow
    note pick = pick_candidate_Some [OF allow(1)]
    with candidate_lookup [OF wf conjunct1 [OF pick]] allow(2) wf show ?thesis
      by (blast intro: steps_b_allow)
  qed (auto intro: steps_b_deny [OF wf])
qed

lemma steps_b_revoke:
  assumes wf: "wf_broker b" and run: "b_revoke cid at_unix b = (r, b')"
  shows "bsteps b b'"
proof -
  consider (same) "b' = b" | (closed) st rs where "b_lifecycle st ''revoke'' ''BLOCK'' rs at_unix b = (r, b')"
    | (active) st where "map_of (b_states b) cid = Some st" "st_status st = Active"
      "b_lifecycle (st\<lparr>st_status := Revoked, st_revoked_at_unix := Some at_unix\<rparr>) ''revoke'' ''ALLOW''
         [''explicit_revoke''] at_unix
         (put_state cid (st\<lparr>st_status := Revoked, st_revoked_at_unix := Some at_unix\<rparr>) b) = (r, b')"
    using run by (auto simp: b_revoke_def obind_cases Let_def split: option.splits if_splits)
  then show ?thesis
  proof cases
    case active
    then have "bstep b (put_state cid (st\<lparr>st_status := Revoked, st_revoked_at_unix := Some at_unix\<rparr>) b)"
      using bstep.close [where k = cid and st = st and b = b and status = Revoked and r = "Some at_unix"
        and x = "st_expired_at_unix st"] by simp
    with active wf show ?thesis by (auto intro: step_then_lifecycle)
  qed (auto intro: steps_b_lifecycle [OF wf])
qed

lemma steps_b_expire_loop: "wf_broker b \<Longrightarrow> b_expire_loop at_unix cids b = (r, b') \<Longrightarrow> bsteps b b'"
proof (induction cids arbitrary: b r)
  case (Cons cid cids)
  show ?case
  proof (cases "\<exists>st. map_of (b_states b) cid = Some st \<and> st_status st = Active \<and>
      at_unix \<ge> cc_expires_at_unix (st_contract st)")
    case True
    then obtain st where st: "map_of (b_states b) cid = Some st" "st_status st = Active"
      "at_unix \<ge> cc_expires_at_unix (st_contract st)" by blast
    let ?st = "st\<lparr>st_status := Expired, st_expired_at_unix := Some at_unix\<rparr>"
    have first: "bstep b (put_state cid ?st b)"
      using bstep.close [where k = cid and st = st and b = b and status = Expired and x = "Some at_unix"
        and r = "st_revoked_at_unix st"] st by simp
    from Cons.prems(2) st obtain o1 b1 where
      life: "b_lifecycle ?st ''expire'' ''ALLOW'' [''ttl_expired''] at_unix (put_state cid ?st b) = (o1, b1)"
      and rest: "b1 = b' \<or> (\<exists>r'. b_expire_loop at_unix cids b1 = (r', b'))"
      by (auto simp: obind_cases Let_def)
    have "bsteps b b1"
      using step_then_lifecycle [OF Cons.prems(1) first life] by simp
    then show ?thesis
      using rest Cons.IH [of b1] wf_bsteps [OF _ Cons.prems(1)] by (meson rtranclp_trans)
  next
    case False
    with Cons show ?thesis by (auto split: option.splits if_splits)
  qed
qed simp

lemma steps_b_expire_due: "wf_broker b \<Longrightarrow> b_expire_due at_unix b = (r, b') \<Longrightarrow> bsteps b b'"
  by (auto simp: b_expire_due_def obind_cases intro: steps_b_expire_loop)

subsection \<open>Runs of a broker\<close>

datatype broker_call =
    Admit "(string \<times> json) list" int
  | Authorize authz_request
  | Revoke string int
  | ExpireDue int

fun broker_exec :: "broker_call \<Rightarrow> broker \<Rightarrow> broker" where
  "broker_exec (Admit doc t) b = snd (b_admit doc t b)"
| "broker_exec (Authorize rq) b = snd (b_authorize rq b)"
| "broker_exec (Revoke cid t) b = snd (b_revoke cid t b)"
| "broker_exec (ExpireDue t) b = snd (b_expire_due t b)"

inductive broker_reach :: "broker \<Rightarrow> bool" where
  init: "broker_init bid = Inr b \<Longrightarrow> broker_reach b"
| call: "broker_reach b \<Longrightarrow> broker_reach (broker_exec c b)"

lemma steps_broker_exec: "wf_broker b \<Longrightarrow> bsteps b (broker_exec c b)"
  by (cases c) (auto intro: steps_b_admit steps_b_authorize steps_b_revoke steps_b_expire_due
      simp: prod_eq_iff)

lemma wf_broker_init: "broker_init bid = Inr b \<Longrightarrow> wf_broker b"
  by (auto simp: broker_init_def wf_broker_def split: if_splits)

lemma reach_wf: "broker_reach b \<Longrightarrow> wf_broker b"
  by (induction rule: broker_reach.induct) (auto intro: wf_broker_init wf_bsteps steps_broker_exec)

text \<open>An invariant of every run: it holds of an empty broker and every step keeps it.\<close>

lemma reach_invariant:
  assumes reach: "broker_reach b"
    and init: "\<And>bid b. broker_init bid = Inr b \<Longrightarrow> P b"
    and step: "\<And>b b'. bstep b b' \<Longrightarrow> wf_broker b \<Longrightarrow> P b \<Longrightarrow> P b'"
  shows "P b"
proof -
  have along: "P b'" if "bsteps b b'" "wf_broker b" "P b" for b b'
    using that by (induction rule: rtranclp_induct) (auto intro: step wf_bsteps)
  from reach show ?thesis
    by (induction rule: broker_reach.induct) (auto intro: init along steps_broker_exec reach_wf)
qed

subsection \<open>Uses are bounded\<close>

definition uses :: "broker \<Rightarrow> string \<Rightarrow> nat" where
  "uses b k = length (filter (\<lambda>e. ce_event_type e = ''use'' \<and> ce_capability_id e = Some k) (b_events b))"

definition uses_counted :: "broker \<Rightarrow> bool" where
  "uses_counted b \<longleftrightarrow> (\<forall>k. case map_of (b_states b) k of
     None \<Rightarrow> uses b k = 0 | Some st \<Rightarrow> int (uses b k) \<le> st_use_count st)"

lemma uses_simps [simp]:
  "uses (put_state k' st b) k = uses b k"
  "uses (log_event ev b) k = uses b k + (if ce_event_type ev = ''use'' \<and> ce_capability_id ev = Some k then 1 else 0)"
  "uses (b\<lparr>b_receipts := rs\<rparr>) k = uses b k"
  by (simp_all add: uses_def put_state_def log_event_def)

lemma log_capacity_put_state [simp]: "log_capacity (put_state k st b) n = log_capacity b n"
  by (simp add: log_capacity_def put_state_def)

lemma states_simps [simp]:
  "map_of (b_states (put_state k' st b)) k = (if k = k' then Some st else map_of (b_states b) k)"
  "b_states (log_event ev b) = b_states b"
  by (simp_all add: put_state_def log_event_def update_conv')

lemma uses_counted_step: "bstep b b' \<Longrightarrow> uses_counted b \<Longrightarrow> uses_counted b'"
  unfolding uses_counted_def
  by (induction rule: bstep.induct) (force simp: new_state_def split: option.splits if_splits)+

lemma uses_counted_init: "broker_init bid = Inr b \<Longrightarrow> uses_counted b"
  by (auto simp: broker_init_def uses_counted_def uses_def split: if_splits)

lemma reach_uses: "broker_reach b \<Longrightarrow> uses_counted b"
  by (erule reach_invariant) (auto intro: uses_counted_init uses_counted_step)

subsection \<open>How a broker evolves\<close>

text \<open>Contracts never change, counters never decrease, a closed capability stays as it was closed, and
  the log and the receipts only grow.\<close>

definition state_evolves :: "cap_state \<Rightarrow> cap_state \<Rightarrow> bool" where
  "state_evolves st st' \<longleftrightarrow> st_contract st' = st_contract st \<and> st_use_count st \<le> st_use_count st' \<and>
     (st_status st \<noteq> Active \<longrightarrow> st' = st)"

definition evolves :: "broker \<Rightarrow> broker \<Rightarrow> bool" where
  "evolves b b' \<longleftrightarrow>
     (\<forall>k st. map_of (b_states b) k = Some st \<longrightarrow> (\<exists>st'. map_of (b_states b') k = Some st' \<and> state_evolves st st')) \<and>
     (\<exists>es. b_events b' = b_events b @ es) \<and> (\<exists>rs. b_receipts b' = b_receipts b @ rs) \<and>
     b_broker_id b' = b_broker_id b"

lemma state_evolves_refl [simp]: "state_evolves st st"
  by (simp add: state_evolves_def)

lemma evolves_refl: "evolves b b"
  by (auto simp: evolves_def)

lemma state_evolves_trans: "state_evolves a b \<Longrightarrow> state_evolves b c \<Longrightarrow> state_evolves a c"
  unfolding state_evolves_def by (metis order_trans)

lemma evolves_trans:
  assumes "evolves a b" "evolves b c"
  shows "evolves a c"
proof -
  have "\<exists>st''. map_of (b_states c) k = Some st'' \<and> state_evolves st st''" if "map_of (b_states a) k = Some st" for k st
    using assms that unfolding evolves_def by (meson state_evolves_trans)
  moreover have "(\<exists>es. b_events c = b_events a @ es) \<and> (\<exists>rs. b_receipts c = b_receipts a @ rs) \<and>
      b_broker_id c = b_broker_id a"
    using assms unfolding evolves_def by (metis append.assoc)
  ultimately show ?thesis unfolding evolves_def by blast
qed

lemma bstep_evolves: "bstep b b' \<Longrightarrow> evolves b b'"
  by (induction rule: bstep.induct)
    (auto simp: evolves_def state_evolves_def put_state_def log_event_def update_conv' ineligible_Nil)

lemma bsteps_evolves: "bsteps b b' \<Longrightarrow> evolves b b'"
  by (induction rule: rtranclp_induct) (auto intro: evolves_refl evolves_trans bstep_evolves)

lemma exec_evolves: "wf_broker b \<Longrightarrow> evolves b (fold broker_exec cs b)"
proof (induction cs arbitrary: b)
  case (Cons c cs)
  from Cons.prems have "evolves b (broker_exec c b)" "wf_broker (broker_exec c b)"
    by (auto intro: bsteps_evolves wf_bsteps steps_broker_exec)
  with Cons.IH show ?case by (auto intro: evolves_trans)
qed (simp add: evolves_refl)

subsection \<open>Delegation is inert in Phase 0\<close>

definition parentless :: "broker \<Rightarrow> bool" where
  "parentless b \<longleftrightarrow> (\<forall>k st. map_of (b_states b) k = Some st \<longrightarrow> cc_parent_capability_id (st_contract st) = None)"

lemma parentless_grant:
  assumes "parentless b" "wf_broker b" "validate_parent b c = Inr ()"
  shows "cc_parent_capability_id c = None"
proof (rule ccontr)
  assume "cc_parent_capability_id c \<noteq> None"
  then obtain p where p: "cc_parent_capability_id c = Some p" by blast
  then obtain st where st: "map_of (b_states b) p = Some st" "cc_delegable (st_contract st)"
    using assms(3) by (auto simp: validate_parent_def Let_def split: option.splits if_splits)
  from st(1) assms(2) have "wf_contract (st_contract st)"
    using map_of_state_ok by (auto simp: state_ok_def)
  then have "cc_parent_capability_id (st_contract st) \<noteq> None"
    using st(2) by (simp add: wf_contract_def del: not_None_eq)
  with st(1) assms(1) show False
    by (simp add: parentless_def)
qed

lemma parentless_step: "bstep b b' \<Longrightarrow> wf_broker b \<Longrightarrow> parentless b \<Longrightarrow> parentless b'"
proof (induction rule: bstep.induct)
  case (grant c b)
  with parentless_grant show ?case by (auto simp: parentless_def new_state_def)
qed (auto simp: parentless_def log_event_def put_state_def update_conv' split: if_splits)

lemma reach_parentless: "broker_reach b \<Longrightarrow> parentless b"
  by (erule reach_invariant)
    (auto simp: broker_init_def parentless_def split: if_splits dest: parentless_step [unfolded parentless_def])

subsection \<open>What an authorization decides\<close>

definition eligible :: "broker \<Rightarrow> authz_request \<Rightarrow> (string \<times> json) list \<Rightarrow> string \<Rightarrow> bool" where
  "eligible b rq scope k \<longleftrightarrow> (case map_of (b_states b) k of None \<Rightarrow> False | Some st \<Rightarrow>
     st_status st = Active \<and> cc_subject_id (st_contract st) = rq_subject_id rq \<and>
     cc_capability_type (st_contract st) = rq_capability_type rq \<and>
     cc_not_before_unix (st_contract st) \<le> rq_at_unix rq \<and> rq_at_unix rq < cc_expires_at_unix (st_contract st) \<and>
     cc_policy_sha256 (st_contract st) = rq_policy_sha256 rq \<and>
     st_use_count st < cc_max_uses (st_contract st) \<and>
     scope_contains (cc_capability_type (st_contract st)) (cc_scope (st_contract st)) scope)"

definition request_ok :: "authz_request \<Rightarrow> (string \<times> json) list \<Rightarrow> bool" where
  "request_ok rq scope \<longleftrightarrow> 0 \<le> rq_at_unix rq \<and> rq_capability_type rq \<in> set CAPABILITY_TYPES \<and>
     validate_scope (rq_capability_type rq) (JObj (rq_requested_scope rq)) = Inr scope \<and>
     ident_re (rq_subject_id rq) \<and>
     (case rq_recorder_event_id rq of None \<Rightarrow> True | Some p \<Rightarrow> ident_re p) \<and>
     (case rq_recorder_entry_sha256 rq of None \<Rightarrow> True | Some p \<Rightarrow> is_sha256 p) \<and>
     (rq_recorder_event_id rq = None) = (rq_recorder_entry_sha256 rq = None)"

lemma pick_candidate_None:
  "pick_candidate pol sc t sts acc = (acc', None) \<Longrightarrow> \<forall>st \<in> set sts. ineligible st pol sc t \<noteq> []"
  by (induction sts arbitrary: acc) (auto simp: Let_def split: if_splits)

lemma pick_candidate_least:
  "pick_candidate pol sc t sts acc = (acc', Some st) \<Longrightarrow> sorted (map f sts) \<Longrightarrow> st' \<in> set sts \<Longrightarrow>
    ineligible st' pol sc t = [] \<Longrightarrow> f st \<le> f st'"
  by (induction sts arbitrary: acc) (auto simp: Let_def split: if_splits)

definition ineligible_codes :: "string list" where
  "ineligible_codes = [''active'', ''revoked'', ''expired'', ''not_yet_valid'', ''policy_mismatch'', ''use_exhausted'',
     ''scope_mismatch'']"

lemma ineligible_codes_ident: "list_all ident_re ineligible_codes"
  by (simp add: ineligible_codes_def is_alnum_def is_alpha_def)

lemma subsetD_ball: "A \<subseteq> B \<Longrightarrow> \<forall>x \<in> B. P x \<Longrightarrow> \<forall>x \<in> A. P x"
  by blast

lemma ineligible_codes_members:
  "status_str s \<in> set ineligible_codes" "''not_yet_valid'' \<in> set ineligible_codes"
  "''expired'' \<in> set ineligible_codes" "''policy_mismatch'' \<in> set ineligible_codes"
  "''use_exhausted'' \<in> set ineligible_codes" "''scope_mismatch'' \<in> set ineligible_codes"
  by (cases s) (simp_all add: ineligible_codes_def)

lemma set_if_singleton: "x \<in> A \<Longrightarrow> set (if c then [x] else []) \<subseteq> A"
  by (cases c) simp_all

lemma ineligible_set: "set (ineligible st pol sc t) \<subseteq> set ineligible_codes"
  unfolding ineligible_def Let_def set_sort set_remdups set_append
  by (intro Un_least set_if_singleton ineligible_codes_members)

lemma pick_reasons_ident:
  assumes "pick_candidate pol sc t sts acc = (acc', None)" "list_all ident_re acc"
  shows "list_all ident_re acc'"
  using assms
proof (induction sts arbitrary: acc)
  case (Cons st sts)
  have "list_all ident_re (ineligible st pol sc t)"
    using ineligible_set [of st pol sc t] ineligible_codes_ident unfolding list_all_iff by (rule subsetD_ball)
  with Cons show ?case by (simp add: Let_def del: ident_re.simps split: if_splits)
qed simp

lemma candidates_sorted: "sorted (map (\<lambda>s. cc_capability_id (st_contract s)) (candidates b s ct))"
  by (simp add: candidates_def)

lemma eligible_candidate:
  assumes "wf_broker b"
  shows "eligible b rq sc k \<longleftrightarrow> (\<exists>st \<in> set (candidates b (rq_subject_id rq) (rq_capability_type rq)).
    cc_capability_id (st_contract st) = k \<and> ineligible st (rq_policy_sha256 rq) sc (rq_at_unix rq) = [])"
proof
  assume "eligible b rq sc k"
  then obtain st where st: "map_of (b_states b) k = Some st" "cc_subject_id (st_contract st) = rq_subject_id rq"
      "cc_capability_type (st_contract st) = rq_capability_type rq"
      "ineligible st (rq_policy_sha256 rq) sc (rq_at_unix rq) = []"
    by (auto simp: eligible_def ineligible_Nil split: option.splits)
  then have "st \<in> set (candidates b (rq_subject_id rq) (rq_capability_type rq))"
    by (auto simp: candidates_def dest: map_of_SomeD intro: rev_image_eqI)
  moreover have "cc_capability_id (st_contract st) = k"
    using map_of_state_ok [OF assms st(1)] by (simp add: state_ok_def)
  ultimately show "\<exists>st \<in> set (candidates b (rq_subject_id rq) (rq_capability_type rq)).
    cc_capability_id (st_contract st) = k \<and> ineligible st (rq_policy_sha256 rq) sc (rq_at_unix rq) = []"
    using st(4) by blast
next
  assume "\<exists>st \<in> set (candidates b (rq_subject_id rq) (rq_capability_type rq)).
    cc_capability_id (st_contract st) = k \<and> ineligible st (rq_policy_sha256 rq) sc (rq_at_unix rq) = []"
  with candidate_lookup [OF assms] show "eligible b rq sc k"
    by (fastforce simp: eligible_def ineligible_Nil)
qed

lemma b_receipt_run:
  obtains r where "b_receipt cid subj ct pol act sc dec rs t before after ev b =
      (Inr (dr_as_document r), b\<lparr>b_receipts := b_receipts b @ [r]\<rparr>)"
    "dr_capability_id r = cid" "dr_decision r = dec" "dr_use_count_before r = before" "dr_use_count_after r = after"
    "dr_causal_event_sha256 r = ce_event_sha256 ev" "dr_action_sha256 r = act" "dr_subject_id r = subj"
  by (simp add: b_receipt_def Let_def)

lemma use_reasons_ok:
  "sorted [''capability_scope_match'', ''policy_match'', ''use_committed'']"
  "list_all ident_re [''capability_scope_match'', ''policy_match'', ''use_committed'']"
  "list_all ident_re [''default_deny'', ''no_matching_capability'']" "ident_re ''capability:none''"
  by (simp_all add: is_alnum_def is_alpha_def)

lemma broker_events_ok:
  "''use'' \<in> set CAPABILITY_EVENTS" "''deny'' \<in> set CAPABILITY_EVENTS" "''grant'' \<in> set CAPABILITY_EVENTS"
  "''revoke'' \<in> set CAPABILITY_EVENTS" "''expire'' \<in> set CAPABILITY_EVENTS"
  "''ALLOW'' \<in> set DECISIONS" "''BLOCK'' \<in> set DECISIONS"
  by (simp_all add: CAPABILITY_EVENTS_def DECISIONS_def)

lemma b_allow_run:
  assumes wf: "wf_broker b" and cap: "log_capacity b 1" and rq: "request_ok rq sc"
    and st: "map_of (b_states b) (cc_capability_id (st_contract st)) = Some st"
  obtains r ev where "b_allow rq scope st b =
      (Inr (dr_as_document r), (log_event ev (put_state (cc_capability_id (st_contract st))
         (st\<lparr>st_use_count := st_use_count st + 1\<rparr>) b))\<lparr>b_receipts := b_receipts b @ [r]\<rparr>)"
    "dr_capability_id r = Some (cc_capability_id (st_contract st))" "dr_decision r = ''ALLOW''"
    "dr_use_count_before r = st_use_count st" "dr_use_count_after r = st_use_count st + 1"
    "dr_causal_event_sha256 r = ce_event_sha256 ev" "ce_event_type ev = ''use''"
proof -
  let ?c = "st_contract st" and ?rs = "[''capability_scope_match'', ''policy_match'', ''use_committed'']"
  let ?b = "put_state (cc_capability_id ?c) (st\<lparr>st_use_count := st_use_count st + 1\<rparr>) b"
  let ?ev = "b_event ''use'' (rq_subject_id rq) (cc_capability_id ?c) (rq_capability_type rq) ''ALLOW''
      (rq_at_unix rq) (canonical_sha256 (JObj (rq_action rq))) (Some (cc_contract_sha256 ?c)) ?rs
      (rq_recorder_event_id rq) (rq_recorder_entry_sha256 rq) ?b"
  have c: "wf_contract ?c" using map_of_state_ok [OF wf st] by (simp add: state_ok_def)
  then have ids: "ident_re (cc_capability_id ?c)" "is_sha256 (cc_contract_sha256 ?c)"
    by (simp_all add: wf_contract_def)
  have "\<exists>ev. ?ev = (Inr ev, ?b\<lparr>b_events := b_events ?b @ [ev], b_head := ce_event_sha256 ev\<rparr>)"
  proof (rule b_event_ok [OF _ _ _ _ broker_events_ok(1,6) _ _ _ _ use_reasons_ok(1) _ use_reasons_ok(2)])
    show "is_sha256 (b_head ?b)" "log_capacity ?b 1"
      using wf cap by (simp_all add: wf_broker_def put_state_def log_capacity_def)
    show "distinct ?rs" by simp
  qed (use rq ids in \<open>simp_all add: request_ok_def del: ident_re.simps not_None_eq\<close>)
  then obtain ev where ev: "?ev = (Inr ev, ?b\<lparr>b_events := b_events ?b @ [ev], b_head := ce_event_sha256 ev\<rparr>)" ..
  have ty: "ce_event_type ev = ''use''"
    by (rule b_event_cases [OF ev]) (use wf in \<open>simp_all add: wf_broker_def put_state_def\<close>)
  obtain r where r: "b_receipt (Some (cc_capability_id ?c)) (rq_subject_id rq) (rq_capability_type rq)
      (rq_policy_sha256 rq) (canonical_sha256 (JObj (rq_action rq))) scope ''ALLOW'' ?rs (rq_at_unix rq)
      (st_use_count st) (st_use_count st + 1) ev (log_event ev ?b) =
      (Inr (dr_as_document r), (log_event ev ?b)\<lparr>b_receipts := b_receipts (log_event ev ?b) @ [r]\<rparr>)"
    "dr_capability_id r = Some (cc_capability_id ?c)" "dr_decision r = ''ALLOW''"
    "dr_use_count_before r = st_use_count st" "dr_use_count_after r = st_use_count st + 1"
    "dr_causal_event_sha256 r = ce_event_sha256 ev"
    by (rule b_receipt_run) blast
  show thesis
    using that [of r ev] ev r ty by (simp add: b_allow_def Let_def obind_def log_event_def put_state_def)
qed

lemma b_deny_run:
  assumes wf: "wf_broker b" and cap: "log_capacity b 1" and rq: "request_ok rq sc" and rs: "list_all ident_re rs"
  obtains r ev where "b_deny rq scope rs b =
      (Inr (dr_as_document r), (log_event ev b)\<lparr>b_receipts := b_receipts b @ [r]\<rparr>)"
    "dr_capability_id r = None" "dr_decision r = ''BLOCK''" "ce_event_type ev = ''deny''"
    "dr_causal_event_sha256 r = ce_event_sha256 ev"
proof -
  define ds where "ds = sort (remdups (if rs \<noteq> [] then rs else [''default_deny'', ''no_matching_capability'']))"
  have ds: "list_all ident_re ds" "sorted ds" "distinct ds" "ds \<noteq> []"
    using rs use_reasons_ok(3) by (auto simp: ds_def list_all_iff simp del: ident_re.simps)
  let ?ev = "b_event ''deny'' (rq_subject_id rq) ''capability:none'' (rq_capability_type rq) ''BLOCK''
      (rq_at_unix rq) (canonical_sha256 (JObj (rq_action rq))) None ds
      (rq_recorder_event_id rq) (rq_recorder_entry_sha256 rq) b"
  have "\<exists>ev. ?ev = (Inr ev, b\<lparr>b_events := b_events b @ [ev], b_head := ce_event_sha256 ev\<rparr>)"
    by (rule b_event_ok)
      (use wf cap rq ds use_reasons_ok(4) broker_events_ok in \<open>simp_all add: wf_broker_def request_ok_def
        del: ident_re.simps not_None_eq\<close>)
  then obtain ev where ev: "?ev = (Inr ev, b\<lparr>b_events := b_events b @ [ev], b_head := ce_event_sha256 ev\<rparr>)" ..
  have ty: "ce_event_type ev = ''deny''"
    by (rule b_event_cases [OF ev]) (use wf in \<open>simp_all add: wf_broker_def\<close>)
  obtain r where r: "b_receipt None (rq_subject_id rq) (rq_capability_type rq)
      (rq_policy_sha256 rq) (canonical_sha256 (JObj (rq_action rq))) scope ''BLOCK'' ds (rq_at_unix rq) 0 0 ev
      (log_event ev b) = (Inr (dr_as_document r), (log_event ev b)\<lparr>b_receipts := b_receipts (log_event ev b) @ [r]\<rparr>)"
    "dr_capability_id r = None" "dr_decision r = ''BLOCK''" "dr_causal_event_sha256 r = ce_event_sha256 ev"
    by (rule b_receipt_run) blast
  show thesis
    using that [of r ev] ev r ty
    by (simp add: b_deny_def Let_def obind_def log_event_def ds_def [symmetric])
qed

text \<open>One decision per well-formed request: it is ALLOW exactly when an eligible capability exists, the
  least one is charged a single use, and the decision is recorded in the log and in a receipt.\<close>

definition decided :: "broker \<Rightarrow> authz_request \<Rightarrow> (string \<times> json) list \<Rightarrow> broker \<Rightarrow> causal_event \<Rightarrow> decision_receipt \<Rightarrow> bool" where
  "decided b rq sc b' ev r \<longleftrightarrow>
     b_events b' = b_events b @ [ev] \<and> b_receipts b' = b_receipts b @ [r] \<and> b_head b' = ce_event_sha256 ev \<and>
     dr_causal_event_sha256 r = ce_event_sha256 ev \<and>
     (if \<exists>k. eligible b rq sc k
      then dr_decision r = ''ALLOW'' \<and> ce_event_type ev = ''use'' \<and>
        (\<exists>k st. eligible b rq sc k \<and> (\<forall>k'. eligible b rq sc k' \<longrightarrow> k \<le> k') \<and> dr_capability_id r = Some k \<and>
           map_of (b_states b) k = Some st \<and>
           b_states b' = AList.update k (st\<lparr>st_use_count := st_use_count st + 1\<rparr>) (b_states b))
      else dr_decision r = ''BLOCK'' \<and> ce_event_type ev = ''deny'' \<and> dr_capability_id r = None \<and>
        b_states b' = b_states b)"

lemma authorize_decided:
  assumes wf: "wf_broker b" and cap: "log_capacity b 1" and rq: "request_ok rq sc"
  shows "\<exists>r ev b'. b_authorize rq b = (Inr (dr_as_document r), b') \<and> decided b rq sc b' ev r"
proof (cases "pick_candidate (rq_policy_sha256 rq) sc (rq_at_unix rq)
    (candidates b (rq_subject_id rq) (rq_capability_type rq)) []")
  case (Pair acc found)
  have auth: "b_authorize rq b = (case found of None \<Rightarrow> b_deny rq sc acc b | Some st \<Rightarrow> b_allow rq sc st b)"
    using rq Pair by (simp add: b_authorize_def request_ok_def split: option.split)
  show ?thesis
  proof (cases found)
    case None
    have none: "\<nexists>k. eligible b rq sc k"
      using pick_candidate_None [OF Pair [unfolded None]] eligible_candidate [OF wf] by blast
    have "list_all ident_re acc"
      using pick_reasons_ident [OF Pair [unfolded None]] by simp
    then obtain r ev where "b_deny rq sc acc b =
        (Inr (dr_as_document r), (log_event ev b)\<lparr>b_receipts := b_receipts b @ [r]\<rparr>)"
        "dr_capability_id r = None" "dr_decision r = ''BLOCK''" "ce_event_type ev = ''deny''"
        "dr_causal_event_sha256 r = ce_event_sha256 ev"
      by (rule b_deny_run [OF wf cap rq])
    with auth None none show ?thesis
      by (intro exI [of _ r] exI [of _ ev]) (simp add: decided_def log_event_def)
  next
    case (Some st)
    let ?k = "cc_capability_id (st_contract st)"
    note pick = pick_candidate_Some [OF Pair [unfolded Some]]
    note look = candidate_lookup [OF wf conjunct1 [OF pick]]
    have el: "eligible b rq sc ?k" using eligible_candidate [OF wf] pick by blast
    have least: "\<forall>k'. eligible b rq sc k' \<longrightarrow> ?k \<le> k'"
      using eligible_candidate [OF wf] pick_candidate_least [OF Pair [unfolded Some] candidates_sorted] by metis
    obtain r ev where "b_allow rq sc st b =
        (Inr (dr_as_document r), (log_event ev (put_state ?k
           (st\<lparr>st_use_count := st_use_count st + 1\<rparr>) b))\<lparr>b_receipts := b_receipts b @ [r]\<rparr>)"
        "dr_capability_id r = Some ?k" "dr_decision r = ''ALLOW''"
        "dr_causal_event_sha256 r = ce_event_sha256 ev" "ce_event_type ev = ''use''"
      by (rule b_allow_run [OF wf cap rq look(1)])
    with auth Some el least look(1) show ?thesis
      by (intro exI [of _ r] exI [of _ ev]) (auto simp: decided_def log_event_def put_state_def)
  qed
qed

subsection \<open>Revocation and expiry take effect\<close>

lemma b_lifecycle_run:
  assumes wf: "wf_broker b" and cap: "log_capacity b 1" and c: "wf_contract (st_contract st)"
    and ty: "ty \<in> set CAPABILITY_EVENTS" and dec: "dec \<in> set DECISIONS" and t: "0 \<le> t"
    and rs: "rs \<noteq> []" "sorted rs" "distinct rs" "list_all ident_re rs"
  obtains r ev where "b_lifecycle st ty dec rs t b =
      (Inr (dr_as_document r), (log_event ev b)\<lparr>b_receipts := b_receipts b @ [r]\<rparr>)"
    "dr_capability_id r = Some (cc_capability_id (st_contract st))" "dr_decision r = dec"
proof -
  let ?c = "st_contract st"
  have ids: "ident_re (cc_capability_id ?c)" "ident_re (cc_subject_id ?c)" "is_sha256 (cc_contract_sha256 ?c)"
    using c by (simp_all add: wf_contract_def)
  have "\<exists>ev. b_event ty (cc_subject_id ?c) (cc_capability_id ?c) (cc_capability_type ?c) dec t
      (cc_contract_sha256 ?c) None rs None None b =
      (Inr ev, b\<lparr>b_events := b_events b @ [ev], b_head := ce_event_sha256 ev\<rparr>)"
    by (rule b_event_ok [OF _ cap ids(2,1) ty dec t ids(3) _ rs]) (use wf in \<open>simp_all add: wf_broker_def\<close>)
  then obtain ev where ev: "b_event ty (cc_subject_id ?c) (cc_capability_id ?c) (cc_capability_type ?c) dec t
      (cc_contract_sha256 ?c) None rs None None b = (Inr ev, log_event ev b)"
    by (auto simp: log_event_def)
  obtain r where r: "b_receipt (Some (cc_capability_id ?c)) (cc_subject_id ?c) (cc_capability_type ?c)
      (cc_policy_sha256 ?c) (cc_contract_sha256 ?c) (cc_scope ?c) dec rs t (st_use_count st) (st_use_count st) ev
      (log_event ev b) = (Inr (dr_as_document r), (log_event ev b)\<lparr>b_receipts := b_receipts (log_event ev b) @ [r]\<rparr>)"
    "dr_capability_id r = Some (cc_capability_id ?c)" "dr_decision r = dec"
    by (rule b_receipt_run) blast
  show thesis
    using that [of r ev] ev r by (simp add: b_lifecycle_def Let_def obind_def log_event_def)
qed

lemma lifecycle_reasons_ok:
  "list_all ident_re [''explicit_revoke'']" "list_all ident_re [''ttl_expired'']"
  "list_all ident_re [''already_'' @ status_str s]"
  by (simp_all add: is_alnum_def is_alpha_def) (cases s, simp_all)

lemma b_revoke_run:
  assumes wf: "wf_broker b" and cap: "log_capacity b 1" and t: "0 \<le> t" and st: "map_of (b_states b) k = Some st"
  shows "\<exists>r b'. b_revoke k t b = (Inr (dr_as_document r), b') \<and> dr_capability_id r = Some k \<and>
    (if st_status st = Active
     then dr_decision r = ''ALLOW'' \<and>
       b_states b' = AList.update k (st\<lparr>st_status := Revoked, st_revoked_at_unix := Some t\<rparr>) (b_states b)
     else dr_decision r = ''BLOCK'' \<and> b_states b' = b_states b)"
proof (cases "st_status st = Active")
  case True
  let ?st = "st\<lparr>st_status := Revoked, st_revoked_at_unix := Some t\<rparr>"
  note ok = map_of_state_ok [OF wf st]
  have "wf_broker (put_state k ?st b)"
    by (rule wf_put_state [OF wf]) (use ok in \<open>simp add: state_ok_def\<close>)
  moreover have "log_capacity (put_state k ?st b) 1" "wf_contract (st_contract ?st)"
    using ok cap by (simp_all add: state_ok_def)
  ultimately obtain r ev where "b_lifecycle ?st ''revoke'' ''ALLOW'' [''explicit_revoke''] t (put_state k ?st b) =
      (Inr (dr_as_document r), (log_event ev (put_state k ?st b))\<lparr>b_receipts := b_receipts (put_state k ?st b) @ [r]\<rparr>)"
      "dr_capability_id r = Some (cc_capability_id (st_contract ?st))" "dr_decision r = ''ALLOW''"
    by (rule b_lifecycle_run [of _ ?st "''revoke''" "''ALLOW''" t "[''explicit_revoke'']"])
      (use t broker_events_ok lifecycle_reasons_ok(1) in \<open>simp_all del: list.pred_inject\<close>)
  with True st t ok show ?thesis
    by (intro exI [of _ r]) (simp add: b_revoke_def check_time_def Let_def log_event_def put_state_def state_ok_def)
next
  case False
  note ok = map_of_state_ok [OF wf st]
  then have "wf_contract (st_contract st)" by (simp add: state_ok_def)
  then obtain r ev where "b_lifecycle st ''revoke'' ''BLOCK'' [''already_'' @ status_str (st_status st)] t b =
      (Inr (dr_as_document r), (log_event ev b)\<lparr>b_receipts := b_receipts b @ [r]\<rparr>)"
      "dr_capability_id r = Some (cc_capability_id (st_contract st))" "dr_decision r = ''BLOCK''"
    by (rule b_lifecycle_run [OF wf cap, of st "''revoke''" "''BLOCK''" t "[''already_'' @ status_str (st_status st)]"])
      (use t broker_events_ok lifecycle_reasons_ok(3) in \<open>simp_all del: list.pred_inject\<close>)
  with False st t ok show ?thesis
    by (intro exI [of _ r]) (simp add: b_revoke_def check_time_def log_event_def state_ok_def)
qed

lemma cap_item_get:
  "dget (cap_item k st) ''status'' = JStr (status_str (st_status st))" "dget (cap_item k st) ''capability_id'' = JStr k"
  by (simp_all add: cap_item_def dget_def)

lemma status_active: "status_str s = ''active'' \<longleftrightarrow> s = Active"
  by (cases s) simp_all

text \<open>Expiry touches exactly the listed capabilities that are due.\<close>

definition due :: "int \<Rightarrow> cap_state \<Rightarrow> bool" where
  "due t st \<longleftrightarrow> st_status st = Active \<and> t \<ge> cc_expires_at_unix (st_contract st)"

definition expire_state :: "int \<Rightarrow> cap_state \<Rightarrow> cap_state" where
  "expire_state t st = (if due t st then st\<lparr>st_status := Expired, st_expired_at_unix := Some t\<rparr> else st)"

lemma expire_state_idem [simp]: "due t (expire_state t st) = False" "expire_state t (expire_state t st) = expire_state t st"
  by (simp_all add: expire_state_def due_def)

lemma b_expire_step:
  assumes wf: "wf_broker b" and cap: "log_capacity b 1" and t: "0 \<le> t"
    and st: "map_of (b_states b) k = Some st" "due t st"
  obtains doc b1 where "b_lifecycle (expire_state t st) ''expire'' ''ALLOW'' [''ttl_expired''] t
      (put_state k (expire_state t st) b) = (Inr doc, b1)" "wf_broker b1"
    "length (b_events b1) = length (b_events b) + 1"
    "b_states b1 = AList.update k (expire_state t st) (b_states b)"
proof -
  let ?st = "expire_state t st"
  note ok = map_of_state_ok [OF wf st(1)]
  have wf1: "wf_broker (put_state k ?st b)"
    by (rule wf_put_state [OF wf]) (use ok in \<open>simp add: state_ok_def expire_state_def\<close>)
  have c: "wf_contract (st_contract ?st)" and cap1: "log_capacity (put_state k ?st b) 1"
    using ok cap by (simp_all add: expire_state_def state_ok_def)
  obtain r ev where life: "b_lifecycle ?st ''expire'' ''ALLOW'' [''ttl_expired''] t (put_state k ?st b) =
      (Inr (dr_as_document r), (log_event ev (put_state k ?st b))\<lparr>b_receipts := b_receipts (put_state k ?st b) @ [r]\<rparr>)"
    by (rule b_lifecycle_run [OF wf1 cap1 c, of "''expire''" "''ALLOW''" t "[''ttl_expired'']"])
      (use t broker_events_ok lifecycle_reasons_ok(2) in \<open>simp_all del: list.pred_inject\<close>)
  show thesis
    by (rule that [OF life])
      (use steps_b_lifecycle [OF wf1 life] wf_bsteps [OF _ wf1] in \<open>simp_all add: log_event_def put_state_def\<close>)
qed

lemma b_expire_loop_run:
  assumes "wf_broker b" "log_capacity b (length ks)" "0 \<le> t"
  shows "\<exists>docs b'. b_expire_loop t ks b = (Inr docs, b') \<and>
    (\<forall>k. map_of (b_states b') k = (if k \<in> set ks then map_option (expire_state t) (map_of (b_states b) k)
       else map_of (b_states b) k))"
  using assms
proof (induction ks arbitrary: b)
  case (Cons k ks)
  show ?case
  proof (cases "\<exists>st. map_of (b_states b) k = Some st \<and> due t st")
    case True
    then obtain st where st: "map_of (b_states b) k = Some st" "due t st" by blast
    have "log_capacity b 1" using Cons.prems(2) by (simp add: log_capacity_def)
    then obtain doc b1 where life: "b_lifecycle (expire_state t st) ''expire'' ''ALLOW'' [''ttl_expired''] t
        (put_state k (expire_state t st) b) = (Inr doc, b1)" and b1: "wf_broker b1"
        "length (b_events b1) = length (b_events b) + 1" "b_states b1 = AList.update k (expire_state t st) (b_states b)"
      by (rule b_expire_step [OF Cons.prems(1) _ Cons.prems(3) st])
    have "log_capacity b1 (length ks)" using Cons.prems(2) b1(2) by (simp add: log_capacity_def)
    from Cons.IH [OF b1(1) this Cons.prems(3)] obtain docs b' where rest: "b_expire_loop t ks b1 = (Inr docs, b')"
        "\<forall>k. map_of (b_states b') k = (if k \<in> set ks then map_option (expire_state t) (map_of (b_states b1) k)
           else map_of (b_states b1) k)" by blast
    have "b_expire_loop t (k # ks) b = (Inr (doc # docs), b')"
      using st life rest(1) by (simp add: due_def expire_state_def obind_def)
    with rest(2) b1(3) st show ?thesis by (auto simp: update_conv')
  next
    case False
    then have skip: "b_expire_loop t (k # ks) b = b_expire_loop t ks b"
      by (auto simp: due_def split: option.splits)
    have "log_capacity b (length ks)" using Cons.prems(2) by (simp add: log_capacity_def)
    from Cons.IH [OF Cons.prems(1) this Cons.prems(3)] obtain docs b' where
      "b_expire_loop t ks b = (Inr docs, b')" and look: "\<forall>k. map_of (b_states b') k =
        (if k \<in> set ks then map_option (expire_state t) (map_of (b_states b) k) else map_of (b_states b) k)" by blast
    moreover have "map_option (expire_state t) (map_of (b_states b) k) = map_of (b_states b) k"
      using False by (cases "map_of (b_states b) k") (simp_all add: expire_state_def)
    ultimately show ?thesis
      unfolding skip by (intro exI conjI) auto
  qed
qed simp

lemma b_expire_due_run:
  assumes "wf_broker b" "log_capacity b (length (b_states b))" "0 \<le> t"
  shows "\<exists>docs b'. b_expire_due t b = (Inr docs, b') \<and>
    (\<forall>k. map_of (b_states b') k = map_option (expire_state t) (map_of (b_states b) k))"
proof -
  from b_expire_loop_run [of b "sort (map fst (b_states b))" t] assms obtain docs b' where
    "b_expire_loop t (sort (map fst (b_states b))) b = (Inr docs, b')" and look: "\<forall>k. map_of (b_states b') k =
       (if k \<in> set (sort (map fst (b_states b))) then map_option (expire_state t) (map_of (b_states b) k)
        else map_of (b_states b) k)"
    by auto
  moreover have "map_of (b_states b') k = map_option (expire_state t) (map_of (b_states b) k)" for k
    using look map_of_eq_None_iff [of "b_states b" k] by (cases "k \<in> fst ` set (b_states b)") auto
  ultimately show ?thesis
    using assms(3) by (auto simp: b_expire_due_def check_time_def)
qed

end
