(* ===== verification/Broker_Properties.thy ===== *)
theory Broker_Properties
  imports Broker_Facts
begin

section \<open>Properties of contracts and of the capability broker\<close>

text \<open>
  The properties of the contract layer and of the broker, each over the model's own operations, with
  witnesses on a concrete contract, a concrete broker and a concrete request.
\<close>

subsection \<open>A concrete contract, broker and request\<close>

definition seal_contract :: "capability_contract \<Rightarrow> capability_contract" where
  "seal_contract c = c\<lparr>cc_contract_sha256 := canonical_sha256 (JObj (cc_body c))\<rparr>"

definition demo_contract :: capability_contract where
  "demo_contract = seal_contract
     \<lparr>cc_capability_id = ''cap:demo'', cc_capability_type = ''process.spawn_child'', cc_subject_id = ''agent:a'',
      cc_issuer_id = ''operator:o'', cc_scope = [(''max_children'', JInt 2)], cc_issued_at_unix = 10,
      cc_not_before_unix = 10, cc_expires_at_unix = 100, cc_max_uses = 1, cc_delegable = False,
      cc_parent_capability_id = None, cc_policy_sha256 = ZERO_SHA256, cc_contract_sha256 = []\<rparr>"

lemma cc_body_seal [simp]: "cc_body (c\<lparr>cc_contract_sha256 := d\<rparr>) = cc_body c"
  by (simp add: cc_body_def)

lemma seal_contract_sha: "cc_contract_sha256 (seal_contract c) = canonical_sha256 (JObj (cc_body (seal_contract c)))"
  by (simp add: seal_contract_def)

lemma demo_scope: "wf_scope ''process.spawn_child'' [(''max_children'', JInt 2)]"
  by (simp add: wf_scope_def validate_scope_def c_mapping.simps allowed_by_type_def dkeys_def scope_item_def c_int.simps)

lemma demo_fields [simp]:
  "cc_capability_id demo_contract = ''cap:demo''" "cc_capability_type demo_contract = ''process.spawn_child''"
  "cc_subject_id demo_contract = ''agent:a''" "cc_scope demo_contract = [(''max_children'', JInt 2)]"
  "cc_issued_at_unix demo_contract = 10" "cc_not_before_unix demo_contract = 10"
  "cc_expires_at_unix demo_contract = 100" "cc_max_uses demo_contract = 1"
  "cc_parent_capability_id demo_contract = None" "cc_policy_sha256 demo_contract = ZERO_SHA256"
  "cc_delegable demo_contract = False" "cc_issuer_id demo_contract = ''operator:o''"
  by (simp_all add: demo_contract_def seal_contract_def)

lemma demo_sha: "cc_contract_sha256 demo_contract = canonical_sha256 (JObj (cc_body demo_contract))"
  unfolding demo_contract_def by (rule seal_contract_sha)

lemma demo_wf: "wf_contract demo_contract"
  using demo_scope by (simp add: demo_sha wf_contract_def CAPABILITY_TYPES_def is_alnum_def is_alpha_def)

definition demo_broker0 :: broker where
  "demo_broker0 = \<lparr>b_broker_id = ''broker:demo'', b_states = [], b_events = [], b_receipts = [],
     b_head = ZERO_SHA256\<rparr>"

definition demo_broker :: broker where
  "demo_broker = broker_exec (Admit (cc_body demo_contract @
     [(''contract_sha256'', JStr (cc_contract_sha256 demo_contract))]) 20) demo_broker0"

lemma demo_broker0_reach: "broker_reach demo_broker0"
  by (rule broker_reach.init [of "''broker:demo''"]) code_simp

lemma demo_reach: "broker_reach demo_broker"
  unfolding demo_broker_def by (intro broker_reach.call demo_broker0_reach)

lemma lifecycle_states: "b_states (snd (b_lifecycle st ty dec rs t b)) = b_states b"
  by (auto simp: b_lifecycle_def Let_def obind_def b_event_def b_receipt_def split: sum.splits prod.splits)

lemma demo_admit: "cc_from_document (JObj (cc_body demo_contract @
     [(''contract_sha256'', JStr (cc_contract_sha256 demo_contract))])) = Inr demo_contract"
  using cc_roundtrip [OF demo_wf] unfolding cc_as_document_def .

lemma demo_states: "b_states demo_broker = [(''cap:demo'', new_state demo_contract)]"
  unfolding demo_broker_def broker_exec.simps b_admit_def
  by (simp add: check_time_def demo_admit demo_broker0_def lifecycle_states validate_parent_def) (simp add: put_state_def)

definition demo_request :: authz_request where
  "demo_request = \<lparr>rq_subject_id = ''agent:a'', rq_capability_type = ''process.spawn_child'',
     rq_policy_sha256 = ZERO_SHA256, rq_requested_scope = [(''max_children'', JInt 1)],
     rq_action = [(''op'', JStr ''spawn'')], rq_at_unix = 30, rq_recorder_event_id = None,
     rq_recorder_entry_sha256 = None\<rparr>"

lemma demo_request_ok: "request_ok demo_request [(''max_children'', JInt 1)]"
  by (simp add: request_ok_def demo_request_def CAPABILITY_TYPES_def validate_scope_def c_mapping.simps
      allowed_by_type_def dkeys_def scope_item_def c_int.simps is_alnum_def is_alpha_def)

lemma demo_events: "length (b_events demo_broker) \<le> 1"
  unfolding demo_broker_def broker_exec.simps b_admit_def
  by (auto simp: check_time_def demo_admit demo_broker0_def put_state_def validate_parent_def b_lifecycle_def Let_def
      obind_def b_event_def b_receipt_def split: sum.splits prod.splits)

lemma demo_capacity: "log_capacity demo_broker 1"
  using demo_events unfolding log_capacity_def by simp

definition demo_revoked :: broker where
  "demo_revoked = broker_exec (Revoke ''cap:demo'' 40) demo_broker"

lemma demo_revoked_reach: "broker_reach demo_revoked"
  unfolding demo_revoked_def by (intro broker_reach.call demo_reach)

lemma demo_revoked_states: "map_of (b_states demo_revoked) ''cap:demo'' =
    Some ((new_state demo_contract)\<lparr>st_status := Revoked, st_revoked_at_unix := Some 40\<rparr>)"
  by (simp add: demo_revoked_def b_revoke_def check_time_def demo_states new_state_def Let_def lifecycle_states)

subsection \<open>Properties of contracts\<close>

text \<open>A capability contract survives the trip through its document: a contract that satisfies the
  checks of \<open>from_document\<close> is read back from \<open>as_document\<close> unchanged, digest included.\<close>

lemma contract_roundtrip: "wf_contract c \<Longrightarrow> cc_from_document (cc_as_document c) = Inr c"
  by (rule cc_roundtrip)

text \<open>C39: Whatever JSON document \<open>from_document\<close> accepts satisfies the whole contract: identifiers in
  form, a known capability type, a scope in the normal form of its type, a non-empty validity window,
  a use bound between 1 and 1000, no delegation without a parent, and a digest of its own body.\<close>

theorem contract_admission_sound: "cc_from_document v = Inr c \<Longrightarrow> wf_contract c"
  by (rule cc_from_document_wf)

theorem contract_admission_sound_witness:
  "cc_from_document (cc_as_document demo_contract) = Inr demo_contract \<and> wf_contract demo_contract"
  using contract_admission_sound [OF cc_roundtrip [OF demo_wf]] cc_roundtrip [OF demo_wf] by blast

text \<open>The contract digest binds the contract: two accepted documents with the same
  \<open>contract_sha256\<close> denote the same contract, or their two bodies are a collision of SHA-256.\<close>

lemma contract_digest_binds:
  assumes "cc_from_document v = Inr c" "cc_from_document w = Inr d" "cc_contract_sha256 c = cc_contract_sha256 d"
  shows "c = d \<or> collides [JObj (cc_body c), JObj (cc_body d)]"
  using assms by (intro contract_digest.same_digest cc_from_document_wf) simp_all

subsection \<open>Properties of the broker\<close>

text \<open>C3: In every broker reached by any sequence of admissions, authorizations, revocations and
  expiries, keys and contracts agree, every contract is well formed, use counts stay within their
  bounds, and the causal log is hash-linked from the zero digest to the head.\<close>

theorem broker_invariant: "broker_reach b \<Longrightarrow> wf_broker b"
  by (rule reach_wf)

theorem broker_invariant_witness: "wf_broker demo_broker"
  using broker_invariant demo_reach by blast

text \<open>C2: A capability is never used more often than it was granted: in every run, the recorded uses
  of a capability are at most its use count, which is at most \<open>max_uses\<close> of its contract.\<close>

theorem uses_bounded:
  assumes "broker_reach b" "map_of (b_states b) k = Some st"
  shows "int (uses b k) \<le> st_use_count st \<and> st_use_count st \<le> cc_max_uses (st_contract st)"
  using reach_uses [OF assms(1)] map_of_state_ok [OF reach_wf [OF assms(1)] assms(2)] assms(2)
  by (auto simp: uses_counted_def state_ok_def split: option.splits)

theorem uses_bounded_witness: "int (uses demo_broker ''cap:demo'') \<le> 0"
  using uses_bounded [OF demo_reach, of "''cap:demo''" "new_state demo_contract"]
  by (simp add: demo_states new_state_def)

text \<open>C1: Every well-formed request gets exactly one decision. It is ALLOW exactly when an active,
  in-window, unexhausted capability of that subject, type and policy covers the requested scope; the
  least such capability is charged one use and nothing else changes. Otherwise the decision is BLOCK
  and no capability changes. Either way one linked event and one receipt are recorded.\<close>

theorem authorize_decides:
  assumes "broker_reach b" "log_capacity b 1" "request_ok rq sc"
  shows "\<exists>r ev b'. b_authorize rq b = (Inr (dr_as_document r), b') \<and> decided b rq sc b' ev r"
  using assms by (intro authorize_decided reach_wf)

theorem authorize_decides_witness:
  "\<exists>r ev b'. b_authorize demo_request demo_broker = (Inr (dr_as_document r), b') \<and>
     decided demo_broker demo_request [(''max_children'', JInt 1)] b' ev r"
  using authorize_decides [OF demo_reach demo_capacity demo_request_ok] .

text \<open>C36: Closing a capability is final: once revoked or expired, its state is the same after any
  further calls, and it is eligible for no request.\<close>

theorem closed_is_final:
  assumes "broker_reach b" "map_of (b_states b) k = Some st" "st_status st \<noteq> Active"
  shows "map_of (b_states (fold broker_exec cs b)) k = Some st \<and> \<not> eligible (fold broker_exec cs b) rq sc k"
proof -
  have "evolves b (fold broker_exec cs b)" using assms(1) by (intro exec_evolves reach_wf)
  then have "map_of (b_states (fold broker_exec cs b)) k = Some st"
    using assms(2,3) by (fastforce simp: evolves_def state_evolves_def)
  with assms(3) show ?thesis by (simp add: eligible_def)
qed

theorem closed_is_final_witness:
  "\<not> eligible (fold broker_exec [Authorize demo_request, Revoke ''cap:demo'' 50] demo_revoked) demo_request
     [(''max_children'', JInt 1)] ''cap:demo''"
  using closed_is_final [OF demo_revoked_reach demo_revoked_states,
      of "[Authorize demo_request, Revoke ''cap:demo'' 50]" demo_request "[(''max_children'', JInt 1)]"]
  by simp

text \<open>Revoking a known capability always returns its receipt: an active one becomes revoked and
  nothing else changes, a closed one is refused with BLOCK and left alone.\<close>

lemma revoke_takes_effect:
  assumes "broker_reach b" "log_capacity b 1" "0 \<le> t" "map_of (b_states b) k = Some st"
  shows "\<exists>r b'. b_revoke k t b = (Inr (dr_as_document r), b') \<and> dr_capability_id r = Some k \<and>
    (if st_status st = Active
     then dr_decision r = ''ALLOW'' \<and>
       b_states b' = AList.update k (st\<lparr>st_status := Revoked, st_revoked_at_unix := Some t\<rparr>) (b_states b)
     else dr_decision r = ''BLOCK'' \<and> b_states b' = b_states b)"
  using assms by (intro b_revoke_run reach_wf)

text \<open>\<open>expire_due\<close> always completes and expires exactly the active capabilities whose expiry time has
  been reached.\<close>

lemma expire_due_exact:
  assumes "broker_reach b" "log_capacity b (length (b_states b))" "0 \<le> t"
  shows "\<exists>docs b'. b_expire_due t b = (Inr docs, b') \<and>
    (\<forall>k. map_of (b_states b') k = map_option (expire_state t) (map_of (b_states b) k))"
  using assms by (intro b_expire_due_run reach_wf)

text \<open>The head digest and the event count that \<open>state_document\<close> publishes bind the whole causal
  log: two runs that agree on them have the same log, or two of their event bodies collide.\<close>

lemma head_binds_log:
  assumes "broker_reach b" "broker_reach b'" "b_head b = b_head b'" "length (b_events b) = length (b_events b')"
  shows "b_events b = b_events b' \<or> collides (map (\<lambda>e. JObj (ce_body e)) (b_events b @ b_events b'))"
proof -
  have "linked ce_previous_causal_event_sha256 ce_event_sha256 ZERO_SHA256 (b_events b) (b_head b)"
    "linked ce_previous_causal_event_sha256 ce_event_sha256 ZERO_SHA256 (b_events b') (b_head b)"
    "list_all wf_event (b_events b)" "list_all wf_event (b_events b')"
    using reach_wf [OF assms(1)] reach_wf [OF assms(2)] assms(3) by (simp_all add: wf_broker_def)
  with assms(4) show ?thesis by (intro causal_log.log_bound_from)
qed

text \<open>Delegation fails closed: no run admits a capability that names a parent, because a delegable
  contract must itself name a parent that was admitted before it.\<close>

lemma delegation_inert:
  assumes "broker_reach b" "map_of (b_states b) k = Some st"
  shows "cc_parent_capability_id (st_contract st) = None \<and> \<not> cc_delegable (st_contract st)"
proof -
  have "cc_parent_capability_id (st_contract st) = None"
    using reach_parentless [OF assms(1)] assms(2) by (simp add: parentless_def)
  moreover have "wf_contract (st_contract st)"
    using map_of_state_ok [OF reach_wf [OF assms(1)] assms(2)] by (simp add: state_ok_def)
  ultimately show ?thesis by (simp add: wf_contract_def)
qed

end
