(* ===== verification/Causal_Escalation.thy ===== *)
theory Causal_Escalation
  imports Hash_Chain "HOL-Library.Sublist"
begin

section \<open>Composed-risk analysis of a trajectory\<close>

text \<open>
  Model of src/sdk/liminal_causal_escalation: trajectory events and their hash chain, the rule loop,
  the risk score with its caps, the decision thresholds and the receipt. \<open>analyze_trajectory\<close> is a
  function of the event tuple; a broken chain is the value \<open>Inl (EscalationError m)\<close>.
\<close>

subsection \<open>Data\<close>

abbreviation EscalationError :: "string \<Rightarrow> exn" where
  "EscalationError m \<equiv> Exn ''EscalationError'' m"

definition ESCALATION_SCHEMA :: string where
  "ESCALATION_SCHEMA = ''liminal-causal-escalation-decision-v0.1''"

definition ESCALATION_AUTHORITY :: json where
  "ESCALATION_AUTHORITY = JObj
     [(''mode'', JStr ''trajectory_analysis_only''), (''capability_grant'', JBool False),
      (''execution'', JBool False), (''network_mediation'', JBool False),
      (''credential_access'', JBool False), (''process_control'', JBool False),
      (''containment_execution'', JBool False), (''human_release'', JBool False)]"

definition EVENT_KINDS :: "string list" where
  "EVENT_KINDS =
     [''package.install'', ''network.connect_domain'', ''credential.access'', ''process.spawn_child'',
      ''process.execute'', ''runtime.configure'', ''repository.write'', ''capability.grant'',
      ''capability.revoke'']"

definition RULES :: "(string \<times> int \<times> string list) list" where
  "RULES =
     [(''R-CRED-EGRESS'', 35, [''network.connect_domain'', ''credential.access'']),
      (''R-PACKAGE-EGRESS'', 20, [''package.install'', ''network.connect_domain'']),
      (''R-CRED-CHILD'', 30, [''credential.access'', ''process.spawn_child'']),
      (''R-PACKAGE-CRED-CHILD'', 45, [''package.install'', ''credential.access'', ''process.spawn_child'']),
      (''R-RUNTIME-CRED'', 25, [''runtime.configure'', ''credential.access'']),
      (''R-NEW-EGRESS-CHILD'', 25, [''network.connect_domain'', ''process.spawn_child''])]"

record trajectory_event =
  te_event_id :: string
  te_sequence :: int
  te_observed_at_unix :: int
  te_kind :: string
  te_decision :: string
  te_subject_id :: string
  te_capability_id :: "string option"
  te_privilege_level_before :: int
  te_privilege_level_after :: int
  te_metadata_sha256 :: string
  te_previous_event_sha256 :: string
  te_event_sha256 :: string

definition te_body :: "trajectory_event \<Rightarrow> (string \<times> json) list" where
  "te_body e =
     [(''event_id'', JStr (te_event_id e)),
      (''sequence'', JInt (te_sequence e)),
      (''observed_at_unix'', JInt (te_observed_at_unix e)),
      (''kind'', JStr (te_kind e)),
      (''decision'', JStr (te_decision e)),
      (''subject_id'', JStr (te_subject_id e)),
      (''capability_id'', jopt (te_capability_id e)),
      (''privilege_level_before'', JInt (te_privilege_level_before e)),
      (''privilege_level_after'', JInt (te_privilege_level_after e)),
      (''metadata_sha256'', JStr (te_metadata_sha256 e)),
      (''previous_event_sha256'', JStr (te_previous_event_sha256 e))]"

definition te_build ::
  "string \<Rightarrow> int \<Rightarrow> int \<Rightarrow> string \<Rightarrow> string \<Rightarrow> string \<Rightarrow> string option \<Rightarrow> int \<Rightarrow> int \<Rightarrow>
   (string \<times> json) list \<Rightarrow> string \<Rightarrow> trajectory_event res" where
  "te_build event_id sequence observed_at_unix kind decision subject_id capability_id
     privilege_level_before privilege_level_after metadata previous_event_sha256 =
     (if py_strip event_id = [] then Inl (EscalationError ''event_id must be non-empty'')
      else if sequence < 1 then Inl (EscalationError ''sequence must be >= 1'')
      else if observed_at_unix < 0 then Inl (EscalationError ''observed_at_unix must be non-negative'')
      else if kind \<notin> set EVENT_KINDS then Inl (EscalationError ''unsupported event kind'')
      else if decision \<notin> set [''ALLOW'', ''BLOCK'', ''REVISE'', ''CONTAIN'']
      then Inl (EscalationError ''unsupported decision'')
      else if py_strip subject_id = [] then Inl (EscalationError ''subject_id must be non-empty'')
      else if \<not> (0 \<le> privilege_level_before \<and> privilege_level_before \<le> 10)
      then Inl (EscalationError ''privilege_level_before must be between 0 and 10'')
      else if \<not> (0 \<le> privilege_level_after \<and> privilege_level_after \<le> 10)
      then Inl (EscalationError ''privilege_level_after must be between 0 and 10'')
      else if py_len previous_event_sha256 \<noteq> 64
      then Inl (EscalationError ''previous_event_sha256 must be a SHA-256 digest'')
      else
        (let base = \<lparr>te_event_id = event_id, te_sequence = sequence, te_observed_at_unix = observed_at_unix,
               te_kind = kind, te_decision = decision, te_subject_id = subject_id,
               te_capability_id = capability_id, te_privilege_level_before = privilege_level_before,
               te_privilege_level_after = privilege_level_after,
               te_metadata_sha256 = canonical_sha256 (JObj metadata),
               te_previous_event_sha256 = previous_event_sha256, te_event_sha256 = []\<rparr>
         in Inr (base\<lparr>te_event_sha256 := canonical_sha256 (JObj (te_body base))\<rparr>)))"

record escalation_decision =
  ed_decision :: string
  ed_risk_score :: int
  ed_matched_rules :: "string list"
  ed_contributing_event_ids :: "string list"
  ed_privilege_delta :: int
  ed_capability_delta :: int
  ed_explanation :: string
  ed_graph_sha256 :: string
  ed_receipt_sha256 :: string

definition ed_body :: "escalation_decision \<Rightarrow> (string \<times> json) list" where
  "ed_body d =
     [(''schema'', JStr ESCALATION_SCHEMA),
      (''decision'', JStr (ed_decision d)),
      (''risk_score'', JInt (ed_risk_score d)),
      (''matched_rules'', JList (map JStr (ed_matched_rules d))),
      (''contributing_event_ids'', JList (map JStr (ed_contributing_event_ids d))),
      (''privilege_delta'', JInt (ed_privilege_delta d)),
      (''capability_delta'', JInt (ed_capability_delta d)),
      (''explanation'', JStr (ed_explanation d)),
      (''graph_sha256'', JStr (ed_graph_sha256 d)),
      (''authority'', ESCALATION_AUTHORITY)]"

definition ed_as_document :: "escalation_decision \<Rightarrow> (string \<times> json) list" where
  "ed_as_document d = ed_body d @ [(''receipt_sha256'', JStr (ed_receipt_sha256 d))]"

subsection \<open>Helpers of the analysis\<close>

text \<open>The loop of \<open>_verify_chain\<close>, with its three loop variables.\<close>

fun verify_chain_from :: "int \<Rightarrow> string \<Rightarrow> int \<Rightarrow> trajectory_event list \<Rightarrow> unit res" where
  "verify_chain_from index previous last_time [] = Inr ()"
| "verify_chain_from index previous last_time (event # events) =
     (if te_sequence event \<noteq> index then Inl (EscalationError ''event sequence is disconnected'')
      else if te_previous_event_sha256 event \<noteq> previous
      then Inl (EscalationError ''causal hash chain is disconnected'')
      else if te_observed_at_unix event < last_time then Inl (EscalationError ''event time moved backwards'')
      else if canonical_sha256 (JObj (te_body event)) \<noteq> te_event_sha256 event
      then Inl (EscalationError ''event digest mismatch'')
      else verify_chain_from (index + 1) (te_event_sha256 event) (te_observed_at_unix event) events)"

definition verify_chain :: "trajectory_event list \<Rightarrow> unit res" where
  "verify_chain events = verify_chain_from 1 ZERO_SHA256 (-1) events"

text \<open>The second argument is the part of \<open>required\<close> from the cursor on. It is never empty: every rule
  requires at least one kind and the loop ends with the last one.\<close>

fun ordered_subsequence :: "string list \<Rightarrow> string list \<Rightarrow> bool" where
  "ordered_subsequence [] required = False"
| "ordered_subsequence (v # vs) [] = False"
| "ordered_subsequence (v # vs) (r # rs) =
     (if v = r then (if rs = [] then True else ordered_subsequence vs rs)
      else ordered_subsequence vs (r # rs))"

fun contributors_for :: "trajectory_event list \<Rightarrow> string list \<Rightarrow> string list" where
  "contributors_for [] required = []"
| "contributors_for (e # es) [] = []"
| "contributors_for (e # es) (r # rs) =
     (if te_kind e = r then te_event_id e # (if rs = [] then [] else contributors_for es rs)
      else contributors_for es (r # rs))"

definition decision_for :: "int \<Rightarrow> string" where
  "decision_for score =
     (if score \<ge> 80 then ''CONTAIN'' else if score \<ge> 50 then ''BLOCK''
      else if score \<ge> 20 then ''REVISE'' else ''ALLOW'')"

definition signed_str :: "int \<Rightarrow> string" where
  "signed_str i = (if i < 0 then int_str i else ''+'' @ int_str i)"

definition explain :: "string \<Rightarrow> int \<Rightarrow> string list \<Rightarrow> string list \<Rightarrow> int \<Rightarrow> int \<Rightarrow> string" where
  "explain decision score rules event_ids privilege_delta capability_delta =
     join ''; ''
       ([''trajectory risk='' @ int_str score @ ''/100 '' @ [CHR 0xE2, CHR 0x86, CHR 0x92] @ '' '' @ decision] @
        (if rules \<noteq> [] then [''matched rules: '' @ join '', '' rules] else []) @
        (if event_ids \<noteq> [] then [''contributing events: '' @ join '', '' event_ids] else []) @
        (if privilege_delta \<noteq> 0 then [''privilege delta: '' @ signed_str privilege_delta] else []) @
        (if capability_delta \<noteq> 0 then [''peak active capability count: '' @ int_str capability_delta] else []))"

text \<open>The rule loop: matched rule ids, contributing event ids, risk so far.\<close>

fun rule_loop :: "trajectory_event list \<Rightarrow> (string \<times> int \<times> string list) list \<Rightarrow>
   string list \<times> string set \<times> int \<Rightarrow> string list \<times> string set \<times> int" where
  "rule_loop allowed [] acc = acc"
| "rule_loop allowed ((rule_id, weight, required) # rules) (matched, contributors, risk) =
     rule_loop allowed rules
       (if ordered_subsequence (map te_kind allowed) required
        then (matched @ [rule_id], contributors \<union> set (contributors_for allowed required), risk + weight)
        else (matched, contributors, risk))"

text \<open>The capability loop: the set of active capabilities and the largest size it had.\<close>

fun caps_loop :: "trajectory_event list \<Rightarrow> string set \<Rightarrow> int \<Rightarrow> int" where
  "caps_loop [] active max_caps = max_caps"
| "caps_loop (event # events) active max_caps =
     (let active' = (case te_capability_id event of
          None \<Rightarrow> active
        | Some cid \<Rightarrow>
            if te_kind event = ''capability.grant'' \<and> cid \<noteq> [] then insert cid active
            else if te_kind event = ''capability.revoke'' \<and> cid \<noteq> [] then active - {cid}
            else active)
      in caps_loop events active' (max max_caps (int (card active'))))"

definition allowed_events :: "trajectory_event list \<Rightarrow> trajectory_event list" where
  "allowed_events ordered = filter (\<lambda>e. te_decision e = ''ALLOW'') ordered"

definition privilege_delta_of :: "trajectory_event list \<Rightarrow> int" where
  "privilege_delta_of ordered =
     (if ordered = [] then 0
      else te_privilege_level_after (last ordered) - te_privilege_level_before (hd ordered))"

definition risk_of :: "trajectory_event list \<Rightarrow> int" where
  "risk_of ordered =
     (let allowed = allowed_events ordered;
          (_, _, r0) = rule_loop allowed (sort_key fst RULES) ([], {}, 0);
          pd = privilege_delta_of ordered;
          r1 = (if pd > 0 then r0 + min 25 (pd * 5) else r0);
          cd = caps_loop allowed {} 0;
          r2 = (if cd > 1 then r1 + min 20 ((cd - 1) * 5) else r1)
      in min 100 r2)"

subsection \<open>The analysis\<close>

definition analysis :: "trajectory_event list \<Rightarrow> escalation_decision" where
  "analysis ordered =
     (let allowed = allowed_events ordered;
          (matched, contributors, _) = rule_loop allowed (sort_key fst RULES) ([], {}, 0);
          event_ids = sorted_list_of_set contributors;
          pd = privilege_delta_of ordered;
          cd = caps_loop allowed {} 0;
          risk = risk_of ordered;
          decision = decision_for risk;
          base = \<lparr>ed_decision = decision, ed_risk_score = risk, ed_matched_rules = matched,
            ed_contributing_event_ids = event_ids, ed_privilege_delta = pd, ed_capability_delta = cd,
            ed_explanation = explain decision risk matched event_ids pd cd,
            ed_graph_sha256 = canonical_sha256
              (JList (map (\<lambda>e. JObj (te_body e @ [(''event_sha256'', JStr (te_event_sha256 e))])) ordered)),
            ed_receipt_sha256 = []\<rparr>
      in base\<lparr>ed_receipt_sha256 := canonical_sha256 (JObj (ed_body base))\<rparr>)"

definition analyze_trajectory :: "trajectory_event list \<Rightarrow> (string \<times> json) list res" where
  "analyze_trajectory ordered =
     rbind (verify_chain ordered) (\<lambda>_. Inr (ed_as_document (analysis ordered)))"

text \<open>\<open>replay\<close>: the raw mappings are the keyword arguments of the dataclass, of the annotated types.\<close>

definition replay :: "trajectory_event list \<Rightarrow> (string \<times> json) list res" where
  "replay events =
     rbind (rmap (\<lambda>e. if canonical_sha256 (JObj (te_body e)) \<noteq> te_event_sha256 e
                     then Inl (EscalationError ''event digest mismatch'') else Inr e) events)
       analyze_trajectory"

subsection \<open>Rules are ordered subsequences\<close>

lemma ordered_subsequence_iff: "req \<noteq> [] \<Longrightarrow> ordered_subsequence vs req \<longleftrightarrow> subseq req vs"
  by (induction vs req rule: ordered_subsequence.induct) auto

definition rule_matches :: "trajectory_event list \<Rightarrow> string \<times> int \<times> string list \<Rightarrow> bool" where
  "rule_matches allowed rule \<longleftrightarrow> subseq (snd (snd rule)) (map te_kind allowed)"

lemma rule_loop_eq:
  assumes "\<And>rule. rule \<in> set rules \<Longrightarrow> snd (snd rule) \<noteq> []"
  shows "rule_loop allowed rules (m, c, r) =
    (m @ map fst (filter (rule_matches allowed) rules),
     c \<union> (\<Union>rule \<in> set (filter (rule_matches allowed) rules). set (contributors_for allowed (snd (snd rule)))),
     r + sum_list (map (fst \<circ> snd) (filter (rule_matches allowed) rules)))"
  using assms
proof (induction rules arbitrary: m c r)
  case (Cons rule rules)
  obtain i w req where rule: "rule = (i, w, req)" by (cases rule)
  then have "req \<noteq> []" using Cons.prems [of rule] by simp
  then have "ordered_subsequence (map te_kind allowed) req = rule_matches allowed rule"
    by (simp add: ordered_subsequence_iff rule_matches_def rule)
  with Cons.IH Cons.prems rule show ?case by (auto simp: rule_matches_def)
qed simp

lemma rules_nonempty: "rule \<in> set (sort_key fst RULES) \<Longrightarrow> snd (snd rule) \<noteq> []"
  by (auto simp: RULES_def)

definition matched_rules :: "trajectory_event list \<Rightarrow> (string \<times> int \<times> string list) list" where
  "matched_rules ordered = filter (rule_matches (allowed_events ordered)) (sort_key fst RULES)"

lemma rule_loop_RULES:
  "rule_loop (allowed_events es) (sort_key fst RULES) ([], {}, 0) =
    (map fst (matched_rules es),
     \<Union>rule \<in> set (matched_rules es). set (contributors_for (allowed_events es) (snd (snd rule))),
     sum_list (map (fst \<circ> snd) (matched_rules es)))"
  using rule_loop_eq [of "sort_key fst RULES" "allowed_events es" "[]" "{}" 0] rules_nonempty
  by (simp add: matched_rules_def)

text \<open>The contributors of a matched rule are the ids of allowed events of the required kinds, in order.\<close>

lemma contributors_for_subseq:
  "req \<noteq> [] \<Longrightarrow> subseq req (map te_kind es) \<Longrightarrow>
    \<exists>sub. subseq sub es \<and> map te_kind sub = req \<and> contributors_for es req = map te_event_id sub"
proof (induction es req rule: contributors_for.induct)
  case (3 e es r rs)
  show ?case
  proof (cases "te_kind e = r \<and> rs \<noteq> []")
    case True
    with 3 obtain sub where "subseq sub es" "map te_kind sub = rs" "contributors_for es rs = map te_event_id sub"
      by auto
    with True show ?thesis by (intro exI [of _ "e # sub"]) simp
  next
    case False
    show ?thesis
    proof (cases "te_kind e = r")
      case True
      with False show ?thesis by (intro exI [of _ "[e]"]) simp
    next
      case other: False
      with 3 obtain sub where "subseq sub es" "map te_kind sub = r # rs"
        "contributors_for es (r # rs) = map te_event_id sub" by auto
      with other show ?thesis by (intro exI [of _ sub]) (auto intro: list_emb_Cons)
    qed
  qed
qed simp_all

subsection \<open>Bounds of the score\<close>

lemma caps_loop_ge: "m \<le> caps_loop es active m"
  by (induction es arbitrary: active m) (auto simp: Let_def intro: order_trans [OF max.cobounded1])

lemma rule_weights: "rule \<in> set RULES \<Longrightarrow> 0 \<le> fst (snd rule)"
  by (auto simp: RULES_def)

lemma rule_risk_nonneg: "0 \<le> sum_list (map (fst \<circ> snd) (matched_rules es))"
  by (rule sum_list_nonneg) (use rule_weights in \<open>fastforce simp: matched_rules_def\<close>)

lemma risk_of_eq:
  "risk_of es = min 100 (sum_list (map (fst \<circ> snd) (matched_rules es)) +
     (if privilege_delta_of es > 0 then min 25 (privilege_delta_of es * 5) else 0) +
     (if caps_loop (allowed_events es) {} 0 > 1 then min 20 ((caps_loop (allowed_events es) {} 0 - 1) * 5) else 0))"
  by (simp add: risk_of_def Let_def rule_loop_RULES)

lemma risk_bounds: "0 \<le> risk_of es \<and> risk_of es \<le> 100"
  using rule_risk_nonneg [of es] unfolding risk_of_eq by (auto simp: min_def)

lemma risk_ge_rules: "min 100 (sum_list (map (fst \<circ> snd) (matched_rules es))) \<le> risk_of es"
  unfolding risk_of_eq by (intro min.mono) auto

subsection \<open>What the chain check accepts\<close>

definition te_ok :: "trajectory_event \<Rightarrow> bool" where
  "te_ok e \<longleftrightarrow> te_event_sha256 e = canonical_sha256 (JObj (te_body e))"

lemma linked_Ex [simp]:
  "Ex (linked prev sha h [])"
  "Ex (linked prev sha h (e # es)) \<longleftrightarrow> prev e = h \<and> Ex (linked prev sha (sha e) es)"
  by auto

lemma verify_chain_from_iff:
  "verify_chain_from n prev t es = Inr () \<longleftrightarrow>
     map te_sequence es = map (\<lambda>i. n + int i) [0..<length es] \<and>
     (\<exists>h. linked te_previous_event_sha256 te_event_sha256 prev es h) \<and>
     sorted (t # map te_observed_at_unix es) \<and> list_all te_ok es"
proof (induction es arbitrary: n prev t)
  case (Cons e es)
  have upt: "map (\<lambda>i. n + int i) [0..<length (e # es)] = n # map (\<lambda>i. (n + 1) + int i) [0..<length es]"
    by (simp add: upt_conv_Cons map_Suc_upt [symmetric] del: upt_Suc)
  have "sorted (t # map te_observed_at_unix (e # es)) \<longleftrightarrow>
      t \<le> te_observed_at_unix e \<and> sorted (te_observed_at_unix e # map te_observed_at_unix es)"
    by (auto intro: order_trans)
  with Cons.IH [of "n + 1" "te_event_sha256 e" "te_observed_at_unix e"] show ?case
    unfolding upt by (auto simp: te_ok_def simp del: sorted_simps(2))
qed simp

lemma verify_chain_iff:
  "verify_chain es = Inr () \<longleftrightarrow>
     map te_sequence es = map (\<lambda>i. 1 + int i) [0..<length es] \<and>
     (\<exists>h. linked te_previous_event_sha256 te_event_sha256 ZERO_SHA256 es h) \<and>
     sorted (-1 # map te_observed_at_unix es) \<and> list_all te_ok es"
  unfolding verify_chain_def verify_chain_from_iff by simp

lemma verify_chain_result: "verify_chain_from n prev t es = Inr () \<or> (\<exists>m. verify_chain_from n prev t es = Inl (EscalationError m))"
  by (induction es arbitrary: n prev t) auto

subsection \<open>Events are bound by their digests\<close>

lemma te_dget:
  "dget (te_body e) ''event_id'' = JStr (te_event_id e)"
  "dget (te_body e) ''sequence'' = JInt (te_sequence e)"
  "dget (te_body e) ''observed_at_unix'' = JInt (te_observed_at_unix e)"
  "dget (te_body e) ''kind'' = JStr (te_kind e)"
  "dget (te_body e) ''decision'' = JStr (te_decision e)"
  "dget (te_body e) ''subject_id'' = JStr (te_subject_id e)"
  "dget (te_body e) ''capability_id'' = jopt (te_capability_id e)"
  "dget (te_body e) ''privilege_level_before'' = JInt (te_privilege_level_before e)"
  "dget (te_body e) ''privilege_level_after'' = JInt (te_privilege_level_after e)"
  "dget (te_body e) ''metadata_sha256'' = JStr (te_metadata_sha256 e)"
  "dget (te_body e) ''previous_event_sha256'' = JStr (te_previous_event_sha256 e)"
  by (simp_all add: te_body_def dget_def)

lemma te_body_inj:
  assumes "te_ok e" "te_ok f" and norm: "json_norm (JObj (te_body e)) = json_norm (JObj (te_body f))"
  shows "e = f"
proof -
  note eq = json_norm_dget [OF norm]
  have "te_event_sha256 e = te_event_sha256 f"
    using assms(1,2) norm_same_sha [OF norm] by (simp only: te_ok_def)
  then show ?thesis
    using eq [of "''event_id''"] eq [of "''sequence''"] eq [of "''observed_at_unix''"] eq [of "''kind''"]
      eq [of "''decision''"] eq [of "''subject_id''"] eq [of "''capability_id''"]
      eq [of "''privilege_level_before''"] eq [of "''privilege_level_after''"] eq [of "''metadata_sha256''"]
      eq [of "''previous_event_sha256''"]
    by (simp add: te_dget)
qed

interpretation trajectory_log: hash_linked te_event_sha256 "\<lambda>e. JObj (te_body e)" te_ok te_previous_event_sha256
  by unfold_locales (simp only: te_ok_def, rule te_body_inj)

subsection \<open>Properties of the analysis\<close>

lemma analysis_fields:
  "ed_decision (analysis es) = decision_for (risk_of es)" "ed_risk_score (analysis es) = risk_of es"
  "ed_matched_rules (analysis es) = map fst (matched_rules es)"
  "ed_contributing_event_ids (analysis es) = sorted_list_of_set
     (\<Union>rule \<in> set (matched_rules es). set (contributors_for (allowed_events es) (snd (snd rule))))"
  "ed_graph_sha256 (analysis es) = canonical_sha256
     (JList (map (\<lambda>e. JObj (te_body e @ [(''event_sha256'', JStr (te_event_sha256 e))])) es))"
  by (simp_all add: analysis_def Let_def rule_loop_RULES)

lemma ed_dget:
  "dget (ed_as_document d) ''decision'' = JStr (ed_decision d)"
  "dget (ed_as_document d) ''risk_score'' = JInt (ed_risk_score d)"
  "dget (ed_as_document d) ''matched_rules'' = JList (map JStr (ed_matched_rules d))"
  "dget (ed_as_document d) ''contributing_event_ids'' = JList (map JStr (ed_contributing_event_ids d))"
  "dget (ed_as_document d) ''graph_sha256'' = JStr (ed_graph_sha256 d)"
  by (simp_all add: ed_as_document_def ed_body_def dget_def)

lemma analyze_Inr: "analyze_trajectory es = Inr doc \<longleftrightarrow> verify_chain es = Inr () \<and> doc = ed_as_document (analysis es)"
  by (auto simp: analyze_trajectory_def rbind_eq_Inr)

lemma matched_mono:
  assumes "subseq (allowed_events es) (allowed_events fs)"
  shows "set (matched_rules es) \<subseteq> set (matched_rules fs)"
proof -
  have "subseq (map te_kind (allowed_events es)) (map te_kind (allowed_events fs))"
    using assms by (rule subseq_map)
  then show ?thesis
    by (auto simp: matched_rules_def rule_matches_def intro: subseq_order.trans)
qed

lemma exfiltration_rules:
  assumes "subseq [''package.install'', ''network.connect_domain'', ''credential.access'', ''process.spawn_child'']
    (map te_kind (allowed_events es))"
  shows "100 \<le> sum_list (map (fst \<circ> snd) (matched_rules es))"
proof -
  have sub: "subseq xs (map te_kind (allowed_events es))"
    if "subseq xs [''package.install'', ''network.connect_domain'', ''credential.access'', ''process.spawn_child'']" for xs
    using that assms by (rule subseq_order.trans)
  have "rule_matches (allowed_events es) (''R-CRED-EGRESS'', 35, [''network.connect_domain'', ''credential.access''])"
    "rule_matches (allowed_events es) (''R-CRED-CHILD'', 30, [''credential.access'', ''process.spawn_child''])"
    "rule_matches (allowed_events es)
       (''R-PACKAGE-CRED-CHILD'', 45, [''package.install'', ''credential.access'', ''process.spawn_child''])"
    unfolding rule_matches_def by (auto intro!: sub)
  then show ?thesis
    by (simp add: matched_rules_def RULES_def)
qed

definition seal_te :: "trajectory_event \<Rightarrow> trajectory_event" where
  "seal_te e = e\<lparr>te_event_sha256 := canonical_sha256 (JObj (te_body e))\<rparr>"

definition demo_te :: "int \<Rightarrow> string \<Rightarrow> string \<Rightarrow> trajectory_event" where
  "demo_te n kind prev = seal_te
     \<lparr>te_event_id = ''ev:'' @ int_str n, te_sequence = n, te_observed_at_unix = n, te_kind = kind,
      te_decision = ''ALLOW'', te_subject_id = ''agent:a'', te_capability_id = None,
      te_privilege_level_before = 0, te_privilege_level_after = 0, te_metadata_sha256 = ZERO_SHA256,
      te_previous_event_sha256 = prev, te_event_sha256 = []\<rparr>"

definition demo_trajectory :: "trajectory_event list" where
  "demo_trajectory =
     (let e1 = demo_te 1 ''package.install'' ZERO_SHA256;
          e2 = demo_te 2 ''network.connect_domain'' (te_event_sha256 e1);
          e3 = demo_te 3 ''credential.access'' (te_event_sha256 e2);
          e4 = demo_te 4 ''process.spawn_child'' (te_event_sha256 e3)
      in [e1, e2, e3, e4])"

lemma demo_te_fields [simp]:
  "te_sequence (demo_te n k p) = n" "te_kind (demo_te n k p) = k" "te_decision (demo_te n k p) = ''ALLOW''"
  "te_previous_event_sha256 (demo_te n k p) = p" "te_observed_at_unix (demo_te n k p) = n" "te_ok (demo_te n k p)"
  by (simp_all add: demo_te_def seal_te_def te_ok_def te_body_def)

lemma demo_trajectory_verified: "verify_chain demo_trajectory = Inr ()"
  unfolding verify_chain_iff demo_trajectory_def Let_def by (simp add: upt_rec)

lemma demo_trajectory_kinds: "map te_kind (allowed_events demo_trajectory) =
    [''package.install'', ''network.connect_domain'', ''credential.access'', ''process.spawn_child'']"
  by (simp add: demo_trajectory_def Let_def allowed_events_def)

text \<open>C38: The analysis accepts exactly the intact trajectories: sequence numbers 1, 2, ..., every
  event linked to the digest of the one before it (the first to the zero digest), times that never
  go back, and every digest that of its own body. Any other input raises \<open>EscalationError\<close>.\<close>

theorem trajectory_checked:
  "(if map te_sequence es = map (\<lambda>i. 1 + int i) [0..<length es] \<and>
       (\<exists>h. linked te_previous_event_sha256 te_event_sha256 ZERO_SHA256 es h) \<and>
       sorted (-1 # map te_observed_at_unix es) \<and>
       list_all (\<lambda>e. te_event_sha256 e = canonical_sha256 (JObj (te_body e))) es
    then analyze_trajectory es = Inr (ed_as_document (analysis es))
    else \<exists>m. analyze_trajectory es = Inl (EscalationError m))"
  using verify_chain_iff [of es] verify_chain_result [of 1 ZERO_SHA256 "-1" es]
  unfolding verify_chain_def [symmetric] te_ok_def analyze_trajectory_def by auto

text \<open>C40: A rule fires exactly when its required kinds occur in order among the events whose decision
  was ALLOW; the score stays between 0 and 100 and the decision is read off the thresholds.\<close>

theorem rules_exact:
  assumes "analyze_trajectory es = Inr doc"
  shows "dget doc ''matched_rules'' = JList (map (JStr \<circ> fst)
      (filter (\<lambda>(_, _, req). subseq req (map te_kind (filter (\<lambda>e. te_decision e = ''ALLOW'') es)))
        (sort_key fst RULES))) \<and>
    (\<exists>risk. dget doc ''risk_score'' = JInt risk \<and> 0 \<le> risk \<and> risk \<le> 100 \<and>
       dget doc ''decision'' = JStr (decision_for risk))"
proof -
  have "filter (\<lambda>(_, _, req). subseq req (map te_kind (filter (\<lambda>e. te_decision e = ''ALLOW'') es)))
      (sort_key fst RULES) = matched_rules es"
    by (auto simp: matched_rules_def rule_matches_def allowed_events_def intro!: filter_cong)
  moreover have "doc = ed_as_document (analysis es)" using assms by (simp add: analyze_Inr)
  ultimately show ?thesis
    using risk_bounds [of es] by (simp add: ed_dget analysis_fields)
qed

theorem rules_exact_witness:
  "\<exists>risk. dget (ed_as_document (analysis demo_trajectory)) ''risk_score'' = JInt risk \<and> risk \<le> 100"
  using rules_exact [of demo_trajectory "ed_as_document (analysis demo_trajectory)"] demo_trajectory_verified
  by (auto simp: analyze_Inr)

text \<open>C37: The composed exfiltration pattern is always contained: whenever a package installation, an
  egress, a credential access and a child process were allowed in this order, whatever else happened
  before, between or after them, the decision is CONTAIN.\<close>

theorem exfiltration_contained:
  assumes "analyze_trajectory es = Inr doc"
    and "subseq [''package.install'', ''network.connect_domain'', ''credential.access'', ''process.spawn_child'']
      (map te_kind (allowed_events es))"
  shows "dget doc ''decision'' = JStr ''CONTAIN''"
proof -
  have "100 \<le> risk_of es"
    using exfiltration_rules [OF assms(2)] risk_ge_rules [of es] by simp
  with assms(1) show ?thesis by (simp add: analyze_Inr ed_dget analysis_fields decision_for_def)
qed

theorem exfiltration_contained_witness:
  "dget (ed_as_document (analysis demo_trajectory)) ''decision'' = JStr ''CONTAIN''"
  using exfiltration_contained [of demo_trajectory "ed_as_document (analysis demo_trajectory)"]
    demo_trajectory_verified by (simp add: analyze_Inr demo_trajectory_kinds)

text \<open>Rules cannot be hidden by further events: a trajectory whose allowed events include those of
  another, in order, matches every rule the other matches.\<close>

lemma rules_monotone:
  assumes "subseq (allowed_events es) (allowed_events fs)"
  shows "set (ed_matched_rules (analysis es)) \<subseteq> set (ed_matched_rules (analysis fs))"
  using matched_mono [OF assms] by (auto simp: analysis_fields)

text \<open>The events named in the decision explain it: for every matched rule there are allowed events,
  in order, of exactly the required kinds, and their ids are all listed.\<close>

lemma contributors_explain:
  assumes "rule \<in> set (matched_rules es)"
  shows "\<exists>sub. subseq sub (allowed_events es) \<and> map te_kind sub = snd (snd rule) \<and>
    te_event_id ` set sub \<subseteq> set (ed_contributing_event_ids (analysis es))"
proof -
  have "snd (snd rule) \<noteq> []" "subseq (snd (snd rule)) (map te_kind (allowed_events es))"
    using assms rules_nonempty by (auto simp: matched_rules_def rule_matches_def)
  then obtain sub where "subseq sub (allowed_events es)" "map te_kind sub = snd (snd rule)"
      "contributors_for (allowed_events es) (snd (snd rule)) = map te_event_id sub"
    using contributors_for_subseq by blast
  moreover have "set (ed_contributing_event_ids (analysis es)) =
      (\<Union>rule \<in> set (matched_rules es). set (contributors_for (allowed_events es) (snd (snd rule))))"
    by (simp add: analysis_fields)
  ultimately show ?thesis using assms by (intro exI [of _ sub]) fastforce
qed

end
