(* ===== verification/Runtime_Mediation.thy ===== *)
theory Runtime_Mediation
  imports Broker_Facts Causal_Escalation
begin

section \<open>Runtime mediation\<close>

text \<open>
  Model of src/sdk/liminal_runtime_mediation. A mediator holds a broker, an optional egress gateway
  and its own fields; \<open>mediator\<close> is the record of the latter, and the state of a call is a pair of
  whatever the injected objects act on and the mediator. The broker's \<open>authorize\<close>, the gateway's
  \<open>execute\<close> and the host's executor are arguments, as they are injected in the source; the
  properties instantiate \<open>authorize\<close> with the model of the capability broker. An executor returns
  \<open>None\<close> when its value is not an \<open>ExecutionObservation\<close>; a callback that calls back into the mediator
  is not modelled.
\<close>

subsection \<open>Data\<close>

abbreviation MediationError :: "string \<Rightarrow> exn" where
  "MediationError m \<equiv> Exn ''MediationError'' m"

definition MEDIATION_SCHEMA :: string where
  "MEDIATION_SCHEMA = ''liminal-runtime-mediation-receipt-v0.1''"

definition OPERATION_TO_CAPABILITY :: "(string \<times> string) list" where
  "OPERATION_TO_CAPABILITY =
     [(''process.execute'', ''process.execute''), (''process.spawn_child'', ''process.spawn_child''),
      (''package.install'', ''package.install''),
      (''filesystem.write_outside_workspace'', ''filesystem.write_outside_workspace''),
      (''credential.access'', ''credential.access''), (''runtime.configure'', ''runtime.configure'')]"

definition PHASE3_KIND :: "(string \<times> string) list" where
  "PHASE3_KIND =
     map (\<lambda>(kind, _). (kind, kind))
       (filter (\<lambda>(kind, _). kind \<noteq> ''filesystem.write_outside_workspace'') OPERATION_TO_CAPABILITY) @
     [(''filesystem.write_outside_workspace'', ''repository.write'')]"

definition MEDIATION_AUTHORITY :: json where
  "MEDIATION_AUTHORITY = JObj
     [(''mode'', JStr ''host_integrated_runtime_mediation''), (''capability_admission'', JBool True),
      (''host_callback_dispatch'', JBool True), (''network_via_egress_gateway'', JBool True),
      (''direct_subprocess_execution'', JBool False), (''direct_socket_creation'', JBool False),
      (''direct_filesystem_mutation'', JBool False), (''direct_package_installation'', JBool False),
      (''credential_material_export'', JBool False), (''os_kernel_enforcement'', JBool False),
      (''seccomp_ebpf_apparmor_enforcement'', JBool False), (''deployment'', JBool False),
      (''automatic_release'', JBool False)]"

record runtime_operation =
  ro_operation_id :: string
  ro_subject_id :: string
  ro_policy_sha256 :: string
  ro_kind :: string
  ro_scope :: "(string \<times> json) list"
  ro_payload_sha256 :: string
  ro_at_unix :: int
  ro_privilege_level_before :: int
  ro_privilege_level_after :: int

definition med_sha :: "string \<Rightarrow> string \<Rightarrow> string res" where
  "med_sha v name =
     (if \<not> is_sha256 v then Inl (MediationError (name @ '' must be a lowercase SHA-256 digest'')) else Inr v)"

definition ro_normalized_scope :: "runtime_operation \<Rightarrow> (string \<times> json) list res" where
  "ro_normalized_scope self =
     (case map_of OPERATION_TO_CAPABILITY (ro_kind self) of
        None \<Rightarrow> Inl (MediationError ''unsupported runtime operation kind'')
      | Some capability_type \<Rightarrow>
          (case validate_scope capability_type (JObj (ro_scope self)) of
             Inl exc \<Rightarrow> Inl (if exn_class exc = ''ContractError'' then MediationError (exn_msg exc) else exc)
           | Inr scope \<Rightarrow> Inr scope))"

definition ro_validate :: "runtime_operation \<Rightarrow> unit res" where
  "ro_validate self =
     (if py_strip (ro_operation_id self) = [] then Inl (MediationError ''operation_id must be non-empty'')
      else if py_strip (ro_subject_id self) = [] then Inl (MediationError ''subject_id must be non-empty'')
      else rbind (med_sha (ro_policy_sha256 self) ''policy_sha256'') (\<lambda>_.
        rbind (med_sha (ro_payload_sha256 self) ''payload_sha256'') (\<lambda>_.
        if ro_at_unix self < 0 then Inl (MediationError ''at_unix must be non-negative'')
        else if \<not> (0 \<le> ro_privilege_level_before self \<and> ro_privilege_level_before self \<le> 10)
        then Inl (MediationError ''privilege_level_before must be between 0 and 10'')
        else if \<not> (0 \<le> ro_privilege_level_after self \<and> ro_privilege_level_after self \<le> 10)
        then Inl (MediationError ''privilege_level_after must be between 0 and 10'')
        else rbind (ro_normalized_scope self) (\<lambda>_. Inr ()))))"

record observation =
  ob_outcome :: string
  ob_result_sha256 :: string

definition ob_success :: "(string \<times> json) list \<Rightarrow> observation" where
  "ob_success safe_metadata =
     \<lparr>ob_outcome = ''SUCCEEDED'', ob_result_sha256 = canonical_sha256 (JObj safe_metadata)\<rparr>"

definition ob_validate :: "observation \<Rightarrow> unit res" where
  "ob_validate self =
     (if ob_outcome self \<noteq> ''SUCCEEDED''
      then Inl (MediationError ''host observation outcome must be SUCCEEDED'')
      else rbind (med_sha (ob_result_sha256 self) ''result_sha256'') (\<lambda>_. Inr ()))"

record mediation_receipt =
  mr_operation_id :: string
  mr_subject_id :: string
  mr_runtime_kind :: string
  mr_policy_sha256 :: string
  mr_scope_sha256 :: string
  mr_payload_sha256 :: string
  mr_capability_receipt_sha256 :: string
  mr_admission_decision :: string
  mr_execution_outcome :: string
  mr_result_sha256 :: string
  mr_reason_codes :: "string list"
  mr_trajectory_event_sha256 :: string
  mr_at_unix :: int
  mr_receipt_sha256 :: string

definition mr_body :: "mediation_receipt \<Rightarrow> (string \<times> json) list" where
  "mr_body r =
     [(''schema'', JStr MEDIATION_SCHEMA),
      (''operation_id'', JStr (mr_operation_id r)),
      (''subject_id'', JStr (mr_subject_id r)),
      (''runtime_kind'', JStr (mr_runtime_kind r)),
      (''policy_sha256'', JStr (mr_policy_sha256 r)),
      (''scope_sha256'', JStr (mr_scope_sha256 r)),
      (''payload_sha256'', JStr (mr_payload_sha256 r)),
      (''capability_receipt_sha256'', JStr (mr_capability_receipt_sha256 r)),
      (''admission_decision'', JStr (mr_admission_decision r)),
      (''execution_outcome'', JStr (mr_execution_outcome r)),
      (''result_sha256'', JStr (mr_result_sha256 r)),
      (''reason_codes'', JList (map JStr (mr_reason_codes r))),
      (''trajectory_event_sha256'', JStr (mr_trajectory_event_sha256 r)),
      (''at_unix'', JInt (mr_at_unix r)),
      (''authority'', MEDIATION_AUTHORITY)]"

definition mr_as_document :: "mediation_receipt \<Rightarrow> (string \<times> json) list" where
  "mr_as_document r = mr_body r @ [(''receipt_sha256'', JStr (mr_receipt_sha256 r))]"

record mediator =
  m_contained :: bool
  m_containment_evidence_sha256 :: string
  m_receipts :: "mediation_receipt list"
  m_events :: "trajectory_event list"
  m_event_head :: string

definition mediator_init :: mediator where
  "mediator_init = \<lparr>m_contained = False, m_containment_evidence_sha256 = ZERO_SHA256, m_receipts = [],
     m_events = [], m_event_head = ZERO_SHA256\<rparr>"

text \<open>\<open>GatewayRequest\<close> of src/sdk/liminal_egress_gateway/gateway.py, as far as the mediator reads it.\<close>

record gateway_request =
  gr_call_id :: string
  gr_subject_id :: string
  gr_policy_sha256 :: string
  gr_method :: string
  gr_url :: string
  gr_headers :: "(string \<times> string) list"
  gr_body_sha256 :: string
  gr_secret_refs :: "(string \<times> string) list"
  gr_at_unix :: int

subsection \<open>Recording an outcome\<close>

definition m_finish ::
  "runtime_operation \<Rightarrow> string \<Rightarrow> string \<Rightarrow> string \<Rightarrow> string \<Rightarrow> string list \<Rightarrow> string option \<Rightarrow> string \<Rightarrow>
   string option \<Rightarrow> (mediator, (string \<times> json) list) op" where
  "m_finish operation capability_receipt_sha admission outcome result_sha reasons capability_id scope_sha
     event_kind_override m =
     (case (case event_kind_override of Some kind \<Rightarrow> Some kind | None \<Rightarrow> map_of PHASE3_KIND (ro_kind operation)) of
        None \<Rightarrow> (Inl (Exn ''KeyError'' (CHR 0x27 # ro_kind operation @ [CHR 0x27])), m)
      | Some event_kind \<Rightarrow>
          (let event_decision =
                 (if admission = ''ALLOW'' \<and> outcome = ''SUCCEEDED'' then ''ALLOW'' else ''BLOCK'');
               runtime_kind = (case event_kind_override of None \<Rightarrow> ro_kind operation | Some kind \<Rightarrow> kind)
           in case te_build (''runtime-event:'' @ nat_str (length (m_events m) + 1))
                (int (length (m_events m)) + 1) (ro_at_unix operation) event_kind event_decision
                (ro_subject_id operation) capability_id (ro_privilege_level_before operation)
                (if event_decision = ''ALLOW'' then ro_privilege_level_after operation
                 else ro_privilege_level_before operation)
                [(''operation_id'', JStr (ro_operation_id operation)),
                 (''runtime_kind'', JStr runtime_kind),
                 (''payload_sha256'', JStr (ro_payload_sha256 operation)),
                 (''scope_sha256'', JStr scope_sha),
                 (''outcome'', JStr outcome),
                 (''containment_evidence_sha256'', JStr (m_containment_evidence_sha256 m))]
                (m_event_head m) of
                Inl e \<Rightarrow> (Inl e, m)
              | Inr event \<Rightarrow>
                  (let base = \<lparr>mr_operation_id = ro_operation_id operation,
                         mr_subject_id = ro_subject_id operation, mr_runtime_kind = runtime_kind,
                         mr_policy_sha256 = ro_policy_sha256 operation, mr_scope_sha256 = scope_sha,
                         mr_payload_sha256 = ro_payload_sha256 operation,
                         mr_capability_receipt_sha256 = capability_receipt_sha,
                         mr_admission_decision = admission, mr_execution_outcome = outcome,
                         mr_result_sha256 = result_sha, mr_reason_codes = sort (remdups reasons),
                         mr_trajectory_event_sha256 = te_event_sha256 event,
                         mr_at_unix = ro_at_unix operation, mr_receipt_sha256 = []\<rparr>;
                       receipt = base\<lparr>mr_receipt_sha256 := canonical_sha256 (JObj (mr_body base))\<rparr>
                   in (Inr (mr_as_document receipt),
                       m\<lparr>m_events := m_events m @ [event], m_event_head := te_event_sha256 event,
                         m_receipts := m_receipts m @ [receipt]\<rparr>))))"

subsection \<open>Operations\<close>

definition m_enter_containment :: "string \<Rightarrow> (mediator, unit) op" where
  "m_enter_containment incident_receipt_sha256 m =
     (case med_sha incident_receipt_sha256 ''incident_receipt_sha256'' of
        Inl e \<Rightarrow> (Inl e, m)
      | Inr sha \<Rightarrow> (Inr (), m\<lparr>m_containment_evidence_sha256 := sha, m_contained := True\<rparr>))"

definition m_exit_containment :: "string \<Rightarrow> (mediator, unit) op" where
  "m_exit_containment human_release_receipt_sha256 m =
     (case med_sha human_release_receipt_sha256 ''human_release_receipt_sha256'' of
        Inl e \<Rightarrow> (Inl e, m)
      | Inr sha \<Rightarrow> (Inr (), m\<lparr>m_containment_evidence_sha256 := sha, m_contained := False\<rparr>))"

definition mediation_request :: "runtime_operation \<Rightarrow> string \<Rightarrow> (string \<times> json) list \<Rightarrow> authz_request" where
  "mediation_request operation capability_type scope =
     \<lparr>rq_subject_id = ro_subject_id operation, rq_capability_type = capability_type,
      rq_policy_sha256 = ro_policy_sha256 operation, rq_requested_scope = scope,
      rq_action = [(''operation_id'', JStr (ro_operation_id operation)),
        (''runtime_kind'', JStr (ro_kind operation)),
        (''scope_sha256'', JStr (canonical_sha256 (JObj scope))),
        (''payload_sha256'', JStr (ro_payload_sha256 operation))],
      rq_at_unix = ro_at_unix operation, rq_recorder_event_id = None, rq_recorder_entry_sha256 = None\<rparr>"

fun joptstr :: "json \<Rightarrow> string option" where
  "joptstr (JStr s) = Some s"
| "joptstr _ = None"

text \<open>The \<open>try\<close> block: the executor's value is checked, and any exception becomes its class name.\<close>

definition run_executor ::
  "(runtime_operation \<Rightarrow> ('s, observation option) op) \<Rightarrow> runtime_operation \<Rightarrow> ('s, observation) op" where
  "run_executor executor operation =
     obind (executor operation) (\<lambda>result.
       case result of
         None \<Rightarrow> oraise (MediationError ''executor must return ExecutionObservation'')
       | Some observation \<Rightarrow> olift (rbind (ob_validate observation) (\<lambda>_. Inr observation)))"

definition m_mediate ::
  "(authz_request \<Rightarrow> ('s, (string \<times> json) list) op) \<Rightarrow> (runtime_operation \<Rightarrow> ('s, observation option) op) \<Rightarrow>
   runtime_operation \<Rightarrow> ('s \<times> mediator, (string \<times> json) list) op" where
  "m_mediate authorize executor operation =
     obind (olift (ro_validate operation)) (\<lambda>_.
     obind (olift (ro_normalized_scope operation)) (\<lambda>scope sm.
       let scope_sha = canonical_sha256 (JObj scope) in
       if m_contained (snd sm)
       then on_snd (m_finish operation ZERO_SHA256 ''BLOCK'' ''NOT_EXECUTED'' ZERO_SHA256
              [''containment_active''] None scope_sha None) sm
       else obind (on_fst (authorize (mediation_request operation
              (the (map_of OPERATION_TO_CAPABILITY (ro_kind operation))) scope))) (\<lambda>capability.
            obind (olift (dreq capability ''decision'')) (\<lambda>decision.
              if \<not> py_eq decision (JStr ''ALLOW'')
              then obind (olift (dreq capability ''receipt_sha256'')) (\<lambda>receipt_sha.
                obind (olift (dreq capability ''reason_codes'')) (\<lambda>reasons.
                on_snd (m_finish operation (jstr receipt_sha) ''BLOCK'' ''NOT_EXECUTED'' ZERO_SHA256
                  (jstrs reasons) None scope_sha None)))
              else (\<lambda>sm.
                case on_fst (run_executor executor operation) sm of
                  (Inl exc, sm') \<Rightarrow>
                    obind (olift (dreq capability ''receipt_sha256'')) (\<lambda>receipt_sha.
                    on_snd (m_finish operation (jstr receipt_sha) ''ALLOW'' ''FAILED''
                      (canonical_sha256 (JObj [(''error_type'', JStr (exn_class exc))]))
                      [''executor_failed''] (joptstr (dget capability ''capability_id'')) scope_sha None)) sm'
                | (Inr observation, sm') \<Rightarrow>
                    obind (olift (dreq capability ''receipt_sha256'')) (\<lambda>receipt_sha.
                    on_snd (m_finish operation (jstr receipt_sha) ''ALLOW'' ''SUCCEEDED''
                      (ob_result_sha256 observation) [''capability_admitted'', ''host_executor_succeeded'']
                      (joptstr (dget capability ''capability_id'')) scope_sha None)) sm'))) sm))"

definition network_operation :: "gateway_request \<Rightarrow> string \<Rightarrow> runtime_operation" where
  "network_operation request setting =
     \<lparr>ro_operation_id = gr_call_id request, ro_subject_id = gr_subject_id request,
      ro_policy_sha256 = gr_policy_sha256 request, ro_kind = ''runtime.configure'',
      ro_scope = [(''setting_keys'', JList [JStr setting])], ro_payload_sha256 = gr_body_sha256 request,
      ro_at_unix = gr_at_unix request, ro_privilege_level_before = 0, ro_privilege_level_after = 0\<rparr>"

definition network_scope_sha :: "gateway_request \<Rightarrow> string" where
  "network_scope_sha request =
     canonical_sha256 (JObj [(''network_request_sha256'', JStr (canonical_sha256 (JObj
       [(''call_id'', JStr (gr_call_id request)),
        (''url_sha256'', JStr (canonical_sha256 (JStr (gr_url request))))])))])"

definition m_mediate_network ::
  "(gateway_request \<Rightarrow> ('s, (string \<times> json) list) op) option \<Rightarrow> gateway_request \<Rightarrow>
   ('s \<times> mediator, (string \<times> json) list) op" where
  "m_mediate_network egress_gateway request sm =
     (case egress_gateway of
        None \<Rightarrow> (Inl (MediationError ''network mediation requires EgressGateway''), sm)
      | Some execute \<Rightarrow>
          if m_contained (snd sm)
          then on_snd (m_finish (network_operation request ''egress_blocked_by_containment'') ZERO_SHA256
                 ''BLOCK'' ''NOT_EXECUTED'' ZERO_SHA256 [''containment_active'', ''network_blocked''] None
                 (network_scope_sha request) (Some ''network.connect_domain'')) sm
          else (case on_fst (execute request) sm of
              (Inl exc, sm') \<Rightarrow>
                if exn_class exc = ''EgressBlocked''
                then on_snd (m_finish (network_operation request ''egress_gateway_block'') ZERO_SHA256
                       ''BLOCK'' ''NOT_EXECUTED''
                       (canonical_sha256 (JObj [(''error_type'', JStr (exn_class exc))]))
                       [''egress_gateway_blocked''] None (network_scope_sha request)
                       (Some ''network.connect_domain'')) sm'
                else (Inl exc, sm')
            | (Inr network, sm') \<Rightarrow>
                obind (olift (dreq network ''capability_receipt_sha256'')) (\<lambda>capability_receipt_sha.
                obind (olift (dreq network ''receipt_sha256'')) (\<lambda>receipt_sha.
                  on_snd (m_finish (network_operation request ''egress_gateway_success'')
                    (jstr capability_receipt_sha) ''ALLOW'' ''SUCCEEDED'' (jstr receipt_sha)
                    [''egress_gateway_mediated''] None
                    (canonical_sha256 (JObj [(''network_receipt_sha256'', receipt_sha)]))
                    (Some ''network.connect_domain'')))) sm'))"

definition m_verify_receipt :: "(string \<times> json) list \<Rightarrow> (string \<times> json) list res" where
  "m_verify_receipt document =
     (let receipt_sha = dget document ''receipt_sha256''; raw = dpop document ''receipt_sha256''
      in if \<not> py_eq (dget raw ''schema'') (JStr MEDIATION_SCHEMA) \<or> \<not> py_eq (dget raw ''authority'') MEDIATION_AUTHORITY
         then Inl (MediationError ''receipt schema or authority boundary mismatch'')
         else if \<not> py_eq receipt_sha (JStr (canonical_sha256 (JObj raw)))
         then Inl (MediationError ''runtime mediation receipt digest mismatch'')
         else Inr document)"

subsection \<open>Every recorded outcome\<close>

lemma hex_single_byte: "\<forall>c \<in> set ''0123456789abcdef''. \<not> (CHR 0x80 \<le> c \<and> c \<le> CHR 0xBF)"
  by simp

lemma filter_subset: "\<forall>c \<in> A. P c \<Longrightarrow> \<forall>c \<in> set s. c \<in> A \<Longrightarrow> filter P s = s"
  by simp

lemma py_len_sha: "is_sha256 s \<Longrightarrow> py_len s = 64"
  unfolding is_sha256_def py_len_def list_all_iff
  by (elim conjE, drule filter_subset [OF hex_single_byte]) (simp only: )

definition wf_mediation_receipt :: "mediation_receipt \<Rightarrow> bool" where
  "wf_mediation_receipt r \<longleftrightarrow> mr_receipt_sha256 r = canonical_sha256 (JObj (mr_body r))"

definition recorded :: "mediator \<Rightarrow> trajectory_event \<Rightarrow> mediation_receipt \<Rightarrow> mediator \<Rightarrow> bool" where
  "recorded m ev r m' \<longleftrightarrow>
     m' = m\<lparr>m_events := m_events m @ [ev], m_event_head := te_event_sha256 ev, m_receipts := m_receipts m @ [r]\<rparr> \<and>
     te_ok ev \<and> te_sequence ev = int (length (m_events m)) + 1 \<and> te_previous_event_sha256 ev = m_event_head m \<and>
     wf_mediation_receipt r \<and> mr_trajectory_event_sha256 r = te_event_sha256 ev \<and>
     te_decision ev = (if mr_admission_decision r = ''ALLOW'' \<and> mr_execution_outcome r = ''SUCCEEDED'' then ''ALLOW'' else ''BLOCK'') \<and>
     (te_decision ev \<noteq> ''ALLOW'' \<longrightarrow> te_privilege_level_after ev = te_privilege_level_before ev) \<and>
     0 \<le> te_observed_at_unix ev"

lemma te_build_Inr:
  assumes "te_build eid n t k d subj cid before after md prev = Inr ev"
  shows "te_ok ev" "te_sequence ev = n" "te_previous_event_sha256 ev = prev" "te_decision ev = d"
    "te_privilege_level_before ev = before" "te_privilege_level_after ev = after" "te_observed_at_unix ev = t"
    "0 \<le> t" "te_kind ev = k" "te_subject_id ev = subj"
  using assms unfolding te_build_def
  by (auto simp: te_ok_def te_body_def Let_def if_Inl_eq_Inr simp del: list.set)

lemma m_finish_cases:
  assumes "m_finish op csha adm out rsha rs cid ssha ovr m = (res, m')"
  obtains (error) e where "res = Inl e" "m' = m"
  | (logged) ev r where "res = Inr (mr_as_document r)" "recorded m ev r m'" "mr_admission_decision r = adm"
      "mr_execution_outcome r = out" "mr_result_sha256 r = rsha" "mr_capability_receipt_sha256 r = csha"
      "te_observed_at_unix ev = ro_at_unix op"
proof -
  let ?kind = "case ovr of Some kind \<Rightarrow> Some kind | None \<Rightarrow> map_of PHASE3_KIND (ro_kind op)"
  let ?dec = "if adm = ''ALLOW'' \<and> out = ''SUCCEEDED'' then ''ALLOW'' else ''BLOCK''"
  let ?rk = "case ovr of None \<Rightarrow> ro_kind op | Some kind \<Rightarrow> kind"
  let ?te = "\<lambda>kind. te_build (''runtime-event:'' @ nat_str (length (m_events m) + 1)) (int (length (m_events m)) + 1)
      (ro_at_unix op) kind ?dec (ro_subject_id op) cid (ro_privilege_level_before op)
      (if ?dec = ''ALLOW'' then ro_privilege_level_after op else ro_privilege_level_before op)
      [(''operation_id'', JStr (ro_operation_id op)), (''runtime_kind'', JStr ?rk),
       (''payload_sha256'', JStr (ro_payload_sha256 op)), (''scope_sha256'', JStr ssha), (''outcome'', JStr out),
       (''containment_evidence_sha256'', JStr (m_containment_evidence_sha256 m))] (m_event_head m)"
  show thesis
  proof (cases ?kind)
    case None
    with assms show thesis
      by (intro error [of "Exn ''KeyError'' (CHR 0x27 # ro_kind op @ [CHR 0x27])"]) (simp_all add: m_finish_def)
  next
    case kind: (Some k)
    show thesis
    proof (cases "?te k")
      case (Inl e)
      from assms have "res = Inl e \<and> m' = m"
        unfolding m_finish_def Let_def kind option.case Inl sum.case by blast
      with error show thesis by blast
    next
      case (Inr ev)
      note ev = te_build_Inr [OF Inr]
      from kind assms Inr show thesis
        unfolding m_finish_def Let_def kind option.case Inr sum.case
        by (intro logged [of _ ev]) (auto simp: recorded_def wf_mediation_receipt_def mr_body_def ev)
    qed
  qed
qed

subsection \<open>The invariant of the mediator\<close>

definition wf_mediator :: "mediator \<Rightarrow> bool" where
  "wf_mediator m \<longleftrightarrow>
     map te_sequence (m_events m) = map (\<lambda>i. 1 + int i) [0..<length (m_events m)] \<and>
     linked te_previous_event_sha256 te_event_sha256 ZERO_SHA256 (m_events m) (m_event_head m) \<and>
     list_all te_ok (m_events m) \<and> list_all (\<lambda>e. 0 \<le> te_observed_at_unix e) (m_events m) \<and>
     list_all (\<lambda>e. te_decision e \<noteq> ''ALLOW'' \<longrightarrow> te_privilege_level_after e = te_privilege_level_before e) (m_events m) \<and>
     list_all wf_mediation_receipt (m_receipts m) \<and>
     map mr_trajectory_event_sha256 (m_receipts m) = map te_event_sha256 (m_events m)"

lemma wf_mediator_init: "wf_mediator mediator_init"
  by (simp add: wf_mediator_def mediator_init_def)

lemma wf_recorded: "wf_mediator m \<Longrightarrow> recorded m ev r m' \<Longrightarrow> wf_mediator m'"
  by (auto simp: wf_mediator_def recorded_def linked_snoc)

lemma wf_m_finish: "wf_mediator m \<Longrightarrow> m_finish op csha adm out rsha rs cid ssha ovr m = (res, m') \<Longrightarrow> wf_mediator m'"
  by (erule m_finish_cases) (auto intro: wf_recorded)

lemma wf_m_finish_snd: "wf_mediator m \<Longrightarrow> wf_mediator (snd (m_finish op csha adm out rsha rs cid ssha ovr m))"
  using wf_m_finish by (metis prod.collapse)

lemma keeps_finish:
  "keeps (\<lambda>sm. wf_mediator (snd sm)) (on_snd (m_finish op csha adm out rsha rs cid ssha ovr))"
  by (intro keeps_on_snd keepsI wf_m_finish_snd)

lemma keeps_m_mediate: "keeps (\<lambda>sm. wf_mediator (snd sm)) (m_mediate auth exec op)"
proof -
  have branch: "keeps (\<lambda>sm. wf_mediator (snd sm)) (\<lambda>sm. case on_fst (run_executor exec op) sm of
      (Inl exc, sm') \<Rightarrow> f exc sm' | (Inr ob, sm') \<Rightarrow> g ob sm')"
    if "\<And>e. keeps (\<lambda>sm. wf_mediator (snd sm)) (f e)" "\<And>x. keeps (\<lambda>sm. wf_mediator (snd sm)) (g x)"
    for f g :: "_ \<Rightarrow> ('a \<times> mediator, (string \<times> json) list) op"
    using that keeps_on_fst [of wf_mediator "run_executor exec op"]
    unfolding keeps_def by (auto split: prod.split sum.split)
  show ?thesis
    unfolding m_mediate_def Let_def
    by (intro keeps_obind keeps_simple keeps_if keeps_finish keeps_on_fst)
      (auto intro!: keeps_obind keeps_simple keeps_finish branch)
qed

lemma keeps_m_mediate_network: "keeps (\<lambda>sm. wf_mediator (snd sm)) (m_mediate_network gw rq)"
proof (cases gw)
  case (Some ex)
  have fin: "wf_mediator (snd (snd (on_snd (m_finish op csha adm out rsha rs cid ssha ovr) sm)))"
    if "wf_mediator (snd sm)" for op csha adm out rsha rs cid ssha ovr and sm :: "'a \<times> mediator"
    using keeps_finish that unfolding keeps_def by blast
  have ob: "wf_mediator (snd (snd (obind (olift x) f sm)))"
    if "\<And>y. wf_mediator (snd (snd (f y sm)))" "wf_mediator (snd sm)"
    for x :: "json res" and f and sm :: "'a \<times> mediator"
    using that by (cases x) auto
  have mid: "wf_mediator (snd sm')" if "on_fst (ex rq) sm = (r, sm')" "wf_mediator (snd sm)" for r sm sm'
    using that by (auto simp: on_fst_def split: prod.splits)
  show ?thesis
    unfolding keeps_def m_mediate_network_def Some
    by (auto intro!: fin ob wf_m_finish_snd intro: mid split: prod.split sum.split)
qed (simp add: keeps_def m_mediate_network_def)

inductive mediator_reach :: "'s \<times> mediator \<Rightarrow> bool" where
  init: "mediator_reach (s, mediator_init)"
| environment: "mediator_reach (s, m) \<Longrightarrow> mediator_reach (s', m)"
| enter: "mediator_reach (s, m) \<Longrightarrow> mediator_reach (s, snd (m_enter_containment sha m))"
| exit: "mediator_reach (s, m) \<Longrightarrow> mediator_reach (s, snd (m_exit_containment sha m))"
| mediate: "mediator_reach sm \<Longrightarrow> mediator_reach (snd (m_mediate authorize executor operation sm))"
| network: "mediator_reach sm \<Longrightarrow> mediator_reach (snd (m_mediate_network gateway request sm))"

lemma mediator_reach_wf: "mediator_reach sm \<Longrightarrow> wf_mediator (snd sm)"
proof (induction rule: mediator_reach.induct)
  case (mediate sm authorize executor operation)
  then show ?case using keeps_m_mediate unfolding keeps_def by blast
next
  case (network sm gateway request)
  then show ?case using keeps_m_mediate_network unfolding keeps_def by blast
qed (auto simp: mediator_init_def m_enter_containment_def m_exit_containment_def wf_mediator_def split: sum.splits)

subsection \<open>Properties of the mediator\<close>

text \<open>The state of a mediator over the capability broker: the broker, the rest of the host, the
  mediator. The executor may act on the broker and on the host.\<close>

definition mediate_with_broker ::
  "(runtime_operation \<Rightarrow> (broker \<times> 'w, observation option) op) \<Rightarrow> runtime_operation \<Rightarrow>
   ((broker \<times> 'w) \<times> mediator, (string \<times> json) list) op" where
  "mediate_with_broker = m_mediate (\<lambda>rq. on_fst (b_authorize rq))"

lemma mr_dget:
  "dget (mr_as_document r) ''admission_decision'' = JStr (mr_admission_decision r)"
  "dget (mr_as_document r) ''execution_outcome'' = JStr (mr_execution_outcome r)"
  "dget (mr_as_document r) ''schema'' = JStr MEDIATION_SCHEMA"
  "dget (mr_as_document r) ''authority'' = MEDIATION_AUTHORITY"
  "dget (mr_as_document r) ''receipt_sha256'' = JStr (mr_receipt_sha256 r)"
  by (simp_all add: mr_as_document_def mr_body_def dget_def)

lemma mr_dpop: "dpop (mr_as_document r) ''receipt_sha256'' = mr_body r"
  by (simp add: mr_as_document_def mr_body_def dpop_def)

lemma mr_body_dget: "dget (mr_body r) ''schema'' = JStr MEDIATION_SCHEMA" "dget (mr_body r) ''authority'' = MEDIATION_AUTHORITY"
  by (simp_all add: mr_body_def dget_def)

lemma m_verify_receipt_ok: "wf_mediation_receipt r \<Longrightarrow> m_verify_receipt (mr_as_document r) = Inr (mr_as_document r)"
  by (simp add: m_verify_receipt_def mr_dpop mr_body_dget mr_dget wf_mediation_receipt_def)

lemma finish_recorded:
  assumes "m_finish op csha adm out rsha rs cid ssha ovr m = (r, m')"
  shows "m_contained m' = m_contained m \<and> (\<forall>doc. r = Inr doc \<longrightarrow> (\<exists>ev rc. doc = mr_as_document rc \<and> recorded m ev rc m' \<and>
       mr_admission_decision rc = adm \<and> mr_execution_outcome rc = out))"
proof (rule m_finish_cases [OF assms])
  fix ev rc
  assume "r = Inr (mr_as_document rc)" "recorded m ev rc m'" "mr_admission_decision rc = adm"
    "mr_execution_outcome rc = out"
  moreover from this(2) have "m_contained m' = m_contained m" by (simp add: recorded_def)
  ultimately show ?thesis by blast
qed simp

lemma contained_mediate:
  assumes "m_contained m" "m_mediate auth exec op (s, m) = (r, (s', m'))"
  shows "s' = s \<and> m_contained m' \<and>
    (\<forall>doc. r = Inr doc \<longrightarrow> (\<exists>ev rc. doc = mr_as_document rc \<and> recorded m ev rc m' \<and>
       mr_admission_decision rc = ''BLOCK'' \<and> mr_execution_outcome rc = ''NOT_EXECUTED''))"
proof -
  consider (stop) e where "r = Inl e" "s' = s" "m' = m"
    | (finish) ssha where "m_finish op ZERO_SHA256 ''BLOCK'' ''NOT_EXECUTED'' ZERO_SHA256 [''containment_active'']
        None ssha None m = (r, m')" "s' = s"
    using assms by (auto simp: m_mediate_def obind_cases Let_def on_snd_eq simp del: on_pair)
  then show ?thesis
  proof cases
    case finish
    with finish_recorded [OF finish(1)] assms(1) show ?thesis by simp
  qed (simp add: assms(1))
qed

lemma contained_network:
  assumes "m_contained m" "m_mediate_network gw rq (s, m) = (r, (s', m'))"
  shows "s' = s \<and> m_contained m' \<and>
    (\<forall>doc. r = Inr doc \<longrightarrow> (\<exists>ev rc. doc = mr_as_document rc \<and> recorded m ev rc m' \<and>
       mr_admission_decision rc = ''BLOCK'' \<and> mr_execution_outcome rc = ''NOT_EXECUTED''))"
proof (cases gw)
  case (Some ex)
  with assms obtain op ssha where "m_finish op ZERO_SHA256 ''BLOCK'' ''NOT_EXECUTED'' ZERO_SHA256
      [''containment_active'', ''network_blocked''] None ssha (Some ''network.connect_domain'') m = (r, m')" "s' = s"
    by (auto simp: m_mediate_network_def on_snd_eq simp del: on_pair)
  with finish_recorded [OF this(1)] assms(1) show ?thesis by simp
qed (use assms in \<open>auto simp: m_mediate_network_def\<close>)

lemma dr_dget:
  "dget (dr_as_document r) ''decision'' = JStr (dr_decision r)"
  "dget (dr_as_document r) ''capability_id'' = jopt (dr_capability_id r)"
  "dreq (dr_as_document r) ''decision'' = Inr (JStr (dr_decision r))"
  "dreq (dr_as_document r) ''receipt_sha256'' = Inr (JStr (dr_receipt_sha256 r))"
  "dreq (dr_as_document r) ''reason_codes'' = Inr (JList (map JStr (dr_reason_codes r)))"
  by (simp_all add: dr_as_document_def dr_body_def dget_def dreq_def)

lemma py_eq_JStr [simp]: "py_eq (JStr a) (JStr b) \<longleftrightarrow> a = b"
  by (simp add: py_eq_def)

lemma b_event_states: "b_event ty subj cid ct dec t inp out rs rid rsha b = (r, b') \<Longrightarrow> b_states b' = b_states b"
  by (auto simp: b_event_def split: sum.splits)

lemma b_deny_result:
  "b_deny rq sc rs b = (r, b') \<Longrightarrow> b_states b' = b_states b \<and>
     (\<forall>doc. r = Inr doc \<longrightarrow> (\<exists>d. doc = dr_as_document d \<and> dr_decision d = ''BLOCK''))"
  by (auto simp: b_deny_def Let_def obind_cases b_receipt_def dest!: b_event_states)

text \<open>Without an eligible capability, whatever the request, no state changes and no ALLOW is returned.\<close>

lemma authorize_ineligible:
  assumes "wf_broker b" "b_authorize rq b = (r, b')"
    and none: "\<And>sc k. validate_scope (rq_capability_type rq) (JObj (rq_requested_scope rq)) = Inr sc \<Longrightarrow> \<not> eligible b rq sc k"
  shows "b_states b' = b_states b \<and> (\<forall>doc. r = Inr doc \<longrightarrow> (\<exists>d. doc = dr_as_document d \<and> dr_decision d = ''BLOCK''))"
proof -
  consider (same) e where "b' = b" "r = Inl e" | (deny) sc rs where "b_deny rq sc rs b = (r, b')"
    | (allow) sc acc st where "validate_scope (rq_capability_type rq) (JObj (rq_requested_scope rq)) = Inr sc"
      "pick_candidate (rq_policy_sha256 rq) sc (rq_at_unix rq)
        (candidates b (rq_subject_id rq) (rq_capability_type rq)) [] = (acc, Some st)"
    using assms(2) by (auto simp: b_authorize_def split: if_splits sum.splits prod.splits option.splits)
  then show ?thesis
  proof cases
    case allow
    with none eligible_candidate [OF assms(1)] pick_candidate_Some [OF allow(2)] show ?thesis by blast
  qed (auto dest: b_deny_result)
qed

lemma normalized_scope:
  assumes "ro_normalized_scope op = Inr sc"
  shows "validate_scope (the (map_of OPERATION_TO_CAPABILITY (ro_kind op))) (JObj sc) = Inr sc"
  using assms validate_scope_wf
  by (auto simp: ro_normalized_scope_def wf_scope_def split: option.splits sum.splits)

lemma mediate_invalid:
  assumes "\<nexists>sc. ro_validate op = Inr () \<and> ro_normalized_scope op = Inr sc"
  obtains e where "m_mediate auth exec op sm = (Inl e, sm)"
proof (cases "ro_validate op")
  case (Inl e)
  with that show thesis by (simp add: m_mediate_def)
next
  case v: (Inr u)
  with assms obtain e where "ro_normalized_scope op = Inl e" by (cases "ro_normalized_scope op") auto
  with v that show thesis by (simp add: m_mediate_def)
qed

lemma mediate_ineligible:
  assumes "wf_broker b"
    and none: "\<And>sc k. ro_normalized_scope op = Inr sc \<Longrightarrow>
      \<not> eligible b (mediation_request op (the (map_of OPERATION_TO_CAPABILITY (ro_kind op))) sc) sc k"
    and run: "mediate_with_broker exec op ((b, w), m) = (r, ((b', w'), m'))"
  shows "w' = w \<and> b_states b' = b_states b \<and> (\<forall>doc. r = Inr doc \<longrightarrow> (\<exists>ev rc. doc = mr_as_document rc \<and>
    recorded m ev rc m' \<and> mr_admission_decision rc = ''BLOCK'' \<and> mr_execution_outcome rc = ''NOT_EXECUTED''))"
proof (cases "m_contained m")
  case True
  with contained_mediate run show ?thesis unfolding mediate_with_broker_def by fastforce
next
  case False
  show ?thesis
  proof (cases "\<exists>sc. ro_validate op = Inr () \<and> ro_normalized_scope op = Inr sc")
    case True
    then obtain sc where v: "ro_validate op = Inr ()" and sc: "ro_normalized_scope op = Inr sc" by blast
    let ?rq = "mediation_request op (the (map_of OPERATION_TO_CAPABILITY (ro_kind op))) sc"
    obtain ra b1 where a: "b_authorize ?rq b = (ra, b1)" by fastforce
    note deny = authorize_ineligible [OF assms(1) a]
    have d: "b_states b1 = b_states b \<and> (\<forall>doc. ra = Inr doc \<longrightarrow> (\<exists>d. doc = dr_as_document d \<and> dr_decision d = ''BLOCK''))"
      by (rule deny) (use none sc normalized_scope [OF sc] in \<open>simp add: mediation_request_def\<close>)
    show ?thesis
    proof (cases ra)
      case (Inl e)
      with run v sc False a d show ?thesis
        by (auto simp: mediate_with_broker_def m_mediate_def Let_def obind_def)
    next
      case (Inr doc)
      with d obtain dr where dr: "doc = dr_as_document dr" "dr_decision dr = ''BLOCK''" by blast
      let ?fin = "m_finish op (dr_receipt_sha256 dr) ''BLOCK'' ''NOT_EXECUTED'' ZERO_SHA256
          (jstrs (JList (map JStr (dr_reason_codes dr)))) None (canonical_sha256 (JObj sc)) None m"
      from run v sc False a Inr dr have "?fin = (r, m')" "b' = b1" "w' = w"
        by (auto simp: mediate_with_broker_def m_mediate_def Let_def obind_def dr_dget simp del: jstrs.simps)
      with d finish_recorded [of op _ "''BLOCK''" "''NOT_EXECUTED''"] show ?thesis by fastforce
    qed
  next
    case bad: False
    obtain e where "mediate_with_broker exec op ((b, w), m) = (Inl e, ((b, w), m))"
      unfolding mediate_with_broker_def by (rule mediate_invalid [OF bad])
    with run show ?thesis by auto
  qed
qed

subsection \<open>A valid outcome is always recorded\<close>

lemma wf_mediator_head: "wf_mediator m \<Longrightarrow> is_sha256 (m_event_head m)"
  by (cases "m_events m" rule: rev_cases) (auto simp: wf_mediator_def linked_snoc te_ok_def)

lemma runtime_event_id: "py_strip (''runtime-event:'' @ nat_str n) \<noteq> []"
proof -
  have "list_all graphic (''runtime-event:'' @ nat_str n)"
    using nat_str_digits [of n] is_alnum_graphic is_digit_alnum unfolding list_all_append
    by (auto simp: list_all_iff graphic_def)
  then have "trimmed (''runtime-event:'' @ nat_str n)" by (intro trimmed_graphic) simp
  then show ?thesis by (simp add: trimmed_def)
qed

lemma phase3_kinds: "(k, k') \<in> set PHASE3_KIND \<Longrightarrow> k' \<in> set EVENT_KINDS"
  by (auto simp: PHASE3_KIND_def OPERATION_TO_CAPABILITY_def EVENT_KINDS_def)

lemma phase3_total:
  assumes "map_of OPERATION_TO_CAPABILITY k = Some ct"
  obtains k' where "map_of PHASE3_KIND k = Some k'"
proof -
  have "k \<in> fst ` set OPERATION_TO_CAPABILITY" using assms by (force dest: map_of_SomeD)
  also have "fst ` set OPERATION_TO_CAPABILITY \<subseteq> fst ` set PHASE3_KIND"
    by (auto simp: OPERATION_TO_CAPABILITY_def PHASE3_KIND_def)
  finally show thesis using that map_of_eq_None_iff [of PHASE3_KIND k] by fastforce
qed

definition op_valid :: "runtime_operation \<Rightarrow> (string \<times> json) list \<Rightarrow> bool" where
  "op_valid op sc \<longleftrightarrow> ro_validate op = Inr () \<and> ro_normalized_scope op = Inr sc"

lemma op_validD:
  assumes "op_valid op sc"
  shows "py_strip (ro_subject_id op) \<noteq> []" "0 \<le> ro_at_unix op"
    "0 \<le> ro_privilege_level_before op" "ro_privilege_level_before op \<le> 10"
    "0 \<le> ro_privilege_level_after op" "ro_privilege_level_after op \<le> 10"
    "\<exists>k. map_of PHASE3_KIND (ro_kind op) = Some k"
proof -
  from assms have "ro_validate op = Inr ()" by (simp add: op_valid_def)
  then show "py_strip (ro_subject_id op) \<noteq> []" "0 \<le> ro_at_unix op"
    "0 \<le> ro_privilege_level_before op" "ro_privilege_level_before op \<le> 10"
    "0 \<le> ro_privilege_level_after op" "ro_privilege_level_after op \<le> 10"
    unfolding ro_validate_def by (auto simp: if_Inl_eq_Inr rbind_eq_Inr)
  have "\<exists>ct. map_of OPERATION_TO_CAPABILITY (ro_kind op) = Some ct"
    using assms by (auto simp: op_valid_def ro_normalized_scope_def split: option.splits)
  then show "\<exists>k. map_of PHASE3_KIND (ro_kind op) = Some k"
    using phase3_total by blast
qed

lemma m_finish_ok:
  assumes wf: "wf_mediator m" and op: "op_valid op sc"
  obtains ev r m' where "m_finish op csha adm out rsha rs cid ssha None m = (Inr (mr_as_document r), m')"
    "recorded m ev r m'" "mr_admission_decision r = adm" "mr_execution_outcome r = out" "mr_result_sha256 r = rsha"
    "mr_capability_receipt_sha256 r = csha"
proof -
  obtain k where k: "map_of PHASE3_KIND (ro_kind op) = Some k" using op_validD(7) [OF op] by blast
  have kinds: "k \<in> set EVENT_KINDS" by (rule phase3_kinds [OF map_of_SomeD [OF k]])
  have "\<nexists>e. fst (m_finish op csha adm out rsha rs cid ssha None m) = Inl e"
    using op_validD [OF op] k kinds py_len_sha [OF wf_mediator_head [OF wf]] runtime_event_id
    by (simp add: m_finish_def te_build_def Let_def)
  moreover obtain res m' where run: "m_finish op csha adm out rsha rs cid ssha None m = (res, m')" by fastforce
  ultimately show thesis
    by (rule_tac m_finish_cases [OF run]) (use that run in auto)
qed

text \<open>The whole path of a mediated operation: the broker charges the capability, the executor runs in
  the state the broker left, and the outcome is recorded.\<close>

lemma mediate_success:
  assumes wf: "wf_broker b" and cap: "log_capacity b 1" and wfm: "wf_mediator m" and free: "\<not> m_contained m"
    and op: "op_valid op sc" and subj: "ident_re (ro_subject_id op)"
    and el: "eligible b (mediation_request op (the (map_of OPERATION_TO_CAPABILITY (ro_kind op))) sc) sc k"
    and host: "\<And>b1. exec op (b1, w) = (Inr (Some ob), (b2 b1, w2))" and ob: "ob_validate ob = Inr ()"
  obtains b1 dev dr rc ev m' where
    "decided b (mediation_request op (the (map_of OPERATION_TO_CAPABILITY (ro_kind op))) sc) sc b1 dev dr"
    "mediate_with_broker exec op ((b, w), m) = (Inr (mr_as_document rc), ((b2 b1, w2), m'))"
    "recorded m ev rc m'" "mr_admission_decision rc = ''ALLOW''" "mr_execution_outcome rc = ''SUCCEEDED''"
    "mr_result_sha256 rc = ob_result_sha256 ob" "mr_capability_receipt_sha256 rc = dr_receipt_sha256 dr"
proof -
  let ?ct = "the (map_of OPERATION_TO_CAPABILITY (ro_kind op))"
  let ?rq = "mediation_request op ?ct sc"
  have v: "ro_validate op = Inr ()" "ro_normalized_scope op = Inr sc" using op by (simp_all add: op_valid_def)
  have "(k, ct) \<in> set OPERATION_TO_CAPABILITY \<Longrightarrow> ct \<in> set CAPABILITY_TYPES" for k ct
    by (auto simp: OPERATION_TO_CAPABILITY_def CAPABILITY_TYPES_def)
  moreover have "\<exists>ct. map_of OPERATION_TO_CAPABILITY (ro_kind op) = Some ct"
    using v(2) by (auto simp: ro_normalized_scope_def split: option.splits)
  ultimately have ct: "?ct \<in> set CAPABILITY_TYPES" by (metis map_of_SomeD option.sel)
  have "request_ok ?rq sc"
    using normalized_scope [OF v(2)] ct subj op_validD(2) [OF op]
    by (simp add: request_ok_def mediation_request_def)
  from authorize_decided [OF wf cap this] obtain dr dev b1 where
    a: "b_authorize ?rq b = (Inr (dr_as_document dr), b1)" and d: "decided b ?rq sc b1 dev dr" by blast
  have allow: "dr_decision dr = ''ALLOW''" using d el unfolding decided_def by (auto split: if_splits)
  obtain ev rc m' where fin: "m_finish op (dr_receipt_sha256 dr) ''ALLOW'' ''SUCCEEDED'' (ob_result_sha256 ob)
      [''capability_admitted'', ''host_executor_succeeded''] (joptstr (jopt (dr_capability_id dr)))
      (canonical_sha256 (JObj sc)) None m = (Inr (mr_as_document rc), m')" "recorded m ev rc m'"
      "mr_admission_decision rc = ''ALLOW''" "mr_execution_outcome rc = ''SUCCEEDED''"
      "mr_result_sha256 rc = ob_result_sha256 ob" "mr_capability_receipt_sha256 rc = dr_receipt_sha256 dr"
    by (rule m_finish_ok [OF wfm op])
  have "mediate_with_broker exec op ((b, w), m) = (Inr (mr_as_document rc), ((b2 b1, w2), m'))"
    using v free a allow fin(1) host [of b1] ob
    by (simp add: mediate_with_broker_def m_mediate_def Let_def obind_def dr_dget run_executor_def)
  with d fin that show thesis by blast
qed

end
