(* ===== verification/Mediation_Properties.thy ===== *)
theory Mediation_Properties
  imports Broker_Properties Runtime_Mediation
begin

section \<open>Properties of runtime mediation\<close>

text \<open>
  The mediator over the capability broker: containment stops every effect, an effect needs an eligible
  capability, an admitted effect is charged, run and recorded, and the recorded trajectory is one the
  escalation analysis accepts. Witnesses use the concrete broker of \<open>Broker_Properties\<close> and a host
  that counts the runs of its executor.
\<close>

definition demo_operation :: runtime_operation where
  "demo_operation = \<lparr>ro_operation_id = ''op:1'', ro_subject_id = ''agent:a'', ro_policy_sha256 = ZERO_SHA256,
     ro_kind = ''process.spawn_child'', ro_scope = [(''max_children'', JInt 1)], ro_payload_sha256 = ZERO_SHA256,
     ro_at_unix = 30, ro_privilege_level_before = 0, ro_privilege_level_after = 1\<rparr>"

definition demo_executor :: "runtime_operation \<Rightarrow> (broker \<times> nat, observation option) op" where
  "demo_executor op bw = (Inr (Some (ob_success [])), (fst bw, snd bw + 1))"

lemma demo_operation_valid: "op_valid demo_operation [(''max_children'', JInt 1)]"
proof -
  have sc: "ro_normalized_scope demo_operation = Inr [(''max_children'', JInt 1)]"
    by (simp add: demo_operation_def ro_normalized_scope_def OPERATION_TO_CAPABILITY_def validate_scope_def
        c_mapping.simps allowed_by_type_def dkeys_def scope_item_def c_int.simps)
  have "py_strip ''op:1'' \<noteq> []" "py_strip ''agent:a'' \<noteq> []" by code_simp+
  with sc show ?thesis
    by (simp add: op_valid_def ro_validate_def med_sha_def) (simp add: demo_operation_def)
qed

lemma demo_operation_eligible:
  "eligible demo_broker (mediation_request demo_operation
     (the (map_of OPERATION_TO_CAPABILITY (ro_kind demo_operation))) [(''max_children'', JInt 1)])
     [(''max_children'', JInt 1)] ''cap:demo''"
  by (simp add: eligible_def demo_states new_state_def mediation_request_def demo_operation_def
      OPERATION_TO_CAPABILITY_def scope_contains_def scope_value_contains_def)

lemma demo_subject: "ident_re (ro_subject_id demo_operation)"
  by (simp add: demo_operation_def is_alnum_def is_alpha_def)

lemma demo_observation: "ob_validate (ob_success []) = Inr ()"
  by (simp add: ob_validate_def ob_success_def med_sha_def)

text \<open>Whatever callers, host and gateway do, the mediator's trajectory is a hash-linked, numbered
  log with one verifiable receipt per event, an event that was not an admitted success never raises
  the privilege level, and the escalation analysis accepts the log whenever the callers' times did
  not go back.\<close>

lemma mediator_log_sound:
  assumes "mediator_reach sm"
  shows "wf_mediator (snd sm) \<and> (\<forall>r \<in> set (m_receipts (snd sm)). m_verify_receipt (mr_as_document r) = Inr (mr_as_document r)) \<and>
    (sorted (map te_observed_at_unix (m_events (snd sm))) \<longrightarrow>
       (\<exists>doc. analyze_trajectory (m_events (snd sm)) = Inr doc))"
proof -
  note wf = mediator_reach_wf [OF assms]
  have "\<forall>r \<in> set (m_receipts (snd sm)). m_verify_receipt (mr_as_document r) = Inr (mr_as_document r)"
    using wf m_verify_receipt_ok by (auto simp: wf_mediator_def list_all_iff)
  moreover have "verify_chain (m_events (snd sm)) = Inr ()" if "sorted (map te_observed_at_unix (m_events (snd sm)))"
    using wf that unfolding verify_chain_iff by (fastforce simp: wf_mediator_def list_all_iff)
  ultimately show ?thesis using wf by (simp add: analyze_Inr)
qed

text \<open>C5: While contained, a mediator neither consults the broker nor runs an executor nor calls the
  egress gateway: the rest of the world is unchanged, containment stays, and every answer it gives is
  a recorded BLOCK of an operation that was not executed.\<close>

theorem containment_blocks_effects:
  assumes "m_contained m"
    and "m_mediate authorize executor operation (s, m) = (r, (s', m')) \<or>
      m_mediate_network gateway request (s, m) = (r, (s', m'))"
  shows "s' = s \<and> m_contained m' \<and>
    (\<forall>doc. r = Inr doc \<longrightarrow> (\<exists>ev rc. doc = mr_as_document rc \<and> recorded m ev rc m' \<and>
       mr_admission_decision rc = ''BLOCK'' \<and> mr_execution_outcome rc = ''NOT_EXECUTED''))"
  using assms(2)
proof
  assume "m_mediate authorize executor operation (s, m) = (r, (s', m'))"
  with assms(1) show ?thesis by (rule contained_mediate)
next
  assume "m_mediate_network gateway request (s, m) = (r, (s', m'))"
  with assms(1) show ?thesis by (rule contained_network)
qed

theorem containment_blocks_effects_witness:
  "fst (snd (m_mediate (\<lambda>rq. on_fst (b_authorize rq)) demo_executor demo_operation
     ((demo_broker, 7), mediator_init\<lparr>m_contained := True\<rparr>))) = (demo_broker, 7)"
proof -
  let ?m = "mediator_init\<lparr>m_contained := True\<rparr>"
  obtain r s' m' where run: "m_mediate (\<lambda>rq. on_fst (b_authorize rq)) demo_executor demo_operation
      ((demo_broker, 7), ?m) = (r, (s', m'))" by (metis prod.collapse)
  have "m_contained ?m" by simp
  from containment_blocks_effects [OF this disjI1 [OF run]] show ?thesis unfolding run by simp
qed

text \<open>C4: No capability, no effect: if no capability of the broker is eligible for the operation, the
  host is unchanged whatever its executor would have done, no capability state changes, and the
  answer, if there is one, is a recorded BLOCK.\<close>

theorem no_capability_no_effect:
  assumes "broker_reach b"
    and "\<And>sc k. ro_normalized_scope op = Inr sc \<Longrightarrow>
      \<not> eligible b (mediation_request op (the (map_of OPERATION_TO_CAPABILITY (ro_kind op))) sc) sc k"
    and "mediate_with_broker exec op ((b, w), m) = (r, ((b', w'), m'))"
  shows "w' = w \<and> b_states b' = b_states b \<and> (\<forall>doc. r = Inr doc \<longrightarrow> (\<exists>ev rc. doc = mr_as_document rc \<and>
    recorded m ev rc m' \<and> mr_admission_decision rc = ''BLOCK'' \<and> mr_execution_outcome rc = ''NOT_EXECUTED''))"
  using mediate_ineligible [OF reach_wf [OF assms(1)] assms(2,3)] .

theorem no_capability_no_effect_witness:
  "snd (fst (snd (mediate_with_broker demo_executor demo_operation ((demo_broker0, 7), mediator_init)))) = 7"
proof -
  have none: "\<not> eligible demo_broker0 rq sc k" for rq sc k by (simp add: eligible_def demo_broker0_def)
  show ?thesis
    using no_capability_no_effect [OF demo_broker0_reach, where op = demo_operation and exec = demo_executor
        and w = 7 and m = mediator_init] none
    by (cases "mediate_with_broker demo_executor demo_operation ((demo_broker0, 7), mediator_init)") auto
qed

text \<open>C6: An eligible operation goes through: the broker first charges the capability, the executor
  runs in the state the broker left, and its result is recorded as an admitted success together with
  the receipt of that charge.\<close>

theorem eligible_operation_executes:
  assumes "broker_reach b" "log_capacity b 1" "mediator_reach ((b, w), m)" "\<not> m_contained m"
    and "op_valid op sc" "ident_re (ro_subject_id op)"
    and "eligible b (mediation_request op (the (map_of OPERATION_TO_CAPABILITY (ro_kind op))) sc) sc k"
    and "\<And>b1. exec op (b1, w) = (Inr (Some ob), (after b1, w'))" "ob_validate ob = Inr ()"
  shows "\<exists>b1 dev dr rc ev m'.
    decided b (mediation_request op (the (map_of OPERATION_TO_CAPABILITY (ro_kind op))) sc) sc b1 dev dr \<and>
    mediate_with_broker exec op ((b, w), m) = (Inr (mr_as_document rc), ((after b1, w'), m')) \<and>
    recorded m ev rc m' \<and> mr_admission_decision rc = ''ALLOW'' \<and> mr_execution_outcome rc = ''SUCCEEDED'' \<and>
    mr_result_sha256 rc = ob_result_sha256 ob \<and> mr_capability_receipt_sha256 rc = dr_receipt_sha256 dr"
proof -
  note wfm = mediator_reach_wf [OF assms(3), simplified]
  show ?thesis
  proof (rule mediate_success [OF reach_wf [OF assms(1)] assms(2) wfm assms(4-7)])
    show "exec op (b1, w) = (Inr (Some ob), (after b1, w'))" for b1 by (rule assms(8))
  qed (rule assms(9), blast)
qed

theorem eligible_operation_executes_witness:
  "\<exists>b1 rc m'. mediate_with_broker demo_executor demo_operation ((demo_broker, 0), mediator_init) =
     (Inr (mr_as_document rc), ((b1, 1), m')) \<and> mr_execution_outcome rc = ''SUCCEEDED''"
  using eligible_operation_executes [OF demo_reach demo_capacity mediator_reach.init _ demo_operation_valid demo_subject
      demo_operation_eligible _ demo_observation, where w = 0 and exec = demo_executor and after = "\<lambda>b1. b1" and w' = 1]
  by (simp add: mediator_init_def demo_executor_def) blast

end
