(* ===== verification/Process_Tree.thy ===== *)
theory Process_Tree
  imports Pytext
begin

section \<open>Process-session supervision\<close>

text \<open>
  Model of src/sdk/liminal_process_tree. The supervisor's fields are the record \<open>ptree\<close>; the host's
  three callbacks act on a world of any type, and the state of a method is the pair of both.
  \<open>except Exception\<close> is \<open>otry\<close>, and a \<open>continue\<close> ends the step of the loop for one session.
\<close>

subsection \<open>Data\<close>

abbreviation ProcessTreeError :: "string \<Rightarrow> exn" where
  "ProcessTreeError m \<equiv> Exn ''ProcessTreeError'' m"

definition PTREE_SCHEMA :: string where
  "PTREE_SCHEMA = ''liminal-process-tree-containment-receipt-v0.1''"

definition FREEZE_SCHEMA :: string where
  "FREEZE_SCHEMA = ''liminal-process-tree-freeze-receipt-v0.1''"

definition PTREE_AUTHORITY :: json where
  "PTREE_AUTHORITY = JObj
     [(''mode'', JStr ''host_bound_process_tree_containment''), (''trusted_host_callbacks'', JBool True),
      (''freeze_registered_sessions'', JBool True), (''terminate_registered_sessions'', JBool True),
      (''verify_zero_survivors'', JBool True), (''separate_freeze_and_quiesce'', JBool True),
      (''digest_only_receipts'', JBool True), (''direct_host_process_enumeration'', JBool False),
      (''direct_subprocess_execution'', JBool False), (''direct_docker_api_access'', JBool False),
      (''kernel_escape_resistance'', JBool False), (''container_runtime_compromise_resistance'', JBool False),
      (''automatic_release'', JBool False)]"

definition pt_validate_id :: "string \<Rightarrow> string \<Rightarrow> unit res" where
  "pt_validate_id v name =
     (if py_strip v = [] \<or> CHR 0x00 \<in> set v \<or> py_len v > 256
      then Inl (ProcessTreeError (name @ '' must be a bounded non-empty string'')) else Inr ())"

fun pt_require_sha :: "json \<Rightarrow> string \<Rightarrow> string res" where
  "pt_require_sha (JStr s) name =
     (if is_sha256 s then Inr s else Inl (ProcessTreeError (name @ '' must be lowercase SHA-256'')))"
| "pt_require_sha v name = Inl (ProcessTreeError (name @ '' must be lowercase SHA-256''))"

record tree_observation =
  to_session_id :: string
  to_exists :: bool
  to_running :: bool
  to_descendant_count :: int
  to_tree_sha256 :: string

definition to_from_mapping :: "string \<Rightarrow> (string \<times> json) list \<Rightarrow> tree_observation res" where
  "to_from_mapping session_id v =
     rbind (pt_validate_id session_id ''session_id'') (\<lambda>_.
     if \<not> same_keys v [''exists'', ''running'', ''descendant_count'', ''tree_sha256'']
     then Inl (ProcessTreeError ''process observation schema mismatch'')
     else (case (dget v ''exists'', dget v ''running'') of
        (JBool exists, JBool running) \<Rightarrow>
          if running \<and> \<not> exists then Inl (ProcessTreeError ''running session must exist'')
          else (case dget v ''descendant_count'' of
             JInt descendants \<Rightarrow>
               if descendants < 0 \<or> descendants > 4096
               then Inl (ProcessTreeError ''descendant_count is outside bounds'')
               else rbind (pt_require_sha (dget v ''tree_sha256'') ''tree_sha256'') (\<lambda>tree_sha.
                 if \<not> exists \<and> (running \<or> descendants \<noteq> 0 \<or> tree_sha \<noteq> ZERO_SHA256)
                 then Inl (ProcessTreeError ''absent session must have zero survivor evidence'')
                 else Inr \<lparr>to_session_id = session_id, to_exists = exists, to_running = running,
                        to_descendant_count = descendants, to_tree_sha256 = tree_sha\<rparr>)
           | _ \<Rightarrow> Inl (ProcessTreeError ''descendant_count is outside bounds''))
      | _ \<Rightarrow> Inl (ProcessTreeError ''process observation booleans are invalid'')))"

definition to_safe_body :: "tree_observation \<Rightarrow> json" where
  "to_safe_body ob = JObj
     [(''session_id_sha256'', JStr (canonical_sha256 (JStr (to_session_id ob)))),
      (''exists'', JBool (to_exists ob)),
      (''running'', JBool (to_running ob)),
      (''descendant_count'', JInt (to_descendant_count ob)),
      (''tree_sha256'', JStr (to_tree_sha256 ob))]"

record session_binding =
  sb_session_id :: string
  sb_operation_id :: string
  sb_plan_sha256 :: string
  sb_backend_identity_sha256 :: string
  sb_status :: string

definition sb_safe_body :: "session_binding \<Rightarrow> (string \<times> json) list" where
  "sb_safe_body b =
     [(''session_id_sha256'', JStr (canonical_sha256 (JStr (sb_session_id b)))),
      (''operation_id_sha256'', JStr (canonical_sha256 (JStr (sb_operation_id b)))),
      (''plan_sha256'', JStr (sb_plan_sha256 b)),
      (''backend_identity_sha256'', JStr (sb_backend_identity_sha256 b)),
      (''status'', JStr (sb_status b))]"

record tree_receipt =
  tr_incident_id :: string
  tr_session_count :: int
  tr_active_before_count :: int
  tr_terminated_count :: int
  tr_already_absent_count :: int
  tr_survivor_count :: int
  tr_session_set_sha256 :: string
  tr_before_root_sha256 :: string
  tr_after_root_sha256 :: string
  tr_failure_codes :: "string list"
  tr_zero_survivors :: bool
  tr_receipt_sha256 :: string

definition tr_body :: "tree_receipt \<Rightarrow> (string \<times> json) list" where
  "tr_body r =
     [(''schema'', JStr PTREE_SCHEMA),
      (''incident_id_sha256'', JStr (canonical_sha256 (JStr (tr_incident_id r)))),
      (''session_count'', JInt (tr_session_count r)),
      (''active_before_count'', JInt (tr_active_before_count r)),
      (''terminated_count'', JInt (tr_terminated_count r)),
      (''already_absent_count'', JInt (tr_already_absent_count r)),
      (''survivor_count'', JInt (tr_survivor_count r)),
      (''session_set_sha256'', JStr (tr_session_set_sha256 r)),
      (''before_root_sha256'', JStr (tr_before_root_sha256 r)),
      (''after_root_sha256'', JStr (tr_after_root_sha256 r)),
      (''failure_codes'', JList (map JStr (tr_failure_codes r))),
      (''zero_survivors'', JBool (tr_zero_survivors r)),
      (''authority'', PTREE_AUTHORITY)]"

definition tr_as_document :: "tree_receipt \<Rightarrow> (string \<times> json) list" where
  "tr_as_document r = tr_body r @ [(''receipt_sha256'', JStr (tr_receipt_sha256 r))]"

record ptree =
  pt_sessions :: "(string \<times> session_binding) list"
  pt_receipts :: "tree_receipt list"
  pt_freeze_receipts :: "(string \<times> json) list list"

definition ptree_init :: ptree where
  "ptree_init = \<lparr>pt_sessions = [], pt_receipts = [], pt_freeze_receipts = []\<rparr>"

text \<open>The host's callbacks.\<close>

record 'w session_host =
  h_inspect :: "string \<Rightarrow> ('w, (string \<times> json) list) op"
  h_freeze :: "string \<Rightarrow> ('w, unit) op"
  h_terminate :: "string \<Rightarrow> ('w, unit) op"

subsection \<open>Sessions\<close>

definition pt_get :: "string \<Rightarrow> ptree \<Rightarrow> session_binding res" where
  "pt_get session_id p =
     rbind (pt_validate_id session_id ''session_id'') (\<lambda>_.
       case map_of (pt_sessions p) session_id of
         None \<Rightarrow> Inl (ProcessTreeError ''unknown execution session'')
       | Some item \<Rightarrow> Inr item)"

definition pt_set_status :: "string \<Rightarrow> string \<Rightarrow> (ptree, unit) op" where
  "pt_set_status session_id status p =
     (if status \<notin> set [''ACTIVE'', ''FROZEN'', ''TERMINATED'', ''COMPLETED'', ''ERROR'']
      then (Inl (ProcessTreeError ''invalid session status''), p)
      else case map_of (pt_sessions p) session_id of
        None \<Rightarrow> (Inl (Exn ''KeyError'' (CHR 0x27 # session_id @ [CHR 0x27])), p)
      | Some current \<Rightarrow>
          if sb_status current \<in> set [''TERMINATED'', ''COMPLETED''] \<and> status \<noteq> sb_status current
          then (Inl (ProcessTreeError ''terminal execution session cannot be resurrected''), p)
          else (Inr (), p\<lparr>pt_sessions :=
                  AList.update session_id (current\<lparr>sb_status := status\<rparr>) (pt_sessions p)\<rparr>))"

definition pt_inspect :: "'w session_host \<Rightarrow> string \<Rightarrow> ('w \<times> ptree, tree_observation) op" where
  "pt_inspect host session_id =
     obind (on_fst (h_inspect host session_id)) (\<lambda>doc. olift (to_from_mapping session_id doc))"

definition pt_register_session :: "string \<Rightarrow> string \<Rightarrow> string \<Rightarrow> string \<Rightarrow> (ptree, (string \<times> json) list) op" where
  "pt_register_session session_id operation_id plan_sha256 backend_identity_sha256 =
     obind (olift (pt_validate_id session_id ''session_id'')) (\<lambda>_.
     obind (olift (pt_validate_id operation_id ''operation_id'')) (\<lambda>_.
     obind (olift (pt_require_sha (JStr plan_sha256) ''plan_sha256'')) (\<lambda>_.
     obind (olift (pt_require_sha (JStr backend_identity_sha256) ''backend_identity_sha256'')) (\<lambda>_ p.
       if session_id \<in> set (map fst (pt_sessions p))
       then (Inl (ProcessTreeError ''execution session replay/duplicate is forbidden''), p)
       else (let binding = \<lparr>sb_session_id = session_id, sb_operation_id = operation_id,
                   sb_plan_sha256 = plan_sha256, sb_backend_identity_sha256 = backend_identity_sha256,
                   sb_status = ''ACTIVE''\<rparr>
             in (Inr (sb_safe_body binding @
                   [(''binding_sha256'', JStr (canonical_sha256 (JObj (sb_safe_body binding))))]),
                 p\<lparr>pt_sessions := AList.update session_id binding (pt_sessions p)\<rparr>))))))"

definition pt_mark_complete :: "'w session_host \<Rightarrow> string \<Rightarrow> ('w \<times> ptree, (string \<times> json) list) op" where
  "pt_mark_complete host session_id s =
     (case pt_get session_id (snd s) of
        Inl e \<Rightarrow> (Inl e, s)
      | Inr binding \<Rightarrow>
          if sb_status binding \<in> set [''COMPLETED'', ''TERMINATED''] then (Inr (sb_safe_body binding), s)
          else obind (pt_inspect host session_id) (\<lambda>observation.
                 if to_exists observation \<or> to_running observation \<or> to_descendant_count observation \<noteq> 0
                 then oraise (ProcessTreeError ''cannot mark a live process tree complete'')
                 else obind (on_snd (pt_set_status session_id ''COMPLETED'')) (\<lambda>_ s.
                   (Inr (sb_safe_body (the (map_of (pt_sessions (snd s)) session_id))), s))) s)"

definition open_sessions :: "ptree \<Rightarrow> session_binding list" where
  "open_sessions p =
     filter (\<lambda>b. sb_status b \<notin> set [''COMPLETED'', ''TERMINATED''])
       (map snd (sort_key fst (pt_sessions p)))"

definition session_hash :: "string \<Rightarrow> string" where
  "session_hash session_id = take 16 (canonical_sha256 (JStr session_id))"

subsection \<open>Freezing\<close>

record freeze_acc =
  fa_before_docs :: "json list"
  fa_after_docs :: "json list"
  fa_failures :: "string list"
  fa_frozen_count :: int
  fa_absent_count :: int

definition freeze_one :: "'w session_host \<Rightarrow> session_binding \<Rightarrow> freeze_acc \<Rightarrow> ('w \<times> ptree, freeze_acc) op" where
  "freeze_one host binding acc s =
     (let sid = sb_session_id binding in
      case pt_inspect host sid s of
        (Inl exc, s1) \<Rightarrow>
          obind (on_snd (pt_set_status sid ''ERROR'')) (\<lambda>_.
            oret (acc\<lparr>fa_failures := fa_failures acc @
              [''inspect_before:'' @ session_hash sid @ '':'' @ exn_class exc]\<rparr>)) s1
      | (Inr before, s1) \<Rightarrow>
          (let acc = acc\<lparr>fa_before_docs := fa_before_docs acc @ [to_safe_body before]\<rparr> in
           if \<not> to_exists before
           then obind (on_snd (pt_set_status sid ''COMPLETED'')) (\<lambda>_.
                  oret (acc\<lparr>fa_absent_count := fa_absent_count acc + 1,
                    fa_after_docs := fa_after_docs acc @ [to_safe_body before]\<rparr>)) s1
           else (case (obind (if to_running before then on_fst (h_freeze host sid) else oret ()) (\<lambda>_.
                         pt_inspect host sid)) s1 of
               (Inl exc, s2) \<Rightarrow>
                 obind (on_snd (pt_set_status sid ''ERROR'')) (\<lambda>_.
                   oret (acc\<lparr>fa_failures := fa_failures acc @
                     [''freeze:'' @ session_hash sid @ '':'' @ exn_class exc]\<rparr>)) s2
             | (Inr after, s2) \<Rightarrow>
                 (let acc = acc\<lparr>fa_after_docs := fa_after_docs acc @ [to_safe_body after]\<rparr>;
                      status = (if \<not> to_exists after then ''COMPLETED''
                                else if to_running after then ''ERROR'' else ''FROZEN'');
                      acc' = (if \<not> to_exists after then acc\<lparr>fa_absent_count := fa_absent_count acc + 1\<rparr>
                              else if to_running after
                              then acc\<lparr>fa_failures := fa_failures acc @ [''still_running:'' @ session_hash sid]\<rparr>
                              else acc\<lparr>fa_frozen_count := fa_frozen_count acc + 1\<rparr>)
                  in otry (obind (on_snd (pt_set_status sid status)) (\<lambda>_. oret acc')) (\<lambda>exc.
                       obind (on_snd (pt_set_status sid ''ERROR'')) (\<lambda>_.
                         oret (acc'\<lparr>fa_failures := fa_failures acc' @
                           [''freeze:'' @ session_hash sid @ '':'' @ exn_class exc]\<rparr>))) s2))))"

primrec freeze_loop :: "'w session_host \<Rightarrow> session_binding list \<Rightarrow> freeze_acc \<Rightarrow> ('w \<times> ptree, freeze_acc) op" where
  "freeze_loop host [] acc = oret acc"
| "freeze_loop host (b # bs) acc = obind (freeze_one host b acc) (freeze_loop host bs)"

definition pt_freeze_all :: "'w session_host \<Rightarrow> ('w \<times> ptree, (string \<times> json) list) op" where
  "pt_freeze_all host s =
     (let candidates = open_sessions (snd s) in
      obind (freeze_loop host candidates \<lparr>fa_before_docs = [], fa_after_docs = [], fa_failures = [],
               fa_frozen_count = 0, fa_absent_count = 0\<rparr>)
        (\<lambda>acc s.
          (let body =
             [(''schema'', JStr FREEZE_SCHEMA),
              (''session_count'', JInt (int (length candidates))),
              (''frozen_count'', JInt (fa_frozen_count acc)),
              (''already_absent_count'', JInt (fa_absent_count acc)),
              (''failure_codes'', JList (map JStr (sort (fa_failures acc)))),
              (''before_root_sha256'', JStr (canonical_sha256 (JList (fa_before_docs acc)))),
              (''after_root_sha256'', JStr (canonical_sha256 (JList (fa_after_docs acc)))),
              (''authority_sha256'', JStr (canonical_sha256 PTREE_AUTHORITY))];
             receipt = body @ [(''receipt_sha256'', JStr (canonical_sha256 (JObj body)))]
           in (Inr receipt,
               (fst s, (snd s)\<lparr>pt_freeze_receipts := pt_freeze_receipts (snd s) @ [receipt]\<rparr>)))) s)"

subsection \<open>Termination\<close>

record quiesce_acc =
  qa_before_docs :: "json list"
  qa_after_docs :: "json list"
  qa_failures :: "string list"
  qa_terminated :: int
  qa_already_absent :: int
  qa_active_before :: int
  qa_survivors :: int

definition lost :: "string \<Rightarrow> string \<Rightarrow> quiesce_acc \<Rightarrow> ('w \<times> ptree, quiesce_acc) op" where
  "lost sid code acc =
     obind (on_snd (pt_set_status sid ''ERROR'')) (\<lambda>_.
       oret (acc\<lparr>qa_failures := qa_failures acc @ [code], qa_survivors := qa_survivors acc + 1\<rparr>))"

text \<open>From the call of \<open>terminate_session\<close> to the end of the loop body.\<close>

definition terminate_stage :: "'w session_host \<Rightarrow> string \<Rightarrow> quiesce_acc \<Rightarrow> ('w \<times> ptree, quiesce_acc) op" where
  "terminate_stage host sid acc =
     obind (otry (obind (on_fst (h_terminate host sid)) (\<lambda>_. oret acc)) (\<lambda>exc.
        oret (acc\<lparr>qa_failures := qa_failures acc @
          [''terminate:'' @ session_hash sid @ '':'' @ exn_class exc]\<rparr>))) (\<lambda>acc s.
        case pt_inspect host sid s of
          (Inl exc, s1) \<Rightarrow> lost sid (''inspect_after:'' @ session_hash sid @ '':'' @ exn_class exc) acc s1
        | (Inr after, s1) \<Rightarrow>
            (let acc = acc\<lparr>qa_after_docs := qa_after_docs acc @ [to_safe_body after]\<rparr> in
             if to_exists after \<or> to_running after \<or> to_descendant_count after \<noteq> 0
             then lost sid (''survivor:'' @ session_hash sid) acc s1
             else obind (on_snd (pt_set_status sid ''TERMINATED'')) (\<lambda>_.
                    oret (acc\<lparr>qa_terminated := qa_terminated acc + 1\<rparr>)) s1))"

definition emergency_freeze :: "'w session_host \<Rightarrow> string \<Rightarrow> ('w \<times> ptree, unit) op" where
  "emergency_freeze host sid =
     obind (on_fst (h_freeze host sid)) (\<lambda>_.
     obind (on_snd (pt_set_status sid ''FROZEN'')) (\<lambda>_.
     obind (pt_inspect host sid) (\<lambda>before.
       if to_running before then oraise (ProcessTreeError ''emergency freeze left session running'')
       else oret ())))"

definition quiesce_one :: "'w session_host \<Rightarrow> bool \<Rightarrow> session_binding \<Rightarrow> quiesce_acc \<Rightarrow> ('w \<times> ptree, quiesce_acc) op" where
  "quiesce_one host allow_emergency_freeze binding acc s =
     (let sid = sb_session_id binding in
      case pt_inspect host sid s of
        (Inl exc, s1) \<Rightarrow> lost sid (''inspect_before:'' @ session_hash sid @ '':'' @ exn_class exc) acc s1
      | (Inr before, s1) \<Rightarrow>
          (let acc = acc\<lparr>qa_before_docs := qa_before_docs acc @ [to_safe_body before]\<rparr> in
           if \<not> to_exists before
           then obind (on_snd (pt_set_status sid ''COMPLETED'')) (\<lambda>_.
                  oret (acc\<lparr>qa_already_absent := qa_already_absent acc + 1,
                    qa_after_docs := qa_after_docs acc @ [to_safe_body before]\<rparr>)) s1
           else (let acc = acc\<lparr>qa_active_before := qa_active_before acc + 1\<rparr> in
             if to_running before then
               if \<not> allow_emergency_freeze
               then obind (lost sid (''not_frozen:'' @ session_hash sid) acc) (\<lambda>acc.
                      oret (acc\<lparr>qa_after_docs := qa_after_docs acc @ [to_safe_body before]\<rparr>)) s1
               else (case emergency_freeze host sid s1 of
                   (Inl exc, s2) \<Rightarrow> lost sid (''freeze:'' @ session_hash sid @ '':'' @ exn_class exc) acc s2
                 | (Inr _, s2) \<Rightarrow> terminate_stage host sid acc s2)
             else terminate_stage host sid acc s1)))"

primrec quiesce_loop :: "'w session_host \<Rightarrow> bool \<Rightarrow> session_binding list \<Rightarrow> quiesce_acc \<Rightarrow> ('w \<times> ptree, quiesce_acc) op" where
  "quiesce_loop host emergency [] acc = oret acc"
| "quiesce_loop host emergency (b # bs) acc = obind (quiesce_one host emergency b acc) (quiesce_loop host emergency bs)"

definition quiesce_acc_init :: quiesce_acc where
  "quiesce_acc_init = \<lparr>qa_before_docs = [], qa_after_docs = [], qa_failures = [], qa_terminated = 0,
     qa_already_absent = 0, qa_active_before = 0, qa_survivors = 0\<rparr>"

definition quiesce_receipt :: "session_binding list \<Rightarrow> string \<Rightarrow> quiesce_acc \<Rightarrow> tree_receipt" where
  "quiesce_receipt bindings incident_id acc =
     (let base = \<lparr>tr_incident_id = incident_id, tr_session_count = int (length bindings),
            tr_active_before_count = qa_active_before acc, tr_terminated_count = qa_terminated acc,
            tr_already_absent_count = qa_already_absent acc, tr_survivor_count = qa_survivors acc,
            tr_session_set_sha256 = canonical_sha256 (JList (map (\<lambda>b. JObj (sb_safe_body b)) bindings)),
            tr_before_root_sha256 = canonical_sha256 (JList (qa_before_docs acc)),
            tr_after_root_sha256 = canonical_sha256 (JList (qa_after_docs acc)),
            tr_failure_codes = sort (qa_failures acc),
            tr_zero_survivors = (qa_survivors acc = 0 \<and> qa_failures acc = []), tr_receipt_sha256 = []\<rparr>
      in base\<lparr>tr_receipt_sha256 := canonical_sha256 (JObj (tr_body base))\<rparr>)"

definition pt_quiesce :: "'w session_host \<Rightarrow> session_binding list \<Rightarrow> string \<Rightarrow> bool \<Rightarrow> ('w \<times> ptree, (string \<times> json) list) op" where
  "pt_quiesce host bindings incident_id allow_emergency_freeze =
     obind (quiesce_loop host allow_emergency_freeze bindings quiesce_acc_init) (\<lambda>acc s.
       (let receipt = quiesce_receipt bindings incident_id acc
        in (Inr (tr_as_document receipt),
            (fst s, (snd s)\<lparr>pt_receipts := pt_receipts (snd s) @ [receipt]\<rparr>))))"

definition pt_quiesce_session :: "'w session_host \<Rightarrow> string \<Rightarrow> string \<Rightarrow> ('w \<times> ptree, (string \<times> json) list) op" where
  "pt_quiesce_session host session_id incident_id =
     obind (olift (pt_validate_id incident_id ''incident_id'')) (\<lambda>_ s.
       case pt_get session_id (snd s) of
         Inl e \<Rightarrow> (Inl e, s)
       | Inr binding \<Rightarrow> pt_quiesce host [binding] incident_id True s)"

definition pt_quiesce_all :: "'w session_host \<Rightarrow> string \<Rightarrow> ('w \<times> ptree, (string \<times> json) list) op" where
  "pt_quiesce_all host incident_id =
     obind (olift (pt_validate_id incident_id ''incident_id'')) (\<lambda>_ s.
       pt_quiesce host (open_sessions (snd s)) incident_id False s)"

definition pt_freeze_hook :: "'w session_host \<Rightarrow> ('w \<times> ptree, unit) op" where
  "pt_freeze_hook host =
     obind (pt_freeze_all host) (\<lambda>receipt.
       case dget receipt ''failure_codes'' of
         JList [] \<Rightarrow> oret ()
       | _ \<Rightarrow> oraise (ProcessTreeError ''active containment could not freeze every execution session''))"

definition pt_state_document :: "ptree \<Rightarrow> (string \<times> json) list" where
  "pt_state_document p =
     (let safe = map (\<lambda>(_, b). JObj (sb_safe_body b)) (sort_key fst (pt_sessions p));
          body = [(''sessions'', JList safe), (''session_count'', JInt (int (length safe))),
                  (''authority'', PTREE_AUTHORITY)]
      in body @ [(''state_sha256'', JStr (canonical_sha256 (JObj body)))])"

subsection \<open>Checking a receipt\<close>

fun nonneg_count :: "json \<Rightarrow> bool" where
  "nonneg_count (JInt n) = (0 \<le> n)"
| "nonneg_count _ = False"

definition json_truthy :: "json \<Rightarrow> bool" where
  "json_truthy v = (case v of JNull \<Rightarrow> False | JBool b \<Rightarrow> b | JInt n \<Rightarrow> n \<noteq> 0 | JStr s \<Rightarrow> s \<noteq> []
     | JList xs \<Rightarrow> xs \<noteq> [] | JObj d \<Rightarrow> d \<noteq> [])"

fun check_counts :: "(string \<Rightarrow> exn) \<Rightarrow> (string \<times> json) list \<Rightarrow> string list \<Rightarrow> unit res" where
  "check_counts err raw [] = Inr ()"
| "check_counts err raw (k # ks) =
     (if \<not> nonneg_count (dget raw k) then Inl (err (''invalid '' @ k)) else check_counts err raw ks)"

definition pt_verify_receipt :: "(string \<times> json) list \<Rightarrow> (string \<times> json) list res" where
  "pt_verify_receipt document =
     (let digest = dget document ''receipt_sha256''; raw = dpop document ''receipt_sha256'' in
      if \<not> py_eq (dget raw ''schema'') (JStr PTREE_SCHEMA) \<or> \<not> py_eq (dget raw ''authority'') PTREE_AUTHORITY
      then Inl (ProcessTreeError ''process-tree receipt schema or authority mismatch'')
      else if \<not> py_eq digest (JStr (canonical_sha256 (JObj raw)))
      then Inl (ProcessTreeError ''process-tree receipt digest mismatch'')
      else rbind (check_counts (\<lambda>m. ProcessTreeError m) raw
             [''session_count'', ''active_before_count'', ''terminated_count'', ''already_absent_count'',
              ''survivor_count'']) (\<lambda>_.
        if json_truthy (dget raw ''zero_survivors'') \<and>
           (\<not> py_eq (dget raw ''survivor_count'') (JInt 0) \<or> json_truthy (dget raw ''failure_codes''))
        then Inl (ProcessTreeError ''zero-survivor claim contradicts receipt evidence'')
        else Inr document))"

subsection \<open>Statuses\<close>

definition closed_status :: "string \<Rightarrow> bool" where
  "closed_status st \<longleftrightarrow> st = ''TERMINATED'' \<or> st = ''COMPLETED''"

lemma closed_status_set: "st \<in> set [''TERMINATED'', ''COMPLETED''] \<longleftrightarrow> closed_status st"
  by (simp add: closed_status_def)

definition wf_ptree :: "ptree \<Rightarrow> bool" where
  "wf_ptree p \<longleftrightarrow> distinct (map fst (pt_sessions p)) \<and> (\<forall>(k, b) \<in> set (pt_sessions p). sb_session_id b = k)"

text \<open>One binding replaced, everything else as it was.\<close>

definition set_to :: "ptree \<Rightarrow> string \<Rightarrow> session_binding \<Rightarrow> ptree \<Rightarrow> bool" where
  "set_to p k b p' \<longleftrightarrow> (\<forall>j. map_of (pt_sessions p') j = (if j = k then Some b else map_of (pt_sessions p) j)) \<and>
     map fst (pt_sessions p') = map fst (pt_sessions p) \<and>
     pt_receipts p' = pt_receipts p \<and> pt_freeze_receipts p' = pt_freeze_receipts p"

lemma set_to_trans: "set_to p k b p' \<Longrightarrow> set_to p' k b' p'' \<Longrightarrow> set_to p k b' p''"
  by (auto simp: set_to_def)

lemma map_of_Some_key: "map_of al k = Some b \<Longrightarrow> k \<in> set (map fst al)"
  by (metis domI dom_map_of_conv_image_fst set_map)

lemma pt_set_status_open:
  assumes "map_of (pt_sessions p) k = Some b" "\<not> closed_status (sb_status b)"
    and "st \<in> {''ACTIVE'', ''FROZEN'', ''TERMINATED'', ''COMPLETED'', ''ERROR''}"
  shows "\<exists>p'. pt_set_status k st p = (Inr (), p') \<and> set_to p k (b\<lparr>sb_status := st\<rparr>) p'"
proof -
  have "k \<in> set (map fst (pt_sessions p))" by (rule map_of_Some_key [OF assms(1)])
  then have "set_to p k (b\<lparr>sb_status := st\<rparr>) (p\<lparr>pt_sessions := AList.update k (b\<lparr>sb_status := st\<rparr>) (pt_sessions p)\<rparr>)"
    by (simp add: set_to_def update_conv' update_keys)
  with assms show ?thesis by (auto simp: pt_set_status_def closed_status_def)
qed

subsection \<open>One session\<close>

text \<open>What the host is relied on for: \<open>gone w k\<close> says session \<open>k\<close> has no process left in world \<open>w\<close>. An
  inspection that reports an absent session is right, and no callback brings a session back.
  The predicate that is always true satisfies this for any host.\<close>

definition truthful :: "'w session_host \<Rightarrow> ('w \<Rightarrow> string \<Rightarrow> bool) \<Rightarrow> bool" where
  "truthful host gone \<longleftrightarrow>
     (\<forall>k w r w'. h_inspect host k w = (r, w') \<longrightarrow> (\<forall>j. gone w j \<longrightarrow> gone w' j) \<and>
        (\<forall>doc. r = Inr doc \<and> dget doc ''exists'' = JBool False \<longrightarrow> gone w' k)) \<and>
     (\<forall>k w r w'. h_freeze host k w = (r, w') \<longrightarrow> (\<forall>j. gone w j \<longrightarrow> gone w' j)) \<and>
     (\<forall>k w r w'. h_terminate host k w = (r, w') \<longrightarrow> (\<forall>j. gone w j \<longrightarrow> gone w' j))"

lemma truthful_any: "truthful host (\<lambda>w k. True)"
  by (simp add: truthful_def)

lemma to_from_mapping_exists:
  "to_from_mapping k doc = Inr ob \<Longrightarrow> dget doc ''exists'' = JBool (to_exists ob) \<and> (\<not> to_exists ob \<longrightarrow> \<not> to_running ob)"
  unfolding to_from_mapping_def
  by (auto simp: rbind_eq_Inr if_Inl_eq_Inr split: json.splits)

lemma pt_inspect_spec:
  assumes "truthful host gone" "pt_inspect host k (w, p) = (r, s')"
  obtains w' where "s' = (w', p)" "\<forall>j. gone w j \<longrightarrow> gone w' j" "\<forall>ob. r = Inr ob \<and> \<not> to_exists ob \<longrightarrow> gone w' k"
proof -
  obtain r1 w' where i: "h_inspect host k w = (r1, w')" by fastforce
  with assms(2) have s': "s' = (w', p)" "r = rbind r1 (to_from_mapping k)"
    by (auto simp: pt_inspect_def obind_def split: sum.splits prod.splits)
  show thesis
  proof (rule that [OF s'(1)])
    show "\<forall>j. gone w j \<longrightarrow> gone w' j" using assms(1) i unfolding truthful_def by blast
    show "\<forall>ob. r = Inr ob \<and> \<not> to_exists ob \<longrightarrow> gone w' k"
      using assms(1) i s'(2) to_from_mapping_exists unfolding truthful_def by (fastforce simp: rbind_eq_Inr)
  qed
qed

text \<open>What one pass of the loop does to the counters: either the session is closed and counted once as
  terminated or absent, or it is counted as a survivor and a failure is noted.\<close>

definition counted :: "quiesce_acc \<Rightarrow> quiesce_acc \<Rightarrow> bool \<Rightarrow> bool" where
  "counted acc acc' ok \<longleftrightarrow>
     (\<exists>fs. qa_failures acc' = qa_failures acc @ fs \<and> (\<not> ok \<longrightarrow> fs \<noteq> [])) \<and>
     qa_terminated acc \<le> qa_terminated acc' \<and> qa_already_absent acc \<le> qa_already_absent acc' \<and>
     qa_active_before acc \<le> qa_active_before acc' \<and>
     qa_terminated acc' + qa_already_absent acc' =
       qa_terminated acc + qa_already_absent acc + (if ok then 1 else 0) \<and>
     qa_survivors acc' = qa_survivors acc + (if ok then 0 else 1)"

definition session_done ::
  "('w \<Rightarrow> string \<Rightarrow> bool) \<Rightarrow> string \<Rightarrow> session_binding \<Rightarrow> quiesce_acc \<Rightarrow> 'w \<times> ptree \<Rightarrow>
   quiesce_acc res \<times> 'w \<times> ptree \<Rightarrow> bool" where
  "session_done gone k b acc s out \<longleftrightarrow>
     (\<exists>acc' st w' p'. out = (Inr acc', (w', p')) \<and> set_to (snd s) k (b\<lparr>sb_status := st\<rparr>) p' \<and>
        (\<forall>j. gone (fst s) j \<longrightarrow> gone w' j) \<and> counted acc acc' (closed_status st) \<and>
        (closed_status st \<longrightarrow> gone w' k))"

lemma lost_done:
  assumes "map_of (pt_sessions p) k = Some b" "\<not> closed_status (sb_status b)"
  shows "session_done gone k b acc (w, p) (lost k code acc (w, p))"
proof -
  obtain p' where p': "pt_set_status k ''ERROR'' p = (Inr (), p')" "set_to p k (b\<lparr>sb_status := ''ERROR''\<rparr>) p'"
    using pt_set_status_open [OF assms, of "''ERROR''"] by auto
  have "\<not> closed_status ''ERROR''" by (simp add: closed_status_def)
  with p' show ?thesis
    unfolding session_done_def
    by (intro exI [of _ "acc\<lparr>qa_failures := qa_failures acc @ [code], qa_survivors := qa_survivors acc + 1\<rparr>"]
        exI [of _ "''ERROR''"] exI [of _ w] exI [of _ p'])
      (simp add: lost_def obind_def counted_def)
qed

lemma close_done:
  assumes "map_of (pt_sessions p) k = Some b" "\<not> closed_status (sb_status b)" "closed_status st"
    and "gone w k" "counted acc acc' True"
  shows "session_done gone k b acc (w, p) (obind (on_snd (pt_set_status k st)) (\<lambda>_. oret acc') (w, p))"
proof -
  have "st \<in> {''ACTIVE'', ''FROZEN'', ''TERMINATED'', ''COMPLETED'', ''ERROR''}"
    using assms(3) by (auto simp: closed_status_def)
  then obtain p' where "pt_set_status k st p = (Inr (), p')" "set_to p k (b\<lparr>sb_status := st\<rparr>) p'"
    using pt_set_status_open [OF assms(1,2)] by blast
  with assms(3-5) show ?thesis
    unfolding session_done_def
    by (intro exI [of _ acc'] exI [of _ st] exI [of _ w] exI [of _ p']) (simp add: obind_def)
qed

text \<open>A step may be preceded by callbacks and by changes of this session's status and of counters that do
  not matter.\<close>

lemma session_done_weaken:
  assumes "session_done gone k b1 acc1 (w1, p1) out"
    and "set_to p k b1 p1 \<or> p1 = p \<and> b1 = b" "b1\<lparr>sb_status := x\<rparr> = b\<lparr>sb_status := x\<rparr>"
    and "\<forall>j. gone w j \<longrightarrow> gone w1 j"
    and "\<And>acc' ok. counted acc1 acc' ok \<Longrightarrow> counted acc acc' ok"
  shows "session_done gone k b acc (w, p) out"
proof -
  have upd: "b1\<lparr>sb_status := y\<rparr> = b\<lparr>sb_status := y\<rparr>" for y
    using assms(3) by (cases b; cases b1) simp
  have trans: "set_to p1 k c p' \<Longrightarrow> set_to p k c p'" for c p'
    using assms(2) set_to_trans by blast
  from assms(1) obtain acc' st w' p' where out: "out = (Inr acc', (w', p'))" "set_to p1 k (b1\<lparr>sb_status := st\<rparr>) p'"
      "\<forall>j. gone w1 j \<longrightarrow> gone w' j" "counted acc1 acc' (closed_status st)" "closed_status st \<longrightarrow> gone w' k"
    by (auto simp: session_done_def)
  show ?thesis
    unfolding session_done_def
    by (intro exI [of _ acc'] exI [of _ st] exI [of _ w'] exI [of _ p'])
      (use out assms(4,5) trans upd in auto)
qed

lemma session_done_then:
  assumes "session_done gone k b acc s (m s)" "\<And>a ok. counted acc a ok \<Longrightarrow> counted acc (g a) ok"
  shows "session_done gone k b acc s (obind m (\<lambda>a. oret (g a)) s)"
proof -
  from assms(1) obtain acc' st w' p' where "m s = (Inr acc', (w', p'))" "set_to (snd s) k (b\<lparr>sb_status := st\<rparr>) p'"
      "\<forall>j. gone (fst s) j \<longrightarrow> gone w' j" "counted acc acc' (closed_status st)" "closed_status st \<longrightarrow> gone w' k"
    by (auto simp: session_done_def)
  with assms(2) show ?thesis
    unfolding session_done_def
    by (intro exI [of _ "g acc'"] exI [of _ st] exI [of _ w'] exI [of _ p']) (simp add: obind_def)
qed

lemma terminate_stage_done:
  assumes host: "truthful host gone" and b: "map_of (pt_sessions p) k = Some b" "\<not> closed_status (sb_status b)"
  shows "session_done gone k b acc (w, p) (terminate_stage host k acc (w, p))"
proof -
  obtain r w1 where t: "h_terminate host k w = (r, w1)" by fastforce
  then have mono1: "\<forall>j. gone w j \<longrightarrow> gone w1 j" using host unfolding truthful_def by blast
  define acc1 where "acc1 = (case r of Inl exc \<Rightarrow>
      acc\<lparr>qa_failures := qa_failures acc @ [''terminate:'' @ session_hash k @ '':'' @ exn_class exc]\<rparr> | Inr _ \<Rightarrow> acc)"
  have weak: "counted acc1 acc' ok \<Longrightarrow> counted acc acc' ok" for acc' ok
    by (auto simp: acc1_def counted_def split: sum.splits)
  obtain r2 s2 where i: "pt_inspect host k (w1, p) = (r2, s2)" by (metis prod.collapse)
  obtain w2 where w2: "s2 = (w2, p)" "\<forall>j. gone w1 j \<longrightarrow> gone w2 j" "\<forall>ob. r2 = Inr ob \<and> \<not> to_exists ob \<longrightarrow> gone w2 k"
    by (rule pt_inspect_spec [OF host i])
  have mono: "\<forall>j. gone w j \<longrightarrow> gone w2 j" using mono1 w2(2) by blast
  have run: "terminate_stage host k acc (w, p) = (case r2 of
      Inl exc \<Rightarrow> lost k (''inspect_after:'' @ session_hash k @ '':'' @ exn_class exc) acc1 (w2, p)
    | Inr after \<Rightarrow> (let acc2 = acc1\<lparr>qa_after_docs := qa_after_docs acc1 @ [to_safe_body after]\<rparr> in
        if to_exists after \<or> to_running after \<or> to_descendant_count after \<noteq> 0
        then lost k (''survivor:'' @ session_hash k) acc2 (w2, p)
        else obind (on_snd (pt_set_status k ''TERMINATED'')) (\<lambda>_. oret (acc2\<lparr>qa_terminated := qa_terminated acc2 + 1\<rparr>)) (w2, p)))"
    using t i w2(1) by (cases r) (simp_all add: terminate_stage_def obind_def otry_def acc1_def split: sum.split)
  show ?thesis
  proof (cases r2)
    case (Inl exc)
    then show ?thesis
      unfolding run using weak mono
      by (auto intro!: session_done_weaken [OF lost_done [OF b]])
  next
    case (Inr after)
    let ?acc2 = "acc1\<lparr>qa_after_docs := qa_after_docs acc1 @ [to_safe_body after]\<rparr>"
    have weak2: "counted ?acc2 acc' ok \<Longrightarrow> counted acc acc' ok" for acc' ok
      using weak [of acc' ok] by (simp add: counted_def)
    show ?thesis
    proof (cases "to_exists after \<or> to_running after \<or> to_descendant_count after \<noteq> 0")
      case True
      then show ?thesis
        unfolding run Inr using weak2 mono
        by (auto simp: Let_def intro!: session_done_weaken [OF lost_done [OF b]])
    next
      case False
      then have "gone w2 k" using w2(3) Inr by blast
      then have "session_done gone k b ?acc2 (w2, p) (obind (on_snd (pt_set_status k ''TERMINATED''))
          (\<lambda>_. oret (?acc2\<lparr>qa_terminated := qa_terminated ?acc2 + 1\<rparr>)) (w2, p))"
        by (intro close_done [OF b]) (simp_all add: closed_status_def counted_def)
      from session_done_weaken [OF this _ refl mono weak2] False show ?thesis
        unfolding run Inr by (simp add: Let_def)
    qed
  qed
qed

lemma emergency_freeze_spec:
  assumes host: "truthful host gone" and b: "map_of (pt_sessions p) k = Some b" "\<not> closed_status (sb_status b)"
    and run: "emergency_freeze host k (w, p) = (r, s')"
  obtains w' p' b' where "s' = (w', p')" "\<forall>j. gone w j \<longrightarrow> gone w' j"
    "set_to p k b' p' \<or> p' = p \<and> b' = b" "b'\<lparr>sb_status := []\<rparr> = b\<lparr>sb_status := []\<rparr>"
    "map_of (pt_sessions p') k = Some b'" "\<not> closed_status (sb_status b')"
proof -
  obtain r1 w1 where f: "h_freeze host k w = (r1, w1)" by fastforce
  then have mono1: "\<forall>j. gone w j \<longrightarrow> gone w1 j" using host unfolding truthful_def by blast
  show thesis
  proof (cases r1)
    case (Inl e)
    with run f have "s' = (w1, p)" by (simp add: emergency_freeze_def obind_def)
    with mono1 b that show thesis by blast
  next
    case (Inr u)
    let ?b = "b\<lparr>sb_status := ''FROZEN''\<rparr>"
    obtain p1 where p1: "pt_set_status k ''FROZEN'' p = (Inr (), p1)" "set_to p k ?b p1"
      using pt_set_status_open [OF b, of "''FROZEN''"] by auto
    obtain r2 s2 where i: "pt_inspect host k (w1, p1) = (r2, s2)" by (metis prod.collapse)
    obtain w2 where w2: "s2 = (w2, p1)" "\<forall>j. gone w1 j \<longrightarrow> gone w2 j"
      by (rule pt_inspect_spec [OF host i])
    from run f Inr p1 i w2(1) have "s' = (w2, p1)"
      by (auto simp: emergency_freeze_def obind_def split: sum.splits if_splits)
    moreover have "map_of (pt_sessions p1) k = Some ?b" using p1(2) by (simp add: set_to_def)
    ultimately show thesis
      using that [of w2 p1 ?b] mono1 w2(2) p1(2) by (auto simp: closed_status_def)
  qed
qed

lemma quiesce_one_done:
  assumes host: "truthful host gone" and b: "map_of (pt_sessions p) (sb_session_id bd) = Some b" "\<not> closed_status (sb_status b)"
  shows "session_done gone (sb_session_id bd) b acc (w, p) (quiesce_one host em bd acc (w, p))"
proof -
  let ?k = "sb_session_id bd"
  obtain r s1 where i: "pt_inspect host ?k (w, p) = (r, s1)" by (metis prod.collapse)
  obtain w1 where w1: "s1 = (w1, p)" "\<forall>j. gone w j \<longrightarrow> gone w1 j" "\<forall>ob. r = Inr ob \<and> \<not> to_exists ob \<longrightarrow> gone w1 ?k"
    by (rule pt_inspect_spec [OF host i])
  show ?thesis
  proof (cases r)
    case (Inl exc)
    then have "quiesce_one host em bd acc (w, p) =
        lost ?k (''inspect_before:'' @ session_hash ?k @ '':'' @ exn_class exc) acc (w1, p)"
      using i w1(1) by (simp add: quiesce_one_def Let_def)
    then show ?thesis
      using w1(2) session_done_weaken [OF lost_done [OF b] _ refl w1(2)] by auto
  next
    case (Inr before)
    let ?a1 = "acc\<lparr>qa_before_docs := qa_before_docs acc @ [to_safe_body before]\<rparr>"
    let ?a2 = "?a1\<lparr>qa_active_before := qa_active_before ?a1 + 1\<rparr>"
    have weak1: "counted ?a1 acc' ok \<Longrightarrow> counted acc acc' ok" for acc' ok by (simp add: counted_def)
    have weak2: "counted ?a2 acc' ok \<Longrightarrow> counted acc acc' ok" for acc' ok by (auto simp: counted_def)
    consider (absent) "\<not> to_exists before" | (running) "to_exists before" "to_running before" "\<not> em"
      | (freeze) "to_exists before" "to_running before" "em" | (stopped) "to_exists before" "\<not> to_running before" by blast
    then show ?thesis
    proof cases
      case absent
      then have "gone w1 ?k" using w1(3) Inr by blast
      then have "session_done gone ?k b acc (w1, p) (obind (on_snd (pt_set_status ?k ''COMPLETED''))
          (\<lambda>_. oret (?a1\<lparr>qa_already_absent := qa_already_absent ?a1 + 1,
             qa_after_docs := qa_after_docs ?a1 @ [to_safe_body before]\<rparr>)) (w1, p))"
        by (intro close_done [OF b]) (simp_all add: closed_status_def counted_def)
      from session_done_weaken [OF this _ refl w1(2)] absent show ?thesis
        using i w1(1) Inr by (simp add: quiesce_one_def Let_def)
    next
      case running
      have "session_done gone ?k b ?a2 (w1, p) (lost ?k (''not_frozen:'' @ session_hash ?k) ?a2 (w1, p))"
        by (rule lost_done [OF b])
      then have "session_done gone ?k b ?a2 (w1, p) (obind (lost ?k (''not_frozen:'' @ session_hash ?k) ?a2)
          (\<lambda>a. oret (a\<lparr>qa_after_docs := qa_after_docs a @ [to_safe_body before]\<rparr>)) (w1, p))"
        by (rule session_done_then) (simp add: counted_def)
      from session_done_weaken [OF this _ refl w1(2) weak2] running show ?thesis
        using i w1(1) Inr by (simp add: quiesce_one_def Let_def)
    next
      case freeze
      obtain r2 s2 where e: "emergency_freeze host ?k (w1, p) = (r2, s2)" by (metis prod.collapse)
      obtain w2 p2 b2 where s2: "s2 = (w2, p2)" "\<forall>j. gone w1 j \<longrightarrow> gone w2 j" "set_to p ?k b2 p2 \<or> p2 = p \<and> b2 = b"
          "b2\<lparr>sb_status := []\<rparr> = b\<lparr>sb_status := []\<rparr>" "map_of (pt_sessions p2) ?k = Some b2" "\<not> closed_status (sb_status b2)"
        by (rule emergency_freeze_spec [OF host b e])
      have mono: "\<forall>j. gone w j \<longrightarrow> gone w2 j" using w1(2) s2(2) by blast
      have "session_done gone ?k b2 ?a2 (w2, p2) (quiesce_one host em bd acc (w, p))"
      proof (cases r2)
        case (Inl exc)
        with i w1(1) Inr freeze e s2(1) show ?thesis
          by (simp add: quiesce_one_def Let_def) (rule lost_done [OF s2(5,6)])
      next
        case ok: (Inr u)
        with i w1(1) Inr freeze e s2(1) show ?thesis
          by (simp add: quiesce_one_def Let_def) (rule terminate_stage_done [OF host s2(5,6)])
      qed
      then show ?thesis
        by (rule session_done_weaken [OF _ s2(3,4) mono weak2])
    next
      case stopped
      have "session_done gone ?k b ?a2 (w1, p) (terminate_stage host ?k ?a2 (w1, p))"
        by (rule terminate_stage_done [OF host b])
      from session_done_weaken [OF this _ refl w1(2) weak2] stopped show ?thesis
        using i w1(1) Inr by (simp add: quiesce_one_def Let_def)
    qed
  qed
qed

subsection \<open>All sessions\<close>

definition sum_counts :: "quiesce_acc \<Rightarrow> int" where
  "sum_counts acc = qa_terminated acc + qa_already_absent acc + qa_survivors acc"

definition nonneg_acc :: "quiesce_acc \<Rightarrow> bool" where
  "nonneg_acc acc \<longleftrightarrow> 0 \<le> qa_terminated acc \<and> 0 \<le> qa_already_absent acc \<and> 0 \<le> qa_active_before acc \<and> 0 \<le> qa_survivors acc"

lemma counted_facts:
  assumes "counted acc acc' ok"
  shows "sum_counts acc' = sum_counts acc + 1" "qa_survivors acc' = 0 \<Longrightarrow> 0 \<le> qa_survivors acc \<Longrightarrow> ok \<and> qa_survivors acc = 0"
    "qa_failures acc' = [] \<Longrightarrow> qa_failures acc = []" "nonneg_acc acc \<Longrightarrow> nonneg_acc acc'"
  using assms by (auto simp: counted_def sum_counts_def nonneg_acc_def split: if_splits)

definition open_in :: "ptree \<Rightarrow> string \<Rightarrow> bool" where
  "open_in p k \<longleftrightarrow> (\<exists>b. map_of (pt_sessions p) k = Some b \<and> \<not> closed_status (sb_status b))"

definition closed_in :: "ptree \<Rightarrow> string \<Rightarrow> bool" where
  "closed_in p k \<longleftrightarrow> (\<exists>b. map_of (pt_sessions p) k = Some b \<and> closed_status (sb_status b))"

text \<open>Terminating a list of distinct open sessions never raises; each is counted once; statuses of other
  sessions stay; and if no survivor is counted, each is closed and gone.\<close>

lemma quiesce_loop_run:
  assumes "truthful host gone" "distinct (map sb_session_id bds)" "\<forall>bd \<in> set bds. open_in p (sb_session_id bd)" "nonneg_acc acc"
  shows "\<exists>acc' w' p'. quiesce_loop host em bds acc (w, p) = (Inr acc', (w', p')) \<and>
    sum_counts acc' = sum_counts acc + int (length bds) \<and> nonneg_acc acc' \<and>
    (\<forall>j. gone w j \<longrightarrow> gone w' j) \<and> pt_receipts p' = pt_receipts p \<and>
    (\<forall>k. k \<notin> sb_session_id ` set bds \<longrightarrow> map_of (pt_sessions p') k = map_of (pt_sessions p) k) \<and>
    (qa_survivors acc' = 0 \<longrightarrow> qa_survivors acc = 0 \<and>
       (\<forall>bd \<in> set bds. closed_in p' (sb_session_id bd) \<and> gone w' (sb_session_id bd)))"
  using assms(2-)
proof (induction bds arbitrary: acc w p)
  case (Cons bd bds)
  let ?k = "sb_session_id bd"
  from Cons.prems(2) obtain b where b: "map_of (pt_sessions p) ?k = Some b" "\<not> closed_status (sb_status b)"
    by (auto simp: open_in_def)
  from quiesce_one_done [OF assms(1) b, of acc w em] obtain acc1 st w1 p1 where
    one: "quiesce_one host em bd acc (w, p) = (Inr acc1, (w1, p1))" and p1: "set_to p ?k (b\<lparr>sb_status := st\<rparr>) p1"
    and mono: "\<forall>j. gone w j \<longrightarrow> gone w1 j" and c: "counted acc acc1 (closed_status st)" and g: "closed_status st \<longrightarrow> gone w1 ?k"
    by (auto simp: session_done_def)
  note cf = counted_facts [OF c]
  have look: "map_of (pt_sessions p1) j = (if j = ?k then Some (b\<lparr>sb_status := st\<rparr>) else map_of (pt_sessions p) j)" for j
    using p1 by (simp add: set_to_def)
  have fresh: "?k \<notin> sb_session_id ` set bds" using Cons.prems(1) by auto
  have open1: "\<forall>d \<in> set bds. open_in p1 (sb_session_id d)"
  proof
    fix d
    assume d: "d \<in> set bds"
    with fresh have "sb_session_id d \<noteq> ?k" by (metis imageI)
    with d Cons.prems(2) show "open_in p1 (sb_session_id d)" by (simp add: open_in_def look)
  qed
  have dist1: "distinct (map sb_session_id bds)" using Cons.prems(1) by simp
  from Cons.IH [OF dist1 open1 cf(4) [OF Cons.prems(3)], of w1] obtain acc' w' p' where
    rest: "quiesce_loop host em bds acc1 (w1, p1) = (Inr acc', (w', p'))"
      "sum_counts acc' = sum_counts acc1 + int (length bds)" "nonneg_acc acc'" "\<forall>j. gone w1 j \<longrightarrow> gone w' j"
      "pt_receipts p' = pt_receipts p1"
      "\<forall>k. k \<notin> sb_session_id ` set bds \<longrightarrow> map_of (pt_sessions p') k = map_of (pt_sessions p1) k"
      "qa_survivors acc' = 0 \<longrightarrow> qa_survivors acc1 = 0 \<and>
         (\<forall>d \<in> set bds. closed_in p' (sb_session_id d) \<and> gone w' (sb_session_id d))"
    by (elim exE conjE) blast
  have "closed_in p' ?k \<and> gone w' ?k \<and> qa_survivors acc = 0" if "qa_survivors acc' = 0"
  proof -
    have "closed_status st" "qa_survivors acc = 0"
      using that rest(7) cf(2) Cons.prems(3) by (auto simp: nonneg_acc_def)
    with rest(4,6) fresh g show ?thesis by (auto simp: closed_in_def look)
  qed
  with one rest cf(1) mono look p1 show ?case
    by (intro exI [of _ acc'] exI [of _ w'] exI [of _ p']) (auto simp: obind_def set_to_def)
qed simp

lemma open_sessions_props:
  assumes "wf_ptree p"
  shows "distinct (map sb_session_id (open_sessions p))" "bd \<in> set (open_sessions p) \<Longrightarrow> open_in p (sb_session_id bd)"
    "open_in p k \<Longrightarrow> \<exists>bd \<in> set (open_sessions p). sb_session_id bd = k"
proof -
  let ?ps = "sort_key fst (pt_sessions p)"
  have keys: "map sb_session_id (map snd ?ps) = map fst ?ps"
    using assms by (auto simp: wf_ptree_def)
  have "distinct (map fst ?ps)"
    using assms by (simp add: wf_ptree_def distinct_map)
  then have "distinct (map sb_session_id (map snd ?ps))" by (simp only: keys)
  then show "distinct (map sb_session_id (open_sessions p))"
    unfolding open_sessions_def by (rule distinct_map_filter)
  show "open_in p (sb_session_id bd)" if "bd \<in> set (open_sessions p)"
  proof -
    from that obtain k where "(k, bd) \<in> set (pt_sessions p)" "\<not> closed_status (sb_status bd)"
      by (auto simp: open_sessions_def closed_status_def)
    with assms show ?thesis by (auto simp: open_in_def wf_ptree_def)
  qed
  show "\<exists>bd \<in> set (open_sessions p). sb_session_id bd = k" if open_k: "open_in p k"
  proof -
    from open_k obtain b where b: "map_of (pt_sessions p) k = Some b" "\<not> closed_status (sb_status b)"
      by (auto simp: open_in_def)
    then have "(k, b) \<in> set (pt_sessions p)" by (auto dest: map_of_SomeD)
    with b assms show ?thesis
      by (intro bexI [of _ b]) (auto simp: open_sessions_def wf_ptree_def closed_status_def intro: rev_image_eqI)
  qed
qed

subsection \<open>Every method keeps the registry, and closed sessions stay closed\<close>

definition registry_evolves :: "ptree \<Rightarrow> ptree \<Rightarrow> bool" where
  "registry_evolves p0 p \<longleftrightarrow> wf_ptree p \<and> (\<forall>k b. map_of (pt_sessions p0) k = Some b \<longrightarrow>
     (\<exists>b'. map_of (pt_sessions p) k = Some b' \<and> b' = b\<lparr>sb_status := sb_status b'\<rparr> \<and>
        (closed_status (sb_status b) \<longrightarrow> b' = b)))"

lemma registry_evolves_refl: "wf_ptree p \<Longrightarrow> registry_evolves p p"
  by (auto simp: registry_evolves_def)

lemma set_AList_update_pair: "(j, b) \<in> set (AList.update k v al) \<Longrightarrow> (j, b) = (k, v) \<or> (j, b) \<in> set al"
  by (induction al) (auto split: if_splits)

lemma wf_ptree_update:
  "wf_ptree p \<Longrightarrow> sb_session_id b = k \<Longrightarrow> wf_ptree (p\<lparr>pt_sessions := AList.update k b (pt_sessions p)\<rparr>)"
  by (auto simp: wf_ptree_def distinct_update dest: set_AList_update_pair)

lemma keeps_pt_set_status: "keeps (registry_evolves p0) (pt_set_status k st)"
proof (rule keepsI)
  fix p
  assume ev: "registry_evolves p0 p"
  have shape: "pt_set_status k st p = (r, p') \<Longrightarrow> p' = p \<or> (\<exists>c. map_of (pt_sessions p) k = Some c \<and>
      (closed_status (sb_status c) \<longrightarrow> st = sb_status c) \<and>
      p' = p\<lparr>pt_sessions := AList.update k (c\<lparr>sb_status := st\<rparr>) (pt_sessions p)\<rparr>)" for r p'
    unfolding pt_set_status_def closed_status_set
    by (cases "map_of (pt_sessions p) k"; cases "st \<notin> set [''ACTIVE'', ''FROZEN'', ''TERMINATED'', ''COMPLETED'', ''ERROR'']")
      (auto simp del: list.set split: if_splits)
  show "registry_evolves p0 (snd (pt_set_status k st p))"
  proof (cases "snd (pt_set_status k st p) = p")
    case False
    with shape [of "fst (pt_set_status k st p)" "snd (pt_set_status k st p)"] obtain c
      where c: "map_of (pt_sessions p) k = Some c" "closed_status (sb_status c) \<longrightarrow> st = sb_status c"
      and p': "snd (pt_set_status k st p) = p\<lparr>pt_sessions := AList.update k (c\<lparr>sb_status := st\<rparr>) (pt_sessions p)\<rparr>"
      by auto
    have "sb_session_id c = k"
      using ev c(1) by (auto simp: registry_evolves_def wf_ptree_def dest: map_of_SomeD)
    with ev have "wf_ptree (snd (pt_set_status k st p))"
      unfolding p' by (intro wf_ptree_update) (auto simp: registry_evolves_def)
    moreover have "\<exists>b'. map_of (pt_sessions (snd (pt_set_status k st p))) j = Some b' \<and>
        b' = b\<lparr>sb_status := sb_status b'\<rparr> \<and> (closed_status (sb_status b) \<longrightarrow> b' = b)"
      if b: "map_of (pt_sessions p0) j = Some b" for j b
    proof -
      from ev b obtain b1 where b1: "map_of (pt_sessions p) j = Some b1" "b1 = b\<lparr>sb_status := sb_status b1\<rparr>"
          "closed_status (sb_status b) \<longrightarrow> b1 = b"
        by (auto simp: registry_evolves_def)
      show ?thesis
      proof (cases "j = k")
        case True
        with b1(1) c(1) have cb: "c = b1" by simp
        have upd: "b1\<lparr>sb_status := st\<rparr> = b\<lparr>sb_status := st\<rparr>"
          by (subst b1(2)) simp
        have "b1\<lparr>sb_status := st\<rparr> = b" if "closed_status (sb_status b)"
          using that b1(3) c(2) cb by simp
        with True upd show ?thesis
          unfolding p' cb by (simp add: update_conv')
      qed (use b1 in \<open>simp add: p' update_conv'\<close>)
    qed
    ultimately show ?thesis by (auto simp: registry_evolves_def)
  qed (use ev in simp)
qed

lemma keeps_snd: "keeps P m \<Longrightarrow> P s \<Longrightarrow> P (snd (m s))"
  by (simp add: keeps_def)

lemmas keeps_rules = keeps_obind keeps_otry keeps_case keeps_If keeps_if keeps_on_fst keeps_simple
  keeps_on_snd [OF keeps_pt_set_status]

lemma keeps_pt_inspect: "keeps (\<lambda>s. registry_evolves p0 (snd s)) (pt_inspect host k)"
  unfolding pt_inspect_def by (intro keeps_rules)

lemma keeps_freeze_one: "keeps (\<lambda>s. registry_evolves p0 (snd s)) (freeze_one host b acc)"
  unfolding freeze_one_def [abs_def] Let_def
  by (intro keeps_rules keeps_pt_inspect)

lemma keeps_freeze_loop: "keeps (\<lambda>s. registry_evolves p0 (snd s)) (freeze_loop host bs acc)"
  by (induction bs arbitrary: acc) (auto intro: keeps_obind keeps_freeze_one)

lemma keeps_lost: "keeps (\<lambda>s. registry_evolves p0 (snd s)) (lost k code acc)"
  unfolding lost_def by (intro keeps_rules)

lemma keeps_terminate_stage: "keeps (\<lambda>s. registry_evolves p0 (snd s)) (terminate_stage host k acc)"
  unfolding terminate_stage_def Let_def
  by (intro keeps_rules keeps_pt_inspect keeps_lost)

lemma keeps_emergency_freeze: "keeps (\<lambda>s. registry_evolves p0 (snd s)) (emergency_freeze host k)"
  unfolding emergency_freeze_def by (intro keeps_rules keeps_pt_inspect)

lemma keeps_quiesce_one: "keeps (\<lambda>s. registry_evolves p0 (snd s)) (quiesce_one host em b acc)"
  unfolding quiesce_one_def [abs_def] Let_def
  by (intro keeps_rules keeps_pt_inspect keeps_lost)
    (auto intro!: keeps_rules keeps_lost keeps_emergency_freeze keeps_terminate_stage)

lemma keeps_quiesce_loop: "keeps (\<lambda>s. registry_evolves p0 (snd s)) (quiesce_loop host em bs acc)"
  by (induction bs arbitrary: acc) (auto intro: keeps_obind keeps_quiesce_one)

lemma registry_receipts [simp]:
  "registry_evolves p0 (p\<lparr>pt_receipts := rs\<rparr>) = registry_evolves p0 p"
  "registry_evolves p0 (p\<lparr>pt_freeze_receipts := fs\<rparr>) = registry_evolves p0 p"
  by (simp_all add: registry_evolves_def wf_ptree_def)

lemma keeps_pt_quiesce: "keeps (\<lambda>s. registry_evolves p0 (snd s)) (pt_quiesce host bs inc em)"
  unfolding pt_quiesce_def Let_def by (intro keeps_obind keeps_quiesce_loop keeps_modify) simp

inductive ptree_step :: "'w session_host \<Rightarrow> 'w \<times> ptree \<Rightarrow> 'w \<times> ptree \<Rightarrow> bool" for host where
  register: "ptree_step host (w, p) (w, snd (pt_register_session sid op plan be p))"
| complete: "ptree_step host s (snd (pt_mark_complete host sid s))"
| freeze: "ptree_step host s (snd (pt_freeze_all host s))"
| quiesce_one: "ptree_step host s (snd (pt_quiesce_session host sid inc s))"
| quiesce_all: "ptree_step host s (snd (pt_quiesce_all host inc s))"
| environment: "ptree_step host (w, p) (w', p)"

lemma register_evolves:
  "registry_evolves p0 p \<Longrightarrow> registry_evolves p0 (snd (pt_register_session sid op plan be p))"
proof -
  assume ev: "registry_evolves p0 p"
  let ?b = "\<lparr>sb_session_id = sid, sb_operation_id = op, sb_plan_sha256 = plan,
      sb_backend_identity_sha256 = be, sb_status = ''ACTIVE''\<rparr>"
  have "snd (pt_register_session sid op plan be p) = p \<or> sid \<notin> set (map fst (pt_sessions p)) \<and>
      snd (pt_register_session sid op plan be p) = p\<lparr>pt_sessions := AList.update sid ?b (pt_sessions p)\<rparr>"
    unfolding pt_register_session_def obind_def by (auto simp: Let_def split: sum.splits)
  then show ?thesis
  proof
    assume new: "sid \<notin> set (map fst (pt_sessions p)) \<and>
      snd (pt_register_session sid op plan be p) = p\<lparr>pt_sessions := AList.update sid ?b (pt_sessions p)\<rparr>"
    have "wf_ptree (p\<lparr>pt_sessions := AList.update sid ?b (pt_sessions p)\<rparr>)"
      using ev by (intro wf_ptree_update) (simp_all add: registry_evolves_def)
    moreover have "map_of (pt_sessions p) k = Some b \<Longrightarrow> k \<noteq> sid" for k b
      using new map_of_Some_key by metis
    ultimately show ?thesis
      using ev new by (fastforce simp: registry_evolves_def update_conv')
  qed (use ev in simp)
qed

lemma ptree_step_evolves: "ptree_step host s s' \<Longrightarrow> registry_evolves p0 (snd s) \<Longrightarrow> registry_evolves p0 (snd s')"
proof (induction rule: ptree_step.induct)
  case (complete s sid)
  have "keeps (\<lambda>s. registry_evolves p0 (snd s)) (obind (pt_inspect host sid) (\<lambda>ob.
      if to_exists ob \<or> to_running ob \<or> to_descendant_count ob \<noteq> 0
      then oraise (ProcessTreeError ''cannot mark a live process tree complete'')
      else obind (on_snd (pt_set_status sid ''COMPLETED'')) (\<lambda>_ s.
        (Inr (sb_safe_body (the (map_of (pt_sessions (snd s)) sid))), s))))"
    by (intro keeps_rules keeps_pt_inspect keeps_modify)
  then have "keeps (\<lambda>s. registry_evolves p0 (snd s)) (pt_mark_complete host sid)"
    unfolding keeps_def pt_mark_complete_def by (simp split: sum.split)
  with complete show ?case unfolding keeps_def by blast
next
  case (freeze s)
  show ?case
    unfolding pt_freeze_all_def Let_def
    by (rule keeps_snd [where P = "\<lambda>s. registry_evolves p0 (snd s)", OF keeps_obind [OF keeps_freeze_loop keeps_modify]])
      (use freeze in simp_all)
next
  case (quiesce_one s sid inc)
  then show ?case
    unfolding pt_quiesce_session_def obind_def
    by (simp split: sum.split) (blast intro: keeps_snd [where P = "\<lambda>s. registry_evolves p0 (snd s)", OF keeps_pt_quiesce])
next
  case (quiesce_all s inc)
  then show ?case
    unfolding pt_quiesce_all_def obind_def
    by (simp split: sum.split) (blast intro: keeps_snd [where P = "\<lambda>s. registry_evolves p0 (snd s)", OF keeps_pt_quiesce])
qed (simp_all add: register_evolves)

inductive ptree_reach :: "'w session_host \<Rightarrow> 'w \<times> ptree \<Rightarrow> bool" for host where
  init: "ptree_reach host (w, ptree_init)"
| step: "ptree_reach host s \<Longrightarrow> ptree_step host s s' \<Longrightarrow> ptree_reach host s'"

lemma ptree_reach_wf: "ptree_reach host s \<Longrightarrow> wf_ptree (snd s)"
proof (induction rule: ptree_reach.induct)
  case (step s s')
  from ptree_step_evolves [OF step(2) registry_evolves_refl [OF step(3)]] show ?case
    by (simp add: registry_evolves_def)
qed (simp add: wf_ptree_def ptree_init_def)

subsection \<open>Receipts\<close>

lemma tr_facts:
  "dpop (tr_as_document r) ''receipt_sha256'' = tr_body r"
  "dget (tr_as_document r) ''receipt_sha256'' = JStr (tr_receipt_sha256 r)"
  "dget (tr_body r) ''schema'' = JStr PTREE_SCHEMA" "dget (tr_body r) ''authority'' = PTREE_AUTHORITY"
  "dget (tr_body r) ''session_count'' = JInt (tr_session_count r)"
  "dget (tr_body r) ''active_before_count'' = JInt (tr_active_before_count r)"
  "dget (tr_body r) ''terminated_count'' = JInt (tr_terminated_count r)"
  "dget (tr_body r) ''already_absent_count'' = JInt (tr_already_absent_count r)"
  "dget (tr_body r) ''survivor_count'' = JInt (tr_survivor_count r)"
  "dget (tr_body r) ''failure_codes'' = JList (map JStr (tr_failure_codes r))"
  "dget (tr_body r) ''zero_survivors'' = JBool (tr_zero_survivors r)"
  by (simp_all add: tr_as_document_def tr_body_def dpop_def dget_def)

definition wf_tree_receipt :: "tree_receipt \<Rightarrow> bool" where
  "wf_tree_receipt r \<longleftrightarrow> tr_receipt_sha256 r = canonical_sha256 (JObj (tr_body r)) \<and>
     0 \<le> tr_session_count r \<and> 0 \<le> tr_active_before_count r \<and> 0 \<le> tr_terminated_count r \<and>
     0 \<le> tr_already_absent_count r \<and> 0 \<le> tr_survivor_count r \<and>
     (tr_zero_survivors r \<longrightarrow> tr_survivor_count r = 0 \<and> tr_failure_codes r = [])"

lemma pt_verify_receipt_ok:
  assumes "wf_tree_receipt r"
  shows "pt_verify_receipt (tr_as_document r) = Inr (tr_as_document r)"
proof -
  have "py_eq v v" for v by (simp add: py_eq_def)
  with assms show ?thesis
    by (simp add: pt_verify_receipt_def tr_facts wf_tree_receipt_def json_truthy_def Let_def)
qed

lemma quiesce_receipt_facts:
  "nonneg_acc acc \<Longrightarrow> wf_tree_receipt (quiesce_receipt bds inc acc)"
  "tr_zero_survivors (quiesce_receipt bds inc acc) \<longleftrightarrow> qa_survivors acc = 0 \<and> qa_failures acc = []"
  "tr_terminated_count (quiesce_receipt bds inc acc) + tr_already_absent_count (quiesce_receipt bds inc acc) +
     tr_survivor_count (quiesce_receipt bds inc acc) = sum_counts acc"
  "tr_session_count (quiesce_receipt bds inc acc) = int (length bds)"
  by (simp_all add: quiesce_receipt_def wf_tree_receipt_def nonneg_acc_def tr_body_def sum_counts_def)

lemma quiesce_all_run:
  assumes wf: "wf_ptree p" and "pt_validate_id incident ''incident_id'' = Inr ()" "truthful host gone"
  shows "\<exists>r w' p'. pt_quiesce_all host incident (w, p) = (Inr (tr_as_document r), (w', p')) \<and>
    wf_tree_receipt r \<and> (\<forall>j. gone w j \<longrightarrow> gone w' j) \<and>
    tr_session_count r = tr_terminated_count r + tr_already_absent_count r + tr_survivor_count r \<and>
    (tr_zero_survivors r \<longrightarrow> (\<forall>k b. map_of (pt_sessions p) k = Some b \<longrightarrow> closed_in p' k) \<and>
       (\<forall>k. open_in p k \<longrightarrow> gone w' k))"
proof -
  let ?bds = "open_sessions p"
  have "nonneg_acc quiesce_acc_init" "\<forall>bd \<in> set ?bds. open_in p (sb_session_id bd)"
    using open_sessions_props(2) [OF wf] by (simp_all add: nonneg_acc_def quiesce_acc_init_def)
  from quiesce_loop_run [OF assms(3) open_sessions_props(1) [OF wf] this(2,1), of False w] obtain acc w' p' where
    loop: "quiesce_loop host False ?bds quiesce_acc_init (w, p) = (Inr acc, (w', p'))"
    "sum_counts acc = sum_counts quiesce_acc_init + int (length ?bds)" "nonneg_acc acc"
    "\<forall>j. gone w j \<longrightarrow> gone w' j"
    "\<forall>k. k \<notin> sb_session_id ` set ?bds \<longrightarrow> map_of (pt_sessions p') k = map_of (pt_sessions p) k"
    "qa_survivors acc = 0 \<longrightarrow> (\<forall>bd \<in> set ?bds. closed_in p' (sb_session_id bd) \<and> gone w' (sb_session_id bd))"
    by (elim exE conjE) blast
  let ?r = "quiesce_receipt ?bds incident acc"
  have run: "pt_quiesce_all host incident (w, p) =
      (Inr (tr_as_document ?r), (w', p'\<lparr>pt_receipts := pt_receipts p' @ [?r]\<rparr>))"
    using loop(1) assms(2) by (simp add: pt_quiesce_all_def pt_quiesce_def obind_def Let_def)
  have closed: "closed_in (p'\<lparr>pt_receipts := pt_receipts p' @ [?r]\<rparr>) k"
    if "tr_zero_survivors ?r" "map_of (pt_sessions p) k = Some b" for k b
  proof (cases "open_in p k")
    case True
    with that(1) loop(6) open_sessions_props(3) [OF wf True] show ?thesis
      by (auto simp: quiesce_receipt_facts closed_in_def)
  next
    case False
    then have "k \<notin> sb_session_id ` set ?bds" using open_sessions_props(2) [OF wf] by auto
    with False that(2) loop(5) show ?thesis by (auto simp: closed_in_def open_in_def)
  qed
  have "gone w' k" if "tr_zero_survivors ?r" "open_in p k" for k
    using that loop(6) open_sessions_props(3) [OF wf that(2)] by (auto simp: quiesce_receipt_facts)
  with run closed quiesce_receipt_facts(1) [OF loop(3)] loop(2,4) show ?thesis
    by (intro exI [of _ ?r] exI [of _ w'] exI [of _ "p'\<lparr>pt_receipts := pt_receipts p' @ [?r]\<rparr>"])
      (auto simp: quiesce_receipt_facts(3,4) sum_counts_def quiesce_acc_init_def)
qed

subsection \<open>Properties of session supervision\<close>

definition demo_host :: "string list session_host" where
  "demo_host = \<lparr>
     h_inspect = (\<lambda>k w. (Inr (if k \<in> set w
       then [(''exists'', JBool True), (''running'', JBool False), (''descendant_count'', JInt 1), (''tree_sha256'', JStr ZERO_SHA256)]
       else [(''exists'', JBool False), (''running'', JBool False), (''descendant_count'', JInt 0), (''tree_sha256'', JStr ZERO_SHA256)]), w)),
     h_freeze = (\<lambda>k w. (Inr (), w)),
     h_terminate = (\<lambda>k w. (Inr (), removeAll k w))\<rparr>"

definition demo_ptree :: ptree where
  "demo_ptree = snd (pt_register_session ''s:1'' ''op:1'' ZERO_SHA256 ZERO_SHA256 ptree_init)"

lemma demo_host_truthful: "truthful demo_host (\<lambda>w k. k \<notin> set w)"
  by (auto simp: truthful_def demo_host_def dget_def)

lemma demo_ids: "pt_validate_id ''s:1'' n = Inr ()" "pt_validate_id ''op:1'' n = Inr ()" "pt_validate_id ''inc:1'' n = Inr ()"
proof -
  have "py_strip ''s:1'' \<noteq> []" "py_strip ''op:1'' \<noteq> []" "py_strip ''inc:1'' \<noteq> []" by code_simp+
  then show "pt_validate_id ''s:1'' n = Inr ()" "pt_validate_id ''op:1'' n = Inr ()" "pt_validate_id ''inc:1'' n = Inr ()"
    by (simp_all add: pt_validate_id_def py_len_def)
qed

lemma demo_ptree_sessions: "pt_sessions demo_ptree = [(''s:1'', \<lparr>sb_session_id = ''s:1'', sb_operation_id = ''op:1'',
    sb_plan_sha256 = ZERO_SHA256, sb_backend_identity_sha256 = ZERO_SHA256, sb_status = ''ACTIVE''\<rparr>)]"
  by (simp add: demo_ptree_def pt_register_session_def demo_ids ptree_init_def Let_def)

lemma demo_ptree_reach: "ptree_reach demo_host ([''s:1''], demo_ptree)"
  unfolding demo_ptree_def
  by (rule ptree_reach.step [OF ptree_reach.init [of _ "[''s:1'']"]]) (rule ptree_step.register)



text \<open>A closed session is never resurrected: after any sequence of registrations, completions,
  freezes and terminations, whatever the host answers, a TERMINATED or COMPLETED session has the
  same binding, and no session changes anything but its status.\<close>

lemma closed_session_final:
  assumes "ptree_reach host s" "(ptree_step host)\<^sup>*\<^sup>* s s'" "map_of (pt_sessions (snd s)) k = Some b"
  shows "\<exists>b'. map_of (pt_sessions (snd s')) k = Some b' \<and> b' = b\<lparr>sb_status := sb_status b'\<rparr> \<and>
    (closed_status (sb_status b) \<longrightarrow> b' = b)"
proof -
  from assms(2) have "registry_evolves (snd s) (snd s')"
    by (induction rule: rtranclp_induct)
      (auto intro: registry_evolves_refl ptree_reach_wf [OF assms(1)] ptree_step_evolves)
  with assms(3) show ?thesis by (simp add: registry_evolves_def)
qed

end
