(* ===== verification/Process_Lineage.thy ===== *)
theory Process_Lineage
  imports Process_Tree
begin

section \<open>Process-lineage evidence\<close>

text \<open>
  Model of src/sdk/liminal_process_lineage: process nodes, the check that an observation is a tree
  rooted at the bound process, the digest-bound backend actions, the supervisor with its freeze and
  quiesce steps, and \<open>verify_receipt\<close>. The backend's three methods act on a world of any type.
\<close>

subsection \<open>Data\<close>

abbreviation ProcessLineageError :: "string \<Rightarrow> exn" where
  "ProcessLineageError m \<equiv> Exn ''ProcessLineageError'' m"

definition LINEAGE_SCHEMA :: string where
  "LINEAGE_SCHEMA = ''liminal-process-lineage-containment-receipt-v0.1''"

definition OBSERVATION_SCHEMA :: string where
  "OBSERVATION_SCHEMA = ''liminal-process-lineage-observation-v0.1''"

definition ACTION_SCHEMA :: string where
  "ACTION_SCHEMA = ''liminal-process-lineage-backend-action-v0.1''"

definition LINEAGE_AUTHORITY :: json where
  "LINEAGE_AUTHORITY = JObj
     [(''mode'', JStr ''trusted_host_process_lineage_containment''), (''model_supplied_pid_authority'', JBool False),
      (''shell_execution'', JBool False), (''direct_kill_syscall'', JBool False),
      (''direct_container_runtime_access'', JBool False), (''trusted_backend_process_control'', JBool True),
      (''explicit_parent_child_lineage'', JBool True), (''session_scoped_only'', JBool True),
      (''digest_only_receipts'', JBool True), (''zero_survivor_required'', JBool True),
      (''kernel_escape_prevention'', JBool False)]"

fun pl_require_text :: "json \<Rightarrow> string \<Rightarrow> string res" where
  "pl_require_text (JStr s) name =
     (if py_strip s = [] \<or> CHR 0x00 \<in> set s \<or> py_len s > 256
      then Inl (ProcessLineageError (name @ '' must be a bounded non-empty string'')) else Inr s)"
| "pl_require_text v name = Inl (ProcessLineageError (name @ '' must be a bounded non-empty string''))"

fun pl_require_sha :: "json \<Rightarrow> string \<Rightarrow> string res" where
  "pl_require_sha (JStr s) name =
     (if is_sha256 s then Inr s else Inl (ProcessLineageError (name @ '' must be lowercase SHA-256'')))"
| "pl_require_sha v name = Inl (ProcessLineageError (name @ '' must be lowercase SHA-256''))"

text \<open>\<open>v in {"a", ...}\<close>: a list or a dictionary is not hashable.\<close>

definition py_in_set :: "json \<Rightarrow> string list \<Rightarrow> bool res" where
  "py_in_set v ss =
     (case v of JStr s \<Rightarrow> Inr (s \<in> set ss)
      | JList _ \<Rightarrow> Inl (Exn ''TypeError'' ''unhashable type'')
      | JObj _ \<Rightarrow> Inl (Exn ''TypeError'' ''unhashable type'')
      | _ \<Rightarrow> Inr False)"

record process_node =
  pn_process_id :: string
  pn_parent_process_id :: "string option"
  pn_identity_sha256 :: string
  pn_state :: string

definition pn_keys :: "string list" where
  "pn_keys = [''process_id'', ''parent_process_id'', ''identity_sha256'', ''state'']"

text \<open>\<open>set(raw)\<close> of a value that is not a mapping: iterating a number raises, a string or a list has other
  members, or, if a list has exactly these, indexing it raises.\<close>

definition pn_from_mapping :: "json \<Rightarrow> process_node res" where
  "pn_from_mapping v =
     (case v of
        JObj raw \<Rightarrow>
          if \<not> same_keys raw pn_keys then Inl (ProcessLineageError ''process node schema mismatch'')
          else rbind (pl_require_text (dget raw ''process_id'') ''process_id'') (\<lambda>process_id.
            rbind (case dget raw ''parent_process_id'' of JNull \<Rightarrow> Inr None
                   | p \<Rightarrow> rbind (pl_require_text p ''parent_process_id'') (\<lambda>s. Inr (Some s))) (\<lambda>parent.
            rbind (pl_require_sha (dget raw ''identity_sha256'') ''identity_sha256'') (\<lambda>identity.
            rbind (py_in_set (dget raw ''state'') [''running'', ''frozen'', ''terminated'']) (\<lambda>known.
              if \<not> known then Inl (ProcessLineageError ''unsupported process state'')
              else Inr \<lparr>pn_process_id = process_id, pn_parent_process_id = parent,
                     pn_identity_sha256 = identity, pn_state = jstr (dget raw ''state'')\<rparr>))))
      | JStr _ \<Rightarrow> Inl (ProcessLineageError ''process node schema mismatch'')
      | JList xs \<Rightarrow>
          if list_ex (\<lambda>x. case x of JList _ \<Rightarrow> True | JObj _ \<Rightarrow> True | _ \<Rightarrow> False) xs \<or> set xs = JStr ` set pn_keys
          then Inl (Exn ''TypeError'' ''not a mapping'')
          else Inl (ProcessLineageError ''process node schema mismatch'')
      | _ \<Rightarrow> Inl (Exn ''TypeError'' ''object is not iterable''))"

definition pn_body :: "process_node \<Rightarrow> json" where
  "pn_body n = JObj
     [(''process_id'', JStr (pn_process_id n)),
      (''parent_process_id'', jopt (pn_parent_process_id n)),
      (''identity_sha256'', JStr (pn_identity_sha256 n)),
      (''state'', JStr (pn_state n))]"

subsection \<open>The lineage check\<close>

text \<open>The inner \<open>while\<close> loop: from a node to the first ancestor without a parent.\<close>

function climb :: "(string \<times> process_node) list \<Rightarrow> process_node \<Rightarrow> string set \<Rightarrow> process_node res" where
  "climb by_id current seen =
     (case pn_parent_process_id current of
        None \<Rightarrow> Inr current
      | Some parent \<Rightarrow>
          if pn_process_id current \<in> seen then Inl (ProcessLineageError ''process lineage contains a cycle'')
          else (case map_of by_id parent of
                  None \<Rightarrow> Inl (Exn ''KeyError'' (CHR 0x27 # parent @ [CHR 0x27]))
                | Some next_node \<Rightarrow> climb by_id next_node (insert (pn_process_id current) seen)))"
  by pat_completeness auto
termination
proof (relation "measure (\<lambda>(by_id, current, seen).
    card (insert (pn_process_id current) (pn_process_id ` snd ` set by_id) - seen))")
  fix by_id :: "(string \<times> process_node) list" and current next_node :: process_node and seen parent
  assume fresh: "pn_process_id current \<notin> seen" and nxt: "map_of by_id parent = Some next_node"
  let ?V = "pn_process_id ` snd ` set by_id"
  have "pn_process_id next_node \<in> ?V" using map_of_SomeD [OF nxt] by force
  then have "insert (pn_process_id next_node) ?V - insert (pn_process_id current) seen
      \<subset> insert (pn_process_id current) ?V - seen"
    using fresh by auto
  then show "((by_id, next_node, insert (pn_process_id current) seen), by_id, current, seen)
      \<in> measure (\<lambda>(by_id, current, seen). card (insert (pn_process_id current) (pn_process_id ` snd ` set by_id) - seen))"
    by (auto intro: psubset_card_mono)
qed simp

declare climb.simps [simp del]

fun check_parents :: "(string \<times> process_node) list \<Rightarrow> string \<Rightarrow> process_node list \<Rightarrow> unit res" where
  "check_parents by_id root [] = Inr ()"
| "check_parents by_id root (node # nodes) =
     (if pn_process_id node \<noteq> root \<and>
         (case pn_parent_process_id node of None \<Rightarrow> True | Some p \<Rightarrow> p \<notin> set (map fst by_id))
      then Inl (ProcessLineageError ''process lineage contains an unknown parent'')
      else check_parents by_id root nodes)"

fun check_descent :: "(string \<times> process_node) list \<Rightarrow> string \<Rightarrow> process_node list \<Rightarrow> unit res" where
  "check_descent by_id root [] = Inr ()"
| "check_descent by_id root (node # nodes) =
     rbind (climb by_id node {}) (\<lambda>anc.
       if pn_process_id anc \<noteq> root
       then Inl (ProcessLineageError ''process is not descended from the bound root'')
       else check_descent by_id root nodes)"

definition node_table :: "process_node list \<Rightarrow> (string \<times> process_node) list" where
  "node_table nodes = fold (\<lambda>n. AList.update (pn_process_id n) n) nodes []"

definition validate_lineage :: "process_node list \<Rightarrow> string \<Rightarrow> unit res" where
  "validate_lineage nodes root =
     (let by_id = node_table nodes in
      if length by_id \<noteq> length nodes then Inl (ProcessLineageError ''duplicate process identity'')
      else (case map_of by_id root of
         None \<Rightarrow> Inl (ProcessLineageError ''bound root process is missing or has a parent'')
       | Some r \<Rightarrow>
           if pn_parent_process_id r \<noteq> None
           then Inl (ProcessLineageError ''bound root process is missing or has a parent'')
           else rbind (check_parents by_id root nodes) (\<lambda>_. check_descent by_id root nodes)))"

subsection \<open>Observations and actions\<close>

record lineage_observation =
  lo_session_id :: string
  lo_root_process_id :: string
  lo_backend_binding_sha256 :: string
  lo_nodes :: "process_node list"
  lo_tree_sha256 :: string
  lo_evidence_sha256 :: string

definition lo_from_mapping :: "string \<Rightarrow> string \<Rightarrow> string \<Rightarrow> (string \<times> json) list \<Rightarrow> lineage_observation res" where
  "lo_from_mapping expected_session expected_root expected_binding raw =
     (if \<not> same_keys raw [''schema'', ''session_id'', ''root_process_id'', ''backend_binding_sha256'',
            ''nodes'', ''tree_sha256'', ''evidence_sha256''] \<or>
         \<not> py_eq (dget raw ''schema'') (JStr OBSERVATION_SCHEMA)
      then Inl (ProcessLineageError ''process-lineage observation schema mismatch'')
      else if \<not> py_eq (dget raw ''session_id'') (JStr expected_session) \<or>
              \<not> py_eq (dget raw ''root_process_id'') (JStr expected_root)
      then Inl (ProcessLineageError ''backend observation escaped the bound execution session'')
      else if \<not> py_eq (dget raw ''backend_binding_sha256'') (JStr expected_binding)
      then Inl (ProcessLineageError ''backend binding mismatch'')
      else (case dget raw ''nodes'' of
         JList nodes_raw \<Rightarrow>
           if \<not> (1 \<le> length nodes_raw \<and> length nodes_raw \<le> 256)
           then Inl (ProcessLineageError ''process lineage must contain 1..256 nodes'')
           else rbind (rmap pn_from_mapping nodes_raw) (\<lambda>nodes.
             rbind (validate_lineage nodes expected_root) (\<lambda>_.
             let canonical_nodes = JList (map pn_body (sort_key pn_process_id nodes));
                 tree_sha = canonical_sha256 canonical_nodes
             in if \<not> py_eq (dget raw ''tree_sha256'') (JStr tree_sha)
                then Inl (ProcessLineageError ''process lineage digest mismatch'')
                else (let body =
                       [(''schema'', JStr OBSERVATION_SCHEMA), (''session_id'', JStr expected_session),
                        (''root_process_id'', JStr expected_root),
                        (''backend_binding_sha256'', JStr expected_binding),
                        (''nodes'', canonical_nodes), (''tree_sha256'', JStr tree_sha)]
                      in if \<not> py_eq (dget raw ''evidence_sha256'') (JStr (canonical_sha256 (JObj body)))
                         then Inl (ProcessLineageError ''process-lineage observation evidence mismatch'')
                         else Inr \<lparr>lo_session_id = expected_session, lo_root_process_id = expected_root,
                                lo_backend_binding_sha256 = expected_binding, lo_nodes = nodes,
                                lo_tree_sha256 = tree_sha,
                                lo_evidence_sha256 = jstr (dget raw ''evidence_sha256'')\<rparr>)))
       | _ \<Rightarrow> Inl (ProcessLineageError ''process lineage must contain 1..256 nodes'')))"

definition live_nodes :: "lineage_observation \<Rightarrow> process_node list" where
  "live_nodes ob = filter (\<lambda>n. pn_state n \<noteq> ''terminated'') (lo_nodes ob)"

definition lineage_map :: "lineage_observation \<Rightarrow> (string \<times> string option \<times> string) list" where
  "lineage_map ob = fold (\<lambda>n. AList.update (pn_process_id n) (pn_parent_process_id n, pn_identity_sha256 n)) (lo_nodes ob) []"

definition require_same_lineage :: "lineage_observation \<Rightarrow> lineage_observation \<Rightarrow> unit res" where
  "require_same_lineage left right =
     (if set (lineage_map left) \<noteq> set (lineage_map right)
      then Inl (ProcessLineageError ''process lineage or trusted identity changed during containment'')
      else Inr ())"

record backend_action =
  ba_affected_count :: int
  ba_result_tree_sha256 :: string
  ba_evidence_sha256 :: string

definition validate_action :: "string \<Rightarrow> string \<Rightarrow> string \<Rightarrow> string \<Rightarrow> (string \<times> json) list \<Rightarrow> backend_action res" where
  "validate_action expected_session expected_root expected_binding expected_action raw =
     (if \<not> same_keys raw [''schema'', ''session_id'', ''root_process_id'', ''backend_binding_sha256'', ''action'',
            ''affected_count'', ''result_tree_sha256'', ''evidence_sha256''] \<or>
         \<not> py_eq (dget raw ''schema'') (JStr ACTION_SCHEMA)
      then Inl (ProcessLineageError ''backend action schema mismatch'')
      else if \<not> py_eq (dget raw ''session_id'') (JStr expected_session) \<or>
              \<not> py_eq (dget raw ''root_process_id'') (JStr expected_root)
      then Inl (ProcessLineageError ''backend action escaped the bound execution session'')
      else if \<not> py_eq (dget raw ''backend_binding_sha256'') (JStr expected_binding) \<or>
              \<not> py_eq (dget raw ''action'') (JStr expected_action)
      then Inl (ProcessLineageError ''backend action binding mismatch'')
      else (case dget raw ''affected_count'' of
         JInt affected \<Rightarrow>
           if affected < 0 then Inl (ProcessLineageError ''affected_count must be non-negative'')
           else rbind (pl_require_sha (dget raw ''result_tree_sha256'') ''result_tree_sha256'') (\<lambda>tree_sha.
             if \<not> py_eq (dget raw ''evidence_sha256'')
                   (JStr (canonical_sha256 (JObj (dpop raw ''evidence_sha256''))))
             then Inl (ProcessLineageError ''backend action evidence mismatch'')
             else Inr \<lparr>ba_affected_count = affected, ba_result_tree_sha256 = tree_sha,
                    ba_evidence_sha256 = jstr (dget raw ''evidence_sha256'')\<rparr>)
       | _ \<Rightarrow> Inl (ProcessLineageError ''affected_count must be non-negative'')))"

subsection \<open>The supervisor\<close>

record 'w lineage_backend =
  lb_snapshot :: "string \<Rightarrow> ('w, (string \<times> json) list) op"
  lb_freeze :: "string \<Rightarrow> ('w, (string \<times> json) list) op"
  lb_terminate :: "string \<Rightarrow> ('w, (string \<times> json) list) op"

record lineage_receipt =
  lr_session_id :: string
  lr_root_process_id :: string
  lr_backend_binding_sha256 :: string
  lr_before_tree_sha256 :: string
  lr_frozen_tree_sha256 :: string
  lr_after_tree_sha256 :: string
  lr_observed_count :: int
  lr_terminated_count :: int
  lr_surviving_count :: int
  lr_freeze_evidence_sha256 :: string
  lr_terminate_evidence_sha256 :: string
  lr_decision :: string
  lr_receipt_sha256 :: string

definition lr_body :: "lineage_receipt \<Rightarrow> (string \<times> json) list" where
  "lr_body r =
     [(''schema'', JStr LINEAGE_SCHEMA),
      (''session_id'', JStr (lr_session_id r)),
      (''root_process_id'', JStr (lr_root_process_id r)),
      (''backend_binding_sha256'', JStr (lr_backend_binding_sha256 r)),
      (''before_tree_sha256'', JStr (lr_before_tree_sha256 r)),
      (''frozen_tree_sha256'', JStr (lr_frozen_tree_sha256 r)),
      (''after_tree_sha256'', JStr (lr_after_tree_sha256 r)),
      (''observed_count'', JInt (lr_observed_count r)),
      (''terminated_count'', JInt (lr_terminated_count r)),
      (''surviving_count'', JInt (lr_surviving_count r)),
      (''freeze_evidence_sha256'', JStr (lr_freeze_evidence_sha256 r)),
      (''terminate_evidence_sha256'', JStr (lr_terminate_evidence_sha256 r)),
      (''decision'', JStr (lr_decision r)),
      (''authority'', LINEAGE_AUTHORITY)]"

definition lr_as_document :: "lineage_receipt \<Rightarrow> (string \<times> json) list" where
  "lr_as_document r = lr_body r @ [(''receipt_sha256'', JStr (lr_receipt_sha256 r))]"

text \<open>\<open>_before\<close>, \<open>_frozen\<close> and \<open>_freeze_evidence_sha256\<close> are assigned together.\<close>

record lineage_supervisor =
  ls_session_id :: string
  ls_root_process_id :: string
  ls_backend_binding_sha256 :: string
  ls_frozen :: "(lineage_observation \<times> lineage_observation \<times> string) option"
  ls_receipt :: "lineage_receipt option"

definition ls_init :: "string \<Rightarrow> string \<Rightarrow> string \<Rightarrow> lineage_supervisor res" where
  "ls_init session_id root_process_id backend_binding_sha256 =
     rbind (pl_require_text (JStr session_id) ''session_id'') (\<lambda>sid.
     rbind (pl_require_text (JStr root_process_id) ''root_process_id'') (\<lambda>root.
     rbind (pl_require_sha (JStr backend_binding_sha256) ''backend_binding_sha256'') (\<lambda>binding.
       Inr \<lparr>ls_session_id = sid, ls_root_process_id = root, ls_backend_binding_sha256 = binding,
            ls_frozen = None, ls_receipt = None\<rparr>)))"

definition ls_snapshot :: "'w lineage_backend \<Rightarrow> ('w \<times> lineage_supervisor, lineage_observation) op" where
  "ls_snapshot backend ws =
     obind (on_fst (lb_snapshot backend (ls_session_id (snd ws)))) (\<lambda>raw.
       olift (lo_from_mapping (ls_session_id (snd ws)) (ls_root_process_id (snd ws))
         (ls_backend_binding_sha256 (snd ws)) raw)) ws"

definition ls_action ::
  "(string \<Rightarrow> ('w, (string \<times> json) list) op) \<Rightarrow> string \<Rightarrow> ('w \<times> lineage_supervisor, backend_action) op" where
  "ls_action call name ws =
     obind (on_fst (call (ls_session_id (snd ws)))) (\<lambda>raw.
       olift (validate_action (ls_session_id (snd ws)) (ls_root_process_id (snd ws))
         (ls_backend_binding_sha256 (snd ws)) name raw)) ws"

definition ls_freeze :: "'w lineage_backend \<Rightarrow> ('w \<times> lineage_supervisor, (string \<times> json) list) op" where
  "ls_freeze backend ws =
     (if ls_frozen (snd ws) \<noteq> None then (Inl (ProcessLineageError ''execution session already frozen''), ws)
      else obind (ls_snapshot backend) (\<lambda>before.
           obind (ls_action (lb_freeze backend) ''freeze'') (\<lambda>action.
           obind (ls_snapshot backend) (\<lambda>frozen.
           obind (olift (require_same_lineage before frozen)) (\<lambda>_.
             if ba_result_tree_sha256 action \<noteq> lo_tree_sha256 frozen
             then oraise (ProcessLineageError ''freeze action is not bound to the resulting process lineage'')
             else if ba_affected_count action \<noteq> int (length (live_nodes before))
             then oraise (ProcessLineageError ''freeze affected_count does not match live process count'')
             else if list_ex (\<lambda>n. pn_state n = ''running'') (lo_nodes frozen)
             then oraise (ProcessLineageError ''freeze left a running process in the execution session'')
             else (\<lambda>(w, s).
               (Inr [(''session_id'', JStr (ls_session_id s)),
                     (''before_tree_sha256'', JStr (lo_tree_sha256 before)),
                     (''frozen_tree_sha256'', JStr (lo_tree_sha256 frozen)),
                     (''observed_count'', JInt (int (length (lo_nodes before)))),
                     (''freeze_evidence_sha256'', JStr (ba_evidence_sha256 action))],
                (w, s\<lparr>ls_frozen := Some (before, frozen, ba_evidence_sha256 action)\<rparr>))))))) ws)"

definition lineage_decide ::
  "lineage_supervisor \<Rightarrow> lineage_observation \<Rightarrow> lineage_observation \<Rightarrow> string \<Rightarrow> backend_action \<Rightarrow>
   lineage_observation \<Rightarrow> lineage_receipt" where
  "lineage_decide s before frozen freeze_evidence action after =
     (let base = \<lparr>lr_session_id = ls_session_id s, lr_root_process_id = ls_root_process_id s,
            lr_backend_binding_sha256 = ls_backend_binding_sha256 s,
            lr_before_tree_sha256 = lo_tree_sha256 before, lr_frozen_tree_sha256 = lo_tree_sha256 frozen,
            lr_after_tree_sha256 = lo_tree_sha256 after,
            lr_observed_count = int (length (lo_nodes before)),
            lr_terminated_count = int (length (filter (\<lambda>n. pn_state n = ''terminated'') (lo_nodes after))),
            lr_surviving_count = int (length (live_nodes after)),
            lr_freeze_evidence_sha256 = freeze_evidence,
            lr_terminate_evidence_sha256 = ba_evidence_sha256 action,
            lr_decision = (if live_nodes after = [] \<and> ba_affected_count action = int (length (live_nodes frozen))
                           then ''ALLOW'' else ''BLOCK''),
            lr_receipt_sha256 = []\<rparr>
      in base\<lparr>lr_receipt_sha256 := canonical_sha256 (JObj (lr_body base))\<rparr>)"

definition ls_quiesce :: "'w lineage_backend \<Rightarrow> ('w \<times> lineage_supervisor, (string \<times> json) list) op" where
  "ls_quiesce backend ws =
     (case ls_frozen (snd ws) of
        None \<Rightarrow> (Inl (ProcessLineageError ''quiescence requires a previously frozen execution session''), ws)
      | Some (before, frozen, freeze_evidence) \<Rightarrow>
          (case ls_receipt (snd ws) of
             Some receipt \<Rightarrow> (Inr (lr_as_document receipt), ws)
           | None \<Rightarrow>
               obind (ls_action (lb_terminate backend) ''terminate'') (\<lambda>action.
               obind (ls_snapshot backend) (\<lambda>after.
               obind (olift (require_same_lineage before after)) (\<lambda>_.
                 if ba_result_tree_sha256 action \<noteq> lo_tree_sha256 after
                 then oraise (ProcessLineageError ''terminate action is not bound to the resulting process lineage'')
                 else if ba_affected_count action > int (length (live_nodes frozen))
                 then oraise (ProcessLineageError ''terminate affected_count exceeds frozen live process count'')
                 else (\<lambda>(w, s).
                   (let receipt = lineage_decide s before frozen freeze_evidence action after
                    in (Inr (lr_as_document receipt), (w, s\<lparr>ls_receipt := Some receipt\<rparr>))))))) ws))"

definition ls_get_receipt :: "lineage_supervisor \<Rightarrow> (string \<times> json) list res" where
  "ls_get_receipt s =
     (case ls_receipt s of
        None \<Rightarrow> Inl (ProcessLineageError ''no process-lineage containment receipt'')
      | Some receipt \<Rightarrow> Inr (lr_as_document receipt))"

fun check_shas :: "(string \<times> json) list \<Rightarrow> string list \<Rightarrow> unit res" where
  "check_shas raw [] = Inr ()"
| "check_shas raw (k # ks) = rbind (pl_require_sha (dget raw k) k) (\<lambda>_. check_shas raw ks)"

definition json_int :: "json \<Rightarrow> int" where
  "json_int v = (case v of JInt n \<Rightarrow> n | _ \<Rightarrow> 0)"

definition pl_verify_receipt :: "(string \<times> json) list \<Rightarrow> (string \<times> json) list res" where
  "pl_verify_receipt document =
     (let digest = dget document ''receipt_sha256''; raw = dpop document ''receipt_sha256'' in
      if \<not> py_eq (dget raw ''schema'') (JStr LINEAGE_SCHEMA) \<or> \<not> py_eq (dget raw ''authority'') LINEAGE_AUTHORITY
      then Inl (ProcessLineageError ''process-lineage receipt schema or authority mismatch'')
      else rbind (check_shas raw
             [''backend_binding_sha256'', ''before_tree_sha256'', ''frozen_tree_sha256'', ''after_tree_sha256'',
              ''freeze_evidence_sha256'', ''terminate_evidence_sha256'']) (\<lambda>_.
        rbind (py_in_set (dget raw ''decision'') [''ALLOW'', ''BLOCK'']) (\<lambda>known.
        if \<not> known then Inl (ProcessLineageError ''unsupported process-lineage decision'')
        else rbind (check_counts (\<lambda>m. ProcessLineageError m) raw
               [''observed_count'', ''terminated_count'', ''surviving_count'']) (\<lambda>_.
          if json_int (dget raw ''terminated_count'') + json_int (dget raw ''surviving_count'') \<noteq>
             json_int (dget raw ''observed_count'')
          then Inl (ProcessLineageError ''process counts do not reconcile'')
          else if py_eq (dget raw ''decision'') (JStr ''ALLOW'') \<and> json_int (dget raw ''surviving_count'') \<noteq> 0
          then Inl (ProcessLineageError ''ALLOW receipt cannot contain surviving processes'')
          else if \<not> py_eq digest (JStr (canonical_sha256 (JObj raw)))
          then Inl (ProcessLineageError ''process-lineage receipt digest mismatch'')
          else Inr document))))"

subsection \<open>Dictionary comprehensions\<close>

lemma update_append: "k \<notin> fst ` set al \<Longrightarrow> AList.update k v al = al @ [(k, v)]"
  by (induction al) auto

lemma fold_update_keys:
  "distinct (map fst al) \<Longrightarrow> distinct (map fst (fold (\<lambda>n. AList.update (f n) (g n)) ns al)) \<and>
    fst ` set (fold (\<lambda>n. AList.update (f n) (g n)) ns al) = fst ` set al \<union> f ` set ns"
proof (induction ns arbitrary: al)
  case (Cons n ns)
  have "fst ` set (AList.update (f n) (g n) al) = insert (f n) (fst ` set al)"
    using dom_update [of "f n" "g n" al] by simp
  with Cons.IH [of "AList.update (f n) (g n) al"] Cons.prems show ?case
    by (simp add: distinct_update)
qed simp

lemma fold_update_distinct:
  "distinct (map fst al @ map f ns) \<Longrightarrow> fold (\<lambda>n. AList.update (f n) (g n)) ns al = al @ map (\<lambda>n. (f n, g n)) ns"
proof (induction ns arbitrary: al)
  case (Cons n ns)
  then have "f n \<notin> fst ` set al" by auto
  with Cons show ?case by (simp add: update_append)
qed simp

lemma length_dict: "length (fold (\<lambda>n. AList.update (f n) (g n)) ns []) = length ns \<longleftrightarrow> distinct (map f ns)"
proof -
  let ?d = "fold (\<lambda>n. AList.update (f n) (g n)) ns []"
  have "distinct (map fst ?d)" "fst ` set ?d = f ` set ns"
    using fold_update_keys [of "[]" f g ns] by simp_all
  then have "length ?d = card (set (map f ns))"
    using distinct_card [of "map fst ?d"] by simp
  then show ?thesis
    using card_distinct [of "map f ns"] distinct_card [of "map f ns"] by auto
qed

lemma node_table_distinct: "distinct (map pn_process_id ns) \<Longrightarrow> node_table ns = map (\<lambda>n. (pn_process_id n, n)) ns"
  using fold_update_distinct [of "[]" pn_process_id ns "\<lambda>n. n"] by (simp add: node_table_def)

lemma map_of_nodes:
  assumes "distinct (map pn_process_id ns)"
  shows "map_of (node_table ns) k = Some n \<longleftrightarrow> n \<in> set ns \<and> pn_process_id n = k"
proof -
  have "distinct (map fst (node_table ns))" using assms by (simp add: node_table_distinct comp_def)
  then have "map_of (node_table ns) k = Some n \<longleftrightarrow> (k, n) \<in> set (node_table ns)" by simp
  then show ?thesis using assms by (auto simp: node_table_distinct)
qed

subsection \<open>The lineage check accepts exactly trees rooted at the bound process\<close>

definition parent_of :: "process_node list \<Rightarrow> string \<Rightarrow> string \<Rightarrow> bool" where
  "parent_of ns a b \<longleftrightarrow> (\<exists>n \<in> set ns. pn_process_id n = a \<and> pn_parent_process_id n = Some b)"

definition rooted_tree :: "process_node list \<Rightarrow> string \<Rightarrow> bool" where
  "rooted_tree ns root \<longleftrightarrow> distinct (map pn_process_id ns) \<and>
     (\<exists>r \<in> set ns. pn_process_id r = root \<and> pn_parent_process_id r = None) \<and>
     (\<forall>n \<in> set ns. (parent_of ns)\<^sup>*\<^sup>* (pn_process_id n) root)"

lemma node_unique:
  "distinct (map pn_process_id ns) \<Longrightarrow> m \<in> set ns \<Longrightarrow> n \<in> set ns \<Longrightarrow> pn_process_id m = pn_process_id n \<Longrightarrow> m = n"
  by (auto simp: distinct_map inj_on_def)

lemma parent_functional: "distinct (map pn_process_id ns) \<Longrightarrow> parent_of ns a b \<Longrightarrow> parent_of ns a c \<Longrightarrow> b = c"
  unfolding parent_of_def by (metis node_unique option.inject)

lemma climb_reaches:
  "distinct (map pn_process_id ns) \<Longrightarrow> cur \<in> set ns \<Longrightarrow> climb (node_table ns) cur seen = Inr anc \<Longrightarrow>
    anc \<in> set ns \<and> (parent_of ns)\<^sup>*\<^sup>* (pn_process_id cur) (pn_process_id anc)"
proof (induction "node_table ns" cur seen rule: climb.induct)
  case (1 cur seen)
  show ?case
  proof (cases "pn_parent_process_id cur")
    case None
    with "1.prems" show ?thesis by (simp add: climb.simps)
  next
    case (Some p)
    with "1.prems"(3) obtain nx where nx: "map_of (node_table ns) p = Some nx" "pn_process_id cur \<notin> seen"
        "climb (node_table ns) nx (insert (pn_process_id cur) seen) = Inr anc"
      by (subst (asm) climb.simps) (auto split: if_splits option.splits)
    then have "nx \<in> set ns" "pn_process_id nx = p" using map_of_nodes [OF "1.prems"(1)] by auto
    moreover from this "1.hyps" [OF Some nx(2,1)] "1.prems"(1) nx(3) have
      "anc \<in> set ns" "(parent_of ns)\<^sup>*\<^sup>* p (pn_process_id anc)" by auto
    moreover have "parent_of ns (pn_process_id cur) p" using "1.prems"(2) Some by (auto simp: parent_of_def)
    ultimately show ?thesis by (auto intro: converse_rtranclp_into_rtranclp)
  qed
qed

text \<open>A node from which the root is reached lies on no cycle, so the loop never sees it twice.\<close>

lemma no_cycle:
  assumes "distinct (map pn_process_id ns)" "\<nexists>b. parent_of ns root b" "(parent_of ns)\<^sup>*\<^sup>* a root"
  shows "\<not> (parent_of ns)\<^sup>+\<^sup>+ a a"
  using assms(3)
proof (induction rule: converse_rtranclp_induct)
  case base
  then show ?case using assms(2) by (meson tranclpD)
next
  case (step a b)
  show ?case
  proof
    assume "(parent_of ns)\<^sup>+\<^sup>+ a a"
    then obtain c where "parent_of ns a c" "(parent_of ns)\<^sup>*\<^sup>* c a" by (meson tranclpD)
    with step(1) parent_functional [OF assms(1)] have "(parent_of ns)\<^sup>*\<^sup>* b a" by blast
    with step(1) have "(parent_of ns)\<^sup>+\<^sup>+ b b" by (meson rtranclp_into_tranclp1)
    with step.IH show False by simp
  qed
qed

lemma climb_root:
  assumes dist: "distinct (map pn_process_id ns)"
    and root: "r \<in> set ns" "pn_process_id r = root" "pn_parent_process_id r = None"
    and path: "(parent_of ns)\<^sup>*\<^sup>* a root"
  shows "cur \<in> set ns \<Longrightarrow> pn_process_id cur = a \<Longrightarrow> \<forall>x \<in> seen. (parent_of ns)\<^sup>+\<^sup>+ x a \<Longrightarrow>
    climb (node_table ns) cur seen = Inr r"
  using path
proof (induction arbitrary: cur seen rule: converse_rtranclp_induct)
  case base
  with node_unique [OF dist] root have "cur = r" by blast
  with root(3) show ?case by (simp add: climb.simps)
next
  case (step a b)
  have anc: "\<nexists>b. parent_of ns root b"
    using root node_unique [OF dist] by (force simp: parent_of_def)
  from step(1,2) have "(parent_of ns)\<^sup>*\<^sup>* a root" by (rule converse_rtranclp_into_rtranclp)
  then have "a \<notin> seen" using no_cycle [OF dist anc] step.prems(3) by blast
  moreover have par: "pn_parent_process_id cur = Some b"
    using step(1) step.prems node_unique [OF dist] by (auto simp: parent_of_def)
  moreover obtain nx where nx: "nx \<in> set ns" "pn_process_id nx = b"
  proof (cases "b = root")
    case True
    with root that show thesis by blast
  next
    case False
    with step(2) obtain c where "parent_of ns b c" by (meson converse_rtranclpE)
    with that show thesis by (auto simp: parent_of_def)
  qed
  moreover have "map_of (node_table ns) b = Some nx" using nx map_of_nodes [OF dist] by blast
  moreover have "climb (node_table ns) nx (insert a seen) = Inr r"
    by (rule step.IH [OF nx]) (use step(1) step.prems(3) in \<open>auto intro: tranclp.trancl_into_trancl\<close>)
  ultimately show ?case
    using step.prems(2) by (subst climb.simps) simp
qed

lemma check_parents_iff:
  "check_parents t root ns = Inr () \<longleftrightarrow> (\<forall>n \<in> set ns. pn_process_id n = root \<or>
     (\<exists>p \<in> fst ` set t. pn_parent_process_id n = Some p))"
  by (induction ns) (auto split: option.splits)

lemma check_descent_iff:
  "check_descent t root ns = Inr () \<longleftrightarrow> (\<forall>n \<in> set ns. \<exists>anc. climb t n {} = Inr anc \<and> pn_process_id anc = root)"
  by (induction ns) (auto simp: rbind_eq_Inr)

lemma validate_lineage_iff: "validate_lineage ns root = Inr () \<longleftrightarrow> rooted_tree ns root"
proof (cases "distinct (map pn_process_id ns)")
  case False
  then show ?thesis
    using length_dict [of pn_process_id "\<lambda>n. n" ns] by (simp add: validate_lineage_def rooted_tree_def node_table_def)
next
  case dist: True
  then have len: "length (node_table ns) = length ns"
    using length_dict [of pn_process_id "\<lambda>n. n" ns] by (simp add: node_table_def)
  have keys: "fst ` set (node_table ns) = pn_process_id ` set ns"
    using dist by (force simp: node_table_distinct)
  show ?thesis
  proof
    assume "validate_lineage ns root = Inr ()"
    then obtain r where r: "map_of (node_table ns) root = Some r" "pn_parent_process_id r = None"
      "check_descent (node_table ns) root ns = Inr ()"
      using len by (auto simp: validate_lineage_def rbind_eq_Inr Let_def split: option.splits if_splits)
    with map_of_nodes [OF dist] have "r \<in> set ns" "pn_process_id r = root" by auto
    moreover have "(parent_of ns)\<^sup>*\<^sup>* (pn_process_id n) root" if "n \<in> set ns" for n
      using r(3) that climb_reaches [OF dist that] by (fastforce simp: check_descent_iff)
    ultimately show "rooted_tree ns root" using dist r(2) by (auto simp: rooted_tree_def)
  next
    assume tree: "rooted_tree ns root"
    then obtain r where r: "r \<in> set ns" "pn_process_id r = root" "pn_parent_process_id r = None"
      by (auto simp: rooted_tree_def)
    have path: "(parent_of ns)\<^sup>*\<^sup>* (pn_process_id n) root" if "n \<in> set ns" for n
      using tree that by (auto simp: rooted_tree_def)
    have "climb (node_table ns) n {} = Inr r" if "n \<in> set ns" for n
      by (rule climb_root [OF dist r path [OF that]]) (use that in auto)
    then have "check_descent (node_table ns) root ns = Inr ()"
      using r(2) by (auto simp: check_descent_iff)
    moreover have "\<exists>p \<in> fst ` set (node_table ns). pn_parent_process_id n = Some p"
      if n: "n \<in> set ns" "pn_process_id n \<noteq> root" for n
    proof -
      obtain b where b: "parent_of ns (pn_process_id n) b" "(parent_of ns)\<^sup>*\<^sup>* b root"
        using path [OF n(1)] n(2) by (cases rule: converse_rtranclpE) auto
      then have "pn_parent_process_id n = Some b" using n(1) node_unique [OF dist] by (auto simp: parent_of_def)
      moreover have "b \<in> pn_process_id ` set ns"
      proof (cases "b = root")
        case False
        obtain c where "parent_of ns b c" using b(2) False by (cases rule: converse_rtranclpE) auto
        then show ?thesis by (auto simp: parent_of_def)
      qed (use r in auto)
      ultimately show ?thesis using keys by auto
    qed
    then have "check_parents (node_table ns) root ns = Inr ()" by (auto simp: check_parents_iff)
    moreover have "map_of (node_table ns) root = Some r" using r map_of_nodes [OF dist] by blast
    ultimately show "validate_lineage ns root = Inr ()"
      using len r(3) by (simp add: validate_lineage_def Let_def)
  qed
qed

end
