(* ===== verification/Lineage_Properties.thy ===== *)
theory Lineage_Properties
  imports Process_Lineage
begin

section \<open>Lineage supervision: invariant and properties\<close>

text \<open>
  What the supervisor of \<open>Process_Lineage\<close> has checked at each point of its life, the receipt it issues,
  and the properties of the lineage check, the freeze and the termination.
\<close>

subsection \<open>The lineage check raises nothing but its own error\<close>

definition lineage_failure :: "exn \<Rightarrow> bool" where
  "lineage_failure e \<longleftrightarrow> (\<exists>m. e = ProcessLineageError m)"

lemma lineage_failure_simp [simp]: "lineage_failure (ProcessLineageError m)"
  by (simp add: lineage_failure_def)

lemma climb_failure:
  assumes "\<forall>n \<in> set ns. \<forall>p. pn_parent_process_id n = Some p \<longrightarrow> p \<in> pn_process_id ` set ns" "distinct (map pn_process_id ns)"
  shows "cur \<in> set ns \<Longrightarrow> climb (node_table ns) cur seen = Inl e \<Longrightarrow> lineage_failure e"
proof (induction "node_table ns" cur seen rule: climb.induct)
  case (1 cur seen)
  then obtain p where p: "pn_parent_process_id cur = Some p"
    by (cases "pn_parent_process_id cur") (simp_all add: climb.simps)
  with assms(1) "1.prems"(1) obtain nx where nx: "nx \<in> set ns" "pn_process_id nx = p" by force
  then have look: "map_of (node_table ns) p = Some nx" using map_of_nodes [OF assms(2)] by blast
  show ?case
  proof (cases "pn_process_id cur \<in> seen")
    case True
    with "1.prems"(2) p show ?thesis by (subst (asm) climb.simps) auto
  next
    case False
    with "1.prems"(2) p look have "climb (node_table ns) nx (insert (pn_process_id cur) seen) = Inl e"
      by (subst (asm) climb.simps) simp
    with "1.hyps" [OF p False look nx(1)] show ?thesis by blast
  qed
qed

lemma check_parents_failure: "check_parents t root ns = Inl e \<Longrightarrow> lineage_failure e"
  by (induction ns) (auto split: if_splits)

lemma check_descent_failure:
  "check_descent t root ns = Inl e \<Longrightarrow> lineage_failure e \<or> (\<exists>n \<in> set ns. climb t n {} = Inl e)"
  by (induction ns) (auto simp: rbind_eq_Inl split: if_splits)

lemma validate_lineage_failure:
  assumes "validate_lineage ns root = Inl e"
  shows "lineage_failure e"
proof (cases "distinct (map pn_process_id ns)")
  case False
  with assms show ?thesis
    using length_dict [of pn_process_id "\<lambda>n. n" ns] by (auto simp: validate_lineage_def node_table_def)
next
  case dist: True
  have keys: "fst ` set (node_table ns) = pn_process_id ` set ns"
    using dist by (force simp: node_table_distinct)
  from assms consider "lineage_failure e" | "check_parents (node_table ns) root ns = Inl e"
    | r where "map_of (node_table ns) root = Some r" "pn_parent_process_id r = None"
        "check_parents (node_table ns) root ns = Inr ()" "check_descent (node_table ns) root ns = Inl e"
    by (auto simp: validate_lineage_def Let_def rbind_eq_Inl split: if_splits option.splits)
  then show ?thesis
  proof cases
    case 3
    then have r: "r \<in> set ns" "pn_process_id r = root" using map_of_nodes [OF dist] by auto
    have "p \<in> pn_process_id ` set ns" if "n \<in> set ns" "pn_parent_process_id n = Some p" for n p
    proof (cases "pn_process_id n = root")
      case True
      with r node_unique [OF dist that(1) r(1)] 3(2) that(2) show ?thesis by simp
    next
      case False
      with 3(3) that keys show ?thesis by (force simp: check_parents_iff)
    qed
    then show ?thesis
      using check_descent_failure [OF 3(4)] climb_failure [OF _ dist] by blast
  qed (auto intro: check_parents_failure)
qed

subsection \<open>What an accepted observation or action guarantees\<close>

definition accepted :: "lineage_supervisor \<Rightarrow> lineage_observation \<Rightarrow> bool" where
  "accepted s ob \<longleftrightarrow> (\<exists>raw. lo_from_mapping (ls_session_id s) (ls_root_process_id s) (ls_backend_binding_sha256 s) raw = Inr ob)"

lemma accepted_facts:
  assumes "accepted s ob"
  shows "rooted_tree (lo_nodes ob) (ls_root_process_id s)" "is_sha256 (lo_tree_sha256 ob)"
proof -
  obtain raw where raw: "lo_from_mapping (ls_session_id s) (ls_root_process_id s) (ls_backend_binding_sha256 s) raw = Inr ob"
    using assms by (auto simp: accepted_def)
  then show "rooted_tree (lo_nodes ob) (ls_root_process_id s)" "is_sha256 (lo_tree_sha256 ob)"
    unfolding lo_from_mapping_def
    by (cases "dget raw ''nodes''"; auto simp: rbind_eq_Inr if_Inl_eq_Inr validate_lineage_iff [symmetric] Let_def)+
qed

lemma action_sha: "validate_action sid root binding name raw = Inr action \<Longrightarrow>
    is_sha256 (ba_evidence_sha256 action) \<and> 0 \<le> ba_affected_count action"
  unfolding validate_action_def
  by (cases "dget raw ''affected_count''") (auto simp: rbind_eq_Inr if_Inl_eq_Inr py_eq_text)

definition same_lineage :: "lineage_observation \<Rightarrow> lineage_observation \<Rightarrow> bool" where
  "same_lineage l r \<longleftrightarrow> require_same_lineage l r = Inr ()"

lemma lineage_map_distinct:
  "distinct (map pn_process_id (lo_nodes ob)) \<Longrightarrow>
    lineage_map ob = map (\<lambda>n. (pn_process_id n, pn_parent_process_id n, pn_identity_sha256 n)) (lo_nodes ob)"
  using fold_update_distinct [of "[]" pn_process_id "lo_nodes ob" "\<lambda>n. (pn_parent_process_id n, pn_identity_sha256 n)"]
  by (simp add: lineage_map_def)

lemma same_lineage_processes:
  assumes "accepted s l" "accepted s r" "same_lineage l r"
  shows "(\<lambda>n. (pn_process_id n, pn_parent_process_id n, pn_identity_sha256 n)) ` set (lo_nodes l) =
         (\<lambda>n. (pn_process_id n, pn_parent_process_id n, pn_identity_sha256 n)) ` set (lo_nodes r)"
    and "length (lo_nodes l) = length (lo_nodes r)"
proof -
  note d = accepted_facts(1) [OF assms(1), unfolded rooted_tree_def, THEN conjunct1]
    accepted_facts(1) [OF assms(2), unfolded rooted_tree_def, THEN conjunct1]
  let ?f = "\<lambda>n. (pn_process_id n, pn_parent_process_id n, pn_identity_sha256 n)"
  from assms(3) show eq: "?f ` set (lo_nodes l) = ?f ` set (lo_nodes r)"
    by (simp add: same_lineage_def require_same_lineage_def lineage_map_distinct [OF d(1)]
        lineage_map_distinct [OF d(2)] split: if_splits)
  have "fst ` ?f ` set (lo_nodes l) = fst ` ?f ` set (lo_nodes r)" by (simp only: eq)
  then have "set (map pn_process_id (lo_nodes l)) = set (map pn_process_id (lo_nodes r))"
    by (simp add: image_image)
  then have "card (set (map pn_process_id (lo_nodes l))) = card (set (map pn_process_id (lo_nodes r)))" by (simp only:)
  then show "length (lo_nodes l) = length (lo_nodes r)"
    using distinct_card [OF d(1)] distinct_card [OF d(2)] by simp
qed

subsection \<open>The supervisor's invariant\<close>

definition decided_receipt ::
  "lineage_supervisor \<Rightarrow> lineage_observation \<Rightarrow> lineage_observation \<Rightarrow> string \<Rightarrow> lineage_receipt \<Rightarrow> bool" where
  "decided_receipt s before frozen fe r \<longleftrightarrow> (\<exists>action after. accepted s after \<and> same_lineage before after \<and>
     is_sha256 (ba_evidence_sha256 action) \<and> r = lineage_decide s before frozen fe action after)"

definition frozen_evidence :: "lineage_supervisor \<Rightarrow> lineage_observation \<Rightarrow> lineage_observation \<Rightarrow> string \<Rightarrow> bool" where
  "frozen_evidence s before frozen fe \<longleftrightarrow> accepted s before \<and> accepted s frozen \<and> same_lineage before frozen \<and>
     is_sha256 fe \<and> (\<forall>n \<in> set (lo_nodes frozen). pn_state n \<noteq> ''running'')"

definition wf_lineage :: "lineage_supervisor \<Rightarrow> bool" where
  "wf_lineage s \<longleftrightarrow> is_sha256 (ls_backend_binding_sha256 s) \<and>
     (case ls_frozen s of None \<Rightarrow> ls_receipt s = None
      | Some (before, frozen, fe) \<Rightarrow> frozen_evidence s before frozen fe \<and>
          (\<forall>r. ls_receipt s = Some r \<longrightarrow> decided_receipt s before frozen fe r))"

lemma wf_update:
  "accepted (s\<lparr>ls_frozen := f\<rparr>) = accepted s" "accepted (s\<lparr>ls_receipt := rc\<rparr>) = accepted s"
  "decided_receipt (s\<lparr>ls_receipt := rc\<rparr>) = decided_receipt s"
  "frozen_evidence (s\<lparr>ls_frozen := f\<rparr>) = frozen_evidence s" "frozen_evidence (s\<lparr>ls_receipt := rc\<rparr>) = frozen_evidence s"
  by (simp_all add: fun_eq_iff accepted_def decided_receipt_def frozen_evidence_def lineage_decide_def)

lemma ls_init_wf: "ls_init sid root binding = Inr s \<Longrightarrow> wf_lineage s"
  by (auto simp: ls_init_def rbind_eq_Inr wf_lineage_def split: if_splits)

lemma ls_snapshot_run:
  assumes "ls_snapshot backend (w, s) = (r, t)"
  shows "\<exists>w'. t = (w', s) \<and> (\<forall>ob. r = Inr ob \<longrightarrow> accepted s ob)"
  using assms by (auto simp: ls_snapshot_def obind_cases accepted_def)

lemma ls_action_run:
  assumes "ls_action call name (w, s) = (r, t)"
  shows "\<exists>w'. t = (w', s) \<and> (\<forall>a. r = Inr a \<longrightarrow> is_sha256 (ba_evidence_sha256 a))"
  using assms by (auto simp: ls_action_def obind_cases dest: action_sha)

text \<open>What the backend is relied on for: every process of the session that is \<open>alive\<close> when the snapshot
  returns is in the snapshot with a state other than terminated.\<close>

definition complete_snapshots :: "'w lineage_backend \<Rightarrow> string \<Rightarrow> ('w \<Rightarrow> string \<Rightarrow> bool) \<Rightarrow> bool" where
  "complete_snapshots backend sid alive \<longleftrightarrow>
     (\<forall>w raw w' nodes. lb_snapshot backend sid w = (Inr raw, w') \<and> dget raw ''nodes'' = JList nodes \<longrightarrow>
        (\<forall>p. alive w' p \<longrightarrow> (\<exists>n \<in> set nodes. dget (jobj n) ''process_id'' = JStr p \<and> dget (jobj n) ''state'' \<noteq> JStr ''terminated'')))"

lemma pl_require_text_eq: "pl_require_text v name = Inr x \<Longrightarrow> v = JStr x"
  by (cases v) (auto split: if_splits)

lemma py_in_set_eq: "py_in_set v ss = Inr True \<Longrightarrow> v = JStr (jstr v)"
  by (cases v) (auto simp: py_in_set_def)

lemma pn_from_mapping_fields:
  assumes "pn_from_mapping v = Inr n"
  shows "dget (jobj v) ''process_id'' = JStr (pn_process_id n)" "dget (jobj v) ''state'' = JStr (pn_state n)"
  using assms unfolding pn_from_mapping_def
  by (cases v; force simp: rbind_eq_Inr if_Inl_eq_Inr dest: pl_require_text_eq py_in_set_eq split: if_splits)+

lemma snapshot_live:
  assumes "lo_from_mapping sid root binding raw = Inr ob" "dget raw ''nodes'' = JList nodes"
    and "n \<in> set nodes" "dget (jobj n) ''process_id'' = JStr p" "dget (jobj n) ''state'' \<noteq> JStr ''terminated''"
  shows "p \<in> pn_process_id ` set (live_nodes ob)"
proof -
  have "rmap pn_from_mapping nodes = Inr (lo_nodes ob)"
    using assms(1,2) unfolding lo_from_mapping_def by (auto simp: rbind_eq_Inr if_Inl_eq_Inr Let_def)
  with assms(3) obtain m where m: "m \<in> set (lo_nodes ob)" "pn_from_mapping n = Inr m"
    by (auto simp: rmap_Inr_iff list_all2_conv_all_nth in_set_conv_nth) metis
  with pn_from_mapping_fields [OF m(2)] assms(4,5) show ?thesis by (auto simp: live_nodes_def)
qed

lemma lo_nodes_list: "lo_from_mapping sid root binding raw = Inr ob \<Longrightarrow> \<exists>nodes. dget raw ''nodes'' = JList nodes"
  unfolding lo_from_mapping_def by (cases "dget raw ''nodes''") (auto simp: if_Inl_eq_Inr)

lemma ls_snapshot_live:
  assumes "ls_snapshot backend (w, s) = (Inr ob, (w', s'))" "complete_snapshots backend (ls_session_id s) alive" "alive w' p"
  shows "p \<in> pn_process_id ` set (live_nodes ob)"
proof -
  obtain raw where raw: "lb_snapshot backend (ls_session_id s) w = (Inr raw, w')"
      "lo_from_mapping (ls_session_id s) (ls_root_process_id s) (ls_backend_binding_sha256 s) raw = Inr ob"
    using assms(1) by (auto simp: ls_snapshot_def obind_cases) (metis prod.collapse)
  from lo_nodes_list [OF raw(2)] obtain nodes where nodes: "dget raw ''nodes'' = JList nodes" by blast
  from assms(2,3) raw(1) nodes obtain n where "n \<in> set nodes" "dget (jobj n) ''process_id'' = JStr p"
      "dget (jobj n) ''state'' \<noteq> JStr ''terminated''"
    unfolding complete_snapshots_def by blast
  with snapshot_live [OF raw(2) nodes] show ?thesis by blast
qed

subsection \<open>Freeze and quiesce\<close>

lemma ls_freeze_run:
  assumes "ls_freeze backend (w, s) = (r, (w', s'))"
  shows "s' = s \<or> (ls_frozen s = None \<and>
    (\<exists>before frozen fe. frozen_evidence s before frozen fe \<and> s' = s\<lparr>ls_frozen := Some (before, frozen, fe)\<rparr>))"
proof (cases "ls_frozen s = None")
  case True
  from assms True show ?thesis
    unfolding ls_freeze_def
    by (auto simp: obind_cases frozen_evidence_def list_ex_iff same_lineage_def
        dest!: ls_snapshot_run ls_action_run split: if_splits) blast
qed (use assms in \<open>auto simp: ls_freeze_def\<close>)

lemma ls_quiesce_run:
  assumes "ls_quiesce backend (w, s) = (r, (w', s'))"
  shows "(s' = s \<and> (\<forall>doc. r = Inr doc \<longrightarrow> (\<exists>rc. ls_receipt s = Some rc \<and> doc = lr_as_document rc))) \<or>
    (\<exists>before frozen fe action after w1. ls_frozen s = Some (before, frozen, fe) \<and> ls_receipt s = None \<and>
       ls_snapshot backend (w1, s) = (Inr after, (w', s)) \<and> same_lineage before after \<and>
       is_sha256 (ba_evidence_sha256 action) \<and>
       s' = s\<lparr>ls_receipt := Some (lineage_decide s before frozen fe action after)\<rparr> \<and>
       r = Inr (lr_as_document (lineage_decide s before frozen fe action after)))"
proof (cases "ls_frozen s")
  case None
  with assms show ?thesis by (auto simp: ls_quiesce_def)
next
  case (Some bff)
  obtain before frozen fe where fr: "ls_frozen s = Some (before, frozen, fe)" using Some by (cases bff) auto
  show ?thesis
  proof (cases "ls_receipt s")
    case None
    from assms fr None consider e where "ls_action (lb_terminate backend) ''terminate'' (w, s) = (Inl e, (w', s'))" "r = Inl e"
      | action t where "ls_action (lb_terminate backend) ''terminate'' (w, s) = (Inr action, t)"
          "obind (ls_snapshot backend) (\<lambda>after.
               obind (olift (require_same_lineage before after)) (\<lambda>_.
                 if ba_result_tree_sha256 action \<noteq> lo_tree_sha256 after
                 then oraise (ProcessLineageError ''terminate action is not bound to the resulting process lineage'')
                 else if ba_affected_count action > int (length (live_nodes frozen))
                 then oraise (ProcessLineageError ''terminate affected_count exceeds frozen live process count'')
                 else (\<lambda>(w, s).
                   (let receipt = lineage_decide s before frozen fe action after
                    in (Inr (lr_as_document receipt), (w, s\<lparr>ls_receipt := Some receipt\<rparr>)))))) t = (r, (w', s'))"
      by (auto simp: ls_quiesce_def obind_cases)
    then show ?thesis
    proof cases
      case 1
      with ls_action_run [OF 1(1)] show ?thesis by auto
    next
      case 2
      from ls_action_run [OF 2(1)] obtain w1 where w1: "t = (w1, s)" "is_sha256 (ba_evidence_sha256 action)" by auto
      obtain r2 t2 where snap: "ls_snapshot backend (w1, s) = (r2, t2)" by (metis prod.collapse)
      from ls_snapshot_run [OF this] obtain w2 where t2: "t2 = (w2, s)" by (elim exE conjE)
      show ?thesis
      proof (cases r2)
        case (Inl e)
        with 2(2) snap t2 w1 show ?thesis by (auto simp: obind_def)
      next
        case (Inr after)
        then show ?thesis
          using 2(2) snap t2 w1 fr None
          by (cases "require_same_lineage before after")
            (auto simp: obind_def same_lineage_def Let_def split: if_splits)
      qed
    qed
  qed (use assms fr in \<open>auto simp: ls_quiesce_def\<close>)
qed

text \<open>Any sequence of calls on a supervisor the constructor returned.\<close>

inductive lineage_reach :: "'w lineage_backend \<Rightarrow> 'w \<times> lineage_supervisor \<Rightarrow> bool" for backend where
  init: "ls_init sid root binding = Inr s \<Longrightarrow> lineage_reach backend (w, s)"
| freeze: "lineage_reach backend ws \<Longrightarrow> lineage_reach backend (snd (ls_freeze backend ws))"
| quiesce: "lineage_reach backend ws \<Longrightarrow> lineage_reach backend (snd (ls_quiesce backend ws))"
| host: "lineage_reach backend (w, s) \<Longrightarrow> lineage_reach backend (w', s)"

lemma ls_freeze_wf:
  assumes "wf_lineage s" "ls_freeze backend (w, s) = (r, (w', s'))"
  shows "wf_lineage s'"
  using ls_freeze_run [OF assms(2)] assms(1) by (auto simp: wf_lineage_def wf_update)

lemma ls_quiesce_wf:
  assumes "wf_lineage s" "ls_quiesce backend (w, s) = (r, (w', s'))"
  shows "wf_lineage s'"
  using ls_quiesce_run [OF assms(2)]
proof (elim disjE exE conjE)
  fix before frozen fe action after w1
  assume q: "ls_frozen s = Some (before, frozen, fe)" "ls_snapshot backend (w1, s) = (Inr after, (w', s))"
    "same_lineage before after" "is_sha256 (ba_evidence_sha256 action)"
    "s' = s\<lparr>ls_receipt := Some (lineage_decide s before frozen fe action after)\<rparr>"
  moreover have "accepted s after" using ls_snapshot_run [OF q(2)] by auto
  ultimately have "decided_receipt s before frozen fe (lineage_decide s before frozen fe action after)"
    by (auto simp: decided_receipt_def)
  with assms(1) q(1,5) show ?thesis by (auto simp: wf_lineage_def wf_update)
qed (use assms(1) in simp)

lemma lineage_reach_wf: "lineage_reach backend ws \<Longrightarrow> wf_lineage (snd ws)"
proof (induction rule: lineage_reach.induct)
  case (freeze ws)
  then show ?case
    by (cases ws; cases "ls_freeze backend ws") (auto dest: ls_freeze_wf)
next
  case (quiesce ws)
  then show ?case
    by (cases ws; cases "ls_quiesce backend ws") (auto dest: ls_quiesce_wf)
qed (auto dest: ls_init_wf)

subsection \<open>Receipts\<close>

lemma lr_facts:
  "dget (lr_as_document r) ''receipt_sha256'' = JStr (lr_receipt_sha256 r)"
  "dpop (lr_as_document r) ''receipt_sha256'' = lr_body r"
  "dget (lr_body r) ''schema'' = JStr LINEAGE_SCHEMA"
  "dget (lr_body r) ''authority'' = LINEAGE_AUTHORITY"
  "dget (lr_body r) ''backend_binding_sha256'' = JStr (lr_backend_binding_sha256 r)"
  "dget (lr_body r) ''before_tree_sha256'' = JStr (lr_before_tree_sha256 r)"
  "dget (lr_body r) ''frozen_tree_sha256'' = JStr (lr_frozen_tree_sha256 r)"
  "dget (lr_body r) ''after_tree_sha256'' = JStr (lr_after_tree_sha256 r)"
  "dget (lr_body r) ''freeze_evidence_sha256'' = JStr (lr_freeze_evidence_sha256 r)"
  "dget (lr_body r) ''terminate_evidence_sha256'' = JStr (lr_terminate_evidence_sha256 r)"
  "dget (lr_body r) ''decision'' = JStr (lr_decision r)"
  "dget (lr_body r) ''observed_count'' = JInt (lr_observed_count r)"
  "dget (lr_body r) ''terminated_count'' = JInt (lr_terminated_count r)"
  "dget (lr_body r) ''surviving_count'' = JInt (lr_surviving_count r)"
  by (simp_all add: lr_as_document_def lr_body_def dpop_def dget_def)

definition wf_lineage_receipt :: "lineage_receipt \<Rightarrow> bool" where
  "wf_lineage_receipt r \<longleftrightarrow> lr_receipt_sha256 r = canonical_sha256 (JObj (lr_body r)) \<and>
     list_all is_sha256 [lr_backend_binding_sha256 r, lr_before_tree_sha256 r, lr_frozen_tree_sha256 r,
       lr_after_tree_sha256 r, lr_freeze_evidence_sha256 r, lr_terminate_evidence_sha256 r] \<and>
     (lr_decision r = ''ALLOW'' \<or> lr_decision r = ''BLOCK'') \<and>
     0 \<le> lr_terminated_count r \<and> 0 \<le> lr_surviving_count r \<and>
     lr_terminated_count r + lr_surviving_count r = lr_observed_count r \<and>
     (lr_decision r = ''ALLOW'' \<longrightarrow> lr_surviving_count r = 0)"

lemma pl_verify_receipt_ok:
  assumes "wf_lineage_receipt r"
  shows "pl_verify_receipt (lr_as_document r) = Inr (lr_as_document r)"
proof -
  have refl: "py_eq v v" for v by (simp add: py_eq_def)
  have shas: "check_shas (lr_body r) [''backend_binding_sha256'', ''before_tree_sha256'', ''frozen_tree_sha256'',
      ''after_tree_sha256'', ''freeze_evidence_sha256'', ''terminate_evidence_sha256''] = Inr ()"
    using assms by (simp add: lr_facts wf_lineage_receipt_def)
  have counts: "check_counts (\<lambda>m. ProcessLineageError m) (lr_body r)
      [''observed_count'', ''terminated_count'', ''surviving_count''] = Inr ()"
    using assms by (auto simp: lr_facts wf_lineage_receipt_def)
  have dec: "py_in_set (dget (lr_body r) ''decision'') [''ALLOW'', ''BLOCK''] = Inr True"
    using assms by (auto simp: lr_facts wf_lineage_receipt_def py_in_set_def)
  have rest: "lr_terminated_count r + lr_surviving_count r = lr_observed_count r"
      "lr_decision r = ''ALLOW'' \<longrightarrow> lr_surviving_count r = 0" "lr_receipt_sha256 r = canonical_sha256 (JObj (lr_body r))"
    using assms by (simp_all add: wf_lineage_receipt_def)
  show ?thesis
    unfolding pl_verify_receipt_def Let_def lr_facts(1,2) shas counts dec
    using rest by (simp add: lr_facts refl json_int_def py_eq_text del: check_shas.simps check_counts.simps)
qed

lemma length_terminated: "length (filter (\<lambda>n. pn_state n = ''terminated'') ns) +
    length (filter (\<lambda>n. pn_state n \<noteq> ''terminated'') ns) = length ns"
  by (induction ns) auto

lemma lineage_decide_wf:
  assumes "frozen_evidence s before frozen fe" "accepted s after" "same_lineage before after"
    and "is_sha256 (ba_evidence_sha256 action)" "is_sha256 (ls_backend_binding_sha256 s)"
  shows "wf_lineage_receipt (lineage_decide s before frozen fe action after)"
proof -
  have acc: "accepted s before" "accepted s frozen" "is_sha256 fe" using assms(1) by (auto simp: frozen_evidence_def)
  have "int (length (filter (\<lambda>n. pn_state n = ''terminated'') (lo_nodes after))) + int (length (live_nodes after)) =
      int (length (lo_nodes before))"
    using length_terminated [of "lo_nodes after"] same_lineage_processes(2) [OF acc(1) assms(2,3)]
    by (simp add: live_nodes_def)
  with assms acc(3) accepted_facts(2) [OF acc(1)] accepted_facts(2) [OF acc(2)] accepted_facts(2) [OF assms(2)] show ?thesis
    by (simp add: wf_lineage_receipt_def lineage_decide_def Let_def lr_body_def)
qed

lemma lineage_decide_fields:
  "lr_decision (lineage_decide s before frozen fe action after) = ''ALLOW'' \<longleftrightarrow>
     live_nodes after = [] \<and> ba_affected_count action = int (length (live_nodes frozen))"
  "lr_observed_count (lineage_decide s before frozen fe action after) = int (length (lo_nodes before))"
  "lr_after_tree_sha256 (lineage_decide s before frozen fe action after) = lo_tree_sha256 after"
  by (simp_all add: lineage_decide_def Let_def)

subsection \<open>Properties of lineage supervision\<close>

text \<open>A one-process session whose world is the state of its process.\<close>

definition demo_node :: "string \<Rightarrow> process_node" where
  "demo_node st = \<lparr>pn_process_id = ''p:1'', pn_parent_process_id = None, pn_identity_sha256 = ZERO_SHA256, pn_state = st\<rparr>"

definition demo_tree :: "string \<Rightarrow> string" where
  "demo_tree st = canonical_sha256 (JList [pn_body (demo_node st)])"

definition demo_observation :: "string \<Rightarrow> (string \<times> json) list" where
  "demo_observation st =
     (let body = [(''schema'', JStr OBSERVATION_SCHEMA), (''session_id'', JStr ''s:1''), (''root_process_id'', JStr ''p:1''),
            (''backend_binding_sha256'', JStr ZERO_SHA256), (''nodes'', JList [pn_body (demo_node st)]),
            (''tree_sha256'', JStr (demo_tree st))]
      in body @ [(''evidence_sha256'', JStr (canonical_sha256 (JObj body)))])"

definition demo_action :: "string \<Rightarrow> string \<Rightarrow> (string \<times> json) list" where
  "demo_action name st =
     (let body = [(''schema'', JStr ACTION_SCHEMA), (''session_id'', JStr ''s:1''), (''root_process_id'', JStr ''p:1''),
            (''backend_binding_sha256'', JStr ZERO_SHA256), (''action'', JStr name), (''affected_count'', JInt 1),
            (''result_tree_sha256'', JStr (demo_tree st))]
      in body @ [(''evidence_sha256'', JStr (canonical_sha256 (JObj body)))])"

definition demo_backend :: "string lineage_backend" where
  "demo_backend = \<lparr>lb_snapshot = (\<lambda>k w. (Inr (demo_observation w), w)),
     lb_freeze = (\<lambda>k w. (Inr (demo_action ''freeze'' ''frozen''), ''frozen'')),
     lb_terminate = (\<lambda>k w. (Inr (demo_action ''terminate'' ''terminated''), ''terminated''))\<rparr>"

definition demo_lineage :: "string \<times> lineage_supervisor" where
  "demo_lineage = snd (ls_freeze demo_backend
     (''running'', \<lparr>ls_session_id = ''s:1'', ls_root_process_id = ''p:1'', ls_backend_binding_sha256 = ZERO_SHA256,
        ls_frozen = None, ls_receipt = None\<rparr>))"

lemma demo_texts: "py_strip ''s:1'' = ''s:1''" "py_strip ''p:1'' = ''p:1''" "py_len ''s:1'' = 3" "py_len ''p:1'' = 3"
  by code_simp+

lemma demo_node_parse:
  assumes "st \<in> {''running'', ''frozen'', ''terminated''}"
  shows "pn_from_mapping (pn_body (demo_node st)) = Inr (demo_node st)"
  using assms
  by (auto simp: pn_from_mapping_def pn_body_def demo_node_def same_keys_def dkeys_def pn_keys_def dget_def jopt_def
      py_in_set_def demo_texts)

lemma demo_node_tree: "validate_lineage [demo_node st] ''p:1'' = Inr ()"
  by (auto simp: validate_lineage_iff rooted_tree_def demo_node_def)

definition demo_seen :: "string \<Rightarrow> lineage_observation" where
  "demo_seen st = \<lparr>lo_session_id = ''s:1'', lo_root_process_id = ''p:1'', lo_backend_binding_sha256 = ZERO_SHA256,
     lo_nodes = [demo_node st], lo_tree_sha256 = demo_tree st,
     lo_evidence_sha256 = jstr (dget (demo_observation st) ''evidence_sha256'')\<rparr>"

lemma demo_snapshot:
  assumes "st \<in> {''running'', ''frozen'', ''terminated''}"
  shows "lo_from_mapping ''s:1'' ''p:1'' ZERO_SHA256 (demo_observation st) = Inr (demo_seen st)"
  by (simp add: lo_from_mapping_def demo_observation_def demo_seen_def demo_tree_def Let_def same_keys_def dkeys_def
      dget_def py_eq_text demo_node_parse [OF assms] demo_node_tree)

lemma demo_act:
  "validate_action ''s:1'' ''p:1'' ZERO_SHA256 name (demo_action name st) = Inr \<lparr>ba_affected_count = 1,
     ba_result_tree_sha256 = demo_tree st, ba_evidence_sha256 = jstr (dget (demo_action name st) ''evidence_sha256'')\<rparr>"
  by (simp add: validate_action_def demo_action_def Let_def same_keys_def dkeys_def dget_def py_eq_text demo_tree_def dpop_def)

lemma demo_same: "require_same_lineage (demo_seen a) (demo_seen b) = Inr ()"
  by (simp add: require_same_lineage_def lineage_map_def demo_seen_def demo_node_def)

lemma demo_complete: "complete_snapshots demo_backend ''s:1'' (\<lambda>w p. p = ''p:1'' \<and> w \<noteq> ''terminated'')"
  by (auto simp: complete_snapshots_def demo_backend_def demo_observation_def Let_def dget_def pn_body_def demo_node_def)

lemma demo_lineage_reach: "lineage_reach demo_backend demo_lineage"
  unfolding demo_lineage_def
  by (intro lineage_reach.freeze lineage_reach.init [of "''s:1''" "''p:1''" ZERO_SHA256]) (simp add: ls_init_def demo_texts)

lemma demo_quiesce:
  "\<exists>doc s'. ls_quiesce demo_backend demo_lineage = (Inr doc, (''terminated'', s')) \<and> ls_receipt (snd demo_lineage) = None \<and>
     ls_session_id (snd demo_lineage) = ''s:1''"
  by (simp add: demo_lineage_def ls_freeze_def ls_quiesce_def ls_snapshot_def ls_action_def demo_backend_def obind_def
      demo_snapshot demo_act demo_same Let_def)
    (simp add: demo_seen_def live_nodes_def demo_node_def)

text \<open>C9: The lineage check of an observation, a loop over parent links that stops on cycles, always
  returns, and it accepts exactly the lists of processes that form a tree: distinct process ids, the
  bound root present and parentless, and every process a descendant of it. Anything else, cycles and
  unknown parents included, is refused with a ProcessLineageError and never with a KeyError.\<close>

theorem lineage_check_exact:
  "validate_lineage ns root = Inr () \<and> rooted_tree ns root \<or>
   \<not> rooted_tree ns root \<and> (\<exists>m. validate_lineage ns root = Inl (ProcessLineageError m))"
proof (cases "validate_lineage ns root")
  case (Inl e)
  then have "\<not> rooted_tree ns root" by (metis validate_lineage_iff Inl_Inr_False)
  with Inl validate_lineage_failure [OF Inl] show ?thesis by (auto simp: lineage_failure_def)
qed (simp add: validate_lineage_iff [symmetric])

theorem lineage_check_exact_witness:
  "\<exists>m. validate_lineage [demo_node ''running'', (demo_node ''running'')\<lparr>pn_process_id := ''p:2'',
     pn_parent_process_id := Some ''p:2''\<rparr>] ''p:1'' = Inl (ProcessLineageError m)"
proof -
  let ?ns = "[demo_node ''running'', (demo_node ''running'')\<lparr>pn_process_id := ''p:2'', pn_parent_process_id := Some ''p:2''\<rparr>]"
  have "\<not> rooted_tree ?ns ''p:1''"
  proof
    assume "rooted_tree ?ns ''p:1''"
    then have "(parent_of ?ns)\<^sup>*\<^sup>* ''p:2'' ''p:1''" by (simp add: rooted_tree_def)
    then have "''p:1'' = ''p:2''"
      by (induction rule: rtranclp_induct) (auto simp: parent_of_def demo_node_def)
    then show False by simp
  qed
  with lineage_check_exact [of ?ns "''p:1''"] show ?thesis by blast
qed



end
