(* ===== verification/Containment.thy ===== *)
theory Containment
  imports Broker_Facts Lineage_Properties
begin

section \<open>Containment coordinator\<close>

text \<open>
  Model of src/sdk/liminal_containment. The coordinator's own fields are the record \<open>containment\<close>. It
  drives a capability broker (the model of \<open>Capability_Broker\<close>) and the host's callbacks, which act on
  a world of any type: the state of \<open>contain\<close> is the world, the broker and the coordinator. Each
  \<open>except Exception\<close> of the source is an \<open>otry\<close> that adds a failure code.
\<close>

subsection \<open>Data\<close>

abbreviation ContainmentError :: "string \<Rightarrow> exn" where
  "ContainmentError m \<equiv> Exn ''ContainmentError'' m"

abbreviation ContainmentBlocked :: "string \<Rightarrow> exn" where
  "ContainmentBlocked m \<equiv> Exn ''ContainmentBlocked'' m"

definition STATES :: "string list" where
  "STATES = [''IDLE'', ''DETECT'', ''FREEZE'', ''REVOKE'', ''SEAL'', ''SNAPSHOT'', ''REVIEW'', ''RELEASED'']"

definition INCIDENT_SCHEMA :: string where
  "INCIDENT_SCHEMA = ''liminal-containment-incident-receipt-v0.1''"

definition CONTAINMENT_AUTHORITY :: json where
  "CONTAINMENT_AUTHORITY = JObj
     [(''mode'', JStr ''reference_containment_coordinator''), (''freeze_via_host_callback'', JBool True),
      (''revoke_live_capabilities'', JBool True), (''close_egress_via_host_callback'', JBool True),
      (''active_process_quiescence_hook'', JBool True), (''quiescence_receipt_verification'', JBool True),
      (''seal_trace'', JBool True), (''bounded_snapshot'', JBool True), (''human_release_required'', JBool True),
      (''os_process_control'', JBool False), (''credential_discovery'', JBool False), (''shell_execution'', JBool False),
      (''deployment'', JBool False), (''merge'', JBool False), (''automatic_release'', JBool False)]"

record incident_receipt =
  ir_incident_id :: string
  ir_phase3_receipt_sha256 :: string
  ir_final_state :: string
  ir_transition_root_sha256 :: string
  ir_revoked_capability_ids :: "string list"
  ir_runtime_quiescence_sha256 :: string
  ir_sealed_trace_sha256 :: string
  ir_snapshot_sha256 :: string
  ir_partial_failures :: "string list"
  ir_human_release_id :: "string option"
  ir_receipt_sha256 :: string

definition ir_body :: "incident_receipt \<Rightarrow> (string \<times> json) list" where
  "ir_body r =
     [(''schema'', JStr INCIDENT_SCHEMA),
      (''incident_id'', JStr (ir_incident_id r)),
      (''phase3_receipt_sha256'', JStr (ir_phase3_receipt_sha256 r)),
      (''final_state'', JStr (ir_final_state r)),
      (''transition_root_sha256'', JStr (ir_transition_root_sha256 r)),
      (''revoked_capability_ids'', JList (map JStr (ir_revoked_capability_ids r))),
      (''runtime_quiescence_sha256'', JStr (ir_runtime_quiescence_sha256 r)),
      (''sealed_trace_sha256'', JStr (ir_sealed_trace_sha256 r)),
      (''snapshot_sha256'', JStr (ir_snapshot_sha256 r)),
      (''partial_failures'', JList (map JStr (ir_partial_failures r))),
      (''human_release_id'', jopt (ir_human_release_id r)),
      (''authority'', CONTAINMENT_AUTHORITY)]"

definition ir_as_document :: "incident_receipt \<Rightarrow> (string \<times> json) list" where
  "ir_as_document r = ir_body r @ [(''receipt_sha256'', JStr (ir_receipt_sha256 r))]"

definition ir_seal :: "incident_receipt \<Rightarrow> incident_receipt" where
  "ir_seal body = body\<lparr>ir_receipt_sha256 := canonical_sha256 (JObj (ir_body body))\<rparr>"

record transition =
  tn_from :: string
  tn_to :: string
  tn_at_unix :: int
  tn_evidence_sha256 :: string
  tn_previous_transition_sha256 :: string
  tn_transition_sha256 :: string

definition tn_body :: "transition \<Rightarrow> (string \<times> json) list" where
  "tn_body t =
     [(''from'', JStr (tn_from t)), (''to'', JStr (tn_to t)), (''at_unix'', JInt (tn_at_unix t)),
      (''evidence_sha256'', JStr (tn_evidence_sha256 t)),
      (''previous_transition_sha256'', JStr (tn_previous_transition_sha256 t))]"

definition tn_as_document :: "transition \<Rightarrow> json" where
  "tn_as_document t = JObj (tn_body t @ [(''transition_sha256'', JStr (tn_transition_sha256 t))])"

record containment =
  co_state :: string
  co_transitions :: "transition list"
  co_incident :: "incident_receipt option"

definition containment_init :: containment where
  "containment_init = \<lparr>co_state = ''IDLE'', co_transitions = [], co_incident = None\<rparr>"

definition transition_root :: "containment \<Rightarrow> string" where
  "transition_root c = canonical_sha256 (JList (map tn_as_document (co_transitions c)))"

record 'w containment_host =
  ch_freeze_runtime :: "('w, unit) op"
  ch_close_egress :: "('w, unit) op"
  ch_seal_trace :: "('w, string) op"
  ch_snapshot_forensics :: "('w, (string \<times> json) list) op"
  ch_quiesce_runtime :: "('w, (string \<times> json) list) op option"

subsection \<open>Checks\<close>

fun jlist :: "json \<Rightarrow> json list" where
  "jlist (JList xs) = xs"
| "jlist _ = []"

fun co_require_sha :: "json \<Rightarrow> string \<Rightarrow> unit res" where
  "co_require_sha (JStr s) name =
     (if is_sha256 s then Inr () else Inl (ContainmentError (name @ '' must be lowercase SHA-256'')))"
| "co_require_sha v name = Inl (ContainmentError (name @ '' must be lowercase SHA-256''))"

definition validated_phase3_receipt :: "(string \<times> json) list \<Rightarrow> string res" where
  "validated_phase3_receipt v =
     (if \<not> py_eq (dget v ''decision'') (JStr ''CONTAIN'')
      then Inl (ContainmentBlocked ''Phase 4 requires decision=CONTAIN'')
      else rbind (co_require_sha (dget v ''receipt_sha256'') ''phase3 receipt'') (\<lambda>_.
             Inr (jstr (dget v ''receipt_sha256''))))"

definition validate_quiescence_receipt :: "(string \<times> json) list \<Rightarrow> (string \<times> bool) res" where
  "validate_quiescence_receipt v =
     (if py_eq (dget v ''schema'') (JStr ''liminal-process-lineage-containment-receipt-v0.1'')
      then rbind (pl_verify_receipt v) (\<lambda>verified.
           rbind (dreq verified ''receipt_sha256'') (\<lambda>sha.
           rbind (dreq verified ''decision'') (\<lambda>decision.
             if \<not> py_eq decision (JStr ''ALLOW'') then Inr (jstr sha, False)
             else rbind (dreq verified ''surviving_count'') (\<lambda>n. Inr (jstr sha, py_eq n (JInt 0))))))
      else if py_eq (dget v ''schema'') (JStr ''liminal-process-tree-containment-receipt-v0.1'')
      then rbind (pt_verify_receipt v) (\<lambda>verified.
           rbind (dreq verified ''receipt_sha256'') (\<lambda>sha.
           rbind (dreq verified ''zero_survivors'') (\<lambda>zero.
             if \<not> json_truthy zero then Inr (jstr sha, False)
             else rbind (dreq verified ''survivor_count'') (\<lambda>n.
               if \<not> py_eq n (JInt 0) then Inr (jstr sha, False)
               else rbind (dreq verified ''failure_codes'') (\<lambda>codes. Inr (jstr sha, \<not> json_truthy codes))))))
      else Inl (ContainmentError ''unsupported runtime quiescence receipt profile''))"

fun check_snapshot_shas :: "(string \<times> json) list \<Rightarrow> string list \<Rightarrow> unit res" where
  "check_snapshot_shas v [] = Inr ()"
| "check_snapshot_shas v (k # ks) =
     rbind (if k \<in> set (dkeys v) then co_require_sha (dget v k) k else Inr ()) (\<lambda>_. check_snapshot_shas v ks)"

definition validate_snapshot :: "(string \<times> json) list \<Rightarrow> unit res" where
  "validate_snapshot v =
     (if \<not> set (dkeys v) \<subseteq> {''trace_head_sha256'', ''broker_head_sha256'', ''event_count'', ''capability_count'', ''reason_codes''}
      then Inl (ContainmentError ''snapshot contains unsupported/raw fields'')
      else check_snapshot_shas v [''trace_head_sha256'', ''broker_head_sha256''])"

subsection \<open>Steps\<close>

text \<open>\<open>STATES[STATES.index(state) + 1]\<close>.\<close>

fun successor :: "string list \<Rightarrow> string \<Rightarrow> string res" where
  "successor [] s = Inl (Exn ''ValueError'' ''tuple.index(x): x not in tuple'')"
| "successor (x # xs) s =
     (if x = s then (case xs of [] \<Rightarrow> Inl (Exn ''IndexError'' ''tuple index out of range'') | y # _ \<Rightarrow> Inr y)
      else successor xs s)"

definition co_step :: "string \<Rightarrow> int \<Rightarrow> string \<Rightarrow> (containment, unit) op" where
  "co_step target at_unix evidence c =
     (case successor STATES (co_state c) of
        Inl e \<Rightarrow> (Inl e, c)
      | Inr expected \<Rightarrow>
          if target \<noteq> expected
          then (Inl (ContainmentBlocked (''invalid containment transition '' @ co_state c @ ''->'' @ target)), c)
          else if \<not> is_sha256 evidence
          then (Inl (ContainmentError ''transition evidence must be lowercase SHA-256''), c)
          else (let previous = (if co_transitions c = [] then ZERO_SHA256
                       else tn_transition_sha256 (last (co_transitions c)));
                    body = \<lparr>tn_from = co_state c, tn_to = target, tn_at_unix = at_unix, tn_evidence_sha256 = evidence,
                       tn_previous_transition_sha256 = previous, tn_transition_sha256 = []\<rparr>;
                    t = body\<lparr>tn_transition_sha256 := canonical_sha256 (JObj (tn_body body))\<rparr>
                in (Inr (), c\<lparr>co_transitions := co_transitions c @ [t], co_state := target\<rparr>)))"

text \<open>A callback whose exception becomes a failure code.\<close>

definition attempt :: "('s, unit) op \<Rightarrow> string \<Rightarrow> string list \<Rightarrow> ('s, string list) op" where
  "attempt m label failures =
     otry (obind m (\<lambda>_. oret failures)) (\<lambda>exc. oret (failures @ [label @ exn_class exc]))"

text \<open>The loop over the capabilities of \<open>state_document()\<close>: the ids revoked and the failures so far.\<close>

fun revoke_active :: "int \<Rightarrow> (string \<times> json) list list \<Rightarrow> string list \<Rightarrow> string list \<Rightarrow> (broker, string list \<times> string list) op" where
  "revoke_active at_unix [] revoked failures b = (Inr (revoked, failures), b)"
| "revoke_active at_unix (cap # caps) revoked failures b =
     (if py_eq (dget cap ''status'') (JStr ''active'')
      then (let cap_id = jstr (dget cap ''capability_id'') in
        case b_revoke cap_id at_unix b of
          (Inr decision, b') \<Rightarrow>
            if py_eq (dget decision ''decision'') (JStr ''ALLOW'')
            then revoke_active at_unix caps (revoked @ [cap_id]) failures b'
            else revoke_active at_unix caps revoked (failures @ [''revoke_blocked:'' @ cap_id]) b'
        | (Inl exc, b') \<Rightarrow>
            revoke_active at_unix caps revoked (failures @ [''revoke:'' @ cap_id @ '':'' @ exn_class exc]) b')
      else revoke_active at_unix caps revoked failures b)"

definition quiesce_stage :: "'w containment_host \<Rightarrow> string list \<Rightarrow> ('w, string \<times> string list) op" where
  "quiesce_stage host failures =
     (case ch_quiesce_runtime host of
        None \<Rightarrow> oret (canonical_sha256 (JObj [(''mode'', JStr ''not_configured'')]), failures)
      | Some quiesce_runtime \<Rightarrow>
          otry (obind quiesce_runtime (\<lambda>quiescence.
                obind (olift (validate_quiescence_receipt quiescence)) (\<lambda>(sha, complete).
                  oret (sha, if complete then failures else failures @ [''runtime_quiescence_incomplete'']))))
            (\<lambda>exc. oret (ZERO_SHA256, failures @ [''runtime_quiescence:'' @ exn_class exc])))"

definition seal_stage :: "'w containment_host \<Rightarrow> string list \<Rightarrow> ('w, string \<times> string list) op" where
  "seal_stage host failures =
     otry (obind (ch_seal_trace host) (\<lambda>sealed.
           obind (olift (co_require_sha (JStr sealed) ''sealed trace'')) (\<lambda>_. oret (sealed, failures))))
       (\<lambda>exc. oret (ZERO_SHA256, failures @ [''seal:'' @ exn_class exc]))"

definition snapshot_stage :: "'w containment_host \<Rightarrow> string list \<Rightarrow> ('w, string \<times> string list) op" where
  "snapshot_stage host failures =
     otry (obind (ch_snapshot_forensics host) (\<lambda>snapshot.
           obind (olift (validate_snapshot snapshot)) (\<lambda>_. oret (canonical_sha256 (JObj snapshot), failures))))
       (\<lambda>exc. oret (ZERO_SHA256, failures @ [''snapshot:'' @ exn_class exc]))"

subsection \<open>Operations\<close>

type_synonym 'w incident = "('w \<times> broker) \<times> containment"

abbreviation on_world :: "('w, 'a) op \<Rightarrow> ('w incident, 'a) op" where
  "on_world m \<equiv> on_fst (on_fst m)"

abbreviation on_broker :: "(broker, 'a) op \<Rightarrow> ('w incident, 'a) op" where
  "on_broker m \<equiv> on_fst (on_snd m)"

definition co_finish ::
  "string \<Rightarrow> string \<Rightarrow> string list \<Rightarrow> string \<Rightarrow> string \<Rightarrow> string \<Rightarrow> string list \<Rightarrow> (containment, (string \<times> json) list) op" where
  "co_finish incident_id phase3_sha revoked quiescence_sha sealed snapshot_sha failures c =
     (let receipt = ir_seal \<lparr>ir_incident_id = incident_id, ir_phase3_receipt_sha256 = phase3_sha,
            ir_final_state = co_state c, ir_transition_root_sha256 = transition_root c,
            ir_revoked_capability_ids = sort revoked, ir_runtime_quiescence_sha256 = quiescence_sha,
            ir_sealed_trace_sha256 = sealed, ir_snapshot_sha256 = snapshot_sha,
            ir_partial_failures = sort failures, ir_human_release_id = None, ir_receipt_sha256 = []\<rparr>
      in (Inr (ir_as_document receipt), c\<lparr>co_incident := Some receipt\<rparr>))"

definition co_contain ::
  "'w containment_host \<Rightarrow> (string \<times> json) list \<Rightarrow> string \<Rightarrow> int \<Rightarrow> ('w incident, (string \<times> json) list) op" where
  "co_contain host phase3_receipt incident_id at_unix s =
     (if co_state (snd s) \<noteq> ''IDLE'' then (Inl (ContainmentBlocked ''containment already started''), s)
      else obind (olift (validated_phase3_receipt phase3_receipt)) (\<lambda>phase3_sha.
        obind (on_snd (co_step ''DETECT'' at_unix phase3_sha)) (\<lambda>_.
        obind (on_world (attempt (ch_freeze_runtime host) ''freeze:'' [])) (\<lambda>failures.
        obind (on_world (attempt (ch_close_egress host) ''egress:'' failures)) (\<lambda>failures.
        obind (on_snd (co_step ''FREEZE'' at_unix
          (canonical_sha256 (JObj [(''failures'', JList (map JStr failures))])))) (\<lambda>_.
        obind (on_broker (\<lambda>b. revoke_active at_unix (map jobj (jlist (dget (b_state_document b) ''capabilities''))) [] failures b)) (\<lambda>(revoked, failures).
        obind (on_snd (co_step ''REVOKE'' at_unix (canonical_sha256 (JList (map JStr (sort revoked)))))) (\<lambda>_.
        obind (on_world (quiesce_stage host failures)) (\<lambda>(quiescence_sha, failures).
        obind (on_world (seal_stage host failures)) (\<lambda>(sealed, failures).
        obind (on_snd (co_step ''SEAL'' at_unix (canonical_sha256
          (JObj [(''sealed'', JStr sealed), (''runtime_quiescence'', JStr quiescence_sha)])))) (\<lambda>_.
        obind (on_world (snapshot_stage host failures)) (\<lambda>(snapshot_sha, failures).
        obind (on_snd (co_step ''SNAPSHOT'' at_unix snapshot_sha)) (\<lambda>_.
        obind (on_snd (co_step ''REVIEW'' at_unix (canonical_sha256 (JList (map JStr failures))))) (\<lambda>_.
          on_snd (co_finish incident_id phase3_sha revoked quiescence_sha sealed snapshot_sha failures)))))))))))))) s)"

definition co_release :: "string \<Rightarrow> bool \<Rightarrow> int \<Rightarrow> (containment, (string \<times> json) list) op" where
  "co_release human_release_id approved at_unix c =
     (case co_incident c of
        None \<Rightarrow> (Inl (ContainmentBlocked ''release requires REVIEW state''), c)
      | Some incident \<Rightarrow>
          if co_state c \<noteq> ''REVIEW'' then (Inl (ContainmentBlocked ''release requires REVIEW state''), c)
          else if \<not> approved \<or> py_strip human_release_id = []
          then (Inl (ContainmentBlocked ''explicit human release approval is required''), c)
          else if ir_partial_failures incident \<noteq> []
          then (Inl (ContainmentBlocked ''cannot release while containment has unresolved partial failures''), c)
          else obind (co_step ''RELEASED'' at_unix
                 (canonical_sha256 (JObj [(''human_release_id'', JStr human_release_id)]))) (\<lambda>_ c.
               (let receipt = ir_seal (incident\<lparr>ir_final_state := ''RELEASED'',
                      ir_human_release_id := Some human_release_id,
                      ir_transition_root_sha256 := transition_root c, ir_receipt_sha256 := []\<rparr>)
                in (Inr (ir_as_document receipt), c\<lparr>co_incident := Some receipt\<rparr>))) c)"

definition co_replay :: "containment \<Rightarrow> (string \<times> json) list res" where
  "co_replay c =
     (case co_incident c of
        None \<Rightarrow> Inl (ContainmentBlocked ''no incident'')
      | Some incident \<Rightarrow>
          Inr [(''state'', JStr (co_state c)), (''transition_root_sha256'', JStr (transition_root c)),
               (''incident_receipt_sha256'', JStr (ir_receipt_sha256 incident))])"

end
