(* ===== verification/Containment_Properties.thy ===== *)
theory Containment_Properties
  imports Containment Broker_Properties
begin

section \<open>Containment: facts and properties\<close>

text \<open>
  The coordinator's transition log refines the contract's transition relation, \<open>contain\<close> completes
  whatever the callbacks do and leaves no active capability, and a release is possible only after a
  containment without failures. With the process-session supervisor as its runtime hooks, a release
  also means that no governed session has a process left.
\<close>

subsection \<open>Transitions\<close>

definition push :: "string \<Rightarrow> int \<Rightarrow> string \<Rightarrow> containment \<Rightarrow> containment" where
  "push target t evidence c = snd (co_step target t evidence c)"

definition tn_ok :: "transition \<Rightarrow> bool" where
  "tn_ok t \<longleftrightarrow> tn_transition_sha256 t = canonical_sha256 (JObj (tn_body t)) \<and> is_sha256 (tn_evidence_sha256 t) \<and>
     (tn_from t, tn_to t) \<in> set CONTAINMENT_TRANSITIONS"

text \<open>The abstract specification: a path of the contract's transition relation.\<close>

fun contract_path :: "string \<Rightarrow> (string \<times> string) list \<Rightarrow> string \<Rightarrow> bool" where
  "contract_path a [] z \<longleftrightarrow> a = z"
| "contract_path a ((x, y) # ps) z \<longleftrightarrow> x = a \<and> (x, y) \<in> set CONTAINMENT_TRANSITIONS \<and> contract_path y ps z"

lemma contract_path_append: "contract_path a (ps @ qs) z \<longleftrightarrow> (\<exists>m. contract_path a ps m \<and> contract_path m qs z)"
  by (induction ps arbitrary: a) auto

definition last_sha :: "containment \<Rightarrow> string" where
  "last_sha c = (if co_transitions c = [] then ZERO_SHA256 else tn_transition_sha256 (last (co_transitions c)))"

definition wf_log :: "containment \<Rightarrow> bool" where
  "wf_log c \<longleftrightarrow> list_all tn_ok (co_transitions c) \<and>
     linked tn_previous_transition_sha256 tn_transition_sha256 ZERO_SHA256 (co_transitions c) (last_sha c) \<and>
     contract_path ''IDLE'' (map (\<lambda>t. (tn_from t, tn_to t)) (co_transitions c)) (co_state c)"

lemma successor_transition: "successor STATES s = Inr s' \<Longrightarrow> (s, s') \<in> set CONTAINMENT_TRANSITIONS"
  by (auto simp: STATES_def CONTAINMENT_TRANSITIONS_def split: if_splits)

lemma successors:
  "successor STATES ''IDLE'' = Inr ''DETECT''" "successor STATES ''DETECT'' = Inr ''FREEZE''"
  "successor STATES ''FREEZE'' = Inr ''REVOKE''" "successor STATES ''REVOKE'' = Inr ''SEAL''"
  "successor STATES ''SEAL'' = Inr ''SNAPSHOT''" "successor STATES ''SNAPSHOT'' = Inr ''REVIEW''"
  "successor STATES ''REVIEW'' = Inr ''RELEASED''"
  by (simp_all add: STATES_def)

lemma tn_body_sha [simp]: "tn_body (t\<lparr>tn_transition_sha256 := x\<rparr>) = tn_body t"
  by (simp add: tn_body_def)

lemma co_step_ok:
  assumes "successor STATES (co_state c) = Inr target" "is_sha256 ev"
  shows "co_step target t ev c = (Inr (), push target t ev c)" "co_state (push target t ev c) = target"
    "co_incident (push target t ev c) = co_incident c"
  using assms by (simp_all add: push_def co_step_def Let_def)

lemma wf_push:
  assumes "wf_log c" "successor STATES (co_state c) = Inr target" "is_sha256 ev"
  shows "wf_log (push target t ev c)"
proof -
  let ?body = "\<lparr>tn_from = co_state c, tn_to = target, tn_at_unix = t, tn_evidence_sha256 = ev,
    tn_previous_transition_sha256 = last_sha c, tn_transition_sha256 = []\<rparr>"
  let ?t = "?body\<lparr>tn_transition_sha256 := canonical_sha256 (JObj (tn_body ?body))\<rparr>"
  have push: "push target t ev c = c\<lparr>co_transitions := co_transitions c @ [?t], co_state := target\<rparr>"
    using assms(2,3) by (simp add: push_def co_step_def Let_def last_sha_def)
  have ok: "tn_ok ?t"
    unfolding tn_ok_def tn_body_sha using successor_transition [OF assms(2)] assms(3) by simp
  have "linked tn_previous_transition_sha256 tn_transition_sha256 ZERO_SHA256 (co_transitions c @ [?t]) (tn_transition_sha256 ?t)"
    using assms(1) by (simp add: linked_snoc wf_log_def)
  moreover have "contract_path ''IDLE'' (map (\<lambda>t. (tn_from t, tn_to t)) (co_transitions c @ [?t])) target"
    using assms(1) successor_transition [OF assms(2)] by (simp add: contract_path_append wf_log_def)
  moreover have "last_sha (push target t ev c) = tn_transition_sha256 ?t" by (simp add: push last_sha_def)
  ultimately show ?thesis using assms(1) ok unfolding wf_log_def by (simp add: push)
qed

lemma tn_body_inj:
  assumes "tn_ok a" "tn_ok b" and norm: "json_norm (JObj (tn_body a)) = json_norm (JObj (tn_body b))"
  shows "a = b"
proof -
  have get: "dget (tn_body t) ''from'' = JStr (tn_from t)" "dget (tn_body t) ''to'' = JStr (tn_to t)"
    "dget (tn_body t) ''at_unix'' = JInt (tn_at_unix t)" "dget (tn_body t) ''evidence_sha256'' = JStr (tn_evidence_sha256 t)"
    "dget (tn_body t) ''previous_transition_sha256'' = JStr (tn_previous_transition_sha256 t)" for t
    by (simp_all add: tn_body_def dget_def)
  note eq = json_norm_dget [OF norm]
  have "tn_transition_sha256 a = tn_transition_sha256 b"
    using assms(1,2) norm_same_sha [OF norm] by (simp only: tn_ok_def)
  then show ?thesis
    using eq [of "''from''"] eq [of "''to''"] eq [of "''at_unix''"] eq [of "''evidence_sha256''"]
      eq [of "''previous_transition_sha256''"]
    by (simp add: get)
qed

interpretation containment_log: hash_linked tn_transition_sha256 "\<lambda>t. JObj (tn_body t)" tn_ok tn_previous_transition_sha256
  by unfold_locales (simp only: tn_ok_def, rule tn_body_inj)

subsection \<open>Revocation\<close>

definition revoke_state :: "int \<Rightarrow> cap_state \<Rightarrow> cap_state" where
  "revoke_state t st = (if st_status st = Active then st\<lparr>st_status := Revoked, st_revoked_at_unix := Some t\<rparr> else st)"

lemma revoke_state_inactive [simp]: "st_status (revoke_state t st) \<noteq> Active"
  by (simp add: revoke_state_def)

lemma lifecycle_events: "length (b_events (snd (b_lifecycle st ty dec rs t b))) \<le> Suc (length (b_events b))"
  by (auto simp: b_lifecycle_def obind_def b_event_def b_receipt_def Let_def split: sum.splits prod.splits)

lemma revoke_events: "length (b_events (snd (b_revoke k t b))) \<le> Suc (length (b_events b))"
proof -
  have put: "b_events (put_state k' st b) = b_events b" for k' st by (simp add: put_state_def)
  show ?thesis
    using lifecycle_events [of _ _ _ _ _ b] lifecycle_events [of _ _ _ _ _ "put_state _ _ b", unfolded put]
    by (auto simp: b_revoke_def check_time_def Let_def split: option.split)
qed

lemma revoke_active_run:
  assumes "wf_broker b" "log_capacity b (length caps)" "0 \<le> t" "distinct (map fst caps)"
    and "\<forall>(k, st) \<in> set caps. map_of (b_states b) k = Some st"
  shows "\<exists>b'. revoke_active t (map (\<lambda>(k, st). cap_item k st) caps) revoked failures b =
      (Inr (revoked @ map fst (filter (\<lambda>(k, st). st_status st = Active) caps), failures), b') \<and> bsteps b b' \<and>
    (\<forall>k. map_of (b_states b') k = (if k \<in> fst ` set caps then map_option (revoke_state t) (map_of (b_states b) k)
       else map_of (b_states b) k))"
  using assms
proof (induction caps arbitrary: b revoked)
  case (Cons c caps)
  obtain k st where c: "c = (k, st)" by force
  have st: "map_of (b_states b) k = Some st" using Cons.prems(5) c by simp
  show ?case
  proof (cases "st_status st = Active")
    case True
    have "log_capacity b 1" using Cons.prems(2) by (simp add: log_capacity_def)
    from b_revoke_run [OF Cons.prems(1) this Cons.prems(3) st] True obtain r b1 where
      run: "b_revoke k t b = (Inr (dr_as_document r), b1)" "dr_decision r = ''ALLOW''"
        "b_states b1 = AList.update k (revoke_state t st) (b_states b)"
      by (auto simp: revoke_state_def)
    have wf1: "wf_broker b1" "bsteps b b1" using steps_b_revoke [OF Cons.prems(1) run(1)] wf_bsteps Cons.prems(1) by auto
    have "log_capacity b1 (length caps)"
      using Cons.prems(2) revoke_events [of k t b] run(1) by (simp add: log_capacity_def)
    moreover have "\<forall>(j, s) \<in> set caps. map_of (b_states b1) j = Some s"
    proof clarify
      fix j s
      assume m: "(j, s) \<in> set caps"
      then have "j \<noteq> k" using Cons.prems(4) c by force
      with m Cons.prems(5) show "map_of (b_states b1) j = Some s" by (auto simp: run(3) update_conv')
    qed
    ultimately obtain b' where b': "revoke_active t (map (\<lambda>(k, st). cap_item k st) caps) (revoked @ [k]) failures b1 =
        (Inr ((revoked @ [k]) @ map fst (filter (\<lambda>(k, st). st_status st = Active) caps), failures), b')" "bsteps b1 b'"
      "\<forall>j. map_of (b_states b') j = (if j \<in> fst ` set caps then map_option (revoke_state t) (map_of (b_states b1) j)
         else map_of (b_states b1) j)"
      using Cons.IH [OF wf1(1), of "revoked @ [k]"] Cons.prems(3,4) c by auto
    have "dget (dr_as_document r) ''decision'' = JStr ''ALLOW''"
      using run(2) by (simp add: dr_as_document_def dr_body_def dget_def)
    with b'(1) run(1) True c have "revoke_active t (map (\<lambda>(k, st). cap_item k st) (c # caps)) revoked failures b =
        (Inr (revoked @ map fst (filter (\<lambda>(k, st). st_status st = Active) (c # caps)), failures), b')"
      by (simp add: cap_item_get py_eq_text status_active)
    moreover have "bsteps b b'" using wf1(2) b'(2) by simp
    moreover have "k \<notin> fst ` set caps" using Cons.prems(4) c by simp
    ultimately show ?thesis
      using b'(3) c st by (intro exI [of _ b']) (auto simp: run(3) update_conv')
  next
    case False
    have cap: "log_capacity b (length caps)" using Cons.prems(2) by (simp add: log_capacity_def)
    from Cons.IH [OF Cons.prems(1) cap Cons.prems(3), of revoked] Cons.prems(4,5) obtain b' where
      b': "revoke_active t (map (\<lambda>(k, st). cap_item k st) caps) revoked failures b =
        (Inr (revoked @ map fst (filter (\<lambda>(k, st). st_status st = Active) caps), failures), b')" "bsteps b b'"
      "\<forall>j. map_of (b_states b') j = (if j \<in> fst ` set caps then map_option (revoke_state t) (map_of (b_states b) j)
         else map_of (b_states b) j)"
      by auto
    have "k \<notin> fst ` set caps" using Cons.prems(4) c by simp
    with b' False c st show ?thesis
      by (intro exI [of _ b']) (auto simp: cap_item_get py_eq_text status_active revoke_state_def)
  qed
qed simp

subsection \<open>The stages of containment never raise\<close>

lemma attempt_run: "\<exists>x w'. attempt m l fs w = (Inr (fs @ x), w')"
  by (auto simp: attempt_def otry_def obind_def split: prod.split sum.split)

lemma quiesce_stage_run: "\<exists>q x w'. quiesce_stage host fs w = (Inr (q, fs @ x), w')"
  by (cases "ch_quiesce_runtime host")
    (auto simp: quiesce_stage_def otry_def obind_def split: prod.splits sum.splits)

lemma seal_stage_run: "\<exists>q x w'. seal_stage host fs w = (Inr (q, fs @ x), w')"
  by (auto simp: seal_stage_def otry_def obind_def split: prod.splits sum.splits)

lemma snapshot_stage_run: "\<exists>q x w'. snapshot_stage host fs w = (Inr (q, fs @ x), w') \<and> is_sha256 q"
  by (auto simp: snapshot_stage_def otry_def obind_def split: prod.splits sum.splits)

lemma revoke_active_total: "\<exists>rv x b'. revoke_active t caps revoked fs b = (Inr (rv, fs @ x), b')"
proof (induction caps arbitrary: revoked fs b)
  case (Cons cap caps)
  have step: "\<exists>rv x b'. revoke_active t caps rvk (fs @ y) b1 = (Inr (rv, fs @ x), b')" for rvk y b1
    using Cons.IH [of rvk "fs @ y" b1] by auto
  from step [of _ "[]"] step show ?case
    by (auto simp: Let_def split: prod.split sum.split)
qed simp

lemma phase3_sha: "validated_phase3_receipt p3 = Inr sha \<Longrightarrow> is_sha256 sha"
  by (cases "dget p3 ''receipt_sha256''") (auto simp: validated_phase3_receipt_def rbind_eq_Inr split: if_splits)

definition broker_caps :: "broker \<Rightarrow> (string \<times> json) list list" where
  "broker_caps b = map (\<lambda>(k, st). cap_item k st) (sort_key fst (b_states b))"

lemma state_document_caps: "map jobj (jlist (dget (b_state_document b) ''capabilities'')) = broker_caps b"
  by (simp add: b_state_document_def Let_def dget_def b_capabilities_def broker_caps_def comp_def)

lemma revoke_all_caps:
  assumes wf: "wf_broker b" and cap: "log_capacity b (length (b_states b))" and t: "0 \<le> t"
    and rev: "revoke_active t (broker_caps b) [] f b = (Inr (rv, f'), b')"
  shows "set rv = {k. \<exists>st. map_of (b_states b) k = Some st \<and> st_status st = Active}" "bsteps b b'"
    "map_of (b_states b') k = map_option (revoke_state t) (map_of (b_states b) k)" "\<not> eligible b' rq scope k"
proof -
  let ?caps = "sort_key fst (b_states b)"
  have dist: "distinct (map fst (b_states b))" using wf by (simp add: wf_broker_def)
  have d: "distinct (map fst ?caps)" using dist by (simp add: distinct_map)
  have look: "\<forall>(k, st) \<in> set ?caps. map_of (b_states b) k = Some st" using dist by auto
  from revoke_active_run [OF wf _ t d look, of "[]" f] cap rev have
    rv: "rv = map fst (filter (\<lambda>(k, st). st_status st = Active) ?caps)" and steps: "bsteps b b'"
    and keys: "map_of (b_states b') k = (if k \<in> fst ` set ?caps then map_option (revoke_state t) (map_of (b_states b) k)
       else map_of (b_states b) k)" for k
    by (auto simp: broker_caps_def)
  show states: "map_of (b_states b') k = map_option (revoke_state t) (map_of (b_states b) k)" for k
    using keys [of k] map_of_eq_None_iff [of "b_states b" k] by auto
  show "\<not> eligible b' rq scope k" by (auto simp: eligible_def states split: option.splits)
  show "set rv = {k. \<exists>st. map_of (b_states b) k = Some st \<and> st_status st = Active}" using dist by (force simp: rv)
  show "bsteps b b'" by (rule steps)
qed

lemma co_contain_run:
  assumes idle: "co_state c = ''IDLE''" "wf_log c" and p3: "validated_phase3_receipt phase3 = Inr sha"
  obtains f1 f2 f3 f4 f5 f6 w1 w2 w3 w4 w5 rv b' q sealed snap c' r where
    "attempt (ch_freeze_runtime host) ''freeze:'' [] w = (Inr f1, w1)"
    "attempt (ch_close_egress host) ''egress:'' f1 w1 = (Inr f2, w2)"
    "revoke_active t (broker_caps b) [] f2 b = (Inr (rv, f3), b')"
    "quiesce_stage host f3 w2 = (Inr (q, f4), w3)"
    "seal_stage host f4 w3 = (Inr (sealed, f5), w4)"
    "snapshot_stage host f5 w4 = (Inr (snap, f6), w5)"
    "r = ir_seal \<lparr>ir_incident_id = inc, ir_phase3_receipt_sha256 = sha, ir_final_state = ''REVIEW'',
       ir_transition_root_sha256 = transition_root c', ir_revoked_capability_ids = sort rv,
       ir_runtime_quiescence_sha256 = q, ir_sealed_trace_sha256 = sealed, ir_snapshot_sha256 = snap,
       ir_partial_failures = sort f6, ir_human_release_id = None, ir_receipt_sha256 = []\<rparr>"
    "co_contain host phase3 inc t ((w, b), c) = (Inr (ir_as_document r), ((w5, b'), c'\<lparr>co_incident := Some r\<rparr>))"
    "wf_log c'" "co_state c' = ''REVIEW''"
    "map tn_to (co_transitions c') = map tn_to (co_transitions c) @ [''DETECT'', ''FREEZE'', ''REVOKE'', ''SEAL'', ''SNAPSHOT'', ''REVIEW'']"
proof -
  obtain f1 w1 where s1: "attempt (ch_freeze_runtime host) ''freeze:'' [] w = (Inr f1, w1)"
    using attempt_run [of "ch_freeze_runtime host" "''freeze:''" "[]" w] by blast
  obtain f2 w2 where s2: "attempt (ch_close_egress host) ''egress:'' f1 w1 = (Inr f2, w2)"
    using attempt_run [of "ch_close_egress host" "''egress:''" f1 w1] by blast
  obtain rv f3 b' where s3: "revoke_active t (broker_caps b) [] f2 b = (Inr (rv, f3), b')"
    using revoke_active_total by blast
  obtain q f4 w3 where s4: "quiesce_stage host f3 w2 = (Inr (q, f4), w3)" using quiesce_stage_run [of host f3 w2] by blast
  obtain sealed f5 w4 where s5: "seal_stage host f4 w3 = (Inr (sealed, f5), w4)" using seal_stage_run [of host f4 w3] by blast
  obtain snap f6 w5 where s6: "snapshot_stage host f5 w4 = (Inr (snap, f6), w5)" and snap: "is_sha256 snap"
    using snapshot_stage_run [of host f5 w4] by blast
  have step: "\<exists>c2. co_step target t ev c1 = (Inr (), c2) \<and> co_state c2 = target \<and> wf_log c2 \<and>
      map tn_to (co_transitions c2) = map tn_to (co_transitions c1) @ [target]"
    if "successor STATES (co_state c1) = Inr target" "is_sha256 ev" "wf_log c1" for c1 target ev
    using co_step_ok [OF that(1,2)] wf_push [OF that(3,1,2)] that(1,2) by (simp add: push_def co_step_def Let_def)
  obtain c1 where c1: "co_step ''DETECT'' t sha c = (Inr (), c1)" "co_state c1 = ''DETECT''" "wf_log c1"
      "map tn_to (co_transitions c1) = map tn_to (co_transitions c) @ [''DETECT'']"
    using step [of c "''DETECT''" sha] idle phase3_sha [OF p3] successors by auto
  obtain c2 where c2: "co_step ''FREEZE'' t (canonical_sha256 (JObj [(''failures'', JList (map JStr f2))])) c1 = (Inr (), c2)"
      "co_state c2 = ''FREEZE''" "wf_log c2" "map tn_to (co_transitions c2) = map tn_to (co_transitions c1) @ [''FREEZE'']"
    using step [OF _ is_sha256_canonical c1(3), of "''FREEZE''"] c1(2) successors by auto
  obtain c3 where c3: "co_step ''REVOKE'' t (canonical_sha256 (JList (map JStr (sort rv)))) c2 = (Inr (), c3)"
      "co_state c3 = ''REVOKE''" "wf_log c3" "map tn_to (co_transitions c3) = map tn_to (co_transitions c2) @ [''REVOKE'']"
    using step [OF _ is_sha256_canonical c2(3), of "''REVOKE''"] c2(2) successors by auto
  obtain c4 where c4: "co_step ''SEAL'' t (canonical_sha256
        (JObj [(''sealed'', JStr sealed), (''runtime_quiescence'', JStr q)])) c3 = (Inr (), c4)"
      "co_state c4 = ''SEAL''" "wf_log c4" "map tn_to (co_transitions c4) = map tn_to (co_transitions c3) @ [''SEAL'']"
    using step [OF _ is_sha256_canonical c3(3), of "''SEAL''"] c3(2) successors by auto
  obtain c5 where c5: "co_step ''SNAPSHOT'' t snap c4 = (Inr (), c5)" "co_state c5 = ''SNAPSHOT''" "wf_log c5"
      "map tn_to (co_transitions c5) = map tn_to (co_transitions c4) @ [''SNAPSHOT'']"
    using step [OF _ snap c4(3), of "''SNAPSHOT''"] c4(2) successors by auto
  obtain c6 where c6: "co_step ''REVIEW'' t (canonical_sha256 (JList (map JStr f6))) c5 = (Inr (), c6)"
      "co_state c6 = ''REVIEW''" "wf_log c6" "map tn_to (co_transitions c6) = map tn_to (co_transitions c5) @ [''REVIEW'']"
    using step [OF _ is_sha256_canonical c5(3), of "''REVIEW''"] c5(2) successors by auto
  note run = s1 s2 s3 s4 s5 s6 c1(1) c2(1) c3(1) c4(1) c5(1) c6(1)
  show thesis
    by (rule that [OF s1 s2 s3 s4 s5 s6 refl _ c6(3,2)])
      (simp add: co_contain_def idle(1) p3 obind_def run co_finish_def c6(2) state_document_caps Let_def,
       simp add: c1(4) c2(4) c3(4) c4(4) c5(4) c6(4))
qed

subsection \<open>Runs of the coordinator\<close>

text \<open>Any sequence of calls; between them the host and other users of the broker may do anything.\<close>

inductive co_reach :: "'w containment_host \<Rightarrow> 'w incident \<Rightarrow> bool" for host where
  init: "broker_reach b \<Longrightarrow> co_reach host ((w, b), containment_init)"
| contain: "co_reach host s \<Longrightarrow> co_reach host (snd (co_contain host phase3 inc t s))"
| release: "co_reach host (wb, c) \<Longrightarrow> co_reach host (wb, snd (co_release hid appr t c))"
| environment: "co_reach host ((w, b), c) \<Longrightarrow> broker_reach b' \<Longrightarrow> co_reach host ((w', b'), c)"

definition wf_incident :: "containment \<Rightarrow> incident_receipt \<Rightarrow> bool" where
  "wf_incident c r \<longleftrightarrow> ir_final_state r = co_state c \<and> ir_transition_root_sha256 r = transition_root c \<and>
     ir_receipt_sha256 r = canonical_sha256 (JObj (ir_body r)) \<and>
     (co_state c = ''REVIEW'' \<and> ir_human_release_id r = None \<or>
      co_state c = ''RELEASED'' \<and> ir_human_release_id r \<noteq> None \<and> ir_partial_failures r = [])"

definition wf_containment :: "containment \<Rightarrow> bool" where
  "wf_containment c \<longleftrightarrow> wf_log c \<and> (case co_incident c of None \<Rightarrow> c = containment_init | Some r \<Rightarrow> wf_incident c r)"

lemma ir_body_sha [simp]: "ir_body (r\<lparr>ir_receipt_sha256 := x\<rparr>) = ir_body r"
  by (simp add: ir_body_def)

lemma ir_seal_sha: "ir_receipt_sha256 (ir_seal r) = canonical_sha256 (JObj (ir_body (ir_seal r)))"
  unfolding ir_seal_def ir_body_sha by simp

lemma ir_seal_fields [simp]:
  "ir_final_state (ir_seal r) = ir_final_state r" "ir_transition_root_sha256 (ir_seal r) = ir_transition_root_sha256 r"
  "ir_human_release_id (ir_seal r) = ir_human_release_id r" "ir_partial_failures (ir_seal r) = ir_partial_failures r"
  "ir_revoked_capability_ids (ir_seal r) = ir_revoked_capability_ids r"
  by (simp_all add: ir_seal_def)

lemma wf_log_incident [simp]: "wf_log (c\<lparr>co_incident := i\<rparr>) = wf_log c"
  by (simp add: wf_log_def last_sha_def)

lemma transition_root_incident [simp]: "transition_root (c\<lparr>co_incident := i\<rparr>) = transition_root c"
  by (simp add: transition_root_def)

lemma wf_containment_init: "wf_containment containment_init"
  by (simp add: wf_containment_def containment_init_def wf_log_def last_sha_def)

lemma idle_init: "wf_containment c \<Longrightarrow> co_state c = ''IDLE'' \<longleftrightarrow> c = containment_init"
  by (auto simp: wf_containment_def wf_incident_def containment_init_def split: option.splits)

lemma co_contain_refused:
  assumes "co_state c \<noteq> ''IDLE'' \<or> (\<exists>e. validated_phase3_receipt phase3 = Inl e)"
  shows "\<exists>e. co_contain host phase3 inc t (wb, c) = (Inl e, (wb, c))"
  using assms by (auto simp: co_contain_def)

lemma co_contain_result:
  assumes "co_state c = ''IDLE''" "wf_log c" "validated_phase3_receipt phase3 = Inr sha"
  shows "\<exists>r c' w' b'. co_contain host phase3 inc t ((w, b), c) = (Inr (ir_as_document r), ((w', b'), c'\<lparr>co_incident := Some r\<rparr>)) \<and>
    wf_log c' \<and> co_state c' = ''REVIEW'' \<and> wf_incident c' r"
proof (rule co_contain_run [OF assms, where host = host and inc = inc and t = t and w = w and b = b])
  fix f1 f2 f3 f4 f5 f6 w1 w2 w3 w4 w5 rv b' q sealed snap c' r
  assume r: "r = ir_seal \<lparr>ir_incident_id = inc, ir_phase3_receipt_sha256 = sha, ir_final_state = ''REVIEW'',
       ir_transition_root_sha256 = transition_root c', ir_revoked_capability_ids = sort rv,
       ir_runtime_quiescence_sha256 = q, ir_sealed_trace_sha256 = sealed, ir_snapshot_sha256 = snap,
       ir_partial_failures = sort f6, ir_human_release_id = None, ir_receipt_sha256 = []\<rparr>"
    and run: "co_contain host phase3 inc t ((w, b), c) = (Inr (ir_as_document r), ((w5, b'), c'\<lparr>co_incident := Some r\<rparr>))"
      "wf_log c'" "co_state c' = ''REVIEW''"
  have "wf_incident c' r"
    unfolding wf_incident_def r by (intro conjI ir_seal_sha) (simp_all add: run(3))
  with run show ?thesis by blast
qed

lemma co_contain_wf:
  assumes "wf_containment c"
  shows "wf_containment (snd (snd (co_contain host phase3 inc t ((w, b), c))))"
proof (cases "co_state c = ''IDLE'' \<and> (\<exists>sha. validated_phase3_receipt phase3 = Inr sha)")
  case True
  then obtain sha where "co_state c = ''IDLE''" "wf_log c" "validated_phase3_receipt phase3 = Inr sha"
    using assms by (auto simp: wf_containment_def)
  from co_contain_result [OF this, of host inc t w b] obtain r c' w' b' where
    "co_contain host phase3 inc t ((w, b), c) = (Inr (ir_as_document r), ((w', b'), c'\<lparr>co_incident := Some r\<rparr>))"
    "wf_log c'" "co_state c' = ''REVIEW''" "wf_incident c' r"
    by blast
  then show ?thesis by (simp add: wf_containment_def wf_incident_def)
next
  case False
  then have "\<exists>e. co_contain host phase3 inc t ((w, b), c) = (Inl e, ((w, b), c))"
    by (intro co_contain_refused) (metis sum.exhaust)
  with assms show ?thesis by auto
qed

lemma co_release_run:
  assumes "co_incident c = Some r" "co_state c = ''REVIEW''" "ir_partial_failures r = []" "py_strip hid \<noteq> []"
  shows "co_release hid True t c =
    (let c' = push ''RELEASED'' t (canonical_sha256 (JObj [(''human_release_id'', JStr hid)])) c;
         r' = ir_seal (r\<lparr>ir_final_state := ''RELEASED'', ir_human_release_id := Some hid,
                ir_transition_root_sha256 := transition_root c', ir_receipt_sha256 := []\<rparr>)
     in (Inr (ir_as_document r'), c'\<lparr>co_incident := Some r'\<rparr>))"
proof -
  have "successor STATES (co_state c) = Inr ''RELEASED''" using assms(2) successors by simp
  from co_step_ok(1) [OF this is_sha256_canonical] assms show ?thesis
    by (simp add: co_release_def obind_def Let_def)
qed

lemma co_release_refused:
  assumes "\<not> (\<exists>r. co_incident c = Some r \<and> ir_partial_failures r = [] \<and> co_state c = ''REVIEW'' \<and> appr \<and> py_strip hid \<noteq> [])"
  shows "\<exists>m. co_release hid appr t c = (Inl (ContainmentBlocked m), c)"
  using assms by (cases "co_incident c") (auto simp: co_release_def)

lemma co_release_wf:
  assumes "wf_containment c"
  shows "wf_containment (snd (co_release hid appr t c))"
proof (cases "\<exists>r. co_incident c = Some r \<and> ir_partial_failures r = [] \<and> co_state c = ''REVIEW'' \<and> appr \<and> py_strip hid \<noteq> []")
  case True
  then obtain r where r: "co_incident c = Some r" "ir_partial_failures r = []" "co_state c = ''REVIEW''" "appr" "py_strip hid \<noteq> []"
    by blast
  let ?ev = "canonical_sha256 (JObj [(''human_release_id'', JStr hid)])"
  have succ: "successor STATES (co_state c) = Inr ''RELEASED''" using r(3) successors by simp
  have "wf_log (push ''RELEASED'' t ?ev c)"
    by (rule wf_push [OF _ succ is_sha256_canonical]) (use assms in \<open>simp add: wf_containment_def\<close>)
  with r co_step_ok(2) [OF succ is_sha256_canonical, of t "JObj [(''human_release_id'', JStr hid)]"] show ?thesis
    by (simp add: co_release_run Let_def wf_containment_def wf_incident_def ir_seal_sha [symmetric])
next
  case False
  from co_release_refused [OF this, of t] assms show ?thesis by auto
qed

lemma co_reach_wf: "co_reach host s \<Longrightarrow> wf_containment (snd s)"
proof (induction rule: co_reach.induct)
  case (contain s phase3 inc t)
  then show ?case by (cases s; cases "fst s") (auto intro: co_contain_wf)
qed (auto intro: wf_containment_init co_release_wf)

subsection \<open>Properties of the coordinator\<close>

definition demo_containment_host :: "unit containment_host" where
  "demo_containment_host = \<lparr>ch_freeze_runtime = oret (), ch_close_egress = oraise (Exn ''OSError'' ''down''),
     ch_seal_trace = oret ZERO_SHA256, ch_snapshot_forensics = oret [(''event_count'', JInt 1)], ch_quiesce_runtime = None\<rparr>"

definition demo_phase3 :: "(string \<times> json) list" where
  "demo_phase3 = [(''decision'', JStr ''CONTAIN''), (''receipt_sha256'', JStr ZERO_SHA256)]"

lemma demo_phase3_ok: "validated_phase3_receipt demo_phase3 = Inr ZERO_SHA256"
  by (simp add: validated_phase3_receipt_def demo_phase3_def dget_def py_eq_text)

lemma demo_co_reach: "co_reach demo_containment_host (((), demo_broker), containment_init)"
  by (rule co_reach.init [OF demo_reach])

text \<open>C12: The coordinator refines the containment contract. After any sequence of calls, with any
  callbacks, its recorded transitions are a path of CONTAINMENT_TRANSITIONS from IDLE to its current
  state, each bound by digest to the one before; no call stops half way, so the state is IDLE, REVIEW
  or RELEASED; and the incident receipt names that state and the digest of exactly that path.\<close>

theorem containment_refines_contract:
  assumes "co_reach host (wb, c)"
  shows "contract_path ''IDLE'' (map (\<lambda>t. (tn_from t, tn_to t)) (co_transitions c)) (co_state c) \<and>
    linked tn_previous_transition_sha256 tn_transition_sha256 ZERO_SHA256 (co_transitions c) (last_sha c) \<and>
    co_state c \<in> {''IDLE'', ''REVIEW'', ''RELEASED''} \<and> (co_incident c = None \<longleftrightarrow> co_state c = ''IDLE'') \<and>
    (\<forall>r. co_incident c = Some r \<longrightarrow> ir_final_state r = co_state c \<and>
       ir_transition_root_sha256 r = canonical_sha256 (JList (map tn_as_document (co_transitions c))) \<and>
       ir_receipt_sha256 r = canonical_sha256 (JObj (ir_body r)) \<and>
       (co_state c = ''RELEASED'' \<longrightarrow> ir_partial_failures r = [] \<and> ir_human_release_id r \<noteq> None))"
proof -
  have wf: "wf_containment c" using co_reach_wf [OF assms] by simp
  show ?thesis
  proof (cases "co_incident c")
    case None
    with wf show ?thesis by (simp add: wf_containment_def wf_log_def containment_init_def last_sha_def)
  next
    case (Some r)
    with wf have "wf_log c" "wf_incident c r" by (simp_all add: wf_containment_def)
    with Some show ?thesis by (auto simp: wf_log_def wf_incident_def transition_root_def)
  qed
qed

theorem containment_refines_contract_witness:
  "contract_path ''IDLE'' (map (\<lambda>t. (tn_from t, tn_to t)) (co_transitions (snd (snd
     (co_contain demo_containment_host demo_phase3 ''inc:1'' 40 (((), demo_broker), containment_init))))))
     (co_state (snd (snd (co_contain demo_containment_host demo_phase3 ''inc:1'' 40 (((), demo_broker), containment_init)))))"
proof -
  let ?s = "snd (co_contain demo_containment_host demo_phase3 ''inc:1'' 40 (((), demo_broker), containment_init))"
  have "co_reach demo_containment_host (fst ?s, snd ?s)"
    using co_reach.contain [OF demo_co_reach] by simp
  from containment_refines_contract [OF this] show ?thesis by blast
qed

text \<open>C11: Containment completes and takes all authority away. From IDLE, with a CONTAIN receipt, and
  whatever each callback does or raises, \<open>contain\<close> returns a receipt and ends in REVIEW; every
  active capability of the broker is revoked, exactly those are listed, nothing else of the broker's
  states changes, and no request is eligible any more, nor becomes eligible for one of these
  capabilities after any further calls of the broker.\<close>

theorem contain_revokes_everything:
  assumes "co_reach host ((w, b), c)" "co_state c = ''IDLE''" "validated_phase3_receipt phase3 = Inr sha"
    and "broker_reach b" "log_capacity b (length (b_states b))" "0 \<le> t"
  shows "\<exists>r w' b' c'. co_contain host phase3 inc t ((w, b), c) = (Inr (ir_as_document r), ((w', b'), c')) \<and>
    co_state c' = ''REVIEW'' \<and>
    set (ir_revoked_capability_ids r) = {k. \<exists>st. map_of (b_states b) k = Some st \<and> st_status st = Active} \<and>
    (\<forall>k. map_of (b_states b') k = map_option (revoke_state t) (map_of (b_states b) k)) \<and>
    (\<forall>rq scope k. \<not> eligible b' rq scope k) \<and>
    (\<forall>calls rq scope k. k \<in> fst ` set (b_states b) \<longrightarrow> \<not> eligible (fold broker_exec calls b') rq scope k)"
proof -
  have wf: "wf_broker b" by (rule reach_wf [OF assms(4)])
  have log: "wf_log c" using co_reach_wf [OF assms(1)] by (simp add: wf_containment_def)
  show ?thesis
  proof (rule co_contain_run [OF assms(2) log assms(3), where host = host and inc = inc and t = t and w = w and b = b])
    fix f1 f2 f3 f4 f5 f6 w1 w2 w3 w4 w5 rv b' q sealed snap c' r
    assume rev: "revoke_active t (broker_caps b) [] f2 b = (Inr (rv, f3), b')"
      and r: "r = ir_seal \<lparr>ir_incident_id = inc, ir_phase3_receipt_sha256 = sha, ir_final_state = ''REVIEW'',
       ir_transition_root_sha256 = transition_root c', ir_revoked_capability_ids = sort rv,
       ir_runtime_quiescence_sha256 = q, ir_sealed_trace_sha256 = sealed, ir_snapshot_sha256 = snap,
       ir_partial_failures = sort f6, ir_human_release_id = None, ir_receipt_sha256 = []\<rparr>"
      and run: "co_contain host phase3 inc t ((w, b), c) = (Inr (ir_as_document r), ((w5, b'), c'\<lparr>co_incident := Some r\<rparr>))"
        "co_state c' = ''REVIEW''"
    note all = revoke_all_caps [OF wf assms(5,6) rev]
    have later: "\<not> eligible (fold broker_exec calls b') rq scope k" if k: "k \<in> fst ` set (b_states b)" for calls rq scope k
    proof -
      obtain st where "map_of (b_states b) k = Some st" using k map_of_eq_None_iff [of "b_states b" k] by (cases "map_of (b_states b) k") auto
      then have "map_of (b_states (fold broker_exec calls b')) k = Some (revoke_state t st)"
        using exec_evolves [OF wf_bsteps [OF all(2) wf], of calls] all(3) [of k]
        by (auto simp: evolves_def state_evolves_def) (metis revoke_state_inactive)
      then show ?thesis by (simp add: eligible_def)
    qed
    have "set (ir_revoked_capability_ids r) = {k. \<exists>st. map_of (b_states b) k = Some st \<and> st_status st = Active}"
      using all(1) by (simp add: r)
    with run all(3,4) later show ?thesis
      by (intro exI [of _ r] exI [of _ w5] exI [of _ b'] exI [of _ "c'\<lparr>co_incident := Some r\<rparr>"]) auto
  qed
qed

theorem contain_revokes_everything_witness:
  "\<exists>r w' b' c'. co_contain demo_containment_host demo_phase3 ''inc:1'' 40 (((), demo_broker), containment_init) =
     (Inr (ir_as_document r), ((w', b'), c')) \<and> set (ir_revoked_capability_ids r) = {''cap:demo''} \<and>
     \<not> eligible b' demo_request [(''max_children'', JInt 1)] ''cap:demo''"
proof -
  have "co_state containment_init = ''IDLE''" "log_capacity demo_broker (length (b_states demo_broker))"
    using demo_capacity by (simp_all add: containment_init_def demo_states)
  moreover have "0 \<le> (40::int)" by simp
  ultimately obtain r w' b' c' where run: "co_contain demo_containment_host demo_phase3 ''inc:1'' 40 (((), demo_broker), containment_init) =
     (Inr (ir_as_document r), ((w', b'), c'))"
    "set (ir_revoked_capability_ids r) = {k. \<exists>st. map_of (b_states demo_broker) k = Some st \<and> st_status st = Active}"
    "\<forall>rq scope k. \<not> eligible b' rq scope k"
    by - (drule (1) contain_revokes_everything [OF demo_co_reach _ demo_phase3_ok demo_reach], assumption, elim exE conjE, rule that)
  have one: "{k. \<exists>st. map_of [(k0, s0)] k = Some st \<and> st_status st = Active} = {k0}" if "st_status s0 = Active" for k0 s0
    using that by auto
  have "{k. \<exists>st. map_of (b_states demo_broker) k = Some st \<and> st_status st = Active} = {''cap:demo''}"
    unfolding demo_states by (rule one) (simp add: new_state_def)
  with run(1,2) run(3) [rule_format] show ?thesis
    by (intro exI [of _ r] exI [of _ w'] exI [of _ b'] exI [of _ c']) simp
qed

text \<open>A release is granted exactly when the coordinator is in REVIEW, a human approved it under a
  non-blank id and the containment had no partial failure; it then ends in RELEASED and records the
  id. In every other case it is ContainmentBlocked and nothing changes; after a release both \<open>contain\<close>
  and \<open>release\<close> are refused for good.\<close>

lemma release_guarded:
  assumes "co_reach host (wb, c)"
  shows "(\<exists>doc c' r'. co_release hid appr t c = (Inr doc, c') \<and> co_state c' = ''RELEASED'' \<and>
       co_incident c' = Some r' \<and> ir_human_release_id r' = Some hid \<and>
       (\<forall>hid2 appr2 t2. \<exists>m. co_release hid2 appr2 t2 c' = (Inl (ContainmentBlocked m), c')) \<and>
       (\<forall>phase3 inc t2 wb'. \<exists>e. co_contain host phase3 inc t2 (wb', c') = (Inl e, (wb', c')))) \<and>
     co_state c = ''REVIEW'' \<and> appr \<and> py_strip hid \<noteq> [] \<and> (\<exists>r. co_incident c = Some r \<and> ir_partial_failures r = []) \<or>
    (\<exists>m. co_release hid appr t c = (Inl (ContainmentBlocked m), c)) \<and>
     \<not> (co_state c = ''REVIEW'' \<and> appr \<and> py_strip hid \<noteq> [] \<and> (\<exists>r. co_incident c = Some r \<and> ir_partial_failures r = []))"
proof (cases "\<exists>r. co_incident c = Some r \<and> ir_partial_failures r = [] \<and> co_state c = ''REVIEW'' \<and> appr \<and> py_strip hid \<noteq> []")
  case True
  then obtain r where r: "co_incident c = Some r" "ir_partial_failures r = []" "co_state c = ''REVIEW''" "appr" "py_strip hid \<noteq> []"
    by blast
  have succ: "successor STATES (co_state c) = Inr ''RELEASED''" using r(3) successors by simp
  obtain c' r' where run: "co_release hid appr t c = (Inr (ir_as_document r'), c')" "co_state c' = ''RELEASED''"
      "co_incident c' = Some r'" "ir_human_release_id r' = Some hid"
    using co_release_run [OF r(1,3,2,5)] r(4) co_step_ok(2) [OF succ is_sha256_canonical] by (simp add: Let_def)
  have "\<exists>m. co_release hid2 appr2 t2 c' = (Inl (ContainmentBlocked m), c')" for hid2 appr2 t2
    by (rule co_release_refused) (simp add: run(2))
  moreover have "\<exists>e. co_contain host phase3 inc t2 (wb', c') = (Inl e, (wb', c'))" for phase3 inc t2 wb'
    by (rule co_contain_refused) (simp add: run(2))
  ultimately show ?thesis using run r by blast
next
  case False
  from co_release_refused [OF this, of t] False show ?thesis by blast
qed

end
