(* ===== verification/Session_Containment.thy ===== *)
theory Session_Containment
  imports Containment_Properties
begin

section \<open>Containment of governed process sessions\<close>

text \<open>
  The containment coordinator composed with the process-session supervisor: \<open>freeze_runtime\<close> is the
  supervisor's \<open>containment_freeze_hook\<close> and \<open>quiesce_runtime\<close> its \<open>containment_quiesce_hook\<close>, as in
  docs/PROCESS_TREE_ACTIVE_CONTAINMENT.md. The world of the coordinator is then the host's world and
  the supervisor; the other callbacks act on the host's world.
\<close>

definition session_hooks ::
  "'w session_host \<Rightarrow> string \<Rightarrow> ('w, unit) op \<Rightarrow> ('w, string) op \<Rightarrow> ('w, (string \<times> json) list) op \<Rightarrow>
   ('w \<times> ptree) containment_host" where
  "session_hooks host incident_id close_egress seal_trace snapshot_forensics = \<lparr>
     ch_freeze_runtime = pt_freeze_hook host,
     ch_close_egress = on_fst close_egress,
     ch_seal_trace = on_fst seal_trace,
     ch_snapshot_forensics = on_fst snapshot_forensics,
     ch_quiesce_runtime = Some (pt_quiesce_all host incident_id)\<rparr>"

subsection \<open>Freezing closes only sessions that are gone\<close>

definition session_kept :: "('w \<Rightarrow> string \<Rightarrow> bool) \<Rightarrow> string \<Rightarrow> session_binding \<Rightarrow> 'w \<times> ptree \<Rightarrow> 'a res \<times> 'w \<times> ptree \<Rightarrow> bool" where
  "session_kept gone k b s out \<longleftrightarrow>
     (\<exists>a st w' p'. out = (Inr a, (w', p')) \<and> set_to (snd s) k (b\<lparr>sb_status := st\<rparr>) p' \<and>
        (\<forall>j. gone (fst s) j \<longrightarrow> gone w' j) \<and> (closed_status st \<longrightarrow> gone w' k))"

lemma session_kept_status:
  assumes "map_of (pt_sessions p) k = Some b" "\<not> closed_status (sb_status b)"
    and "st \<in> {''ACTIVE'', ''FROZEN'', ''TERMINATED'', ''COMPLETED'', ''ERROR''}"
    and "\<forall>j. gone w j \<longrightarrow> gone w' j" "closed_status st \<longrightarrow> gone w' k"
  shows "session_kept gone k b (w, p) (obind (on_snd (pt_set_status k st)) (\<lambda>_. oret a) (w', p))"
proof -
  obtain p' where p': "pt_set_status k st p = (Inr (), p')" "set_to p k (b\<lparr>sb_status := st\<rparr>) p'"
    using pt_set_status_open [OF assms(1-3)] by blast
  with assms(4,5) show ?thesis
    unfolding session_kept_def by (intro exI [of _ a] exI [of _ st] exI [of _ w'] exI [of _ p']) (simp add: obind_def)
qed

lemma session_kept_try: "session_kept gone k b s (m t) \<Longrightarrow> session_kept gone k b s (otry m h t)"
  by (auto simp: session_kept_def otry_def)

lemma freeze_one_kept:
  assumes host: "truthful host gone"
    and b: "map_of (pt_sessions p) (sb_session_id bd) = Some b" "\<not> closed_status (sb_status b)"
  shows "session_kept gone (sb_session_id bd) b (w, p) (freeze_one host bd acc (w, p))"
proof -
  let ?k = "sb_session_id bd"
  note set = session_kept_status [OF b]
  have open_st: "\<not> closed_status ''ERROR''" "\<not> closed_status ''FROZEN''" by (simp_all add: closed_status_def)
  obtain r1 s1 where i: "pt_inspect host ?k (w, p) = (r1, s1)" by (metis prod.collapse)
  from pt_inspect_spec [OF host i] obtain w1 where
    w1: "s1 = (w1, p)" "\<forall>j. gone w j \<longrightarrow> gone w1 j" "\<forall>ob. r1 = Inr ob \<and> \<not> to_exists ob \<longrightarrow> gone w1 ?k" by blast
  show ?thesis
  proof (cases r1)
    case (Inl e)
    then show ?thesis using i w1 open_st by (simp add: freeze_one_def Let_def) (rule set, simp_all)
  next
    case before: (Inr before)
    show ?thesis
    proof (cases "to_exists before")
      case False
      with before i w1 show ?thesis by (simp add: freeze_one_def Let_def) (rule set, simp_all)
    next
      case ex: True
      let ?m = "obind (if to_running before then on_fst (h_freeze host ?k) else oret ()) (\<lambda>_. pt_inspect host ?k)"
      obtain r2 s2 where m: "?m (w1, p) = (r2, s2)" by (metis prod.collapse)
      have "\<exists>w2. s2 = (w2, p) \<and> (\<forall>j. gone w1 j \<longrightarrow> gone w2 j) \<and> (\<forall>ob. r2 = Inr ob \<and> \<not> to_exists ob \<longrightarrow> gone w2 ?k)"
      proof -
        have one: "\<exists>w2. s3 = (w2, p) \<and> (\<forall>j. gone w1 j \<longrightarrow> gone w2 j) \<and> (\<forall>ob. r3 = Inr ob \<and> \<not> to_exists ob \<longrightarrow> gone w2 ?k)"
          if "pt_inspect host ?k (wx, p) = (r3, s3)" "\<forall>j. gone w1 j \<longrightarrow> gone wx j" for wx r3 s3
          using pt_inspect_spec [OF host that(1)] that(2) by metis
        obtain r3 w3 where fz: "h_freeze host ?k w1 = (r3, w3)" by (metis prod.collapse)
        then have mono: "\<forall>j. gone w1 j \<longrightarrow> gone w3 j" using host unfolding truthful_def by blast
        show ?thesis
          using m fz mono one [of w1 r2 s2] one [of w3 r2 s2]
          by (auto simp: obind_def split: if_splits sum.splits)
      qed
      then obtain w2 where w2: "s2 = (w2, p)" "\<forall>j. gone w j \<longrightarrow> gone w2 j" "\<forall>ob. r2 = Inr ob \<and> \<not> to_exists ob \<longrightarrow> gone w2 ?k"
        using w1(2) by blast
      show ?thesis
      proof (cases r2)
        case (Inl e)
        then show ?thesis
          using i w1(1) before ex m w2 open_st by (simp add: freeze_one_def Let_def) (rule set, simp_all)
      next
        case after: (Inr after)
        have "session_kept gone ?k b (w, p) (obind (on_snd (pt_set_status ?k (if \<not> to_exists after then ''COMPLETED''
            else if to_running after then ''ERROR'' else ''FROZEN''))) (\<lambda>_. oret a) (w2, p))" for a :: freeze_acc
          by (rule set) (use w2 after open_st in simp_all)
        then show ?thesis
          using i w1(1) before ex m w2(1) after by (simp add: freeze_one_def Let_def session_kept_try)
      qed
    qed
  qed
qed

lemma freeze_loop_kept:
  assumes "truthful host gone" "distinct (map sb_session_id bds)" "\<forall>bd \<in> set bds. open_in p (sb_session_id bd)"
  shows "\<exists>acc' w' p'. freeze_loop host bds acc (w, p) = (Inr acc', (w', p')) \<and> (\<forall>j. gone w j \<longrightarrow> gone w' j) \<and>
    (\<forall>k. k \<notin> sb_session_id ` set bds \<longrightarrow> map_of (pt_sessions p') k = map_of (pt_sessions p) k) \<and>
    (\<forall>bd \<in> set bds. closed_in p' (sb_session_id bd) \<longrightarrow> gone w' (sb_session_id bd))"
  using assms(2-)
proof (induction bds arbitrary: acc w p)
  case (Cons bd bds)
  let ?k = "sb_session_id bd"
  from Cons.prems(2) obtain b where b: "map_of (pt_sessions p) ?k = Some b" "\<not> closed_status (sb_status b)"
    by (auto simp: open_in_def)
  from freeze_one_kept [OF assms(1) b, of w acc] obtain acc1 st w1 p1 where
    one: "freeze_one host bd acc (w, p) = (Inr acc1, (w1, p1))" "set_to p ?k (b\<lparr>sb_status := st\<rparr>) p1"
      "\<forall>j. gone w j \<longrightarrow> gone w1 j" "closed_status st \<longrightarrow> gone w1 ?k"
    by (auto simp: session_kept_def)
  have look: "map_of (pt_sessions p1) j = (if j = ?k then Some (b\<lparr>sb_status := st\<rparr>) else map_of (pt_sessions p) j)" for j
    using one(2) by (simp add: set_to_def)
  have fresh: "?k \<notin> sb_session_id ` set bds" using Cons.prems(1) by auto
  have opens: "\<forall>d \<in> set bds. open_in p1 (sb_session_id d)"
    using Cons.prems(2) fresh by (auto simp: open_in_def look) (metis imageI)
  have dist: "distinct (map sb_session_id bds)" using Cons.prems(1) by simp
  from Cons.IH [OF dist opens, of acc1 w1] obtain acc' w' p' where rest: "freeze_loop host bds acc1 (w1, p1) = (Inr acc', (w', p'))"
      "\<forall>j. gone w1 j \<longrightarrow> gone w' j"
      "\<forall>k. k \<notin> sb_session_id ` set bds \<longrightarrow> map_of (pt_sessions p') k = map_of (pt_sessions p1) k"
      "\<forall>bd \<in> set bds. closed_in p' (sb_session_id bd) \<longrightarrow> gone w' (sb_session_id bd)"
    by (elim exE conjE) blast
  have "closed_in p' ?k \<longrightarrow> gone w' ?k" using rest(2,3) fresh one(4) by (auto simp: closed_in_def look)
  with one rest look show ?case
    by (intro exI [of _ acc'] exI [of _ w'] exI [of _ p']) (auto simp: obind_def)
qed simp

lemma registry_keeps: "registry_evolves p p1 \<Longrightarrow> map_of (pt_sessions p) k = Some bd \<Longrightarrow> \<exists>bd1. map_of (pt_sessions p1) k = Some bd1"
  unfolding registry_evolves_def by metis

lemma freeze_hook_state: "pt_freeze_all host s = (Inr doc, t) \<Longrightarrow> snd (pt_freeze_hook host s) = t"
  by (auto simp: pt_freeze_hook_def obind_def split: json.split list.split)

lemma freeze_hook_kept:
  assumes "truthful host gone" "wf_ptree p"
  shows "\<exists>r w' p'. pt_freeze_hook host (w, p) = (r, (w', p')) \<and> (\<forall>j. gone w j \<longrightarrow> gone w' j) \<and> registry_evolves p p' \<and>
    (\<forall>k. open_in p k \<and> closed_in p' k \<longrightarrow> gone w' k)"
proof -
  let ?bds = "open_sessions p"
  let ?acc = "\<lparr>fa_before_docs = [], fa_after_docs = [], fa_failures = [], fa_frozen_count = 0, fa_absent_count = 0\<rparr>"
  have "\<forall>bd \<in> set ?bds. open_in p (sb_session_id bd)" using open_sessions_props(2) [OF assms(2)] by blast
  from freeze_loop_kept [OF assms(1) open_sessions_props(1) [OF assms(2)] this, of ?acc w] obtain acc' w' p' where
    loop: "freeze_loop host ?bds ?acc (w, p) = (Inr acc', (w', p'))" "\<forall>j. gone w j \<longrightarrow> gone w' j"
      "\<forall>bd \<in> set ?bds. closed_in p' (sb_session_id bd) \<longrightarrow> gone w' (sb_session_id bd)"
    by (elim exE conjE) blast
  have "registry_evolves p p'"
    using keepsD [OF keeps_freeze_loop [of p host ?bds ?acc] _ loop(1)] registry_evolves_refl [OF assms(2)] by simp
  moreover obtain doc fz where "pt_freeze_all host (w, p) = (Inr doc, (w', p'\<lparr>pt_freeze_receipts := fz\<rparr>))"
    using loop(1) by (simp add: pt_freeze_all_def obind_def Let_def)
  then obtain r where "pt_freeze_hook host (w, p) = (r, (w', p'\<lparr>pt_freeze_receipts := fz\<rparr>))"
    using freeze_hook_state by (metis prod.collapse)
  moreover have "gone w' k" if "open_in p k" "closed_in p' k" for k
    using open_sessions_props(3) [OF assms(2) that(1)] loop(3) that(2) by blast
  ultimately show ?thesis
    using loop(2) by (intro exI [of _ r] exI [of _ w'] exI [of _ "p'\<lparr>pt_freeze_receipts := fz\<rparr>"]) (auto simp: closed_in_def)
qed

subsection \<open>What an accepted quiescence receipt of the supervisor says\<close>

lemma tree_receipt_get:
  "dget (tr_as_document r) ''schema'' = JStr PTREE_SCHEMA"
  "dreq (tr_as_document r) ''receipt_sha256'' = Inr (JStr (tr_receipt_sha256 r))"
  "dreq (tr_as_document r) ''zero_survivors'' = Inr (JBool (tr_zero_survivors r))"
  "dreq (tr_as_document r) ''survivor_count'' = Inr (JInt (tr_survivor_count r))"
  "dreq (tr_as_document r) ''failure_codes'' = Inr (JList (map JStr (tr_failure_codes r)))"
  by (simp_all add: tr_as_document_def tr_body_def dget_def dreq_def)

lemma tree_quiescence:
  assumes "wf_tree_receipt r"
  shows "validate_quiescence_receipt (tr_as_document r) = Inr (tr_receipt_sha256 r, tr_zero_survivors r)"
  using assms
  by (simp add: validate_quiescence_receipt_def tree_receipt_get PTREE_SCHEMA_def py_eq_text pt_verify_receipt_ok json_truthy_def)
    (auto simp: wf_tree_receipt_def py_eq_def)

lemma stage_failures:
  "attempt m l fs w = (Inr fs', w') \<Longrightarrow> fs' = [] \<Longrightarrow> fs = []"
  "quiesce_stage h fs w = (Inr (q, fs'), w') \<Longrightarrow> fs' = [] \<Longrightarrow> fs = []"
  "seal_stage h fs w = (Inr (q, fs'), w') \<Longrightarrow> fs' = [] \<Longrightarrow> fs = []"
  "snapshot_stage h fs w = (Inr (q, fs'), w') \<Longrightarrow> fs' = [] \<Longrightarrow> fs = []"
  "revoke_active t caps rv0 fs b = (Inr (rv, fs'), b') \<Longrightarrow> fs' = [] \<Longrightarrow> fs = []"
  using attempt_run [of m l fs w] quiesce_stage_run [of h fs w] seal_stage_run [of h fs w] snapshot_stage_run [of h fs w]
    revoke_active_total [of t caps rv0 fs b]
  by auto

text \<open>A quiescence stage that adds no failure: the supervisor's receipt claims zero survivors.\<close>

lemma quiesce_stage_clean:
  assumes "ch_quiesce_runtime h = Some (pt_quiesce_all host inc)" "quiesce_stage h fs (w, p) = (Inr (q, []), s')"
    and "truthful host gone" "wf_ptree p"
  shows "\<exists>w' p'. s' = (w', p') \<and> (\<forall>j. gone w j \<longrightarrow> gone w' j) \<and>
    (\<forall>k b. map_of (pt_sessions p) k = Some b \<longrightarrow> closed_in p' k) \<and> (\<forall>k. open_in p k \<longrightarrow> gone w' k)"
proof -
  have valid: "pt_validate_id inc ''incident_id'' = Inr ()"
  proof (cases "pt_validate_id inc ''incident_id''")
    case (Inl e)
    with assms(1,2) show ?thesis by (simp add: quiesce_stage_def otry_def obind_def pt_quiesce_all_def)
  qed simp
  from quiesce_all_run [OF assms(4) valid assms(3), of w] obtain r w' p' where
    run: "pt_quiesce_all host inc (w, p) = (Inr (tr_as_document r), (w', p'))" "wf_tree_receipt r"
      "\<forall>j. gone w j \<longrightarrow> gone w' j"
      "tr_zero_survivors r \<longrightarrow> (\<forall>k b. map_of (pt_sessions p) k = Some b \<longrightarrow> closed_in p' k) \<and> (\<forall>k. open_in p k \<longrightarrow> gone w' k)"
    by blast
  with assms(1,2) have "tr_zero_survivors r" "s' = (w', p')"
    by (auto simp: quiesce_stage_def otry_def obind_def tree_quiescence split: if_splits)
  with run(3,4) show ?thesis by blast
qed

lemma on_fst_stage:
  assumes "m = on_fst n"
  shows "snd (snd (attempt m l fs (w, p))) = p" "fst (snd (attempt m l fs (w, p))) = snd (n w)"
  using assms by (auto simp: attempt_def otry_def obind_def split: prod.splits sum.splits)

lemma seal_stage_world: "ch_seal_trace h = on_fst n \<Longrightarrow> snd (seal_stage h fs (w, p)) = (snd (n w), p)"
  by (auto simp: seal_stage_def otry_def obind_def split: prod.splits sum.splits)

lemma snapshot_stage_world: "ch_snapshot_forensics h = on_fst n \<Longrightarrow> snd (snapshot_stage h fs (w, p)) = (snd (n w), p)"
  by (auto simp: snapshot_stage_def otry_def obind_def split: prod.splits sum.splits)

subsection \<open>A released incident left nothing behind\<close>

definition demo_hooks :: "(string list \<times> ptree) containment_host" where
  "demo_hooks = session_hooks demo_host ''inc:1'' (oret ()) (oret ZERO_SHA256) (oret [])"

definition demo_frozen :: ptree where
  "demo_frozen = snd (snd (pt_freeze_hook demo_host ([''s:1''], demo_ptree)))"

lemma demo_observed: "to_from_mapping ''s:1'' [(''exists'', JBool True), (''running'', JBool False), (''descendant_count'', JInt 1),
    (''tree_sha256'', JStr ZERO_SHA256)] = Inr \<lparr>to_session_id = ''s:1'', to_exists = True, to_running = False,
    to_descendant_count = 1, to_tree_sha256 = ZERO_SHA256\<rparr>"
  "to_from_mapping ''s:1'' [(''exists'', JBool False), (''running'', JBool False), (''descendant_count'', JInt 0),
    (''tree_sha256'', JStr ZERO_SHA256)] = Inr \<lparr>to_session_id = ''s:1'', to_exists = False, to_running = False,
    to_descendant_count = 0, to_tree_sha256 = ZERO_SHA256\<rparr>"
  by (simp_all add: to_from_mapping_def demo_ids same_keys_def dkeys_def dget_def)

lemma demo_inspect:
  "pt_inspect demo_host ''s:1'' ([''s:1''], p) = (Inr \<lparr>to_session_id = ''s:1'', to_exists = True, to_running = False,
    to_descendant_count = 1, to_tree_sha256 = ZERO_SHA256\<rparr>, ([''s:1''], p))"
  "pt_inspect demo_host ''s:1'' ([], p) = (Inr \<lparr>to_session_id = ''s:1'', to_exists = False, to_running = False,
    to_descendant_count = 0, to_tree_sha256 = ZERO_SHA256\<rparr>, ([], p))"
  by (simp_all add: pt_inspect_def obind_def demo_host_def demo_observed)

lemma demo_freeze: "pt_freeze_hook demo_host ([''s:1''], demo_ptree) = (Inr (), ([''s:1''], demo_frozen)) \<and>
    map_of (pt_sessions demo_frozen) ''s:1'' = Some \<lparr>sb_session_id = ''s:1'', sb_operation_id = ''op:1'',
      sb_plan_sha256 = ZERO_SHA256, sb_backend_identity_sha256 = ZERO_SHA256, sb_status = ''FROZEN''\<rparr> \<and>
    open_sessions demo_frozen = [\<lparr>sb_session_id = ''s:1'', sb_operation_id = ''op:1'',
      sb_plan_sha256 = ZERO_SHA256, sb_backend_identity_sha256 = ZERO_SHA256, sb_status = ''FROZEN''\<rparr>]"
proof -
  have "open_sessions demo_ptree = [\<lparr>sb_session_id = ''s:1'', sb_operation_id = ''op:1'',
      sb_plan_sha256 = ZERO_SHA256, sb_backend_identity_sha256 = ZERO_SHA256, sb_status = ''ACTIVE''\<rparr>]"
    by (simp add: open_sessions_def demo_ptree_sessions)
  then show ?thesis
    by (simp add: demo_frozen_def pt_freeze_hook_def pt_freeze_all_def freeze_one_def demo_inspect obind_def otry_def
        Let_def pt_set_status_def demo_ptree_sessions dget_def open_sessions_def)
qed

lemma demo_terminate: "\<exists>q s'. quiesce_stage demo_hooks [] ([''s:1''], demo_frozen) = (Inr (q, []), s')"
proof -
  note frozen = demo_freeze [THEN conjunct2, THEN conjunct1] demo_freeze [THEN conjunct2, THEN conjunct2]
  have kill: "h_terminate demo_host ''s:1'' [''s:1''] = (Inr (), [])" by (simp add: demo_host_def)
  obtain acc s' where loop: "quiesce_loop demo_host False (open_sessions demo_frozen) quiesce_acc_init ([''s:1''], demo_frozen) =
      (Inr acc, s')" "qa_survivors acc = 0" "qa_failures acc = []" "nonneg_acc acc"
    by (simp add: frozen quiesce_one_def terminate_stage_def otry_def obind_def Let_def demo_inspect kill pt_set_status_def
        quiesce_acc_init_def nonneg_acc_def)
  let ?r = "quiesce_receipt (open_sessions demo_frozen) ''inc:1'' acc"
  have "validate_quiescence_receipt (tr_as_document ?r) = Inr (tr_receipt_sha256 ?r, True)"
    using loop(2,3) by (simp add: tree_quiescence [OF quiesce_receipt_facts(1) [OF loop(4)]] quiesce_receipt_facts(2))
  with loop(1) show ?thesis
    by (simp add: quiesce_stage_def demo_hooks_def session_hooks_def otry_def obind_def pt_quiesce_all_def pt_quiesce_def
        demo_ids Let_def)
qed

lemma demo_revocation: "\<exists>rv b'. revoke_active 40 (broker_caps demo_broker) [] [] demo_broker = (Inr (rv, []), b')"
proof -
  have "log_capacity demo_broker (length (sort_key fst (b_states demo_broker)))"
      "distinct (map fst (sort_key fst (b_states demo_broker)))"
      "\<forall>(k, st) \<in> set (sort_key fst (b_states demo_broker)). map_of (b_states demo_broker) k = Some st"
    using demo_capacity by (simp_all add: demo_states)
  from revoke_active_run [OF reach_wf [OF demo_reach] this(1) _ this(2,3), of 40 "[]" "[]"] show ?thesis
    by (auto simp: broker_caps_def)
qed

text \<open>C10: End to end. Take a containment whose runtime hooks are the session supervisor's, on a host
  whose inspections are truthful and whose callbacks bring no session back. If the incident is
  released afterwards, then every session the supervisor ever registered is closed, every session that
  was open when containment began has no process left, every capability that was active is revoked and
  no request to the broker is eligible.\<close>

theorem release_means_quiet:
  assumes host: "truthful host gone" "ptree_reach host (w, p)"
    and calm: "\<And>w j. gone w j \<Longrightarrow> gone (snd (egress w)) j \<and> gone (snd (seal w)) j \<and> gone (snd (snap w)) j"
    and hooks: "hooks = session_hooks host inc egress seal snap"
    and start: "co_reach hooks (((w, p), b), c)" "broker_reach b" "log_capacity b (length (b_states b))" "0 \<le> t"
    and contain: "co_contain hooks phase3 incident_id t (((w, p), b), c) = (Inr doc, (((w', p'), b'), c'))"
    and release: "co_release hid appr t' c' = (Inr doc', c'')"
  shows "(\<forall>k bd. map_of (pt_sessions p) k = Some bd \<longrightarrow> closed_in p' k) \<and> (\<forall>k. open_in p k \<longrightarrow> gone w' k) \<and>
    (\<forall>k. map_of (b_states b') k = map_option (revoke_state t) (map_of (b_states b) k)) \<and>
    (\<forall>rq scope k. \<not> eligible b' rq scope k)"
proof -
  have wfp: "wf_ptree p" using ptree_reach_wf [OF host(2)] by simp
  have idle: "co_state c = ''IDLE''" and "\<exists>sha. validated_phase3_receipt phase3 = Inr sha"
    using contain co_contain_refused [of c phase3 hooks incident_id t "((w, p), b)"] by (fastforce intro: ccontr, metis Inl_Inr_False Pair_inject sum.exhaust)
  then obtain sha where p3: "validated_phase3_receipt phase3 = Inr sha" by blast
  have log: "wf_log c" using co_reach_wf [OF start(1)] by (simp add: wf_containment_def)
  have h: "ch_freeze_runtime hooks = pt_freeze_hook host" "ch_close_egress hooks = on_fst egress" "ch_seal_trace hooks = on_fst seal"
      "ch_snapshot_forensics hooks = on_fst snap" "ch_quiesce_runtime hooks = Some (pt_quiesce_all host inc)"
    by (simp_all add: hooks session_hooks_def)
  show ?thesis
  proof (rule co_contain_run [OF idle log p3, where host = hooks and inc = incident_id and t = t and w = "(w, p)" and b = b])
    fix f1 f2 f3 f4 f5 f6 s1 s2 s3 s4 s5 rv b2 q sealed snapsha c2 r
    assume st: "attempt (ch_freeze_runtime hooks) ''freeze:'' [] (w, p) = (Inr f1, s1)"
        "attempt (ch_close_egress hooks) ''egress:'' f1 s1 = (Inr f2, s2)"
        "revoke_active t (broker_caps b) [] f2 b = (Inr (rv, f3), b2)"
        "quiesce_stage hooks f3 s2 = (Inr (q, f4), s3)" "seal_stage hooks f4 s3 = (Inr (sealed, f5), s4)"
        "snapshot_stage hooks f5 s4 = (Inr (snapsha, f6), s5)"
      and r: "r = ir_seal \<lparr>ir_incident_id = incident_id, ir_phase3_receipt_sha256 = sha, ir_final_state = ''REVIEW'',
       ir_transition_root_sha256 = transition_root c2, ir_revoked_capability_ids = sort rv,
       ir_runtime_quiescence_sha256 = q, ir_sealed_trace_sha256 = sealed, ir_snapshot_sha256 = snapsha,
       ir_partial_failures = sort f6, ir_human_release_id = None, ir_receipt_sha256 = []\<rparr>"
      and run: "co_contain hooks phase3 incident_id t (((w, p), b), c) =
        (Inr (ir_as_document r), ((s5, b2), c2\<lparr>co_incident := Some r\<rparr>))"
    have same: "s5 = (w', p')" "b2 = b'" "c' = c2\<lparr>co_incident := Some r\<rparr>" using contain run by auto
    have "ir_partial_failures r = []"
      using release co_release_refused [of c' appr hid t'] same(3) by (auto simp: r) 
    then have "sort f6 = []" by (simp add: r)
    then have "f6 = []" by (metis set_empty set_sort)
    then have "f4 = []" using stage_failures(3) [OF st(5)] stage_failures(4) [OF st(6)] by blast
    obtain w1 p1 where s1: "s1 = (w1, p1)" by force
    obtain rz where "pt_freeze_hook host (w, p) = (rz, (w1, p1))"
      using st(1) by (auto simp: h(1) s1 attempt_def otry_def obind_def split: prod.splits sum.splits)
    with freeze_hook_kept [OF host(1) wfp, of w] have fz: "\<forall>j. gone w j \<longrightarrow> gone w1 j" "registry_evolves p p1"
        "\<forall>k. open_in p k \<and> closed_in p1 k \<longrightarrow> gone w1 k"
      by auto
    have s2: "s2 = (snd (egress w1), p1)"
      using on_fst_stage [OF h(2), of "''egress:''" f1 w1 p1] st(2) by (simp add: s1 prod_eq_iff)
    have wf1: "wf_ptree p1" using fz(2) by (simp add: registry_evolves_def)
    from quiesce_stage_clean [OF h(5) _ host(1) wf1, of f3 "snd (egress w1)" q s3] st(4) \<open>f4 = []\<close> s2 obtain w3 p3' where
      q: "s3 = (w3, p3')" "\<forall>j. gone (snd (egress w1)) j \<longrightarrow> gone w3 j"
        "\<forall>k bd. map_of (pt_sessions p1) k = Some bd \<longrightarrow> closed_in p3' k" "\<forall>k. open_in p1 k \<longrightarrow> gone w3 k"
      by auto
    have s5: "s5 = (snd (snap (snd (seal w3))), p3')"
      using seal_stage_world [OF h(3), of f4 w3 p3'] snapshot_stage_world [OF h(4), of f5 "snd (seal w3)" p3'] st(5,6) q(1) by simp
    have closed: "closed_in p' k" if "map_of (pt_sessions p) k = Some bd" for k bd
      using registry_keeps [OF fz(2) that] q(3) same(1) s5 by auto
    have gone: "gone w' k" if op: "open_in p k" for k
    proof -
      obtain bd where "map_of (pt_sessions p1) k = Some bd" using registry_keeps [OF fz(2)] op by (auto simp: open_in_def)
      then have "open_in p1 k \<or> closed_in p1 k" by (auto simp: open_in_def closed_in_def)
      then have "gone w3 k" using q(2,4) fz(3) op calm by blast
      with calm same(1) s5 show ?thesis by auto
    qed
    show ?thesis
      using closed gone revoke_all_caps(3,4) [OF reach_wf [OF start(2)] start(3,4) st(3)] same(2) by auto
  qed
qed

theorem release_means_quiet_witness:
  "\<exists>doc w' p' b' c' doc' c''. co_contain demo_hooks demo_phase3 ''inc:1'' 40 ((([''s:1''], demo_ptree), demo_broker), containment_init) =
     (Inr doc, (((w', p'), b'), c')) \<and> co_release ''human:1'' True 50 c' = (Inr doc', c'') \<and> ''s:1'' \<notin> set w'"
proof -
  have start: "co_state containment_init = ''IDLE''" "wf_log containment_init"
    using wf_containment_init by (simp_all add: wf_containment_def containment_init_def)
  have st1: "attempt (ch_freeze_runtime demo_hooks) ''freeze:'' [] ([''s:1''], demo_ptree) = (Inr [], ([''s:1''], demo_frozen))"
    using demo_freeze by (simp add: demo_hooks_def session_hooks_def attempt_def otry_def obind_def)
  have st2: "attempt (ch_close_egress demo_hooks) ''egress:'' [] s = (Inr [], s)" for s
    by (cases s) (simp add: demo_hooks_def session_hooks_def attempt_def otry_def obind_def)
  have st5: "seal_stage demo_hooks [] s = (Inr (ZERO_SHA256, []), s)" for s
    by (cases s) (simp add: demo_hooks_def session_hooks_def seal_stage_def otry_def obind_def)
  have st6: "\<exists>q. snapshot_stage demo_hooks [] s = (Inr (q, []), s)" for s
    by (cases s) (simp add: demo_hooks_def session_hooks_def snapshot_stage_def otry_def obind_def validate_snapshot_def dkeys_def)
  obtain r s5 b' c' where run: "co_contain demo_hooks demo_phase3 ''inc:1'' 40 ((([''s:1''], demo_ptree), demo_broker), containment_init) =
      (Inr (ir_as_document r), ((s5, b'), c'))" "ir_partial_failures r = []" "co_incident c' = Some r" "co_state c' = ''REVIEW''"
  proof (rule co_contain_run [OF start demo_phase3_ok, where host = demo_hooks and inc = "''inc:1''" and t = 40 and
        w = "([''s:1''], demo_ptree)" and b = demo_broker])
    fix f1 f2 f3 f4 f5 f6 s1 s2 s3 s4 s5 rv b' q sealed snapsha c' r
    assume st: "attempt (ch_freeze_runtime demo_hooks) ''freeze:'' [] ([''s:1''], demo_ptree) = (Inr f1, s1)"
        "attempt (ch_close_egress demo_hooks) ''egress:'' f1 s1 = (Inr f2, s2)"
        "revoke_active 40 (broker_caps demo_broker) [] f2 demo_broker = (Inr (rv, f3), b')"
        "quiesce_stage demo_hooks f3 s2 = (Inr (q, f4), s3)" "seal_stage demo_hooks f4 s3 = (Inr (sealed, f5), s4)"
        "snapshot_stage demo_hooks f5 s4 = (Inr (snapsha, f6), s5)"
      and r: "r = ir_seal \<lparr>ir_incident_id = ''inc:1'', ir_phase3_receipt_sha256 = ZERO_SHA256, ir_final_state = ''REVIEW'',
       ir_transition_root_sha256 = transition_root c', ir_revoked_capability_ids = sort rv,
       ir_runtime_quiescence_sha256 = q, ir_sealed_trace_sha256 = sealed, ir_snapshot_sha256 = snapsha,
       ir_partial_failures = sort f6, ir_human_release_id = None, ir_receipt_sha256 = []\<rparr>"
      and run: "co_contain demo_hooks demo_phase3 ''inc:1'' 40 ((([''s:1''], demo_ptree), demo_broker), containment_init) =
        (Inr (ir_as_document r), ((s5, b'), c'\<lparr>co_incident := Some r\<rparr>))" "co_state c' = ''REVIEW''"
    have "f1 = []" "s1 = ([''s:1''], demo_frozen)" using st(1) st1 by simp_all
    then have "f2 = []" "s2 = ([''s:1''], demo_frozen)" using st(2) st2 by simp_all
    then have "f3 = []" using st(3) demo_revocation by auto
    then have "f4 = []" using st(4) demo_terminate \<open>s2 = _\<close> by auto
    then have "f5 = []" using st(5) st5 by simp
    then have "f6 = []" using st(6) st6 [of s4] by auto
    then have "ir_partial_failures r = []" by (simp add: r)
    with that [OF run(1)] run(2) show thesis by simp
  qed
  obtain w' p' where s5: "s5 = (w', p')" by force
  have "py_strip ''human:1'' \<noteq> []" by code_simp
  from co_release_run [OF run(3,4,2) this, of 50] obtain doc' c'' where rel: "co_release ''human:1'' True 50 c' = (Inr doc', c'')"
    by (simp add: Let_def)
  have "open_in demo_ptree ''s:1''" by (simp add: open_in_def demo_ptree_sessions closed_status_def)
  moreover have "log_capacity demo_broker (length (b_states demo_broker))" using demo_capacity by (simp add: demo_states)
  ultimately have "''s:1'' \<notin> set w'"
    using release_means_quiet [OF demo_host_truthful demo_ptree_reach _ demo_hooks_def co_reach.init [OF demo_reach] demo_reach _ _
      run(1) [unfolded s5] rel] by simp
  with run(1) rel s5 show ?thesis by blast
qed

end
