(* ===== verification/Runtime_Config.thy ===== *)
theory Runtime_Config
  imports Runtime_Mediation Process_Lineage
begin

section \<open>Bound runtime configuration\<close>

text \<open>
  Model of src/sdk/liminal_runtime_config: trusted state evidence, configuration plans, and the broker
  that applies a plan through the runtime mediator, advances the runtime epoch and revokes all authority
  of the previous one. The state of a call is the capability broker, the host's world, the mediator and
  the fields \<open>rconfig\<close> of the configuration broker. The backend's two methods act on the world.
\<close>

subsection \<open>Data\<close>

abbreviation RuntimeConfigError :: "string \<Rightarrow> exn" where
  "RuntimeConfigError m \<equiv> Exn ''RuntimeConfigError'' m"

definition CONFIG_SCHEMA :: string where
  "CONFIG_SCHEMA = ''liminal-bound-runtime-config-receipt-v0.1''"

definition CONFIG_PLAN_SCHEMA :: string where
  "CONFIG_PLAN_SCHEMA = ''liminal-bound-runtime-config-plan-v0.1''"

definition STATE_SCHEMA :: string where
  "STATE_SCHEMA = ''liminal-runtime-state-evidence-v0.1''"

definition CONFIG_AUTHORITY :: json where
  "CONFIG_AUTHORITY = JObj
     [(''mode'', JStr ''bound_runtime_configuration_governance''), (''runtime_mediation_required'', JBool True),
      (''trusted_state_observation'', JBool True), (''exact_before_state_binding'', JBool True),
      (''monotonic_runtime_epoch'', JBool True), (''old_epoch_authority_revocation'', JBool True),
      (''digest_only_receipts'', JBool True), (''raw_environment_access'', JBool False),
      (''secret_material_export'', JBool False), (''shell_execution'', JBool False),
      (''direct_filesystem_mutation'', JBool False), (''direct_network_reconfiguration'', JBool False),
      (''kernel_or_runtime_escape_resistance'', JBool False)]"

fun rc_sha :: "json \<Rightarrow> string \<Rightarrow> string res" where
  "rc_sha (JStr s) name =
     (if is_sha256 s then Inr s else Inl (RuntimeConfigError (name @ '' must be lowercase SHA-256'')))"
| "rc_sha v name = Inl (RuntimeConfigError (name @ '' must be lowercase SHA-256''))"

definition rc_text :: "string \<Rightarrow> string \<Rightarrow> string res" where
  "rc_text v name =
     (if py_strip v = [] \<or> v \<noteq> py_strip v \<or> CHR 0x00 \<in> set v \<or> py_len v > 192
      then Inl (RuntimeConfigError (name @ '' must be a bounded non-empty string'')) else Inr v)"

record state_evidence =
  se_host_binding_sha256 :: string
  se_state_sha256 :: string
  se_evidence_sha256 :: string

definition se_from_mapping :: "string \<Rightarrow> (string \<times> json) list \<Rightarrow> state_evidence res" where
  "se_from_mapping expected_host_binding raw =
     (if \<not> same_keys raw [''schema'', ''host_binding_sha256'', ''state_sha256'', ''evidence_sha256''] \<or>
         \<not> py_eq (dget raw ''schema'') (JStr STATE_SCHEMA)
      then Inl (RuntimeConfigError ''runtime state evidence schema mismatch'')
      else rbind (rc_sha (dget raw ''host_binding_sha256'') ''host_binding_sha256'') (\<lambda>host.
        if host \<noteq> expected_host_binding then Inl (RuntimeConfigError ''runtime state host binding mismatch'')
        else rbind (rc_sha (dget raw ''state_sha256'') ''state_sha256'') (\<lambda>state.
          let body = [(''schema'', JStr STATE_SCHEMA), (''host_binding_sha256'', JStr host), (''state_sha256'', JStr state)]
          in rbind (rc_sha (dget raw ''evidence_sha256'') ''evidence_sha256'') (\<lambda>evidence.
            if evidence \<noteq> canonical_sha256 (JObj body)
            then Inl (RuntimeConfigError ''runtime state evidence digest mismatch'')
            else Inr \<lparr>se_host_binding_sha256 = host, se_state_sha256 = state, se_evidence_sha256 = evidence\<rparr>))))"

record config_plan =
  rp_operation_id :: string
  rp_setting_keys :: "string list"
  rp_before_state_sha256 :: string
  rp_after_state_sha256 :: string
  rp_change_set_sha256 :: string
  rp_host_binding_sha256 :: string
  rp_epoch_before :: int

definition setting_scope :: "string list \<Rightarrow> json" where
  "setting_scope keys = JObj [(''setting_keys'', JList (map JStr keys))]"

definition rp_validate :: "config_plan \<Rightarrow> unit res" where
  "rp_validate p =
     rbind (rc_text (rp_operation_id p) ''operation_id'') (\<lambda>_.
     rbind (validate_scope ''runtime.configure'' (setting_scope (rp_setting_keys p))) (\<lambda>_.
     rbind (rc_sha (JStr (rp_before_state_sha256 p)) ''before_state_sha256'') (\<lambda>_.
     rbind (rc_sha (JStr (rp_after_state_sha256 p)) ''after_state_sha256'') (\<lambda>_.
     rbind (rc_sha (JStr (rp_change_set_sha256 p)) ''change_set_sha256'') (\<lambda>_.
     rbind (rc_sha (JStr (rp_host_binding_sha256 p)) ''host_binding_sha256'') (\<lambda>_.
       if rp_before_state_sha256 p = rp_after_state_sha256 p
       then Inl (RuntimeConfigError ''runtime configuration plan must change state'')
       else if rp_epoch_before p < 0 then Inl (RuntimeConfigError ''epoch_before must be a non-negative integer'')
       else Inr ()))))))"

definition rp_build ::
  "string \<Rightarrow> string list \<Rightarrow> string \<Rightarrow> string \<Rightarrow> string \<Rightarrow> string \<Rightarrow> int \<Rightarrow> config_plan res" where
  "rp_build operation_id setting_keys before_state after_state change_set host_binding epoch_before =
     rbind (validate_scope ''runtime.configure'' (setting_scope setting_keys)) (\<lambda>scope.
     rbind (rc_text operation_id ''operation_id'') (\<lambda>oid.
     rbind (rc_sha (JStr before_state) ''before_state_sha256'') (\<lambda>before.
     rbind (rc_sha (JStr after_state) ''after_state_sha256'') (\<lambda>after.
     rbind (rc_sha (JStr change_set) ''change_set_sha256'') (\<lambda>change.
     rbind (rc_sha (JStr host_binding) ''host_binding_sha256'') (\<lambda>host.
       let item = \<lparr>rp_operation_id = oid, rp_setting_keys = jstrs (dget scope ''setting_keys''),
              rp_before_state_sha256 = before, rp_after_state_sha256 = after, rp_change_set_sha256 = change,
              rp_host_binding_sha256 = host, rp_epoch_before = epoch_before\<rparr>
       in rbind (rp_validate item) (\<lambda>_. Inr item)))))))"

definition rp_body :: "config_plan \<Rightarrow> (string \<times> json) list" where
  "rp_body p =
     [(''schema'', JStr CONFIG_PLAN_SCHEMA),
      (''operation_id'', JStr (rp_operation_id p)),
      (''setting_keys'', JList (map JStr (rp_setting_keys p))),
      (''before_state_sha256'', JStr (rp_before_state_sha256 p)),
      (''after_state_sha256'', JStr (rp_after_state_sha256 p)),
      (''change_set_sha256'', JStr (rp_change_set_sha256 p)),
      (''host_binding_sha256'', JStr (rp_host_binding_sha256 p)),
      (''epoch_before'', JInt (rp_epoch_before p))]"

definition plan_sha256 :: "config_plan \<Rightarrow> string" where
  "plan_sha256 p = canonical_sha256 (JObj (rp_body p))"

definition plan_payload_sha256 :: "config_plan \<Rightarrow> string" where
  "plan_payload_sha256 p = canonical_sha256 (JObj [(''runtime_config_plan_sha256'', JStr (plan_sha256 p))])"

record config_receipt =
  cr_operation_id :: string
  cr_plan_sha256 :: string
  cr_before_state_sha256 :: string
  cr_after_state_sha256 :: string
  cr_epoch_before :: int
  cr_epoch_after :: int
  cr_mediation_receipt_sha256 :: string
  cr_host_evidence_sha256 :: string
  cr_revoked_authority_count :: int
  cr_revoked_authority_set_sha256 :: string
  cr_decision :: string
  cr_outcome :: string
  cr_reason_codes :: "string list"
  cr_receipt_sha256 :: string

definition cr_body :: "config_receipt \<Rightarrow> (string \<times> json) list" where
  "cr_body r =
     [(''schema'', JStr CONFIG_SCHEMA),
      (''operation_id'', JStr (cr_operation_id r)),
      (''plan_sha256'', JStr (cr_plan_sha256 r)),
      (''before_state_sha256'', JStr (cr_before_state_sha256 r)),
      (''after_state_sha256'', JStr (cr_after_state_sha256 r)),
      (''epoch_before'', JInt (cr_epoch_before r)),
      (''epoch_after'', JInt (cr_epoch_after r)),
      (''mediation_receipt_sha256'', JStr (cr_mediation_receipt_sha256 r)),
      (''host_evidence_sha256'', JStr (cr_host_evidence_sha256 r)),
      (''revoked_authority_count'', JInt (cr_revoked_authority_count r)),
      (''revoked_authority_set_sha256'', JStr (cr_revoked_authority_set_sha256 r)),
      (''decision'', JStr (cr_decision r)),
      (''outcome'', JStr (cr_outcome r)),
      (''reason_codes'', JList (map JStr (cr_reason_codes r))),
      (''authority'', CONFIG_AUTHORITY)]"

definition cr_as_document :: "config_receipt \<Rightarrow> (string \<times> json) list" where
  "cr_as_document r = cr_body r @ [(''receipt_sha256'', JStr (cr_receipt_sha256 r))]"

record rconfig =
  rc_host_binding_sha256 :: string
  rc_state_sha256 :: string
  rc_epoch :: int
  rc_tainted :: bool
  rc_seen_plans :: "string set"
  rc_receipts :: "config_receipt list"

record 'w config_backend =
  cb_observe :: "('w, (string \<times> json) list) op"
  cb_apply :: "config_plan \<Rightarrow> ('w, unit) op"

subsection \<open>The broker's private methods\<close>

definition rc_observe :: "'w config_backend \<Rightarrow> string \<Rightarrow> ('w, state_evidence) op" where
  "rc_observe backend host_binding =
     obind (cb_observe backend) (\<lambda>raw. olift (se_from_mapping host_binding raw))"

definition rconfig_init :: "'w config_backend \<Rightarrow> string \<Rightarrow> ('w, rconfig) op" where
  "rconfig_init backend host_binding_sha256 =
     obind (olift (rc_sha (JStr host_binding_sha256) ''host_binding_sha256'')) (\<lambda>host.
     obind (rc_observe backend host) (\<lambda>initial.
       oret \<lparr>rc_host_binding_sha256 = host, rc_state_sha256 = se_state_sha256 initial, rc_epoch = 0,
             rc_tainted = False, rc_seen_plans = {}, rc_receipts = []\<rparr>))"

text \<open>The loop of \<open>_advance_epoch\<close>: here an exception of \<open>revoke\<close> is not caught.\<close>

fun revoke_listed :: "int \<Rightarrow> (string \<times> json) list list \<Rightarrow> string list \<Rightarrow> (broker, string list) op" where
  "revoke_listed at_unix [] revoked b = (Inr revoked, b)"
| "revoke_listed at_unix (item # items) revoked b =
     (if \<not> py_eq (dget item ''status'') (JStr ''active'') then revoke_listed at_unix items revoked b
      else (let cap_id = jstr (dget item ''capability_id'') in
        obind (b_revoke cap_id at_unix) (\<lambda>result.
          if py_eq (dget result ''decision'') (JStr ''ALLOW'')
          then revoke_listed at_unix items (revoked @ [cap_id])
          else revoke_listed at_unix items revoked) b))"

definition revoke_authority :: "int \<Rightarrow> (broker, string list) op" where
  "revoke_authority at_unix b = obind (revoke_listed at_unix (b_capabilities b) []) (\<lambda>revoked. oret (sort revoked)) b"

definition rc_finish ::
  "runtime_operation \<Rightarrow> config_plan \<Rightarrow> string \<Rightarrow> string \<Rightarrow> int \<Rightarrow> int \<Rightarrow> string \<Rightarrow> string \<Rightarrow> string list \<Rightarrow>
   string \<Rightarrow> string \<Rightarrow> string list \<Rightarrow> (rconfig, (string \<times> json) list) op" where
  "rc_finish operation plan before_state after_state epoch_before epoch_after mediation_sha host_evidence_sha
     revoked decision outcome reasons c =
     (let base = \<lparr>cr_operation_id = ro_operation_id operation, cr_plan_sha256 = plan_sha256 plan,
            cr_before_state_sha256 = before_state, cr_after_state_sha256 = after_state,
            cr_epoch_before = epoch_before, cr_epoch_after = epoch_after,
            cr_mediation_receipt_sha256 = mediation_sha, cr_host_evidence_sha256 = host_evidence_sha,
            cr_revoked_authority_count = int (length revoked),
            cr_revoked_authority_set_sha256 = canonical_sha256 (JList (map JStr revoked)),
            cr_decision = decision, cr_outcome = outcome, cr_reason_codes = sort (remdups reasons),
            cr_receipt_sha256 = []\<rparr>;
          receipt = base\<lparr>cr_receipt_sha256 := canonical_sha256 (JObj (cr_body base))\<rparr>
      in (Inr (cr_as_document receipt), c\<lparr>rc_receipts := rc_receipts c @ [receipt]\<rparr>))"

subsection \<open>Execution\<close>

type_synonym 'w governed = "((broker \<times> 'w) \<times> mediator) \<times> rconfig"

text \<open>The closure handed to the mediator; \<open>captured\<close> is the second component of its state.\<close>

definition config_executor ::
  "'w config_backend \<Rightarrow> string \<Rightarrow> config_plan \<Rightarrow> runtime_operation \<Rightarrow> ((broker \<times> 'w) \<times> state_evidence option, observation option) op" where
  "config_executor backend host plan operation =
     obind (on_fst (on_snd (cb_apply backend plan))) (\<lambda>_.
     obind (on_fst (on_snd (rc_observe backend host))) (\<lambda>after s.
       (Inr (Some (ob_success
          [(''runtime_config_plan_sha256'', JStr (plan_sha256 plan)),
           (''after_state_sha256'', JStr (se_state_sha256 after)),
           (''host_evidence_sha256'', JStr (se_evidence_sha256 after))])), (fst s, Some after))))"

definition config_mediate ::
  "'w config_backend \<Rightarrow> string \<Rightarrow> config_plan \<Rightarrow> runtime_operation \<Rightarrow>
   ((broker \<times> 'w) \<times> mediator, (string \<times> json) list \<times> state_evidence option) op" where
  "config_mediate backend host plan operation s =
     (case m_mediate (\<lambda>rq. on_fst (on_fst (b_authorize rq))) (config_executor backend host plan) operation
             ((fst s, None), snd s) of
        (r, ((bw, captured), m)) \<Rightarrow> (rbind r (\<lambda>doc. Inr (doc, captured)), (bw, m)))"

definition rc_advance_epoch :: "string \<Rightarrow> int \<Rightarrow> ('w governed, string list) op" where
  "rc_advance_epoch state_sha at_unix =
     obind (olift (rc_sha (JStr state_sha) ''state_sha256'')) (\<lambda>_.
     obind (on_snd (omodify (\<lambda>c. c\<lparr>rc_epoch := rc_epoch c + 1, rc_state_sha256 := state_sha\<rparr>))) (\<lambda>_.
       on_fst (on_fst (on_fst (revoke_authority at_unix)))))"

definition on_config_world :: "('w, 'a) op \<Rightarrow> ('w governed, 'a) op" where
  "on_config_world m = on_fst (on_fst (on_snd m))"

text \<open>The part of \<open>execute\<close> after the mediator admitted the mutation.\<close>

definition rc_settle ::
  "'w config_backend \<Rightarrow> runtime_operation \<Rightarrow> config_plan \<Rightarrow> string \<Rightarrow> int \<Rightarrow> (string \<times> json) list \<Rightarrow>
   state_evidence option \<Rightarrow> ('w governed, (string \<times> json) list) op" where
  "rc_settle backend operation plan before_state before_epoch mediation captured =
     (let mediation_sha = jstr (dget mediation ''receipt_sha256'') in
      case (if py_eq (dget mediation ''execution_outcome'') (JStr ''SUCCEEDED'') then captured else None) of
        Some after \<Rightarrow>
          if se_state_sha256 after = rp_after_state_sha256 plan
          then obind (rc_advance_epoch (se_state_sha256 after) (ro_at_unix operation)) (\<lambda>revoked s.
            on_snd (rc_finish operation plan before_state (se_state_sha256 after) before_epoch (rc_epoch (snd s))
              mediation_sha (se_evidence_sha256 after) revoked ''ALLOW'' ''SUCCEEDED''
              [''exact_state_transition'', ''runtime_epoch_advanced'', ''old_epoch_authority_revoked'']) s)
          else obind (rc_advance_epoch (se_state_sha256 after) (ro_at_unix operation)) (\<lambda>revoked.
               obind (on_snd (omodify (\<lambda>c. c\<lparr>rc_tainted := True\<rparr>))) (\<lambda>_ s.
            on_snd (rc_finish operation plan before_state (se_state_sha256 after) before_epoch (rc_epoch (snd s))
              mediation_sha (se_evidence_sha256 after) revoked ''BLOCK'' ''FAILED_CLOSED''
              [''after_state_mismatch'', ''runtime_epoch_advanced'', ''old_epoch_authority_revoked'', ''runtime_state_tainted'']) s))
      | None \<Rightarrow> (\<lambda>s.
          obind (otry (obind (on_config_world (rc_observe backend (rc_host_binding_sha256 (snd s)))) (\<lambda>uncertain.
                   oret (se_state_sha256 uncertain, se_evidence_sha256 uncertain)))
                 (\<lambda>_. oret (ZERO_SHA256, ZERO_SHA256))) (\<lambda>(observed_state, evidence_sha).
          obind (rc_advance_epoch observed_state (ro_at_unix operation)) (\<lambda>revoked.
          obind (on_snd (omodify (\<lambda>c. c\<lparr>rc_tainted := True\<rparr>))) (\<lambda>_ s.
            on_snd (rc_finish operation plan before_state observed_state before_epoch (rc_epoch (snd s))
              mediation_sha evidence_sha revoked ''BLOCK'' ''FAILED_CLOSED''
              [''host_mutation_unverified'', ''runtime_epoch_advanced'', ''old_epoch_authority_revoked'', ''runtime_state_tainted'']) s))) s))"

definition rc_execute ::
  "'w config_backend \<Rightarrow> runtime_operation \<Rightarrow> config_plan \<Rightarrow> ('w governed, (string \<times> json) list) op" where
  "rc_execute backend operation plan s =
     (let c = snd s; before_epoch = rc_epoch c; before_state = rc_state_sha256 c;
          blocked = (\<lambda>after_state mediation_sha evidence_sha reasons.
            on_snd (rc_finish operation plan before_state after_state before_epoch before_epoch mediation_sha evidence_sha
              [] ''BLOCK'' ''NOT_EXECUTED'' reasons))
      in obind (olift (ro_validate operation)) (\<lambda>_.
         obind (olift (rp_validate plan)) (\<lambda>_.
         if ro_kind operation \<noteq> ''runtime.configure''
         then oraise (RuntimeConfigError ''bound runtime configuration only accepts runtime.configure'')
         else if ro_operation_id operation \<noteq> rp_operation_id plan
         then oraise (RuntimeConfigError ''operation_id does not match runtime configuration plan'')
         else obind (olift (ro_normalized_scope operation)) (\<lambda>scope.
         if jstrs (dget scope ''setting_keys'') \<noteq> rp_setting_keys plan
         then oraise (RuntimeConfigError ''runtime configuration setting scope must exactly match plan'')
         else if ro_payload_sha256 operation \<noteq> plan_payload_sha256 plan
         then oraise (RuntimeConfigError ''runtime payload is not bound to the configuration plan'')
         else if rp_host_binding_sha256 plan \<noteq> rc_host_binding_sha256 c
         then blocked before_state ZERO_SHA256 ZERO_SHA256 [''host_binding_mismatch'']
         else if rc_tainted c then blocked before_state ZERO_SHA256 ZERO_SHA256 [''runtime_state_unverified'']
         else if plan_sha256 plan \<in> rc_seen_plans c then blocked before_state ZERO_SHA256 ZERO_SHA256 [''plan_replay'']
         else if rp_epoch_before plan \<noteq> rc_epoch c
         then blocked before_state ZERO_SHA256 ZERO_SHA256 [''stale_runtime_epoch'']
         else obind (on_config_world (rc_observe backend (rc_host_binding_sha256 c))) (\<lambda>trusted_before.
           if se_state_sha256 trusted_before \<noteq> before_state \<or> rp_before_state_sha256 plan \<noteq> se_state_sha256 trusted_before
           then obind (on_snd (omodify (\<lambda>c. c\<lparr>rc_state_sha256 := se_state_sha256 trusted_before\<rparr>))) (\<lambda>_.
                  blocked (se_state_sha256 trusted_before) ZERO_SHA256 (se_evidence_sha256 trusted_before) [''stale_before_state''])
           else obind (on_fst (config_mediate backend (rc_host_binding_sha256 c) plan operation)) (\<lambda>(mediation, captured).
             if \<not> py_eq (dget mediation ''admission_decision'') (JStr ''ALLOW'')
             then blocked before_state (jstr (dget mediation ''receipt_sha256'')) ZERO_SHA256
                    (jstrs (dget mediation ''reason_codes''))
             else obind (on_snd (omodify (\<lambda>c. c\<lparr>rc_seen_plans := insert (plan_sha256 plan) (rc_seen_plans c)\<rparr>))) (\<lambda>_.
                    rc_settle backend operation plan before_state before_epoch mediation captured)))))) s)"

definition rc_state_document :: "rconfig \<Rightarrow> (string \<times> json) list" where
  "rc_state_document c =
     (let body = [(''schema'', JStr ''liminal-bound-runtime-config-state-v0.1''), (''epoch'', JInt (rc_epoch c)),
            (''state_sha256'', JStr (rc_state_sha256 c)), (''tainted'', JBool (rc_tainted c)),
            (''seen_plan_count'', JInt (int (card (rc_seen_plans c)))), (''authority'', CONFIG_AUTHORITY)]
      in body @ [(''state_document_sha256'', JStr (canonical_sha256 (JObj body)))])"

fun rc_check_shas :: "(string \<times> json) list \<Rightarrow> string list \<Rightarrow> unit res" where
  "rc_check_shas raw [] = Inr ()"
| "rc_check_shas raw (k # ks) = rbind (rc_sha (dget raw k) k) (\<lambda>_. rc_check_shas raw ks)"

definition rc_verify_receipt :: "(string \<times> json) list \<Rightarrow> (string \<times> json) list res" where
  "rc_verify_receipt document =
     (let digest = dget document ''receipt_sha256''; raw = dpop document ''receipt_sha256'' in
      if \<not> py_eq (dget raw ''schema'') (JStr CONFIG_SCHEMA) \<or> \<not> py_eq (dget raw ''authority'') CONFIG_AUTHORITY
      then Inl (RuntimeConfigError ''runtime configuration receipt schema or authority mismatch'')
      else rbind (rc_check_shas raw
             [''plan_sha256'', ''before_state_sha256'', ''after_state_sha256'', ''mediation_receipt_sha256'',
              ''host_evidence_sha256'', ''revoked_authority_set_sha256'']) (\<lambda>_.
        rbind (py_in_set (dget raw ''decision'') [''ALLOW'', ''BLOCK'']) (\<lambda>known.
        if \<not> known then Inl (RuntimeConfigError ''unsupported runtime configuration decision'')
        else rbind (py_in_set (dget raw ''outcome'') [''SUCCEEDED'', ''NOT_EXECUTED'', ''FAILED_CLOSED'']) (\<lambda>known.
        if \<not> known then Inl (RuntimeConfigError ''unsupported runtime configuration outcome'')
        else rbind (check_counts (\<lambda>m. RuntimeConfigError m) raw
               [''epoch_before'', ''epoch_after'', ''revoked_authority_count'']) (\<lambda>_.
          if json_int (dget raw ''epoch_after'') < json_int (dget raw ''epoch_before'')
          then Inl (RuntimeConfigError ''runtime epoch cannot move backwards'')
          else if \<not> py_eq digest (JStr (canonical_sha256 (JObj raw)))
          then Inl (RuntimeConfigError ''runtime configuration receipt digest mismatch'')
          else Inr document)))))"

end
