(* ===== verification/Epoch_Capability.thy ===== *)
theory Epoch_Capability
  imports Runtime_Config
begin

section \<open>Epoch-bound capabilities\<close>

text \<open>
  Model of src/sdk/liminal_epoch_bound_capability: contracts that bind a capability contract to one
  runtime epoch and state digest, and the broker that wraps a capability broker, removes stale and
  unbound authority before every decision and answers with its own receipts. A call acts on the wrapped
  broker (\<open>delegate\<close>), on the world that the injected \<open>runtime_provider\<close> reads, and on the fields
  \<open>ebroker\<close> of the wrapper.
\<close>

subsection \<open>Data\<close>

abbreviation EpochBindingError :: "string \<Rightarrow> exn" where
  "EpochBindingError m \<equiv> Exn ''EpochBindingError'' m"

definition EPOCH_CONTRACT_SCHEMA :: string where
  "EPOCH_CONTRACT_SCHEMA = ''liminal-epoch-bound-capability-contract-v0.1''"

definition EPOCH_DECISION_SCHEMA :: string where
  "EPOCH_DECISION_SCHEMA = ''liminal-epoch-bound-capability-decision-v0.1''"

definition EPOCH_STATE_SCHEMA :: string where
  "EPOCH_STATE_SCHEMA = ''liminal-epoch-bound-capability-broker-state-v0.1''"

definition EPOCH_AUTHORITY :: json where
  "EPOCH_AUTHORITY = JObj
     [(''mode'', JStr ''runtime_epoch_capability_restriction''), (''base_capability_schema_preserved'', JBool True),
      (''trusted_runtime_state_required'', JBool True), (''admission_epoch_check'', JBool True),
      (''use_epoch_check'', JBool True), (''stale_authority_revocation'', JBool True),
      (''unbound_authority_revocation'', JBool True), (''new_effect_grant'', JBool False),
      (''runtime_mutation'', JBool False), (''process_execution'', JBool False),
      (''network_access'', JBool False), (''credential_access'', JBool False),
      (''kernel_enforcement'', JBool False)]"

fun eb_sha :: "json \<Rightarrow> string \<Rightarrow> string res" where
  "eb_sha (JStr s) name =
     (if is_sha256 s then Inr s else Inl (EpochBindingError (name @ '' must be lowercase SHA-256'')))"
| "eb_sha v name = Inl (EpochBindingError (name @ '' must be lowercase SHA-256''))"

fun eb_time :: "json \<Rightarrow> string \<Rightarrow> int res" where
  "eb_time (JInt i) name =
     (if i < 0 then Inl (EpochBindingError (name @ '' must be a non-negative integer'')) else Inr i)"
| "eb_time v name = Inl (EpochBindingError (name @ '' must be a non-negative integer''))"

record runtime_snapshot =
  ts_epoch :: int
  ts_state_sha256 :: string
  ts_tainted :: bool
  ts_snapshot_sha256 :: string

definition ts_of_document :: "(string \<times> json) list \<Rightarrow> runtime_snapshot res" where
  "ts_of_document raw =
     rbind (eb_time (dget raw ''epoch'') ''runtime epoch'') (\<lambda>epoch.
     rbind (eb_sha (dget raw ''state_sha256'') ''runtime state_sha256'') (\<lambda>state.
       case dget raw ''tainted'' of
         JBool tainted \<Rightarrow>
           (let body = [(''epoch'', JInt epoch), (''state_sha256'', JStr state), (''tainted'', JBool tainted)]
            in Inr \<lparr>ts_epoch = epoch, ts_state_sha256 = state, ts_tainted = tainted,
                    ts_snapshot_sha256 = canonical_sha256 (JObj body)\<rparr>)
       | _ \<Rightarrow> Inl (EpochBindingError ''runtime tainted flag must be boolean'')))"

text \<open>\<open>RuntimeEpochProvider\<close>: its \<open>state_document\<close>.\<close>

type_synonym 'w epoch_provider = "('w, (string \<times> json) list) op"

definition ts_from_provider :: "'w epoch_provider \<Rightarrow> ('w, runtime_snapshot) op" where
  "ts_from_provider provider = obind provider (\<lambda>raw. olift (ts_of_document raw))"

record bound_contract =
  bc_base_capability :: json
  bc_runtime_epoch :: int
  bc_runtime_state_sha256 :: string
  bc_binding_sha256 :: string

definition bc_body :: "bound_contract \<Rightarrow> (string \<times> json) list" where
  "bc_body c =
     [(''schema'', JStr EPOCH_CONTRACT_SCHEMA),
      (''base_capability'', bc_base_capability c),
      (''runtime_epoch'', JInt (bc_runtime_epoch c)),
      (''runtime_state_sha256'', JStr (bc_runtime_state_sha256 c)),
      (''authority'', EPOCH_AUTHORITY)]"

definition bc_as_document :: "bound_contract \<Rightarrow> (string \<times> json) list" where
  "bc_as_document c = bc_body c @ [(''binding_sha256'', JStr (bc_binding_sha256 c))]"

definition bc_base :: "bound_contract \<Rightarrow> capability_contract res" where
  "bc_base c = cc_from_document (bc_base_capability c)"

definition bc_build :: "(string \<times> json) list \<Rightarrow> int \<Rightarrow> string \<Rightarrow> bound_contract res" where
  "bc_build base_capability runtime_epoch runtime_state_sha256 =
     rbind (cc_from_document (JObj base_capability)) (\<lambda>base.
     rbind (eb_time (JInt runtime_epoch) ''runtime_epoch'') (\<lambda>epoch.
     rbind (eb_sha (JStr runtime_state_sha256) ''runtime_state_sha256'') (\<lambda>state.
       let item = \<lparr>bc_base_capability = cc_as_document base, bc_runtime_epoch = epoch,
                   bc_runtime_state_sha256 = state, bc_binding_sha256 = []\<rparr>
       in Inr (item\<lparr>bc_binding_sha256 := canonical_sha256 (JObj (bc_body item))\<rparr>))))"

subsection \<open>The dictionary of a value\<close>

text \<open>\<open>dict(v)\<close>: a mapping is copied; otherwise \<open>v\<close> has to be an iterable of pairs, where a pair may
  itself be a list, a text of two characters or a mapping of two keys. A key that is not a text cannot
  be a key of a contract, so it is reported like a bad pair; every failure ends in the same handler.\<close>

definition utf8_split :: "string \<Rightarrow> string \<times> string" where
  "utf8_split s = (let n = 1 + length (takeWhile (\<lambda>c. CHR 0x80 \<le> c \<and> c \<le> CHR 0xBF) (tl s)) in (take n s, drop n s))"

fun py_pair :: "json \<Rightarrow> (string \<times> json) res" where
  "py_pair (JList [JStr k, v]) = Inr (k, v)"
| "py_pair (JStr s) =
     (if py_len s = 2 then Inr (fst (utf8_split s), JStr (snd (utf8_split s)))
      else Inl (Exn ''ValueError'' ''dictionary update sequence element has wrong length''))"
| "py_pair (JObj [(k, _), (v, _)]) = Inr (k, JStr v)"
| "py_pair _ = Inl (Exn ''TypeError'' ''cannot convert dictionary update sequence element'')"

fun py_dict :: "json \<Rightarrow> (string \<times> json) list res" where
  "py_dict (JObj d) = Inr d"
| "py_dict (JList xs) = rbind (rmap py_pair xs) (\<lambda>ps. Inr (dmerge [] ps))"
| "py_dict (JStr s) =
     (if s = [] then Inr [] else Inl (Exn ''ValueError'' ''dictionary update sequence element has wrong length''))"
| "py_dict _ = Inl (Exn ''TypeError'' ''object is not iterable'')"

definition as_binding_error :: "exn \<Rightarrow> exn" where
  "as_binding_error e =
     (if exn_class e \<in> set [''ContractError'', ''TypeError'', ''ValueError''] then EpochBindingError (exn_msg e) else e)"

definition bc_from_document :: "(string \<times> json) list \<Rightarrow> bound_contract res" where
  "bc_from_document raw =
     (if \<not> same_keys raw [''schema'', ''base_capability'', ''runtime_epoch'', ''runtime_state_sha256'',
              ''authority'', ''binding_sha256'']
      then Inl (EpochBindingError ''epoch-bound capability contract keys mismatch'')
      else if \<not> py_eq (dget raw ''schema'') (JStr EPOCH_CONTRACT_SCHEMA) \<or> \<not> py_eq (dget raw ''authority'') EPOCH_AUTHORITY
      then Inl (EpochBindingError ''epoch-bound capability schema or authority mismatch'')
      else case rbind (py_dict (dget raw ''base_capability'')) (\<lambda>d. cc_from_document (JObj d)) of
        Inl exc \<Rightarrow> Inl (as_binding_error exc)
      | Inr base \<Rightarrow>
          rbind (eb_time (dget raw ''runtime_epoch'') ''runtime_epoch'') (\<lambda>epoch.
          rbind (eb_sha (dget raw ''runtime_state_sha256'') ''runtime_state_sha256'') (\<lambda>state.
          rbind (eb_sha (dget raw ''binding_sha256'') ''binding_sha256'') (\<lambda>binding.
            let item = \<lparr>bc_base_capability = cc_as_document base, bc_runtime_epoch = epoch,
                        bc_runtime_state_sha256 = state, bc_binding_sha256 = binding\<rparr>
            in if canonical_sha256 (JObj (bc_body item)) \<noteq> bc_binding_sha256 item
               then Inl (EpochBindingError ''epoch-bound capability binding_sha256 mismatch'')
               else Inr item))))"

definition eb_verify_contract :: "(string \<times> json) list \<Rightarrow> (string \<times> json) list res" where
  "eb_verify_contract document = rbind (bc_from_document document) (\<lambda>c. Inr (bc_as_document c))"

record epoch_receipt =
  xr_decision_id :: string
  xr_capability_id :: "string option"
  xr_subject_id :: string
  xr_capability_type :: string
  xr_bound_contract_sha256 :: string
  xr_base_contract_sha256 :: string
  xr_runtime_epoch_bound :: int
  xr_runtime_epoch_observed :: int
  xr_runtime_state_sha256_bound :: string
  xr_runtime_state_sha256_observed :: string
  xr_runtime_snapshot_sha256 :: string
  xr_delegate_receipt_sha256 :: string
  xr_decision :: string
  xr_reason_codes :: "string list"
  xr_at_unix :: int
  xr_receipt_sha256 :: string

definition xr_body :: "epoch_receipt \<Rightarrow> (string \<times> json) list" where
  "xr_body r =
     [(''schema'', JStr EPOCH_DECISION_SCHEMA),
      (''decision_id'', JStr (xr_decision_id r)),
      (''capability_id'', jopt (xr_capability_id r)),
      (''subject_id'', JStr (xr_subject_id r)),
      (''capability_type'', JStr (xr_capability_type r)),
      (''bound_contract_sha256'', JStr (xr_bound_contract_sha256 r)),
      (''base_contract_sha256'', JStr (xr_base_contract_sha256 r)),
      (''runtime_epoch_bound'', JInt (xr_runtime_epoch_bound r)),
      (''runtime_epoch_observed'', JInt (xr_runtime_epoch_observed r)),
      (''runtime_state_sha256_bound'', JStr (xr_runtime_state_sha256_bound r)),
      (''runtime_state_sha256_observed'', JStr (xr_runtime_state_sha256_observed r)),
      (''runtime_snapshot_sha256'', JStr (xr_runtime_snapshot_sha256 r)),
      (''delegate_receipt_sha256'', JStr (xr_delegate_receipt_sha256 r)),
      (''decision'', JStr (xr_decision r)),
      (''reason_codes'', JList (map JStr (xr_reason_codes r))),
      (''at_unix'', JInt (xr_at_unix r)),
      (''authority'', EPOCH_AUTHORITY)]"

definition xr_as_document :: "epoch_receipt \<Rightarrow> (string \<times> json) list" where
  "xr_as_document r = xr_body r @ [(''receipt_sha256'', JStr (xr_receipt_sha256 r))]"

record ebroker =
  eb_broker_id :: string
  eb_bindings :: "(string \<times> bound_contract) list"
  eb_receipts :: "epoch_receipt list"
  eb_head :: string

type_synonym 'w esystem = "(broker \<times> 'w) \<times> ebroker"

definition ebroker_init :: "broker option \<Rightarrow> string \<Rightarrow> (broker \<times> ebroker) res" where
  "ebroker_init delegate broker_id =
     rbind (case delegate of Some b \<Rightarrow> Inr b | None \<Rightarrow> broker_init broker_id) (\<lambda>b.
       Inr (b, \<lparr>eb_broker_id = broker_id, eb_bindings = [], eb_receipts = [], eb_head = ZERO_SHA256\<rparr>))"

definition eb_head_sha256 :: "'w esystem \<Rightarrow> string" where
  "eb_head_sha256 s = canonical_sha256 (JObj
     [(''delegate_head_sha256'', JStr (b_head (fst (fst s)))), (''epoch_binding_head_sha256'', JStr (eb_head (snd s)))])"

definition on_delegate :: "(broker, 'a) op \<Rightarrow> ('w esystem, 'a) op" where
  "on_delegate m = on_fst (on_fst m)"

definition on_provider :: "('w, 'a) op \<Rightarrow> ('w esystem, 'a) op" where
  "on_provider m = on_fst (on_snd m)"

subsection \<open>Receipts\<close>

definition eb_receipt ::
  "string option \<Rightarrow> string \<Rightarrow> string \<Rightarrow> string \<Rightarrow> string \<Rightarrow> int \<Rightarrow> string \<Rightarrow> runtime_snapshot \<Rightarrow> string \<Rightarrow>
   string \<Rightarrow> string list \<Rightarrow> int \<Rightarrow> (ebroker, (string \<times> json) list) op" where
  "eb_receipt capability_id subject_id capability_type bound_sha base_sha epoch_bound state_bound snapshot
     delegate_sha decision reasons at_unix e =
     (if decision \<notin> set [''ALLOW'', ''BLOCK'']
      then (Inl (EpochBindingError ''epoch-bound broker decision must be ALLOW or BLOCK''), e)
      else obind (olift (eb_sha (JStr bound_sha) ''bound_contract_sha256'')) (\<lambda>bound_sha.
        obind (olift (eb_sha (JStr base_sha) ''base_contract_sha256'')) (\<lambda>base_sha.
        obind (olift (eb_time (JInt epoch_bound) ''runtime_epoch_bound'')) (\<lambda>epoch_bound.
        obind (olift (eb_sha (JStr state_bound) ''runtime_state_sha256_bound'')) (\<lambda>state_bound.
        obind (olift (eb_sha (JStr delegate_sha) ''delegate_receipt_sha256'')) (\<lambda>delegate_sha.
        obind (olift (eb_time (JInt at_unix) ''at_unix'')) (\<lambda>at_unix e.
          let item = \<lparr>xr_decision_id = ''epoch-bound-decision:'' @ nat_str (length (eb_receipts e) + 1),
                xr_capability_id = capability_id, xr_subject_id = subject_id, xr_capability_type = capability_type,
                xr_bound_contract_sha256 = bound_sha, xr_base_contract_sha256 = base_sha,
                xr_runtime_epoch_bound = epoch_bound, xr_runtime_epoch_observed = ts_epoch snapshot,
                xr_runtime_state_sha256_bound = state_bound,
                xr_runtime_state_sha256_observed = ts_state_sha256 snapshot,
                xr_runtime_snapshot_sha256 = ts_snapshot_sha256 snapshot, xr_delegate_receipt_sha256 = delegate_sha,
                xr_decision = decision, xr_reason_codes = sort (remdups reasons), xr_at_unix = at_unix,
                xr_receipt_sha256 = []\<rparr>;
              receipt = item\<lparr>xr_receipt_sha256 := canonical_sha256 (JObj (xr_body item))\<rparr>
          in (Inr (xr_as_document receipt),
              e\<lparr>eb_receipts := eb_receipts e @ [receipt], eb_head := xr_receipt_sha256 receipt\<rparr>))))))) e)"

definition eb_finish ::
  "bound_contract \<Rightarrow> runtime_snapshot \<Rightarrow> string \<Rightarrow> string \<Rightarrow> string list \<Rightarrow> int \<Rightarrow> string option \<Rightarrow>
   (ebroker, (string \<times> json) list) op" where
  "eb_finish bound snapshot delegate_sha decision reasons at_unix capability_id =
     obind (olift (bc_base bound)) (\<lambda>base.
       eb_receipt capability_id (cc_subject_id base) (cc_capability_type base) (bc_binding_sha256 bound)
         (cc_contract_sha256 base) (bc_runtime_epoch bound) (bc_runtime_state_sha256 bound) snapshot
         delegate_sha decision reasons at_unix)"

definition eb_finish_generic ::
  "bound_contract option \<Rightarrow> string \<Rightarrow> string \<Rightarrow> string \<Rightarrow> runtime_snapshot \<Rightarrow> string \<Rightarrow> string \<Rightarrow> string list \<Rightarrow> int \<Rightarrow>
   (ebroker, (string \<times> json) list) op" where
  "eb_finish_generic representative subject_id capability_type policy_sha256 snapshot delegate_sha decision reasons at_unix =
     obind (olift (eb_sha (JStr policy_sha256) ''policy_sha256'')) (\<lambda>_.
     obind (olift (case representative of
         None \<Rightarrow> Inr (ZERO_SHA256, ZERO_SHA256, ts_epoch snapshot, ts_state_sha256 snapshot)
       | Some bound \<Rightarrow> rbind (bc_base bound) (\<lambda>base.
           Inr (bc_binding_sha256 bound, cc_contract_sha256 base, bc_runtime_epoch bound, bc_runtime_state_sha256 bound))))
       (\<lambda>(bound_sha, base_sha, epoch_bound, state_bound).
         eb_receipt None subject_id capability_type bound_sha base_sha epoch_bound state_bound snapshot
           delegate_sha decision (if reasons = [] then [''default_deny''] else reasons) at_unix))"

subsection \<open>Removing stale authority\<close>

definition binding_mismatch :: "bound_contract \<Rightarrow> runtime_snapshot \<Rightarrow> string list" where
  "binding_mismatch bound snapshot =
     (if bc_runtime_epoch bound \<noteq> ts_epoch snapshot then [''stale_runtime_epoch''] else []) @
     (if bc_runtime_state_sha256 bound \<noteq> ts_state_sha256 snapshot then [''stale_runtime_state''] else [])"

text \<open>One revocation of the loop: the reasons and the local table of statuses change only when the
  delegate answers ALLOW.\<close>

definition reconcile_revoke ::
  "string \<Rightarrow> int \<Rightarrow> string list \<Rightarrow> string set \<times> (string \<times> json) list \<Rightarrow>
   (broker, string set \<times> (string \<times> json) list) op" where
  "reconcile_revoke cap_id at_unix why acc =
     obind (b_revoke cap_id at_unix) (\<lambda>result.
       oret (if py_eq (dget result ''decision'') (JStr ''ALLOW'')
             then (fst acc \<union> set why, AList.update cap_id (JStr ''revoked'') (snd acc)) else acc))"

definition reconcile_item ::
  "(string \<times> bound_contract) list \<Rightarrow> runtime_snapshot \<Rightarrow> int \<Rightarrow> (string \<times> json) list \<Rightarrow>
   string set \<times> (string \<times> json) list \<Rightarrow> (broker, string set \<times> (string \<times> json) list) op" where
  "reconcile_item bindings snapshot at_unix item acc =
     (if \<not> py_eq (dget item ''status'') (JStr ''active'') then oret acc
      else (let cap_id = jstr (dget item ''capability_id'') in
        case map_of bindings cap_id of
          None \<Rightarrow> reconcile_revoke cap_id at_unix [''unbound_authority_revoked''] acc
        | Some bound \<Rightarrow>
            obind (olift (bc_base bound)) (\<lambda>base.
              case cc_parent_capability_id base of
                Some parent_id \<Rightarrow>
                  if \<not> py_eq (dget (snd acc) parent_id) (JStr ''active'')
                  then reconcile_revoke cap_id at_unix [''delegation_parent_inactive'', ''stale_authority_revoked''] acc
                  else if ts_tainted snapshot \<or> binding_mismatch bound snapshot \<noteq> []
                  then reconcile_revoke cap_id at_unix (''stale_authority_revoked'' # binding_mismatch bound snapshot) acc
                  else oret acc
              | None \<Rightarrow>
                  if ts_tainted snapshot \<or> binding_mismatch bound snapshot \<noteq> []
                  then reconcile_revoke cap_id at_unix (''stale_authority_revoked'' # binding_mismatch bound snapshot) acc
                  else oret acc)))"

fun reconcile_loop ::
  "(string \<times> bound_contract) list \<Rightarrow> runtime_snapshot \<Rightarrow> int \<Rightarrow> (string \<times> json) list list \<Rightarrow>
   string set \<times> (string \<times> json) list \<Rightarrow> (broker, string set \<times> (string \<times> json) list) op" where
  "reconcile_loop bindings snapshot at_unix [] acc = oret acc"
| "reconcile_loop bindings snapshot at_unix (item # items) acc =
     obind (reconcile_item bindings snapshot at_unix item acc) (reconcile_loop bindings snapshot at_unix items)"

definition reconcile :: "(string \<times> bound_contract) list \<Rightarrow> runtime_snapshot \<Rightarrow> int \<Rightarrow> (broker, string list) op" where
  "reconcile bindings snapshot at_unix b =
     (let items = b_capabilities b;
          statuses = map (\<lambda>item. (jstr (dget item ''capability_id''), dget item ''status'')) items
      in obind (reconcile_loop bindings snapshot at_unix items ({}, statuses)) (\<lambda>acc. oret (sorted_list_of_set (fst acc))) b)"

subsection \<open>Operations\<close>

text \<open>The reason for which the parent of a contract forbids its admission.\<close>

definition parent_reason :: "ebroker \<Rightarrow> bound_contract \<Rightarrow> capability_contract \<Rightarrow> string option" where
  "parent_reason e bound base =
     (case cc_parent_capability_id base of
        None \<Rightarrow> None
      | Some pid \<Rightarrow>
          (case map_of (eb_bindings e) pid of
             None \<Rightarrow> Some ''delegation_parent_not_epoch_bound''
           | Some parent \<Rightarrow>
               if bc_runtime_epoch parent \<noteq> bc_runtime_epoch bound \<or>
                  bc_runtime_state_sha256 parent \<noteq> bc_runtime_state_sha256 bound
               then Some ''delegation_runtime_binding_mismatch'' else None))"

definition delegate_sha :: "(string \<times> json) list \<Rightarrow> string res" where
  "delegate_sha delegate_receipt = rbind (dreq delegate_receipt ''receipt_sha256'') (\<lambda>v. eb_sha v ''delegate receipt'')"

text \<open>Admission by the delegate, once the contract matches the snapshot.\<close>

definition eb_delegate_admit ::
  "bound_contract \<Rightarrow> capability_contract \<Rightarrow> runtime_snapshot \<Rightarrow> int \<Rightarrow> ('w esystem, (string \<times> json) list) op" where
  "eb_delegate_admit bound base snapshot at_unix s =
     (case on_delegate (b_admit (jobj (cc_as_document base)) at_unix) s of
        (Inl exc, s) \<Rightarrow>
          if exn_class exc = ''BrokerError''
          then on_snd (eb_finish bound snapshot ZERO_SHA256 ''BLOCK'' [''delegate_admission_error'', exn_class exc] at_unix None) s
          else (Inl exc, s)
      | (Inr delegate_receipt, s) \<Rightarrow>
          if \<not> py_eq (dget delegate_receipt ''decision'') (JStr ''ALLOW'')
          then obind (olift (delegate_sha delegate_receipt)) (\<lambda>sha.
            on_snd (eb_finish bound snapshot sha ''BLOCK''
              (jstrs (dget delegate_receipt ''reason_codes'') @ [''delegate_admission_blocked'']) at_unix None)) s
          else obind (on_snd (omodify (\<lambda>e. e\<lparr>eb_bindings := AList.update (cc_capability_id base) bound (eb_bindings e)\<rparr>))) (\<lambda>_.
            obind (olift (delegate_sha delegate_receipt)) (\<lambda>sha.
              on_snd (eb_finish bound snapshot sha ''ALLOW'' [''epoch_binding_match'', ''base_capability_admitted''] at_unix
                (Some (cc_capability_id base))))) s)"

definition eb_admit :: "'w epoch_provider \<Rightarrow> (string \<times> json) list \<Rightarrow> int \<Rightarrow> ('w esystem, (string \<times> json) list) op" where
  "eb_admit provider document at_unix =
     obind (olift (eb_time (JInt at_unix) ''at_unix'')) (\<lambda>_.
     obind (olift (bc_from_document document)) (\<lambda>bound.
     obind (olift (bc_base bound)) (\<lambda>base s.
       if (case map_of (eb_bindings (snd s)) (cc_capability_id base) of
             Some existing \<Rightarrow> bc_binding_sha256 existing \<noteq> bc_binding_sha256 bound | None \<Rightarrow> False)
       then (Inl (EpochBindingError ''duplicate capability_id with different runtime binding''), s)
       else obind (on_provider (ts_from_provider provider)) (\<lambda>snapshot s.
         let block = (\<lambda>reasons. on_snd (eb_finish bound snapshot ZERO_SHA256 ''BLOCK'' reasons at_unix None) s) in
         if ts_tainted snapshot then block [''runtime_state_tainted'']
         else if binding_mismatch bound snapshot \<noteq> [] then block (binding_mismatch bound snapshot)
         else (case parent_reason (snd s) bound base of
                 Some reason \<Rightarrow> block [reason]
               | None \<Rightarrow> eb_delegate_admit bound base snapshot at_unix s)) s)))"

text \<open>The first of the bindings of the subject and type that match the snapshot, by capability id.\<close>

definition representative ::
  "(string \<times> bound_contract) list \<Rightarrow> string \<Rightarrow> string \<Rightarrow> runtime_snapshot \<Rightarrow> bound_contract option res" where
  "representative bindings subject_id capability_type snapshot =
     rbind (rmap (\<lambda>(_, bound). rbind (bc_base bound) (\<lambda>base. Inr (base, bound))) bindings) (\<lambda>pairs.
       case sort_key (\<lambda>(base, _). cc_capability_id base)
              (filter (\<lambda>(base, bound). cc_subject_id base = subject_id \<and> cc_capability_type base = capability_type \<and>
                 bc_runtime_epoch bound = ts_epoch snapshot \<and> bc_runtime_state_sha256 bound = ts_state_sha256 snapshot) pairs) of
         [] \<Rightarrow> Inr None
       | (_, bound) # _ \<Rightarrow> Inr (Some bound))"

definition bound_request :: "authz_request \<Rightarrow> runtime_snapshot \<Rightarrow> authz_request" where
  "bound_request rq snapshot =
     rq\<lparr>rq_action := dmerge (rq_action rq)
        [(''trusted_runtime_epoch'', JInt (ts_epoch snapshot)),
         (''trusted_runtime_state_sha256'', JStr (ts_state_sha256 snapshot)),
         (''trusted_runtime_snapshot_sha256'', JStr (ts_snapshot_sha256 snapshot))]\<rparr>"

text \<open>What \<open>authorize\<close> does with the delegate's receipt.\<close>

definition eb_decide ::
  "authz_request \<Rightarrow> runtime_snapshot \<Rightarrow> string list \<Rightarrow> bound_contract option \<Rightarrow> (string \<times> json) list \<Rightarrow>
   ('w esystem, (string \<times> json) list) op" where
  "eb_decide rq snapshot revoked_reasons rep delegate_receipt =
     obind (olift (delegate_sha delegate_receipt)) (\<lambda>receipt_sha s.
       let generic = (\<lambda>reasons. on_snd (eb_finish_generic rep (rq_subject_id rq) (rq_capability_type rq)
              (rq_policy_sha256 rq) snapshot receipt_sha ''BLOCK'' reasons (rq_at_unix rq)));
           capability_id = joptstr (dget delegate_receipt ''capability_id'')
       in if py_eq (dget delegate_receipt ''decision'') (JStr ''ALLOW'') then
            (case (case capability_id of None \<Rightarrow> None | Some cid \<Rightarrow> map_of (eb_bindings (snd s)) cid) of
               None \<Rightarrow>
                 obind (case capability_id of
                     Some cid \<Rightarrow> if cid = [] then oret () else obind (on_delegate (b_revoke cid (rq_at_unix rq))) (\<lambda>_. oret ())
                   | None \<Rightarrow> oret ())
                   (\<lambda>_. generic (revoked_reasons @ [''delegate_returned_unbound_authority''])) s
             | Some bound \<Rightarrow>
                 if binding_mismatch bound snapshot \<noteq> []
                 then obind (on_delegate (b_revoke (the capability_id) (rq_at_unix rq))) (\<lambda>_.
                   on_snd (eb_finish bound snapshot receipt_sha ''BLOCK''
                     (revoked_reasons @ binding_mismatch bound snapshot @ [''stale_authority_revoked'']) (rq_at_unix rq) None)) s
                 else on_snd (eb_finish bound snapshot receipt_sha ''ALLOW''
                     (revoked_reasons @ [''epoch_binding_match''] @ jstrs (dget delegate_receipt ''reason_codes''))
                     (rq_at_unix rq) capability_id) s)
          else generic (revoked_reasons @ jstrs (dget delegate_receipt ''reason_codes'')) s)"

definition eb_authorize :: "'w epoch_provider \<Rightarrow> authz_request \<Rightarrow> ('w esystem, (string \<times> json) list) op" where
  "eb_authorize provider rq =
     obind (olift (eb_time (JInt (rq_at_unix rq)) ''at_unix'')) (\<lambda>_.
     obind (on_provider (ts_from_provider provider)) (\<lambda>snapshot s.
     obind (on_delegate (reconcile (eb_bindings (snd s)) snapshot (rq_at_unix rq))) (\<lambda>revoked_reasons.
     obind (olift (representative (eb_bindings (snd s)) (rq_subject_id rq) (rq_capability_type rq) snapshot)) (\<lambda>rep.
       if ts_tainted snapshot
       then on_snd (eb_finish_generic rep (rq_subject_id rq) (rq_capability_type rq) (rq_policy_sha256 rq) snapshot
              ZERO_SHA256 ''BLOCK'' (revoked_reasons @ [''runtime_state_tainted'']) (rq_at_unix rq))
       else obind (on_delegate (b_authorize (bound_request rq snapshot)))
              (eb_decide rq snapshot revoked_reasons rep))) s))"

definition eb_revoke :: "string \<Rightarrow> int \<Rightarrow> ('w esystem, (string \<times> json) list) op" where
  "eb_revoke capability_id at_unix = on_delegate (b_revoke capability_id at_unix)"

definition eb_expire_due :: "int \<Rightarrow> ('w esystem, (string \<times> json) list list) op" where
  "eb_expire_due at_unix = on_delegate (b_expire_due at_unix)"

definition eb_cap_item :: "(string \<times> bound_contract) list \<Rightarrow> (string \<times> json) list \<Rightarrow> (string \<times> json) list" where
  "eb_cap_item bindings item =
     (let bound = map_of bindings (jstr (dget item ''capability_id'')) in
      dmerge item
        [(''epoch_bound'', JBool (bound \<noteq> None)),
         (''runtime_epoch'', case bound of Some c \<Rightarrow> JInt (bc_runtime_epoch c) | None \<Rightarrow> JNull),
         (''runtime_state_sha256'', JStr (case bound of Some c \<Rightarrow> bc_runtime_state_sha256 c | None \<Rightarrow> ZERO_SHA256)),
         (''bound_contract_sha256'', JStr (case bound of Some c \<Rightarrow> bc_binding_sha256 c | None \<Rightarrow> ZERO_SHA256))])"

definition eb_state_document :: "'w epoch_provider \<Rightarrow> ('w esystem, (string \<times> json) list) op" where
  "eb_state_document provider =
     obind (on_provider (ts_from_provider provider)) (\<lambda>snapshot s.
       let b = fst (fst s); e = snd s;
           body = [(''schema'', JStr EPOCH_STATE_SCHEMA), (''broker_id'', JStr (eb_broker_id e)),
             (''runtime_epoch'', JInt (ts_epoch snapshot)), (''runtime_state_sha256'', JStr (ts_state_sha256 snapshot)),
             (''runtime_tainted'', JBool (ts_tainted snapshot)),
             (''runtime_snapshot_sha256'', JStr (ts_snapshot_sha256 snapshot)),
             (''delegate_head_sha256'', JStr (b_head b)), (''epoch_binding_head_sha256'', JStr (eb_head e)),
             (''capabilities'', JList (map (\<lambda>item. JObj (eb_cap_item (eb_bindings e) item)) (b_capabilities b))),
             (''authority'', EPOCH_AUTHORITY)]
       in (Inr (body @ [(''state_sha256'', JStr (canonical_sha256 (JObj body)))]), s))"

subsection \<open>Checking a receipt\<close>

fun eb_check_shas :: "(string \<times> json) list \<Rightarrow> string list \<Rightarrow> unit res" where
  "eb_check_shas raw [] = Inr ()"
| "eb_check_shas raw (k # ks) = rbind (eb_sha (dget raw k) k) (\<lambda>_. eb_check_shas raw ks)"

fun nonblank_text :: "json \<Rightarrow> bool" where
  "nonblank_text (JStr s) = (s \<noteq> [])"
| "nonblank_text _ = False"

definition eb_verify_receipt :: "(string \<times> json) list \<Rightarrow> (string \<times> json) list res" where
  "eb_verify_receipt document =
     (let digest = dget document ''receipt_sha256''; raw = dpop document ''receipt_sha256'' in
      if \<not> py_eq (dget raw ''schema'') (JStr EPOCH_DECISION_SCHEMA) \<or> \<not> py_eq (dget raw ''authority'') EPOCH_AUTHORITY
      then Inl (EpochBindingError ''epoch-bound decision schema or authority mismatch'')
      else if \<not> same_keys raw
          [''schema'', ''decision_id'', ''capability_id'', ''subject_id'', ''capability_type'',
           ''bound_contract_sha256'', ''base_contract_sha256'', ''runtime_epoch_bound'',
           ''runtime_epoch_observed'', ''runtime_state_sha256_bound'', ''runtime_state_sha256_observed'',
           ''runtime_snapshot_sha256'', ''delegate_receipt_sha256'', ''decision'', ''reason_codes'',
           ''at_unix'', ''authority'']
      then Inl (EpochBindingError ''epoch-bound decision keys mismatch'')
      else rbind (eb_check_shas raw
             [''bound_contract_sha256'', ''base_contract_sha256'', ''runtime_state_sha256_bound'',
              ''runtime_state_sha256_observed'', ''runtime_snapshot_sha256'', ''delegate_receipt_sha256'']) (\<lambda>_.
        rbind (eb_time (dget raw ''runtime_epoch_bound'') ''runtime_epoch_bound'') (\<lambda>_.
        rbind (eb_time (dget raw ''runtime_epoch_observed'') ''runtime_epoch_observed'') (\<lambda>_.
        rbind (eb_time (dget raw ''at_unix'') ''at_unix'') (\<lambda>_.
        rbind (py_in_set (dget raw ''decision'') [''ALLOW'', ''BLOCK'']) (\<lambda>known.
        if \<not> known then Inl (EpochBindingError ''invalid epoch-bound decision'')
        else if (case dget raw ''reason_codes'' of JList xs \<Rightarrow> \<not> list_all nonblank_text xs | _ \<Rightarrow> True)
        then Inl (EpochBindingError ''reason_codes must be strings'')
        else rbind (eb_sha digest ''receipt_sha256'') (\<lambda>digest.
          if canonical_sha256 (JObj raw) \<noteq> digest
          then Inl (EpochBindingError ''epoch-bound decision receipt digest mismatch'')
          else Inr (raw @ [(''receipt_sha256'', JStr digest)]))))))))"

end
