(* ===== verification/Effect_Commit.thy ===== *)
theory Effect_Commit
  imports Epoch_Capability
begin

section \<open>One-time effect leases\<close>

text \<open>
  Model of src/sdk/liminal_effect_commit: trusted runtime worlds and sessions, leases that bind an allowed
  operation to them, the broker that consumes a lease right before the effect, and the mediator that
  commits every effect through it. The broker's fields are \<open>ecommit\<close>; its providers, the clock and the
  capability broker it asks are the fields of \<open>effect_host\<close> and act on a state \<open>'s\<close> of the host. An
  executor acts on the host and on the broker itself: it may issue and consume further leases, since the
  locks of the broker can be taken again by the thread that holds them. The two locks make every call
  atomic, so a run is a sequence of calls.
\<close>

subsection \<open>Data\<close>

abbreviation EffectCommitError :: "string \<Rightarrow> exn" where
  "EffectCommitError code \<equiv> Exn ''EffectCommitError'' code"

definition LEASE_SCHEMA :: string where
  "LEASE_SCHEMA = ''liminal-epoch-bound-effect-lease-v0.1''"

definition COMMIT_SCHEMA :: string where
  "COMMIT_SCHEMA = ''liminal-epoch-bound-effect-commit-receipt-v0.1''"

definition SESSION_SCHEMA :: string where
  "SESSION_SCHEMA = ''liminal-trusted-execution-session-v0.1''"

definition MAX_LEASE_TTL_SECONDS :: int where
  "MAX_LEASE_TTL_SECONDS = 30"

definition EFFECT_AUTHORITY :: json where
  "EFFECT_AUTHORITY = JObj
     [(''mode'', JStr ''epoch_bound_effect_commit_only''), (''capability_grant'', JBool False),
      (''runtime_mutation'', JBool False), (''effect_commit'', JBool True), (''one_time_lease'', JBool True),
      (''trusted_runtime_recheck'', JBool True), (''trusted_session_recheck'', JBool True),
      (''shared_runtime_commit_fence'', JBool True), (''containment_gate'', JBool True),
      (''raw_runtime_values'', JBool False), (''raw_session_identity'', JBool False),
      (''secret_material_access'', JBool False), (''network_authority'', JBool False),
      (''kernel_enforcement'', JBool False)]"

fun ef_sha :: "json \<Rightarrow> string \<Rightarrow> string res" where
  "ef_sha (JStr s) name = (if is_sha256 s then Inr s else Inl (EffectCommitError (''invalid_'' @ name)))"
| "ef_sha v name = Inl (EffectCommitError (''invalid_'' @ name))"

text \<open>\<open>d.get(k, default)\<close>.\<close>

definition dget_or :: "(string \<times> json) list \<Rightarrow> string \<Rightarrow> json \<Rightarrow> json" where
  "dget_or d k dflt = (case map_of d k of None \<Rightarrow> dflt | Some v \<Rightarrow> v)"

record trusted_world =
  tw_epoch :: int
  tw_state_sha256 :: string
  tw_tainted :: bool
  tw_snapshot_sha256 :: string

definition tw_of_document :: "(string \<times> json) list \<Rightarrow> trusted_world res" where
  "tw_of_document raw =
     (let epoch = dget_or raw ''epoch'' (dget raw ''runtime_epoch'');
          state = dget_or raw ''state_sha256'' (dget raw ''runtime_state_sha256'');
          tainted = dget_or raw ''tainted'' (dget raw ''runtime_tainted'')
      in if \<not> nonneg_count epoch then Inl (EffectCommitError ''invalid_runtime_epoch'')
         else rbind (ef_sha state ''runtime_state_sha256'') (\<lambda>state.
           case tainted of
             JBool t \<Rightarrow> Inr \<lparr>tw_epoch = json_int epoch, tw_state_sha256 = state, tw_tainted = t,
               tw_snapshot_sha256 = canonical_sha256 (JObj
                 [(''epoch'', epoch), (''state_sha256'', JStr state), (''tainted'', JBool t)])\<rparr>
           | _ \<Rightarrow> Inl (EffectCommitError ''invalid_runtime_taint_state'')))"

record trusted_session =
  tx_operation_id_sha256 :: string
  tx_session_sha256 :: string
  tx_host_binding_sha256 :: string
  tx_active :: bool
  tx_evidence_sha256 :: string

definition session_body :: "string \<Rightarrow> string \<Rightarrow> string \<Rightarrow> bool \<Rightarrow> (string \<times> json) list" where
  "session_body operation_sha session_sha host_sha active =
     [(''schema'', JStr SESSION_SCHEMA), (''operation_id_sha256'', JStr operation_sha),
      (''session_sha256'', JStr session_sha), (''host_binding_sha256'', JStr host_sha), (''active'', JBool active)]"

definition tx_of_document :: "string \<Rightarrow> string \<Rightarrow> (string \<times> json) list \<Rightarrow> trusted_session res" where
  "tx_of_document operation_id expected_host raw =
     (if \<not> same_keys raw [''schema'', ''operation_id_sha256'', ''session_sha256'', ''host_binding_sha256'', ''active'',
              ''evidence_sha256''] \<or> \<not> py_eq (dget raw ''schema'') (JStr SESSION_SCHEMA)
      then Inl (EffectCommitError ''execution_session_schema_mismatch'')
      else rbind (ef_sha (dget raw ''operation_id_sha256'') ''operation_id_sha256'') (\<lambda>operation_sha.
        if operation_sha \<noteq> canonical_sha256 (JStr operation_id)
        then Inl (EffectCommitError ''execution_session_operation_mismatch'')
        else rbind (ef_sha (dget raw ''session_sha256'') ''session_sha256'') (\<lambda>session_sha.
          rbind (ef_sha (dget raw ''host_binding_sha256'') ''host_binding_sha256'') (\<lambda>host_sha.
          if host_sha \<noteq> expected_host then Inl (EffectCommitError ''execution_session_host_mismatch'')
          else (case dget raw ''active'' of
              JBool active \<Rightarrow>
                rbind (ef_sha (dget raw ''evidence_sha256'') ''evidence_sha256'') (\<lambda>evidence.
                  if evidence \<noteq> canonical_sha256 (JObj (session_body operation_sha session_sha host_sha active))
                  then Inl (EffectCommitError ''execution_session_evidence_mismatch'')
                  else Inr \<lparr>tx_operation_id_sha256 = operation_sha, tx_session_sha256 = session_sha,
                         tx_host_binding_sha256 = host_sha, tx_active = active, tx_evidence_sha256 = evidence\<rparr>)
            | _ \<Rightarrow> Inl (EffectCommitError ''execution_session_active_invalid''))))))"

definition build_session_document :: "string \<Rightarrow> string \<Rightarrow> string \<Rightarrow> bool \<Rightarrow> (string \<times> json) list res" where
  "build_session_document operation_id session_sha256 host_binding_sha256 active =
     rbind (ef_sha (JStr session_sha256) ''session_sha256'') (\<lambda>_.
     rbind (ef_sha (JStr host_binding_sha256) ''host_binding_sha256'') (\<lambda>_.
       let body = session_body (canonical_sha256 (JStr operation_id)) session_sha256 host_binding_sha256 active
       in Inr (body @ [(''evidence_sha256'', JStr (canonical_sha256 (JObj body)))])))"

record lease_receipt =
  ar_operation_id :: string
  ar_lease_id_sha256 :: string
  ar_capability_id :: string
  ar_capability_receipt_sha256 :: string
  ar_bound_contract_sha256 :: string
  ar_runtime_kind :: string
  ar_scope_sha256 :: string
  ar_payload_sha256 :: string
  ar_runtime_epoch :: int
  ar_runtime_state_sha256 :: string
  ar_runtime_snapshot_sha256 :: string
  ar_execution_session_sha256 :: string
  ar_execution_session_evidence_sha256 :: string
  ar_host_binding_sha256 :: string
  ar_issued_at_unix :: int
  ar_expires_at_unix :: int
  ar_receipt_sha256 :: string

definition ar_body :: "lease_receipt \<Rightarrow> (string \<times> json) list" where
  "ar_body r =
     [(''schema'', JStr LEASE_SCHEMA),
      (''operation_id'', JStr (ar_operation_id r)),
      (''lease_id_sha256'', JStr (ar_lease_id_sha256 r)),
      (''capability_id'', JStr (ar_capability_id r)),
      (''capability_receipt_sha256'', JStr (ar_capability_receipt_sha256 r)),
      (''bound_contract_sha256'', JStr (ar_bound_contract_sha256 r)),
      (''runtime_kind'', JStr (ar_runtime_kind r)),
      (''scope_sha256'', JStr (ar_scope_sha256 r)),
      (''payload_sha256'', JStr (ar_payload_sha256 r)),
      (''runtime_epoch'', JInt (ar_runtime_epoch r)),
      (''runtime_state_sha256'', JStr (ar_runtime_state_sha256 r)),
      (''runtime_snapshot_sha256'', JStr (ar_runtime_snapshot_sha256 r)),
      (''execution_session_sha256'', JStr (ar_execution_session_sha256 r)),
      (''execution_session_evidence_sha256'', JStr (ar_execution_session_evidence_sha256 r)),
      (''host_binding_sha256'', JStr (ar_host_binding_sha256 r)),
      (''issued_at_unix'', JInt (ar_issued_at_unix r)),
      (''expires_at_unix'', JInt (ar_expires_at_unix r)),
      (''authority'', EFFECT_AUTHORITY)]"

definition ar_as_document :: "lease_receipt \<Rightarrow> (string \<times> json) list" where
  "ar_as_document r = ar_body r @ [(''receipt_sha256'', JStr (ar_receipt_sha256 r))]"

record commit_receipt =
  cm_operation_id :: string
  cm_authorization_receipt_sha256 :: string
  cm_lease_id_sha256 :: string
  cm_runtime_epoch :: int
  cm_runtime_state_sha256 :: string
  cm_runtime_snapshot_sha256 :: string
  cm_execution_session_sha256 :: string
  cm_execution_session_evidence_sha256 :: string
  cm_capability_receipt_sha256 :: string
  cm_committed_at_unix :: int
  cm_effect_outcome :: string
  cm_result_sha256 :: string
  cm_reason_codes :: "string list"
  cm_receipt_sha256 :: string

definition cm_body :: "commit_receipt \<Rightarrow> (string \<times> json) list" where
  "cm_body r =
     [(''schema'', JStr COMMIT_SCHEMA),
      (''operation_id'', JStr (cm_operation_id r)),
      (''authorization_receipt_sha256'', JStr (cm_authorization_receipt_sha256 r)),
      (''lease_id_sha256'', JStr (cm_lease_id_sha256 r)),
      (''runtime_epoch'', JInt (cm_runtime_epoch r)),
      (''runtime_state_sha256'', JStr (cm_runtime_state_sha256 r)),
      (''runtime_snapshot_sha256'', JStr (cm_runtime_snapshot_sha256 r)),
      (''execution_session_sha256'', JStr (cm_execution_session_sha256 r)),
      (''execution_session_evidence_sha256'', JStr (cm_execution_session_evidence_sha256 r)),
      (''capability_receipt_sha256'', JStr (cm_capability_receipt_sha256 r)),
      (''committed_at_unix'', JInt (cm_committed_at_unix r)),
      (''effect_outcome'', JStr (cm_effect_outcome r)),
      (''result_sha256'', JStr (cm_result_sha256 r)),
      (''reason_codes'', JList (map JStr (cm_reason_codes r))),
      (''authority'', EFFECT_AUTHORITY)]"

definition cm_as_document :: "commit_receipt \<Rightarrow> (string \<times> json) list" where
  "cm_as_document r = cm_body r @ [(''receipt_sha256'', JStr (cm_receipt_sha256 r))]"

record lease =
  le_lease_id :: string
  le_operation :: runtime_operation
  le_capability_id :: string
  le_capability_receipt_sha256 :: string
  le_bound_contract_sha256 :: string
  le_scope_sha256 :: string
  le_runtime_world :: trusted_world
  le_session :: trusted_session
  le_authorization_receipt_sha256 :: string
  le_issued_at_unix :: int
  le_expires_at_unix :: int
  le_consumed :: bool

record ecommit =
  ec_host_binding_sha256 :: string
  ec_adapter_token_sha256 :: string
  ec_lease_ttl_seconds :: int
  ec_leases :: "(string \<times> lease) list"
  ec_authorizations :: "lease_receipt list"
  ec_commits :: "commit_receipt list"
  ec_contained :: bool

text \<open>\<open>runtime_provider\<close>, \<open>session_provider\<close>, \<open>capability_broker\<close> and \<open>clock\<close>.\<close>

record 's effect_host =
  eh_runtime :: "('s, (string \<times> json) list) op"
  eh_session :: "string \<Rightarrow> ('s, (string \<times> json) list) op"
  eh_capabilities :: "('s, (string \<times> json) list) op"
  eh_clock :: "('s, int) op"

definition ecommit_init :: "string \<Rightarrow> string \<Rightarrow> int \<Rightarrow> ecommit res" where
  "ecommit_init host_binding_sha256 adapter_token_sha256 lease_ttl_seconds =
     rbind (ef_sha (JStr host_binding_sha256) ''host_binding_sha256'') (\<lambda>host.
     rbind (ef_sha (JStr adapter_token_sha256) ''adapter_token_sha256'') (\<lambda>token.
       if \<not> (1 \<le> lease_ttl_seconds \<and> lease_ttl_seconds \<le> MAX_LEASE_TTL_SECONDS)
       then Inl (EffectCommitError ''invalid_lease_ttl_seconds'')
       else Inr \<lparr>ec_host_binding_sha256 = host, ec_adapter_token_sha256 = token,
              ec_lease_ttl_seconds = lease_ttl_seconds, ec_leases = [], ec_authorizations = [], ec_commits = [],
              ec_contained = False\<rparr>))"

subsection \<open>Observations\<close>

definition ef_now :: "'s effect_host \<Rightarrow> ('s, int) op" where
  "ef_now host = obind (eh_clock host) (\<lambda>value.
     if value < 0 then oraise (EffectCommitError ''invalid_trusted_clock'') else oret value)"

definition tw_observe :: "'s effect_host \<Rightarrow> ('s, trusted_world) op" where
  "tw_observe host = obind (eh_runtime host) (\<lambda>raw. olift (tw_of_document raw))"

definition tx_observe :: "'s effect_host \<Rightarrow> string \<Rightarrow> string \<Rightarrow> ('s, trusted_session) op" where
  "tx_observe host operation_id host_sha =
     obind (eh_session host operation_id) (\<lambda>raw. olift (tx_of_document operation_id host_sha raw))"

text \<open>Iterating over a value, and the loop of \<open>_capability_active\<close>. An element that is not a mapping ends the
  loop with an exception, so one element stands for the characters of a text.\<close>

fun py_iter :: "json \<Rightarrow> json list res" where
  "py_iter (JList xs) = Inr xs"
| "py_iter (JObj d) = Inr (map (\<lambda>(k, _). JStr k) d)"
| "py_iter (JStr s) = (if s = [] then Inr [] else Inr [JStr s])"
| "py_iter _ = Inl (Exn ''TypeError'' ''object is not iterable'')"

fun active_in :: "string \<Rightarrow> trusted_world \<Rightarrow> json list \<Rightarrow> bool res" where
  "active_in capability_id world [] = Inr False"
| "active_in capability_id world (JObj item # items) =
     (if \<not> py_eq (dget item ''capability_id'') (JStr capability_id) then active_in capability_id world items
      else Inr (py_eq (dget item ''status'') (JStr ''active'') \<and> dget item ''epoch_bound'' = JBool True \<and>
                py_eq (dget item ''runtime_epoch'') (JInt (tw_epoch world)) \<and>
                py_eq (dget item ''runtime_state_sha256'') (JStr (tw_state_sha256 world))))"
| "active_in capability_id world (_ # items) = Inl (Exn ''AttributeError'' ''object has no attribute get'')"

definition capability_active :: "'s effect_host \<Rightarrow> string \<Rightarrow> trusted_world \<Rightarrow> ('s, bool) op" where
  "capability_active host capability_id world s =
     (case eh_capabilities host s of
        (Inl _, s') \<Rightarrow> (Inr False, s')
      | (Inr state, s') \<Rightarrow>
          (rbind (py_iter (dget_or state ''capabilities'' (JList []))) (active_in capability_id world), s'))"

subsection \<open>Issuing a lease\<close>

definition oguard :: "bool \<Rightarrow> string \<Rightarrow> ('s, unit) op" where
  "oguard ok code = (if ok then oret () else oraise (EffectCommitError code))"

definition new_lease_id :: "ecommit \<Rightarrow> runtime_operation \<Rightarrow> string \<Rightarrow> trusted_world \<Rightarrow> trusted_session \<Rightarrow> string" where
  "new_lease_id e operation capability_receipt_sha world session =
     ''effect-lease:'' @ nat_str (length (ec_leases e) + 1) @ '':'' @ take 20 (canonical_sha256 (JObj
       [(''operation'', JStr (ro_operation_id operation)), (''capability'', JStr capability_receipt_sha),
        (''world'', JStr (tw_snapshot_sha256 world)), (''session'', JStr (tx_session_sha256 session))]))"

text \<open>The checks of the capability decision, before the lock is taken.\<close>

definition decision_fields :: "(string \<times> json) list \<Rightarrow> (string \<times> string \<times> string) res" where
  "decision_fields capability =
     (if \<not> py_eq (dget capability ''decision'') (JStr ''ALLOW'')
      then Inl (EffectCommitError ''capability_decision_not_allow'')
      else case dget capability ''capability_id'' of
        JStr cid \<Rightarrow>
          if cid = [] then Inl (EffectCommitError ''capability_id_missing'')
          else rbind (ef_sha (dget capability ''receipt_sha256'') ''capability_receipt_sha256'') (\<lambda>receipt_sha.
            rbind (ef_sha (dget_or capability ''bound_contract_sha256'' (JStr ZERO_SHA256)) ''bound_contract_sha256'') (\<lambda>bound_sha.
            if bound_sha = ZERO_SHA256 then Inl (EffectCommitError ''capability_decision_not_epoch_bound'')
            else Inr (cid, receipt_sha, bound_sha)))
      | _ \<Rightarrow> Inl (EffectCommitError ''capability_id_missing''))"

definition lease_receipt_for ::
  "runtime_operation \<Rightarrow> string \<times> string \<times> string \<Rightarrow> string \<Rightarrow> int \<Rightarrow> trusted_world \<Rightarrow> trusted_session \<Rightarrow> string \<Rightarrow> ecommit \<Rightarrow>
   lease_receipt" where
  "lease_receipt_for operation cap_fields scope_sha now world session lease_id e =
     (let (capability_id, receipt_sha, bound_sha) = cap_fields;
          provisional = \<lparr>ar_operation_id = ro_operation_id operation,
            ar_lease_id_sha256 = canonical_sha256 (JStr lease_id), ar_capability_id = capability_id,
            ar_capability_receipt_sha256 = receipt_sha, ar_bound_contract_sha256 = bound_sha,
            ar_runtime_kind = ro_kind operation, ar_scope_sha256 = scope_sha,
            ar_payload_sha256 = ro_payload_sha256 operation, ar_runtime_epoch = tw_epoch world,
            ar_runtime_state_sha256 = tw_state_sha256 world, ar_runtime_snapshot_sha256 = tw_snapshot_sha256 world,
            ar_execution_session_sha256 = tx_session_sha256 session,
            ar_execution_session_evidence_sha256 = tx_evidence_sha256 session,
            ar_host_binding_sha256 = ec_host_binding_sha256 e, ar_issued_at_unix = now,
            ar_expires_at_unix = now + ec_lease_ttl_seconds e, ar_receipt_sha256 = []\<rparr>
      in provisional\<lparr>ar_receipt_sha256 := canonical_sha256 (JObj (ar_body provisional))\<rparr>)"

definition record_lease ::
  "runtime_operation \<Rightarrow> string \<times> string \<times> string \<Rightarrow> string \<Rightarrow> int \<Rightarrow> trusted_world \<Rightarrow> trusted_session \<Rightarrow>
   (ecommit, string \<times> (string \<times> json) list) op" where
  "record_lease operation cap_fields scope_sha now world session e =
     (let (capability_id, receipt_sha, bound_sha) = cap_fields;
          lease_id = new_lease_id e operation receipt_sha world session;
          receipt = lease_receipt_for operation cap_fields scope_sha now world session lease_id e;
          lease = \<lparr>le_lease_id = lease_id, le_operation = operation, le_capability_id = capability_id,
            le_capability_receipt_sha256 = receipt_sha, le_bound_contract_sha256 = bound_sha,
            le_scope_sha256 = scope_sha, le_runtime_world = world, le_session = session,
            le_authorization_receipt_sha256 = ar_receipt_sha256 receipt, le_issued_at_unix = now,
            le_expires_at_unix = now + ec_lease_ttl_seconds e, le_consumed = False\<rparr>
      in (Inr (lease_id, ar_as_document receipt),
          e\<lparr>ec_authorizations := ec_authorizations e @ [receipt],
            ec_leases := AList.update lease_id lease (ec_leases e)\<rparr>))"

definition ef_issue ::
  "'s effect_host \<Rightarrow> runtime_operation \<Rightarrow> (string \<times> json) list \<Rightarrow> ('s \<times> ecommit, string \<times> (string \<times> json) list) op" where
  "ef_issue host operation capability_decision =
     obind (olift (ro_validate operation)) (\<lambda>_.
     obind (olift (decision_fields capability_decision)) (\<lambda>cap_fields se.
       obind (oguard (\<not> ec_contained (snd se)) ''containment_active'') (\<lambda>_.
       obind (on_fst (ef_now host)) (\<lambda>now.
       obind (on_fst (tw_observe host)) (\<lambda>world.
       obind (oguard (\<not> tw_tainted world) ''runtime_state_tainted'') (\<lambda>_.
       obind (on_fst (tx_observe host (ro_operation_id operation) (ec_host_binding_sha256 (snd se)))) (\<lambda>session.
       obind (oguard (tx_active session) ''execution_session_inactive'') (\<lambda>_.
       obind (on_fst (capability_active host (fst cap_fields) world)) (\<lambda>active.
       obind (oguard active ''source_capability_inactive_or_stale'') (\<lambda>_.
       obind (olift (ro_normalized_scope operation)) (\<lambda>scope.
         on_snd (record_lease operation cap_fields (canonical_sha256 (JObj scope)) now world session)))))))))) se))"

subsection \<open>Consuming a lease\<close>

definition append_commit ::
  "lease \<Rightarrow> trusted_world \<Rightarrow> trusted_session \<Rightarrow> int \<Rightarrow> string \<Rightarrow> string \<Rightarrow> string list \<Rightarrow> (ecommit, unit) op" where
  "append_commit lease world session committed_at outcome result_sha reasons e =
     (case ef_sha (JStr result_sha) ''result_sha256'' of
        Inl err \<Rightarrow> (Inl err, e)
      | Inr result_sha \<Rightarrow>
          (let provisional = \<lparr>cm_operation_id = ro_operation_id (le_operation lease),
                 cm_authorization_receipt_sha256 = le_authorization_receipt_sha256 lease,
                 cm_lease_id_sha256 = canonical_sha256 (JStr (le_lease_id lease)), cm_runtime_epoch = tw_epoch world,
                 cm_runtime_state_sha256 = tw_state_sha256 world, cm_runtime_snapshot_sha256 = tw_snapshot_sha256 world,
                 cm_execution_session_sha256 = tx_session_sha256 session,
                 cm_execution_session_evidence_sha256 = tx_evidence_sha256 session,
                 cm_capability_receipt_sha256 = le_capability_receipt_sha256 lease,
                 cm_committed_at_unix = committed_at, cm_effect_outcome = outcome, cm_result_sha256 = result_sha,
                 cm_reason_codes = sort (remdups reasons), cm_receipt_sha256 = []\<rparr>;
               receipt = provisional\<lparr>cm_receipt_sha256 := canonical_sha256 (JObj (cm_body provisional))\<rparr>
           in (Inr (), e\<lparr>ec_commits := ec_commits e @ [receipt]\<rparr>)))"

text \<open>The checks of \<open>_commit\<close>: the lease, the world and the session it may be consumed in, and the time.\<close>

definition commit_checks ::
  "'s effect_host \<Rightarrow> string \<Rightarrow> ('s \<times> ecommit, lease \<times> trusted_world \<times> trusted_session \<times> int) op" where
  "commit_checks host lease_id =
     obind (on_fst (ef_now host)) (\<lambda>now se.
       obind (oguard (\<not> ec_contained (snd se)) ''containment_active'') (\<lambda>_.
       obind (olift (case map_of (ec_leases (snd se)) lease_id of
           None \<Rightarrow> Inl (EffectCommitError ''unknown_lease'') | Some lease \<Rightarrow> Inr lease)) (\<lambda>lease.
       obind (oguard (\<not> le_consumed lease) ''lease_replayed'') (\<lambda>_.
       obind (oguard (\<not> now < le_issued_at_unix lease) ''clock_regression'') (\<lambda>_.
       obind (oguard (\<not> now > le_expires_at_unix lease) ''lease_expired'') (\<lambda>_.
       obind (on_fst (tw_observe host)) (\<lambda>world.
       obind (oguard (\<not> tw_tainted world) ''runtime_state_tainted'') (\<lambda>_.
       obind (oguard (tw_epoch world = tw_epoch (le_runtime_world lease)) ''stale_runtime_epoch'') (\<lambda>_.
       obind (oguard (tw_state_sha256 world = tw_state_sha256 (le_runtime_world lease)) ''stale_runtime_state'') (\<lambda>_.
       obind (on_fst (tx_observe host (ro_operation_id (le_operation lease)) (ec_host_binding_sha256 (snd se)))) (\<lambda>session.
       obind (oguard (tx_active session) ''execution_session_inactive'') (\<lambda>_.
       obind (oguard (tx_session_sha256 session = tx_session_sha256 (le_session lease)) ''execution_session_changed'') (\<lambda>_.
       obind (on_fst (capability_active host (le_capability_id lease) world)) (\<lambda>active.
       obind (oguard active ''source_capability_inactive_or_stale'') (\<lambda>_.
         oret (lease, world, session, now))))))))))))))) se)"

definition burn_lease :: "string \<Rightarrow> lease \<Rightarrow> ecommit \<Rightarrow> ecommit" where
  "burn_lease lease_id lease e = e\<lparr>ec_leases := AList.update lease_id (lease\<lparr>le_consumed := True\<rparr>) (ec_leases e)\<rparr>"

definition run_effect ::
  "(runtime_operation \<Rightarrow> ('s \<times> ecommit, observation option) op) \<Rightarrow> runtime_operation \<Rightarrow> ('s \<times> ecommit, observation) op" where
  "run_effect executor operation =
     obind (executor operation) (\<lambda>result.
       case result of
         None \<Rightarrow> oraise (EffectCommitError ''executor_observation_invalid'')
       | Some observation \<Rightarrow> olift (rbind (ob_validate observation) (\<lambda>_. Inr observation)))"

definition ef_commit ::
  "'s effect_host \<Rightarrow> (runtime_operation \<Rightarrow> ('s \<times> ecommit, observation option) op) \<Rightarrow> string \<Rightarrow>
   ('s \<times> ecommit, observation) op" where
  "ef_commit host executor lease_id =
     obind (commit_checks host lease_id) (\<lambda>(lease, world, session, now).
     obind (on_snd (omodify (burn_lease lease_id lease))) (\<lambda>_ se.
       case run_effect executor (le_operation lease) se of
         (Inl exc, se) \<Rightarrow>
           obind (on_snd (append_commit lease world session now ''FAILED''
               (canonical_sha256 (JObj [(''error_type'', JStr (exn_class exc))]))
               [''lease_consumed'', ''effect_callback_failed''])) (\<lambda>_.
             oraise (if exn_class exc = ''EffectCommitError'' then exc else EffectCommitError ''effect_callback_failed'')) se
       | (Inr observation, se) \<Rightarrow>
           obind (on_snd (append_commit lease world session now ''SUCCEEDED'' (ob_result_sha256 observation)
               [''runtime_world_rechecked'', ''execution_session_rechecked'', ''source_capability_active'', ''lease_consumed'',
                ''effect_committed_under_fence''])) (\<lambda>_. oret observation) se))"

definition ef_consume_for_adapter ::
  "'s effect_host \<Rightarrow> (runtime_operation \<Rightarrow> ('s \<times> ecommit, observation option) op) \<Rightarrow> string \<Rightarrow> string \<Rightarrow>
   ('s \<times> ecommit, observation) op" where
  "ef_consume_for_adapter host executor lease_id adapter_token se =
     (if adapter_token = [] then (Inl (EffectCommitError ''adapter_auth_failed''), se)
      else if sha256_hex adapter_token \<noteq> ec_adapter_token_sha256 (snd se)
      then (Inl (EffectCommitError ''adapter_auth_failed''), se)
      else ef_commit host executor lease_id se)"

definition ef_commit_authorized ::
  "'s effect_host \<Rightarrow> (runtime_operation \<Rightarrow> ('s \<times> ecommit, observation option) op) \<Rightarrow> runtime_operation \<Rightarrow>
   (string \<times> json) list \<Rightarrow> ('s \<times> ecommit, observation) op" where
  "ef_commit_authorized host executor operation capability_decision =
     obind (ef_issue host operation capability_decision) (\<lambda>(lease_id, _). ef_commit host executor lease_id)"

definition ef_enter_containment :: "string \<Rightarrow> (ecommit, unit) op" where
  "ef_enter_containment incident_receipt_sha256 =
     obind (olift (ef_sha (JStr incident_receipt_sha256) ''incident_receipt_sha256'')) (\<lambda>_.
       omodify (\<lambda>e. e\<lparr>ec_contained := True\<rparr>))"

definition ef_exit_containment :: "string \<Rightarrow> (ecommit, unit) op" where
  "ef_exit_containment human_release_receipt_sha256 =
     obind (olift (ef_sha (JStr human_release_receipt_sha256) ''human_release_receipt_sha256'')) (\<lambda>_.
       omodify (\<lambda>e. e\<lparr>ec_contained := False\<rparr>))"

definition ef_authorization_receipts :: "ecommit \<Rightarrow> (string \<times> json) list list" where
  "ef_authorization_receipts e = map ar_as_document (ec_authorizations e)"

definition ef_commit_receipts :: "ecommit \<Rightarrow> (string \<times> json) list list" where
  "ef_commit_receipts e = map cm_as_document (ec_commits e)"

definition ef_state_document :: "ecommit \<Rightarrow> (string \<times> json) list" where
  "ef_state_document e =
     (let body = [(''schema'', JStr ''liminal-effect-commit-state-v0.1''),
            (''lease_count'', JInt (int (length (ec_leases e)))),
            (''consumed_count'', JInt (int (length (filter (\<lambda>(_, l). le_consumed l) (ec_leases e))))),
            (''contained'', JBool (ec_contained e)),
            (''authorization_count'', JInt (int (length (ec_authorizations e)))),
            (''commit_count'', JInt (int (length (ec_commits e)))), (''authority'', EFFECT_AUTHORITY)]
      in body @ [(''state_sha256'', JStr (canonical_sha256 (JObj body)))])"

definition verify_authorization_receipt :: "(string \<times> json) list \<Rightarrow> (string \<times> json) list res" where
  "verify_authorization_receipt document =
     (let digest = dget document ''receipt_sha256''; raw = dpop document ''receipt_sha256'' in
      if \<not> py_eq (dget raw ''schema'') (JStr LEASE_SCHEMA) \<or> \<not> py_eq (dget raw ''authority'') EFFECT_AUTHORITY
      then Inl (EffectCommitError ''lease_receipt_schema_mismatch'')
      else if \<not> py_eq digest (JStr (canonical_sha256 (JObj raw))) then Inl (EffectCommitError ''lease_receipt_digest_mismatch'')
      else Inr document)"

definition verify_commit_receipt :: "(string \<times> json) list \<Rightarrow> (string \<times> json) list res" where
  "verify_commit_receipt document =
     (let digest = dget document ''receipt_sha256''; raw = dpop document ''receipt_sha256'' in
      if \<not> py_eq (dget raw ''schema'') (JStr COMMIT_SCHEMA) \<or> \<not> py_eq (dget raw ''authority'') EFFECT_AUTHORITY
      then Inl (EffectCommitError ''commit_receipt_schema_mismatch'')
      else if \<not> py_eq digest (JStr (canonical_sha256 (JObj raw))) then Inl (EffectCommitError ''commit_receipt_digest_mismatch'')
      else Inr document)"

subsection \<open>The mediator that commits through leases\<close>

definition em_enter_containment :: "string \<Rightarrow> (('s \<times> ecommit) \<times> mediator, unit) op" where
  "em_enter_containment sha = obind (on_snd (m_enter_containment sha)) (\<lambda>_. on_fst (on_snd (ef_enter_containment sha)))"

definition em_exit_containment :: "string \<Rightarrow> (('s \<times> ecommit) \<times> mediator, unit) op" where
  "em_exit_containment sha = obind (on_fst (on_snd (ef_exit_containment sha))) (\<lambda>_. on_snd (m_exit_containment sha))"

definition em_mediate ::
  "(authz_request \<Rightarrow> ('s, (string \<times> json) list) op) \<Rightarrow> 's effect_host \<Rightarrow>
   (runtime_operation \<Rightarrow> ('s \<times> ecommit, observation option) op) \<Rightarrow> runtime_operation \<Rightarrow>
   (('s \<times> ecommit) \<times> mediator, (string \<times> json) list) op" where
  "em_mediate authorize host executor operation =
     obind (olift (ro_validate operation)) (\<lambda>_.
     obind (olift (ro_normalized_scope operation)) (\<lambda>scope sm.
       let scope_sha = canonical_sha256 (JObj scope) in
       if m_contained (snd sm)
       then on_snd (m_finish operation ZERO_SHA256 ''BLOCK'' ''NOT_EXECUTED'' ZERO_SHA256
              [''containment_active'', ''effect_commit_blocked''] None scope_sha None) sm
       else obind (on_fst (on_fst (authorize (mediation_request operation
              (the (map_of OPERATION_TO_CAPABILITY (ro_kind operation))) scope)))) (\<lambda>capability.
            obind (olift (dreq capability ''decision'')) (\<lambda>decision.
              if \<not> py_eq decision (JStr ''ALLOW'')
              then obind (olift (dreq capability ''receipt_sha256'')) (\<lambda>receipt_sha.
                obind (olift (dreq capability ''reason_codes'')) (\<lambda>reasons.
                on_snd (m_finish operation (jstr receipt_sha) ''BLOCK'' ''NOT_EXECUTED'' ZERO_SHA256
                  (jstrs reasons) None scope_sha None)))
              else (\<lambda>sm.
                case on_fst (ef_commit_authorized host executor operation capability) sm of
                  (Inl exc, sm') \<Rightarrow>
                    obind (olift (dreq capability ''receipt_sha256'')) (\<lambda>receipt_sha.
                    on_snd (m_finish operation (jstr receipt_sha) ''ALLOW'' ''FAILED''
                      (canonical_sha256 (JObj [(''error_type'', JStr (exn_class exc))]))
                      [''effect_commit_failed''] (joptstr (dget capability ''capability_id'')) scope_sha None)) sm'
                | (Inr observation, sm') \<Rightarrow>
                    obind (olift (dreq capability ''receipt_sha256'')) (\<lambda>receipt_sha.
                    on_snd (m_finish operation (jstr receipt_sha) ''ALLOW'' ''SUCCEEDED''
                      (ob_result_sha256 observation)
                      [''capability_admitted'', ''effect_commit_lease_consumed'', ''host_executor_succeeded'']
                      (joptstr (dget capability ''capability_id'')) scope_sha None)) sm'))) sm))"

text \<open>\<open>FencedBoundRuntimeConfigBroker.execute\<close>: the inherited call, under the fence.\<close>

definition fenced_rc_execute ::
  "'w config_backend \<Rightarrow> runtime_operation \<Rightarrow> config_plan \<Rightarrow> ('w governed, (string \<times> json) list) op" where
  "fenced_rc_execute backend operation plan = rc_execute backend operation plan"

end
