(* ===== verification/Config_Properties.thy ===== *)
theory Config_Properties
  imports Runtime_Config Broker_Properties
begin

section \<open>Runtime configuration: facts and properties\<close>

text \<open>
  What one call of \<open>execute\<close> does, by its outcome: a refused plan touches neither the host nor the
  authority, an admitted one advances the epoch by one and revokes every capability, and only an
  observed state equal to the planned one is reported as success.
\<close>

subsection \<open>The path of a mediated operation\<close>

definition mediation_answer :: "(string \<times> json) list res \<Rightarrow> string \<Rightarrow> string \<Rightarrow> bool" where
  "mediation_answer r adm out \<longleftrightarrow> (\<forall>doc. r = Inr doc \<longrightarrow>
     (\<exists>rc. doc = mr_as_document rc \<and> mr_admission_decision rc = adm \<and> mr_execution_outcome rc = out \<and> wf_mediation_receipt rc))"

lemma finish_answer:
  assumes "m_finish op csha adm out rsha rs cid ssha ovr m = (r, m')"
  shows "mediation_answer r adm out"
  by (rule m_finish_cases [OF assms]) (auto simp: mediation_answer_def recorded_def)

lemma mediate_path:
  assumes "m_mediate auth exec op (s, m) = (r, (s', m'))"
  obtains (idle) "s' = s" "mediation_answer r ''BLOCK'' ''NOT_EXECUTED''"
  | (asked) rq rd where "auth rq s = (rd, s')" "mediation_answer r ''BLOCK'' ''NOT_EXECUTED''"
  | (ran) sc d s1 x where "ro_normalized_scope op = Inr sc" "dreq d ''decision'' = Inr (JStr ''ALLOW'')"
      "auth (mediation_request op (the (map_of OPERATION_TO_CAPABILITY (ro_kind op))) sc) s = (Inr d, s1)"
      "run_executor exec op s1 = (x, s')"
      "mediation_answer r ''ALLOW'' (case x of Inl _ \<Rightarrow> ''FAILED'' | Inr _ \<Rightarrow> ''SUCCEEDED'')"
proof (cases "\<exists>sc. ro_validate op = Inr () \<and> ro_normalized_scope op = Inr sc")
  case False
  then obtain e where "m_mediate auth exec op (s, m) = (Inl e, (s, m))" by (rule mediate_invalid)
  with assms idle show thesis by (auto simp: mediation_answer_def)
next
  case True
  then obtain sc where v: "ro_validate op = Inr ()" "ro_normalized_scope op = Inr sc" by blast
  let ?rq = "mediation_request op (the (map_of OPERATION_TO_CAPABILITY (ro_kind op))) sc"
  show thesis
  proof (cases "m_contained m")
    case True
    from contained_mediate [OF True assms] have "s' = s" "mediation_answer r ''BLOCK'' ''NOT_EXECUTED''"
      by (auto simp: mediation_answer_def recorded_def)
    then show thesis by (rule idle)
  next
    case free: False
    obtain rd s1 where a: "auth ?rq s = (rd, s1)" by (metis prod.collapse)
    have fin: "mediation_answer (fst (m_finish op csha adm out rsha rs cid ssha ovr m)) adm out"
      for csha adm out rsha rs cid ssha ovr using finish_answer by (metis prod.collapse)
    show thesis
    proof (cases "\<exists>d. rd = Inr d \<and> dreq d ''decision'' = Inr (JStr ''ALLOW'')")
      case False
      have "s' = s1 \<and> mediation_answer r ''BLOCK'' ''NOT_EXECUTED''"
        using assms v free a False fin [of _ "''BLOCK''" "''NOT_EXECUTED''" ZERO_SHA256]
        by (cases rd; cases "dreq (projr rd) ''decision''"; cases "dreq (projr rd) ''receipt_sha256''"; cases "dreq (projr rd) ''reason_codes''")
          (auto simp: m_mediate_def obind_def Let_def mediation_answer_def py_eq_text split: if_splits)
      with asked a show thesis by blast
    next
      case True
      then obtain d where d: "rd = Inr d" "dreq d ''decision'' = Inr (JStr ''ALLOW'')" by blast
      obtain x s2 where x: "run_executor exec op s1 = (x, s2)" by (metis prod.collapse)
      have "s' = s2 \<and> mediation_answer r ''ALLOW'' (case x of Inl _ \<Rightarrow> ''FAILED'' | Inr _ \<Rightarrow> ''SUCCEEDED'')"
        using assms v free a d x fin [of _ "''ALLOW''"]
        by (cases x; cases "dreq d ''receipt_sha256''") (auto simp: m_mediate_def obind_def Let_def mediation_answer_def py_eq_text)
      with ran v(2) d(2) a [unfolded d(1)] x show thesis by blast
    qed
  qed
qed

subsection \<open>Revoking all authority\<close>

definition no_active :: "broker \<Rightarrow> bool" where
  "no_active b \<longleftrightarrow> (\<forall>k st. map_of (b_states b) k = Some st \<longrightarrow> st_status st \<noteq> Active)"

lemma no_active_ineligible: "no_active b \<Longrightarrow> \<not> eligible b rq scope k"
  by (auto simp: no_active_def eligible_def split: option.splits)

lemma b_revoke_states:
  assumes "b_revoke k t b = (Inr doc, b')"
  shows "\<exists>st. map_of (b_states b) k = Some st \<and> (b_states b' = b_states b \<and> st_status st \<noteq> Active \<or>
    b_states b' = AList.update k (st\<lparr>st_status := Revoked, st_revoked_at_unix := Some t\<rparr>) (b_states b))"
proof (cases "map_of (b_states b) k")
  case None
  with assms show ?thesis by (auto simp: b_revoke_def obind_def check_time_def split: if_splits)
next
  case (Some st)
  then show ?thesis
    using assms lifecycle_states [of _ _ _ _ _ b] lifecycle_states [of _ _ _ _ _ "put_state k _ b"]
    by (auto simp: b_revoke_def obind_def check_time_def Let_def put_state_def split: if_splits) (metis snd_conv)+
qed

lemma b_revoke_Inr:
  assumes "b_revoke k t b = (Inr doc, b')"
  shows "\<exists>st'. map_of (b_states b') k = Some st' \<and> st_status st' \<noteq> Active"
    and "j \<noteq> k \<Longrightarrow> map_of (b_states b') j = map_of (b_states b) j"
  using b_revoke_states [OF assms] by (auto simp: update_conv')

lemma revoke_listed_run:
  assumes "revoke_listed t (map (\<lambda>(k, st). cap_item k st) caps) rv b = (Inr rv', b')" "distinct (map fst caps)"
    and "\<forall>(k, st) \<in> set caps. map_of (b_states b) k = Some st"
  shows "(\<forall>k \<in> fst ` set caps. \<exists>st. map_of (b_states b') k = Some st \<and> st_status st \<noteq> Active) \<and>
    (\<forall>j. j \<notin> fst ` set caps \<longrightarrow> map_of (b_states b') j = map_of (b_states b) j)"
  using assms
proof (induction caps arbitrary: b rv)
  case (Cons c caps)
  obtain k st where c: "c = (k, st)" by force
  have fresh: "k \<notin> fst ` set caps" using Cons.prems(2) c by simp
  show ?case
  proof (cases "st_status st = Active")
    case False
    with Cons.prems(1) c have "revoke_listed t (map (\<lambda>(k, st). cap_item k st) caps) rv b = (Inr rv', b')"
      by (simp add: cap_item_get py_eq_text status_active)
    from Cons.IH [OF this] Cons.prems(2,3) c False fresh show ?thesis by auto
  next
    case True
    with Cons.prems(1) c obtain doc b1 rv1 where rev: "b_revoke k t b = (Inr doc, b1)"
      and rest: "revoke_listed t (map (\<lambda>(k, st). cap_item k st) caps) rv1 b1 = (Inr rv', b')"
      by (auto simp: cap_item_get py_eq_text status_active Let_def obind_eq_Inr split: if_splits)
    note r = b_revoke_Inr [OF rev]
    have "\<forall>(j, s) \<in> set caps. map_of (b_states b1) j = Some s"
    proof clarify
      fix j s
      assume m: "(j, s) \<in> set caps"
      then have "j \<noteq> k" using fresh by force
      with m r(2) Cons.prems(3) show "map_of (b_states b1) j = Some s" by auto
    qed
    with Cons.IH [OF rest] Cons.prems(2) c have
      "\<forall>k \<in> fst ` set caps. \<exists>st. map_of (b_states b') k = Some st \<and> st_status st \<noteq> Active"
      "\<forall>j. j \<notin> fst ` set caps \<longrightarrow> map_of (b_states b') j = map_of (b_states b1) j"
      by auto
    with fresh r c show ?thesis by auto
  qed
qed simp

lemma revoke_authority_run:
  assumes "wf_broker b" "revoke_authority t b = (Inr rv, b')"
  shows "no_active b'"
proof -
  let ?caps = "sort_key fst (b_states b)"
  have d: "distinct (map fst ?caps)" "\<forall>(k, st) \<in> set ?caps. map_of (b_states b) k = Some st"
    using assms(1) by (auto simp: wf_broker_def distinct_map)
  obtain rv0 where "revoke_listed t (map (\<lambda>(k, st). cap_item k st) ?caps) [] b = (Inr rv0, b')"
    using assms(2) by (auto simp: revoke_authority_def b_capabilities_def obind_eq_Inr)
  from revoke_listed_run [OF this d] have
    gone: "k \<in> fst ` set (b_states b) \<Longrightarrow> \<exists>st. map_of (b_states b') k = Some st \<and> st_status st \<noteq> Active"
    and other: "k \<notin> fst ` set (b_states b) \<Longrightarrow> map_of (b_states b') k = map_of (b_states b) k" for k
    by auto
  show ?thesis
    unfolding no_active_def
  proof (intro allI impI)
    fix k st
    assume st: "map_of (b_states b') k = Some st"
    show "st_status st \<noteq> Active"
    proof (cases "k \<in> fst ` set (b_states b)")
      case True
      with gone [OF True] st show ?thesis by auto
    next
      case False
      then show ?thesis using other [OF False] st map_of_eq_None_iff [of "b_states b" k] by simp
    qed
  qed
qed

lemma steps_revoke_listed: "wf_broker b \<Longrightarrow> revoke_listed t caps rv b = (r, b') \<Longrightarrow> bsteps b b'"
proof (induction caps arbitrary: b rv)
  case (Cons cap caps)
  show ?case
  proof (cases "py_eq (dget cap ''status'') (JStr ''active'')")
    case False
    with Cons show ?thesis by simp
  next
    case True
    obtain r1 b1 where rev: "b_revoke (jstr (dget cap ''capability_id'')) t b = (r1, b1)" by (metis prod.collapse)
    then have s: "bsteps b b1" "wf_broker b1"
      using steps_b_revoke [OF Cons.prems(1)] wf_bsteps Cons.prems(1) by blast+
    show ?thesis
    proof (cases r1)
      case (Inl e)
      with Cons.prems(2) True rev s show ?thesis by (simp add: Let_def obind_def)
    next
      case (Inr doc)
      with Cons.prems(2) True rev obtain rv1 where "revoke_listed t caps rv1 b1 = (r, b')"
        by (auto simp: Let_def obind_def split: if_splits)
      with Cons.IH [OF s(2)] s(1) show ?thesis by (meson rtranclp_trans)
    qed
  qed
qed simp

lemma steps_revoke_authority: "wf_broker b \<Longrightarrow> revoke_authority t b = (r, b') \<Longrightarrow> bsteps b b'"
  using steps_revoke_listed [of b t "b_capabilities b" "[]"]
  by (auto simp: revoke_authority_def obind_cases)

subsection \<open>The mediated mutation\<close>

lemma evidence_shas: "se_from_mapping host raw = Inr ev \<Longrightarrow> is_sha256 (se_state_sha256 ev) \<and> is_sha256 (se_evidence_sha256 ev)"
  unfolding se_from_mapping_def
  by (cases "dget raw ''state_sha256''"; cases "dget raw ''evidence_sha256''")
    (auto simp: if_Inl_eq_Inr rbind_eq_Inr Let_def split: if_splits)

lemma rc_observe_run:
  assumes "rc_observe backend host w = (Inr ev, w')"
  shows "is_sha256 (se_state_sha256 ev)" "is_sha256 (se_evidence_sha256 ev)"
  using assms by (auto simp: rc_observe_def obind_cases dest: evidence_shas)

text \<open>\<open>observed backend host w' ev\<close>: the evidence is what the backend returned, and the world has not
  changed since.\<close>

definition observed :: "'w config_backend \<Rightarrow> string \<Rightarrow> 'w \<Rightarrow> state_evidence \<Rightarrow> bool" where
  "observed backend host w' ev \<longleftrightarrow> (\<exists>w. rc_observe backend host w = (Inr ev, w'))"

lemma ob_success_valid: "ob_validate (ob_success md) = Inr ()"
  by (simp add: ob_validate_def ob_success_def med_sha_def)

lemma config_executor_run:
  assumes "run_executor (config_executor backend host plan) op ((b, w), None) = (x, ((b', w'), captured))"
  shows "b' = b \<and> (case x of Inl _ \<Rightarrow> captured = None | Inr _ \<Rightarrow> \<exists>ev. captured = Some ev \<and> observed backend host w' ev)"
proof -
  obtain r1 w1 where a: "cb_apply backend plan w = (r1, w1)" by (metis prod.collapse)
  obtain r2 w2 where o: "rc_observe backend host w1 = (r2, w2)" by (metis prod.collapse)
  from assms a o show ?thesis
    by (cases r1; cases r2)
      (auto simp: run_executor_def config_executor_def obind_def ob_success_valid observed_def)
qed

definition mediation_result :: "(string \<times> json) list \<Rightarrow> string \<Rightarrow> string \<Rightarrow> bool" where
  "mediation_result doc adm out \<longleftrightarrow> dget doc ''admission_decision'' = JStr adm \<and> dget doc ''execution_outcome'' = JStr out \<and>
     is_sha256 (jstr (dget doc ''receipt_sha256''))"

lemma answer_result: "mediation_answer (Inr doc) adm out \<Longrightarrow> mediation_result doc adm out"
  by (auto simp: mediation_answer_def mediation_result_def mr_dget wf_mediation_receipt_def)

lemma config_mediate_run:
  assumes wf: "wf_broker b" and run: "config_mediate backend host plan op ((b, w), m) = (r, ((b', w'), m'))"
  shows "wf_broker b'"
    and "r = Inr (doc, captured) \<Longrightarrow> mediation_result doc ''BLOCK'' ''NOT_EXECUTED'' \<and> w' = w \<or>
      mediation_result doc ''ALLOW'' ''FAILED'' \<and> captured = None \<or>
      mediation_result doc ''ALLOW'' ''SUCCEEDED'' \<and> (\<exists>ev. captured = Some ev \<and> observed backend host w' ev)"
proof -
  let ?auth = "\<lambda>rq. on_fst (on_fst (b_authorize rq)) :: ((broker \<times> 'a) \<times> state_evidence option, _) op"
  obtain r0 cap where m: "m_mediate ?auth (config_executor backend host plan) op (((b, w), None), m) = (r0, (((b', w'), cap), m'))"
    and r: "r = rbind r0 (\<lambda>doc. Inr (doc, cap))"
    using run by (auto simp: config_mediate_def split: prod.splits)
  have auth: "\<exists>b1. s1 = ((b1, w), None) \<and> wf_broker b1" if "?auth rq ((b, w), None) = (rd, s1)" for rq rd s1
    using that steps_b_authorize [OF wf, of rq "fst (b_authorize rq b)" "snd (b_authorize rq b)"] wf_bsteps wf by auto
  have "wf_broker b' \<and> (r = Inr (doc, captured) \<longrightarrow> mediation_result doc ''BLOCK'' ''NOT_EXECUTED'' \<and> w' = w \<or>
      mediation_result doc ''ALLOW'' ''FAILED'' \<and> captured = None \<or>
      mediation_result doc ''ALLOW'' ''SUCCEEDED'' \<and> (\<exists>ev. captured = Some ev \<and> observed backend host w' ev))"
  proof (rule mediate_path [OF m])
    assume "((b', w'), cap) = ((b, w), None)" "mediation_answer r0 ''BLOCK'' ''NOT_EXECUTED''"
    then show ?thesis using wf r answer_result by (auto simp: rbind_eq_Inr)
  next
    fix rq rd
    assume "?auth rq ((b, w), None) = (rd, ((b', w'), cap))" "mediation_answer r0 ''BLOCK'' ''NOT_EXECUTED''"
    then show ?thesis using auth r answer_result by (fastforce simp: rbind_eq_Inr)
  next
    fix sc d s1 x
    assume a: "?auth (mediation_request op (the (map_of OPERATION_TO_CAPABILITY (ro_kind op))) sc) ((b, w), None) = (Inr d, s1)"
      and x: "run_executor (config_executor backend host plan) op s1 = (x, ((b', w'), cap))"
      and ans: "mediation_answer r0 ''ALLOW'' (case x of Inl _ \<Rightarrow> ''FAILED'' | Inr _ \<Rightarrow> ''SUCCEEDED'')"
    from auth [OF a] obtain b1 where s1: "s1 = ((b1, w), None)" "wf_broker b1" by blast
    from config_executor_run [OF x [unfolded s1(1)]] s1(2) r ans answer_result show ?thesis
      by (cases x) (auto simp: rbind_eq_Inr)
  qed
  then show "wf_broker b'" "r = Inr (doc, captured) \<Longrightarrow> mediation_result doc ''BLOCK'' ''NOT_EXECUTED'' \<and> w' = w \<or>
      mediation_result doc ''ALLOW'' ''FAILED'' \<and> captured = None \<or>
      mediation_result doc ''ALLOW'' ''SUCCEEDED'' \<and> (\<exists>ev. captured = Some ev \<and> observed backend host w' ev)"
    by blast+
qed

subsection \<open>Settling an admitted mutation\<close>

lemma rc_advance_run:
  assumes "wf_broker b" "is_sha256 sha" "rc_advance_epoch sha t (((b, w), m), c) = (r, s')"
  shows "\<exists>b'. s' = (((b', w), m), c\<lparr>rc_epoch := rc_epoch c + 1, rc_state_sha256 := sha\<rparr>) \<and> wf_broker b' \<and>
    (\<forall>rv. r = Inr rv \<longrightarrow> no_active b')"
proof -
  obtain r1 b1 where "revoke_authority t b = (r1, b1)" by (metis prod.collapse)
  with assms(2,3) steps_revoke_authority [OF assms(1)] wf_bsteps [OF _ assms(1)] revoke_authority_run [OF assms(1)] show ?thesis
    by (fastforce simp: rc_advance_epoch_def obind_def)
qed

definition wf_config_receipt :: "config_receipt \<Rightarrow> bool" where
  "wf_config_receipt r \<longleftrightarrow> cr_receipt_sha256 r = canonical_sha256 (JObj (cr_body r)) \<and>
     list_all is_sha256 [cr_plan_sha256 r, cr_before_state_sha256 r, cr_after_state_sha256 r,
       cr_mediation_receipt_sha256 r, cr_host_evidence_sha256 r, cr_revoked_authority_set_sha256 r] \<and>
     (cr_decision r = ''ALLOW'' \<or> cr_decision r = ''BLOCK'') \<and>
     (cr_outcome r = ''SUCCEEDED'' \<or> cr_outcome r = ''NOT_EXECUTED'' \<or> cr_outcome r = ''FAILED_CLOSED'') \<and>
     0 \<le> cr_epoch_before r \<and> cr_epoch_before r \<le> cr_epoch_after r \<and> 0 \<le> cr_revoked_authority_count r"

text \<open>A receipt of a plan with a given decision, outcome, epochs and observed state.\<close>

definition settled_as :: "config_receipt \<Rightarrow> config_plan \<Rightarrow> string \<Rightarrow> string \<Rightarrow> int \<Rightarrow> int \<Rightarrow> string \<Rightarrow> bool" where
  "settled_as r plan dec out e e' state \<longleftrightarrow> cr_plan_sha256 r = plan_sha256 plan \<and> cr_decision r = dec \<and> cr_outcome r = out \<and>
     cr_epoch_before r = e \<and> cr_epoch_after r = e' \<and> cr_after_state_sha256 r = state"

lemma cr_body_sha [simp]: "cr_body (r\<lparr>cr_receipt_sha256 := x\<rparr>) = cr_body r"
  by (simp add: cr_body_def)

lemma rc_finish_run:
  assumes "list_all is_sha256 [bs, as, msha, esha]" "0 \<le> e" "e \<le> e'"
    and "dec = ''ALLOW'' \<or> dec = ''BLOCK''" "out = ''SUCCEEDED'' \<or> out = ''NOT_EXECUTED'' \<or> out = ''FAILED_CLOSED''"
  shows "\<exists>r. rc_finish op plan bs as e e' msha esha rv dec out reasons c =
      (Inr (cr_as_document r), c\<lparr>rc_receipts := rc_receipts c @ [r]\<rparr>) \<and> settled_as r plan dec out e e' as \<and> wf_config_receipt r"
proof -
  let ?base = "\<lparr>cr_operation_id = ro_operation_id op, cr_plan_sha256 = plan_sha256 plan,
      cr_before_state_sha256 = bs, cr_after_state_sha256 = as, cr_epoch_before = e, cr_epoch_after = e',
      cr_mediation_receipt_sha256 = msha, cr_host_evidence_sha256 = esha, cr_revoked_authority_count = int (length rv),
      cr_revoked_authority_set_sha256 = canonical_sha256 (JList (map JStr rv)), cr_decision = dec, cr_outcome = out,
      cr_reason_codes = sort (remdups reasons), cr_receipt_sha256 = []\<rparr>"
  let ?r = "?base\<lparr>cr_receipt_sha256 := canonical_sha256 (JObj (cr_body ?base))\<rparr>"
  have "wf_config_receipt ?r"
    unfolding wf_config_receipt_def cr_body_sha using assms by (simp add: plan_sha256_def)
  then show ?thesis
    by (intro exI [of _ ?r]) (simp add: rc_finish_def Let_def settled_as_def)
qed

definition settled ::
  "'w config_backend \<Rightarrow> config_plan \<Rightarrow> int \<Rightarrow> rconfig \<Rightarrow> (string \<times> json) list \<Rightarrow> broker \<times> 'w \<Rightarrow> rconfig \<Rightarrow> bool" where
  "settled backend plan e c doc bw' c' \<longleftrightarrow> no_active (fst bw') \<and> (\<exists>r. doc = cr_as_document r \<and> wf_config_receipt r \<and>
     (settled_as r plan ''ALLOW'' ''SUCCEEDED'' e (rc_epoch c + 1) (rp_after_state_sha256 plan) \<and>
        (\<exists>ev. observed backend (rc_host_binding_sha256 c) (snd bw') ev \<and> se_state_sha256 ev = rp_after_state_sha256 plan) \<and>
        c' = c\<lparr>rc_epoch := rc_epoch c + 1, rc_state_sha256 := rp_after_state_sha256 plan, rc_tainted := False,
               rc_receipts := rc_receipts c @ [r]\<rparr> \<or>
      (\<exists>state. settled_as r plan ''BLOCK'' ''FAILED_CLOSED'' e (rc_epoch c + 1) state \<and>
        c' = c\<lparr>rc_epoch := rc_epoch c + 1, rc_state_sha256 := state, rc_tainted := True, rc_receipts := rc_receipts c @ [r]\<rparr>)))"

text \<open>The common tail of the three ways an admitted mutation ends.\<close>

definition closes_as ::
  "config_plan \<Rightarrow> string \<Rightarrow> string \<Rightarrow> int \<Rightarrow> bool \<Rightarrow> rconfig \<Rightarrow> string \<Rightarrow> (string \<times> json) list res \<Rightarrow> broker \<Rightarrow> rconfig \<Rightarrow> bool" where
  "closes_as plan dec out e taint c st r b' c' \<longleftrightarrow> wf_broker b' \<and> is_sha256 st \<and>
    (\<forall>x. r = Inl x \<longrightarrow> c' = c\<lparr>rc_epoch := rc_epoch c + 1, rc_state_sha256 := st\<rparr>) \<and>
    (\<forall>doc. r = Inr doc \<longrightarrow> no_active b' \<and> (\<exists>rc. doc = cr_as_document rc \<and> wf_config_receipt rc \<and>
       settled_as rc plan dec out e (rc_epoch c + 1) st \<and>
       c' = c\<lparr>rc_epoch := rc_epoch c + 1, rc_state_sha256 := st, rc_tainted := taint \<or> rc_tainted c, rc_receipts := rc_receipts c @ [rc]\<rparr>))"

lemma closes_other:
  assumes "closes_as plan dec out e taint c st r b' c'"
  shows "wf_broker b'" "r = Inl x \<Longrightarrow> \<exists>state. is_sha256 state \<and> c' = c\<lparr>rc_epoch := rc_epoch c + 1, rc_state_sha256 := state\<rparr>"
  using assms unfolding closes_as_def by auto

lemma closes_success:
  assumes "closes_as plan ''ALLOW'' ''SUCCEEDED'' e False c (rp_after_state_sha256 plan) r b' c'" "\<not> rc_tainted c"
    and "observed backend (rc_host_binding_sha256 c) w' ev" "se_state_sha256 ev = rp_after_state_sha256 plan" "r = Inr doc"
  shows "settled backend plan e c doc (b', w') c'"
  using assms unfolding closes_as_def settled_def by auto

lemma closes_failure:
  assumes "closes_as plan ''BLOCK'' ''FAILED_CLOSED'' e True c st r b' c'" "r = Inr doc"
  shows "settled backend plan e c doc (b', w') c'"
  using assms unfolding closes_as_def settled_def by auto

lemma rc_close_run:
  assumes wf: "wf_broker b" and shas: "list_all is_sha256 [bs, st, msha, ev]" and e: "0 \<le> e" "e \<le> rc_epoch c + 1"
    and kinds: "dec = ''ALLOW'' \<or> dec = ''BLOCK''" "out = ''SUCCEEDED'' \<or> out = ''NOT_EXECUTED'' \<or> out = ''FAILED_CLOSED''"
    and run: "obind (rc_advance_epoch st t) (\<lambda>revoked.
        obind (if taint then on_snd (omodify (\<lambda>c. c\<lparr>rc_tainted := True\<rparr>)) else oret ()) (\<lambda>_ s.
        on_snd (rc_finish op plan bs st e (rc_epoch (snd s)) msha ev revoked dec out reasons) s)) (((b, w), m), c) = (r, s')"
  shows "\<exists>b' c'. s' = (((b', w), m), c') \<and> closes_as plan dec out e taint c st r b' c'"
proof -
  have st: "is_sha256 st" using shas by simp
  obtain r1 s1 where adv: "rc_advance_epoch st t (((b, w), m), c) = (r1, s1)" by (metis prod.collapse)
  from rc_advance_run [OF wf st adv] obtain b1 where b1: "s1 = (((b1, w), m),
      c\<lparr>rc_epoch := rc_epoch c + 1, rc_state_sha256 := st\<rparr>)" "wf_broker b1" "\<forall>rv. r1 = Inr rv \<longrightarrow> no_active b1"
    by blast
  show ?thesis
  proof (cases r1)
    case (Inl x)
    with run adv b1 show ?thesis by (auto simp: obind_def closes_as_def st)
  next
    case (Inr rv)
    let ?c = "if taint then c\<lparr>rc_epoch := rc_epoch c + 1, rc_state_sha256 := st, rc_tainted := True\<rparr>
      else c\<lparr>rc_epoch := rc_epoch c + 1, rc_state_sha256 := st\<rparr>"
    from rc_finish_run [OF shas e kinds, of op plan rv reasons ?c] obtain rc where
      fin: "rc_finish op plan bs st e (rc_epoch c + 1) msha ev rv dec out reasons ?c =
        (Inr (cr_as_document rc), ?c\<lparr>rc_receipts := rc_receipts ?c @ [rc]\<rparr>)"
        "settled_as rc plan dec out e (rc_epoch c + 1) st" "wf_config_receipt rc"
      by blast
    with run adv b1 Inr show ?thesis by (cases taint) (auto simp: obind_def closes_as_def st)
  qed
qed

lemma rc_settle_run:
  assumes wf: "wf_broker b" and med: "mediation_result doc ''ALLOW'' out"
    and cap: "captured = None \<or> (\<exists>ev. captured = Some ev \<and> observed backend (rc_host_binding_sha256 c) w ev)"
    and e: "is_sha256 bs" "0 \<le> e" "e \<le> rc_epoch c + 1" and clean: "\<not> rc_tainted c"
    and run: "rc_settle backend op plan bs e doc captured (((b, w), m), c) = (r, (((b', w'), m'), c'))"
  shows "wf_broker b' \<and> (\<forall>doc'. r = Inr doc' \<longrightarrow> settled backend plan e c doc' (b', w') c') \<and>
    (\<forall>x. r = Inl x \<longrightarrow> (\<exists>state. is_sha256 state \<and> c' = c\<lparr>rc_epoch := rc_epoch c + 1, rc_state_sha256 := state\<rparr>))"
proof -
  let ?msha = "jstr (dget doc ''receipt_sha256'')"
  have msha: "is_sha256 ?msha" using med by (simp add: mediation_result_def)
  note close = rc_close_run [OF wf _ e(2,3)]
  show ?thesis
  proof (cases "if py_eq (dget doc ''execution_outcome'') (JStr ''SUCCEEDED'') then captured else None")
    case (Some ev)
    then have ev: "observed backend (rc_host_binding_sha256 c) w ev" using cap by (auto split: if_splits)
    then have shas: "list_all is_sha256 [bs, se_state_sha256 ev, ?msha, se_evidence_sha256 ev]"
      using rc_observe_run e(1) msha by (auto simp: observed_def)
    show ?thesis
    proof (cases "se_state_sha256 ev = rp_after_state_sha256 plan")
      case True
      have "obind (rc_advance_epoch (se_state_sha256 ev) (ro_at_unix op)) (\<lambda>revoked.
          obind (if False then on_snd (omodify (\<lambda>c. c\<lparr>rc_tainted := True\<rparr>)) else oret ()) (\<lambda>_ s.
          on_snd (rc_finish op plan bs (se_state_sha256 ev) e (rc_epoch (snd s)) ?msha (se_evidence_sha256 ev) revoked ''ALLOW'' ''SUCCEEDED''
            [''exact_state_transition'', ''runtime_epoch_advanced'', ''old_epoch_authority_revoked'']) s)) (((b, w), m), c) = (r, (((b', w'), m'), c'))"
        using run Some True by (simp add: rc_settle_def Let_def)
      from close [OF shas _ _ this] True have c: "w' = w" "closes_as plan ''ALLOW'' ''SUCCEEDED'' e False c (rp_after_state_sha256 plan) r b' c'"
        by auto
      show ?thesis
        by (intro conjI allI impI closes_success [OF c(2) clean _ True] closes_other [OF c(2)]) (simp_all add: ev c(1))
    next
      case False
      have "obind (rc_advance_epoch (se_state_sha256 ev) (ro_at_unix op)) (\<lambda>revoked.
          obind (if True then on_snd (omodify (\<lambda>c. c\<lparr>rc_tainted := True\<rparr>)) else oret ()) (\<lambda>_ s.
          on_snd (rc_finish op plan bs (se_state_sha256 ev) e (rc_epoch (snd s)) ?msha (se_evidence_sha256 ev) revoked ''BLOCK'' ''FAILED_CLOSED''
            [''after_state_mismatch'', ''runtime_epoch_advanced'', ''old_epoch_authority_revoked'', ''runtime_state_tainted'']) s)) (((b, w), m), c) = (r, (((b', w'), m'), c'))"
        using run Some False by (simp add: rc_settle_def Let_def)
      from close [OF shas _ _ this] have c: "closes_as plan ''BLOCK'' ''FAILED_CLOSED'' e True c (se_state_sha256 ev) r b' c'" by auto
      show ?thesis by (intro conjI allI impI closes_failure [OF c] closes_other [OF c]) simp_all
    qed
  next
    case None
    let ?obs = "otry (obind (on_config_world (rc_observe backend (rc_host_binding_sha256 c))) (\<lambda>uncertain.
        oret (se_state_sha256 uncertain, se_evidence_sha256 uncertain))) (\<lambda>_. oret (ZERO_SHA256, ZERO_SHA256))"
    obtain st ev w1 where obs: "?obs (((b, w), m), c) = (Inr (st, ev), (((b, w1), m), c))" "is_sha256 st" "is_sha256 ev"
    proof (cases "rc_observe backend (rc_host_binding_sha256 c) w")
      case (Pair r0 w1)
      then show thesis
        using that rc_observe_run by (cases r0) (force simp: otry_def obind_def on_config_world_def)+
    qed
    have shas: "list_all is_sha256 [bs, st, ?msha, ev]" using e(1) msha obs by simp
    have "obind (rc_advance_epoch st (ro_at_unix op)) (\<lambda>revoked.
          obind (if True then on_snd (omodify (\<lambda>c. c\<lparr>rc_tainted := True\<rparr>)) else oret ()) (\<lambda>_ s.
          on_snd (rc_finish op plan bs st e (rc_epoch (snd s)) ?msha ev revoked ''BLOCK'' ''FAILED_CLOSED''
            [''host_mutation_unverified'', ''runtime_epoch_advanced'', ''old_epoch_authority_revoked'', ''runtime_state_tainted'']) s)) (((b, w1), m), c) = (r, (((b', w'), m'), c'))"
      using run None by (simp add: rc_settle_def Let_def obind_def [of ?obs] obs(1))
    from close [OF shas _ _ this] have c: "closes_as plan ''BLOCK'' ''FAILED_CLOSED'' e True c st r b' c'" by auto
    show ?thesis by (intro conjI allI impI closes_failure [OF c] closes_other [OF c]) simp_all
  qed
qed

subsection \<open>One call of execute\<close>

definition bound_plan :: "config_plan \<Rightarrow> rconfig \<Rightarrow> bool" where
  "bound_plan plan c \<longleftrightarrow> rp_host_binding_sha256 plan = rc_host_binding_sha256 c \<and> \<not> rc_tainted c \<and>
     plan_sha256 plan \<notin> rc_seen_plans c \<and> rp_epoch_before plan = rc_epoch c \<and> rp_before_state_sha256 plan = rc_state_sha256 c"

definition refused :: "'w config_backend \<Rightarrow> config_plan \<Rightarrow> rconfig \<Rightarrow> 'w \<Rightarrow> (string \<times> json) list \<Rightarrow> 'w \<Rightarrow> rconfig \<Rightarrow> bool" where
  "refused backend plan c w doc w' c' \<longleftrightarrow> (w' = w \<or> w' = snd (cb_observe backend w)) \<and>
     (\<exists>r state. doc = cr_as_document r \<and> wf_config_receipt r \<and> is_sha256 state \<and>
        settled_as r plan ''BLOCK'' ''NOT_EXECUTED'' (rc_epoch c) (rc_epoch c) state \<and>
        c' = c\<lparr>rc_state_sha256 := state, rc_receipts := rc_receipts c @ [r]\<rparr>)"

definition learn :: "config_plan \<Rightarrow> rconfig \<Rightarrow> rconfig" where
  "learn plan c = c\<lparr>rc_seen_plans := insert (plan_sha256 plan) (rc_seen_plans c)\<rparr>"

definition config_step ::
  "'w config_backend \<Rightarrow> config_plan \<Rightarrow> rconfig \<Rightarrow> 'w \<Rightarrow> (string \<times> json) list res \<Rightarrow> broker \<times> 'w \<Rightarrow> rconfig \<Rightarrow> bool" where
  "config_step backend plan c w r bw' c' \<longleftrightarrow> wf_broker (fst bw') \<and>
     (case r of
        Inl _ \<Rightarrow> c' = c \<or> bound_plan plan c \<and> (\<exists>state. is_sha256 state \<and> c' = (learn plan c)\<lparr>rc_epoch := rc_epoch c + 1, rc_state_sha256 := state\<rparr>)
      | Inr doc \<Rightarrow> refused backend plan c w doc (snd bw') c' \<or>
          bound_plan plan c \<and> settled backend plan (rc_epoch c) (learn plan c) doc bw' c')"

lemma learn_fun: "learn plan = (\<lambda>c. c\<lparr>rc_seen_plans := insert (plan_sha256 plan) (rc_seen_plans c)\<rparr>)"
  by (simp add: learn_def fun_eq_iff)

lemma blocked_run:
  assumes "is_sha256 bs" "is_sha256 st" "is_sha256 msha" "is_sha256 esha" "0 \<le> rc_epoch c" "wf_broker b"
    and "w' = w \<or> w' = snd (cb_observe backend w)"
    and "on_snd (rc_finish op plan bs st (rc_epoch c) (rc_epoch c) msha esha [] ''BLOCK'' ''NOT_EXECUTED'' reasons)
      (((b, w'), m), c\<lparr>rc_state_sha256 := st\<rparr>) = (r, (((b', w2), m'), c'))"
  shows "config_step backend plan c w r (b', w2) c'"
proof -
  obtain rc where fin: "rc_finish op plan bs st (rc_epoch c) (rc_epoch c) msha esha [] ''BLOCK'' ''NOT_EXECUTED'' reasons
      (c\<lparr>rc_state_sha256 := st\<rparr>) = (Inr (cr_as_document rc), c\<lparr>rc_state_sha256 := st, rc_receipts := rc_receipts c @ [rc]\<rparr>)"
      "settled_as rc plan ''BLOCK'' ''NOT_EXECUTED'' (rc_epoch c) (rc_epoch c) st" "wf_config_receipt rc"
    using rc_finish_run [of bs st msha esha "rc_epoch c" "rc_epoch c" "''BLOCK''" "''NOT_EXECUTED''" op plan "[]" reasons
        "c\<lparr>rc_state_sha256 := st\<rparr>"] assms(1-5) by auto
  with assms(8) have eqs: "r = Inr (cr_as_document rc)" "b' = b" "w2 = w'"
      "c' = c\<lparr>rc_state_sha256 := st, rc_receipts := rc_receipts c @ [rc]\<rparr>" by auto
  have "refused backend plan c w (cr_as_document rc) w2 c'"
    unfolding refused_def eqs(3,4) using assms(2,7) fin(2,3) by blast
  with assms(6) eqs show ?thesis by (simp add: config_step_def)
qed

lemma rc_execute_admit:
  assumes wf: "wf_broker b" and c: "is_sha256 (rc_state_sha256 c)" "0 \<le> rc_epoch c" and bound: "bound_plan plan c"
    and pre: "\<exists>scope. ro_validate op = Inr () \<and> rp_validate plan = Inr () \<and> ro_kind op = ''runtime.configure'' \<and>
      ro_operation_id op = rp_operation_id plan \<and> ro_normalized_scope op = Inr scope \<and>
      jstrs (dget scope ''setting_keys'') = rp_setting_keys plan \<and> ro_payload_sha256 op = plan_payload_sha256 plan"
    and obs: "rc_observe backend (rc_host_binding_sha256 c) w = (Inr ev, w1)"
    and same: "se_state_sha256 ev = rc_state_sha256 c \<and> rp_before_state_sha256 plan = se_state_sha256 ev"
    and w1: "w1 = snd (cb_observe backend w)"
    and run: "rc_execute backend op plan (((b, w), m), c) = (r, (((b', w'), m'), c'))"
  shows "config_step backend plan c w r (b', w') c'"
proof -
  let ?host = "rc_host_binding_sha256 c"
  obtain rm b2 w2 m2 where med: "config_mediate backend ?host plan op ((b, w1), m) = (rm, ((b2, w2), m2))"
    by (metis prod.collapse)
  note go = rc_execute_def Let_def on_config_world_def obind_def bound_plan_def py_eq_text
  note wf2 = config_mediate_run(1) [OF wf med]
  show ?thesis
  proof (cases rm)
    case (Inl e)
    with run pre bound obs same med wf2 show ?thesis by (auto simp: go config_step_def)
  next
    case (Inr dc)
    obtain doc captured where dc: "dc = (doc, captured)" by force
    note path = config_mediate_run(2) [OF wf med, of doc captured, unfolded Inr dc, OF refl]
    show ?thesis
    proof (cases "dget doc ''admission_decision'' = JStr ''ALLOW''")
      case False
      with path have blk: "mediation_result doc ''BLOCK'' ''NOT_EXECUTED''" "w2 = w1" by (auto simp: mediation_result_def)
      then have msha: "is_sha256 (jstr (dget doc ''receipt_sha256''))" by (simp add: mediation_result_def)
      have "on_snd (rc_finish op plan (rc_state_sha256 c) (rc_state_sha256 c) (rc_epoch c) (rc_epoch c)
          (jstr (dget doc ''receipt_sha256'')) ZERO_SHA256 [] ''BLOCK'' ''NOT_EXECUTED'' (jstrs (dget doc ''reason_codes'')))
          (((b2, w1), m2), c\<lparr>rc_state_sha256 := rc_state_sha256 c\<rparr>) = (r, (((b', w'), m'), c'))"
        using run pre bound obs same med Inr dc False blk(2) by (auto simp: go)
      from blocked_run [OF c(1) c(1) msha is_sha256_zero c(2) wf2 _ this] w1 show ?thesis by simp
    next
      case True
      then obtain out where out: "mediation_result doc ''ALLOW'' out"
        "captured = None \<or> (\<exists>ev. captured = Some ev \<and> observed backend ?host w2 ev)"
        using path by (auto simp: mediation_result_def)
      have "rc_settle backend op plan (rc_state_sha256 c) (rc_epoch c) doc captured (((b2, w2), m2), learn plan c) =
          (r, (((b', w'), m'), c'))"
        using run pre bound obs same med Inr dc True by (auto simp: go learn_def)
      from rc_settle_run [OF wf2 out(1) _ c _ _ this] out(2) bound show ?thesis
        by (cases r) (auto simp: config_step_def learn_def bound_plan_def)
    qed
  qed
qed

lemma rc_execute_run:
  assumes wf: "wf_broker b" and c: "is_sha256 (rc_state_sha256 c)" "0 \<le> rc_epoch c"
    and run: "rc_execute backend op plan (((b, w), m), c) = (r, (((b', w'), m'), c'))"
  shows "config_step backend plan c w r (b', w') c'"
proof -
  note blocked = blocked_run [OF c(1) _ _ _ c(2), where backend = backend and op = op and plan = plan]
  have stop: "config_step backend plan c w (Inl e) (b, w) c" for e using wf by (simp add: config_step_def)
  show ?thesis
  proof (cases "\<exists>scope. ro_validate op = Inr () \<and> rp_validate plan = Inr () \<and> ro_kind op = ''runtime.configure'' \<and>
      ro_operation_id op = rp_operation_id plan \<and> ro_normalized_scope op = Inr scope \<and>
      jstrs (dget scope ''setting_keys'') = rp_setting_keys plan \<and> ro_payload_sha256 op = plan_payload_sha256 plan")
    case False
    have "\<exists>e. rc_execute backend op plan (((b, w), m), c) = (Inl e, (((b, w), m), c))"
      using False by (cases "ro_validate op"; cases "rp_validate plan"; cases "ro_normalized_scope op")
        (auto simp: rc_execute_def Let_def)
    with run stop show ?thesis by auto
  next
    case True
    note pre = True
    show ?thesis
    proof (cases "rp_host_binding_sha256 plan = rc_host_binding_sha256 c \<and> \<not> rc_tainted c \<and>
        plan_sha256 plan \<notin> rc_seen_plans c \<and> rp_epoch_before plan = rc_epoch c")
      case False
      then obtain reasons where "on_snd (rc_finish op plan (rc_state_sha256 c) (rc_state_sha256 c) (rc_epoch c) (rc_epoch c)
          ZERO_SHA256 ZERO_SHA256 [] ''BLOCK'' ''NOT_EXECUTED'' reasons) (((b, w), m), c\<lparr>rc_state_sha256 := rc_state_sha256 c\<rparr>) =
          (r, (((b', w'), m'), c'))"
        using run pre by (auto simp: rc_execute_def Let_def split: if_splits)
      from blocked [OF c(1) is_sha256_zero is_sha256_zero wf _ this] show ?thesis by simp
    next
      case True
      let ?host = "rc_host_binding_sha256 c"
      obtain r1 w1 where obs: "rc_observe backend ?host w = (r1, w1)" by (metis prod.collapse)
      then have w1: "w1 = snd (cb_observe backend w)" by (auto simp: rc_observe_def obind_def split: prod.splits sum.splits)
      show ?thesis
      proof (cases r1)
        case (Inl e)
        with run pre True obs wf show ?thesis by (auto simp: rc_execute_def Let_def on_config_world_def obind_def config_step_def)
      next
        case (Inr ev)
        note shas = rc_observe_run [OF obs [unfolded Inr]]
        show ?thesis
        proof (cases "se_state_sha256 ev = rc_state_sha256 c \<and> rp_before_state_sha256 plan = se_state_sha256 ev")
          case False
          then have "on_snd (rc_finish op plan (rc_state_sha256 c) (se_state_sha256 ev) (rc_epoch c) (rc_epoch c)
              ZERO_SHA256 (se_evidence_sha256 ev) [] ''BLOCK'' ''NOT_EXECUTED'' [''stale_before_state''])
              (((b, w1), m), c\<lparr>rc_state_sha256 := se_state_sha256 ev\<rparr>) = (r, (((b', w'), m'), c'))"
            using run pre True obs Inr by (auto simp: rc_execute_def Let_def on_config_world_def obind_def split: if_splits)
          from blocked [OF shas(1) is_sha256_zero shas(2) wf _ this] w1 show ?thesis by simp
        next
          case same: True
          then have bound: "bound_plan plan c" using True by (simp add: bound_plan_def)
          from rc_execute_admit [OF wf c bound pre obs [unfolded Inr] same w1 run] show ?thesis .
        qed
      qed
    qed
  qed
qed

subsection \<open>Runs\<close>

text \<open>Any sequence of \<open>execute\<close> calls; between them the host, the mediator and the capability broker may
  change in any way that keeps the broker well formed.\<close>

inductive config_reach :: "'w config_backend \<Rightarrow> 'w governed \<Rightarrow> bool" for backend where
  init: "rconfig_init backend host w = (Inr c, w') \<Longrightarrow> wf_broker b \<Longrightarrow> config_reach backend (((b, w'), m), c)"
| execute: "config_reach backend s \<Longrightarrow> config_reach backend (snd (rc_execute backend op plan s))"
| environment: "config_reach backend (x, c) \<Longrightarrow> wf_broker b \<Longrightarrow> config_reach backend (((b, w), m), c)"

definition executed :: "config_receipt list \<Rightarrow> config_receipt list" where
  "executed = filter (\<lambda>r. cr_outcome r \<noteq> ''NOT_EXECUTED'')"

lemma executed_snoc:
  "executed (rs @ [r]) = (if cr_outcome r = ''NOT_EXECUTED'' then executed rs else executed rs @ [r])" "executed [] = []"
  by (simp_all add: executed_def)

definition wf_rconfig :: "rconfig \<Rightarrow> bool" where
  "wf_rconfig c \<longleftrightarrow> is_sha256 (rc_state_sha256 c) \<and> 0 \<le> rc_epoch c \<and> list_all wf_config_receipt (rc_receipts c) \<and>
     distinct (map cr_plan_sha256 (executed (rc_receipts c))) \<and>
     cr_plan_sha256 ` set (executed (rc_receipts c)) \<subseteq> rc_seen_plans c \<and>
     sorted_wrt (<) (map cr_epoch_after (executed (rc_receipts c))) \<and>
     (\<forall>r \<in> set (executed (rc_receipts c)). cr_epoch_after r = cr_epoch_before r + 1 \<and> cr_epoch_before r < rc_epoch c)"

lemma settled_outcome: "settled_as r plan dec out e e' st \<Longrightarrow> wf_config_receipt r \<Longrightarrow>
    cr_outcome r = out \<and> cr_plan_sha256 r = plan_sha256 plan \<and> is_sha256 st"
  by (auto simp: settled_as_def wf_config_receipt_def)

lemma settledD:
  assumes "settled backend plan e c doc bw' c'"
  shows "\<exists>r dec out st. wf_config_receipt r \<and> settled_as r plan dec out e (rc_epoch c + 1) st \<and> out \<noteq> ''NOT_EXECUTED'' \<and>
    rc_state_sha256 c' = st \<and> rc_epoch c' = rc_epoch c + 1 \<and> rc_receipts c' = rc_receipts c @ [r] \<and>
    rc_seen_plans c' = rc_seen_plans c"
proof -
  from assms obtain r where r: "wf_config_receipt r"
    and cases: "settled_as r plan ''ALLOW'' ''SUCCEEDED'' e (rc_epoch c + 1) (rp_after_state_sha256 plan) \<and>
        c' = c\<lparr>rc_epoch := rc_epoch c + 1, rc_state_sha256 := rp_after_state_sha256 plan, rc_tainted := False,
               rc_receipts := rc_receipts c @ [r]\<rparr> \<or>
      (\<exists>state. settled_as r plan ''BLOCK'' ''FAILED_CLOSED'' e (rc_epoch c + 1) state \<and>
        c' = c\<lparr>rc_epoch := rc_epoch c + 1, rc_state_sha256 := state, rc_tainted := True, rc_receipts := rc_receipts c @ [r]\<rparr>)"
    unfolding settled_def by blast
  from cases show ?thesis
  proof (elim disjE exE conjE)
    assume "settled_as r plan ''ALLOW'' ''SUCCEEDED'' e (rc_epoch c + 1) (rp_after_state_sha256 plan)"
      "c' = c\<lparr>rc_epoch := rc_epoch c + 1, rc_state_sha256 := rp_after_state_sha256 plan, rc_tainted := False,
               rc_receipts := rc_receipts c @ [r]\<rparr>"
    with r show ?thesis
      by (intro exI [of _ r] exI [of _ "''ALLOW''"] exI [of _ "''SUCCEEDED''"] exI [of _ "rp_after_state_sha256 plan"]) simp
  next
    fix state
    assume "settled_as r plan ''BLOCK'' ''FAILED_CLOSED'' e (rc_epoch c + 1) state"
      "c' = c\<lparr>rc_epoch := rc_epoch c + 1, rc_state_sha256 := state, rc_tainted := True, rc_receipts := rc_receipts c @ [r]\<rparr>"
    with r show ?thesis
      by (intro exI [of _ r] exI [of _ "''BLOCK''"] exI [of _ "''FAILED_CLOSED''"] exI [of _ state]) simp
  qed
qed

lemma settled_wf:
  assumes "wf_rconfig c" "bound_plan plan c" "settled backend plan (rc_epoch c) (learn plan c) doc bw' c'"
  shows "wf_rconfig c'"
proof -
  from settledD [OF assms(3)] obtain r dec out st where r: "wf_config_receipt r" "settled_as r plan dec out (rc_epoch c) (rc_epoch c + 1) st"
      "out \<noteq> ''NOT_EXECUTED''" and c': "rc_state_sha256 c' = st" "rc_epoch c' = rc_epoch c + 1"
      "rc_receipts c' = rc_receipts c @ [r]" "rc_seen_plans c' = insert (plan_sha256 plan) (rc_seen_plans c)"
    by (auto simp: learn_def)
  note f = settled_outcome [OF r(2,1)] r(2) [unfolded settled_as_def]
  from assms(1) have old: "\<forall>x \<in> set (executed (rc_receipts c)). cr_epoch_after x \<le> rc_epoch c"
    unfolding wf_rconfig_def by auto
  have "plan_sha256 plan \<notin> cr_plan_sha256 ` set (executed (rc_receipts c))"
    using assms(1,2) by (auto simp: wf_rconfig_def bound_plan_def)
  with assms(1) r(1,3) f c' old show ?thesis
    by (auto simp: wf_rconfig_def executed_snoc sorted_wrt_append)
qed

lemma config_step_wf:
  assumes "wf_rconfig c" "config_step backend plan c w r bw' c'"
  shows "wf_rconfig c'"
proof (cases r)
  case (Inl e)
  with assms(2) consider "c' = c" | st where "is_sha256 st"
      "c' = (learn plan c)\<lparr>rc_epoch := rc_epoch c + 1, rc_state_sha256 := st\<rparr>"
    by (auto simp: config_step_def)
  then show ?thesis
    using assms(1) by cases (auto simp: wf_rconfig_def learn_def)
next
  case (Inr doc)
  with assms(2) have "refused backend plan c w doc (snd bw') c' \<or>
      bound_plan plan c \<and> settled backend plan (rc_epoch c) (learn plan c) doc bw' c'"
    by (simp add: config_step_def)
  then show ?thesis
  proof
    assume "refused backend plan c w doc (snd bw') c'"
    then obtain rc st where "wf_config_receipt rc" "is_sha256 st" "cr_outcome rc = ''NOT_EXECUTED''"
        "c' = c\<lparr>rc_state_sha256 := st, rc_receipts := rc_receipts c @ [rc]\<rparr>"
      unfolding refused_def settled_as_def by blast
    with assms(1) show ?thesis by (simp add: wf_rconfig_def executed_snoc)
  qed (use settled_wf [OF assms(1)] in blast)
qed

lemma config_reach_wf: "config_reach backend s \<Longrightarrow> wf_broker (fst (fst (fst s))) \<and> wf_rconfig (snd s)"
proof (induction rule: config_reach.induct)
  case (init host w c w' b m)
  then show ?case
    by (auto simp: rconfig_init_def obind_cases wf_rconfig_def executed_snoc dest: rc_observe_run)
next
  case (execute s op plan)
  obtain b w m c where s: "s = (((b, w), m), c)" by (metis prod.collapse)
  obtain r b' w' m' c' where run: "rc_execute backend op plan s = (r, (((b', w'), m'), c'))" by (metis prod.collapse)
  from execute.IH s have wf: "wf_broker b" "wf_rconfig c" by simp_all
  then have step: "config_step backend plan c w r (b', w') c'"
    using rc_execute_run [OF _ _ _ run [unfolded s]] by (simp add: wf_rconfig_def)
  then have "wf_broker b'" by (simp add: config_step_def)
  with config_step_wf [OF wf(2) step] show ?case by (simp add: run)
qed simp

subsection \<open>Receipts\<close>

lemma cr_facts:
  "dget (cr_as_document r) ''receipt_sha256'' = JStr (cr_receipt_sha256 r)"
  "dpop (cr_as_document r) ''receipt_sha256'' = cr_body r"
  "dget (cr_body r) ''schema'' = JStr CONFIG_SCHEMA" "dget (cr_body r) ''authority'' = CONFIG_AUTHORITY"
  "dget (cr_body r) ''plan_sha256'' = JStr (cr_plan_sha256 r)"
  "dget (cr_body r) ''before_state_sha256'' = JStr (cr_before_state_sha256 r)"
  "dget (cr_body r) ''after_state_sha256'' = JStr (cr_after_state_sha256 r)"
  "dget (cr_body r) ''mediation_receipt_sha256'' = JStr (cr_mediation_receipt_sha256 r)"
  "dget (cr_body r) ''host_evidence_sha256'' = JStr (cr_host_evidence_sha256 r)"
  "dget (cr_body r) ''revoked_authority_set_sha256'' = JStr (cr_revoked_authority_set_sha256 r)"
  "dget (cr_body r) ''decision'' = JStr (cr_decision r)" "dget (cr_body r) ''outcome'' = JStr (cr_outcome r)"
  "dget (cr_body r) ''epoch_before'' = JInt (cr_epoch_before r)" "dget (cr_body r) ''epoch_after'' = JInt (cr_epoch_after r)"
  "dget (cr_body r) ''revoked_authority_count'' = JInt (cr_revoked_authority_count r)"
  by (simp_all add: cr_as_document_def cr_body_def dpop_def dget_def)

lemma rc_verify_receipt_ok:
  assumes "wf_config_receipt r"
  shows "rc_verify_receipt (cr_as_document r) = Inr (cr_as_document r)"
proof -
  have refl: "py_eq v v" for v by (simp add: py_eq_def)
  have shas: "rc_check_shas (cr_body r) [''plan_sha256'', ''before_state_sha256'', ''after_state_sha256'',
      ''mediation_receipt_sha256'', ''host_evidence_sha256'', ''revoked_authority_set_sha256''] = Inr ()"
    using assms by (simp add: cr_facts wf_config_receipt_def)
  have counts: "check_counts (\<lambda>m. RuntimeConfigError m) (cr_body r) [''epoch_before'', ''epoch_after'', ''revoked_authority_count''] = Inr ()"
    using assms by (auto simp: cr_facts wf_config_receipt_def)
  have kinds: "py_in_set (dget (cr_body r) ''decision'') [''ALLOW'', ''BLOCK''] = Inr True"
      "py_in_set (dget (cr_body r) ''outcome'') [''SUCCEEDED'', ''NOT_EXECUTED'', ''FAILED_CLOSED''] = Inr True"
    using assms by (auto simp: cr_facts wf_config_receipt_def py_in_set_def)
  have rest: "cr_epoch_before r \<le> cr_epoch_after r" "cr_receipt_sha256 r = canonical_sha256 (JObj (cr_body r))"
    using assms by (simp_all add: wf_config_receipt_def)
  show ?thesis
    unfolding rc_verify_receipt_def Let_def cr_facts(1,2) shas counts kinds
    using rest by (simp add: cr_facts refl json_int_def py_eq_text del: rc_check_shas.simps check_counts.simps)
qed

subsection \<open>Properties of bound runtime configuration\<close>

definition demo_config_backend :: "string config_backend" where
  "demo_config_backend = \<lparr>cb_observe = (\<lambda>w. (Inr [(''schema'', JStr STATE_SCHEMA), (''host_binding_sha256'', JStr ZERO_SHA256),
       (''state_sha256'', JStr w), (''evidence_sha256'', JStr (canonical_sha256 (JObj [(''schema'', JStr STATE_SCHEMA),
         (''host_binding_sha256'', JStr ZERO_SHA256), (''state_sha256'', JStr w)])))], w)),
     cb_apply = (\<lambda>plan w. (Inr (), rp_after_state_sha256 plan))\<rparr>"

definition demo_rconfig :: rconfig where
  "demo_rconfig = \<lparr>rc_host_binding_sha256 = ZERO_SHA256, rc_state_sha256 = ZERO_SHA256, rc_epoch = 0,
     rc_tainted = False, rc_seen_plans = {}, rc_receipts = []\<rparr>"

definition demo_plan :: config_plan where
  "demo_plan = \<lparr>rp_operation_id = ''op:1'', rp_setting_keys = [''log.level''], rp_before_state_sha256 = ZERO_SHA256,
     rp_after_state_sha256 = replicate 64 (CHR ''1''), rp_change_set_sha256 = ZERO_SHA256,
     rp_host_binding_sha256 = ZERO_SHA256, rp_epoch_before = 1\<rparr>"

definition demo_config_op :: runtime_operation where
  "demo_config_op = \<lparr>ro_operation_id = ''op:1'', ro_subject_id = ''agent:a'', ro_policy_sha256 = ZERO_SHA256,
     ro_kind = ''runtime.configure'', ro_scope = [(''setting_keys'', JList [JStr ''log.level''])],
     ro_payload_sha256 = plan_payload_sha256 demo_plan, ro_at_unix = 30, ro_privilege_level_before = 0, ro_privilege_level_after = 1\<rparr>"

lemma demo_config_reach: "config_reach demo_config_backend (((demo_broker, ZERO_SHA256), mediator_init), demo_rconfig)"
proof (rule config_reach.init)
  show "rconfig_init demo_config_backend ZERO_SHA256 ZERO_SHA256 = (Inr demo_rconfig, ZERO_SHA256)"
    by (simp add: rconfig_init_def rc_observe_def obind_def demo_config_backend_def se_from_mapping_def same_keys_def dkeys_def dget_def
        py_eq_text Let_def demo_rconfig_def)
  show "wf_broker demo_broker" by (rule reach_wf [OF demo_reach])
qed

lemma demo_setting_scope: "validate_scope ''runtime.configure'' (setting_scope [''log.level'']) = Inr [(''setting_keys'', JList [JStr ''log.level''])]"
  by code_simp

lemma demo_config_valid: "ro_validate demo_config_op = Inr ()" "rp_validate demo_plan = Inr ()"
    "ro_normalized_scope demo_config_op = Inr [(''setting_keys'', JList [JStr ''log.level''])]"
proof -
  have strip: "py_strip ''op:1'' = ''op:1''" "py_len ''op:1'' = 4" "py_strip ''agent:a'' \<noteq> []" by code_simp+
  have differ: "ZERO_SHA256 \<noteq> replicate 64 (CHR ''1'')" "is_sha256 (replicate 64 (CHR ''1''))" by code_simp+
  show sc: "ro_normalized_scope demo_config_op = Inr [(''setting_keys'', JList [JStr ''log.level''])]"
    using demo_setting_scope
    by (simp add: ro_normalized_scope_def demo_config_op_def OPERATION_TO_CAPABILITY_def setting_scope_def)
  show "ro_validate demo_config_op = Inr ()"
    using sc strip by (simp add: ro_validate_def med_sha_def) (simp add: demo_config_op_def plan_payload_sha256_def)
  show "rp_validate demo_plan = Inr ()"
    using strip differ demo_setting_scope by (simp add: rp_validate_def rc_text_def demo_plan_def)
qed

lemma demo_config_fields:
  "ro_kind demo_config_op = ''runtime.configure''" "ro_operation_id demo_config_op = rp_operation_id demo_plan"
  "jstrs (dget [(''setting_keys'', JList [JStr ''log.level''])] ''setting_keys'') = rp_setting_keys demo_plan"
  "ro_payload_sha256 demo_config_op = plan_payload_sha256 demo_plan"
  "rp_host_binding_sha256 demo_plan = rc_host_binding_sha256 demo_rconfig" "\<not> rc_tainted demo_rconfig"
  "rc_seen_plans demo_rconfig = {}" "rp_epoch_before demo_plan \<noteq> rc_epoch demo_rconfig"
  by (simp_all add: demo_config_op_def demo_plan_def demo_rconfig_def dget_def)





end
