(* ===== verification/Epoch_Properties.thy ===== *)
theory Epoch_Properties
  imports Epoch_Capability Config_Properties
begin

section \<open>Epoch-bound capabilities: facts and properties\<close>

text \<open>
  The invariant of the wrapper and its delegate, what the removal of stale authority leaves behind, and
  what an answer of \<open>authorize\<close> and \<open>admit\<close> means for the bindings and for the delegate.
\<close>

subsection \<open>Contracts\<close>

definition wf_bound :: "bound_contract \<Rightarrow> bool" where
  "wf_bound c \<longleftrightarrow> (\<exists>base. wf_contract base \<and> bc_base_capability c = cc_as_document base) \<and>
     0 \<le> bc_runtime_epoch c \<and> is_sha256 (bc_runtime_state_sha256 c) \<and>
     bc_binding_sha256 c = canonical_sha256 (JObj (bc_body c))"

lemma eb_sha_Inr: "eb_sha v n = Inr s \<longleftrightarrow> v = JStr s \<and> is_sha256 s"
  by (cases v) auto

lemma eb_time_Inr: "eb_time v n = Inr i \<longleftrightarrow> v = JInt i \<and> 0 \<le> i"
  by (cases v) auto

lemma wf_bound_base:
  assumes "wf_bound c"
  obtains base where "bc_base c = Inr base" "wf_contract base" "bc_base_capability c = cc_as_document base"
  using assms cc_roundtrip by (auto simp: wf_bound_def bc_base_def)

lemma bc_from_document_wf: "bc_from_document doc = Inr c \<Longrightarrow> wf_bound c"
  unfolding bc_from_document_def
  by (auto simp: if_Inl_eq_Inr rbind_eq_Inr eb_sha_Inr eb_time_Inr Let_def wf_bound_def
      dest: cc_from_document_wf split: sum.splits if_splits)

lemma bc_dget:
  "dget (bc_as_document c) ''schema'' = JStr EPOCH_CONTRACT_SCHEMA" "dget (bc_as_document c) ''authority'' = EPOCH_AUTHORITY"
  "dget (bc_as_document c) ''base_capability'' = bc_base_capability c"
  "dget (bc_as_document c) ''runtime_epoch'' = JInt (bc_runtime_epoch c)"
  "dget (bc_as_document c) ''runtime_state_sha256'' = JStr (bc_runtime_state_sha256 c)"
  "dget (bc_as_document c) ''binding_sha256'' = JStr (bc_binding_sha256 c)"
  by (simp_all add: bc_as_document_def bc_body_def dget_def)

lemma bc_keys: "same_keys (bc_as_document c)
    [''schema'', ''base_capability'', ''runtime_epoch'', ''runtime_state_sha256'', ''authority'', ''binding_sha256'']"
  by (simp add: same_keys_def dkeys_def bc_as_document_def bc_body_def)

lemma bc_roundtrip:
  assumes "wf_bound c"
  shows "bc_from_document (bc_as_document c) = Inr c"
proof -
  obtain base where b: "wf_contract base" "bc_base_capability c = cc_as_document base"
    using assms by (auto simp: wf_bound_def)
  have "rbind (py_dict (cc_as_document base)) (\<lambda>d. cc_from_document (JObj d)) = Inr base"
    using cc_roundtrip [OF b(1)] by (simp add: cc_as_document_def)
  then have base: "rbind (py_dict (bc_base_capability c)) (\<lambda>d. cc_from_document (JObj d)) = Inr base" by (simp only: b(2))
  have eta: "\<lparr>bc_base_capability = cc_as_document base, bc_runtime_epoch = bc_runtime_epoch c,
      bc_runtime_state_sha256 = bc_runtime_state_sha256 c, bc_binding_sha256 = bc_binding_sha256 c\<rparr> = c"
    by (simp add: b(2) [symmetric])
  have ok: "0 \<le> bc_runtime_epoch c" "is_sha256 (bc_runtime_state_sha256 c)" "is_sha256 (bc_binding_sha256 c)"
      "canonical_sha256 (JObj (bc_body c)) = bc_binding_sha256 c"
    using assms by (simp_all add: wf_bound_def)
  show ?thesis
    unfolding bc_from_document_def bc_dget base using ok by (simp add: bc_keys Let_def eta)
qed

lemma bc_body_inj:
  assumes "wf_bound c" "wf_bound d" and norm: "json_norm (JObj (bc_body c)) = json_norm (JObj (bc_body d))"
  shows "c = d"
proof -
  obtain x y where b: "wf_contract x" "wf_contract y" "bc_base_capability c = cc_as_document x" "bc_base_capability d = cc_as_document y"
    using assms(1,2) by (auto simp: wf_bound_def)
  have get: "dget (bc_body z) ''base_capability'' = bc_base_capability z" "dget (bc_body z) ''runtime_epoch'' = JInt (bc_runtime_epoch z)"
      "dget (bc_body z) ''runtime_state_sha256'' = JStr (bc_runtime_state_sha256 z)" for z
    by (simp_all add: bc_body_def dget_def)
  note eq = json_norm_dget [OF norm]
  have "x = y" using cc_as_document_inj b eq [of "''base_capability''"] by (simp only: get)
  moreover have "bc_runtime_epoch c = bc_runtime_epoch d" "bc_runtime_state_sha256 c = bc_runtime_state_sha256 d"
    using eq [of "''runtime_epoch''"] eq [of "''runtime_state_sha256''"] by (simp_all add: get)
  moreover have "bc_binding_sha256 c = bc_binding_sha256 d"
    using assms(1,2) norm_same_sha [OF norm] by (simp only: wf_bound_def)
  ultimately show ?thesis using b by simp
qed

interpretation bound_digest: hashed_record bc_binding_sha256 "\<lambda>c. JObj (bc_body c)" wf_bound
  by unfold_locales (simp only: wf_bound_def, rule bc_body_inj)

subsection \<open>Receipts\<close>

definition wf_epoch_receipt :: "epoch_receipt \<Rightarrow> bool" where
  "wf_epoch_receipt r \<longleftrightarrow> xr_receipt_sha256 r = canonical_sha256 (JObj (xr_body r)) \<and>
     list_all is_sha256 [xr_bound_contract_sha256 r, xr_base_contract_sha256 r, xr_runtime_state_sha256_bound r,
       xr_runtime_state_sha256_observed r, xr_runtime_snapshot_sha256 r, xr_delegate_receipt_sha256 r] \<and>
     0 \<le> xr_runtime_epoch_bound r \<and> 0 \<le> xr_runtime_epoch_observed r \<and> 0 \<le> xr_at_unix r \<and>
     (xr_decision r = ''ALLOW'' \<or> xr_decision r = ''BLOCK'') \<and> [] \<notin> set (xr_reason_codes r)"

lemma xr_facts:
  "dget (xr_as_document r) ''receipt_sha256'' = JStr (xr_receipt_sha256 r)"
  "dpop (xr_as_document r) ''receipt_sha256'' = xr_body r"
  "dget (xr_body r) ''schema'' = JStr EPOCH_DECISION_SCHEMA" "dget (xr_body r) ''authority'' = EPOCH_AUTHORITY"
  "dget (xr_body r) ''bound_contract_sha256'' = JStr (xr_bound_contract_sha256 r)"
  "dget (xr_body r) ''base_contract_sha256'' = JStr (xr_base_contract_sha256 r)"
  "dget (xr_body r) ''runtime_epoch_bound'' = JInt (xr_runtime_epoch_bound r)"
  "dget (xr_body r) ''runtime_epoch_observed'' = JInt (xr_runtime_epoch_observed r)"
  "dget (xr_body r) ''runtime_state_sha256_bound'' = JStr (xr_runtime_state_sha256_bound r)"
  "dget (xr_body r) ''runtime_state_sha256_observed'' = JStr (xr_runtime_state_sha256_observed r)"
  "dget (xr_body r) ''runtime_snapshot_sha256'' = JStr (xr_runtime_snapshot_sha256 r)"
  "dget (xr_body r) ''delegate_receipt_sha256'' = JStr (xr_delegate_receipt_sha256 r)"
  "dget (xr_body r) ''decision'' = JStr (xr_decision r)"
  "dget (xr_body r) ''reason_codes'' = JList (map JStr (xr_reason_codes r))"
  "dget (xr_body r) ''at_unix'' = JInt (xr_at_unix r)"
  by (simp_all add: xr_as_document_def xr_body_def dget_def dpop_def)

lemma xr_keys: "same_keys (xr_body r)
    [''schema'', ''decision_id'', ''capability_id'', ''subject_id'', ''capability_type'',
     ''bound_contract_sha256'', ''base_contract_sha256'', ''runtime_epoch_bound'',
     ''runtime_epoch_observed'', ''runtime_state_sha256_bound'', ''runtime_state_sha256_observed'',
     ''runtime_snapshot_sha256'', ''delegate_receipt_sha256'', ''decision'', ''reason_codes'',
     ''at_unix'', ''authority'']"
  by (simp add: same_keys_def dkeys_def xr_body_def)

lemma nonblank_texts: "list_all nonblank_text (map JStr rs) \<longleftrightarrow> [] \<notin> set rs"
  by (induction rs) auto

lemma eb_verify_receipt_ok:
  assumes "wf_epoch_receipt r"
  shows "eb_verify_receipt (xr_as_document r) = Inr (xr_as_document r)"
proof -
  have shas: "eb_check_shas (xr_body r) [''bound_contract_sha256'', ''base_contract_sha256'', ''runtime_state_sha256_bound'',
      ''runtime_state_sha256_observed'', ''runtime_snapshot_sha256'', ''delegate_receipt_sha256''] = Inr ()"
    using assms by (simp add: xr_facts wf_epoch_receipt_def)
  have dec: "py_in_set (dget (xr_body r) ''decision'') [''ALLOW'', ''BLOCK''] = Inr True"
    using assms by (auto simp: xr_facts wf_epoch_receipt_def py_in_set_def)
  have rest: "0 \<le> xr_runtime_epoch_bound r" "0 \<le> xr_runtime_epoch_observed r" "0 \<le> xr_at_unix r"
      "list_all nonblank_text (map JStr (xr_reason_codes r))" "xr_receipt_sha256 r = canonical_sha256 (JObj (xr_body r))"
    using assms by (simp_all only: wf_epoch_receipt_def nonblank_texts not_False_eq_True)
  show ?thesis
    unfolding eb_verify_receipt_def Let_def xr_facts(1,2) shas dec
    using rest by (simp add: xr_facts xr_keys xr_as_document_def py_eq_text del: eb_check_shas.simps)
qed

definition wf_snapshot :: "runtime_snapshot \<Rightarrow> bool" where
  "wf_snapshot snap \<longleftrightarrow> 0 \<le> ts_epoch snap \<and> is_sha256 (ts_state_sha256 snap) \<and> is_sha256 (ts_snapshot_sha256 snap)"

lemma ts_of_document_wf: "ts_of_document raw = Inr snap \<Longrightarrow> wf_snapshot snap"
  by (cases "dget raw ''tainted''")
    (auto simp: ts_of_document_def rbind_eq_Inr eb_sha_Inr eb_time_Inr wf_snapshot_def Let_def)

lemma ts_from_provider_wf: "ts_from_provider provider w = (Inr snap, w') \<Longrightarrow> wf_snapshot snap"
  by (auto simp: ts_from_provider_def obind_eq_Inr ts_of_document_wf)

text \<open>The receipt of one answer: appended, well formed, and naming the snapshot it rests on.\<close>

definition answered ::
  "runtime_snapshot \<Rightarrow> string \<Rightarrow> string option \<Rightarrow> ebroker \<Rightarrow> (string \<times> json) list res \<Rightarrow> ebroker \<Rightarrow> bool" where
  "answered snap dec cid e res e' \<longleftrightarrow> (case res of Inl _ \<Rightarrow> e' = e | Inr doc \<Rightarrow>
     (\<exists>r. doc = xr_as_document r \<and> wf_epoch_receipt r \<and> xr_decision r = dec \<and> xr_capability_id r = cid \<and>
        xr_runtime_epoch_observed r = ts_epoch snap \<and> xr_runtime_state_sha256_observed r = ts_state_sha256 snap \<and>
        xr_runtime_snapshot_sha256 r = ts_snapshot_sha256 snap \<and>
        e' = e\<lparr>eb_receipts := eb_receipts e @ [r], eb_head := xr_receipt_sha256 r\<rparr>))"

lemma answered_keeps:
  assumes "answered snap dec cid e res e'"
  shows "eb_bindings e' = eb_bindings e" "list_all wf_epoch_receipt (eb_receipts e) \<Longrightarrow> list_all wf_epoch_receipt (eb_receipts e')"
  using assms by (cases res; auto simp: answered_def)+

lemma xr_body_sha [simp]: "xr_body (r\<lparr>xr_receipt_sha256 := x\<rparr>) = xr_body r"
  by (simp add: xr_body_def)

lemma eb_receipt_answered:
  assumes "wf_snapshot snap" "[] \<notin> set rs" "eb_receipt cid subj ct bsha csha ep st snap dsha dec rs t e = (res, e')"
  shows "answered snap dec cid e res e'"
proof (cases res)
  case (Inl err)
  with assms(3) show ?thesis
    by (auto simp: answered_def eb_receipt_def obind_cases Let_def split: if_splits)
next
  case (Inr doc)
  let ?r = "\<lparr>xr_decision_id = ''epoch-bound-decision:'' @ nat_str (length (eb_receipts e) + 1),
      xr_capability_id = cid, xr_subject_id = subj, xr_capability_type = ct, xr_bound_contract_sha256 = bsha,
      xr_base_contract_sha256 = csha, xr_runtime_epoch_bound = ep, xr_runtime_epoch_observed = ts_epoch snap,
      xr_runtime_state_sha256_bound = st, xr_runtime_state_sha256_observed = ts_state_sha256 snap,
      xr_runtime_snapshot_sha256 = ts_snapshot_sha256 snap, xr_delegate_receipt_sha256 = dsha,
      xr_decision = dec, xr_reason_codes = sort (remdups rs), xr_at_unix = t, xr_receipt_sha256 = []\<rparr>"
  let ?s = "?r\<lparr>xr_receipt_sha256 := canonical_sha256 (JObj (xr_body ?r))\<rparr>"
  have ok: "is_sha256 bsha" "is_sha256 csha" "0 \<le> ep" "is_sha256 st" "is_sha256 dsha" "0 \<le> t" "dec = ''ALLOW'' \<or> dec = ''BLOCK''"
    and res: "doc = xr_as_document ?s" "e' = e\<lparr>eb_receipts := eb_receipts e @ [?s], eb_head := xr_receipt_sha256 ?s\<rparr>"
    using assms(3) Inr by (auto simp: eb_receipt_def obind_cases Let_def split: if_splits)
  have "wf_epoch_receipt ?s"
    unfolding wf_epoch_receipt_def xr_body_sha using ok assms(1,2) by (simp add: wf_snapshot_def)
  with Inr res show ?thesis
    unfolding answered_def by (auto intro!: exI [of _ ?s])
qed

lemma eb_finish_answered:
  assumes "wf_snapshot snap" "[] \<notin> set rs" "eb_finish c snap dsha dec rs t cid e = (res, e')"
  shows "answered snap dec cid e res e'"
  using assms eb_receipt_answered [OF assms(1,2)]
  by (auto simp: eb_finish_def obind_cases answered_def)

lemma eb_finish_generic_answered:
  assumes "wf_snapshot snap" "[] \<notin> set rs" "eb_finish_generic rep subj ct pol snap dsha dec rs t e = (res, e')"
  shows "answered snap dec None e res e'"
proof -
  have rs: "[] \<notin> set (if rs = [] then [''default_deny''] else rs)" using assms(2) by simp
  show ?thesis
    using assms(3) eb_receipt_answered [OF assms(1) rs]
    by (auto simp: eb_finish_generic_def obind_cases answered_def)
qed

subsection \<open>Answers of the delegate\<close>

lemma dr_get:
  "dget (dr_as_document r) ''decision'' = JStr (dr_decision r)" "dget (dr_as_document r) ''capability_id'' = jopt (dr_capability_id r)"
  "dget (dr_as_document r) ''reason_codes'' = JList (map JStr (dr_reason_codes r))"
  "dreq (dr_as_document r) ''receipt_sha256'' = Inr (JStr (dr_receipt_sha256 r))"
  by (simp_all add: dr_as_document_def dr_body_def dget_def dreq_def)

lemma b_receipt_answer:
  assumes "b_receipt cid subj ct pol act sc dec rs t before after ev b = (Inr d, b')"
  shows "\<exists>r. d = dr_as_document r \<and> is_sha256 (dr_receipt_sha256 r) \<and> dr_decision r = dec \<and> dr_capability_id r = cid \<and>
    dr_reason_codes r = sort (remdups rs) \<and> b_states b' = b_states b"
  using assms by (auto simp: b_receipt_def Let_def)

definition delegate_answer :: "broker \<Rightarrow> authz_request \<Rightarrow> (string \<times> json) list \<Rightarrow> broker \<Rightarrow> decision_receipt \<Rightarrow> bool" where
  "delegate_answer b rq d b' r \<longleftrightarrow> d = dr_as_document r \<and> is_sha256 (dr_receipt_sha256 r) \<and> [] \<notin> set (dr_reason_codes r) \<and>
     (dr_decision r = ''ALLOW'' \<and> (\<exists>k st sc. validate_scope (rq_capability_type rq) (JObj (rq_requested_scope rq)) = Inr sc \<and> dr_capability_id r = Some k \<and> map_of (b_states b) k = Some st \<and> eligible b rq sc k \<and>
         b_states b' = AList.update k (st\<lparr>st_use_count := st_use_count st + 1\<rparr>) (b_states b)) \<or>
      dr_decision r = ''BLOCK'' \<and> dr_capability_id r = None \<and> b_states b' = b_states b \<and> (\<forall>k sc.
         validate_scope (rq_capability_type rq) (JObj (rq_requested_scope rq)) = Inr sc \<longrightarrow> \<not> eligible b rq sc k))"

lemma b_authorize_answer:
  assumes wf: "wf_broker b" and run: "b_authorize rq b = (Inr d, b')"
  shows "\<exists>r. delegate_answer b rq d b' r"
proof -
  from run obtain sc where sc: "validate_scope (rq_capability_type rq) (JObj (rq_requested_scope rq)) = Inr sc"
    by (auto simp: b_authorize_def split: if_splits sum.splits)
  obtain acc found where pick: "pick_candidate (rq_policy_sha256 rq) sc (rq_at_unix rq)
      (candidates b (rq_subject_id rq) (rq_capability_type rq)) [] = (acc, found)" by fastforce
  have auth: "(case found of None \<Rightarrow> b_deny rq sc acc b | Some st \<Rightarrow> b_allow rq sc st b) = (Inr d, b')"
    using run sc pick by (auto simp: b_authorize_def split: if_splits option.split)
  show ?thesis
  proof (cases found)
    case None
    let ?ds = "sort (remdups (if acc \<noteq> [] then acc else [''default_deny'', ''no_matching_capability'']))"
    have none: "\<not> eligible b rq sc k" for k
      using pick_candidate_None [OF pick [unfolded None]] eligible_candidate [OF wf] by blast
    have ids: "list_all ident_re acc" using pick_reasons_ident [OF pick [unfolded None]] by simp
    then have ds: "[] \<notin> set ?ds" by (auto simp: list_all_iff)
    from auth None obtain ev b1 where "b_event ''deny'' (rq_subject_id rq) ''capability:none'' (rq_capability_type rq) ''BLOCK''
        (rq_at_unix rq) (canonical_sha256 (JObj (rq_action rq))) None ?ds (rq_recorder_event_id rq) (rq_recorder_entry_sha256 rq) b = (Inr ev, b1)"
      and r: "b_receipt None (rq_subject_id rq) (rq_capability_type rq) (rq_policy_sha256 rq) (canonical_sha256 (JObj (rq_action rq)))
        sc ''BLOCK'' ?ds (rq_at_unix rq) 0 0 ev b1 = (Inr d, b')"
      by (auto simp: b_deny_def Let_def obind_eq_Inr)
    from b_event_states [OF this(1)] b_receipt_answer [OF r] ds none sc show ?thesis
      unfolding delegate_answer_def by auto
  next
    case (Some st)
    let ?k = "cc_capability_id (st_contract st)"
    note found = pick_candidate_Some [OF pick [unfolded Some]]
    note look = candidate_lookup [OF wf conjunct1 [OF found]]
    have el: "eligible b rq sc ?k" using eligible_candidate [OF wf] found by blast
    let ?rs = "[''capability_scope_match'', ''policy_match'', ''use_committed'']"
    let ?b = "put_state ?k (st\<lparr>st_use_count := st_use_count st + 1\<rparr>) b"
    from auth Some obtain ev b1 where "b_event ''use'' (rq_subject_id rq) ?k (rq_capability_type rq) ''ALLOW''
        (rq_at_unix rq) (canonical_sha256 (JObj (rq_action rq))) (Some (cc_contract_sha256 (st_contract st))) ?rs
        (rq_recorder_event_id rq) (rq_recorder_entry_sha256 rq) ?b = (Inr ev, b1)"
      and r: "b_receipt (Some ?k) (rq_subject_id rq) (rq_capability_type rq) (rq_policy_sha256 rq) (canonical_sha256 (JObj (rq_action rq)))
        sc ''ALLOW'' ?rs (rq_at_unix rq) (st_use_count st) (st_use_count st + 1) ev b1 = (Inr d, b')"
      by (auto simp: b_allow_def Let_def obind_eq_Inr)
    from b_event_states [OF this(1)] b_receipt_answer [OF r] look(1) el sc show ?thesis
      unfolding delegate_answer_def by (auto simp: put_state_def)
  qed
qed

subsection \<open>What the removal of stale authority leaves\<close>

definition reconcile_codes :: "string set" where
  "reconcile_codes = {''unbound_authority_revoked'', ''delegation_parent_inactive'', ''stale_authority_revoked'',
     ''stale_runtime_epoch'', ''stale_runtime_state''}"

text \<open>A capability id whose binding names the epoch and state of an untainted snapshot, and one whose
  bound contract has no parent.\<close>

definition current_binding :: "(string \<times> bound_contract) list \<Rightarrow> runtime_snapshot \<Rightarrow> string \<Rightarrow> bool" where
  "current_binding bindings snap k \<longleftrightarrow> \<not> ts_tainted snap \<and> (\<exists>c. map_of bindings k = Some c \<and>
     bc_runtime_epoch c = ts_epoch snap \<and> bc_runtime_state_sha256 c = ts_state_sha256 snap)"

definition rooted_binding :: "(string \<times> bound_contract) list \<Rightarrow> string \<Rightarrow> bool" where
  "rooted_binding bindings k \<longleftrightarrow> (\<exists>c base. map_of bindings k = Some c \<and> bc_base c = Inr base \<and> cc_parent_capability_id base = None)"

lemma mismatch_Nil: "binding_mismatch c snap = [] \<longleftrightarrow> bc_runtime_epoch c = ts_epoch snap \<and> bc_runtime_state_sha256 c = ts_state_sha256 snap"
  by (simp add: binding_mismatch_def)

lemma mismatch_codes: "set (binding_mismatch c snap) \<subseteq> reconcile_codes"
  by (cases "bc_runtime_epoch c = ts_epoch snap"; cases "bc_runtime_state_sha256 c = ts_state_sha256 snap")
    (simp_all add: binding_mismatch_def reconcile_codes_def)

lemma reconcile_revoke_run:
  assumes "reconcile_revoke k t why acc b = (r, b')"
  shows "\<exists>d. b_revoke k t b = (d, b') \<and> (\<forall>acc'. r = Inr acc' \<longrightarrow> (\<exists>doc. d = Inr doc) \<and> fst acc' \<subseteq> fst acc \<union> set why)"
  using assms by (fastforce simp: reconcile_revoke_def obind_cases)

definition revoked_state :: "int \<Rightarrow> cap_state \<Rightarrow> cap_state" where
  "revoked_state t st = st\<lparr>st_status := Revoked, st_revoked_at_unix := Some t\<rparr>"

text \<open>What one item leads to: nothing, or a revocation.\<close>

lemma reconcile_item_run:
  assumes "reconcile_item bindings snap t (cap_item k st) acc b = (r, b')"
  shows "b' = b \<and> (\<forall>acc'. r = Inr acc' \<longrightarrow> fst acc' = fst acc \<and> (st_status st = Active \<longrightarrow> current_binding bindings snap k)) \<or>
    st_status st = Active \<and> \<not> (current_binding bindings snap k \<and> rooted_binding bindings k) \<and>
    (\<exists>d. b_revoke k t b = (d, b') \<and> (\<forall>acc'. r = Inr acc' \<longrightarrow> (\<exists>doc. d = Inr doc) \<and> fst acc' \<subseteq> fst acc \<union> reconcile_codes))"
    (is "?keep \<or> ?cut")
proof (cases "st_status st = Active")
  case False
  with assms show ?thesis by (auto simp: reconcile_item_def cap_item_get py_eq_text status_active)
next
  case act: True
  have cut: ?cut if w: "reconcile_revoke k t why acc b = (r, b')" "set why \<subseteq> reconcile_codes"
      "\<not> (current_binding bindings snap k \<and> rooted_binding bindings k)" for why
  proof -
    from reconcile_revoke_run [OF w(1)] obtain d where d: "b_revoke k t b = (d, b') \<and>
      (\<forall>acc'. r = Inr acc' \<longrightarrow> (\<exists>doc. d = Inr doc) \<and> fst acc' \<subseteq> fst acc \<union> set why)" ..
    have "fst acc \<union> set why \<subseteq> fst acc \<union> reconcile_codes" using w(2) by (rule Un_mono [OF subset_refl])
    then have "(\<exists>doc. d = Inr doc) \<and> fst x \<subseteq> fst acc \<union> reconcile_codes" if "r = Inr x" for x
      using d that by (auto intro: subset_trans)
    then have "\<forall>acc'. r = Inr acc' \<longrightarrow> (\<exists>doc. d = Inr doc) \<and> fst acc' \<subseteq> fst acc \<union> reconcile_codes" by blast
    with d act w(3) show ?cut by (intro conjI exI [of _ d]) simp_all
  qed
  show ?thesis
  proof (cases "map_of bindings k")
    case None
    with assms act have "reconcile_revoke k t [''unbound_authority_revoked''] acc b = (r, b')"
      by (simp add: reconcile_item_def cap_item_get py_eq_text status_active)
    from cut [OF this] None show ?thesis by (simp add: reconcile_codes_def current_binding_def)
  next
    case (Some c)
    show ?thesis
    proof (cases "bc_base c")
      case (Inl e)
      with assms act Some show ?thesis by (auto simp: reconcile_item_def cap_item_get py_eq_text status_active)
    next
      case (Inr base)
      let ?orphan = "\<exists>p. cc_parent_capability_id base = Some p \<and> \<not> py_eq (dget (snd acc) p) (JStr ''active'')"
      let ?stale = "ts_tainted snap \<or> binding_mismatch c snap \<noteq> []"
      have run: "(if ?orphan then reconcile_revoke k t [''delegation_parent_inactive'', ''stale_authority_revoked''] acc
          else if ?stale then reconcile_revoke k t (''stale_authority_revoked'' # binding_mismatch c snap) acc
          else oret acc) b = (r, b')"
        using assms act Some Inr
        by (auto simp: reconcile_item_def cap_item_get py_eq_text status_active split: option.splits if_splits)
      have rooted: "rooted_binding bindings k \<longleftrightarrow> cc_parent_capability_id base = None"
        using Some Inr by (auto simp: rooted_binding_def)
      have current: "current_binding bindings snap k \<longleftrightarrow> \<not> ?stale"
        using Some by (auto simp: current_binding_def mismatch_Nil)
      consider "?orphan" | "\<not> ?orphan" "?stale" | "\<not> ?orphan" "\<not> ?stale" by blast
      then show ?thesis
      proof cases
        case 1
        with run have "reconcile_revoke k t [''delegation_parent_inactive'', ''stale_authority_revoked''] acc b = (r, b')"
          by (simp only: if_True)
        from cut [OF this] rooted 1 show ?thesis by (auto simp: reconcile_codes_def)
      next
        case 2
        with run have "reconcile_revoke k t (''stale_authority_revoked'' # binding_mismatch c snap) acc b = (r, b')"
          by (simp only: if_True if_False)
        from cut [OF this] current 2 mismatch_codes [of c snap] show ?thesis by (simp add: reconcile_codes_def)
      next
        case 3
        with run have "oret acc b = (r, b')" by (simp only: if_False)
        with current 3 show ?thesis by auto
      qed
    qed
  qed
qed

lemma steps_reconcile_loop:
  "wf_broker b \<Longrightarrow> reconcile_loop bindings snap t (map (\<lambda>(k, st). cap_item k st) caps) acc b = (r, b') \<Longrightarrow> bsteps b b'"
proof (induction caps arbitrary: acc b)
  case (Cons c caps)
  obtain k st where c: "c = (k, st)" by force
  obtain r1 b1 where i: "reconcile_item bindings snap t (cap_item k st) acc b = (r1, b1)" by (metis prod.collapse)
  have s: "bsteps b b1" using reconcile_item_run [OF i] steps_b_revoke [OF Cons.prems(1)] by auto
  show ?case
  proof (cases r1)
    case (Inl e)
    with Cons.prems(2) c i s show ?thesis by (simp add: obind_def)
  next
    case (Inr acc1)
    with Cons.prems(2) c i have "reconcile_loop bindings snap t (map (\<lambda>(k, st). cap_item k st) caps) acc1 b1 = (r, b')"
      by (simp add: obind_def)
    from Cons.IH [OF wf_bsteps [OF s Cons.prems(1)] this] s show ?thesis by (meson rtranclp_trans)
  qed
qed simp

definition reconciled :: "(string \<times> bound_contract) list \<Rightarrow> runtime_snapshot \<Rightarrow> int \<Rightarrow> string \<Rightarrow> cap_state \<Rightarrow> broker \<Rightarrow> bool" where
  "reconciled bindings snap t k st b' \<longleftrightarrow>
     map_of (b_states b') k = Some st \<and> (st_status st = Active \<longrightarrow> current_binding bindings snap k) \<or>
     st_status st = Active \<and> \<not> (current_binding bindings snap k \<and> rooted_binding bindings k) \<and>
     map_of (b_states b') k = Some (revoked_state t st)"

lemma b_revoke_active:
  assumes "b_revoke k t b = (Inr d, b')" "map_of (b_states b) k = Some st" "st_status st = Active"
  shows "map_of (b_states b') k = Some (revoked_state t st)"
  using b_revoke_states [OF assms(1)] assms(2,3) by (auto simp: update_conv' revoked_state_def)

lemma reconcile_loop_run:
  assumes "reconcile_loop bindings snap t (map (\<lambda>(k, st). cap_item k st) caps) acc b = (Inr acc', b')"
    and "distinct (map fst caps)" "\<forall>(k, st) \<in> set caps. map_of (b_states b) k = Some st"
  shows "fst acc' \<subseteq> fst acc \<union> reconcile_codes \<and> (\<forall>(k, st) \<in> set caps. reconciled bindings snap t k st b') \<and>
    (\<forall>j. j \<notin> fst ` set caps \<longrightarrow> map_of (b_states b') j = map_of (b_states b) j)"
  using assms
proof (induction caps arbitrary: acc b)
  case (Cons c caps)
  obtain k st where c: "c = (k, st)" by force
  from Cons.prems(1) c obtain acc1 b1 where i: "reconcile_item bindings snap t (cap_item k st) acc b = (Inr acc1, b1)"
    and rest: "reconcile_loop bindings snap t (map (\<lambda>(k, st). cap_item k st) caps) acc1 b1 = (Inr acc', b')"
    by (auto simp: obind_eq_Inr)
  have fresh: "k \<notin> fst ` set caps" and st: "map_of (b_states b) k = Some st" using Cons.prems(2,3) c by auto
  have one: "reconciled bindings snap t k st b1" "\<forall>j. j \<noteq> k \<longrightarrow> map_of (b_states b1) j = map_of (b_states b) j"
      "fst acc1 \<subseteq> fst acc \<union> reconcile_codes"
    using reconcile_item_run [OF i] st b_revoke_active [OF _ st] b_revoke_Inr(2) [of k t b]
    by (auto simp: reconciled_def)
  have "\<forall>(j, s) \<in> set caps. map_of (b_states b1) j = Some s"
    using Cons.prems(3) one(2) fresh c by (force simp: image_iff)
  with Cons.IH [OF rest] Cons.prems(2) c have "fst acc' \<subseteq> fst acc1 \<union> reconcile_codes"
      "\<forall>(j, s) \<in> set caps. reconciled bindings snap t j s b'" "\<forall>j. j \<notin> fst ` set caps \<longrightarrow> map_of (b_states b') j = map_of (b_states b1) j"
    by auto
  moreover from this(3) fresh one(1) have "reconciled bindings snap t k st b'" by (simp add: reconciled_def)
  ultimately show ?case using one(2,3) c fresh by auto
qed simp

lemma reconcile_run:
  assumes wf: "wf_broker b" and run: "reconcile bindings snap t b = (r, b')"
  shows "bsteps b b'"
    and "r = Inr rs \<Longrightarrow> set rs \<subseteq> reconcile_codes"
    and "r = Inr rs \<Longrightarrow> map_of (b_states b) k = Some st \<Longrightarrow> reconciled bindings snap t k st b'"
    and "r = Inr rs \<Longrightarrow> map_of (b_states b) k = None \<Longrightarrow> map_of (b_states b') k = None"
proof -
  let ?caps = "sort_key fst (b_states b)"
  define sts where "sts = map (\<lambda>item. (jstr (dget item ''capability_id''), dget item ''status'')) (b_capabilities b)"
  have d: "distinct (map fst ?caps)" "\<forall>(k, st) \<in> set ?caps. map_of (b_states b) k = Some st"
    using wf by (auto simp: wf_broker_def distinct_map)
  obtain r0 where loop: "reconcile_loop bindings snap t (map (\<lambda>(k, st). cap_item k st) ?caps) ({}, sts) b = (r0, b')"
    and r: "r = rbind r0 (\<lambda>acc. Inr (sorted_list_of_set (fst acc)))"
    using run by (auto simp: reconcile_def Let_def b_capabilities_def sts_def obind_def split: prod.splits sum.splits)
  show "bsteps b b'" by (rule steps_reconcile_loop [OF wf loop])
  {
    assume "r = Inr rs"
    with r obtain acc where acc: "r0 = Inr acc" "rs = sorted_list_of_set (fst acc)" by (cases r0) auto
    note l = reconcile_loop_run [OF loop [unfolded acc(1)] d]
    have "finite (fst acc)" using l finite_subset [of "fst acc" reconcile_codes] by (simp add: reconcile_codes_def)
    with l acc(2) show "set rs \<subseteq> reconcile_codes" by simp
    show "reconciled bindings snap t k st b'" if "map_of (b_states b) k = Some st"
      using l map_of_SomeD [OF that] by auto
    show "map_of (b_states b') k = None" if "map_of (b_states b) k = None"
      using l that map_of_eq_None_iff [of "b_states b" k] by simp
  }
qed

subsection \<open>One call of authorize\<close>

lemma on_parts [simp]:
  "on_delegate m ((b, w), e) = (fst (m b), ((snd (m b), w), e))" "on_provider m' ((b, w), e) = (fst (m' w), ((b, snd (m' w)), e))"
  by (simp_all add: on_delegate_def on_provider_def)

lemma bound_request_same [simp]:
  "eligible b (bound_request rq snap) sc k \<longleftrightarrow> eligible b rq sc k" "rq_capability_type (bound_request rq snap) = rq_capability_type rq"
  "rq_requested_scope (bound_request rq snap) = rq_requested_scope rq"
  by (simp_all add: eligible_def bound_request_def split: option.split)

lemma joptstr_jopt [simp]: "joptstr (jopt x) = x"
  by (cases x) (simp_all add: jopt_def)

definition all_current :: "(string \<times> bound_contract) list \<Rightarrow> runtime_snapshot \<Rightarrow> broker \<Rightarrow> bool" where
  "all_current bindings snap b \<longleftrightarrow>
     (\<forall>k st. map_of (b_states b) k = Some st \<longrightarrow> st_status st = Active \<longrightarrow> current_binding bindings snap k)"

text \<open>With only current authority left, the two branches that guard against unbound and stale answers of
  the delegate are never taken.\<close>

lemma eb_decide_run:
  assumes d: "delegate_answer b1 (bound_request rq snap) d b2 r" and snap: "wf_snapshot snap" and rs: "[] \<notin> set rs"
    and cur: "all_current (eb_bindings e) snap b1" and run: "eb_decide rq snap rs rep d ((b2, w), e) = (res, s')"
  shows "\<exists>e'. s' = ((b2, w), e') \<and> answered snap (dr_decision r) (dr_capability_id r) e res e'"
proof -
  have doc: "d = dr_as_document r" "is_sha256 (dr_receipt_sha256 r)" "[] \<notin> set (dr_reason_codes r)"
    using d by (simp_all add: delegate_answer_def)
  consider (block) "dr_decision r = ''BLOCK''" "dr_capability_id r = None"
    | (allow) k st sc where "dr_decision r = ''ALLOW''" "dr_capability_id r = Some k" "map_of (b_states b1) k = Some st"
      "eligible b1 rq sc k"
    using d by (auto simp: delegate_answer_def)
  then show ?thesis
  proof cases
    case block
    let ?rs = "rs @ jstrs (dget d ''reason_codes'')"
    let ?f = "eb_finish_generic rep (rq_subject_id rq) (rq_capability_type rq) (rq_policy_sha256 rq) snap (dr_receipt_sha256 r) ''BLOCK'' ?rs (rq_at_unix rq) e"
    have s: "res = fst ?f" "s' = ((b2, w), snd ?f)"
      using run doc(2) block by (auto simp: eb_decide_def doc(1) delegate_sha_def dr_get py_eq_text Let_def)
    have "[] \<notin> set ?rs" using rs doc(3) by (simp add: doc(1) dr_get comp_def)
    from eb_finish_generic_answered [OF snap this, of rep _ _ _ _ _ _ e "fst ?f" "snd ?f"] s block show ?thesis by auto
  next
    case allow
    from allow(3,4) have "current_binding (eb_bindings e) snap k"
      using cur by (auto simp: all_current_def eligible_def)
    then obtain c where c: "map_of (eb_bindings e) k = Some c" "binding_mismatch c snap = []"
      by (auto simp: current_binding_def mismatch_Nil)
    let ?rs = "rs @ [''epoch_binding_match''] @ jstrs (dget d ''reason_codes'')"
    let ?f = "eb_finish c snap (dr_receipt_sha256 r) ''ALLOW'' ?rs (rq_at_unix rq) (Some k) e"
    have s: "res = fst ?f" "s' = ((b2, w), snd ?f)"
      using run doc(2) allow c by (auto simp: eb_decide_def doc(1) delegate_sha_def dr_get py_eq_text Let_def)
    have "[] \<notin> set ?rs" using rs doc(3) by (simp add: doc(1) dr_get comp_def)
    from eb_finish_answered [OF snap this, of c _ _ _ _ e "fst ?f" "snd ?f"] s allow show ?thesis by auto
  qed
qed

definition use_counts :: "broker \<Rightarrow> string \<Rightarrow> int option" where
  "use_counts b k = map_option st_use_count (map_of (b_states b) k)"

text \<open>What a decision means: only current authority is left active, an ALLOW charges one eligible and
  currently bound capability, a BLOCK charges nothing and is given only if there was no such capability.\<close>

definition epoch_decided ::
  "(string \<times> bound_contract) list \<Rightarrow> runtime_snapshot \<Rightarrow> authz_request \<Rightarrow> broker \<Rightarrow> broker \<Rightarrow> string \<Rightarrow> string option \<Rightarrow> bool" where
  "epoch_decided bindings snap rq b b' dec cid \<longleftrightarrow> all_current bindings snap b' \<and>
     (dec = ''ALLOW'' \<and> (\<exists>k n sc. cid = Some k \<and> current_binding bindings snap k \<and>
        validate_scope (rq_capability_type rq) (JObj (rq_requested_scope rq)) = Inr sc \<and> eligible b rq sc k \<and>
        use_counts b k = Some n \<and> use_counts b' = (use_counts b)(k \<mapsto> n + 1)) \<or>
      dec = ''BLOCK'' \<and> cid = None \<and> use_counts b' = use_counts b \<and>
        (\<forall>k sc. validate_scope (rq_capability_type rq) (JObj (rq_requested_scope rq)) = Inr sc \<longrightarrow> eligible b rq sc k \<longrightarrow>
           \<not> (current_binding bindings snap k \<and> rooted_binding bindings k)))"

lemma reconcile_effect:
  assumes wf: "wf_broker b" and run: "reconcile bindings snap t b = (Inr rs, b')"
  shows "all_current bindings snap b'" "use_counts b' = use_counts b"
    and "eligible b' rq sc k \<Longrightarrow> eligible b rq sc k"
    and "eligible b rq sc k \<Longrightarrow> current_binding bindings snap k \<Longrightarrow> rooted_binding bindings k \<Longrightarrow> eligible b' rq sc k"
proof -
  note r = reconcile_run(3,4) [OF wf run refl]
  have cases: "map_of (b_states b) k = None \<and> map_of (b_states b') k = None \<or>
      (\<exists>st. map_of (b_states b) k = Some st \<and> reconciled bindings snap t k st b')" for k
    using r by (cases "map_of (b_states b) k") auto
  show "all_current bindings snap b'"
    unfolding all_current_def
  proof (intro allI impI)
    fix k st assume "map_of (b_states b') k = Some st" "st_status st = Active"
    with cases [of k] show "current_binding bindings snap k" by (auto simp: reconciled_def revoked_state_def)
  qed
  have "use_counts b' k = use_counts b k" for k
    using cases [of k] by (auto simp: use_counts_def reconciled_def revoked_state_def)
  then show "use_counts b' = use_counts b" ..
  show "eligible b rq sc k" if "eligible b' rq sc k"
    using that cases [of k] by (auto simp: eligible_def reconciled_def revoked_state_def)
  show "eligible b' rq sc k" if "eligible b rq sc k" "current_binding bindings snap k" "rooted_binding bindings k"
    using that cases [of k] by (auto simp: eligible_def reconciled_def)
qed

lemma delegate_use_counts:
  assumes "delegate_answer b1 rq d b2 r"
  shows "dr_decision r = ''BLOCK'' \<Longrightarrow> use_counts b2 = use_counts b1"
    and "dr_decision r = ''ALLOW'' \<Longrightarrow> dr_capability_id r = Some k \<Longrightarrow>
      \<exists>n. use_counts b1 k = Some n \<and> use_counts b2 = (use_counts b1)(k \<mapsto> n + 1)"
    and "all_current bindings snap b1 \<Longrightarrow> all_current bindings snap b2"
  using assms by (auto simp: delegate_answer_def use_counts_def fun_eq_iff all_current_def update_conv' split: if_splits)

lemma reconcile_codes_nonblank: "set rs \<subseteq> reconcile_codes \<Longrightarrow> [] \<notin> set rs"
  by (auto simp: reconcile_codes_def)

lemma decide_epoch_decided:
  assumes wf: "wf_broker b" and rec: "reconcile (eb_bindings e) snap t b = (Inr rs, b1)"
    and d: "delegate_answer b1 (bound_request rq snap) d b2 r"
  shows "epoch_decided (eb_bindings e) snap rq b b2 (dr_decision r) (dr_capability_id r)"
proof -
  note eff = reconcile_effect [OF wf rec]
  note cnt = delegate_use_counts [OF d]
  consider (block) "dr_decision r = ''BLOCK''" "dr_capability_id r = None"
      "\<forall>k sc. validate_scope (rq_capability_type rq) (JObj (rq_requested_scope rq)) = Inr sc \<longrightarrow> \<not> eligible b1 rq sc k"
    | (allow) k st sc where "dr_decision r = ''ALLOW''" "dr_capability_id r = Some k" "map_of (b_states b1) k = Some st"
      "validate_scope (rq_capability_type rq) (JObj (rq_requested_scope rq)) = Inr sc" "eligible b1 rq sc k"
    using d by (auto simp: delegate_answer_def)
  then show ?thesis
  proof cases
    case block
    with cnt(1,3) eff show ?thesis unfolding epoch_decided_def by metis
  next
    case allow
    have "current_binding (eb_bindings e) snap k"
      using eff(1) allow(3,5) by (auto simp: all_current_def eligible_def)
    moreover have "eligible b rq sc k" using eff(3) allow(5) by blast
    moreover obtain n where "use_counts b k = Some n" "use_counts b2 = (use_counts b)(k \<mapsto> n + 1)"
      using cnt(2) [OF allow(1,2)] eff(2) by auto
    ultimately show ?thesis
      unfolding epoch_decided_def using allow cnt(3) [OF eff(1)] by blast
  qed
qed

lemma eb_authorize_run:
  assumes wf: "wf_broker b" and run: "eb_authorize provider rq ((b, w), e) = (res, ((b', w'), e'))"
  shows "bsteps b b'" and "eb_bindings e' = eb_bindings e" and "list_all wf_epoch_receipt (eb_receipts e) \<Longrightarrow> list_all wf_epoch_receipt (eb_receipts e')"
    and "res = Inr doc \<Longrightarrow> \<exists>snap dec cid. ts_from_provider provider w = (Inr snap, w') \<and> answered snap dec cid e res e' \<and>
      epoch_decided (eb_bindings e) snap rq b b' dec cid"
proof -
  let ?goal = "bsteps b b' \<and> ((\<exists>err. res = Inl err \<and> e' = e) \<or> (\<exists>snap dec cid. ts_from_provider provider w = (Inr snap, w') \<and>
      answered snap dec cid e res e' \<and> epoch_decided (eb_bindings e) snap rq b b' dec cid))"
  obtain rsn w1 where p: "ts_from_provider provider w = (rsn, w1)" by (metis prod.collapse)
  have ?goal
  proof (cases "\<exists>snap. rsn = Inr snap \<and> 0 \<le> rq_at_unix rq")
    case False
    with run p show ?thesis by (cases "0 \<le> rq_at_unix rq"; cases rsn) (auto simp: eb_authorize_def obind_def)
  next
    case True
    then obtain snap where snap: "rsn = Inr snap" "0 \<le> rq_at_unix rq" by blast
    note wfs = ts_from_provider_wf [OF p [unfolded snap(1)]]
    obtain rr b1 where rec: "reconcile (eb_bindings e) snap (rq_at_unix rq) b = (rr, b1)" by (metis prod.collapse)
    note s1 = reconcile_run(1) [OF wf rec]
    show ?thesis
    proof (cases "\<exists>rs rep. rr = Inr rs \<and> representative (eb_bindings e) (rq_subject_id rq) (rq_capability_type rq) snap = Inr rep")
      case False
      with run p snap rec s1 show ?thesis
        by (cases rr; cases "representative (eb_bindings e) (rq_subject_id rq) (rq_capability_type rq) snap")
          (auto simp: eb_authorize_def obind_def)
    next
      case True
      then obtain rs rep where ok: "rr = Inr rs" "representative (eb_bindings e) (rq_subject_id rq) (rq_capability_type rq) snap = Inr rep"
        by blast
      note eff = reconcile_effect [OF wf rec [unfolded ok(1)]]
      note nb = reconcile_codes_nonblank [OF reconcile_run(2) [OF wf rec ok(1)]]
      show ?thesis
      proof (cases "ts_tainted snap")
        case True
        let ?rs = "rs @ [''runtime_state_tainted'']"
        let ?f = "eb_finish_generic rep (rq_subject_id rq) (rq_capability_type rq) (rq_policy_sha256 rq) snap ZERO_SHA256 ''BLOCK'' ?rs (rq_at_unix rq) e"
        have r: "res = fst ?f" "b' = b1" "w' = w1" "e' = snd ?f" using run p snap rec ok True by (auto simp: eb_authorize_def obind_def)
        have "[] \<notin> set ?rs" using nb by simp
        from eb_finish_generic_answered [OF wfs this, of rep _ _ _ _ _ _ e "fst ?f" "snd ?f"] r
        have "answered snap ''BLOCK'' None e res e'" by simp
        moreover have "epoch_decided (eb_bindings e) snap rq b b1 ''BLOCK'' None"
          using eff(1,2) True by (auto simp: epoch_decided_def current_binding_def)
        ultimately show ?thesis using p snap r s1 by auto
      next
        case False
        obtain ra b2 where a: "b_authorize (bound_request rq snap) b1 = (ra, b2)" by (metis prod.collapse)
        note s2 = rtranclp_trans [OF s1 steps_b_authorize [OF wf_bsteps [OF s1 wf] a]]
        show ?thesis
        proof (cases ra)
          case (Inl err)
          with run p snap rec ok False a s2 show ?thesis by (auto simp: eb_authorize_def obind_def)
        next
          case (Inr d)
          from b_authorize_answer [OF wf_bsteps [OF s1 wf] a [unfolded Inr]]
          obtain r where r: "delegate_answer b1 (bound_request rq snap) d b2 r" ..
          have "eb_decide rq snap rs rep d ((b2, w1), e) = (res, ((b', w'), e'))"
            using run p snap rec ok False a Inr by (simp add: eb_authorize_def obind_def)
          from eb_decide_run [OF r wfs nb eff(1) this] decide_epoch_decided [OF wf rec [unfolded ok(1)] r] p snap s2
          show ?thesis by auto
        qed
      qed
    qed
  qed
  then show "bsteps b b'" "eb_bindings e' = eb_bindings e"
      "list_all wf_epoch_receipt (eb_receipts e) \<Longrightarrow> list_all wf_epoch_receipt (eb_receipts e')"
      "res = Inr doc \<Longrightarrow> \<exists>snap dec cid. ts_from_provider provider w = (Inr snap, w') \<and> answered snap dec cid e res e' \<and>
      epoch_decided (eb_bindings e) snap rq b b' dec cid"
    using answered_keeps by blast+
qed

subsection \<open>One call of admit\<close>

lemma b_lifecycle_answer:
  assumes "b_lifecycle st ty dec rs t b = (Inr d, b')"
  shows "\<exists>r. d = dr_as_document r \<and> is_sha256 (dr_receipt_sha256 r) \<and> dr_decision r = dec \<and> b_states b' = b_states b"
proof -
  from assms obtain ev b1 where "b_event ty (cc_subject_id (st_contract st)) (cc_capability_id (st_contract st))
      (cc_capability_type (st_contract st)) dec t (cc_contract_sha256 (st_contract st)) None rs None None b = (Inr ev, b1)"
    and "b_receipt (Some (cc_capability_id (st_contract st))) (cc_subject_id (st_contract st)) (cc_capability_type (st_contract st))
      (cc_policy_sha256 (st_contract st)) (cc_contract_sha256 (st_contract st)) (cc_scope (st_contract st)) dec rs t
      (st_use_count st) (st_use_count st) ev b1 = (Inr d, b')"
    by (auto simp: b_lifecycle_def Let_def obind_eq_Inr)
  from b_event_states [OF this(1)] b_receipt_answer [OF this(2)] show ?thesis by auto
qed

lemma b_admit_answer:
  assumes run: "b_admit doc t b = (Inr d, b')"
  shows "\<exists>r c st. d = dr_as_document r \<and> is_sha256 (dr_receipt_sha256 r) \<and> dr_decision r = ''ALLOW'' \<and>
    cc_from_document (JObj doc) = Inr c \<and> map_of (b_states b') (cc_capability_id c) = Some st \<and>
    cc_contract_sha256 (st_contract st) = cc_contract_sha256 c"
proof -
  obtain c where c: "cc_from_document (JObj doc) = Inr c" using run by (auto simp: b_admit_def obind_eq_Inr)
  consider (again) st where "map_of (b_states b) (cc_capability_id c) = Some st"
      "cc_contract_sha256 (st_contract st) = cc_contract_sha256 c"
      "b_lifecycle st ''grant'' ''ALLOW'' [''already_admitted''] t b = (Inr d, b')"
    | (new) "b_lifecycle (new_state c) ''grant'' ''ALLOW'' [''capability_admitted''] t
         (put_state (cc_capability_id c) (new_state c) b) = (Inr d, b')"
    using run c by (auto simp: b_admit_def obind_eq_Inr split: option.splits if_splits sum.splits)
  then show ?thesis
  proof cases
    case again
    from b_lifecycle_answer [OF again(3)] again(1,2) c show ?thesis by auto
  next
    case new
    from b_lifecycle_answer [OF new] c show ?thesis by (auto simp: put_state_def new_state_def update_conv')
  qed
qed

definition wf_ebroker :: "ebroker \<Rightarrow> bool" where
  "wf_ebroker e \<longleftrightarrow> (\<forall>(k, c) \<in> set (eb_bindings e). wf_bound c) \<and> list_all wf_epoch_receipt (eb_receipts e)"

lemma wf_ebroker_answered: "wf_ebroker e \<Longrightarrow> answered snap dec cid e res e' \<Longrightarrow> wf_ebroker e'"
  using answered_keeps by (fastforce simp: wf_ebroker_def)

definition bind_cap :: "string \<Rightarrow> bound_contract \<Rightarrow> ebroker \<Rightarrow> ebroker" where
  "bind_cap k c e = e\<lparr>eb_bindings := AList.update k c (eb_bindings e)\<rparr>"

lemma wf_bind_cap: "wf_ebroker e \<Longrightarrow> wf_bound c \<Longrightarrow> wf_ebroker (bind_cap k c e)"
  by (auto simp: wf_ebroker_def bind_cap_def dest!: set_AList_update)

text \<open>The outcome of an admission: a BLOCK keeps the bindings, an ALLOW binds a contract that matches the
  snapshot and that the delegate holds.\<close>

definition admitted ::
  "bound_contract \<Rightarrow> runtime_snapshot \<Rightarrow> ebroker \<Rightarrow> broker \<Rightarrow> (string \<times> json) list res \<Rightarrow> ebroker \<Rightarrow> bool" where
  "admitted c snap e b' res e' \<longleftrightarrow> answered snap ''BLOCK'' None e res e' \<or>
     (\<exists>base st. bc_base c = Inr base \<and> \<not> ts_tainted snap \<and> binding_mismatch c snap = [] \<and>
        map_of (b_states b') (cc_capability_id base) = Some st \<and> cc_contract_sha256 (st_contract st) = cc_contract_sha256 base \<and>
        answered snap ''ALLOW'' (Some (cc_capability_id base)) (bind_cap (cc_capability_id base) c e) res e')"

lemma parent_reason_nonblank: "parent_reason e c base = Some x \<Longrightarrow> x \<noteq> []"
  by (auto simp: parent_reason_def split: option.splits if_splits)

lemma mismatch_nonblank: "[] \<notin> set (binding_mismatch c snap)"
  using reconcile_codes_nonblank [OF mismatch_codes] .

lemma eb_delegate_admit_run:
  assumes wf: "wf_broker b" "wf_ebroker e" and c: "wf_bound c" "bc_base c = Inr base" and snap: "wf_snapshot snap"
    and ok: "\<not> ts_tainted snap" "binding_mismatch c snap = []"
    and run: "eb_delegate_admit c base snap t ((b, w), e) = (res, ((b', w'), e'))"
  shows "bsteps b b' \<and> w' = w \<and> wf_ebroker e' \<and> ((\<exists>err. res = Inl err) \<or> admitted c snap e b' res e')"
proof -
  obtain ra b1 where a: "b_admit (jobj (cc_as_document base)) t b = (ra, b1)" by (metis prod.collapse)
  note s1 = steps_b_admit [OF wf(1) a]
  show ?thesis
  proof (cases ra)
    case (Inl err)
    show ?thesis
    proof (cases "exn_class err = ''BrokerError''")
      case True
      with run a Inl have f: "eb_finish c snap ZERO_SHA256 ''BLOCK'' [''delegate_admission_error'', ''BrokerError''] t None e = (res, e')"
          "b' = b1" "w' = w"
        by (auto simp: eb_delegate_admit_def)
      from eb_finish_answered [OF snap _ f(1)] have a: "answered snap ''BLOCK'' None e res e'" by simp
      with wf_ebroker_answered [OF wf(2) a] f(2,3) s1 show ?thesis by (simp add: admitted_def)
    next
      case False
      with run a Inl s1 wf(2) show ?thesis by (auto simp: eb_delegate_admit_def)
    qed
  next
    case (Inr d)
    from b_admit_answer [OF a [unfolded Inr]] obtain r base' st where r: "d = dr_as_document r" "is_sha256 (dr_receipt_sha256 r)"
        "dr_decision r = ''ALLOW''" "cc_from_document (JObj (jobj (cc_as_document base))) = Inr base'"
        "map_of (b_states b1) (cc_capability_id base') = Some st" "cc_contract_sha256 (st_contract st) = cc_contract_sha256 base'"
      by blast
    obtain base2 where "bc_base c = Inr base2" "wf_contract base2" by (rule wf_bound_base [OF c(1)])
    then have base': "base' = base" using r(4) cc_roundtrip [of base] c(2) by (simp add: cc_as_document_def)
    let ?f = "eb_finish c snap (dr_receipt_sha256 r) ''ALLOW'' [''epoch_binding_match'', ''base_capability_admitted''] t
        (Some (cc_capability_id base)) (bind_cap (cc_capability_id base) c e)"
    have f: "res = fst ?f" "e' = snd ?f" "b' = b1" "w' = w"
      using run a Inr r(1-3)
      by (auto simp: eb_delegate_admit_def delegate_sha_def dr_get py_eq_text bind_cap_def obind_def)
    have "answered snap ''ALLOW'' (Some (cc_capability_id base)) (bind_cap (cc_capability_id base) c e) (fst ?f) (snd ?f)"
      by (rule eb_finish_answered [OF snap]) simp_all
    with f(1,2) have ans: "answered snap ''ALLOW'' (Some (cc_capability_id base)) (bind_cap (cc_capability_id base) c e) res e'" by simp
    from wf_ebroker_answered [OF wf_bind_cap [OF wf(2) c(1)] ans] ans f(3,4) s1 ok c(2) r(5,6) base' show ?thesis
      unfolding admitted_def by blast
  qed
qed

lemma eb_admit_run:
  assumes wf: "wf_broker b" "wf_ebroker e" and run: "eb_admit provider doc0 t ((b, w), e) = (res, ((b', w'), e'))"
  shows "bsteps b b' \<and> wf_ebroker e' \<and> (\<forall>doc. res = Inr doc \<longrightarrow>
    (\<exists>c snap. bc_from_document doc0 = Inr c \<and> ts_from_provider provider w = (Inr snap, w') \<and> admitted c snap e b' res e'))"
proof -
  obtain rsn w1 where p: "ts_from_provider provider w = (rsn, w1)" by (metis prod.collapse)
  let ?dup = "\<lambda>c base. case map_of (eb_bindings e) (cc_capability_id base) of
      Some existing \<Rightarrow> bc_binding_sha256 existing \<noteq> bc_binding_sha256 c | None \<Rightarrow> False"
  show ?thesis
  proof (cases "\<exists>c base snap. 0 \<le> t \<and> bc_from_document doc0 = Inr c \<and> bc_base c = Inr base \<and> \<not> ?dup c base \<and> rsn = Inr snap")
    case False
    then have "(\<exists>err. res = Inl err) \<and> b' = b \<and> e' = e"
      using run p
      by (cases "0 \<le> t"; cases "bc_from_document doc0"; cases "bc_base (projr (bc_from_document doc0))"; cases rsn)
        (auto simp: eb_admit_def obind_def split: if_splits)
    with wf show ?thesis by auto
  next
    case True
    then obtain c base snap where ok: "0 \<le> t" "bc_from_document doc0 = Inr c" "bc_base c = Inr base" "\<not> ?dup c base" "rsn = Inr snap"
      by blast
    note wfs = ts_from_provider_wf [OF p [unfolded ok(5)]]
    note wfc = bc_from_document_wf [OF ok(2)]
    have tail: "eb_admit provider doc0 t ((b, w), e) = (let block = (\<lambda>reasons. on_snd (eb_finish c snap ZERO_SHA256 ''BLOCK'' reasons t None) ((b, w1), e)) in
         if ts_tainted snap then block [''runtime_state_tainted'']
         else if binding_mismatch c snap \<noteq> [] then block (binding_mismatch c snap)
         else (case parent_reason e c base of
                 Some reason \<Rightarrow> block [reason]
               | None \<Rightarrow> eb_delegate_admit c base snap t ((b, w1), e)))"
      using p ok by (simp add: eb_admit_def obind_def cong: option.case_cong)
    note run' = run [unfolded tail]
    have block: ?thesis if r: "[] \<notin> set rs" "on_snd (eb_finish c snap ZERO_SHA256 ''BLOCK'' rs t None) ((b, w1), e) = (res, ((b', w'), e'))" for rs
    proof -
      from r(2) have f: "eb_finish c snap ZERO_SHA256 ''BLOCK'' rs t None e = (res, e')" "b' = b" "w' = w1" by (auto simp: prod_eq_iff)
      from eb_finish_answered [OF wfs r(1) f(1)] have a: "answered snap ''BLOCK'' None e res e'" .
      with wf_ebroker_answered [OF wf(2) a] f(2,3) ok(2,5) p show ?thesis by (auto simp: admitted_def)
    qed
    show ?thesis
    proof (cases "ts_tainted snap \<or> binding_mismatch c snap \<noteq> [] \<or> parent_reason e c base \<noteq> None")
      case True
      have "\<exists>rs. [] \<notin> set rs \<and> on_snd (eb_finish c snap ZERO_SHA256 ''BLOCK'' rs t None) ((b, w1), e) = (res, ((b', w'), e'))"
      proof (cases "ts_tainted snap")
        case True
        with run' show ?thesis by (intro exI [of _ "[''runtime_state_tainted'']"]) simp
      next
        case False
        show ?thesis
        proof (cases "binding_mismatch c snap = []")
          case True
          with False \<open>_ \<or> _ \<or> _\<close> obtain x where x: "parent_reason e c base = Some x" by auto
          from run' False True x parent_reason_nonblank [OF x] show ?thesis by (intro exI [of _ "[x]"]) simp
        next
          case stale: False
          with run' False mismatch_nonblank [of c snap] show ?thesis by (intro exI [of _ "binding_mismatch c snap"]) simp
        qed
      qed
      then obtain rs where "[] \<notin> set rs" "on_snd (eb_finish c snap ZERO_SHA256 ''BLOCK'' rs t None) ((b, w1), e) = (res, ((b', w'), e'))"
        by blast
      then show ?thesis by (rule block)
    next
      case False
      with run' have "eb_delegate_admit c base snap t ((b, w1), e) = (res, ((b', w'), e'))" by simp
      from eb_delegate_admit_run [OF wf wfc ok(3) wfs _ _ this] False ok(2,5) p show ?thesis by auto
    qed
  qed
qed

subsection \<open>A well-formed request is always answered\<close>

lemma eb_receipt_ok:
  assumes "dec \<in> {''ALLOW'', ''BLOCK''}" "is_sha256 bsha" "is_sha256 csha" "0 \<le> ep" "is_sha256 st" "is_sha256 dsha" "0 \<le> t"
  shows "\<exists>doc e'. eb_receipt cid subj ct bsha csha ep st snap dsha dec rs t e = (Inr doc, e')"
  using assms by (auto simp: eb_receipt_def Let_def)

lemma wf_bound_fields:
  assumes "wf_bound c" "bc_base c = Inr base"
  shows "is_sha256 (bc_binding_sha256 c)" "is_sha256 (cc_contract_sha256 base)" "0 \<le> bc_runtime_epoch c"
    "is_sha256 (bc_runtime_state_sha256 c)"
proof -
  obtain x where "bc_base c = Inr x" "wf_contract x" by (rule wf_bound_base [OF assms(1)])
  then have "wf_contract base" using assms(2) by simp
  then show "is_sha256 (cc_contract_sha256 base)" by (simp add: wf_contract_def)
qed (use assms(1) in \<open>simp_all add: wf_bound_def\<close>)

lemma eb_finish_ok:
  assumes "wf_bound c" "dec \<in> {''ALLOW'', ''BLOCK''}" "is_sha256 dsha" "0 \<le> t"
  shows "\<exists>doc e'. eb_finish c snap dsha dec rs t cid e = (Inr doc, e')"
proof -
  obtain base where b: "bc_base c = Inr base" by (rule wf_bound_base [OF assms(1)])
  note f = wf_bound_fields [OF assms(1) b]
  show ?thesis using eb_receipt_ok [OF assms(2) f(1-4) assms(3,4)] b by (simp add: eb_finish_def)
qed

lemma eb_finish_generic_ok:
  assumes "\<forall>c. rep = Some c \<longrightarrow> wf_bound c" "is_sha256 pol" "wf_snapshot snap" "is_sha256 dsha" "0 \<le> t"
  shows "\<exists>doc e'. eb_finish_generic rep subj ct pol snap dsha ''BLOCK'' rs t e = (Inr doc, e')"
proof (cases rep)
  case None
  with assms eb_receipt_ok show ?thesis by (simp add: eb_finish_generic_def wf_snapshot_def)
next
  case (Some c)
  with assms(1) have c: "wf_bound c" by simp
  obtain base where b: "bc_base c = Inr base" by (rule wf_bound_base [OF c])
  show ?thesis using eb_receipt_ok wf_bound_fields [OF c b] assms(2-5) Some b by (simp add: eb_finish_generic_def)
qed

lemma representative_ok:
  assumes "\<forall>(k, c) \<in> set bindings. wf_bound c"
  shows "\<exists>rep. representative bindings subj ct snap = Inr rep \<and> (\<forall>c. rep = Some c \<longrightarrow> wf_bound c)"
proof -
  define base where "base c = projr (bc_base c)" for c
  have b: "bc_base c = Inr (base c)" if "(k, c) \<in> set bindings" for k c
  proof -
    from that assms have "wf_bound c" by auto
    then obtain x where "bc_base c = Inr x" by (rule wf_bound_base)
    then show ?thesis by (simp add: base_def)
  qed
  let ?ps = "map (\<lambda>(k, c). (base c, c)) bindings"
  have m: "rmap (\<lambda>(k, bound). rbind (bc_base bound) (\<lambda>base. Inr (base, bound))) bindings = Inr ?ps"
    by (rule rmap_id) (auto simp: b)
  let ?f = "filter (\<lambda>(base, bound). cc_subject_id base = subj \<and> cc_capability_type base = ct \<and>
      bc_runtime_epoch bound = ts_epoch snap \<and> bc_runtime_state_sha256 bound = ts_state_sha256 snap) ?ps"
  let ?l = "sort_key (\<lambda>(base, _). cc_capability_id base) ?f"
  have l: "wf_bound c" if "(x, c) \<in> set ?l" for x c using that assms by auto
  show ?thesis
  proof (cases ?l)
    case Nil
    then show ?thesis by (simp add: representative_def m del: sort_key_simps)
  next
    case (Cons p ps)
    moreover obtain x c where "p = (x, c)" by force
    ultimately show ?thesis using l [of x c] by (simp add: representative_def m del: set_sort)
  qed
qed

lemma b_revoke_events: "length (b_events (snd (b_revoke k t b))) \<le> length (b_events b) + 1"
  by (auto simp: b_revoke_def obind_def b_lifecycle_def b_event_def b_receipt_def put_state_def Let_def split: sum.splits prod.splits option.splits)

lemma reconcile_loop_ok:
  assumes "wf_broker b" "\<forall>(k, c) \<in> set bindings. wf_bound c" "0 \<le> t" "log_capacity b (length caps + m)"
    and "\<forall>(k, st) \<in> set caps. map_of (b_states b) k \<noteq> None"
  shows "\<exists>acc' b'. reconcile_loop bindings snap t (map (\<lambda>(k, st). cap_item k st) caps) acc b = (Inr acc', b') \<and> log_capacity b' m"
  using assms
proof (induction caps arbitrary: acc b)
  case (Cons x caps)
  obtain k st where x: "x = (k, st)" by force
  from Cons.prems(5) x obtain st0 where st0: "map_of (b_states b) k = Some st0" by auto
  have "\<exists>acc1 b1. reconcile_item bindings snap t (cap_item k st) acc b = (Inr acc1, b1)"
  proof -
    from b_revoke_run [OF Cons.prems(1) _ Cons.prems(3) st0] Cons.prems(4) obtain d b2 where "b_revoke k t b = (Inr d, b2)"
      by (auto simp: log_capacity_def)
    then have rev: "\<exists>acc1 b1. reconcile_revoke k t why acc b = (Inr acc1, b1)" for why by (simp add: reconcile_revoke_def obind_def)
    show ?thesis
    proof (cases "map_of bindings k")
      case None
      with rev show ?thesis by (simp add: reconcile_item_def cap_item_get py_eq_text)
    next
      case (Some c)
      with Cons.prems(2) have "wf_bound c" by (auto dest: map_of_SomeD)
      then obtain base where "bc_base c = Inr base" by (rule wf_bound_base)
      with Some rev show ?thesis by (simp add: reconcile_item_def cap_item_get py_eq_text split: option.splits)
    qed
  qed
  then obtain acc1 b1 where i: "reconcile_item bindings snap t (cap_item k st) acc b = (Inr acc1, b1)" by blast
  have s: "bsteps b b1" using reconcile_item_run [OF i] steps_b_revoke [OF Cons.prems(1)] by auto
  have "length (b_events b1) \<le> length (b_events b) + 1"
    using reconcile_item_run [OF i] b_revoke_events [of k t b] by auto
  then have cap: "log_capacity b1 (length caps + m)" using Cons.prems(4) by (simp add: log_capacity_def)
  have "\<forall>(k, st) \<in> set caps. map_of (b_states b1) k \<noteq> None"
    using Cons.prems(5) bsteps_evolves [OF s] by (fastforce simp: evolves_def)
  from Cons.IH [OF wf_bsteps [OF s Cons.prems(1)] Cons.prems(2,3) cap this] i x show ?case by (simp add: obind_def)
qed simp

lemma reconcile_ok:
  assumes wf: "wf_broker b" "\<forall>(k, c) \<in> set bindings. wf_bound c" and t: "0 \<le> t" and cap: "log_capacity b (length (b_states b) + m)"
  shows "\<exists>rs b'. reconcile bindings snap t b = (Inr rs, b') \<and> log_capacity b' m"
proof -
  have "\<forall>(k, st) \<in> set (sort_key fst (b_states b)). map_of (b_states b) k \<noteq> None"
    by (auto simp: map_of_eq_None_iff intro: rev_image_eqI)
  moreover define acc where "acc = ({} :: string set, map (\<lambda>item. (jstr (dget item ''capability_id''), dget item ''status'')) (b_capabilities b))"
  ultimately obtain acc' b' where "reconcile_loop bindings snap t (map (\<lambda>(k, st). cap_item k st) (sort_key fst (b_states b))) acc b =
      (Inr acc', b')" "log_capacity b' m"
    using reconcile_loop_ok [OF wf t, of "sort_key fst (b_states b)" m snap acc] cap by auto
  then show ?thesis by (simp add: reconcile_def Let_def obind_def acc_def b_capabilities_def)
qed

lemma eb_decide_ok:
  assumes d: "delegate_answer b1 (bound_request rq snap) d b2 r" and rep: "\<forall>c. rep = Some c \<longrightarrow> wf_bound c"
    and wf: "wf_ebroker e" "wf_snapshot snap" and rq: "is_sha256 (rq_policy_sha256 rq)" "0 \<le> rq_at_unix rq"
    and cur: "all_current (eb_bindings e) snap b1"
  shows "\<exists>doc s'. eb_decide rq snap rs rep d ((b2, w), e) = (Inr doc, s')"
proof -
  have doc: "d = dr_as_document r" "is_sha256 (dr_receipt_sha256 r)"
    using d by (simp_all add: delegate_answer_def)
  consider (block) "dr_decision r = ''BLOCK''" | (allow) k st sc where "dr_decision r = ''ALLOW''" "dr_capability_id r = Some k"
      "map_of (b_states b1) k = Some st" "eligible b1 rq sc k"
    using d by (auto simp: delegate_answer_def)
  then show ?thesis
  proof cases
    case block
    obtain doc e' where "eb_finish_generic rep (rq_subject_id rq) (rq_capability_type rq) (rq_policy_sha256 rq) snap
        (dr_receipt_sha256 r) ''BLOCK'' (rs @ jstrs (dget d ''reason_codes'')) (rq_at_unix rq) e = (Inr doc, e')"
      using eb_finish_generic_ok [OF rep rq(1) wf(2) doc(2) rq(2)] by blast
    with doc(2) block show ?thesis
      by (simp add: eb_decide_def delegate_sha_def doc(1) dr_get py_eq_text Let_def)
  next
    case allow
    from allow(3,4) have "current_binding (eb_bindings e) snap k"
      using cur by (auto simp: all_current_def eligible_def)
    then obtain c where c: "map_of (eb_bindings e) k = Some c" "binding_mismatch c snap = []"
      by (auto simp: current_binding_def mismatch_Nil)
    with wf(1) have "wf_bound c" by (auto simp: wf_ebroker_def dest: map_of_SomeD)
    then obtain doc e' where "eb_finish c snap (dr_receipt_sha256 r) ''ALLOW''
        (rs @ [''epoch_binding_match''] @ jstrs (dget d ''reason_codes'')) (rq_at_unix rq) (Some k) e = (Inr doc, e')"
      using eb_finish_ok [OF _ _ doc(2) rq(2)] by blast
    with allow c doc(2) show ?thesis
      by (simp add: eb_decide_def delegate_sha_def doc(1) dr_get py_eq_text Let_def)
  qed
qed

lemma eb_authorize_ok:
  assumes wf: "wf_broker b" "wf_ebroker e" and p: "ts_from_provider provider w = (Inr snap, w')"
    and rq: "request_ok rq sc" "is_sha256 (rq_policy_sha256 rq)" and cap: "log_capacity b (length (b_states b) + 1)"
  shows "\<exists>doc s'. eb_authorize provider rq ((b, w), e) = (Inr doc, s')"
proof -
  have binds: "\<forall>(k, c) \<in> set (eb_bindings e). wf_bound c" and t: "0 \<le> rq_at_unix rq"
    using wf(2) rq(1) by (simp_all add: wf_ebroker_def request_ok_def)
  note wfs = ts_from_provider_wf [OF p]
  obtain rs b1 where rec: "reconcile (eb_bindings e) snap (rq_at_unix rq) b = (Inr rs, b1)" "log_capacity b1 1"
    using reconcile_ok [OF wf(1) binds t cap] by blast
  note wf1 = wf_bsteps [OF reconcile_run(1) [OF wf(1) rec(1)] wf(1)]
  obtain rep where rep: "representative (eb_bindings e) (rq_subject_id rq) (rq_capability_type rq) snap = Inr rep"
      "\<forall>c. rep = Some c \<longrightarrow> wf_bound c"
    using representative_ok [OF binds] by blast
  show ?thesis
  proof (cases "ts_tainted snap")
    case True
    obtain doc e' where "eb_finish_generic rep (rq_subject_id rq) (rq_capability_type rq) (rq_policy_sha256 rq) snap
        ZERO_SHA256 ''BLOCK'' (rs @ [''runtime_state_tainted'']) (rq_at_unix rq) e = (Inr doc, e')"
      using eb_finish_generic_ok [OF rep(2) rq(2) wfs _ t] by fastforce
    with p t rec(1) rep(1) True show ?thesis by (simp add: eb_authorize_def obind_def)
  next
    case False
    have "request_ok (bound_request rq snap) sc" using rq(1) by (simp add: request_ok_def bound_request_def)
    from authorize_decided [OF wf1 rec(2) this] obtain d b2 where a: "b_authorize (bound_request rq snap) b1 = (Inr d, b2)" by blast
    obtain r where "delegate_answer b1 (bound_request rq snap) d b2 r" using b_authorize_answer [OF wf1 a] by blast
    from eb_decide_ok [OF this rep(2) wf(2) wfs rq(2) t reconcile_effect(1) [OF wf(1) rec(1)], of rs w']
    obtain doc s' where "eb_decide rq snap rs rep d ((b2, w'), e) = (Inr doc, s')" by blast
    with p t rec(1) rep(1) False a show ?thesis by (simp add: eb_authorize_def obind_def)
  qed
qed

subsection \<open>Runs\<close>

text \<open>The delegate may also be called directly, and the world may change at any time.\<close>

inductive epoch_reach :: "'w epoch_provider \<Rightarrow> 'w esystem \<Rightarrow> bool" for provider where
  init: "broker_reach b \<Longrightarrow> ebroker_init (Some b) bid = Inr (b, e) \<Longrightarrow> epoch_reach provider ((b, w), e)"
| own: "ebroker_init None bid = Inr (b, e) \<Longrightarrow> epoch_reach provider ((b, w), e)"
| admit: "epoch_reach provider s \<Longrightarrow> epoch_reach provider (snd (eb_admit provider document t s))"
| authorize: "epoch_reach provider s \<Longrightarrow> epoch_reach provider (snd (eb_authorize provider rq s))"
| revoke: "epoch_reach provider s \<Longrightarrow> epoch_reach provider (snd (eb_revoke k t s))"
| expire: "epoch_reach provider s \<Longrightarrow> epoch_reach provider (snd (eb_expire_due t s))"
| delegate: "epoch_reach provider ((b, w), e) \<Longrightarrow> epoch_reach provider ((broker_exec c b, w), e)"
| world: "epoch_reach provider ((b, w), e) \<Longrightarrow> epoch_reach provider ((b, w'), e)"

lemma epoch_reach_wf: "epoch_reach provider s \<Longrightarrow> wf_broker (fst (fst s)) \<and> wf_ebroker (snd s)"
proof (induction rule: epoch_reach.induct)
  case (init b bid e w)
  then show ?case by (auto simp: ebroker_init_def wf_ebroker_def reach_wf)
next
  case (own bid b e w)
  then show ?case by (auto simp: ebroker_init_def rbind_eq_Inr wf_ebroker_def wf_broker_init)
next
  case (admit s document t)
  obtain b w e where s: "s = ((b, w), e)" by (metis prod.collapse)
  obtain res b' w' e' where r: "eb_admit provider document t ((b, w), e) = (res, ((b', w'), e'))" by (metis prod.collapse)
  from eb_admit_run [OF _ _ r] admit.IH s r wf_bsteps show ?case by auto
next
  case (authorize s rq)
  obtain b w e where s: "s = ((b, w), e)" by (metis prod.collapse)
  obtain res b' w' e' where r: "eb_authorize provider rq ((b, w), e) = (res, ((b', w'), e'))" by (metis prod.collapse)
  from eb_authorize_run(1-3) [OF _ r] authorize.IH s r wf_bsteps show ?case by (auto simp: wf_ebroker_def)
next
  case (revoke s k t)
  obtain b w e where s: "s = ((b, w), e)" by (metis prod.collapse)
  with revoke.IH steps_b_revoke [of b k t "fst (b_revoke k t b)" "snd (b_revoke k t b)"] wf_bsteps show ?case
    by (auto simp: eb_revoke_def)
next
  case (expire s t)
  obtain b w e where s: "s = ((b, w), e)" by (metis prod.collapse)
  with expire.IH steps_b_expire_due [of b t "fst (b_expire_due t b)" "snd (b_expire_due t b)"] wf_bsteps show ?case
    by (auto simp: eb_expire_due_def)
next
  case (delegate b w e c)
  with steps_broker_exec [of b c] wf_bsteps show ?case by auto
qed simp

subsection \<open>A concrete system\<close>

definition demo_provider :: "unit epoch_provider" where
  "demo_provider w = (Inr [(''epoch'', JInt 0), (''state_sha256'', JStr ZERO_SHA256), (''tainted'', JBool False)], w)"

definition demo_snapshot :: runtime_snapshot where
  "demo_snapshot = \<lparr>ts_epoch = 0, ts_state_sha256 = ZERO_SHA256, ts_tainted = False,
     ts_snapshot_sha256 = canonical_sha256 (JObj [(''epoch'', JInt 0), (''state_sha256'', JStr ZERO_SHA256), (''tainted'', JBool False)])\<rparr>"

definition demo_bound :: bound_contract where
  "demo_bound = (let c = \<lparr>bc_base_capability = cc_as_document demo_contract, bc_runtime_epoch = 0,
       bc_runtime_state_sha256 = ZERO_SHA256, bc_binding_sha256 = []\<rparr>
     in c\<lparr>bc_binding_sha256 := canonical_sha256 (JObj (bc_body c))\<rparr>)"

definition demo_ebroker :: ebroker where
  "demo_ebroker = \<lparr>eb_broker_id = ''broker:e'', eb_bindings = [], eb_receipts = [], eb_head = ZERO_SHA256\<rparr>"

lemma demo_snapshot_read: "ts_from_provider demo_provider () = (Inr demo_snapshot, ())"
  by (simp add: ts_from_provider_def demo_provider_def obind_def ts_of_document_def dget_def Let_def demo_snapshot_def)

lemma demo_bound_facts: "wf_bound demo_bound" "bc_base demo_bound = Inr demo_contract" "binding_mismatch demo_bound demo_snapshot = []"
    "\<not> ts_tainted demo_snapshot"
proof -
  show "wf_bound demo_bound" using demo_wf by (auto simp: wf_bound_def demo_bound_def bc_body_def Let_def)
  show "bc_base demo_bound = Inr demo_contract" using cc_roundtrip [OF demo_wf] by (simp add: bc_base_def demo_bound_def Let_def)
qed (simp_all add: mismatch_Nil demo_bound_def Let_def demo_snapshot_def)

lemma demo_epoch_init: "epoch_reach demo_provider ((demo_broker, ()), demo_ebroker)"
  by (rule epoch_reach.init [OF demo_reach, of "''broker:e''"]) (simp add: ebroker_init_def demo_ebroker_def)

lemma demo_epoch_admit:
  "\<exists>doc b e. eb_admit demo_provider (bc_as_document demo_bound) 20 ((demo_broker, ()), demo_ebroker) = (Inr doc, ((b, ()), e)) \<and>
     b_states b = [(''cap:demo'', new_state demo_contract)] \<and> log_capacity b 2 \<and> eb_bindings e = [(''cap:demo'', demo_bound)]"
proof -
  have ids: "list_all ident_re [''already_admitted'']" by (simp add: is_alnum_def is_alpha_def)
  obtain r ev where l: "b_lifecycle (new_state demo_contract) ''grant'' ''ALLOW'' [''already_admitted''] 20 demo_broker =
      (Inr (dr_as_document r), (log_event ev demo_broker)\<lparr>b_receipts := b_receipts demo_broker @ [r]\<rparr>)" "dr_decision r = ''ALLOW''"
    by (rule b_lifecycle_run [OF reach_wf [OF demo_reach] demo_capacity, of "new_state demo_contract" "''grant''" "''ALLOW''" 20 "[''already_admitted'']"])
      (use demo_wf ids broker_events_ok in \<open>simp_all add: new_state_def del: list.pred_inject ident_re.simps\<close>)
  have adm: "b_admit (jobj (cc_as_document demo_contract)) 20 demo_broker =
      (Inr (dr_as_document r), (log_event ev demo_broker)\<lparr>b_receipts := b_receipts demo_broker @ [r]\<rparr>)"
    using l(1) by (simp add: b_admit_def check_time_def cc_as_document_def demo_admit demo_states new_state_def)
  have "is_sha256 (dr_receipt_sha256 r)" using b_lifecycle_answer [OF l(1)] by (auto simp: dr_as_document_def)
  then obtain doc e' where f: "eb_finish demo_bound demo_snapshot (dr_receipt_sha256 r) ''ALLOW''
      [''epoch_binding_match'', ''base_capability_admitted''] 20 (Some ''cap:demo'') (bind_cap ''cap:demo'' demo_bound demo_ebroker) = (Inr doc, e')"
    using eb_finish_ok [OF demo_bound_facts(1)] by fastforce
  note wfs = ts_from_provider_wf [OF demo_snapshot_read]
  have "eb_bindings e' = [(''cap:demo'', demo_bound)]"
    using answered_keeps(1) [OF eb_finish_answered [OF wfs _ f]] by (simp add: bind_cap_def demo_ebroker_def)
  moreover have "log_capacity (log_event ev demo_broker) 2" using demo_events by (simp add: log_capacity_def log_event_def)
  moreover have "eb_delegate_admit demo_bound demo_contract demo_snapshot 20 ((demo_broker, ()), demo_ebroker) =
      (Inr doc, (((log_event ev demo_broker)\<lparr>b_receipts := b_receipts demo_broker @ [r]\<rparr>, ()), e'))"
    using adm f l(2) \<open>is_sha256 (dr_receipt_sha256 r)\<close>
    by (simp add: eb_delegate_admit_def delegate_sha_def dr_get py_eq_text obind_def bind_cap_def)
  then have "eb_admit demo_provider (bc_as_document demo_bound) 20 ((demo_broker, ()), demo_ebroker) =
      (Inr doc, (((log_event ev demo_broker)\<lparr>b_receipts := b_receipts demo_broker @ [r]\<rparr>, ()), e'))"
    using demo_bound_facts demo_snapshot_read
    by (simp add: eb_admit_def obind_def bc_roundtrip demo_ebroker_def parent_reason_def)
  ultimately show ?thesis
    by (intro exI [of _ doc] exI [of _ "(log_event ev demo_broker)\<lparr>b_receipts := b_receipts demo_broker @ [r]\<rparr>"] exI [of _ e'])
      (simp add: log_event_def demo_states log_capacity_def)
qed

subsection \<open>Properties of the epoch-bound broker\<close>

text \<open>C15: Whatever run led there, if \<open>authorize\<close> of the epoch-bound broker returns, its receipt is accepted by
  \<open>verify_receipt\<close> and names the runtime state just observed, and no authority is left active unless it is
  bound to exactly this epoch and state and the runtime is untainted. An ALLOW charges one use of a
  capability that was eligible for the request and is so bound, and of no other; a BLOCK charges nothing.\<close>

theorem epoch_authorize_sound:
  assumes "epoch_reach provider ((b, w), e)" "eb_authorize provider rq ((b, w), e) = (Inr doc, ((b', w'), e'))"
  shows "\<exists>snap r. ts_from_provider provider w = (Inr snap, w') \<and> doc = xr_as_document r \<and> eb_verify_receipt doc = Inr doc \<and>
    xr_runtime_epoch_observed r = ts_epoch snap \<and> xr_runtime_state_sha256_observed r = ts_state_sha256 snap \<and>
    eb_bindings e' = eb_bindings e \<and> epoch_decided (eb_bindings e) snap rq b b' (xr_decision r) (xr_capability_id r)"
proof -
  from epoch_reach_wf [OF assms(1)] have wf: "wf_broker b" by simp
  from eb_authorize_run(4) [OF wf assms(2) refl] obtain snap dec cid where a: "ts_from_provider provider w = (Inr snap, w')"
      "answered snap dec cid e (Inr doc) e'" "epoch_decided (eb_bindings e) snap rq b b' dec cid" by blast
  from a(2) obtain r where "doc = xr_as_document r" "wf_epoch_receipt r" "xr_decision r = dec" "xr_capability_id r = cid"
      "xr_runtime_epoch_observed r = ts_epoch snap" "xr_runtime_state_sha256_observed r = ts_state_sha256 snap"
    by (auto simp: answered_def)
  with a answered_keeps(1) [OF a(2)] eb_verify_receipt_ok show ?thesis by blast
qed

theorem epoch_authorize_sound_witness:
  "\<exists>r s'. eb_authorize demo_provider demo_request ((demo_broker, ()), demo_ebroker) = (Inr (xr_as_document r), s') \<and>
     xr_runtime_epoch_observed r = 0"
proof -
  have "log_capacity demo_broker (length (b_states demo_broker) + 1)" using demo_events by (simp add: log_capacity_def demo_states)
  moreover have "is_sha256 (rq_policy_sha256 demo_request)" by (simp add: demo_request_def)
  ultimately obtain doc s' where run: "eb_authorize demo_provider demo_request ((demo_broker, ()), demo_ebroker) = (Inr doc, s')"
    using eb_authorize_ok [OF _ _ demo_snapshot_read demo_request_ok] epoch_reach_wf [OF demo_epoch_init] by force
  obtain b' w' e' where s': "s' = ((b', w'), e')" by (metis prod.collapse)
  from epoch_authorize_sound [OF demo_epoch_init run [unfolded s']] demo_snapshot_read obtain r where
    "doc = xr_as_document r" "xr_runtime_epoch_observed r = ts_epoch demo_snapshot" by auto
  with run show ?thesis by (auto simp: demo_snapshot_def)
qed

text \<open>C16: A well-formed request is always answered: if the provider answers, the policy digest is one and
  the log has room for one event per capability and one more, \<open>authorize\<close> returns, and it returns ALLOW
  whenever an eligible capability without parent is bound to the observed epoch and state.\<close>

theorem epoch_authorize_answers:
  assumes "epoch_reach provider ((b, w), e)" "ts_from_provider provider w = (Inr snap, w')"
    and "request_ok rq sc" "is_sha256 (rq_policy_sha256 rq)" "log_capacity b (length (b_states b) + 1)"
  shows "\<exists>r s'. eb_authorize provider rq ((b, w), e) = (Inr (xr_as_document r), s') \<and>
    (xr_decision r = ''BLOCK'' \<or> xr_decision r = ''ALLOW'') \<and>
    ((\<exists>k. eligible b rq sc k \<and> current_binding (eb_bindings e) snap k \<and> rooted_binding (eb_bindings e) k) \<longrightarrow> xr_decision r = ''ALLOW'')"
proof -
  from epoch_reach_wf [OF assms(1)] have wf: "wf_broker b" "wf_ebroker e" by simp_all
  obtain doc s' where run: "eb_authorize provider rq ((b, w), e) = (Inr doc, s')"
    using eb_authorize_ok [OF wf assms(2-5)] by blast
  obtain b' w'' e' where s': "s' = ((b', w''), e')" by (metis prod.collapse)
  from eb_authorize_run(4) [OF wf(1) run [unfolded s'] refl] obtain snap' dec cid where a: "ts_from_provider provider w = (Inr snap', w'')"
      "answered snap' dec cid e (Inr doc) e'" "epoch_decided (eb_bindings e) snap' rq b b' dec cid" by blast
  from a(2) obtain r where r: "doc = xr_as_document r" "xr_decision r = dec" by (auto simp: answered_def)
  have "snap' = snap" using a(1) assms(2) by simp
  with a(3) r(2) assms(3) have "xr_decision r = ''BLOCK'' \<or> xr_decision r = ''ALLOW''"
    "(\<exists>k. eligible b rq sc k \<and> current_binding (eb_bindings e) snap k \<and> rooted_binding (eb_bindings e) k) \<longrightarrow> xr_decision r = ''ALLOW''"
    unfolding epoch_decided_def request_ok_def by blast+
  with run r(1) show ?thesis by blast
qed

theorem epoch_authorize_answers_witness:
  "\<exists>s r s'. epoch_reach demo_provider s \<and> eb_authorize demo_provider demo_request s = (Inr (xr_as_document r), s') \<and>
     xr_decision r = ''ALLOW''"
proof -
  obtain doc b e where adm: "eb_admit demo_provider (bc_as_document demo_bound) 20 ((demo_broker, ()), demo_ebroker) = (Inr doc, ((b, ()), e))"
      "b_states b = [(''cap:demo'', new_state demo_contract)]" "log_capacity b 2" "eb_bindings e = [(''cap:demo'', demo_bound)]"
    using demo_epoch_admit by blast
  have reach: "epoch_reach demo_provider ((b, ()), e)"
    using epoch_reach.admit [OF demo_epoch_init, of "bc_as_document demo_bound" 20] adm(1) by simp
  have el: "eligible b demo_request [(''max_children'', JInt 1)] ''cap:demo''"
    by (simp add: eligible_def adm(2) new_state_def demo_request_def scope_contains_def scope_value_contains_def)
  have cur: "current_binding (eb_bindings e) demo_snapshot ''cap:demo''" "rooted_binding (eb_bindings e) ''cap:demo''"
    using demo_bound_facts by (simp_all add: current_binding_def rooted_binding_def adm(4) mismatch_Nil)
  have "is_sha256 (rq_policy_sha256 demo_request)" "log_capacity b (length (b_states b) + 1)"
    using adm(2,3) by (simp_all add: demo_request_def numeral_2_eq_2)
  from epoch_authorize_answers [OF reach demo_snapshot_read demo_request_ok this] el cur reach show ?thesis by blast
qed

text \<open>If \<open>admit\<close> returns, its receipt is accepted by \<open>verify_receipt\<close>. An ALLOW is given only for a document
  whose contract is bound to the observed, untainted runtime state, and then the wrapper holds this
  binding and the delegate a capability with this contract digest; a BLOCK leaves the bindings alone.\<close>

lemma epoch_admit_sound:
  assumes "epoch_reach provider ((b, w), e)" "eb_admit provider document t ((b, w), e) = (Inr doc, ((b', w'), e'))"
  shows "\<exists>c base snap r. bc_from_document document = Inr c \<and> bc_base c = Inr base \<and> ts_from_provider provider w = (Inr snap, w') \<and>
    doc = xr_as_document r \<and> eb_verify_receipt doc = Inr doc \<and>
    (xr_decision r = ''BLOCK'' \<and> eb_bindings e' = eb_bindings e \<or>
     xr_decision r = ''ALLOW'' \<and> xr_capability_id r = Some (cc_capability_id base) \<and> \<not> ts_tainted snap \<and>
       bc_runtime_epoch c = ts_epoch snap \<and> bc_runtime_state_sha256 c = ts_state_sha256 snap \<and>
       eb_bindings e' = AList.update (cc_capability_id base) c (eb_bindings e) \<and>
       (\<exists>st. map_of (b_states b') (cc_capability_id base) = Some st \<and> cc_contract_sha256 (st_contract st) = cc_contract_sha256 base))"
proof -
  from epoch_reach_wf [OF assms(1)] have wf: "wf_broker b" "wf_ebroker e" by simp_all
  from eb_admit_run [OF wf assms(2)] obtain c snap where c: "bc_from_document document = Inr c"
      "ts_from_provider provider w = (Inr snap, w')" "admitted c snap e b' (Inr doc) e'" by blast
  obtain base where base: "bc_base c = Inr base" by (rule wf_bound_base [OF bc_from_document_wf [OF c(1)]])
  from c(3) show ?thesis
    unfolding admitted_def
  proof (elim disjE exE conjE)
    assume a: "answered snap ''BLOCK'' None e (Inr doc) e'"
    then obtain r where "doc = xr_as_document r" "wf_epoch_receipt r" "xr_decision r = ''BLOCK''" by (auto simp: answered_def)
    with answered_keeps(1) [OF a] c base eb_verify_receipt_ok show ?thesis by blast
  next
    fix base' st
    assume st: "bc_base c = Inr base'" "\<not> ts_tainted snap" "binding_mismatch c snap = []" "map_of (b_states b') (cc_capability_id base') = Some st"
        "cc_contract_sha256 (st_contract st) = cc_contract_sha256 base'"
      and a: "answered snap ''ALLOW'' (Some (cc_capability_id base')) (bind_cap (cc_capability_id base') c e) (Inr doc) e'"
    from a obtain r where r: "doc = xr_as_document r" "wf_epoch_receipt r" "xr_decision r = ''ALLOW''" "xr_capability_id r = Some (cc_capability_id base')"
      by (auto simp: answered_def)
    have "eb_bindings e' = AList.update (cc_capability_id base') c (eb_bindings e)"
      using answered_keeps(1) [OF a] by (simp add: bind_cap_def)
    with st r c(1,2) eb_verify_receipt_ok [OF r(2)] show ?thesis unfolding mismatch_Nil by blast
  qed
qed

text \<open>C17: An accepted epoch-bound contract is read back unchanged from its document, and its binding digest
  binds it: two accepted contracts with the same digest agree in the capability, the epoch and the state
  digest, or their bodies are a collision of SHA-256.\<close>

theorem epoch_contract_binds:
  assumes "bc_from_document v = Inr c" "bc_from_document w = Inr d"
  shows "bc_from_document (bc_as_document c) = Inr c \<and>
    (bc_binding_sha256 c = bc_binding_sha256 d \<longrightarrow> c = d \<or> collides [JObj (bc_body c), JObj (bc_body d)])"
  using bc_from_document_wf [OF assms(1)] bc_from_document_wf [OF assms(2)] bc_roundtrip
    bound_digest.same_digest [of c d "[JObj (bc_body c), JObj (bc_body d)]"] by simp

theorem epoch_contract_binds_witness: "bc_from_document (bc_as_document demo_bound) = Inr demo_bound"
  using epoch_contract_binds [OF bc_roundtrip [OF demo_bound_facts(1)] bc_roundtrip [OF demo_bound_facts(1)]] by blast

end
