(* ===== verification/One_Time_Store.thy ===== *)
theory One_Time_Store
  imports Json_Injective
begin

section \<open>One-time tokens\<close>

text \<open>
  The specification that all lease brokers implement: a token is issued fresh and spent at most once. The
  locale \<open>one_time_store\<close> is the interface of a store to it; \<open>lease_table\<close> is the store every broker uses, a
  dictionary whose keys carry the number of the lease, and is itself a \<open>one_time_store\<close>. Interpreted for
  the leases of the effect, file mutation and credential brokers in their theories.
\<close>

inductive token_step :: "'k set \<times> 'k set \<Rightarrow> 'k set \<times> 'k set \<Rightarrow> bool" where
  issue: "k \<notin> I \<Longrightarrow> token_step (I, S) (insert k I, S)"
| spend: "k \<in> I \<Longrightarrow> k \<notin> S \<Longrightarrow> token_step (I, S) (I, insert k S)"

abbreviation token_steps :: "'k set \<times> 'k set \<Rightarrow> 'k set \<times> 'k set \<Rightarrow> bool" where
  "token_steps \<equiv> token_step\<^sup>*\<^sup>*"

lemma token_steps_mono: "token_steps p q \<Longrightarrow> fst p \<subseteq> fst q \<and> snd p \<subseteq> snd q"
  by (induction rule: rtranclp_induct) (auto elim!: token_step.cases)

text \<open>What a store promises: each of its steps is a step of the specification or changes nothing in it.\<close>

locale one_time_store =
  fixes ok :: "'e \<Rightarrow> bool"
    and issued :: "'e \<Rightarrow> 'k set"
    and spent :: "'e \<Rightarrow> 'k set"
    and step :: "'e \<Rightarrow> 'e \<Rightarrow> bool"
  assumes step_ok: "ok e \<Longrightarrow> step e f \<Longrightarrow> ok f"
    and step_token: "ok e \<Longrightarrow> step e f \<Longrightarrow>
      (issued f, spent f) = (issued e, spent e) \<or> token_step (issued e, spent e) (issued f, spent f)"
begin

lemma steps_ok: "step\<^sup>*\<^sup>* e f \<Longrightarrow> ok e \<Longrightarrow> ok f"
  by (induction rule: rtranclp_induct) (auto intro: step_ok)

lemma refines: "step\<^sup>*\<^sup>* e f \<Longrightarrow> ok e \<Longrightarrow> token_steps (issued e, spent e) (issued f, spent f)"
proof (induction rule: rtranclp_induct)
  case (step y z)
  with step_token [OF steps_ok [OF step.hyps(1) step.prems] step.hyps(2)] show ?case
    by (metis rtranclp.rtrancl_into_rtrancl)
qed simp

lemma spent_final: "step\<^sup>*\<^sup>* e f \<Longrightarrow> ok e \<Longrightarrow> spent e \<subseteq> spent f \<and> issued e \<subseteq> issued f"
  using token_steps_mono [OF refines] by auto

end

subsection \<open>Numbered keys\<close>

text \<open>A lease identifier: the prefix of its broker, the number of the lease, and a digest.\<close>

definition lease_number :: "string \<Rightarrow> nat \<Rightarrow> string \<Rightarrow> bool" where
  "lease_number prefix n k \<longleftrightarrow> (\<exists>h. k = prefix @ nat_str n @ '':'' @ h)"

lemma lease_number_unique:
  assumes "lease_number prefix m k" "lease_number prefix n k"
  shows "m = n"
proof -
  from assms obtain h h' where "prefix @ (nat_str m @ CHR '':'' # h) = prefix @ (nat_str n @ CHR '':'' # h')"
    unfolding lease_number_def append_Cons append_Nil by metis
  then have eq: "nat_str m @ CHR '':'' # h = nat_str n @ CHR '':'' # h'" unfolding same_append_eq .
  have "\<not> is_digit (CHR '':'')" by (simp add: is_digit_def)
  then have "takeWhile is_digit (nat_str x @ CHR '':'' # t) = nat_str x" for x t
    using takeWhile_append2 [of "nat_str x" is_digit "CHR '':'' # t"] nat_str_digits [of x] unfolding list_all_iff by simp
  from this [of m h] this [of n h'] have "nat_str m = nat_str n" unfolding eq by (rule trans [OF sym])
  then show ?thesis by (rule nat_str_inj)
qed

subsection \<open>Tables of leases\<close>

definition table_ok :: "string \<Rightarrow> (string \<times> 'l) list \<Rightarrow> bool" where
  "table_ok prefix t \<longleftrightarrow> distinct (map fst t) \<and> (\<forall>k \<in> fst ` set t. \<exists>n \<le> length t. lease_number prefix n k)"

definition keys_of :: "(string \<times> 'l) list \<Rightarrow> string set" where
  "keys_of t = fst ` set t"

definition spent_of :: "('l \<Rightarrow> bool) \<Rightarrow> (string \<times> 'l) list \<Rightarrow> string set" where
  "spent_of consumed t = {k. \<exists>l. map_of t k = Some l \<and> consumed l}"

inductive table_step :: "string \<Rightarrow> ('l \<Rightarrow> bool) \<Rightarrow> ('l \<Rightarrow> 'l) \<Rightarrow> (string \<times> 'l) list \<Rightarrow> (string \<times> 'l) list \<Rightarrow> bool"
  for prefix consumed burn where
  issue: "lease_number prefix (length t + 1) k \<Longrightarrow> \<not> consumed l \<Longrightarrow> table_step prefix consumed burn t (AList.update k l t)"
| burn: "map_of t k = Some l \<Longrightarrow> \<not> consumed l \<Longrightarrow> table_step prefix consumed burn t (AList.update k (burn l) t)"

lemma update_fresh: "k \<notin> fst ` set al \<Longrightarrow> AList.update k v al = al @ [(k, v)]"
  by (induction al) auto

lemma update_old: "map_of al k = Some w \<Longrightarrow> length (AList.update k v al) = length al \<and> map fst (AList.update k v al) = map fst al"
  by (induction al) (auto split: if_splits)

lemma table_fresh: "table_ok prefix t \<Longrightarrow> lease_number prefix (length t + 1) k \<Longrightarrow> k \<notin> fst ` set t"
  using lease_number_unique by (fastforce simp: table_ok_def)

lemma table_ok_Nil [simp]: "table_ok prefix []"
  by (simp add: table_ok_def)

locale lease_table =
  fixes prefix :: string
    and consumed :: "'l \<Rightarrow> bool"
    and burn :: "'l \<Rightarrow> 'l"
  assumes burnt: "consumed (burn l)"
begin

lemma step_table_ok:
  assumes "table_ok prefix t" "table_step prefix consumed burn t u"
  shows "table_ok prefix u"
  using assms(2)
proof cases
  case (issue k l)
  note fresh = table_fresh [OF assms(1) issue(2)]
  have "\<exists>n \<le> length t + 1. lease_number prefix n k'" if "k' \<in> fst ` set t" for k'
  proof -
    from assms(1) that obtain n where "n \<le> length t" "lease_number prefix n k'" unfolding table_ok_def by blast
    then show ?thesis by (intro exI [of _ n]) simp
  qed
  with assms(1) fresh issue show ?thesis unfolding table_ok_def by (auto simp: update_fresh)
next
  case (burn k l)
  note old = update_old [OF burn(2), of "burn l"]
  then have "fst ` set u = fst ` set t" using burn(1) by (metis list.set_map)
  with old assms(1) burn(1) show ?thesis by (simp add: table_ok_def)
qed

lemma step_table_token:
  assumes "table_ok prefix t" "table_step prefix consumed burn t u"
  shows "token_step (keys_of t, spent_of consumed t) (keys_of u, spent_of consumed u)"
  using assms(2)
proof cases
  case (issue k l)
  note fresh = table_fresh [OF assms(1) issue(2)]
  then have "map_of t k = None" by (simp add: map_of_eq_None_iff)
  with issue have "spent_of consumed u = spent_of consumed t" by (auto simp: spent_of_def update_conv' split: if_splits)
  moreover have "keys_of u = insert k (keys_of t)" "k \<notin> keys_of t" using fresh issue(1) by (simp_all add: keys_of_def update_fresh)
  ultimately show ?thesis by (simp add: token_step.issue)
next
  case (burn k l)
  have "keys_of u = keys_of t" using update_old [OF burn(2)] burn(1) by (simp add: keys_of_def) (metis list.set_map)
  moreover have "spent_of consumed u = insert k (spent_of consumed t)"
    using burn(1) burnt by (auto simp: spent_of_def update_conv' split: if_splits)
  moreover have "k \<in> keys_of t" "k \<notin> spent_of consumed t"
    using burn map_of_SomeD [OF burn(2)] by (force simp: keys_of_def, simp add: spent_of_def)
  ultimately show ?thesis by (simp add: token_step.spend)
qed

end

sublocale lease_table \<subseteq> table: one_time_store "table_ok prefix" keys_of "spent_of consumed" "table_step prefix consumed burn"
  by unfold_locales (rule step_table_ok, assumption+, rule disjI2, rule step_table_token)

end
