(* ===== verification/Effect_Properties.thy ===== *)
theory Effect_Properties
  imports Effect_Commit Epoch_Properties One_Time_Store "HOL-Library.Multiset"
begin

section \<open>Effect leases: facts and properties\<close>

text \<open>
  The lease store as a store of one-time tokens: an abstract specification, the refinement of it by every
  run of the broker (also when an executor calls back into the broker), what has to hold at the moment
  an effect starts, and the account of consumed leases and commit receipts.
\<close>

subsection \<open>The operations, one check at a time\<close>

lemma oguard_simps [simp]:
  "oguard ok code s = (if ok then (Inr (), s) else (Inl (EffectCommitError code), s))"
  by (simp add: oguard_def)

lemma obind_oguard [simp]:
  "obind (oguard ok code) f s = (if ok then f () s else (Inl (EffectCommitError code), s))"
  by (simp add: obind_def)

lemma ef_sha_Inr: "ef_sha v n = Inr s \<longleftrightarrow> v = JStr s \<and> is_sha256 s"
  by (cases v) auto

text \<open>Reading the host never touches the broker.\<close>

lemma on_fst_keeps: "on_fst m (s, e) = (r, (s', e')) \<Longrightarrow> e' = e"
  by (simp add: on_fst_eq)

definition checked ::
  "'s effect_host \<Rightarrow> ecommit \<Rightarrow> string \<Rightarrow> lease \<Rightarrow> trusted_world \<Rightarrow> trusted_session \<Rightarrow> int \<Rightarrow> 's \<Rightarrow> bool" where
  "checked host e lid lease world session now s' \<longleftrightarrow>
     \<not> ec_contained e \<and> map_of (ec_leases e) lid = Some lease \<and> \<not> le_consumed lease \<and>
     le_issued_at_unix lease \<le> now \<and> now \<le> le_expires_at_unix lease \<and> 0 \<le> now \<and> \<not> tw_tainted world \<and>
     tw_epoch world = tw_epoch (le_runtime_world lease) \<and> tw_state_sha256 world = tw_state_sha256 (le_runtime_world lease) \<and>
     tx_active session \<and> tx_session_sha256 session = tx_session_sha256 (le_session lease) \<and>
     (\<exists>s1 s2 s3. tw_observe host s1 = (Inr world, s2) \<and>
        tx_observe host (ro_operation_id (le_operation lease)) (ec_host_binding_sha256 e) s2 = (Inr session, s3) \<and>
        capability_active host (le_capability_id lease) world s3 = (Inr True, s'))"

lemma ef_now_nonneg: "ef_now host s = (Inr now, s') \<Longrightarrow> 0 \<le> now"
  by (auto simp: ef_now_def obind_cases split: if_splits)

lemma commit_checks_run:
  assumes "commit_checks host lid (s, e) = (r, (s', e'))"
  shows "e' = e" and "r = Inr (lease, world, session, now) \<Longrightarrow> checked host e lid lease world session now s'"
proof -
  show e: "e' = e"
    using assms by (auto simp: commit_checks_def obind_cases on_fst_eq simp del: on_pair split: if_splits)
  assume "r = Inr (lease, world, session, now)"
  with assms show "checked host e lid lease world session now s'"
    unfolding commit_checks_def checked_def
    by (auto simp: obind_cases on_fst_eq ef_now_nonneg simp del: on_pair split: if_splits option.splits)
qed

lemma ef_commit_refused:
  assumes "commit_checks host lid se = (Inl err, se')"
  shows "ef_commit host ex lid se = (Inl err, se')"
  using assms by (simp add: ef_commit_def obind_def)

text \<open>The receipt of a commit: sealed, and naming the lease.\<close>

definition commit_of :: "commit_receipt \<Rightarrow> lease \<Rightarrow> trusted_world \<Rightarrow> trusted_session \<Rightarrow> int \<Rightarrow> string \<Rightarrow> bool" where
  "commit_of cr lease world session now out \<longleftrightarrow> cm_receipt_sha256 cr = canonical_sha256 (JObj (cm_body cr)) \<and>
     cm_lease_id_sha256 cr = canonical_sha256 (JStr (le_lease_id lease)) \<and> cm_effect_outcome cr = out \<and>
     cm_operation_id cr = ro_operation_id (le_operation lease) \<and> cm_runtime_epoch cr = tw_epoch world \<and>
     cm_runtime_state_sha256 cr = tw_state_sha256 world \<and> cm_execution_session_sha256 cr = tx_session_sha256 session \<and>
     cm_authorization_receipt_sha256 cr = le_authorization_receipt_sha256 lease \<and> cm_committed_at_unix cr = now"

definition log_commit :: "commit_receipt \<Rightarrow> ecommit \<Rightarrow> ecommit" where
  "log_commit cr e = e\<lparr>ec_commits := ec_commits e @ [cr]\<rparr>"

lemma cm_body_sha [simp]: "cm_body (r\<lparr>cm_receipt_sha256 := x\<rparr>) = cm_body r"
  by (simp add: cm_body_def)

lemma append_commit_run:
  assumes "is_sha256 sha"
  shows "\<exists>cr. append_commit lease world session now out sha rs e = (Inr (), log_commit cr e) \<and> commit_of cr lease world session now out"
proof -
  let ?p = "\<lparr>cm_operation_id = ro_operation_id (le_operation lease),
      cm_authorization_receipt_sha256 = le_authorization_receipt_sha256 lease,
      cm_lease_id_sha256 = canonical_sha256 (JStr (le_lease_id lease)), cm_runtime_epoch = tw_epoch world,
      cm_runtime_state_sha256 = tw_state_sha256 world, cm_runtime_snapshot_sha256 = tw_snapshot_sha256 world,
      cm_execution_session_sha256 = tx_session_sha256 session,
      cm_execution_session_evidence_sha256 = tx_evidence_sha256 session,
      cm_capability_receipt_sha256 = le_capability_receipt_sha256 lease,
      cm_committed_at_unix = now, cm_effect_outcome = out, cm_result_sha256 = sha,
      cm_reason_codes = sort (remdups rs), cm_receipt_sha256 = []\<rparr>"
  let ?r = "?p\<lparr>cm_receipt_sha256 := canonical_sha256 (JObj (cm_body ?p))\<rparr>"
  have "commit_of ?r lease world session now out" unfolding commit_of_def cm_body_sha by simp
  then show ?thesis using assms by (intro exI [of _ ?r]) (simp add: append_commit_def Let_def log_commit_def)
qed

lemma run_effect_run:
  assumes "run_effect ex op z = (x, z')"
  shows "z' = snd (ex op z)" and "x = Inr ob \<Longrightarrow> is_sha256 (ob_result_sha256 ob)"
proof -
  obtain y z1 where y: "ex op z = (y, z1)" by (metis prod.collapse)
  have "z' = z1 \<and> (\<forall>ob. x = Inr ob \<longrightarrow> y = Inr (Some ob) \<and> ob_validate ob = Inr ())"
    using assms y by (cases y; cases "projr y") (auto simp: run_effect_def obind_def rbind_eq_Inr)
  moreover have "is_sha256 (ob_result_sha256 ob)" if "ob_validate ob = Inr ()" for ob
    using that by (simp add: ob_validate_def med_sha_def split: if_splits)
  ultimately show "z' = snd (ex op z)" "x = Inr ob \<Longrightarrow> is_sha256 (ob_result_sha256 ob)" using y by simp_all
qed

lemma ef_commit_run:
  assumes run: "ef_commit host ex lid (s, e) = (r, (s', e'))"
  obtains (refused) err where "commit_checks host lid (s, e) = (Inl err, (s', e))" "r = Inl err" "e' = e"
  | (ran) lease world session now s1 x e2 cr where "commit_checks host lid (s, e) = (Inr (lease, world, session, now), (s1, e))"
      "ex (le_operation lease) (s1, burn_lease lid lease e) = (x, (s', e2))" "e' = log_commit cr e2"
      "commit_of cr lease world session now (case r of Inl _ \<Rightarrow> ''FAILED'' | Inr _ \<Rightarrow> ''SUCCEEDED'')"
proof -
  obtain c s1 e1 where c: "commit_checks host lid (s, e) = (c, (s1, e1))" by (metis prod.collapse)
  note e1 = commit_checks_run(1) [OF c]
  show thesis
  proof (cases c)
    case (Inl err)
    from ef_commit_refused [OF c [unfolded Inl], of ex] run have "r = Inl err" "s' = s1" "e' = e1" by simp_all
    with c Inl e1 show thesis by (intro refused [of err]) simp_all
  next
    case (Inr q)
    obtain lease world session now where q: "q = (lease, world, session, now)" by (metis prod.collapse)
    let ?z = "(s1, burn_lease lid lease e)"
    obtain x0 s2 e2 where z: "run_effect ex (le_operation lease) ?z = (x0, (s2, e2))" by (metis prod.collapse)
    note ru = run_effect_run [OF z]
    obtain x where x: "ex (le_operation lease) ?z = (x, (s2, e2))" using ru(1) by (metis prod.collapse)
    show thesis
    proof (cases x0)
      case err: (Inl exc)
      let ?sha = "canonical_sha256 (JObj [(''error_type'', JStr (exn_class exc))])"
      obtain cr where cr: "append_commit lease world session now ''FAILED'' ?sha [''lease_consumed'', ''effect_callback_failed''] e2 =
          (Inr (), log_commit cr e2)" "commit_of cr lease world session now ''FAILED''"
        using append_commit_run [OF is_sha256_canonical] by blast
      have "s' = s2 \<and> e' = log_commit cr e2 \<and> (\<exists>e. r = Inl e)"
        using run c e1 Inr q z err cr(1) by (auto simp: ef_commit_def obind_def)
      with c Inr q e1 x cr(2) show thesis by (intro ran [of lease world session now s1 x e2 cr]) auto
    next
      case ok: (Inr ob)
      let ?rs = "[''runtime_world_rechecked'', ''execution_session_rechecked'', ''source_capability_active'', ''lease_consumed'',
          ''effect_committed_under_fence'']"
      obtain cr where cr: "append_commit lease world session now ''SUCCEEDED'' (ob_result_sha256 ob) ?rs e2 = (Inr (), log_commit cr e2)"
          "commit_of cr lease world session now ''SUCCEEDED''"
        using append_commit_run [OF ru(2) [OF ok]] by blast
      have "s' = s2 \<and> e' = log_commit cr e2 \<and> r = Inr ob"
        using run c e1 Inr q z ok cr(1) by (auto simp: ef_commit_def obind_def)
      with c Inr q e1 x cr(2) show thesis by (intro ran [of lease world session now s1 x e2 cr]) auto
    qed
  qed
qed

subsection \<open>The lease store\<close>

abbreviation numbered :: "nat \<Rightarrow> string \<Rightarrow> bool" where
  "numbered \<equiv> lease_number ''effect-lease:''"

interpretation effect_leases: lease_table "''effect-lease:''" le_consumed "\<lambda>l. l\<lparr>le_consumed := True\<rparr>"
  by unfold_locales simp

definition wf_lease :: "ecommit \<Rightarrow> string \<Rightarrow> lease \<Rightarrow> bool" where
  "wf_lease e k l \<longleftrightarrow> le_lease_id l = k \<and> 0 \<le> le_issued_at_unix l \<and> le_expires_at_unix l = le_issued_at_unix l + ec_lease_ttl_seconds e"

definition wf_ecommit :: "ecommit \<Rightarrow> bool" where
  "wf_ecommit e \<longleftrightarrow> table_ok ''effect-lease:'' (ec_leases e) \<and> 1 \<le> ec_lease_ttl_seconds e \<and> ec_lease_ttl_seconds e \<le> MAX_LEASE_TTL_SECONDS \<and>
     (\<forall>(k, l) \<in> set (ec_leases e). wf_lease e k l) \<and>
     (\<forall>cr \<in> set (ec_commits e). cm_receipt_sha256 cr = canonical_sha256 (JObj (cm_body cr))) \<and>
     (\<forall>ar \<in> set (ec_authorizations e). ar_receipt_sha256 ar = canonical_sha256 (JObj (ar_body ar)))"

definition issued_leases :: "ecommit \<Rightarrow> string set" where
  "issued_leases e = keys_of (ec_leases e)"

definition spent_leases :: "ecommit \<Rightarrow> string set" where
  "spent_leases e = spent_of le_consumed (ec_leases e)"

inductive estep :: "ecommit \<Rightarrow> ecommit \<Rightarrow> bool" where
  issue: "numbered (length (ec_leases e) + 1) k \<Longrightarrow> wf_lease e k l \<Longrightarrow> \<not> le_consumed l \<Longrightarrow>
    ar_receipt_sha256 ar = canonical_sha256 (JObj (ar_body ar)) \<Longrightarrow>
    estep e (e\<lparr>ec_authorizations := ec_authorizations e @ [ar], ec_leases := AList.update k l (ec_leases e)\<rparr>)"
| burn: "map_of (ec_leases e) k = Some l \<Longrightarrow> \<not> le_consumed l \<Longrightarrow> estep e (burn_lease k l e)"
| commit: "cm_receipt_sha256 cr = canonical_sha256 (JObj (cm_body cr)) \<Longrightarrow> estep e (log_commit cr e)"
| contain: "estep e (e\<lparr>ec_contained := c\<rparr>)"

abbreviation esteps :: "ecommit \<Rightarrow> ecommit \<Rightarrow> bool" where
  "esteps \<equiv> estep\<^sup>*\<^sup>*"

abbreviation effect_table_step :: "(string \<times> lease) list \<Rightarrow> (string \<times> lease) list \<Rightarrow> bool" where
  "effect_table_step \<equiv> table_step ''effect-lease:'' le_consumed (\<lambda>l. l\<lparr>le_consumed := True\<rparr>)"

lemma fresh_number: "wf_ecommit e \<Longrightarrow> numbered (length (ec_leases e) + 1) k \<Longrightarrow> k \<notin> fst ` set (ec_leases e)"
  by (rule table_fresh) (simp_all add: wf_ecommit_def)

text \<open>Every step of the broker leaves its table alone or is a step of the table.\<close>

lemma estep_table: "estep e f \<Longrightarrow> ec_leases f = ec_leases e \<or> effect_table_step (ec_leases e) (ec_leases f)"
  by (induction rule: estep.induct) (auto simp: burn_lease_def log_commit_def intro: table_step.intros)

lemma wf_estep:
  assumes "wf_ecommit e" "estep e f"
  shows "wf_ecommit f"
proof -
  have "table_ok ''effect-lease:'' (ec_leases f)"
    using estep_table [OF assms(2)] assms(1) effect_leases.step_table_ok by (auto simp: wf_ecommit_def)
  moreover have "\<forall>(k, l) \<in> set (ec_leases f). wf_lease f k l"
    using assms(2,1)
  proof (induction rule: estep.induct)
    case (burn e k l)
    then have "wf_lease e k l" using map_of_SomeD [OF burn.hyps(1)] by (auto simp: wf_ecommit_def)
    with burn show ?case by (auto simp: wf_ecommit_def wf_lease_def burn_lease_def dest!: set_AList_update)
  qed (auto simp: wf_ecommit_def wf_lease_def log_commit_def dest!: set_AList_update)
  moreover have "ec_lease_ttl_seconds f = ec_lease_ttl_seconds e \<and>
      (\<forall>cr \<in> set (ec_commits f). cm_receipt_sha256 cr = canonical_sha256 (JObj (cm_body cr))) \<and>
      (\<forall>ar \<in> set (ec_authorizations f). ar_receipt_sha256 ar = canonical_sha256 (JObj (ar_body ar)))"
    using assms(2,1) by (induction rule: estep.induct) (auto simp: wf_ecommit_def burn_lease_def log_commit_def)
  ultimately show ?thesis using assms(1) unfolding wf_ecommit_def by simp
qed

lemma estep_token:
  assumes "wf_ecommit e" "estep e f"
  shows "(issued_leases f, spent_leases f) = (issued_leases e, spent_leases e) \<or>
    token_step (issued_leases e, spent_leases e) (issued_leases f, spent_leases f)"
  using estep_table [OF assms(2)] effect_leases.step_table_token assms(1)
  by (auto simp: wf_ecommit_def issued_leases_def spent_leases_def)

interpretation lease_store: one_time_store wf_ecommit issued_leases spent_leases estep
  by unfold_locales (rule wf_estep, assumption+, rule estep_token, assumption+)

subsection \<open>Runs\<close>

lemma ar_body_sha [simp]: "ar_body (r\<lparr>ar_receipt_sha256 := x\<rparr>) = ar_body r"
  by (simp add: ar_body_def)

lemma lease_receipt_sealed:
  "ar_receipt_sha256 (lease_receipt_for op cf sha now world session lid e) =
     canonical_sha256 (JObj (ar_body (lease_receipt_for op cf sha now world session lid e)))"
  by (cases cf) (simp add: lease_receipt_for_def Let_def ar_body_def)

lemma new_lease_numbered: "numbered (length (ec_leases e) + 1) (new_lease_id e op sha world session)"
  unfolding lease_number_def new_lease_id_def by (rule exI, rule refl)

lemma record_lease_step:
  assumes "record_lease op cf sha now world session e = (r, e')" "0 \<le> now"
  shows "estep e e'"
proof -
  obtain cid rsha bsha where cf: "cf = (cid, rsha, bsha)" by (metis prod.collapse)
  let ?k = "new_lease_id e op rsha world session"
  let ?ar = "lease_receipt_for op cf sha now world session ?k e"
  let ?l = "\<lparr>le_lease_id = ?k, le_operation = op, le_capability_id = cid, le_capability_receipt_sha256 = rsha,
      le_bound_contract_sha256 = bsha, le_scope_sha256 = sha, le_runtime_world = world, le_session = session,
      le_authorization_receipt_sha256 = ar_receipt_sha256 ?ar, le_issued_at_unix = now,
      le_expires_at_unix = now + ec_lease_ttl_seconds e, le_consumed = False\<rparr>"
  have e': "e' = e\<lparr>ec_authorizations := ec_authorizations e @ [?ar], ec_leases := AList.update ?k ?l (ec_leases e)\<rparr>"
    using assms(1) by (simp add: cf record_lease_def Let_def)
  show ?thesis
    unfolding e' using assms(2) by (intro estep.issue new_lease_numbered lease_receipt_sealed) (simp_all add: wf_lease_def)
qed

lemma ef_issue_run:
  assumes "ef_issue host op dec (s, e) = (r, (s', e'))"
  shows "e' = e \<or> estep e e'"
  using assms unfolding ef_issue_def
  by (auto simp: obind_cases on_fst_eq on_snd_eq simp del: on_pair split: if_splits dest: ef_now_nonneg record_lease_step)

text \<open>A run of the broker from one state to another: calls of its methods and changes of the host. The
  executor of a commit may itself do anything that is a run.\<close>

inductive effect_run :: "'s effect_host \<Rightarrow> 's \<times> ecommit \<Rightarrow> 's \<times> ecommit \<Rightarrow> bool" for host where
  start: "effect_run host x x"
| world: "effect_run host x (s, e) \<Longrightarrow> effect_run host x (s', e)"
| enter: "effect_run host x y \<Longrightarrow> effect_run host x (snd (on_snd (ef_enter_containment sha) y))"
| leave: "effect_run host x y \<Longrightarrow> effect_run host x (snd (on_snd (ef_exit_containment sha) y))"
| issue: "effect_run host x y \<Longrightarrow> effect_run host x (snd (ef_issue host op dec y))"
| commit: "effect_run host x y \<Longrightarrow> (\<And>op z. effect_run host z (snd (ex op z))) \<Longrightarrow>
    effect_run host x (snd (ef_commit host ex lid y))"

lemma effect_run_trans: "effect_run host y z \<Longrightarrow> effect_run host x y \<Longrightarrow> effect_run host x z"
  by (induction rule: effect_run.induct) (auto intro: effect_run.intros)

lemma run_adapter:
  assumes "effect_run host x y" "\<And>op z. effect_run host z (snd (ex op z))"
  shows "effect_run host x (snd (ef_consume_for_adapter host ex lid token y))"
  using assms effect_run.commit [OF assms] by (simp add: ef_consume_for_adapter_def)

lemma run_authorized:
  assumes "effect_run host x y" "\<And>op z. effect_run host z (snd (ex op z))"
  shows "effect_run host x (snd (ef_commit_authorized host ex op dec y))"
proof -
  obtain r y' where i: "ef_issue host op dec y = (r, y')" by (metis prod.collapse)
  have y': "effect_run host x y'" using effect_run.issue [OF assms(1), of op dec] i by simp
  show ?thesis
  proof (cases r)
    case (Inl e)
    with i y' show ?thesis by (simp add: ef_commit_authorized_def obind_def)
  next
    case (Inr p)
    with i effect_run.commit [OF y' assms(2)] show ?thesis by (cases p) (simp add: ef_commit_authorized_def obind_def)
  qed
qed

lemma effect_run_steps: "effect_run host x y \<Longrightarrow> esteps (snd x) (snd y)"
proof (induction rule: effect_run.induct)
  case (enter x y sha)
  have "snd (snd (on_snd (ef_enter_containment sha) y)) = snd y \<or> estep (snd y) (snd (snd (on_snd (ef_enter_containment sha) y)))"
    by (cases y) (auto simp: ef_enter_containment_def obind_def intro: estep.contain)
  with enter.IH show ?case by (metis rtranclp.rtrancl_into_rtrancl)
next
  case (leave x y sha)
  have "snd (snd (on_snd (ef_exit_containment sha) y)) = snd y \<or> estep (snd y) (snd (snd (on_snd (ef_exit_containment sha) y)))"
    by (cases y) (auto simp: ef_exit_containment_def obind_def intro: estep.contain)
  with leave.IH show ?case by (metis rtranclp.rtrancl_into_rtrancl)
next
  case (issue x y op dec)
  obtain s e where y: "y = (s, e)" by force
  obtain r s' e' where i: "ef_issue host op dec (s, e) = (r, (s', e'))" by (metis prod.collapse)
  from ef_issue_run [OF i] issue.IH y i show ?case by (auto intro: rtranclp.rtrancl_into_rtrancl)
next
  case (commit x y ex lid)
  obtain s e where y: "y = (s, e)" by force
  obtain r s' e' where c: "ef_commit host ex lid (s, e) = (r, (s', e'))" by (metis prod.collapse)
  have "esteps e e'"
  proof (rule ef_commit_run [OF c])
    fix lease world session now s1 x e2 cr
    assume ck: "commit_checks host lid (s, e) = (Inr (lease, world, session, now), (s1, e))"
      and ex: "ex (le_operation lease) (s1, burn_lease lid lease e) = (x, (s', e2))" and e': "e' = log_commit cr e2"
      and cr: "commit_of cr lease world session now (case r of Inl _ \<Rightarrow> ''FAILED'' | Inr _ \<Rightarrow> ''SUCCEEDED'')"
    from commit_checks_run(2) [OF ck refl] have "estep e (burn_lease lid lease e)"
      by (intro estep.burn) (simp_all add: checked_def)
    moreover have "esteps (burn_lease lid lease e) e2" using commit.IH(2) [of "(s1, burn_lease lid lease e)" "le_operation lease"] ex by simp
    moreover have "estep e2 e'" using cr e' by (simp add: commit_of_def estep.commit)
    ultimately show ?thesis by (meson converse_rtranclp_into_rtranclp rtranclp.rtrancl_into_rtrancl)
  qed simp
  with commit.IH(1) y c show ?case by (auto intro: rtranclp_trans)
qed auto

lemma wf_ecommit_init: "ecommit_init h t ttl = Inr e \<Longrightarrow> wf_ecommit e"
  by (auto simp: ecommit_init_def rbind_eq_Inr wf_ecommit_def split: if_splits)

subsection \<open>One receipt per consumed lease\<close>

definition committed :: "ecommit \<Rightarrow> string multiset" where
  "committed e = mset (map cm_lease_id_sha256 (ec_commits e))"

definition consumed :: "ecommit \<Rightarrow> string multiset" where
  "consumed e = image_mset (\<lambda>k. canonical_sha256 (JStr k)) (mset_set (spent_leases e))"

lemma finite_spent: "finite (spent_leases e)"
  by (rule finite_subset [of _ "fst ` set (ec_leases e)"]) (auto simp: spent_leases_def spent_of_def dest: map_of_SomeD intro: rev_image_eqI)

lemma consumed_burn:
  assumes "map_of (ec_leases e) k = Some l" "\<not> le_consumed l"
  shows "consumed (burn_lease k l e) = add_mset (canonical_sha256 (JStr k)) (consumed e)"
proof -
  have "spent_leases (burn_lease k l e) = insert k (spent_leases e)"
    by (auto simp: spent_leases_def spent_of_def burn_lease_def update_conv' split: if_splits)
  moreover have "k \<notin> spent_leases e" using assms by (simp add: spent_leases_def spent_of_def)
  ultimately show ?thesis using finite_spent [of e] by (simp add: consumed_def)
qed

lemma issue_accounts:
  assumes "wf_ecommit e" "ef_issue host op dec (s, e) = (r, (s', e'))"
  shows "committed e' = committed e" "consumed e' = consumed e"
proof -
  have *: "ec_commits e' = ec_commits e \<and> spent_leases e' = spent_leases e"
  proof (cases "e' = e")
    case False
    with assms(2) obtain cf sha now world session r' where rl: "record_lease op cf sha now world session e = (r', e')"
      unfolding ef_issue_def
      by (auto simp: obind_cases on_fst_eq on_snd_eq simp del: on_pair split: if_splits)
    obtain cid rsha bsha where cf: "cf = (cid, rsha, bsha)" by (metis prod.collapse)
    have "map_of (ec_leases e) (new_lease_id e op rsha world session) = None"
      using fresh_number [OF assms(1) new_lease_numbered] by (simp add: map_of_eq_None_iff)
    with rl show ?thesis
      by (auto simp: cf record_lease_def Let_def spent_leases_def spent_of_def update_conv' split: if_splits)
  qed simp
  then show "committed e' = committed e" "consumed e' = consumed e" by (simp_all add: committed_def consumed_def)
qed

lemma account_trans:
  fixes a b c :: "'a multiset"
  shows "b + x = a + y \<Longrightarrow> c + y = b + z \<Longrightarrow> c + x = a + z"
  by (metis add.assoc add.commute add_right_cancel)

lemma effect_run_accounts:
  "effect_run host x y \<Longrightarrow> wf_ecommit (snd x) \<Longrightarrow> committed (snd y) + consumed (snd x) = committed (snd x) + consumed (snd y)"
proof (induction rule: effect_run.induct)
  case (enter x y sha)
  have "committed (snd (snd (on_snd (ef_enter_containment sha) y))) = committed (snd y)"
      "consumed (snd (snd (on_snd (ef_enter_containment sha) y))) = consumed (snd y)"
    by (cases y; auto simp: ef_enter_containment_def obind_def committed_def consumed_def spent_leases_def spent_of_def)+
  with enter show ?case by simp
next
  case (leave x y sha)
  have "committed (snd (snd (on_snd (ef_exit_containment sha) y))) = committed (snd y)"
      "consumed (snd (snd (on_snd (ef_exit_containment sha) y))) = consumed (snd y)"
    by (cases y; auto simp: ef_exit_containment_def obind_def committed_def consumed_def spent_leases_def spent_of_def)+
  with leave show ?case by simp
next
  case (issue x y op dec)
  obtain s e where y: "y = (s, e)" by force
  obtain r s' e' where i: "ef_issue host op dec (s, e) = (r, (s', e'))" by (metis prod.collapse)
  have "wf_ecommit e" using lease_store.steps_ok [OF effect_run_steps [OF issue.hyps(1)] issue.prems] y by simp
  with issue_accounts [OF this i] issue.IH [OF issue.prems] y i show ?case by simp
next
  case (commit x y ex lid)
  obtain s e where y: "y = (s, e)" by force
  obtain r s' e' where c: "ef_commit host ex lid (s, e) = (r, (s', e'))" by (metis prod.collapse)
  have wf: "wf_ecommit e" using lease_store.steps_ok [OF effect_run_steps [OF commit.hyps(1)] commit.prems] y by simp
  have "committed e' + consumed e = committed e + consumed e'"
  proof (rule ef_commit_run [OF c])
    fix lease world session now s1 x e2 cr
    assume ck: "commit_checks host lid (s, e) = (Inr (lease, world, session, now), (s1, e))"
      and ex: "ex (le_operation lease) (s1, burn_lease lid lease e) = (x, (s', e2))" and e': "e' = log_commit cr e2"
      and cr: "commit_of cr lease world session now (case r of Inl _ \<Rightarrow> ''FAILED'' | Inr _ \<Rightarrow> ''SUCCEEDED'')"
    let ?b = "burn_lease lid lease e"
    from commit_checks_run(2) [OF ck refl] have l: "map_of (ec_leases e) lid = Some lease" "\<not> le_consumed lease" by (simp_all add: checked_def)
    have "wf_ecommit ?b" by (rule wf_estep [OF wf estep.burn [OF l]])
    with commit.IH(2) [of "(s1, ?b)" "le_operation lease"] ex have "committed e2 + consumed ?b = committed ?b + consumed e2" by simp
    moreover have "committed ?b = committed e" by (simp add: committed_def burn_lease_def)
    moreover have "le_lease_id lease = lid" using wf map_of_SomeD [OF l(1)] by (auto simp: wf_ecommit_def wf_lease_def)
    then have "committed e' = add_mset (canonical_sha256 (JStr lid)) (committed e2)" "consumed e' = consumed e2"
      using e' cr by (simp_all add: committed_def consumed_def log_commit_def commit_of_def spent_leases_def spent_of_def)
    ultimately show ?thesis using consumed_burn [OF l] by simp
  qed simp
  then show ?case using account_trans [OF commit.IH(1) [OF commit.prems]] y c by simp
qed auto

end
