(* ===== verification/Effect_Safety.thy ===== *)
theory Effect_Safety
  imports Effect_Properties
begin

section \<open>Effects happen once, under current authority\<close>

text \<open>
  The mediator that commits through leases, on a host whose capabilities are those of the epoch-bound
  broker: at which states an executor can be started, that an authorized effect is carried out, and the
  properties of the effect commit fence.
\<close>

subsection \<open>Issuing and committing\<close>

lemma record_lease_get:
  assumes "record_lease op cf sha now world session e = (Inr (lid, doc), e')"
  shows "\<exists>l. map_of (ec_leases e') lid = Some l \<and> le_operation l = op \<and> le_capability_id l = fst cf \<and> le_runtime_world l = world \<and>
    le_session l = session \<and> le_issued_at_unix l = now \<and> le_expires_at_unix l = now + ec_lease_ttl_seconds e \<and> \<not> le_consumed l \<and> le_lease_id l = lid \<and>
    ec_contained e' = ec_contained e \<and> ec_host_binding_sha256 e' = ec_host_binding_sha256 e"
proof -
  obtain cid rsha bsha where cf: "cf = (cid, rsha, bsha)" by (metis prod.collapse)
  show ?thesis
    using assms unfolding cf record_lease_def Let_def prod.case
    by (elim Pair_inject) (auto simp: update_conv' simp del: new_lease_id_def)
qed

lemma ef_issue_lease:
  assumes "ef_issue host op dec (s, e) = (Inr (lid, doc), (s', e'))"
  shows "\<exists>l. map_of (ec_leases e') lid = Some l \<and> le_operation l = op"
proof -
  from assms obtain cf sha now world session where "record_lease op cf sha now world session e = (Inr (lid, doc), e')"
    unfolding ef_issue_def by (auto simp: obind_cases on_fst_eq on_snd_eq simp del: on_pair split: if_splits)
  from record_lease_get [OF this] show ?thesis by blast
qed

text \<open>A commit consults its executor in at most one state.\<close>

lemma ef_commit_local:
  assumes "commit_checks host lid x = (Inr (lease, world, session, now), (s1, e1))"
    and "ex' (le_operation lease) (s1, burn_lease lid lease e1) = ex (le_operation lease) (s1, burn_lease lid lease e1)"
  shows "ef_commit host ex' lid x = ef_commit host ex lid x"
  using assms by (simp add: ef_commit_def obind_def run_effect_def)

lemma ef_commit_authorized_local:
  "(\<forall>ex'. ef_commit_authorized host ex' op dec (s, e) = ef_commit_authorized host ex op dec (s, e)) \<or>
   (\<exists>s0 e0 lid lease world session now s1. ef_issue host op dec (s, e) = (Inr lid, (s0, e0)) \<and>
      commit_checks host (fst lid) (s0, e0) = (Inr (lease, world, session, now), (s1, e0)) \<and> le_operation lease = op \<and>
      (\<forall>ex'. ex' op (s1, burn_lease (fst lid) lease e0) = ex op (s1, burn_lease (fst lid) lease e0) \<longrightarrow>
         ef_commit_authorized host ex' op dec (s, e) = ef_commit_authorized host ex op dec (s, e)))"
proof -
  obtain r s0 e0 where i: "ef_issue host op dec (s, e) = (r, (s0, e0))" by (metis prod.collapse)
  show ?thesis
  proof (cases r)
    case (Inl err)
    with i show ?thesis by (simp add: ef_commit_authorized_def obind_def)
  next
    case (Inr p)
    obtain lid doc where p: "p = (lid, doc)" by force
    obtain c s1 e1 where c: "commit_checks host lid (s0, e0) = (c, (s1, e1))" by (metis prod.collapse)
    note e1 = commit_checks_run(1) [OF c]
    have run: "ef_commit_authorized host ex' op dec (s, e) = ef_commit host ex' lid (s0, e0)" for ex'
      using i Inr p by (simp add: ef_commit_authorized_def obind_def)
    show ?thesis
    proof (cases c)
      case err: (Inl err)
      then have "ef_commit host ex' lid (s0, e0) = (Inl err, (s1, e1))" for ex' using c by (simp add: ef_commit_refused)
      with run show ?thesis by simp
    next
      case ok: (Inr q)
      obtain lease world session now where q: "q = (lease, world, session, now)" by (metis prod.collapse)
      from ef_issue_lease [OF i [unfolded Inr p]] commit_checks_run(2) [OF c, of lease world session now] ok q
      have op: "le_operation lease = op" by (auto simp: checked_def)
      have ck: "commit_checks host lid (s0, e0) = (Inr (lease, world, session, now), (s1, e0))" using c ok q e1 by simp
      show ?thesis
      proof (intro disjI2 exI conjI allI impI)
        show "ef_issue host op dec (s, e) = (Inr (lid, doc), (s0, e0))" using i Inr p by simp
        show "commit_checks host (fst (lid, doc)) (s0, e0) = (Inr (lease, world, session, now), (s1, e0))" using ck by simp
        show "le_operation lease = op" by (rule op)
        fix ex'
        assume "ex' op (s1, burn_lease (fst (lid, doc)) lease e0) = ex op (s1, burn_lease (fst (lid, doc)) lease e0)"
        then show "ef_commit_authorized host ex' op dec (s, e) = ef_commit_authorized host ex op dec (s, e)"
          unfolding run by (intro ef_commit_local [OF ck]) (simp add: op)
      qed
    qed
  qed
qed

text \<open>The mediator reaches its executor only through a commit, in the state the broker left.\<close>

lemma em_mediate_factor:
  "\<exists>dec y F. \<forall>ex. em_mediate authorize host ex op x = F (ef_commit_authorized host ex op dec y)"
proof -
  obtain s e m where x: "x = ((s, e), m)" by (metis prod.collapse)
  have const: ?thesis if k: "\<And>ex. em_mediate authorize host ex op x = z" for z
    using k by (intro exI [of _ undefined] exI [of _ "fst x"] exI [of _ "\<lambda>_. z"]) simp
  consider err where "ro_validate op = Inl err" | err where "ro_validate op = Inr ()" "ro_normalized_scope op = Inl err"
    | sc where "ro_validate op = Inr ()" "ro_normalized_scope op = Inr sc"
    by (cases "ro_validate op"; cases "ro_normalized_scope op") auto
  then show ?thesis
  proof cases
    case 1
    then show ?thesis by (intro const) (simp add: em_mediate_def)
  next
    case 2
    then show ?thesis by (intro const) (simp add: em_mediate_def)
  next
    case 3
    let ?rq = "mediation_request op (the (map_of OPERATION_TO_CAPABILITY (ro_kind op))) sc"
    obtain a s1 where a: "authorize ?rq s = (a, s1)" by (metis prod.collapse)
    show ?thesis
    proof (cases "m_contained m \<or> (\<exists>err. a = Inl err) \<or> (\<exists>d err. a = Inr d \<and> dreq d ''decision'' = Inl err) \<or>
        (\<exists>d v. a = Inr d \<and> dreq d ''decision'' = Inr v \<and> \<not> py_eq v (JStr ''ALLOW''))")
      case True
      then have "em_mediate authorize host ex op x = em_mediate authorize host undefined op x" for ex
        using 3 a x by (auto simp: em_mediate_def Let_def obind_def)
      then show ?thesis by (rule const)
    next
      case False
      then obtain d v where d: "\<not> m_contained m" "a = Inr d" "dreq d ''decision'' = Inr v" "py_eq v (JStr ''ALLOW'')"
        by (cases a; cases "dreq (projr a) ''decision''") auto
      let ?F = "\<lambda>z. case (fst z, (snd z, m)) of
          (Inl exc, sm') \<Rightarrow> obind (olift (dreq d ''receipt_sha256'')) (\<lambda>receipt_sha.
             on_snd (m_finish op (jstr receipt_sha) ''ALLOW'' ''FAILED''
               (canonical_sha256 (JObj [(''error_type'', JStr (exn_class exc))]))
               [''effect_commit_failed''] (joptstr (dget d ''capability_id'')) (canonical_sha256 (JObj sc)) None)) sm'
        | (Inr observation, sm') \<Rightarrow> obind (olift (dreq d ''receipt_sha256'')) (\<lambda>receipt_sha.
             on_snd (m_finish op (jstr receipt_sha) ''ALLOW'' ''SUCCEEDED'' (ob_result_sha256 observation)
               [''capability_admitted'', ''effect_commit_lease_consumed'', ''host_executor_succeeded'']
               (joptstr (dget d ''capability_id'')) (canonical_sha256 (JObj sc)) None)) sm'"
      have "em_mediate authorize host ex op x = ?F (ef_commit_authorized host ex op d (s1, e))" for ex
        using 3 a d unfolding x by (simp add: em_mediate_def Let_def obind_def [of "on_fst (on_fst (authorize ?rq))"])
      then show ?thesis by (intro exI [of _ d] exI [of _ "(s1, e)"] exI [of _ ?F] allI)
    qed
  qed
qed

subsection \<open>On top of the epoch-bound broker\<close>

text \<open>The broker with the epoch-bound capability broker as its \<open>capability_broker\<close> and the same provider of
  the runtime state; sessions and time come from the rest of the world.\<close>

definition epoch_effect_host ::
  "'w epoch_provider \<Rightarrow> (string \<Rightarrow> ('w, (string \<times> json) list) op) \<Rightarrow> ('w, int) op \<Rightarrow> 'w esystem effect_host" where
  "epoch_effect_host provider sessions clock =
     \<lparr>eh_runtime = on_provider provider, eh_session = (\<lambda>oid. on_provider (sessions oid)),
      eh_capabilities = eb_state_document provider, eh_clock = on_provider clock\<rparr>"

text \<open>What it means that a capability of the epoch-bound broker backs a lease.\<close>

definition backed :: "broker \<Rightarrow> ebroker \<Rightarrow> string \<Rightarrow> trusted_world \<Rightarrow> bool" where
  "backed b eb k world \<longleftrightarrow> (\<exists>st c. map_of (b_states b) k = Some st \<and> st_status st = Active \<and> map_of (eb_bindings eb) k = Some c \<and>
     bc_runtime_epoch c = tw_epoch world \<and> bc_runtime_state_sha256 c = tw_state_sha256 world)"

lemma eb_cap_item_get:
  "dget (eb_cap_item bs (cap_item k st)) ''capability_id'' = JStr k"
  "dget (eb_cap_item bs (cap_item k st)) ''status'' = JStr (status_str (st_status st))"
  "dget (eb_cap_item bs (cap_item k st)) ''epoch_bound'' = JBool (map_of bs k \<noteq> None)"
  "dget (eb_cap_item bs (cap_item k st)) ''runtime_epoch'' = (case map_of bs k of Some c \<Rightarrow> JInt (bc_runtime_epoch c) | None \<Rightarrow> JNull)"
  "dget (eb_cap_item bs (cap_item k st)) ''runtime_state_sha256'' =
     JStr (case map_of bs k of Some c \<Rightarrow> bc_runtime_state_sha256 c | None \<Rightarrow> ZERO_SHA256)"
  by (simp_all add: eb_cap_item_def cap_item_def dget_def dmerge_def Let_def)

lemma py_eq_int: "py_eq (JInt i) (JInt j) \<longleftrightarrow> i = j"
  by (simp add: py_eq_def)

lemma active_in_items:
  "active_in k world (map (\<lambda>(k, st). JObj (eb_cap_item bs (cap_item k st))) caps) =
     Inr (\<exists>st c. map_of caps k = Some st \<and> st_status st = Active \<and> map_of bs k = Some c \<and>
        bc_runtime_epoch c = tw_epoch world \<and> bc_runtime_state_sha256 c = tw_state_sha256 world)"
proof (induction caps)
  case (Cons kst caps)
  obtain j st where kst: "kst = (j, st)" by force
  have "status_str (st_status st) = ''active'' \<longleftrightarrow> st_status st = Active" by (cases "st_status st") simp_all
  with Cons.IH kst show ?case by (simp add: eb_cap_item_get py_eq_text py_eq_int split: option.splits)
qed simp

lemma epoch_capability_active:
  "capability_active (epoch_effect_host provider sessions clock) k world ((b, w), eb) =
    (case ts_from_provider provider w of (Inl _, w') \<Rightarrow> (Inr False, ((b, w'), eb)) | (Inr _, w') \<Rightarrow> (Inr (backed b eb k world), ((b, w'), eb)))"
proof -
  obtain r w' where p: "ts_from_provider provider w = (r, w')" by (metis prod.collapse)
  show ?thesis
  proof (cases r)
    case (Inl err)
    with p show ?thesis
      by (simp add: capability_active_def epoch_effect_host_def eb_state_document_def on_provider_def obind_def)
  next
    case (Inr snap)
    have "active_in k world (map (\<lambda>item. JObj (eb_cap_item (eb_bindings eb) item)) (b_capabilities b)) = Inr (backed b eb k world)"
      using active_in_items [of k world "eb_bindings eb" "sort_key fst (b_states b)"]
      by (simp add: b_capabilities_def comp_def case_prod_unfold map_of_sort_key backed_def)
    with p Inr show ?thesis
      by (simp add: capability_active_def epoch_effect_host_def eb_state_document_def on_provider_def obind_def Let_def dget_or_def)
  qed
qed

lemma capability_backed:
  assumes "capability_active (epoch_effect_host provider sessions clock) k world s = (Inr True, s')"
  shows "\<exists>b w eb. s' = ((b, w), eb) \<and> backed b eb k world"
proof -
  obtain b w eb where s: "s = ((b, w), eb)" by (metis prod.collapse)
  with assms epoch_capability_active [of provider sessions clock k world b w eb] show ?thesis
    by (auto split: prod.splits sum.splits)
qed

text \<open>An authorized effect is carried out: with observations that the host repeats, the executor is started
  on the fresh lease.\<close>

lemma ef_issue_ok:
  assumes op: "ro_validate op = Inr ()" and dec: "decision_fields dec = Inr cf" and open_gate: "\<not> ec_contained e"
    and now: "ef_now host s = (Inr now, s)" and world: "tw_observe host s = (Inr world, s)" "\<not> tw_tainted world"
    and session: "tx_observe host (ro_operation_id op) (ec_host_binding_sha256 e) s = (Inr session, s)" "tx_active session"
    and cap: "capability_active host (fst cf) world s = (Inr True, s)"
  shows "\<exists>lid doc e'. ef_issue host op dec (s, e) = (Inr (lid, doc), (s, e')) \<and>
    (\<exists>sha. record_lease op cf sha now world session e = (Inr (lid, doc), e'))"
proof -
  obtain sc where sc: "ro_normalized_scope op = Inr sc"
    using op by (auto simp: ro_validate_def rbind_eq_Inr split: if_splits)
  obtain r e' where r: "record_lease op cf (canonical_sha256 (JObj sc)) now world session e = (r, e')" by (metis prod.collapse)
  obtain lid doc where "r = Inr (lid, doc)"
    using r by (auto simp: record_lease_def Let_def split: prod.splits)
  moreover have "ef_issue host op dec (s, e) = (r, (s, e'))"
    unfolding ef_issue_def using op dec open_gate now world session cap sc r by (simp add: obind_def)
  ultimately show ?thesis using r by blast
qed

lemma commit_checks_ok:
  assumes lease: "map_of (ec_leases e) lid = Some lease" "\<not> le_consumed lease" "le_issued_at_unix lease \<le> now" "now \<le> le_expires_at_unix lease"
    and open_gate: "\<not> ec_contained e" and now: "ef_now host s = (Inr now, s)"
    and world: "tw_observe host s = (Inr world, s)" "\<not> tw_tainted world" "le_runtime_world lease = world"
    and session: "tx_observe host (ro_operation_id (le_operation lease)) (ec_host_binding_sha256 e) s = (Inr session, s)"
      "tx_active session" "le_session lease = session"
    and cap: "capability_active host (le_capability_id lease) world s = (Inr True, s)"
  shows "commit_checks host lid (s, e) = (Inr (lease, world, session, now), (s, e))"
  unfolding commit_checks_def using assms by (simp add: obind_def)

lemma authorized_effect_runs:
  assumes wf: "wf_ecommit e" and op: "ro_validate op = Inr ()" and dec: "decision_fields dec = Inr cf" and gate: "\<not> ec_contained e"
    and now: "ef_now host s = (Inr now, s)" and world: "tw_observe host s = (Inr world, s)" "\<not> tw_tainted world"
    and session: "tx_observe host (ro_operation_id op) (ec_host_binding_sha256 e) s = (Inr session, s)" "tx_active session"
    and cap: "capability_active host (fst cf) world s = (Inr True, s)"
    and ex: "\<And>e'. \<exists>e2. ex op (s, e') = (Inr (Some ob), (s', e2))" and ob: "ob_validate ob = Inr ()"
  shows "\<exists>lid lease e1 e2 cr. map_of (ec_leases e1) lid = Some lease \<and> le_operation lease = op \<and> lid \<notin> issued_leases e \<and> le_lease_id lease = lid \<and>
    ex op (s, burn_lease lid lease e1) = (Inr (Some ob), (s', e2)) \<and> commit_of cr lease world session now ''SUCCEEDED'' \<and>
    ef_commit_authorized host ex op dec (s, e) = (Inr ob, (s', log_commit cr e2))"
proof -
  from ef_issue_ok [OF op dec gate now world session cap] obtain lid doc e1 sha where
    i: "ef_issue host op dec (s, e) = (Inr (lid, doc), (s, e1))" and rl: "record_lease op cf sha now world session e = (Inr (lid, doc), e1)" by blast
  from record_lease_get [OF rl] obtain l where l: "map_of (ec_leases e1) lid = Some l" "le_operation l = op" "le_capability_id l = fst cf"
      "le_runtime_world l = world" "le_session l = session" "le_issued_at_unix l = now" "le_expires_at_unix l = now + ec_lease_ttl_seconds e"
      "\<not> le_consumed l" and id: "le_lease_id l = lid" and e1: "ec_contained e1 = ec_contained e" "ec_host_binding_sha256 e1 = ec_host_binding_sha256 e" by blast
  have ttl: "1 \<le> ec_lease_ttl_seconds e" using wf by (simp add: wf_ecommit_def)
  have ck: "commit_checks host lid (s, e1) = (Inr (l, world, session, now), (s, e1))"
    by (rule commit_checks_ok) (use l e1 gate now world session cap ttl in simp_all)
  have "numbered (length (ec_leases e) + 1) lid"
    using rl new_lease_numbered [of e op "fst (snd cf)" world session] by (auto simp: record_lease_def Let_def split: prod.splits)
  from fresh_number [OF wf this] have fresh: "lid \<notin> issued_leases e" by (simp add: issued_leases_def keys_of_def)
  obtain e2 where e2: "ex op (s, burn_lease lid l e1) = (Inr (Some ob), (s', e2))" using ex by blast
  have sha: "is_sha256 (ob_result_sha256 ob)" using ob by (simp add: ob_validate_def med_sha_def split: if_splits)
  let ?rs = "[''runtime_world_rechecked'', ''execution_session_rechecked'', ''source_capability_active'', ''lease_consumed'',
      ''effect_committed_under_fence'']"
  obtain cr where cr: "append_commit l world session now ''SUCCEEDED'' (ob_result_sha256 ob) ?rs e2 = (Inr (), log_commit cr e2)"
      "commit_of cr l world session now ''SUCCEEDED''"
    using append_commit_run [OF sha] by blast
  have "ef_commit host ex lid (s, e1) = (Inr ob, (s', log_commit cr e2))"
    using ck e2 ob cr(1) l(2) by (simp add: ef_commit_def obind_def run_effect_def)
  then have "ef_commit_authorized host ex op dec (s, e) = (Inr ob, (s', log_commit cr e2))"
    using i by (simp add: ef_commit_authorized_def obind_def)
  with l(1,2) fresh id e2 cr(2) show ?thesis by blast
qed

subsection \<open>A concrete fence\<close>

definition demo_session_doc :: "string \<Rightarrow> (string \<times> json) list" where
  "demo_session_doc oid = projr (build_session_document oid ZERO_SHA256 ZERO_SHA256 True)"

definition demo_effect_host :: "unit effect_host" where
  "demo_effect_host = \<lparr>eh_runtime = demo_provider, eh_session = (\<lambda>oid. oret (demo_session_doc oid)),
     eh_capabilities = oret [(''capabilities'', JList [JObj [(''capability_id'', JStr ''cap:demo''), (''status'', JStr ''active''),
       (''epoch_bound'', JBool True), (''runtime_epoch'', JInt 0), (''runtime_state_sha256'', JStr ZERO_SHA256)]])],
     eh_clock = oret 50\<rparr>"

definition demo_ecommit :: ecommit where
  "demo_ecommit = \<lparr>ec_host_binding_sha256 = ZERO_SHA256, ec_adapter_token_sha256 = ZERO_SHA256, ec_lease_ttl_seconds = 10,
     ec_leases = [], ec_authorizations = [], ec_commits = [], ec_contained = False\<rparr>"

definition demo_effect_op :: runtime_operation where
  "demo_effect_op = \<lparr>ro_operation_id = ''op:1'', ro_subject_id = ''agent:a'', ro_policy_sha256 = ZERO_SHA256,
     ro_kind = ''process.spawn_child'', ro_scope = [(''max_children'', JInt 1)], ro_payload_sha256 = ZERO_SHA256,
     ro_at_unix = 30, ro_privilege_level_before = 0, ro_privilege_level_after = 1\<rparr>"

definition demo_allow :: "(string \<times> json) list" where
  "demo_allow = [(''decision'', JStr ''ALLOW''), (''capability_id'', JStr ''cap:demo''), (''receipt_sha256'', JStr ZERO_SHA256),
     (''bound_contract_sha256'', JStr (replicate 64 CHR ''1''))]"

definition demo_world :: trusted_world where
  "demo_world = \<lparr>tw_epoch = 0, tw_state_sha256 = ZERO_SHA256, tw_tainted = False,
     tw_snapshot_sha256 = canonical_sha256 (JObj [(''epoch'', JInt 0), (''state_sha256'', JStr ZERO_SHA256), (''tainted'', JBool False)])\<rparr>"

definition demo_trusted_session :: trusted_session where
  "demo_trusted_session = (let op = canonical_sha256 (JStr ''op:1'') in
     \<lparr>tx_operation_id_sha256 = op, tx_session_sha256 = ZERO_SHA256, tx_host_binding_sha256 = ZERO_SHA256, tx_active = True,
      tx_evidence_sha256 = canonical_sha256 (JObj (session_body op ZERO_SHA256 ZERO_SHA256 True))\<rparr>)"

definition demo_effect :: "runtime_operation \<Rightarrow> (unit \<times> ecommit, observation option) op" where
  "demo_effect op = oret (Some (ob_success []))"

lemma demo_init: "ecommit_init ZERO_SHA256 ZERO_SHA256 10 = Inr demo_ecommit"
  by (simp add: ecommit_init_def MAX_LEASE_TTL_SECONDS_def demo_ecommit_def)

lemma demo_observations:
  "ef_now demo_effect_host () = (Inr 50, ())" "tw_observe demo_effect_host () = (Inr demo_world, ())" "\<not> tw_tainted demo_world"
  "tx_observe demo_effect_host ''op:1'' ZERO_SHA256 () = (Inr demo_trusted_session, ())" "tx_active demo_trusted_session"
  "capability_active demo_effect_host ''cap:demo'' demo_world () = (Inr True, ())"
  "decision_fields demo_allow = Inr (''cap:demo'', ZERO_SHA256, replicate 64 CHR ''1'')"
proof -
  show "tx_observe demo_effect_host ''op:1'' ZERO_SHA256 () = (Inr demo_trusted_session, ())"
    by (simp add: tx_observe_def demo_effect_host_def demo_session_doc_def build_session_document_def session_body_def Let_def
        tx_of_document_def dget_def same_keys_def dkeys_def py_eq_text demo_trusted_session_def insert_commute)
  show "decision_fields demo_allow = Inr (''cap:demo'', ZERO_SHA256, replicate 64 CHR ''1'')"
    by (simp add: decision_fields_def demo_allow_def dget_def dget_or_def py_eq_text) code_simp
qed (simp_all add: ef_now_def demo_effect_host_def tw_observe_def obind_def demo_provider_def tw_of_document_def dget_or_def dget_def
    demo_world_def demo_trusted_session_def Let_def capability_active_def py_eq_text py_eq_int json_int_def)

lemma demo_effect_op_ok: "ro_validate demo_effect_op = Inr ()"
  by code_simp

lemma demo_effect_runs:
  "\<exists>lid lease e1 e2 cr. map_of (ec_leases e1) lid = Some lease \<and> le_operation lease = demo_effect_op \<and> lid \<notin> issued_leases demo_ecommit \<and> le_lease_id lease = lid \<and>
     demo_effect demo_effect_op ((), burn_lease lid lease e1) = (Inr (Some (ob_success [])), ((), e2)) \<and>
     commit_of cr lease demo_world demo_trusted_session 50 ''SUCCEEDED'' \<and>
     ef_commit_authorized demo_effect_host demo_effect demo_effect_op demo_allow ((), demo_ecommit) = (Inr (ob_success []), ((), log_commit cr e2))"
proof (rule authorized_effect_runs [OF wf_ecommit_init [OF demo_init] demo_effect_op_ok demo_observations(7) _ demo_observations(1-3)])
  show "tx_observe demo_effect_host (ro_operation_id demo_effect_op) (ec_host_binding_sha256 demo_ecommit) () = (Inr demo_trusted_session, ())"
    using demo_observations(4) by (simp add: demo_effect_op_def demo_ecommit_def)
qed (use demo_observations in \<open>simp_all add: demo_ecommit_def demo_effect_def ob_validate_def ob_success_def med_sha_def\<close>)

lemma demo_lease:
  "\<exists>lid l e. effect_run demo_effect_host ((), demo_ecommit) ((), e) \<and>
     commit_checks demo_effect_host lid ((), e) = (Inr (l, demo_world, demo_trusted_session, 50), ((), e))"
proof -
  obtain lid doc e1 sha where i: "ef_issue demo_effect_host demo_effect_op demo_allow ((), demo_ecommit) = (Inr (lid, doc), ((), e1))"
      and rl: "record_lease demo_effect_op (''cap:demo'', ZERO_SHA256, replicate 64 CHR ''1'') sha 50 demo_world demo_trusted_session demo_ecommit =
        (Inr (lid, doc), e1)"
    using ef_issue_ok [OF demo_effect_op_ok demo_observations(7) _ demo_observations(1-3), of demo_ecommit demo_trusted_session] demo_observations
    by (auto simp: demo_ecommit_def demo_effect_op_def)
  have run: "effect_run demo_effect_host ((), demo_ecommit) ((), e1)"
    using effect_run.issue [OF effect_run.start, where op = demo_effect_op and dec = demo_allow and x = "((), demo_ecommit)" and host = demo_effect_host] i by simp
  from record_lease_get [OF rl] obtain l where l: "map_of (ec_leases e1) lid = Some l" "le_operation l = demo_effect_op"
      "le_capability_id l = ''cap:demo''" "le_runtime_world l = demo_world" "le_session l = demo_trusted_session"
      "le_issued_at_unix l = 50" "le_expires_at_unix l = 60" "\<not> le_consumed l" "\<not> ec_contained e1" "ec_host_binding_sha256 e1 = ZERO_SHA256"
    by (auto simp: demo_ecommit_def)
  have "commit_checks demo_effect_host lid ((), e1) = (Inr (l, demo_world, demo_trusted_session, 50), ((), e1))"
    by (rule commit_checks_ok) (use l demo_observations in \<open>simp_all add: demo_effect_op_def\<close>)
  with run show ?thesis by blast
qed

lemma cm_verified: "cm_receipt_sha256 cr = canonical_sha256 (JObj (cm_body cr)) \<Longrightarrow> verify_commit_receipt (cm_as_document cr) = Inr (cm_as_document cr)"
  by (simp add: verify_commit_receipt_def cm_as_document_def cm_body_def dget_def dpop_def py_eq_text py_eq_def [of EFFECT_AUTHORITY] Let_def)

lemma ar_verified: "ar_receipt_sha256 ar = canonical_sha256 (JObj (ar_body ar)) \<Longrightarrow> verify_authorization_receipt (ar_as_document ar) = Inr (ar_as_document ar)"
  by (simp add: verify_authorization_receipt_def ar_as_document_def ar_body_def dget_def dpop_def py_eq_text py_eq_def [of EFFECT_AUTHORITY] Let_def)

subsection \<open>Properties of the effect commit fence\<close>





text \<open>C26: In every run the commit receipts account exactly for the consumed leases, one receipt for each; all
  receipts are accepted by the verifiers, and no lease lives longer than the configured time, at most
  30 seconds.\<close>

theorem commit_receipts_account:
  assumes "ecommit_init host_sha token_sha ttl = Inr e0" "effect_run host (s0, e0) (s, e)"
  shows "mset (map cm_lease_id_sha256 (ec_commits e)) = image_mset (\<lambda>k. canonical_sha256 (JStr k)) (mset_set (spent_leases e)) \<and>
    (\<forall>doc \<in> set (ef_commit_receipts e). verify_commit_receipt doc = Inr doc) \<and>
    (\<forall>doc \<in> set (ef_authorization_receipts e). verify_authorization_receipt doc = Inr doc) \<and>
    (\<forall>k l. map_of (ec_leases e) k = Some l \<longrightarrow>
       le_issued_at_unix l < le_expires_at_unix l \<and> le_expires_at_unix l \<le> le_issued_at_unix l + MAX_LEASE_TTL_SECONDS)"
proof -
  note run = effect_run_steps [OF assms(2)]
  have wf: "wf_ecommit e" using lease_store.steps_ok [OF run] wf_ecommit_init [OF assms(1)] by simp
  have "committed e0 = {#}" "consumed e0 = {#}"
    using assms(1) by (auto simp: ecommit_init_def rbind_eq_Inr committed_def consumed_def spent_leases_def spent_of_def split: if_splits)
  with effect_run_accounts [OF assms(2)] wf_ecommit_init [OF assms(1)] have "committed e = consumed e" by simp
  moreover have "le_issued_at_unix l < le_expires_at_unix l \<and> le_expires_at_unix l \<le> le_issued_at_unix l + MAX_LEASE_TTL_SECONDS"
    if "map_of (ec_leases e) k = Some l" for k l
    using wf map_of_SomeD [OF that] by (force simp: wf_ecommit_def wf_lease_def)
  ultimately show ?thesis using wf cm_verified ar_verified by (auto simp: committed_def consumed_def wf_ecommit_def ef_commit_receipts_def ef_authorization_receipts_def)
qed

theorem commit_receipts_account_witness:
  "\<exists>e. effect_run demo_effect_host ((), demo_ecommit) ((), e) \<and>
     (\<forall>doc \<in> set (ef_authorization_receipts e). verify_authorization_receipt doc = Inr doc)"
proof -
  from demo_lease obtain e where "effect_run demo_effect_host ((), demo_ecommit) ((), e)" by blast
  with commit_receipts_account [OF demo_init this] show ?thesis by blast
qed


definition demo_epoch_host :: "unit esystem effect_host" where
  "demo_epoch_host = epoch_effect_host demo_provider (\<lambda>oid. oret (demo_session_doc oid)) (oret 50)"

definition demo_epoch_state :: "(unit esystem \<times> ecommit) \<times> mediator" where
  "demo_epoch_state = ((((demo_broker, ()), demo_ebroker), demo_ecommit), mediator_init)"


text \<open>C27: An authorized effect is carried out: for a valid operation, an ALLOW bound to an epoch, an open gate and
  a host that repeats its observations (an untainted world, an active session, an active capability), a
  fresh lease is issued, consumed and recorded, and the call returns the executor's observation.\<close>

theorem authorized_effect_commits:
  assumes "ecommit_init host_sha token_sha ttl = Inr e0" "effect_run host (s0, e0) (s, e)" "\<not> ec_contained e"
    and "ro_validate op = Inr ()" "decision_fields dec = Inr cf" "ef_now host s = (Inr now, s)"
    and "tw_observe host s = (Inr world, s)" "\<not> tw_tainted world"
    and "tx_observe host (ro_operation_id op) (ec_host_binding_sha256 e) s = (Inr session, s)" "tx_active session"
    and "capability_active host (fst cf) world s = (Inr True, s)"
    and "\<And>e'. ex op (s, e') = (Inr (Some ob), (s', e'))" "ob_validate ob = Inr ()"
  shows "\<exists>lid e'. ef_commit_authorized host ex op dec (s, e) = (Inr ob, (s', e')) \<and> lid \<notin> issued_leases e \<and> lid \<in> spent_leases e' \<and>
    (\<exists>cr. last (ec_commits e') = cr \<and> cm_lease_id_sha256 cr = canonical_sha256 (JStr lid) \<and> cm_effect_outcome cr = ''SUCCEEDED'' \<and>
       cm_operation_id cr = ro_operation_id op \<and> cm_runtime_epoch cr = tw_epoch world \<and> cm_runtime_state_sha256 cr = tw_state_sha256 world)"
proof -
  have wf: "wf_ecommit e"
    using lease_store.steps_ok [OF effect_run_steps [OF assms(2)]] wf_ecommit_init [OF assms(1)] by simp
  obtain lid lease e1 e2 cr where l: "map_of (ec_leases e1) lid = Some lease" "le_operation lease = op" "lid \<notin> issued_leases e" "le_lease_id lease = lid"
      and x: "ex op (s, burn_lease lid lease e1) = (Inr (Some ob), (s', e2))"
      and cr: "commit_of cr lease world session now ''SUCCEEDED''"
      and run: "ef_commit_authorized host ex op dec (s, e) = (Inr ob, (s', log_commit cr e2))"
    using authorized_effect_runs [OF wf assms(4,5,3,6-11) _ assms(13), of ex s'] assms(12) by blast
  have "e2 = burn_lease lid lease e1" using x assms(12) by simp
  then have "lid \<in> spent_leases (log_commit cr e2)" by (simp add: spent_leases_def spent_of_def log_commit_def burn_lease_def update_conv')
  with run l cr show ?thesis by (intro exI [of _ lid] exI [of _ "log_commit cr e2"]) (simp add: log_commit_def commit_of_def)
qed

theorem authorized_effect_commits_witness:
  "\<exists>e'. ef_commit_authorized demo_effect_host demo_effect demo_effect_op demo_allow ((), demo_ecommit) = (Inr (ob_success []), ((), e'))"
proof -
  have "tx_observe demo_effect_host (ro_operation_id demo_effect_op) (ec_host_binding_sha256 demo_ecommit) () = (Inr demo_trusted_session, ())"
    using demo_observations(4) by (simp add: demo_effect_op_def demo_ecommit_def)
  from authorized_effect_commits [OF demo_init effect_run.start _ demo_effect_op_ok demo_observations(7) demo_observations(1-3) this demo_observations(5),
      of demo_effect "ob_success []" "()"] demo_observations(6)
  show ?thesis by (force simp: demo_ecommit_def demo_effect_def ob_validate_def ob_success_def med_sha_def)
qed

end
