(* ===== verification/Multi_Agent.thy ===== *)
theory Multi_Agent
  imports Causal_Escalation
begin

section \<open>Multi-agent delegation\<close>

text \<open>
  Model of src/sdk/liminal_multi_agent: grants, their delegation, use and revocation by subtree. The
  documents are not checked field by field in the code, so the fields of a grant are values of any type
  and the comparisons raise what Python raises. A key of a dictionary is kept in its normal form
  (\<open>py_norm\<close>), because keys that compare equal are one key; a list or a dictionary is no key.
\<close>

subsection \<open>Values of any type\<close>

abbreviation MultiAgentError :: "string \<Rightarrow> exn" where
  "MultiAgentError msg \<equiv> Exn ''MultiAgentError'' msg"

fun py_hash :: "json \<Rightarrow> json res" where
  "py_hash (JList xs) = Inl (Exn ''TypeError'' ''unhashable type'')"
| "py_hash (JObj d) = Inl (Exn ''TypeError'' ''unhashable type'')"
| "py_hash v = Inr (py_norm v)"

fun py_num :: "json \<Rightarrow> int res" where
  "py_num (JInt i) = Inr i"
| "py_num (JBool b) = Inr (if b then 1 else 0)"
| "py_num v = Inl (Exn ''TypeError'' ''comparison not supported'')"

text \<open>\<open>a < b\<close>: numbers, texts, and lists element by element.\<close>

fun py_lt :: "json \<Rightarrow> json \<Rightarrow> bool res" where
  "py_lt (JStr s) (JStr t) = Inr (s < t)"
| "py_lt (JList []) (JList ys) = Inr (ys \<noteq> [])"
| "py_lt (JList (x # xs)) (JList []) = Inr False"
| "py_lt (JList (x # xs)) (JList (y # ys)) = (if py_eq x y then py_lt (JList xs) (JList ys) else py_lt x y)"
| "py_lt a b = rbind (py_num a) (\<lambda>i. rbind (py_num b) (\<lambda>j. Inr (i < j)))"

text \<open>\<open>dict(v)\<close> with keys of any type.\<close>

fun value_pair :: "json \<Rightarrow> (json \<times> json) res" where
  "value_pair (JList [k, v]) = Inr (k, v)"
| "value_pair (JStr s) =
     (if py_len s = 2 then (let n = 1 + length (takeWhile (\<lambda>c. CHR 0x80 \<le> c \<and> c \<le> CHR 0xBF) (tl s)) in Inr (JStr (take n s), JStr (drop n s)))
      else Inl (Exn ''ValueError'' ''dictionary update sequence element has wrong length''))"
| "value_pair (JObj [(k, _), (v, _)]) = Inr (JStr k, JStr v)"
| "value_pair (JList xs) = Inl (Exn ''ValueError'' ''dictionary update sequence element has wrong length'')"
| "value_pair (JObj d) = Inl (Exn ''ValueError'' ''dictionary update sequence element has wrong length'')"
| "value_pair v = Inl (Exn ''TypeError'' ''cannot convert dictionary update sequence element to a sequence'')"

fun value_dict :: "json \<Rightarrow> (json \<times> json) list res" where
  "value_dict (JObj d) = Inr (map (\<lambda>(k, v). (JStr k, v)) d)"
| "value_dict (JList xs) =
     rbind (rmap (\<lambda>x. rbind (value_pair x) (\<lambda>(k, v). rbind (py_hash k) (\<lambda>h. Inr (h, v)))) xs) (\<lambda>ps.
       Inr (fold (\<lambda>(k, v). AList.update k v) ps []))"
| "value_dict (JStr s) =
     (if s = [] then Inr [] else Inl (Exn ''ValueError'' ''dictionary update sequence element has wrong length''))"
| "value_dict v = Inl (Exn ''TypeError'' ''object is not iterable'')"

text \<open>\<open>sorted\<close> of a set of keys: texts or numbers, or a single element; a comparison of other keys raises.\<close>

fun is_text :: "json \<Rightarrow> bool" where
  "is_text (JStr s) = True"
| "is_text v = False"

definition sorted_keys :: "json list \<Rightarrow> json list res" where
  "sorted_keys ks =
     (if length ks \<le> 1 then Inr ks
      else if list_all is_text ks then Inr (sort_key (\<lambda>k. case k of JStr s \<Rightarrow> s | _ \<Rightarrow> []) ks)
      else rbind (rmap py_num ks) (\<lambda>_. Inr (sort_key (\<lambda>k. projr (py_num k)) ks)))"

subsection \<open>Data\<close>

definition MULTI_AGENT_SCHEMA :: string where
  "MULTI_AGENT_SCHEMA = ''liminal-multi-agent-governance-v0.1''"

definition MULTI_AGENT_AUTHORITY :: json where
  "MULTI_AGENT_AUTHORITY = JObj
     [(''mode'', JStr ''delegation_governance_only''), (''autonomous_agent_spawn'', JBool False), (''execution'', JBool False),
      (''credential_access'', JBool False), (''deployment'', JBool False), (''payments'', JBool False),
      (''automatic_release'', JBool False)]"

record grant =
  g_capability_id :: json
  g_subject_id :: json
  g_capability_type :: json
  g_scope :: "(json \<times> json) list"
  g_issued_at_unix :: json
  g_expires_at_unix :: json
  g_max_uses :: json
  g_parent_capability_id :: json
  g_policy_sha256 :: json
  g_status :: string
  g_use_count :: int

record delegation_receipt =
  dl_parent_capability_id :: json
  dl_child_capability_id :: json
  dl_parent_subject_id :: json
  dl_child_subject_id :: json
  dl_policy_sha256 :: json
  dl_decision :: string
  dl_reason_codes :: "string list"
  dl_receipt_sha256 :: string

definition dl_body :: "delegation_receipt \<Rightarrow> (string \<times> json) list" where
  "dl_body r =
     [(''schema'', JStr MULTI_AGENT_SCHEMA), (''parent_capability_id'', dl_parent_capability_id r),
      (''child_capability_id'', dl_child_capability_id r), (''parent_subject_id'', dl_parent_subject_id r),
      (''child_subject_id'', dl_child_subject_id r), (''policy_sha256'', dl_policy_sha256 r),
      (''decision'', JStr (dl_decision r)), (''reason_codes'', JList (map JStr (dl_reason_codes r))),
      (''authority'', MULTI_AGENT_AUTHORITY)]"

definition dl_as_document :: "delegation_receipt \<Rightarrow> (string \<times> json) list" where
  "dl_as_document r = dl_body r @ [(''receipt_sha256'', JStr (dl_receipt_sha256 r))]"

record governance =
  ma_grants :: "(json \<times> grant) list"
  ma_children :: "(json \<times> json list) list"
  ma_receipts :: "delegation_receipt list"

definition governance_init :: governance where
  "governance_init = \<lparr>ma_grants = [], ma_children = [], ma_receipts = []\<rparr>"

subsection \<open>Parsing and scopes\<close>

definition ma_parse :: "(string \<times> json) list \<Rightarrow> grant res" where
  "ma_parse d =
     (if \<not> same_keys d [''capability_id'', ''subject_id'', ''capability_type'', ''scope'', ''issued_at_unix'', ''expires_at_unix'',
              ''max_uses'', ''parent_capability_id'', ''policy_sha256'']
      then Inl (MultiAgentError ''grant schema mismatch'')
      else rbind (value_dict (dget d ''scope'')) (\<lambda>scope.
        Inr \<lparr>g_capability_id = dget d ''capability_id'', g_subject_id = dget d ''subject_id'',
             g_capability_type = dget d ''capability_type'', g_scope = scope, g_issued_at_unix = dget d ''issued_at_unix'',
             g_expires_at_unix = dget d ''expires_at_unix'', g_max_uses = dget d ''max_uses'',
             g_parent_capability_id = dget d ''parent_capability_id'', g_policy_sha256 = dget d ''policy_sha256'',
             g_status = ''active'', g_use_count = 0\<rparr>))"

definition value_within :: "json \<Rightarrow> json \<Rightarrow> bool res" where
  "value_within v pv =
     (case v of
        JList vs \<Rightarrow> (case pv of
            JList ps \<Rightarrow> rbind (rmap py_hash vs) (\<lambda>hv. rbind (rmap py_hash ps) (\<lambda>hp. Inr (set hv \<subseteq> set hp)))
          | _ \<Rightarrow> Inr False)
      | _ \<Rightarrow> Inr (py_eq v pv))"

fun ma_scope_contains :: "(json \<times> json) list \<Rightarrow> (json \<times> json) list \<Rightarrow> bool res" where
  "ma_scope_contains parent [] = Inr True"
| "ma_scope_contains parent ((k, v) # items) =
     (case map_of parent k of
        None \<Rightarrow> Inr False
      | Some pv \<Rightarrow> rbind (value_within v pv) (\<lambda>ok. if ok then ma_scope_contains parent items else Inr False))"

definition in_window :: "grant \<Rightarrow> int \<Rightarrow> bool res" where
  "in_window g at_unix =
     rbind (py_num (g_issued_at_unix g)) (\<lambda>i.
       if \<not> i \<le> at_unix then Inr False else rbind (py_num (g_expires_at_unix g)) (\<lambda>x. Inr (at_unix < x)))"

subsection \<open>The delegation tree\<close>

definition children_of :: "(json \<times> json list) list \<Rightarrow> json \<Rightarrow> json list" where
  "children_of children k = (case map_of children (py_norm k) of None \<Rightarrow> [] | Some ks \<Rightarrow> ks)"

text \<open>The loop of \<open>_descendants\<close>; the top of the stack is the head of the list, so extending it by the keys
  in descending order puts the least one on top.\<close>

function descend :: "(json \<times> json list) list \<Rightarrow> json list \<Rightarrow> json set \<Rightarrow> json list \<Rightarrow> json list res" where
  "descend children [] seen out = Inr out"
| "descend children (cur # stack) seen out =
     (if py_norm cur \<in> seen then Inl (MultiAgentError ''delegation cycle detected'')
      else (case sorted_keys (children_of children cur) of
          Inl e \<Rightarrow> Inl e
        | Inr ks \<Rightarrow> descend children (ks @ stack) (insert (py_norm cur) seen) (out @ [cur])))"
  by pat_completeness auto
termination
proof (relation "measures [\<lambda>(children, stack, seen, out). card (fst ` set children - seen), \<lambda>(children, stack, seen, out). length stack]")
  fix children :: "(json \<times> json list) list" and cur stack seen out ks
  assume fresh: "py_norm cur \<notin> seen" and ks: "sorted_keys (children_of children cur) = Inr ks"
  show "((children, ks @ stack, insert (py_norm cur) seen, out @ [cur]), children, cur # stack, seen, out)
    \<in> measures [\<lambda>(children, stack, seen, out). card (fst ` set children - seen), \<lambda>(children, stack, seen, out). length stack]"
  proof (cases "py_norm cur \<in> fst ` set children")
    case True
    with fresh have "fst ` set children - insert (py_norm cur) seen \<subset> fst ` set children - seen" by auto
    then have "card (fst ` set children - insert (py_norm cur) seen) < card (fst ` set children - seen)"
      by (intro psubset_card_mono) auto
    then show ?thesis by simp
  next
    case False
    then have "map_of children (py_norm cur) = None" by (simp add: map_of_eq_None_iff)
    with ks have "ks = []" by (simp add: children_of_def sorted_keys_def)
    moreover from False have "fst ` set children - insert (py_norm cur) seen = fst ` set children - seen" by auto
    ultimately show ?thesis by simp
  qed
qed simp

definition descendants :: "governance \<Rightarrow> json \<Rightarrow> json list res" where
  "descendants g root = descend (ma_children g) [root] {} []"

definition would_cycle :: "governance \<Rightarrow> json \<Rightarrow> json \<Rightarrow> bool res" where
  "would_cycle g parent child =
     rbind (py_hash child) (\<lambda>key.
       if map_of (ma_grants g) key = None then Inr False
       else rbind (descendants g child) (\<lambda>ds. Inr (py_norm parent \<in> py_norm ` set ds)))"

subsection \<open>Operations\<close>

definition setdefault_children :: "json \<Rightarrow> (json \<times> json list) list \<Rightarrow> (json \<times> json list) list" where
  "setdefault_children key children = (if map_of children key = None then AList.update key [] children else children)"

definition add_child :: "json \<Rightarrow> json \<Rightarrow> (json \<times> json list) list \<Rightarrow> (json \<times> json list) list" where
  "add_child key child children =
     (let ks = (case map_of children key of None \<Rightarrow> [] | Some ks \<Rightarrow> ks)
      in AList.update key (if py_norm child \<in> py_norm ` set ks then ks else ks @ [child]) children)"

definition ma_admit_root :: "(string \<times> json) list \<Rightarrow> int \<Rightarrow> (governance, (string \<times> json) list) op" where
  "ma_admit_root document at_unix =
     obind (olift (ma_parse document)) (\<lambda>g.
       if g_parent_capability_id g \<noteq> JNull then oraise (MultiAgentError ''root capability must not have a parent'')
       else obind (olift (in_window g at_unix)) (\<lambda>ok.
         if \<not> ok then oraise (MultiAgentError ''root outside validity window'')
         else obind (olift (py_hash (g_capability_id g))) (\<lambda>key.
           obind (omodify (\<lambda>s. s\<lparr>ma_grants := AList.update key g (ma_grants s),
                                ma_children := setdefault_children key (ma_children s)\<rparr>)) (\<lambda>_.
             oret [(''decision'', JStr ''ALLOW''), (''capability_id'', g_capability_id g),
                   (''reason_codes'', JList [JStr ''root_admitted''])]))))"

text \<open>The checks of a delegation that do not look at the tree.\<close>

definition delegation_checks :: "grant \<Rightarrow> grant \<Rightarrow> int \<Rightarrow> unit res" where
  "delegation_checks parent child at_unix =
     (if py_eq (g_capability_id child) (g_capability_id parent) then Inl (MultiAgentError ''self-delegation is forbidden'')
      else if py_eq (g_subject_id child) (g_subject_id parent) then Inl (MultiAgentError ''delegation must cross subjects'')
      else if \<not> py_eq (g_capability_type child) (g_capability_type parent) \<or> \<not> py_eq (g_policy_sha256 child) (g_policy_sha256 parent)
      then Inl (MultiAgentError ''child authority differs from parent'')
      else rbind (py_lt (g_expires_at_unix parent) (g_expires_at_unix child)) (\<lambda>longer.
        rbind (if longer then Inr True else py_lt (g_max_uses parent) (g_max_uses child)) (\<lambda>exceeds.
        if exceeds then Inl (MultiAgentError ''child validity or use bounds exceed parent'')
        else rbind (ma_scope_contains (g_scope parent) (g_scope child)) (\<lambda>inside.
          if \<not> inside then Inl (MultiAgentError ''child scope exceeds parent'')
          else rbind (in_window child at_unix) (\<lambda>ok.
            if \<not> ok then Inl (MultiAgentError ''child outside validity window'') else Inr ())))))"

definition delegation_of :: "grant \<Rightarrow> grant \<Rightarrow> delegation_receipt" where
  "delegation_of parent child =
     (let base = \<lparr>dl_parent_capability_id = g_capability_id parent, dl_child_capability_id = g_capability_id child,
            dl_parent_subject_id = g_subject_id parent, dl_child_subject_id = g_subject_id child,
            dl_policy_sha256 = g_policy_sha256 child, dl_decision = ''ALLOW'',
            dl_reason_codes = [''monotonic_narrowing'', ''delegation_admitted''], dl_receipt_sha256 = []\<rparr>
      in base\<lparr>dl_receipt_sha256 := canonical_sha256 (JObj (dl_body base))\<rparr>)"

definition ma_delegate :: "(string \<times> json) list \<Rightarrow> int \<Rightarrow> (governance, (string \<times> json) list) op" where
  "ma_delegate document at_unix s =
     (case ma_parse document of
        Inl e \<Rightarrow> (Inl e, s)
      | Inr child \<Rightarrow>
          if g_parent_capability_id child = JNull then (Inl (MultiAgentError ''delegated capability requires parent''), s)
          else (case rbind (py_hash (g_parent_capability_id child)) (\<lambda>pk.
                case map_of (ma_grants s) pk of
                  None \<Rightarrow> Inl (MultiAgentError ''delegation parent is not active'')
                | Some parent \<Rightarrow>
                    if g_status parent \<noteq> ''active'' then Inl (MultiAgentError ''delegation parent is not active'')
                    else rbind (delegation_checks parent child at_unix) (\<lambda>_.
                      rbind (would_cycle s (g_capability_id parent) (g_capability_id child)) (\<lambda>cycle.
                      if cycle then Inl (MultiAgentError ''delegation cycle is forbidden'')
                      else rbind (py_hash (g_capability_id child)) (\<lambda>ck. Inr (parent, ck))))) of
              Inl e \<Rightarrow> (Inl e, s)
            | Inr (parent, ck) \<Rightarrow>
                (let item = delegation_of parent child in
                 (Inr (dl_as_document item),
                  s\<lparr>ma_grants := AList.update ck child (ma_grants s),
                    ma_children := setdefault_children ck
                      (add_child (py_norm (g_capability_id parent)) (g_capability_id child) (ma_children s)),
                    ma_receipts := ma_receipts s @ [item]\<rparr>))))"

definition default_deny :: "(string \<times> json) list" where
  "default_deny = [(''decision'', JStr ''BLOCK''), (''reason_codes'', JList [JStr ''default_deny''])]"

text \<open>Whether a known grant refuses a request: the disjunction of \<open>authorize\<close>, from left to right.\<close>

definition grant_refuses :: "grant \<Rightarrow> string \<Rightarrow> (string \<times> json) list \<Rightarrow> int \<Rightarrow> bool res" where
  "grant_refuses g subject_id requested_scope at_unix =
     (if g_status g \<noteq> ''active'' \<or> \<not> py_eq (g_subject_id g) (JStr subject_id) then Inr True
      else rbind (py_num (g_expires_at_unix g)) (\<lambda>x. if at_unix \<ge> x then Inr True
      else rbind (py_num (g_max_uses g)) (\<lambda>n. if g_use_count g \<ge> n then Inr True
      else rbind (ma_scope_contains (g_scope g) (map (\<lambda>(k, v). (JStr k, v)) requested_scope)) (\<lambda>inside. Inr (\<not> inside)))))"

definition ma_authorize :: "string \<Rightarrow> string \<Rightarrow> (string \<times> json) list \<Rightarrow> int \<Rightarrow> (governance, (string \<times> json) list) op" where
  "ma_authorize subject_id capability_id requested_scope at_unix s =
     (case map_of (ma_grants s) (JStr capability_id) of
        None \<Rightarrow> (Inr default_deny, s)
      | Some g \<Rightarrow>
          (case grant_refuses g subject_id requested_scope at_unix of
             Inl e \<Rightarrow> (Inl e, s)
           | Inr True \<Rightarrow> (Inr default_deny, s)
           | Inr False \<Rightarrow>
               (Inr [(''decision'', JStr ''ALLOW''), (''reason_codes'', JList [JStr ''delegated_scope_match''])],
                s\<lparr>ma_grants := AList.update (JStr capability_id) (g\<lparr>g_use_count := g_use_count g + 1\<rparr>) (ma_grants s)\<rparr>)))"

fun revoke_loop :: "json list \<Rightarrow> (string \<times> json) list list \<Rightarrow> (governance, (string \<times> json) list list) op" where
  "revoke_loop [] out s = (Inr out, s)"
| "revoke_loop (cid # cids) out s =
     (case map_of (ma_grants s) (py_norm cid) of
        None \<Rightarrow> (Inl (Exn ''KeyError'' []), s)
      | Some g \<Rightarrow> revoke_loop cids
          (out @ [[(''capability_id'', cid), (''decision'', JStr ''ALLOW''), (''reason_codes'', JList [JStr ''ancestor_revoke''])]])
          (s\<lparr>ma_grants := AList.update (py_norm cid) (g\<lparr>g_status := ''revoked''\<rparr>) (ma_grants s)\<rparr>))"

definition ma_revoke_tree :: "string \<Rightarrow> int \<Rightarrow> (governance, (string \<times> json) list list) op" where
  "ma_revoke_tree capability_id at_unix s =
     (if map_of (ma_grants s) (JStr capability_id) = None then (Inl (MultiAgentError ''unknown capability''), s)
      else case descendants s (JStr capability_id) of
        Inl e \<Rightarrow> (Inl e, s)
      | Inr cids \<Rightarrow> revoke_loop (rev cids) [] s)"

definition analyze_collective :: "trajectory_event list \<Rightarrow> (string \<times> json) list res" where
  "analyze_collective ordered =
     (let subjects = sort (remdups (map te_subject_id ordered)) in
      if length subjects < 2 then Inl (MultiAgentError ''collective analysis requires at least two subjects'')
      else rbind (analyze_trajectory ordered) (\<lambda>phase3.
        let body = [(''schema'', JStr ''liminal-multi-agent-collective-decision-v0.1''), (''subjects'', JList (map JStr subjects)),
              (''event_count'', JInt (int (length ordered))), (''phase3'', JObj phase3), (''authority'', MULTI_AGENT_AUTHORITY)]
        in Inr (body @ [(''receipt_sha256'', JStr (canonical_sha256 (JObj body)))])))"

end
