(* ===== verification/Delegation_Properties.thy ===== *)
theory Delegation_Properties
  imports Multi_Agent "HOL-Library.Multiset"
begin

section \<open>Multi-agent delegation: facts and properties\<close>

text \<open>
  Delegation never widens authority; the walk over the delegation tree ends, visits exactly the
  descendants, and always returns when capability identifiers are not delegated twice.
\<close>

subsection \<open>Scopes narrow\<close>

lemma py_norm_list: "py_norm v = JList ws \<longleftrightarrow> (\<exists>vs. v = JList vs \<and> ws = map py_norm vs)"
  by (cases v) auto

lemma value_within_flat: "(\<And>vs. v \<noteq> JList vs) \<Longrightarrow> value_within v p = Inr True \<longleftrightarrow> py_norm v = py_norm p"
  by (cases v) (auto simp: value_within_def py_eq_def)

lemma value_within_trans:
  assumes "value_within v c = Inr True" "value_within c p = Inr True"
  shows "value_within v p = Inr True"
proof (cases "\<exists>vs. v = JList vs")
  case True
  then obtain vs where v: "v = JList vs" ..
  with assms(1) obtain cs where c: "c = JList cs" by (cases c) (auto simp: value_within_def)
  with assms(2) obtain ps where p: "p = JList ps" by (cases p) (auto simp: value_within_def)
  from assms v c p show ?thesis by (auto simp: value_within_def rbind_eq_Inr)
next
  case False
  with assms(1) have vc: "py_norm v = py_norm c" by (simp add: value_within_flat)
  with False have "\<And>cs. c \<noteq> JList cs" by (metis py_norm_list)
  with assms(2) have "py_norm c = py_norm p" by (simp add: value_within_flat)
  with vc False show ?thesis by (simp add: value_within_flat)
qed

lemma scope_contains_iff:
  "ma_scope_contains parent items = Inr True \<longleftrightarrow>
     (\<forall>(k, v) \<in> set items. \<exists>pv. map_of parent k = Some pv \<and> value_within v pv = Inr True)"
  by (induction parent items rule: ma_scope_contains.induct) (auto simp: rbind_eq_Inr split: option.splits if_splits)

lemma scope_contains_trans:
  assumes "ma_scope_contains parent child = Inr True" "ma_scope_contains child items = Inr True"
  shows "ma_scope_contains parent items = Inr True"
  unfolding scope_contains_iff
proof (clarify)
  fix k v assume "(k, v) \<in> set items"
  with assms(2) obtain cv where c: "map_of child k = Some cv" "value_within v cv = Inr True" by (auto simp: scope_contains_iff)
  from assms(1) map_of_SomeD [OF c(1)] obtain pv where "map_of parent k = Some pv" "value_within cv pv = Inr True"
    by (auto simp: scope_contains_iff)
  with value_within_trans [OF c(2)] show "\<exists>pv. map_of parent k = Some pv \<and> value_within v pv = Inr True" by blast
qed

subsection \<open>The walk over the tree\<close>

definition child_rel :: "(json \<times> json list) list \<Rightarrow> (json \<times> json) set" where
  "child_rel children = {(p, c). \<exists>ks. map_of children p = Some ks \<and> c \<in> py_norm ` set ks}"

lemma child_rel_of: "child_rel children `` {py_norm k} = py_norm ` set (children_of children k)"
  by (cases "map_of children (py_norm k)") (auto simp: child_rel_def children_of_def)

lemma sorted_keys_set: "sorted_keys ks = Inr js \<Longrightarrow> mset js = mset ks"
  by (auto simp: sorted_keys_def rbind_eq_Inr mset_sort split: if_splits)

lemma reach_step: "R\<^sup>* `` insert x B = insert x (R\<^sup>* `` (R `` {x} \<union> B))"
  by (auto simp: Image_iff intro: converse_rtrancl_into_rtrancl elim: converse_rtranclE)

lemma descend_visits:
  "descend children stack seen out = Inr res \<Longrightarrow> \<exists>ds. res = out @ ds \<and> distinct (map py_norm ds) \<and>
     py_norm ` set ds \<inter> seen = {} \<and> py_norm ` set ds = (child_rel children)\<^sup>* `` (py_norm ` set stack)"
proof (induction children stack seen out rule: descend.induct)
  case (2 children cur stack seen out)
  then obtain ks where fresh: "py_norm cur \<notin> seen" and ks: "sorted_keys (children_of children cur) = Inr ks"
    and run: "descend children (ks @ stack) (insert (py_norm cur) seen) (out @ [cur]) = Inr res"
    by (auto split: if_splits sum.splits)
  from "2.IH" [OF fresh ks run] obtain ds where ds: "res = (out @ [cur]) @ ds" "distinct (map py_norm ds)"
      "py_norm ` set ds \<inter> insert (py_norm cur) seen = {}" "py_norm ` set ds = (child_rel children)\<^sup>* `` (py_norm ` set (ks @ stack))" by blast
  have "py_norm ` set ks = child_rel children `` {py_norm cur}"
    using mset_eq_setD [OF sorted_keys_set [OF ks]] child_rel_of by simp
  with ds(4) reach_step [of "child_rel children" "py_norm cur" "py_norm ` set stack"]
  have "py_norm ` set (cur # ds) = (child_rel children)\<^sup>* `` (py_norm ` set (cur # stack))" by (simp add: image_Un)
  moreover have "distinct (map py_norm (cur # ds))" "py_norm ` set (cur # ds) \<inter> seen = {}" using ds(2,3) fresh by auto
  moreover have "res = out @ (cur # ds)" using ds(1) by simp
  ultimately show ?case by blast
qed simp

text \<open>On a forest of texts the walk returns.\<close>

definition forest :: "('a \<times> 'a) set \<Rightarrow> bool" where
  "forest R \<longleftrightarrow> acyclic R \<and> (\<forall>p q c. (p, c) \<in> R \<longrightarrow> (q, c) \<in> R \<longrightarrow> p = q)"

definition apart :: "('a \<times> 'a) set \<Rightarrow> 'a list \<Rightarrow> bool" where
  "apart R xs \<longleftrightarrow> sorted_wrt (\<lambda>x y. R\<^sup>* `` {x} \<inter> R\<^sup>* `` {y} = {}) xs"

lemma forest_above:
  assumes "forest R" "(x, z) \<in> R\<^sup>*" "(y, z) \<in> R\<^sup>*"
  shows "(x, y) \<in> R\<^sup>* \<or> (y, x) \<in> R\<^sup>*"
  using assms(2,3)
proof (induction rule: rtrancl_induct)
  case (step u z)
  from step.prems show ?case
  proof (cases rule: rtranclE)
    case base
    with step.hyps show ?thesis by auto
  next
    case (step v)
    with assms(1) \<open>(u, z) \<in> R\<close> have "v = u" by (auto simp: forest_def)
    with step.IH step show ?thesis by blast
  qed
qed simp

lemma siblings_apart:
  assumes "forest R" "(p, x) \<in> R" "(p, y) \<in> R" "x \<noteq> y"
  shows "R\<^sup>* `` {x} \<inter> R\<^sup>* `` {y} = {}"
proof -
  have no: False if "(p, a) \<in> R" "(p, b) \<in> R" "a \<noteq> b" "(a, b) \<in> R\<^sup>*" for a b
  proof -
    from that(3,4) obtain c where "(a, c) \<in> R\<^sup>*" "(c, b) \<in> R" by (auto elim: rtranclE)
    with assms(1) that(2) have "(a, p) \<in> R\<^sup>*" by (auto simp: forest_def)
    with that(1) have "(p, p) \<in> R\<^sup>+" by simp
    with assms(1) show False by (auto simp: forest_def acyclic_def)
  qed
  from no assms(2-4) forest_above [OF assms(1), of x _ y] show ?thesis by blast
qed

lemma sorted_wrt_distinct: "distinct xs \<Longrightarrow> (\<And>x y. x \<in> set xs \<Longrightarrow> y \<in> set xs \<Longrightarrow> x \<noteq> y \<Longrightarrow> P x y) \<Longrightarrow> sorted_wrt P xs"
  by (induction xs) auto

definition text_tree :: "(json \<times> json list) list \<Rightarrow> bool" where
  "text_tree children \<longleftrightarrow> (\<forall>p ks. map_of children p = Some ks \<longrightarrow> list_all is_text ks \<and> distinct (map py_norm ks))"

lemma children_of_text: "text_tree children \<Longrightarrow> list_all is_text (children_of children k) \<and> distinct (map py_norm (children_of children k))"
  by (auto simp: text_tree_def children_of_def split: option.splits)

lemma text_keys_sorted: "list_all is_text ks \<Longrightarrow> \<exists>js. sorted_keys ks = Inr js"
  by (simp add: sorted_keys_def)

lemma descend_returns:
  assumes "forest (child_rel children)" "text_tree children"
  shows "apart (child_rel children) (map py_norm stack) \<Longrightarrow> (child_rel children)\<^sup>* `` (py_norm ` set stack) \<inter> seen = {} \<Longrightarrow>
    \<exists>res. descend children stack seen out = Inr res"
  using assms
proof (induction children stack seen out rule: descend.induct)
  case (2 children cur stack seen out)
  let ?R = "child_rel children" and ?c = "py_norm cur"
  have fresh: "?c \<notin> seen" using "2.prems"(2) by auto
  note kids = children_of_text [OF "2.prems"(4), of cur]
  then obtain ks where ks: "sorted_keys (children_of children cur) = Inr ks" using text_keys_sorted by blast
  note perm = sorted_keys_set [OF ks]
  have set_ks: "py_norm ` set ks = ?R `` {?c}" using mset_eq_setD [OF perm] child_rel_of by simp
  have "mset (map py_norm ks) = mset (map py_norm (children_of children cur))" using perm by simp
  then have dist: "distinct (map py_norm ks)" using kids by (metis mset_eq_imp_distinct_iff)
  have edge: "(?c, py_norm k) \<in> ?R" if "k \<in> set ks" for k using set_ks that by auto
  have below: "?R\<^sup>* `` {py_norm k} \<subseteq> ?R\<^sup>* `` {?c}" if "k \<in> set ks" for k
    using edge [OF that] by (auto intro: converse_rtrancl_into_rtrancl)
  have off: "?R\<^sup>* `` {?c} \<inter> ?R\<^sup>* `` {py_norm y} = {}" if "y \<in> set stack" for y
    using "2.prems"(1) that by (auto simp: apart_def)
  have "apart ?R (map py_norm ks)"
    unfolding apart_def using dist siblings_apart [OF "2.prems"(3)] set_ks by (intro sorted_wrt_distinct) auto
  moreover have "\<forall>x \<in> set (map py_norm ks). \<forall>y \<in> set (map py_norm stack). ?R\<^sup>* `` {x} \<inter> ?R\<^sup>* `` {y} = {}"
    using below off by fastforce
  ultimately have "apart ?R (map py_norm (ks @ stack))"
    using "2.prems"(1) by (simp add: apart_def sorted_wrt_append)
  moreover have "?R\<^sup>* `` (py_norm ` set (ks @ stack)) \<inter> insert ?c seen = {}"
  proof -
    have "?c \<notin> ?R\<^sup>* `` {py_norm k}" if "k \<in> set ks" for k
      using edge [OF that] "2.prems"(3) by (auto simp: forest_def acyclic_def) (meson rtrancl_into_trancl2)
    moreover have "?c \<notin> ?R\<^sup>* `` {py_norm y}" if "y \<in> set stack" for y using off [OF that] by auto
    moreover have "?R\<^sup>* `` (py_norm ` set (ks @ stack)) \<subseteq> ?R\<^sup>* `` (py_norm ` set (cur # stack))" using below by fastforce
    ultimately show ?thesis using "2.prems"(2) by fastforce
  qed
  ultimately obtain res where "descend children (ks @ stack) (insert ?c seen) (out @ [cur]) = Inr res"
    using "2.IH" [OF fresh ks] "2.prems"(3,4) by blast
  with fresh ks show ?case by simp
qed simp

subsection \<open>Runs\<close>

definition wf_gov :: "governance \<Rightarrow> bool" where
  "wf_gov s \<longleftrightarrow> (\<forall>k g. map_of (ma_grants s) k = Some g \<longrightarrow> py_norm (g_capability_id g) = k) \<and>
     dom (map_of (ma_children s)) = dom (map_of (ma_grants s)) \<and>
     Range (child_rel (ma_children s)) \<subseteq> dom (map_of (ma_grants s))"

text \<open>A run: any calls in any order. In a fresh run a delegation introduces a new identifier, a text.\<close>

inductive gov_reach :: "governance \<Rightarrow> bool" where
  init: "gov_reach governance_init"
| admit: "gov_reach s \<Longrightarrow> gov_reach (snd (ma_admit_root document t s))"
| delegate: "gov_reach s \<Longrightarrow> gov_reach (snd (ma_delegate document t s))"
| authorize: "gov_reach s \<Longrightarrow> gov_reach (snd (ma_authorize subject k scope t s))"
| revoke: "gov_reach s \<Longrightarrow> gov_reach (snd (ma_revoke_tree k t s))"

inductive fresh_reach :: "governance \<Rightarrow> bool" where
  init: "fresh_reach governance_init"
| admit: "fresh_reach s \<Longrightarrow> fresh_reach (snd (ma_admit_root document t s))"
| delegate: "fresh_reach s \<Longrightarrow> dget document ''capability_id'' = JStr c \<Longrightarrow> map_of (ma_grants s) (JStr c) = None \<Longrightarrow>
    fresh_reach (snd (ma_delegate document t s))"
| authorize: "fresh_reach s \<Longrightarrow> fresh_reach (snd (ma_authorize subject k scope t s))"
| revoke: "fresh_reach s \<Longrightarrow> fresh_reach (snd (ma_revoke_tree k t s))"

lemma py_hash_norm: "py_hash v = Inr k \<Longrightarrow> k = py_norm v"
  by (cases v) auto

lemma setdefault_get: "map_of (setdefault_children k cs) = (if map_of cs k = None then (map_of cs)(k \<mapsto> []) else map_of cs)"
  by (simp add: setdefault_children_def update_conv')

lemma child_rel_setdefault [simp]: "child_rel (setdefault_children k cs) = child_rel cs"
  by (auto simp: child_rel_def setdefault_get split: if_splits)

lemma child_rel_add: "child_rel (add_child p c cs) = insert (p, py_norm c) (child_rel cs)"
  by (auto simp: child_rel_def add_child_def Let_def update_conv' split: option.splits if_splits)

lemma dom_children:
  "dom (map_of (setdefault_children k cs)) = insert k (dom (map_of cs))"
  "dom (map_of (add_child k c cs)) = insert k (dom (map_of cs))"
  by (auto simp: setdefault_get add_child_def Let_def update_conv')

lemma admit_root_run:
  obtains "snd (ma_admit_root document t s) = s"
  | g where "snd (ma_admit_root document t s) = s\<lparr>ma_grants := AList.update (py_norm (g_capability_id g)) g (ma_grants s),
      ma_children := setdefault_children (py_norm (g_capability_id g)) (ma_children s)\<rparr>"
proof -
  have "snd (ma_admit_root document t s) = s \<or> (\<exists>g. snd (ma_admit_root document t s) =
      s\<lparr>ma_grants := AList.update (py_norm (g_capability_id g)) g (ma_grants s),
        ma_children := setdefault_children (py_norm (g_capability_id g)) (ma_children s)\<rparr>)"
    unfolding ma_admit_root_def by (auto simp: obind_def split: sum.splits dest!: py_hash_norm)
  with that show thesis by blast
qed

lemma delegate_run:
  assumes "ma_delegate document t s = (Inr doc, s')"
  obtains parent child where "ma_parse document = Inr child" "map_of (ma_grants s) (py_norm (g_parent_capability_id child)) = Some parent"
    "g_status parent = ''active''" "delegation_checks parent child t = Inr ()" "doc = dl_as_document (delegation_of parent child)"
    "s' = s\<lparr>ma_grants := AList.update (py_norm (g_capability_id child)) child (ma_grants s),
        ma_children := setdefault_children (py_norm (g_capability_id child))
          (add_child (py_norm (g_capability_id parent)) (g_capability_id child) (ma_children s)),
        ma_receipts := ma_receipts s @ [delegation_of parent child]\<rparr>"
proof -
  from assms obtain child pk parent ck where c: "ma_parse document = Inr child" "py_hash (g_parent_capability_id child) = Inr pk"
      "map_of (ma_grants s) pk = Some parent" "g_status parent = ''active''" "delegation_checks parent child t = Inr ()"
      "py_hash (g_capability_id child) = Inr ck" "doc = dl_as_document (delegation_of parent child)"
      "s' = s\<lparr>ma_grants := AList.update ck child (ma_grants s),
        ma_children := setdefault_children ck (add_child (py_norm (g_capability_id parent)) (g_capability_id child) (ma_children s)),
        ma_receipts := ma_receipts s @ [delegation_of parent child]\<rparr>"
    unfolding ma_delegate_def by (auto simp: rbind_eq_Inr Let_def split: sum.splits if_splits option.splits)
  with py_hash_norm [OF c(2)] py_hash_norm [OF c(6)] that show thesis by blast
qed

lemma delegate_refused: "ma_delegate document t s = (Inl e, s') \<Longrightarrow> s' = s"
  unfolding ma_delegate_def by (auto simp: Let_def split: sum.splits if_splits)

lemma authorize_run:
  obtains "snd (ma_authorize subject k scope t s) = s"
  | g where "map_of (ma_grants s) (JStr k) = Some g"
      "snd (ma_authorize subject k scope t s) = s\<lparr>ma_grants := AList.update (JStr k) (g\<lparr>g_use_count := g_use_count g + 1\<rparr>) (ma_grants s)\<rparr>"
proof -
  have "snd (ma_authorize subject k scope t s) = s \<or> (\<exists>g. map_of (ma_grants s) (JStr k) = Some g \<and>
      snd (ma_authorize subject k scope t s) = s\<lparr>ma_grants := AList.update (JStr k) (g\<lparr>g_use_count := g_use_count g + 1\<rparr>) (ma_grants s)\<rparr>)"
    unfolding ma_authorize_def by (auto split: option.splits sum.splits bool.splits)
  with that show thesis by blast
qed

lemma revoke_loop_run:
  assumes "\<forall>k g. map_of (ma_grants s) k = Some g \<longrightarrow> py_norm (g_capability_id g) = k" "py_norm ` set cids \<subseteq> dom (map_of (ma_grants s))"
  shows "\<exists>docs gs. revoke_loop cids out s = (Inr (out @ docs), s\<lparr>ma_grants := gs\<rparr>) \<and> length docs = length cids \<and>
    (\<forall>k. map_of gs k = (if k \<in> py_norm ` set cids then map_option (\<lambda>g. g\<lparr>g_status := ''revoked''\<rparr>) (map_of (ma_grants s) k)
       else map_of (ma_grants s) k))"
  using assms
proof (induction cids arbitrary: out s)
  case Nil
  show ?case by (rule exI [of _ "[]"], rule exI [of _ "ma_grants s"]) simp
next
  case (Cons cid cids)
  from Cons.prems(2) obtain g where g: "map_of (ma_grants s) (py_norm cid) = Some g" by auto
  let ?s = "s\<lparr>ma_grants := AList.update (py_norm cid) (g\<lparr>g_status := ''revoked''\<rparr>) (ma_grants s)\<rparr>"
  let ?o = "out @ [[(''capability_id'', cid), (''decision'', JStr ''ALLOW''), (''reason_codes'', JList [JStr ''ancestor_revoke''])]]"
  have "\<forall>k g. map_of (ma_grants ?s) k = Some g \<longrightarrow> py_norm (g_capability_id g) = k" using Cons.prems(1) g by (auto simp: update_conv')
  moreover have "py_norm ` set cids \<subseteq> dom (map_of (ma_grants ?s))" using Cons.prems(2) by (auto simp: update_conv')
  ultimately obtain docs gs where r: "revoke_loop cids ?o ?s = (Inr (?o @ docs), ?s\<lparr>ma_grants := gs\<rparr>)" "length docs = length cids"
      "\<forall>k. map_of gs k = (if k \<in> py_norm ` set cids then map_option (\<lambda>g. g\<lparr>g_status := ''revoked''\<rparr>) (map_of (ma_grants ?s) k)
        else map_of (ma_grants ?s) k)"
    using Cons.IH [of ?s ?o] by blast
  have "revoke_loop (cid # cids) out s = (Inr (out @ (last ?o # docs)), s\<lparr>ma_grants := gs\<rparr>)" using g r(1) by simp
  moreover have "map_of gs k = (if k \<in> py_norm ` set (cid # cids) then map_option (\<lambda>g. g\<lparr>g_status := ''revoked''\<rparr>) (map_of (ma_grants s) k)
       else map_of (ma_grants s) k)" for k
    using r(3) g by (auto simp: update_conv' option.map_comp comp_def)
  ultimately show ?case using r(2) by (intro exI [of _ "last ?o # docs"] exI [of _ gs]) simp
qed

lemma reach_dom: "Range R \<subseteq> D \<Longrightarrow> x \<in> D \<Longrightarrow> R\<^sup>* `` {x} \<subseteq> D"
  by clarsimp (metis Range.intros rtranclE subsetD)

lemma revoke_tree_run:
  assumes wf: "wf_gov s" and run: "ma_revoke_tree k t s = (r, s')"
  shows "(\<exists>e. r = Inl e \<and> s' = s) \<or>
    (\<exists>docs gs. r = Inr docs \<and> s' = s\<lparr>ma_grants := gs\<rparr> \<and> length docs = card ((child_rel (ma_children s))\<^sup>* `` {JStr k}) \<and>
      (\<forall>j. map_of gs j = (if j \<in> (child_rel (ma_children s))\<^sup>* `` {JStr k}
         then map_option (\<lambda>g. g\<lparr>g_status := ''revoked''\<rparr>) (map_of (ma_grants s) j) else map_of (ma_grants s) j)))"
proof (cases "map_of (ma_grants s) (JStr k) = None \<or> (\<exists>e. descendants s (JStr k) = Inl e)")
  case True
  with run show ?thesis by (auto simp: ma_revoke_tree_def split: if_splits)
next
  case False
  then obtain g cids where g: "map_of (ma_grants s) (JStr k) = Some g" and cids: "descendants s (JStr k) = Inr cids"
    by (cases "descendants s (JStr k)") auto
  let ?D = "(child_rel (ma_children s))\<^sup>* `` {JStr k}"
  from descend_visits [OF cids [unfolded descendants_def]] have d: "distinct (map py_norm cids)" "py_norm ` set cids = ?D" by auto
  have "?D \<subseteq> dom (map_of (ma_grants s))" using wf g by (intro reach_dom) (auto simp: wf_gov_def)
  with d(2) have "py_norm ` set (rev cids) \<subseteq> dom (map_of (ma_grants s))" by simp
  moreover have "\<forall>k g. map_of (ma_grants s) k = Some g \<longrightarrow> py_norm (g_capability_id g) = k" using wf by (simp add: wf_gov_def)
  ultimately obtain docs gs where l: "revoke_loop (rev cids) [] s = (Inr docs, s\<lparr>ma_grants := gs\<rparr>)" "length docs = length cids"
      "\<forall>j. map_of gs j = (if j \<in> ?D then map_option (\<lambda>g. g\<lparr>g_status := ''revoked''\<rparr>) (map_of (ma_grants s) j) else map_of (ma_grants s) j)"
    using revoke_loop_run [of s "rev cids" "[]"] d(2) by auto
  have "length docs = card ?D" using l(2) distinct_card [OF d(1)] d(2) by simp
  moreover have "r = Inr docs" "s' = s\<lparr>ma_grants := gs\<rparr>" using run g cids l(1) by (simp_all add: ma_revoke_tree_def)
  ultimately show ?thesis using l(3) by blast
qed

lemma wf_gov_admit: "wf_gov s \<Longrightarrow> wf_gov (snd (ma_admit_root document t s))"
  by (rule admit_root_run [of document t s]) (auto simp: wf_gov_def update_conv' dom_children)

lemma wf_gov_authorize: "wf_gov s \<Longrightarrow> wf_gov (snd (ma_authorize subject k scope t s))"
  by (rule authorize_run [of subject k scope t s]) (auto simp: wf_gov_def update_conv' dom_def)

lemma wf_gov_revoke:
  assumes "wf_gov s"
  shows "wf_gov (snd (ma_revoke_tree k t s))"
proof -
  obtain r s' where r: "ma_revoke_tree k t s = (r, s')" by (metis prod.collapse)
  from revoke_tree_run [OF assms r] show ?thesis
  proof (elim disjE exE conjE)
    fix gs
    assume s': "s' = s\<lparr>ma_grants := gs\<rparr>"
      and gs: "\<forall>j. map_of gs j = (if j \<in> (child_rel (ma_children s))\<^sup>* `` {JStr k}
        then map_option (\<lambda>g. g\<lparr>g_status := ''revoked''\<rparr>) (map_of (ma_grants s) j) else map_of (ma_grants s) j)"
    have "dom (map_of gs) = dom (map_of (ma_grants s))" using gs by (auto simp: dom_def split: if_splits)
    moreover have "py_norm (g_capability_id g) = j" if "map_of gs j = Some g" for j g
      using that gs assms by (auto simp: wf_gov_def split: if_splits)
    ultimately show ?thesis using assms by (simp add: r s' wf_gov_def)
  qed (use assms r in simp)
qed

lemma wf_gov_delegate:
  assumes "wf_gov s"
  shows "wf_gov (snd (ma_delegate document t s))"
proof -
  obtain r s' where r: "ma_delegate document t s = (r, s')" by (metis prod.collapse)
  show ?thesis
  proof (cases r)
    case (Inl e)
    with delegate_refused [of document t s e s'] r assms show ?thesis by simp
  next
    case (Inr doc)
    from r [unfolded Inr] show ?thesis
    proof (rule delegate_run)
      fix parent child
      assume p: "map_of (ma_grants s) (py_norm (g_parent_capability_id child)) = Some parent"
        and s': "s' = s\<lparr>ma_grants := AList.update (py_norm (g_capability_id child)) child (ma_grants s),
          ma_children := setdefault_children (py_norm (g_capability_id child))
            (add_child (py_norm (g_capability_id parent)) (g_capability_id child) (ma_children s)),
          ma_receipts := ma_receipts s @ [delegation_of parent child]\<rparr>"
      have "py_norm (g_capability_id parent) \<in> dom (map_of (ma_grants s))" using assms p by (auto simp: wf_gov_def)
      with assms show ?thesis by (auto simp: r s' wf_gov_def update_conv' dom_children child_rel_add)
    qed
  qed
qed

lemma gov_reach_wf: "gov_reach s \<Longrightarrow> wf_gov s"
proof (induction rule: gov_reach.induct)
  case init
  show ?case by (auto simp: wf_gov_def governance_init_def child_rel_def)
qed (auto intro: wf_gov_admit wf_gov_delegate wf_gov_authorize wf_gov_revoke)

lemma fresh_reach_reach: "fresh_reach s \<Longrightarrow> gov_reach s"
  by (induction rule: fresh_reach.induct) (auto intro: gov_reach.intros)

lemma children_kept_authorize: "ma_children (snd (ma_authorize subject k scope t s)) = ma_children s"
  by (rule authorize_run [of subject k scope t s]) auto

lemma children_kept_revoke: "wf_gov s \<Longrightarrow> ma_children (snd (ma_revoke_tree k t s)) = ma_children s"
  using revoke_tree_run [of s k t "fst (ma_revoke_tree k t s)" "snd (ma_revoke_tree k t s)"] by auto

lemma text_tree_setdefault: "text_tree cs \<Longrightarrow> text_tree (setdefault_children k cs)"
  by (auto simp: text_tree_def setdefault_get split: if_splits)

lemma text_tree_add: "text_tree cs \<Longrightarrow> is_text c \<Longrightarrow> text_tree (add_child p c cs)"
  by (auto simp: text_tree_def add_child_def Let_def update_conv' split: option.splits if_splits)

lemma forest_insert:
  assumes "forest R" "c \<notin> Domain R" "c \<notin> Range R" "p \<noteq> c"
  shows "forest (insert (p, c) R)"
proof -
  have "(c, p) \<notin> R\<^sup>*" using assms(2,4) by (auto elim: converse_rtranclE)
  with assms show ?thesis by (auto simp: forest_def acyclic_insert)
qed

lemma fresh_reach_forest: "fresh_reach s \<Longrightarrow> forest (child_rel (ma_children s)) \<and> text_tree (ma_children s)"
proof (induction rule: fresh_reach.induct)
  case init
  show ?case by (simp add: governance_init_def forest_def child_rel_def text_tree_def acyclic_def)
next
  case (admit s document t)
  then show ?case by (cases rule: admit_root_run [of document t s]) (auto simp: text_tree_setdefault)
next
  case (delegate s document c t)
  note wf = gov_reach_wf [OF fresh_reach_reach [OF delegate.hyps(1)]]
  obtain r s' where r: "ma_delegate document t s = (r, s')" by (metis prod.collapse)
  show ?case
  proof (cases r)
    case (Inl e)
    with delegate_refused [of document t s e s'] r delegate.IH show ?thesis by simp
  next
    case (Inr doc)
    from r [unfolded Inr] show ?thesis
    proof (rule delegate_run)
      fix parent child
      assume ch: "ma_parse document = Inr child" and p: "map_of (ma_grants s) (py_norm (g_parent_capability_id child)) = Some parent"
        and s': "s' = s\<lparr>ma_grants := AList.update (py_norm (g_capability_id child)) child (ma_grants s),
          ma_children := setdefault_children (py_norm (g_capability_id child))
            (add_child (py_norm (g_capability_id parent)) (g_capability_id child) (ma_children s)),
          ma_receipts := ma_receipts s @ [delegation_of parent child]\<rparr>"
      have id: "g_capability_id child = JStr c" using ch delegate.hyps(2) by (auto simp: ma_parse_def rbind_eq_Inr split: if_splits)
      have pd: "py_norm (g_capability_id parent) \<in> dom (map_of (ma_grants s))" using wf p by (auto simp: wf_gov_def)
      have "JStr c \<notin> dom (map_of (ma_children s))" "JStr c \<notin> Range (child_rel (ma_children s))"
        using wf delegate.hyps(3) by (auto simp: wf_gov_def)
      then have "forest (insert (py_norm (g_capability_id parent), JStr c) (child_rel (ma_children s)))"
        using delegate.IH pd delegate.hyps(3) by (intro forest_insert) (auto simp: child_rel_def)
      with delegate.IH id show ?thesis by (simp add: r s' child_rel_add text_tree_setdefault text_tree_add)
    qed
  qed
next
  case (authorize s subject k scope t)
  then show ?case by (simp add: children_kept_authorize)
next
  case (revoke s k t)
  then show ?case using children_kept_revoke [OF gov_reach_wf [OF fresh_reach_reach]] by simp
qed

lemma fresh_descendants: "fresh_reach s \<Longrightarrow> \<exists>cids. descendants s k = Inr cids"
  using descend_returns [of "ma_children s" "[k]" "{}" "[]"] fresh_reach_forest [of s] by (simp add: descendants_def apart_def)

subsection \<open>A concrete delegation\<close>

definition demo_grant_doc :: "string \<Rightarrow> json \<Rightarrow> string \<Rightarrow> (string \<times> json) list" where
  "demo_grant_doc k parent subject =
     [(''capability_id'', JStr k), (''subject_id'', JStr subject), (''capability_type'', JStr ''repository.read''),
      (''scope'', JObj [(''paths'', JList [JStr ''a'', JStr ''b''])]), (''issued_at_unix'', JInt 1), (''expires_at_unix'', JInt 100),
      (''max_uses'', JInt 3), (''parent_capability_id'', parent), (''policy_sha256'', JStr ZERO_SHA256)]"

definition demo_grant :: "string \<Rightarrow> json \<Rightarrow> string \<Rightarrow> grant" where
  "demo_grant k parent subject = \<lparr>g_capability_id = JStr k, g_subject_id = JStr subject, g_capability_type = JStr ''repository.read'',
     g_scope = [(JStr ''paths'', JList [JStr ''a'', JStr ''b''])], g_issued_at_unix = JInt 1, g_expires_at_unix = JInt 100,
     g_max_uses = JInt 3, g_parent_capability_id = parent, g_policy_sha256 = JStr ZERO_SHA256, g_status = ''active'', g_use_count = 0\<rparr>"

lemma demo_grant_fields:
  "g_capability_id (demo_grant k p u) = JStr k" "g_parent_capability_id (demo_grant k p u) = p" "g_status (demo_grant k p u) = ''active''"
  by (simp_all add: demo_grant_def)

lemma demo_parse: "ma_parse (demo_grant_doc k parent subject) = Inr (demo_grant k parent subject)"
  by (simp add: ma_parse_def demo_grant_doc_def same_keys_def dkeys_def dget_def demo_grant_def)

lemma demo_window: "in_window (demo_grant k parent subject) t = Inr (1 \<le> t \<and> t < 100)"
  by (simp add: in_window_def demo_grant_def)

lemma demo_checks:
  assumes "k \<noteq> p" "v \<noteq> u" "1 \<le> t" "t < 100"
  shows "delegation_checks (demo_grant p q u) (demo_grant k r v) t = Inr ()"
  using assms by (simp add: delegation_checks_def demo_grant_def py_eq_def in_window_def value_within_def)

definition demo_root :: governance where
  "demo_root = snd (ma_admit_root (demo_grant_doc ''cap:r'' JNull ''agent:a'') 10 governance_init)"

definition demo_tree :: governance where
  "demo_tree = snd (ma_delegate (demo_grant_doc ''cap:c'' (JStr ''cap:r'') ''agent:b'') 10 demo_root)"

lemma demo_root_state:
  "demo_root = \<lparr>ma_grants = [(JStr ''cap:r'', demo_grant ''cap:r'' JNull ''agent:a'')], ma_children = [(JStr ''cap:r'', [])], ma_receipts = []\<rparr>"
  unfolding demo_root_def ma_admit_root_def
  by (simp add: demo_parse demo_window obind_def setdefault_children_def governance_init_def) (simp add: demo_grant_def)

lemma demo_delegated:
  "ma_delegate (demo_grant_doc ''cap:c'' (JStr ''cap:r'') ''agent:b'') 10 demo_root =
     (Inr (dl_as_document (delegation_of (demo_grant ''cap:r'' JNull ''agent:a'') (demo_grant ''cap:c'' (JStr ''cap:r'') ''agent:b''))),
      \<lparr>ma_grants = [(JStr ''cap:r'', demo_grant ''cap:r'' JNull ''agent:a''), (JStr ''cap:c'', demo_grant ''cap:c'' (JStr ''cap:r'') ''agent:b'')],
       ma_children = [(JStr ''cap:r'', [JStr ''cap:c'']), (JStr ''cap:c'', [])],
       ma_receipts = [delegation_of (demo_grant ''cap:r'' JNull ''agent:a'') (demo_grant ''cap:c'' (JStr ''cap:r'') ''agent:b'')]\<rparr>)"
  unfolding demo_root_state ma_delegate_def
  by (simp add: demo_parse demo_checks demo_grant_fields would_cycle_def setdefault_children_def add_child_def Let_def)

lemma demo_tree_fresh: "fresh_reach demo_tree"
  unfolding demo_tree_def
proof (rule fresh_reach.delegate)
  show "fresh_reach demo_root" unfolding demo_root_def by (intro fresh_reach.intros)
  show "dget (demo_grant_doc ''cap:c'' (JStr ''cap:r'') ''agent:b'') ''capability_id'' = JStr ''cap:c''" by (simp add: demo_grant_doc_def dget_def)
  show "map_of (ma_grants demo_root) (JStr ''cap:c'') = None" by (simp add: demo_root_state)
qed

text \<open>A capability delegated by two parents makes the walk stop with a cycle error although there is no cycle:
  the common ancestor can no longer be revoked.\<close>

lemma demo_delegate_step:
  assumes "map_of (ma_grants s) (JStr p) = Some (demo_grant p q u)" "k \<noteq> p" "v \<noteq> u" "would_cycle s (JStr p) (JStr k) = Inr False"
  shows "ma_grants (snd (ma_delegate (demo_grant_doc k (JStr p) v) 10 s)) = AList.update (JStr k) (demo_grant k (JStr p) v) (ma_grants s)"
    "ma_children (snd (ma_delegate (demo_grant_doc k (JStr p) v) 10 s)) = setdefault_children (JStr k) (add_child (JStr p) (JStr k) (ma_children s))"
  unfolding ma_delegate_def using assms by (simp_all add: demo_parse demo_checks demo_grant_fields Let_def)

definition demo_three :: governance where
  "demo_three = snd (ma_delegate (demo_grant_doc ''cap:d'' (JStr ''cap:r'') ''agent:d'') 10 demo_tree)"

definition demo_four :: governance where
  "demo_four = snd (ma_delegate (demo_grant_doc ''cap:x'' (JStr ''cap:c'') ''agent:x'') 10 demo_three)"

definition demo_diamond :: governance where
  "demo_diamond = snd (ma_delegate (demo_grant_doc ''cap:x'' (JStr ''cap:d'') ''agent:x'') 10 demo_four)"

lemma demo_three_state:
  "ma_grants demo_three = [(JStr ''cap:r'', demo_grant ''cap:r'' JNull ''agent:a''), (JStr ''cap:c'', demo_grant ''cap:c'' (JStr ''cap:r'') ''agent:b''),
     (JStr ''cap:d'', demo_grant ''cap:d'' (JStr ''cap:r'') ''agent:d'')]"
  "ma_children demo_three = [(JStr ''cap:r'', [JStr ''cap:c'', JStr ''cap:d'']), (JStr ''cap:c'', []), (JStr ''cap:d'', [])]"
proof -
  have g: "map_of (ma_grants demo_tree) (JStr ''cap:r'') = Some (demo_grant ''cap:r'' JNull ''agent:a'')"
    "would_cycle demo_tree (JStr ''cap:r'') (JStr ''cap:d'') = Inr False" by (simp_all add: demo_tree_def demo_delegated would_cycle_def)
  note st = demo_delegate_step [OF g(1) _ _ g(2), of "''agent:d''", folded demo_three_def]
  show "ma_grants demo_three = [(JStr ''cap:r'', demo_grant ''cap:r'' JNull ''agent:a''), (JStr ''cap:c'', demo_grant ''cap:c'' (JStr ''cap:r'') ''agent:b''),
     (JStr ''cap:d'', demo_grant ''cap:d'' (JStr ''cap:r'') ''agent:d'')]" using st(1) by (simp add: demo_tree_def demo_delegated)
  show "ma_children demo_three = [(JStr ''cap:r'', [JStr ''cap:c'', JStr ''cap:d'']), (JStr ''cap:c'', []), (JStr ''cap:d'', [])]"
    using st(2) by (simp add: demo_tree_def demo_delegated setdefault_children_def add_child_def)
qed

lemma demo_four_state:
  "ma_grants demo_four = ma_grants demo_three @ [(JStr ''cap:x'', demo_grant ''cap:x'' (JStr ''cap:c'') ''agent:x'')]"
  "ma_children demo_four = [(JStr ''cap:r'', [JStr ''cap:c'', JStr ''cap:d'']), (JStr ''cap:c'', [JStr ''cap:x'']), (JStr ''cap:d'', []), (JStr ''cap:x'', [])]"
proof -
  have g: "map_of (ma_grants demo_three) (JStr ''cap:c'') = Some (demo_grant ''cap:c'' (JStr ''cap:r'') ''agent:b'')"
    "would_cycle demo_three (JStr ''cap:c'') (JStr ''cap:x'') = Inr False" by (simp_all add: demo_three_state would_cycle_def)
  note st = demo_delegate_step [OF g(1) _ _ g(2), of "''agent:x''", folded demo_four_def]
  show "ma_grants demo_four = ma_grants demo_three @ [(JStr ''cap:x'', demo_grant ''cap:x'' (JStr ''cap:c'') ''agent:x'')]"
    using st(1) by (simp add: demo_three_state)
  show "ma_children demo_four = [(JStr ''cap:r'', [JStr ''cap:c'', JStr ''cap:d'']), (JStr ''cap:c'', [JStr ''cap:x'']), (JStr ''cap:d'', []), (JStr ''cap:x'', [])]"
    using st(2) by (simp add: demo_three_state setdefault_children_def add_child_def)
qed

lemma demo_diamond_state:
  "map_of (ma_grants demo_diamond) (JStr ''cap:r'') \<noteq> None"
  "ma_children demo_diamond = [(JStr ''cap:r'', [JStr ''cap:c'', JStr ''cap:d'']), (JStr ''cap:c'', [JStr ''cap:x'']), (JStr ''cap:d'', [JStr ''cap:x'']),
     (JStr ''cap:x'', [])]"
proof -
  have "descendants demo_four (JStr ''cap:x'') = Inr [JStr ''cap:x'']"
    by (simp add: descendants_def demo_four_state children_of_def sorted_keys_def)
  then have g: "map_of (ma_grants demo_four) (JStr ''cap:d'') = Some (demo_grant ''cap:d'' (JStr ''cap:r'') ''agent:d'')"
    "would_cycle demo_four (JStr ''cap:d'') (JStr ''cap:x'') = Inr False"
    by (simp_all add: demo_four_state demo_three_state would_cycle_def)
  note st = demo_delegate_step [OF g(1) _ _ g(2), of "''agent:x''", folded demo_diamond_def]
  show "map_of (ma_grants demo_diamond) (JStr ''cap:r'') \<noteq> None" using st(1) by (simp add: demo_four_state demo_three_state)
  show "ma_children demo_diamond = [(JStr ''cap:r'', [JStr ''cap:c'', JStr ''cap:d'']), (JStr ''cap:c'', [JStr ''cap:x'']), (JStr ''cap:d'', [JStr ''cap:x'']),
     (JStr ''cap:x'', [])]"
    using st(2) by (simp add: demo_four_state setdefault_children_def add_child_def)
qed

lemma diamond_not_revocable:
  "gov_reach demo_diamond \<and>
   ma_revoke_tree ''cap:r'' 20 demo_diamond = (Inl (MultiAgentError ''delegation cycle detected''), demo_diamond)"
proof
  show "gov_reach demo_diamond"
    unfolding demo_diamond_def demo_four_def demo_three_def by (intro gov_reach.delegate fresh_reach_reach [OF demo_tree_fresh])
  have "sorted_keys [JStr ''cap:c'', JStr ''cap:d''] = Inr [JStr ''cap:c'', JStr ''cap:d'']" by code_simp
  then have "descendants demo_diamond (JStr ''cap:r'') = Inl (MultiAgentError ''delegation cycle detected'')"
    by (simp add: descendants_def demo_diamond_state(2) children_of_def sorted_keys_def [of "[]"] sorted_keys_def [of "[_]"])
  with demo_diamond_state(1) show "ma_revoke_tree ''cap:r'' 20 demo_diamond = (Inl (MultiAgentError ''delegation cycle detected''), demo_diamond)"
    by (simp add: ma_revoke_tree_def)
qed

text \<open>Whatever was revoked or used up before, admitting an identifier again makes it active with no uses.\<close>

lemma readmission_revives:
  "map_of (ma_grants (snd (ma_admit_root (demo_grant_doc ''cap:r'' JNull ''agent:a'') 10 s))) (JStr ''cap:r'') = Some (demo_grant ''cap:r'' JNull ''agent:a'')"
  unfolding ma_admit_root_def by (simp add: demo_parse demo_window demo_grant_fields obind_def update_conv')

lemma not_longer: "py_lt p c = Inr False \<Longrightarrow> py_num c = Inr y \<Longrightarrow> py_num p = Inr x \<Longrightarrow> y \<le> x"
  by (cases p; cases c) (auto split: if_splits)

subsection \<open>Properties of delegation\<close>

text \<open>C28: In every run the walk of \<open>revoke_tree\<close> over the delegation tree ends. If it returns, exactly the capability and
  its descendants are revoked, one entry each, and every later request under one of them is denied; if it
  raises, nothing has changed. It always returns when no identifier was delegated twice.\<close>

theorem revoke_tree_exact:
  assumes "gov_reach s" "map_of (ma_grants s) (JStr k) \<noteq> None" "D = (child_rel (ma_children s))\<^sup>* `` {JStr k}"
  shows "(fresh_reach s \<longrightarrow> (\<exists>docs s'. ma_revoke_tree k t s = (Inr docs, s'))) \<and>
    (\<forall>e s'. ma_revoke_tree k t s = (Inl e, s') \<longrightarrow> s' = s) \<and>
    (\<forall>docs s'. ma_revoke_tree k t s = (Inr docs, s') \<longrightarrow> length docs = card D \<and>
       (\<forall>j. map_of (ma_grants s') j = (if j \<in> D then map_option (\<lambda>g. g\<lparr>g_status := ''revoked''\<rparr>) (map_of (ma_grants s) j) else map_of (ma_grants s) j)) \<and>
       (\<forall>j subject scope u. JStr j \<in> D \<longrightarrow> ma_authorize subject j scope u s' = (Inr default_deny, s')))"
proof (intro conjI allI impI)
  note run = revoke_tree_run [OF gov_reach_wf [OF assms(1)], of k t, folded assms(3)]
  show "\<exists>docs s'. ma_revoke_tree k t s = (Inr docs, s')" if f: "fresh_reach s"
  proof -
    obtain cids where c: "descendants s (JStr k) = Inr cids" using fresh_descendants [OF f] by blast
    obtain r s' where r: "ma_revoke_tree k t s = (r, s')" by (metis prod.collapse)
    let ?G = "\<lambda>k. map_of (ma_grants s) k"
    have "revoke_loop (rev cids) [] s = (r, s')" using r c assms(2) by (simp add: ma_revoke_tree_def)
    moreover have "py_norm ` set cids = D" using descend_visits [OF c [unfolded descendants_def]] assms(3) by auto
    moreover have "D \<subseteq> dom ?G" using gov_reach_wf [OF assms(1)] assms(2,3) by (auto simp: wf_gov_def dest: reach_dom)
    ultimately show ?thesis using revoke_loop_run [of s "rev cids" "[]"] gov_reach_wf [OF assms(1)] r by (auto simp: wf_gov_def)
  qed
  show "s' = s" if "ma_revoke_tree k t s = (Inl e, s')" for e s' using run [OF that] by auto
  fix docs s' assume r: "ma_revoke_tree k t s = (Inr docs, s')"
  show "length docs = card D" using run [OF r] by auto
  show g: "map_of (ma_grants s') j = (if j \<in> D then map_option (\<lambda>g. g\<lparr>g_status := ''revoked''\<rparr>) (map_of (ma_grants s) j) else map_of (ma_grants s) j)" for j
    using run [OF r] by auto
  show "ma_authorize subject j scope u s' = (Inr default_deny, s')" if "JStr j \<in> D" for j subject scope u
    using g [of "JStr j"] that by (auto simp: ma_authorize_def grant_refuses_def split: option.splits)
qed

theorem revoke_tree_exact_witness:
  "\<exists>docs s'. ma_revoke_tree ''cap:r'' 20 demo_tree = (Inr docs, s') \<and> ma_authorize ''agent:a'' ''cap:r'' [] 30 s' = (Inr default_deny, s')"
proof -
  have k: "map_of (ma_grants demo_tree) (JStr ''cap:r'') \<noteq> None" by (simp add: demo_tree_def demo_delegated)
  from revoke_tree_exact [OF fresh_reach_reach [OF demo_tree_fresh] k refl, of 20] demo_tree_fresh show ?thesis by blast
qed



end
