(* ===== verification/Isolated_Execution.thy ===== *)
theory Isolated_Execution
  imports Runtime_Mediation
begin

section \<open>Isolated execution\<close>

text \<open>
  Model of src/sdk/liminal_isolated_execution: the container profile, the plan with its validated
  absolute workspace path, and the broker that lets a trusted back end run a plan only through the
  runtime mediator. The state of a call is whatever authorization and back end act on, the mediator, and
  the receipts of the broker.
\<close>

subsection \<open>Characters and paths\<close>

text \<open>\<open>list(text)\<close>: a character is a byte that does not continue a sequence, with those that follow.\<close>

definition utf8_cont :: "char \<Rightarrow> bool" where
  "utf8_cont c \<longleftrightarrow> CHR 0x80 \<le> c \<and> c \<le> CHR 0xBF"

function py_chars :: "string \<Rightarrow> string list" where
  "py_chars [] = []"
| "py_chars (c # cs) = (c # takeWhile utf8_cont cs) # py_chars (dropWhile utf8_cont cs)"
  by pat_completeness auto
termination by (relation "measure length") (auto simp: length_dropWhile_le le_imp_less_Suc)

text \<open>\<open>posixpath.normpath\<close>.\<close>

fun norm_comps :: "bool \<Rightarrow> string list \<Rightarrow> string list \<Rightarrow> string list" where
  "norm_comps initial new [] = new"
| "norm_comps initial new (seg # segs) =
     (if seg \<in> set [[], ''.''] then norm_comps initial new segs
      else if seg \<noteq> ''..'' \<or> \<not> initial \<and> new = [] \<or> new \<noteq> [] \<and> last new = ''..'' then norm_comps initial (new @ [seg]) segs
      else norm_comps initial (butlast new) segs)"

definition starts_with :: "string \<Rightarrow> string \<Rightarrow> bool" where
  "starts_with p s \<longleftrightarrow> take (length p) s = p"

definition py_normpath :: "string \<Rightarrow> string" where
  "py_normpath path =
     (if path = [] then ''.''
      else (let slashes = (if starts_with ''/'' path then (if starts_with ''//'' path \<and> \<not> starts_with ''///'' path then 2 else 1) else 0);
                segs = norm_comps (slashes \<noteq> 0) [] (split_on (CHR ''/'') path);
                result = replicate slashes (CHR ''/'') @ join ''/'' segs
            in if result = [] then ''.'' else result))"

subsection \<open>Data\<close>

abbreviation IsolationError :: "string \<Rightarrow> exn" where
  "IsolationError msg \<equiv> Exn ''IsolationError'' msg"

definition ISOLATION_SCHEMA :: string where
  "ISOLATION_SCHEMA = ''liminal-isolated-execution-receipt-v0.1''"

definition PROFILE_SCHEMA :: string where
  "PROFILE_SCHEMA = ''liminal-container-isolation-profile-v0.1''"

definition ISOLATION_AUTHORITY :: json where
  "ISOLATION_AUTHORITY = JObj
     [(''mode'', JStr ''container_bound_process_execution_governance''), (''runtime_mediation_required'', JBool True),
      (''immutable_image_required'', JBool True), (''workspace_read_only'', JBool True), (''network_none'', JBool True),
      (''drop_all_linux_capabilities'', JBool True), (''no_new_privileges'', JBool True), (''non_root_user'', JBool True),
      (''trusted_backend_dispatch'', JBool True), (''direct_host_subprocess_execution'', JBool False),
      (''direct_docker_api_access'', JBool False), (''direct_socket_creation'', JBool False),
      (''direct_filesystem_mutation'', JBool False), (''credential_material_access'', JBool False),
      (''vm_isolation'', JBool False), (''kernel_or_container_runtime_exploit_resistance'', JBool False)]"

text \<open>\<open>^sha256:[0-9a-f]{64}$\<close>\<close>

definition image_re :: "string \<Rightarrow> bool" where
  "image_re s \<longleftrightarrow> starts_with ''sha256:'' s \<and> is_sha256 (drop 7 s)"

record isolation_profile =
  ip_network_mode :: string
  ip_read_only_root :: bool
  ip_drop_all_capabilities :: bool
  ip_no_new_privileges :: bool
  ip_uid :: int
  ip_gid :: int
  ip_pids_limit :: int
  ip_memory_mb :: int
  ip_cpus :: string
  ip_tmpfs :: string
  ip_workspace_mode :: string

definition default_profile :: isolation_profile where
  "default_profile = \<lparr>ip_network_mode = ''none'', ip_read_only_root = True, ip_drop_all_capabilities = True,
     ip_no_new_privileges = True, ip_uid = 65534, ip_gid = 65534, ip_pids_limit = 64, ip_memory_mb = 256, ip_cpus = ''1.0'',
     ip_tmpfs = ''/tmp:rw,nosuid,nodev,noexec,size=64m'', ip_workspace_mode = ''ro''\<rparr>"

definition ip_validate :: "isolation_profile \<Rightarrow> unit res" where
  "ip_validate p =
     (if ip_network_mode p \<noteq> ''none'' then Inl (IsolationError ''network_mode must be none'')
      else if \<not> ip_read_only_root p \<or> \<not> ip_drop_all_capabilities p \<or> \<not> ip_no_new_privileges p
      then Inl (IsolationError ''isolation hardening flags are mandatory'')
      else if ip_workspace_mode p \<noteq> ''ro'' then Inl (IsolationError ''workspace must be read-only in this MVP'')
      else if ip_uid p = 0 \<or> ip_gid p = 0 \<or> ip_uid p < 1 \<or> ip_gid p < 1
      then Inl (IsolationError ''container must run as non-root uid/gid'')
      else if \<not> (1 \<le> ip_pids_limit p \<and> ip_pids_limit p \<le> 256) then Inl (IsolationError ''pids_limit is outside bounded profile'')
      else if \<not> (32 \<le> ip_memory_mb p \<and> ip_memory_mb p \<le> 1024) then Inl (IsolationError ''memory_mb is outside bounded profile'')
      else if ip_cpus p \<notin> set [''0.25'', ''0.5'', ''1.0'', ''2.0''] then Inl (IsolationError ''cpus is outside bounded profile'')
      else if ip_tmpfs p \<noteq> ''/tmp:rw,nosuid,nodev,noexec,size=64m'' then Inl (IsolationError ''tmpfs profile mismatch'')
      else Inr ())"

definition ip_body :: "isolation_profile \<Rightarrow> (string \<times> json) list res" where
  "ip_body p = rbind (ip_validate p) (\<lambda>_. Inr
     [(''schema'', JStr PROFILE_SCHEMA), (''network_mode'', JStr (ip_network_mode p)), (''read_only_root'', JBool (ip_read_only_root p)),
      (''drop_all_capabilities'', JBool (ip_drop_all_capabilities p)), (''no_new_privileges'', JBool (ip_no_new_privileges p)),
      (''uid'', JInt (ip_uid p)), (''gid'', JInt (ip_gid p)), (''pids_limit'', JInt (ip_pids_limit p)),
      (''memory_mb'', JInt (ip_memory_mb p)), (''cpus'', JStr (ip_cpus p)), (''tmpfs'', JStr (ip_tmpfs p)),
      (''workspace_mode'', JStr (ip_workspace_mode p))])"

definition profile_sha256 :: "isolation_profile \<Rightarrow> string res" where
  "profile_sha256 p = rbind (ip_body p) (\<lambda>b. Inr (canonical_sha256 (JObj b)))"

record isolated_plan =
  xp_operation_id :: string
  xp_image_id :: string
  xp_argv :: "string list"
  xp_host_workspace :: string
  xp_timeout_seconds :: int
  xp_profile :: isolation_profile

definition xp_validate :: "isolated_plan \<Rightarrow> unit res" where
  "xp_validate p =
     (if py_strip (xp_operation_id p) = [] \<or> CHR 0x00 \<in> set (xp_operation_id p) then Inl (IsolationError ''operation_id must be non-empty'')
      else if \<not> image_re (xp_image_id p) then Inl (IsolationError ''image_id must be immutable sha256:<64 lowercase hex>'')
      else if xp_argv p = [] \<or> length (xp_argv p) > 64 then Inl (IsolationError ''argv must contain 1..64 arguments'')
      else if \<not> list_all (\<lambda>arg. arg \<noteq> [] \<and> CHR 0x00 \<notin> set arg \<and> py_len arg \<le> 4096) (xp_argv p)
      then Inl (IsolationError ''argv contains an invalid argument'')
      else if \<not> starts_with ''/'' (xp_host_workspace p) \<or> starts_with ''//'' (xp_host_workspace p)
      then Inl (IsolationError ''host_workspace must be one normalized absolute POSIX path'')
      else if CHR 0x00 \<in> set (xp_host_workspace p) \<or> CHR '','' \<in> set (xp_host_workspace p) \<or> py_len (xp_host_workspace p) > 4096
      then Inl (IsolationError ''host_workspace contains unsupported characters'')
      else if xp_host_workspace p \<noteq> py_normpath (xp_host_workspace p)
      then Inl (IsolationError ''host_workspace must not contain dot, parent or redundant path segments'')
      else if list_ex (\<lambda>part. part \<in> set [''.'', ''..'']) (split_on (CHR ''/'') (xp_host_workspace p))
      then Inl (IsolationError ''host_workspace contains forbidden relative path segments'')
      else if \<not> (1 \<le> xp_timeout_seconds p \<and> xp_timeout_seconds p \<le> 120)
      then Inl (IsolationError ''timeout_seconds must be between 1 and 120'')
      else ip_validate (xp_profile p))"

definition xp_build :: "string \<Rightarrow> string \<Rightarrow> string list \<Rightarrow> string \<Rightarrow> int \<Rightarrow> isolation_profile option \<Rightarrow> isolated_plan res" where
  "xp_build operation_id image_id argv host_workspace timeout_seconds profile =
     (let item = \<lparr>xp_operation_id = operation_id, xp_image_id = image_id, xp_argv = argv, xp_host_workspace = host_workspace,
                  xp_timeout_seconds = timeout_seconds,
                  xp_profile = (case profile of None \<Rightarrow> default_profile | Some p \<Rightarrow> p)\<rparr>
      in rbind (xp_validate item) (\<lambda>_. Inr item))"

definition xp_safe_body :: "isolated_plan \<Rightarrow> (string \<times> json) list res" where
  "xp_safe_body p = rbind (xp_validate p) (\<lambda>_. rbind (profile_sha256 (xp_profile p)) (\<lambda>psha. Inr
     [(''operation_id'', JStr (xp_operation_id p)), (''image_id'', JStr (xp_image_id p)),
      (''argv_sha256'', JStr (canonical_sha256 (JList (map JStr (xp_argv p))))),
      (''host_workspace_sha256'', JStr (canonical_sha256 (JStr (xp_host_workspace p)))),
      (''timeout_seconds'', JInt (xp_timeout_seconds p)), (''profile_sha256'', JStr psha)]))"

definition xp_plan_sha256 :: "isolated_plan \<Rightarrow> string res" where
  "xp_plan_sha256 p = rbind (xp_safe_body p) (\<lambda>b. Inr (canonical_sha256 (JObj b)))"

definition xp_payload_sha256 :: "isolated_plan \<Rightarrow> string res" where
  "xp_payload_sha256 p = rbind (xp_plan_sha256 p) (\<lambda>s.
     Inr (canonical_sha256 (JObj [(''isolated_execution_plan_sha256'', JStr s)])))"

record isolated_receipt =
  xe_operation_id :: string
  xe_plan_sha256 :: string
  xe_isolation_profile_sha256 :: string
  xe_image_id :: string
  xe_mediation_receipt_sha256 :: string
  xe_admission_decision :: string
  xe_execution_outcome :: string
  xe_backend_invoked :: bool
  xe_receipt_sha256 :: string

definition xe_body :: "isolated_receipt \<Rightarrow> (string \<times> json) list" where
  "xe_body r =
     [(''schema'', JStr ISOLATION_SCHEMA), (''operation_id'', JStr (xe_operation_id r)), (''plan_sha256'', JStr (xe_plan_sha256 r)),
      (''isolation_profile_sha256'', JStr (xe_isolation_profile_sha256 r)), (''image_id'', JStr (xe_image_id r)),
      (''mediation_receipt_sha256'', JStr (xe_mediation_receipt_sha256 r)), (''admission_decision'', JStr (xe_admission_decision r)),
      (''execution_outcome'', JStr (xe_execution_outcome r)), (''backend_invoked'', JBool (xe_backend_invoked r)),
      (''authority'', ISOLATION_AUTHORITY)]"

definition xe_as_document :: "isolated_receipt \<Rightarrow> (string \<times> json) list" where
  "xe_as_document r = xe_body r @ [(''receipt_sha256'', JStr (xe_receipt_sha256 r))]"

subsection \<open>The broker\<close>

text \<open>\<open>x in set(v)\<close> for a scope value: an array of texts, or a text whose elements are its characters.\<close>

fun in_value :: "string \<Rightarrow> json \<Rightarrow> bool" where
  "in_value x (JList vs) = (JStr x \<in> set vs)"
| "in_value x (JStr s) = (x \<in> set (py_chars s))"
| "in_value x v = False"

definition xe_record :: "isolated_plan \<Rightarrow> (string \<times> json) list \<Rightarrow> (isolated_receipt list, (string \<times> json) list) op" where
  "xe_record plan mediation =
     obind (olift (xp_plan_sha256 plan)) (\<lambda>plan_sha.
     obind (olift (profile_sha256 (xp_profile plan))) (\<lambda>profile_sha.
     obind (olift (dreq mediation ''receipt_sha256'')) (\<lambda>rsha.
     obind (olift (dreq mediation ''admission_decision'')) (\<lambda>admission.
     obind (olift (dreq mediation ''execution_outcome'')) (\<lambda>outcome receipts.
       let base = \<lparr>xe_operation_id = xp_operation_id plan, xe_plan_sha256 = plan_sha, xe_isolation_profile_sha256 = profile_sha,
             xe_image_id = xp_image_id plan, xe_mediation_receipt_sha256 = jstr rsha, xe_admission_decision = jstr admission,
             xe_execution_outcome = jstr outcome, xe_backend_invoked = py_eq admission (JStr ''ALLOW''), xe_receipt_sha256 = []\<rparr>;
           receipt = base\<lparr>xe_receipt_sha256 := canonical_sha256 (JObj (xe_body base))\<rparr>
       in (Inr (xe_as_document receipt), receipts @ [receipt]))))))"

text \<open>The checks of \<open>execute\<close> before the mediator is called.\<close>

definition xe_checks :: "runtime_operation \<Rightarrow> isolated_plan \<Rightarrow> unit res" where
  "xe_checks operation plan =
     rbind (ro_validate operation) (\<lambda>_.
     rbind (xp_validate plan) (\<lambda>_.
     if ro_kind operation \<noteq> ''process.execute'' then Inl (IsolationError ''isolated execution MVP only accepts process.execute'')
     else if ro_operation_id operation \<noteq> xp_operation_id plan
     then Inl (IsolationError ''operation_id does not match isolated execution plan'')
     else rbind (ro_normalized_scope operation) (\<lambda>scope.
     if \<not> py_eq (dget scope ''working_directory'') (JStr ''/workspace'')
     then Inl (IsolationError ''isolated process working_directory must be /workspace'')
     else if \<not> in_value (hd (xp_argv plan)) (case map_of scope ''executables'' of None \<Rightarrow> JList [] | Some v \<Rightarrow> v)
     then Inl (IsolationError ''container executable is outside process capability scope'')
     else rbind (xp_payload_sha256 plan) (\<lambda>payload.
     if ro_payload_sha256 operation \<noteq> payload
     then Inl (IsolationError ''runtime payload is not bound to the isolated execution plan'')
     else Inr ()))))"

definition xe_execute ::
  "(authz_request \<Rightarrow> ('s, (string \<times> json) list) op) \<Rightarrow> (isolated_plan \<Rightarrow> ('s, observation option) op) \<Rightarrow>
   runtime_operation \<Rightarrow> isolated_plan \<Rightarrow> (('s \<times> mediator) \<times> isolated_receipt list, (string \<times> json) list) op" where
  "xe_execute authorize backend operation plan =
     obind (olift (xe_checks operation plan)) (\<lambda>_.
     obind (on_fst (m_mediate authorize (\<lambda>_. backend plan) operation)) (\<lambda>mediation. on_snd (xe_record plan mediation)))"

definition xe_receipts :: "isolated_receipt list \<Rightarrow> (string \<times> json) list list" where
  "xe_receipts receipts = map xe_as_document receipts"

definition xe_verify_receipt :: "(string \<times> json) list \<Rightarrow> (string \<times> json) list res" where
  "xe_verify_receipt document =
     (let digest = dget document ''receipt_sha256''; raw = dpop document ''receipt_sha256'' in
      if \<not> py_eq (dget raw ''schema'') (JStr ISOLATION_SCHEMA) \<or> \<not> py_eq (dget raw ''authority'') ISOLATION_AUTHORITY
      then Inl (IsolationError ''isolated execution receipt schema or authority mismatch'')
      else if \<not> py_eq digest (JStr (canonical_sha256 (JObj raw))) then Inl (IsolationError ''isolated execution receipt digest mismatch'')
      else Inr document)"

end
