(* ===== verification/Package_Install.thy ===== *)
theory Package_Install
  imports Isolated_Execution
begin

section \<open>Package installation\<close>

text \<open>
  Model of src/sdk/liminal_package_install_broker: workspace bindings prepared by the host, requests, and the
  broker that admits a request only if it names the bound package exactly, charges a \<open>package.install\<close>
  capability and then runs the fixed installer through the isolated execution broker. The capability
  broker and the clock act on the innermost state \<open>'s\<close>, which the isolated broker's mediator and back end share.
\<close>

subsection \<open>Fields\<close>

abbreviation PackageInstallError :: "string \<Rightarrow> exn" where
  "PackageInstallError msg \<equiv> Exn ''PackageInstallError'' msg"

definition PACKAGE_SCHEMA :: string where
  "PACKAGE_SCHEMA = ''liminal-package-install-receipt-v0.1''"

definition PACKAGE_BINDING_SCHEMA :: string where
  "PACKAGE_BINDING_SCHEMA = ''liminal-package-workspace-binding-v0.1''"

definition INSTALLER_EXECUTABLE :: string where
  "INSTALLER_EXECUTABLE = ''/usr/local/bin/liminal-pkg-installer''"

definition ARGUMENT_PROFILE :: string where
  "ARGUMENT_PROFILE = ''bound-package-install-v0.1''"

definition INSTALL_TARGET :: string where
  "INSTALL_TARGET = ''/tmp/liminal-site-packages''"

definition MAX_DEPENDENCIES :: int where
  "MAX_DEPENDENCIES = 256"

definition PACKAGE_AUTHORITY :: json where
  "PACKAGE_AUTHORITY = JObj
     [(''mode'', JStr ''bound_offline_package_install_governance''), (''host_staged_plan_required'', JBool True),
      (''package_capability_required'', JBool True), (''isolated_process_capability_required'', JBool True),
      (''immutable_installer_image_required'', JBool True), (''staged_artifact_digest_required'', JBool True),
      (''dependency_plan_digest_required'', JBool True), (''registry_provenance_only'', JBool True),
      (''live_registry_fetch'', JBool False), (''direct_network_access'', JBool False), (''direct_package_manager_access'', JBool False),
      (''direct_docker_access'', JBool False), (''direct_host_filesystem_mutation'', JBool False),
      (''persistent_environment_mutation'', JBool False), (''ephemeral_tmpfs_materialization'', JBool True),
      (''installed_package_execution'', JBool False), (''supply_chain_authenticity_oracle'', JBool False)]"

definition pk_ident :: "string \<Rightarrow> string \<Rightarrow> string res" where
  "pk_ident v name =
     (if py_strip v = [] \<or> v \<noteq> py_strip v \<or> CHR 0x00 \<in> set v then Inl (PackageInstallError (''invalid_'' @ name))
      else if \<not> ident_re v then Inl (PackageInstallError (''invalid_'' @ name)) else Inr v)"

definition pk_sha :: "string \<Rightarrow> string \<Rightarrow> string res" where
  "pk_sha v name = (if \<not> is_sha256 v then Inl (PackageInstallError (''invalid_'' @ name)) else Inr v)"

text \<open>\<open>re.sub(r"[-_.]+", "-", s)\<close>\<close>

definition is_sep :: "char \<Rightarrow> bool" where
  "is_sep c \<longleftrightarrow> c \<in> set ''-_.''"

function collapse_seps :: "string \<Rightarrow> string" where
  "collapse_seps [] = []"
| "collapse_seps (c # cs) = (if is_sep c then CHR ''-'' # collapse_seps (dropWhile is_sep cs) else c # collapse_seps cs)"
  by pat_completeness auto
termination by (relation "measure length") (auto simp: length_dropWhile_le le_imp_less_Suc)

definition is_lower_num :: "char \<Rightarrow> bool" where
  "is_lower_num c \<longleftrightarrow> CHR ''a'' \<le> c \<and> c \<le> CHR ''z'' \<or> CHR ''0'' \<le> c \<and> c \<le> CHR ''9''"

text \<open>\<open>^[a-z0-9]+(?:-[a-z0-9]+)*$\<close>, \<open>^[0-9][A-Za-z0-9._+!-]{0,127}$\<close> and
  \<open>^[a-z0-9](?:[a-z0-9.-]{0,189}[a-z0-9])?$\<close>\<close>

definition package_re :: "string \<Rightarrow> bool" where
  "package_re s \<longleftrightarrow> list_all (\<lambda>p. p \<noteq> [] \<and> list_all is_lower_num p) (split_on (CHR ''-'') s)"

fun version_re :: "string \<Rightarrow> bool" where
  "version_re [] = False"
| "version_re (c # cs) = (CHR ''0'' \<le> c \<and> c \<le> CHR ''9'' \<and> length cs \<le> 127 \<and> list_all (\<lambda>c. is_alnum c \<or> c \<in> set ''._+!-'') cs)"

definition registry_re :: "string \<Rightarrow> bool" where
  "registry_re s \<longleftrightarrow> s \<noteq> [] \<and> length s \<le> 191 \<and> is_lower_num (hd s) \<and> is_lower_num (last s) \<and>
     list_all (\<lambda>c. is_lower_num c \<or> c \<in> set ''.-'') s"

definition pk_package :: "string \<Rightarrow> string res" where
  "pk_package v =
     (let normalized = collapse_seps (py_lower v) in
      if \<not> package_re normalized then Inl (PackageInstallError ''invalid_package_name'') else Inr normalized)"

definition pk_version :: "string \<Rightarrow> string res" where
  "pk_version v = (if \<not> version_re v then Inl (PackageInstallError ''invalid_version'') else Inr v)"

definition pk_registry :: "string \<Rightarrow> string res" where
  "pk_registry v =
     (let normalized = py_lower v in
      if \<not> registry_re normalized \<or> CHR ''.'' \<notin> set normalized then Inl (PackageInstallError ''invalid_registry'') else Inr normalized)"

definition pk_bounded :: "int \<Rightarrow> string \<Rightarrow> int \<Rightarrow> int \<Rightarrow> int res" where
  "pk_bounded v name minimum maximum =
     (if \<not> (minimum \<le> v \<and> v \<le> maximum) then Inl (PackageInstallError (''invalid_'' @ name)) else Inr v)"

definition pk_coordinate :: "string \<Rightarrow> string \<Rightarrow> string" where
  "pk_coordinate package_name version = package_name @ ''=='' @ version"

subsection \<open>Bindings and requests\<close>

record package_binding =
  pb_binding_id :: string
  pb_host_workspace :: string
  pb_registry :: string
  pb_package_name :: string
  pb_version :: string
  pb_artifact_sha256 :: string
  pb_dependency_plan_sha256 :: string
  pb_staged_manifest_sha256 :: string
  pb_dependency_count :: int
  pb_installer_image_id :: string
  pb_binding_sha256 :: string

definition pb_package_coordinate :: "package_binding \<Rightarrow> string" where
  "pb_package_coordinate b = pk_coordinate (pb_package_name b) (pb_version b)"

definition pb_safe_body :: "package_binding \<Rightarrow> (string \<times> json) list" where
  "pb_safe_body b =
     [(''schema'', JStr PACKAGE_BINDING_SCHEMA), (''binding_id'', JStr (pb_binding_id b)),
      (''host_workspace_sha256'', JStr (canonical_sha256 (JStr (pb_host_workspace b)))), (''registry'', JStr (pb_registry b)),
      (''package_coordinate'', JStr (pb_package_coordinate b)), (''artifact_sha256'', JStr (pb_artifact_sha256 b)),
      (''dependency_plan_sha256'', JStr (pb_dependency_plan_sha256 b)),
      (''staged_manifest_sha256'', JStr (pb_staged_manifest_sha256 b)), (''dependency_count'', JInt (pb_dependency_count b)),
      (''installer_image_id'', JStr (pb_installer_image_id b)), (''authority'', PACKAGE_AUTHORITY)]"

definition pb_as_document :: "package_binding \<Rightarrow> (string \<times> json) list" where
  "pb_as_document b = pb_safe_body b @ [(''binding_sha256'', JStr (pb_binding_sha256 b))]"

text \<open>\<open>build\<close>: the arguments are the fields of \<open>b\<close> but its digest.\<close>

definition pb_build :: "package_binding \<Rightarrow> package_binding res" where
  "pb_build b =
     rbind (pk_ident (pb_binding_id b) ''binding_id'') (\<lambda>binding_id.
     if \<not> starts_with ''/'' (pb_host_workspace b) then Inl (PackageInstallError ''host_workspace_must_be_absolute'')
     else if CHR 0x00 \<in> set (pb_host_workspace b) \<or> CHR '','' \<in> set (pb_host_workspace b) \<or> py_len (pb_host_workspace b) > 4096
     then Inl (PackageInstallError ''invalid_host_workspace'')
     else rbind (pk_registry (pb_registry b)) (\<lambda>registry.
     rbind (pk_package (pb_package_name b)) (\<lambda>package_name.
     rbind (pk_version (pb_version b)) (\<lambda>version.
     rbind (pk_sha (pb_artifact_sha256 b) ''artifact_sha256'') (\<lambda>artifact.
     rbind (pk_sha (pb_dependency_plan_sha256 b) ''dependency_plan_sha256'') (\<lambda>plan.
     rbind (pk_sha (pb_staged_manifest_sha256 b) ''staged_manifest_sha256'') (\<lambda>manifest.
     rbind (pk_bounded (pb_dependency_count b) ''dependency_count'' 0 MAX_DEPENDENCIES) (\<lambda>count.
     if \<not> image_re (pb_installer_image_id b) then Inl (PackageInstallError ''installer_image_must_be_immutable_digest'')
     else (let item = \<lparr>pb_binding_id = binding_id, pb_host_workspace = pb_host_workspace b, pb_registry = registry,
                 pb_package_name = package_name, pb_version = version, pb_artifact_sha256 = artifact,
                 pb_dependency_plan_sha256 = plan, pb_staged_manifest_sha256 = manifest, pb_dependency_count = count,
                 pb_installer_image_id = pb_installer_image_id b, pb_binding_sha256 = []\<rparr>
           in Inr (item\<lparr>pb_binding_sha256 := canonical_sha256 (JObj (pb_safe_body item))\<rparr>))))))))))"

record package_request =
  pr_call_id :: string
  pr_subject_id :: string
  pr_policy_sha256 :: string
  pr_workspace_binding_id :: string
  pr_registry :: string
  pr_package_name :: string
  pr_version :: string
  pr_artifact_sha256 :: string
  pr_dependency_plan_sha256 :: string
  pr_staged_manifest_sha256 :: string
  pr_dependency_count :: int

definition pr_normalized :: "package_request \<Rightarrow> package_request res" where
  "pr_normalized r =
     rbind (pk_ident (pr_call_id r) ''call_id'') (\<lambda>call_id.
     rbind (pk_ident (pr_subject_id r) ''subject_id'') (\<lambda>subject_id.
     rbind (pk_sha (pr_policy_sha256 r) ''policy_sha256'') (\<lambda>policy.
     rbind (pk_ident (pr_workspace_binding_id r) ''workspace_binding_id'') (\<lambda>binding_id.
     rbind (pk_registry (pr_registry r)) (\<lambda>registry.
     rbind (pk_package (pr_package_name r)) (\<lambda>package_name.
     rbind (pk_version (pr_version r)) (\<lambda>version.
     rbind (pk_sha (pr_artifact_sha256 r) ''artifact_sha256'') (\<lambda>artifact.
     rbind (pk_sha (pr_dependency_plan_sha256 r) ''dependency_plan_sha256'') (\<lambda>plan.
     rbind (pk_sha (pr_staged_manifest_sha256 r) ''staged_manifest_sha256'') (\<lambda>manifest.
     rbind (pk_bounded (pr_dependency_count r) ''dependency_count'' 0 MAX_DEPENDENCIES) (\<lambda>count.
       Inr \<lparr>pr_call_id = call_id, pr_subject_id = subject_id, pr_policy_sha256 = policy, pr_workspace_binding_id = binding_id,
            pr_registry = registry, pr_package_name = package_name, pr_version = version, pr_artifact_sha256 = artifact,
            pr_dependency_plan_sha256 = plan, pr_staged_manifest_sha256 = manifest, pr_dependency_count = count\<rparr>)))))))))))"

definition pr_safe_body :: "package_request \<Rightarrow> (string \<times> json) list res" where
  "pr_safe_body request = rbind (pr_normalized request) (\<lambda>r. Inr
     [(''call_id'', JStr (pr_call_id r)), (''subject_id'', JStr (pr_subject_id r)), (''policy_sha256'', JStr (pr_policy_sha256 r)),
      (''workspace_binding_id'', JStr (pr_workspace_binding_id r)), (''registry'', JStr (pr_registry r)),
      (''package_coordinate'', JStr (pk_coordinate (pr_package_name r) (pr_version r))),
      (''artifact_sha256'', JStr (pr_artifact_sha256 r)), (''dependency_plan_sha256'', JStr (pr_dependency_plan_sha256 r)),
      (''staged_manifest_sha256'', JStr (pr_staged_manifest_sha256 r)), (''dependency_count'', JInt (pr_dependency_count r)),
      (''install_target'', JStr INSTALL_TARGET), (''argument_profile'', JStr ARGUMENT_PROFILE)])"

subsection \<open>Receipts and the broker's state\<close>

record package_receipt =
  pp_receipt_id :: string
  pp_call_id :: string
  pp_subject_id :: string
  pp_request_sha256 :: string
  pp_workspace_binding_sha256 :: string
  pp_package_plan_sha256 :: string
  pp_package_capability_receipt_sha256 :: string
  pp_package_decision :: string
  pp_isolated_execution_receipt_sha256 :: string
  pp_process_admission_decision :: string
  pp_execution_outcome :: string
  pp_installer_image_id :: string
  pp_artifact_sha256 :: string
  pp_dependency_plan_sha256 :: string
  pp_staged_manifest_sha256 :: string
  pp_dependency_count :: int
  pp_reason_codes :: "string list"
  pp_at_unix :: int
  pp_receipt_sha256 :: string

definition pp_body :: "package_receipt \<Rightarrow> (string \<times> json) list" where
  "pp_body r =
     [(''schema'', JStr PACKAGE_SCHEMA), (''receipt_id'', JStr (pp_receipt_id r)), (''call_id'', JStr (pp_call_id r)),
      (''subject_id'', JStr (pp_subject_id r)), (''request_sha256'', JStr (pp_request_sha256 r)),
      (''workspace_binding_sha256'', JStr (pp_workspace_binding_sha256 r)), (''package_plan_sha256'', JStr (pp_package_plan_sha256 r)),
      (''package_capability_receipt_sha256'', JStr (pp_package_capability_receipt_sha256 r)),
      (''package_decision'', JStr (pp_package_decision r)),
      (''isolated_execution_receipt_sha256'', JStr (pp_isolated_execution_receipt_sha256 r)),
      (''process_admission_decision'', JStr (pp_process_admission_decision r)), (''execution_outcome'', JStr (pp_execution_outcome r)),
      (''installer_image_id'', JStr (pp_installer_image_id r)), (''artifact_sha256'', JStr (pp_artifact_sha256 r)),
      (''dependency_plan_sha256'', JStr (pp_dependency_plan_sha256 r)),
      (''staged_manifest_sha256'', JStr (pp_staged_manifest_sha256 r)), (''dependency_count'', JInt (pp_dependency_count r)),
      (''reason_codes'', JList (map JStr (pp_reason_codes r))), (''at_unix'', JInt (pp_at_unix r)), (''authority'', PACKAGE_AUTHORITY)]"

definition pp_as_document :: "package_receipt \<Rightarrow> (string \<times> json) list" where
  "pp_as_document r = pp_body r @ [(''receipt_sha256'', JStr (pp_receipt_sha256 r))]"

record pkg_broker =
  pk_bindings :: "(string \<times> package_binding) list"
  pk_seen_call_ids :: "string set"
  pk_receipts :: "package_receipt list"

fun pk_collect :: "package_binding list \<Rightarrow> (string \<times> package_binding) list \<Rightarrow> (string \<times> package_binding) list res" where
  "pk_collect [] bindings = Inr bindings"
| "pk_collect (item # items) bindings =
     rbind (pb_build item) (\<lambda>rebuilt.
       if pb_binding_sha256 rebuilt \<noteq> pb_binding_sha256 item then Inl (PackageInstallError ''workspace_binding_digest_mismatch'')
       else if map_of bindings (pb_binding_id rebuilt) \<noteq> None then Inl (PackageInstallError ''duplicate_workspace_binding'')
       else pk_collect items (AList.update (pb_binding_id rebuilt) rebuilt bindings))"

definition pkg_init :: "package_binding list \<Rightarrow> pkg_broker res" where
  "pkg_init workspace_bindings =
     rbind (pk_collect workspace_bindings []) (\<lambda>bindings.
       if bindings = [] then Inl (PackageInstallError ''workspace_binding_required'')
       else Inr \<lparr>pk_bindings = bindings, pk_seen_call_ids = {}, pk_receipts = []\<rparr>)"

subsection \<open>Installation\<close>

type_synonym 's pkg_system = "(('s \<times> mediator) \<times> isolated_receipt list) \<times> pkg_broker"

definition on_host :: "('s, 'a) op \<Rightarrow> ('s pkg_system, 'a) op" where
  "on_host m = on_fst (on_fst (on_fst m))"

definition pk_now :: "('s, int) op \<Rightarrow> ('s, int) op" where
  "pk_now clock = obind clock (\<lambda>value. if value < 0 then oraise (PackageInstallError ''invalid_host_clock'') else oret value)"

definition pk_finish ::
  "package_request \<Rightarrow> string \<Rightarrow> package_binding option \<Rightarrow> string \<Rightarrow> string \<Rightarrow> string \<Rightarrow> string \<Rightarrow> string \<Rightarrow> string \<Rightarrow> string list \<Rightarrow> int \<Rightarrow>
   (pkg_broker, (string \<times> json) list) op" where
  "pk_finish req request_sha binding package_plan_sha capability_receipt_sha package_decision isolated_receipt_sha
     process_admission execution_outcome reasons now p =
     (let base = \<lparr>pp_receipt_id = ''package-install-receipt:'' @ nat_str (length (pk_receipts p) + 1), pp_call_id = pr_call_id req,
            pp_subject_id = pr_subject_id req, pp_request_sha256 = request_sha,
            pp_workspace_binding_sha256 = (case binding of None \<Rightarrow> ZERO_SHA256 | Some b \<Rightarrow> pb_binding_sha256 b),
            pp_package_plan_sha256 = package_plan_sha, pp_package_capability_receipt_sha256 = capability_receipt_sha,
            pp_package_decision = package_decision, pp_isolated_execution_receipt_sha256 = isolated_receipt_sha,
            pp_process_admission_decision = process_admission, pp_execution_outcome = execution_outcome,
            pp_installer_image_id = (case binding of None \<Rightarrow> ''sha256:'' @ ZERO_SHA256 | Some b \<Rightarrow> pb_installer_image_id b),
            pp_artifact_sha256 = pr_artifact_sha256 req, pp_dependency_plan_sha256 = pr_dependency_plan_sha256 req,
            pp_staged_manifest_sha256 = pr_staged_manifest_sha256 req, pp_dependency_count = pr_dependency_count req,
            pp_reason_codes = sort (remdups reasons), pp_at_unix = now, pp_receipt_sha256 = []\<rparr>;
          receipt = base\<lparr>pp_receipt_sha256 := canonical_sha256 (JObj (pp_body base))\<rparr>
      in (Inr (pp_as_document receipt), p\<lparr>pk_receipts := pk_receipts p @ [receipt]\<rparr>))"

definition mismatch_reasons :: "package_request \<Rightarrow> package_binding \<Rightarrow> string list" where
  "mismatch_reasons req b =
     (if pr_registry req \<noteq> pb_registry b then [''registry_binding_mismatch''] else []) @
     (if pk_coordinate (pr_package_name req) (pr_version req) \<noteq> pb_package_coordinate b then [''package_coordinate_binding_mismatch''] else []) @
     (if pr_artifact_sha256 req \<noteq> pb_artifact_sha256 b then [''artifact_binding_mismatch''] else []) @
     (if pr_dependency_plan_sha256 req \<noteq> pb_dependency_plan_sha256 b then [''dependency_plan_binding_mismatch''] else []) @
     (if pr_staged_manifest_sha256 req \<noteq> pb_staged_manifest_sha256 b then [''staged_manifest_mismatch''] else []) @
     (if pr_dependency_count req \<noteq> pb_dependency_count b then [''dependency_count_binding_mismatch''] else [])"

definition package_plan_sha :: "string \<Rightarrow> package_binding \<Rightarrow> string" where
  "package_plan_sha request_sha b = canonical_sha256 (JObj
     [(''request_sha256'', JStr request_sha), (''workspace_binding_sha256'', JStr (pb_binding_sha256 b)),
      (''installer_image_id'', JStr (pb_installer_image_id b)), (''installer_executable'', JStr INSTALLER_EXECUTABLE),
      (''argument_profile'', JStr ARGUMENT_PROFILE), (''install_target'', JStr INSTALL_TARGET)])"

definition package_authz :: "package_request \<Rightarrow> package_binding \<Rightarrow> string \<Rightarrow> int \<Rightarrow> authz_request" where
  "package_authz req b plan_sha now =
     \<lparr>rq_subject_id = pr_subject_id req, rq_capability_type = ''package.install'', rq_policy_sha256 = pr_policy_sha256 req,
      rq_requested_scope = [(''registries'', JList [JStr (pb_registry b)]), (''packages'', JList [JStr (pb_package_coordinate b)])],
      rq_action = [(''call_id'', JStr (pr_call_id req)), (''workspace_binding_sha256'', JStr (pb_binding_sha256 b)),
        (''package_plan_sha256'', JStr plan_sha), (''artifact_sha256'', JStr (pb_artifact_sha256 b)),
        (''dependency_plan_sha256'', JStr (pb_dependency_plan_sha256 b)), (''staged_manifest_sha256'', JStr (pb_staged_manifest_sha256 b)),
        (''dependency_count'', JInt (pb_dependency_count b))],
      rq_at_unix = now, rq_recorder_event_id = None, rq_recorder_entry_sha256 = None\<rparr>"

definition installer_argv :: "package_binding \<Rightarrow> string list" where
  "installer_argv b =
     [INSTALLER_EXECUTABLE, ''--offline'', ''--manifest-sha256'', pb_staged_manifest_sha256 b, ''--registry-provenance'', pb_registry b,
      ''--package'', pb_package_name b, ''--version'', pb_version b, ''--artifact-sha256'', pb_artifact_sha256 b,
      ''--dependency-plan-sha256'', pb_dependency_plan_sha256 b, ''--dependency-count'', int_str (pb_dependency_count b),
      ''--target'', INSTALL_TARGET, ''--no-execute-installed-code'']"

definition installer_operation :: "package_request \<Rightarrow> isolated_plan \<Rightarrow> string \<Rightarrow> int \<Rightarrow> runtime_operation" where
  "installer_operation req plan payload now =
     \<lparr>ro_operation_id = xp_operation_id plan, ro_subject_id = pr_subject_id req, ro_policy_sha256 = pr_policy_sha256 req,
      ro_kind = ''process.execute'',
      ro_scope = [(''executables'', JList [JStr INSTALLER_EXECUTABLE]), (''working_directory'', JStr ''/workspace''),
        (''argument_profile'', JStr ARGUMENT_PROFILE)],
      ro_payload_sha256 = payload, ro_at_unix = now, ro_privilege_level_before = 0, ro_privilege_level_after = 0\<rparr>"

text \<open>\<open>install\<close> after an ALLOW for the package.\<close>

definition pk_run_installer ::
  "(authz_request \<Rightarrow> ('s, (string \<times> json) list) op) \<Rightarrow> (isolated_plan \<Rightarrow> ('s, observation option) op) \<Rightarrow> package_request \<Rightarrow>
   string \<Rightarrow> package_binding \<Rightarrow> string \<Rightarrow> (string \<times> json) list \<Rightarrow> int \<Rightarrow> ('s pkg_system, (string \<times> json) list) op" where
  "pk_run_installer authorize backend req request_sha binding plan_sha capability now =
     obind (olift (xp_build (''package-install:'' @ pr_call_id req) (pb_installer_image_id binding) (installer_argv binding)
       (pb_host_workspace binding) 60 None)) (\<lambda>plan.
     obind (olift (xp_payload_sha256 plan)) (\<lambda>payload.
     obind (on_fst (xe_execute authorize backend (installer_operation req plan payload now) plan)) (\<lambda>isolated.
     obind (olift (dreq isolated ''admission_decision'')) (\<lambda>admission.
     obind (olift (dreq isolated ''execution_outcome'')) (\<lambda>outcome.
     obind (olift (dreq capability ''receipt_sha256'')) (\<lambda>capability_receipt.
     obind (olift (dreq isolated ''receipt_sha256'')) (\<lambda>isolated_sha.
       on_snd (pk_finish req request_sha (Some binding) plan_sha (jstr capability_receipt) ''ALLOW'' (jstr isolated_sha)
         (jstr admission) (jstr outcome)
         ([''package_capability_admitted'', ''host_staged_plan_matched''] @
          (if py_eq admission (JStr ''ALLOW'') \<and> py_eq outcome (JStr ''SUCCEEDED'')
           then [''process_capability_admitted'', ''isolated_install_succeeded''] else [''isolated_process_gate_blocked_or_failed'']))
         now))))))))"

text \<open>\<open>install\<close> once the request names the bound package: the \<open>package.install\<close> capability, then the installer.\<close>

definition pk_install_bound ::
  "(authz_request \<Rightarrow> ('s, (string \<times> json) list) op) \<Rightarrow> (isolated_plan \<Rightarrow> ('s, observation option) op) \<Rightarrow> package_request \<Rightarrow>
   string \<Rightarrow> package_binding \<Rightarrow> int \<Rightarrow> ('s pkg_system, (string \<times> json) list) op" where
  "pk_install_bound authorize backend req request_sha binding now =
     (let plan_sha = package_plan_sha request_sha binding in
      obind (on_host (authorize (package_authz req binding plan_sha now))) (\<lambda>capability.
      obind (olift (dreq capability ''decision'')) (\<lambda>decision.
      if \<not> py_eq decision (JStr ''ALLOW'')
      then obind (olift (dreq capability ''receipt_sha256'')) (\<lambda>receipt_sha.
        obind (olift (dreq capability ''reason_codes'')) (\<lambda>reasons.
        on_snd (pk_finish req request_sha (Some binding) plan_sha (jstr receipt_sha) ''BLOCK'' ZERO_SHA256 ''NOT_REQUESTED''
          ''NOT_EXECUTED'' (jstrs reasons) now)))
      else pk_run_installer authorize backend req request_sha binding plan_sha capability now)))"

definition pk_install ::
  "(authz_request \<Rightarrow> ('s, (string \<times> json) list) op) \<Rightarrow> (isolated_plan \<Rightarrow> ('s, observation option) op) \<Rightarrow> ('s, int) op \<Rightarrow>
   package_request \<Rightarrow> ('s pkg_system, (string \<times> json) list) op" where
  "pk_install authorize backend clock request =
     obind (olift (pr_normalized request)) (\<lambda>req.
     obind (on_host (pk_now clock)) (\<lambda>now.
     obind (olift (pr_safe_body req)) (\<lambda>body s.
       let request_sha = canonical_sha256 (JObj body);
           blocked = (\<lambda>binding reasons. on_snd (pk_finish req request_sha binding ZERO_SHA256 ZERO_SHA256
             ''BLOCK'' ZERO_SHA256 ''NOT_REQUESTED'' ''NOT_EXECUTED'' reasons now))
       in if pr_call_id req \<in> pk_seen_call_ids (snd s) then blocked None [''replayed_call_id''] s
          else obind (on_snd (omodify (\<lambda>p. p\<lparr>pk_seen_call_ids := insert (pr_call_id req) (pk_seen_call_ids p)\<rparr>))) (\<lambda>_.
            case map_of (pk_bindings (snd s)) (pr_workspace_binding_id req) of
              None \<Rightarrow> blocked None [''unknown_workspace_binding'']
            | Some binding \<Rightarrow>
                if mismatch_reasons req binding \<noteq> [] then blocked (Some binding) (mismatch_reasons req binding)
                else pk_install_bound authorize backend req request_sha binding now) s)))"

definition pk_receipt_documents :: "pkg_broker \<Rightarrow> (string \<times> json) list list" where
  "pk_receipt_documents p = map pp_as_document (pk_receipts p)"

definition pk_verify_receipt :: "(string \<times> json) list \<Rightarrow> (string \<times> json) list res" where
  "pk_verify_receipt document =
     (if \<not> same_keys document [''schema'', ''receipt_id'', ''call_id'', ''subject_id'', ''request_sha256'', ''workspace_binding_sha256'',
           ''package_plan_sha256'', ''package_capability_receipt_sha256'', ''package_decision'',
           ''isolated_execution_receipt_sha256'', ''process_admission_decision'', ''execution_outcome'', ''installer_image_id'',
           ''artifact_sha256'', ''dependency_plan_sha256'', ''staged_manifest_sha256'', ''dependency_count'', ''reason_codes'',
           ''at_unix'', ''authority'', ''receipt_sha256'']
      then Inl (PackageInstallError ''package_receipt_schema_mismatch'')
      else (let digest = dget document ''receipt_sha256''; raw = dpop document ''receipt_sha256'' in
        if \<not> py_eq (dget raw ''schema'') (JStr PACKAGE_SCHEMA) \<or> \<not> py_eq (dget raw ''authority'') PACKAGE_AUTHORITY
        then Inl (PackageInstallError ''package_receipt_schema_mismatch'')
        else if \<not> py_eq digest (JStr (canonical_sha256 (JObj raw))) then Inl (PackageInstallError ''package_receipt_digest_mismatch'')
        else Inr document))"

end
