(* ===== verification/Execution_Properties.thy ===== *)
theory Execution_Properties
  imports Isolated_Execution Epoch_Properties Mediation_Properties
begin

section \<open>Isolated execution: facts and properties\<close>

text \<open>
  What the plan's path check accepts, and what a call of the isolated execution broker does: the back end
  runs only for a validated plan that the operation is bound to, and only after a \<open>process.execute\<close> capability
  was charged for it.
\<close>

subsection \<open>Splitting and joining\<close>

lemma split_on_parts: "p \<in> set (split_on d s) \<Longrightarrow> d \<notin> set p"
proof (induction s arbitrary: p)
  case (Cons c cs)
  then show ?case
    by (cases "split_on d cs") (auto simp: split_on_nonempty split: if_splits)
qed simp

lemma split_on_word: "d \<notin> set c \<Longrightarrow> split_on d c = [c]"
  by (induction c) auto

lemma split_on_append: "d \<notin> set c \<Longrightarrow> split_on d (c @ d # s) = c # split_on d s"
  by (induction c) auto

lemma split_on_join: "cs \<noteq> [] \<Longrightarrow> \<forall>c \<in> set cs. d \<notin> set c \<Longrightarrow> split_on d (join [d] cs) = cs"
proof (induction "[d]" cs rule: join.induct)
  case (3 x y xs)
  then show ?case by (simp add: split_on_append)
qed (simp_all add: split_on_word)

subsection \<open>Normal paths\<close>

definition path_segment :: "string \<Rightarrow> bool" where
  "path_segment c \<longleftrightarrow> c \<noteq> [] \<and> c \<noteq> ''.'' \<and> c \<noteq> ''..'' \<and> CHR ''/'' \<notin> set c"

definition normal_path :: "string \<Rightarrow> bool" where
  "normal_path p \<longleftrightarrow> (\<exists>cs. p = CHR ''/'' # join ''/'' cs \<and> list_all path_segment cs)"

lemma norm_comps_segments: "list_all path_segment segs \<Longrightarrow> norm_comps initial new segs = new @ segs"
  by (induction segs arbitrary: new) (simp_all add: path_segment_def)

lemma norm_comps_normal:
  "list_all path_segment new \<Longrightarrow> \<forall>p \<in> set segs. CHR ''/'' \<notin> set p \<Longrightarrow> list_all path_segment (norm_comps True new segs)"
proof (induction segs arbitrary: new)
  case (Cons seg segs)
  have butl: "list_all path_segment (butlast new)"
    using Cons.prems(1) by (auto simp: list_all_iff dest: in_set_butlastD)
  have up: "seg = ''..'' \<Longrightarrow> new \<noteq> [] \<Longrightarrow> last new \<noteq> ''..''"
    using Cons.prems(1) last_in_set [of new] by (auto simp only: list_all_iff path_segment_def)
  show ?case
  proof (cases "seg \<in> set [[], ''.'']")
    case True
    then have "norm_comps True new (seg # segs) = norm_comps True new segs" by (simp only: norm_comps.simps if_True)
    with Cons show ?thesis by simp
  next
    case skip: False
    show ?thesis
    proof (cases "seg = ''..''")
      case True
      have "norm_comps True new (seg # segs) = norm_comps True (butlast new) segs"
        using skip up [OF True] True by (cases "new = []") simp_all
      with Cons butl show ?thesis by simp
    next
      case False
      then have "norm_comps True new (seg # segs) = norm_comps True (new @ [seg]) segs" using skip by simp
      moreover have "path_segment seg" using skip False Cons.prems(2) by (simp add: path_segment_def)
      ultimately show ?thesis using Cons by simp
    qed
  qed
qed simp

lemma single_slash: "starts_with ''/'' p \<and> \<not> starts_with ''//'' p \<longleftrightarrow> (\<exists>s. p = CHR ''/'' # s \<and> \<not> starts_with ''/'' s)"
  by (cases p) (auto simp: starts_with_def)

lemma normpath_rooted:
  assumes "\<not> starts_with ''/'' s"
  shows "py_normpath (CHR ''/'' # s) = CHR ''/'' # join ''/'' (norm_comps True [] (split_on (CHR ''/'') s))"
proof -
  have "starts_with ''/'' (CHR ''/'' # s)" "\<not> starts_with ''//'' (CHR ''/'' # s)"
    using assms by (simp_all add: starts_with_def)
  then show ?thesis by (simp add: py_normpath_def)
qed

lemma join_no_slash: "list_all path_segment cs \<Longrightarrow> \<not> starts_with ''/'' (join ''/'' cs)"
  by (induction "''/''" cs rule: join.induct)
    (auto simp: starts_with_def path_segment_def neq_Nil_conv)

lemma normal_path_iff:
  "starts_with ''/'' p \<and> \<not> starts_with ''//'' p \<and> p = py_normpath p \<longleftrightarrow> normal_path p"
proof
  assume "starts_with ''/'' p \<and> \<not> starts_with ''//'' p \<and> p = py_normpath p"
  then obtain s where "p = CHR ''/'' # s" "\<not> starts_with ''/'' s" "p = py_normpath p" using single_slash by blast
  then show "normal_path p"
    unfolding normal_path_def using normpath_rooted norm_comps_normal [of "[]"] split_on_parts by fastforce
next
  assume "normal_path p"
  then obtain cs where cs: "p = CHR ''/'' # join ''/'' cs" "list_all path_segment cs" by (auto simp: normal_path_def)
  note free = join_no_slash [OF cs(2)]
  have "norm_comps True [] (split_on (CHR ''/'') (join ''/'' cs)) = cs"
  proof (cases "cs = []")
    case False
    then have "split_on (CHR ''/'') (join ''/'' cs) = cs"
      using cs(2) split_on_join by (auto simp: list_all_iff path_segment_def)
    then show ?thesis using norm_comps_segments [OF cs(2)] by simp
  qed simp
  then show "starts_with ''/'' p \<and> \<not> starts_with ''//'' p \<and> p = py_normpath p"
    using normpath_rooted [OF free] single_slash free cs(1) by auto
qed

subsection \<open>The path of a mediated operation on the capability broker\<close>

text \<open>\<open>charged b rq sc b1\<close>: one use of a capability of \<open>b\<close> that is eligible for the request was spent, and
  nothing else of the capability states changed.\<close>

definition charged :: "broker \<Rightarrow> authz_request \<Rightarrow> (string \<times> json) list \<Rightarrow> broker \<Rightarrow> bool" where
  "charged b rq sc b1 \<longleftrightarrow> (\<exists>k st. eligible b rq sc k \<and> map_of (b_states b) k = Some st \<and>
     b_states b1 = AList.update k (st\<lparr>st_use_count := st_use_count st + 1\<rparr>) (b_states b))"

lemma authorize_charged:
  assumes "wf_broker b" "b_authorize rq b = (Inr d, b1)" "dreq d ''decision'' = Inr (JStr ''ALLOW'')"
    and "validate_scope (rq_capability_type rq) (JObj (rq_requested_scope rq)) = Inr sc"
  shows "charged b rq sc b1"
proof -
  obtain r where r: "delegate_answer b rq d b1 r" using b_authorize_answer [OF assms(1,2)] by blast
  then have "d = dr_as_document r" by (simp add: delegate_answer_def)
  with assms(3) have "dr_decision r \<noteq> ''BLOCK''" by (simp add: dr_dget)
  with r assms(4) show ?thesis unfolding delegate_answer_def charged_def by auto
qed

lemma run_executor_state: "run_executor exec op s = (x, s') \<Longrightarrow> s' = snd (exec op s)"
  by (auto simp: run_executor_def obind_cases split: option.splits)

lemma broker_mediate_path:
  assumes wf: "wf_broker b" and run: "m_mediate (\<lambda>rq. on_fst (b_authorize rq)) exec op ((b, w), m) = (r, ((b', w'), m'))"
  obtains (idle) "w' = w" "wf_broker b'" "mediation_answer r ''BLOCK'' ''NOT_EXECUTED''"
  | (ran) sc b1 x where "ro_normalized_scope op = Inr sc"
      "charged b (mediation_request op (the (map_of OPERATION_TO_CAPABILITY (ro_kind op))) sc) sc b1"
      "snd (exec op (b1, w)) = (b', w')" "mediation_answer r ''ALLOW'' (case x of Inl (_ :: exn) \<Rightarrow> ''FAILED'' | Inr (_ :: observation) \<Rightarrow> ''SUCCEEDED'')"
proof -
  have auth: "\<exists>b1. s1 = (b1, w) \<and> b_authorize rq b = (rd, b1) \<and> wf_broker b1" if "on_fst (b_authorize rq) (b, w) = (rd, s1)" for rq rd s1
    using that steps_b_authorize [OF wf, of rq "fst (b_authorize rq b)" "snd (b_authorize rq b)"] wf_bsteps wf by auto
  show thesis
  proof (rule mediate_path [OF run])
    assume "(b', w') = (b, w)" "mediation_answer r ''BLOCK'' ''NOT_EXECUTED''"
    then show thesis using wf idle by simp
  next
    fix rq rd
    assume "on_fst (b_authorize rq) (b, w) = (rd, (b', w'))" "mediation_answer r ''BLOCK'' ''NOT_EXECUTED''"
    with auth idle show thesis by blast
  next
    fix sc d s1 x
    let ?rq = "mediation_request op (the (map_of OPERATION_TO_CAPABILITY (ro_kind op))) sc"
    assume sc: "ro_normalized_scope op = Inr sc" and d: "dreq d ''decision'' = Inr (JStr ''ALLOW'')"
      and a: "on_fst (b_authorize ?rq) (b, w) = (Inr d, s1)" and x: "run_executor exec op s1 = (x, (b', w'))"
      and ans: "mediation_answer r ''ALLOW'' (case x of Inl _ \<Rightarrow> ''FAILED'' | Inr _ \<Rightarrow> ''SUCCEEDED'')"
    from auth [OF a] obtain b1 where b1: "s1 = (b1, w)" "b_authorize ?rq b = (Inr d, b1)" by blast
    have "charged b ?rq sc b1"
      using authorize_charged [OF wf b1(2) d] normalized_scope [OF sc] by (simp add: mediation_request_def)
    with ran sc run_executor_state [OF x] b1(1) ans show thesis by metis
  qed
qed

subsection \<open>One call of the isolated execution broker\<close>

definition hardened :: "isolation_profile \<Rightarrow> bool" where
  "hardened p \<longleftrightarrow> ip_network_mode p = ''none'' \<and> ip_read_only_root p \<and> ip_drop_all_capabilities p \<and> ip_no_new_privileges p \<and>
     ip_workspace_mode p = ''ro'' \<and> 1 \<le> ip_uid p \<and> 1 \<le> ip_gid p \<and> 1 \<le> ip_pids_limit p \<and> ip_pids_limit p \<le> 256 \<and>
     32 \<le> ip_memory_mb p \<and> ip_memory_mb p \<le> 1024"

lemma ip_validate_hardened: "ip_validate p = Inr () \<Longrightarrow> hardened p"
  unfolding ip_validate_def hardened_def by (simp add: if_Inl_eq_Inr)

definition safe_plan :: "isolated_plan \<Rightarrow> bool" where
  "safe_plan p \<longleftrightarrow> image_re (xp_image_id p) \<and> normal_path (xp_host_workspace p) \<and> hardened (xp_profile p) \<and>
     1 \<le> xp_timeout_seconds p \<and> xp_timeout_seconds p \<le> 120 \<and> xp_argv p \<noteq> [] \<and> length (xp_argv p) \<le> 64 \<and>
     (\<forall>arg \<in> set (xp_argv p). arg \<noteq> [] \<and> CHR 0x00 \<notin> set arg)"

lemma xp_validate_safe:
  assumes "xp_validate p = Inr ()"
  shows "safe_plan p"
proof -
  from assms have "image_re (xp_image_id p)" "\<not> (xp_argv p = [] \<or> length (xp_argv p) > 64)"
      "list_all (\<lambda>arg. arg \<noteq> [] \<and> CHR 0x00 \<notin> set arg \<and> py_len arg \<le> 4096) (xp_argv p)"
      "starts_with ''/'' (xp_host_workspace p) \<and> \<not> starts_with ''//'' (xp_host_workspace p) \<and>
        xp_host_workspace p = py_normpath (xp_host_workspace p)"
      "1 \<le> xp_timeout_seconds p" "xp_timeout_seconds p \<le> 120" "ip_validate (xp_profile p) = Inr ()"
    unfolding xp_validate_def by (simp_all add: if_Inl_eq_Inr)
  then show ?thesis
    unfolding normal_path_iff by (simp add: safe_plan_def list_all_iff ip_validate_hardened)
qed

text \<open>\<open>bound_to op plan sc\<close>: the operation's normalized scope is \<open>sc\<close> and it is the operation of exactly this safe plan.\<close>

definition bound_to :: "runtime_operation \<Rightarrow> isolated_plan \<Rightarrow> (string \<times> json) list \<Rightarrow> bool" where
  "bound_to op plan sc \<longleftrightarrow> safe_plan plan \<and> ro_kind op = ''process.execute'' \<and> ro_operation_id op = xp_operation_id plan \<and>
     ro_normalized_scope op = Inr sc \<and> dget sc ''working_directory'' = JStr ''/workspace'' \<and>
     (\<exists>v. map_of sc ''executables'' = Some v \<and> in_value (hd (xp_argv plan)) v) \<and>
     xp_payload_sha256 plan = Inr (ro_payload_sha256 op)"

lemma xe_checks_bound:
  assumes "xe_checks op plan = Inr ()"
  obtains sc where "bound_to op plan sc" "ro_validate op = Inr ()" "xp_validate plan = Inr ()"
proof -
  from assms obtain u1 u2 sc payload where sc: "ro_validate op = Inr u1" "xp_validate plan = Inr u2" "\<not> ro_kind op \<noteq> ''process.execute''"
      "\<not> ro_operation_id op \<noteq> xp_operation_id plan" "ro_normalized_scope op = Inr sc"
      "\<not> \<not> py_eq (dget sc ''working_directory'') (JStr ''/workspace'')"
      "\<not> \<not> in_value (hd (xp_argv plan)) (case map_of sc ''executables'' of None \<Rightarrow> JList [] | Some v \<Rightarrow> v)"
      "xp_payload_sha256 plan = Inr payload" "\<not> ro_payload_sha256 op \<noteq> payload"
    unfolding xe_checks_def rbind_eq_Inr if_Inl_eq_Inr by blast
  then have "\<exists>v. map_of sc ''executables'' = Some v \<and> in_value (hd (xp_argv plan)) v"
    by (cases "map_of sc ''executables''") simp_all
  with that sc xp_validate_safe show thesis by (simp add: bound_to_def py_eq_text)
qed

definition wf_isolated_receipt :: "isolated_receipt \<Rightarrow> bool" where
  "wf_isolated_receipt r \<longleftrightarrow> xe_receipt_sha256 r = canonical_sha256 (JObj (xe_body r))"

lemma xe_facts:
  "dget (xe_as_document r) ''receipt_sha256'' = JStr (xe_receipt_sha256 r)" "dpop (xe_as_document r) ''receipt_sha256'' = xe_body r"
  "dget (xe_body r) ''schema'' = JStr ISOLATION_SCHEMA" "dget (xe_body r) ''authority'' = ISOLATION_AUTHORITY"
  "dreq (xe_as_document r) ''admission_decision'' = Inr (JStr (xe_admission_decision r))"
  "dreq (xe_as_document r) ''execution_outcome'' = Inr (JStr (xe_execution_outcome r))"
  "dreq (xe_as_document r) ''receipt_sha256'' = Inr (JStr (xe_receipt_sha256 r))"
  by (simp_all add: xe_as_document_def xe_body_def dpop_def dget_def dreq_def)

lemma xe_verify_receipt_ok: "wf_isolated_receipt r \<Longrightarrow> xe_verify_receipt (xe_as_document r) = Inr (xe_as_document r)"
  by (simp add: xe_verify_receipt_def xe_facts wf_isolated_receipt_def py_eq_def)

text \<open>\<open>recorded_run plan adm out rs r rs'\<close>: if the call returned, its receipt is the last one, verifies, and states the
  plan's digest and what the mediator answered.\<close>

definition recorded_run ::
  "isolated_plan \<Rightarrow> string \<Rightarrow> string \<Rightarrow> isolated_receipt list \<Rightarrow> (string \<times> json) list res \<Rightarrow> isolated_receipt list \<Rightarrow> bool" where
  "recorded_run plan adm out rs r rs' \<longleftrightarrow> (\<forall>doc. r = Inr doc \<longrightarrow> (\<exists>x. doc = xe_as_document x \<and> rs' = rs @ [x] \<and>
     xe_verify_receipt doc = Inr doc \<and> xp_plan_sha256 plan = Inr (xe_plan_sha256 x) \<and> xe_admission_decision x = adm \<and>
     xe_execution_outcome x = out \<and> (xe_backend_invoked x \<longleftrightarrow> adm = ''ALLOW'')))"

lemma xe_record_run:
  assumes "mediation_answer (Inr mediation) adm out" "xe_record plan mediation rs = (r, rs')"
  shows "recorded_run plan adm out rs r rs'"
proof -
  from assms(1) obtain rc where rc: "mediation = mr_as_document rc" "mr_admission_decision rc = adm" "mr_execution_outcome rc = out"
    by (auto simp: mediation_answer_def)
  have req: "dreq mediation ''admission_decision'' = Inr (JStr adm)" "dreq mediation ''execution_outcome'' = Inr (JStr out)"
    using rc by (simp_all add: mr_as_document_def mr_body_def dreq_def)
  show ?thesis
    using assms(2) unfolding recorded_run_def
    by (auto simp: xe_record_def obind_eq_Inr req Let_def wf_isolated_receipt_def xe_body_def intro!: xe_verify_receipt_ok)
qed

text \<open>One call: the plan's binding, the charge and the one run of the back end, or no effect.\<close>

definition isolated_ran ::
  "(isolated_plan \<Rightarrow> (broker \<times> 'w, observation option) op) \<Rightarrow> runtime_operation \<Rightarrow> isolated_plan \<Rightarrow> broker \<Rightarrow> 'w \<Rightarrow> broker \<times> 'w \<Rightarrow> bool" where
  "isolated_ran backend op plan b w bw' \<longleftrightarrow> (\<exists>sc b1. bound_to op plan sc \<and>
     charged b (mediation_request op ''process.execute'' sc) sc b1 \<and> snd (backend plan (b1, w)) = bw')"

lemma xe_execute_run:
  assumes wf: "wf_broker b"
    and run: "xe_execute (\<lambda>rq. on_fst (b_authorize rq)) backend op plan (((b, w), m), rs) = (r, (((b', w'), m'), rs'))"
  obtains (idle) "w' = w" "wf_broker b'" "recorded_run plan ''BLOCK'' ''NOT_EXECUTED'' rs r rs'"
  | (ran) x where "isolated_ran backend op plan b w (b', w')"
      "recorded_run plan ''ALLOW'' (case x of Inl (_ :: exn) \<Rightarrow> ''FAILED'' | Inr (_ :: observation) \<Rightarrow> ''SUCCEEDED'') rs r rs'"
proof (cases "xe_checks op plan")
  case (Inl e)
  with run have "r = Inl e" "w' = w" "b' = b" by (auto simp: xe_execute_def)
  with wf idle show thesis by (simp add: recorded_run_def)
next
  case (Inr u)
  then obtain sc where sc: "bound_to op plan sc" by (auto elim: xe_checks_bound)
  then have cap: "the (map_of OPERATION_TO_CAPABILITY (ro_kind op)) = ''process.execute''"
    by (simp add: bound_to_def OPERATION_TO_CAPABILITY_def)
  obtain rm where med: "m_mediate (\<lambda>rq. on_fst (b_authorize rq)) (\<lambda>_. backend plan) op ((b, w), m) = (rm, ((b', w'), m'))"
    and rec: "rm = Inr d \<Longrightarrow> xe_record plan d rs = (r, rs')" and err: "rm = Inl e \<Longrightarrow> r = Inl e" for d e
    using run Inr by (auto simp: xe_execute_def obind_cases on_fst_eq on_snd_eq simp del: on_pair)
  have fin: "recorded_run plan adm out rs r rs'" if "mediation_answer rm adm out" for adm out
    using that rec err xe_record_run by (cases rm) (auto simp: recorded_run_def)
  show thesis
    by (rule broker_mediate_path [OF wf med])
      (use idle ran fin sc cap in \<open>auto simp: isolated_ran_def bound_to_def\<close>)
qed

subsection \<open>Property of isolated execution\<close>

definition demo_plan_workspace :: isolated_plan where
  "demo_plan_workspace = \<lparr>xp_operation_id = ''op:1'', xp_image_id = ''sha256:'' @ ZERO_SHA256, xp_argv = [''/bin/sh''],
     xp_host_workspace = ''/srv/../etc'', xp_timeout_seconds = 30, xp_profile = default_profile\<rparr>"

text \<open>C35: The back end of isolated execution changes the host only through the governed path. Whatever the host, the
  operation and the plan are, a call either leaves the host as it was, and then its receipt, if there is one,
  says BLOCK and not executed; or the plan is safe (immutable image, a host workspace that is a normal absolute
  path without dot or parent segments, hardened profile, bounded time), the operation is a \<open>process.execute\<close> operation
  bound to this plan by identifier, executable and payload digest, one use of an eligible capability for it was
  charged, and the new host is what one run of the back end on this plan makes of the host with the charged
  broker; the receipt, if there is one, is accepted by the verifier, names the plan's digest and says ALLOW.\<close>

theorem isolated_execution_bound:
  assumes "broker_reach b"
    and "xe_execute (\<lambda>rq. on_fst (b_authorize rq)) backend op plan (((b, w), m), rs) = (r, (((b', w'), m'), rs'))"
  shows "w' = w \<and> recorded_run plan ''BLOCK'' ''NOT_EXECUTED'' rs r rs' \<or>
    isolated_ran backend op plan b w (b', w') \<and>
      (recorded_run plan ''ALLOW'' ''FAILED'' rs r rs' \<or> recorded_run plan ''ALLOW'' ''SUCCEEDED'' rs r rs')"
proof (rule xe_execute_run [OF reach_wf [OF assms(1)] assms(2)])
  fix x :: "observation res"
  assume "isolated_ran backend op plan b w (b', w')"
    "recorded_run plan ''ALLOW'' (case x of Inl _ \<Rightarrow> ''FAILED'' | Inr _ \<Rightarrow> ''SUCCEEDED'') rs r rs'"
  then show ?thesis by (cases x) simp_all
qed simp

theorem isolated_execution_bound_witness:
  "snd (fst (fst (snd (xe_execute (\<lambda>rq. on_fst (b_authorize rq)) (\<lambda>_. oret None) demo_operation demo_plan_workspace
     (((demo_broker, 7 :: nat), mediator_init), []))))) = 7"
proof -
  let ?run = "xe_execute (\<lambda>rq. on_fst (b_authorize rq)) (\<lambda>_. oret None) demo_operation demo_plan_workspace
     (((demo_broker, 7 :: nat), mediator_init), [])"
  obtain r b' w' m' rs' where run: "?run = (r, (((b', w'), m'), rs'))" by (metis prod.collapse)
  have "\<not> bound_to demo_operation demo_plan_workspace sc" for sc
    by (simp add: bound_to_def demo_operation_def)
  then show ?thesis
    using isolated_execution_bound [OF demo_reach run] unfolding run by (simp add: isolated_ran_def)
qed

end
