(* ===== verification/Package_Properties.thy ===== *)
theory Package_Properties
  imports Package_Install Execution_Properties
begin

section \<open>Package installation: facts and properties\<close>

text \<open>
  What one call of \<open>install\<close> does by its outcome, and the invariant of the broker: receipts verify, and a
  call identifier is admitted at most once.
\<close>

subsection \<open>Normal forms of the request's fields\<close>

text \<open>\<open>_coordinate\<close> validates its arguments again; on fields that were validated it changes nothing, which is
  why \<open>pk_coordinate\<close> joins them directly.\<close>

lemma lower_num_id: "list_all (\<lambda>c. is_lower_num c \<or> c = CHR ''-'') s \<Longrightarrow> py_lower s = s"
proof (induction s rule: py_lower.induct)
  case (2 c cs)
  then have "is_lower_num c \<or> c = CHR ''-''" by simp
  then have "c \<noteq> CHR 0xE2" "\<not> (CHR ''A'' \<le> c \<and> c \<le> CHR ''Z'')"
    using order.trans [of "CHR ''a''" c "CHR ''Z''"] order.trans [of "CHR ''A''" c "CHR ''9''"]
    by (auto simp: is_lower_num_def)
  then have "c \<noteq> CHR 0xE2" "ascii_lower c = c" by (auto simp: ascii_lower_def)
  with 2 show ?case by simp
qed simp

lemma lower_num_not_sep: "is_lower_num c \<Longrightarrow> \<not> is_sep c \<and> c \<noteq> CHR ''-''"
  by (auto simp: is_lower_num_def is_sep_def)

lemma collapse_seps_id:
  assumes "list_all is_lower_num (hd (split_on (CHR ''-'') s))"
    and "list_all (\<lambda>p. p \<noteq> [] \<and> list_all is_lower_num p) (tl (split_on (CHR ''-'') s))"
  shows "collapse_seps s = s"
  using assms
proof (induction s)
  case (Cons c cs)
  obtain p ps where sp: "split_on (CHR ''-'') cs = p # ps" using split_on_nonempty by (cases "split_on (CHR ''-'') cs") auto
  show ?case
  proof (cases "c = CHR ''-''")
    case True
    with Cons.prems sp have parts: "p \<noteq> []" "list_all is_lower_num p" "list_all (\<lambda>p. p \<noteq> [] \<and> list_all is_lower_num p) ps"
      by simp_all
    then obtain d ds where "cs = d # ds" "is_lower_num d"
      using sp by (cases cs) (auto split: if_splits list.splits)
    then have "dropWhile is_sep cs = cs" using lower_num_not_sep by simp
    with Cons.IH sp parts True show ?thesis by (simp add: is_sep_def)
  next
    case False
    with Cons sp show ?thesis using lower_num_not_sep by simp
  qed
qed simp

lemma package_re_chars: "package_re s \<Longrightarrow> list_all (\<lambda>c. is_lower_num c \<or> c = CHR ''-'') s"
  unfolding package_re_def list_all_iff using split_on_chars by metis

lemma pk_package_idem:
  assumes "pk_package v = Inr n"
  shows "pk_package n = Inr n"
proof -
  have re: "package_re n" using assms by (auto simp: pk_package_def Let_def split: if_splits)
  then have parts: "list_all (\<lambda>p. p \<noteq> [] \<and> list_all is_lower_num p) (split_on (CHR ''-'') n)" by (simp add: package_re_def)
  then have "collapse_seps n = n"
    by (cases "split_on (CHR ''-'') n") (auto simp: split_on_nonempty intro: collapse_seps_id)
  then show ?thesis using re lower_num_id [OF package_re_chars [OF re]] by (simp add: pk_package_def)
qed

subsection \<open>Receipts\<close>

definition wf_package_receipt :: "package_receipt \<Rightarrow> bool" where
  "wf_package_receipt r \<longleftrightarrow> pp_receipt_sha256 r = canonical_sha256 (JObj (pp_body r))"

lemma pp_facts:
  "dget (pp_as_document r) ''receipt_sha256'' = JStr (pp_receipt_sha256 r)" "dpop (pp_as_document r) ''receipt_sha256'' = pp_body r"
  "dget (pp_body r) ''schema'' = JStr PACKAGE_SCHEMA" "dget (pp_body r) ''authority'' = PACKAGE_AUTHORITY"
  by (simp_all add: pp_as_document_def pp_body_def dpop_def dget_def)

lemma pp_keys: "dkeys (pp_as_document r) = [''schema'', ''receipt_id'', ''call_id'', ''subject_id'', ''request_sha256'', ''workspace_binding_sha256'',
           ''package_plan_sha256'', ''package_capability_receipt_sha256'', ''package_decision'',
           ''isolated_execution_receipt_sha256'', ''process_admission_decision'', ''execution_outcome'', ''installer_image_id'',
           ''artifact_sha256'', ''dependency_plan_sha256'', ''staged_manifest_sha256'', ''dependency_count'', ''reason_codes'',
           ''at_unix'', ''authority'', ''receipt_sha256'']"
  by (simp add: pp_as_document_def pp_body_def dkeys_def)

lemma pk_verify_receipt_ok: "wf_package_receipt r \<Longrightarrow> pk_verify_receipt (pp_as_document r) = Inr (pp_as_document r)"
  unfolding pk_verify_receipt_def same_keys_def pp_keys pp_facts Let_def by (simp add: wf_package_receipt_def py_eq_def)

text \<open>\<open>answered_package req dec adm p r p'\<close>: an exception leaves the broker \<open>p\<close> as it is; a returned document is that of a new
  receipt of the request with package decision \<open>dec\<close> and process decision \<open>adm\<close>, and the verifier accepts it.\<close>

definition answered_package ::
  "package_request \<Rightarrow> string \<Rightarrow> string \<Rightarrow> pkg_broker \<Rightarrow> (string \<times> json) list res \<Rightarrow> pkg_broker \<Rightarrow> bool" where
  "answered_package req dec adm p r p' \<longleftrightarrow> (case r of Inl _ \<Rightarrow> p' = p
     | Inr doc \<Rightarrow> \<exists>x. doc = pp_as_document x \<and> wf_package_receipt x \<and> pk_verify_receipt doc = Inr doc \<and> pp_call_id x = pr_call_id req \<and>
         pp_package_decision x = dec \<and> pp_process_admission_decision x = adm \<and> p' = p\<lparr>pk_receipts := pk_receipts p @ [x]\<rparr>)"

lemma pk_finish_run:
  assumes "pk_finish req sha binding psha csha dec isha adm out reasons now p = (r, p')"
  shows "answered_package req dec adm p r p'"
proof -
  obtain x where "r = Inr (pp_as_document x)" "wf_package_receipt x" "pp_call_id x = pr_call_id req" "pp_package_decision x = dec"
      "pp_process_admission_decision x = adm" "p' = p\<lparr>pk_receipts := pk_receipts p @ [x]\<rparr>"
    using assms by (auto simp: pk_finish_def Let_def wf_package_receipt_def pp_body_def)
  then show ?thesis by (auto simp: answered_package_def pk_verify_receipt_ok intro!: exI [of _ x])
qed

subsection \<open>Running the installer\<close>

text \<open>The plan and the operation are those the code builds from the binding and the request.\<close>

definition installer_ran ::
  "(isolated_plan \<Rightarrow> (broker \<times> 'w, observation option) op) \<Rightarrow> package_request \<Rightarrow> package_binding \<Rightarrow> int \<Rightarrow> broker \<Rightarrow> 'w \<Rightarrow> broker \<times> 'w \<Rightarrow> bool" where
  "installer_ran backend req binding now b w bw' \<longleftrightarrow> (\<exists>plan payload.
     xp_image_id plan = pb_installer_image_id binding \<and> xp_argv plan = installer_argv binding \<and>
     xp_host_workspace plan = pb_host_workspace binding \<and> xp_profile plan = default_profile \<and> xp_payload_sha256 plan = Inr payload \<and>
     isolated_ran backend (installer_operation req plan payload now) plan b w bw')"

lemma xp_build_fields:
  assumes "xp_build oid img argv ws t None = Inr plan"
  shows "xp_image_id plan = img" "xp_argv plan = argv" "xp_host_workspace plan = ws" "xp_profile plan = default_profile"
  using assms by (auto simp: xp_build_def Let_def rbind_eq_Inr)

lemma installer_run:
  assumes wf: "wf_broker b"
    and run: "pk_run_installer (\<lambda>rq. on_fst (b_authorize rq)) backend req sha binding psha capability now ((((b, w), m), rs), p) =
      (r, ((((b', w'), m'), rs'), p'))"
  obtains (idle) adm where "w' = w" "wf_broker b'" "adm \<noteq> ''ALLOW''" "answered_package req ''ALLOW'' adm p r p'"
  | (ran) "installer_ran backend req binding now b w (b', w')" "answered_package req ''ALLOW'' ''ALLOW'' p r p'"
proof (cases "\<exists>plan payload. xp_build (''package-install:'' @ pr_call_id req) (pb_installer_image_id binding) (installer_argv binding)
       (pb_host_workspace binding) 60 None = Inr plan \<and> xp_payload_sha256 plan = Inr payload")
  case False
  then obtain e where "r = Inl e" "w' = w" "b' = b" "p' = p"
    using run by (auto simp: pk_run_installer_def obind_cases)
  with wf show thesis by (intro idle [of "''BLOCK''"]) (simp_all add: answered_package_def)
next
  case True
  then obtain plan payload where plan: "xp_build (''package-install:'' @ pr_call_id req) (pb_installer_image_id binding) (installer_argv binding)
       (pb_host_workspace binding) 60 None = Inr plan" "xp_payload_sha256 plan = Inr payload" by blast
  obtain ri b1 w1 m1 rs1 where ex1: "xe_execute (\<lambda>rq. on_fst (b_authorize rq)) backend (installer_operation req plan payload now) plan
      (((b, w), m), rs) = (ri, (((b1, w1), m1), rs1))" by (metis prod.collapse)
  then have ex: "xe_execute (\<lambda>rq. on_fst (b_authorize rq)) backend (installer_operation req plan payload now) plan (((b, w), m), rs) =
      (ri, (((b', w'), m'), rs'))" and err: "\<And>e. ri = Inl e \<Longrightarrow> r = Inl e \<and> p' = p"
    using run plan by (auto simp: pk_run_installer_def obind_cases on_fst_eq on_snd_eq simp del: on_pair)
  have doc: "answered_package req ''ALLOW'' (xe_admission_decision x) p r p'" if "ri = Inr (xe_as_document x)" for x
  proof -
    have "(\<exists>e. r = Inl e \<and> p' = p) \<or> (\<exists>csha isha out reasons. pk_finish req sha (Some binding) psha csha ''ALLOW'' isha
        (xe_admission_decision x) out reasons now p = (r, p'))"
      using run plan ex that
      by (auto simp: pk_run_installer_def obind_cases on_fst_eq on_snd_eq xe_facts simp del: on_pair)
    then show ?thesis using pk_finish_run by (auto simp: answered_package_def)
  qed
  have fin: "answered_package req ''ALLOW'' adm p r p'" if "recorded_run plan adm out rs ri rs'" for adm out
    using that err doc by (cases ri) (auto simp: recorded_run_def answered_package_def)
  show thesis
  proof (rule xe_execute_run [OF wf ex])
    assume "w' = w" "wf_broker b'" "recorded_run plan ''BLOCK'' ''NOT_EXECUTED'' rs ri rs'"
    then show thesis using fin by (intro idle [of "''BLOCK''"]) simp_all
  next
    fix x :: "observation res"
    assume "isolated_ran backend (installer_operation req plan payload now) plan b w (b', w')"
      "recorded_run plan ''ALLOW'' (case x of Inl _ \<Rightarrow> ''FAILED'' | Inr _ \<Rightarrow> ''SUCCEEDED'') rs ri rs'"
    then show thesis
      using fin plan xp_build_fields [OF plan(1)] by (intro ran) (auto simp: installer_ran_def)
  qed
qed

subsection \<open>One installation\<close>

definition same_package :: "package_request \<Rightarrow> package_binding \<Rightarrow> bool" where
  "same_package req b \<longleftrightarrow> pr_registry req = pb_registry b \<and>
     pk_coordinate (pr_package_name req) (pr_version req) = pb_package_coordinate b \<and>
     pr_artifact_sha256 req = pb_artifact_sha256 b \<and> pr_dependency_plan_sha256 req = pb_dependency_plan_sha256 b \<and>
     pr_staged_manifest_sha256 req = pb_staged_manifest_sha256 b \<and> pr_dependency_count req = pb_dependency_count b"

lemma no_mismatch: "mismatch_reasons req b = [] \<longleftrightarrow> same_package req b"
  by (auto simp only: mismatch_reasons_def same_package_def append_is_Nil_conv split: if_splits)

definition call_seen :: "package_request \<Rightarrow> pkg_broker \<Rightarrow> pkg_broker" where
  "call_seen req p = p\<lparr>pk_seen_call_ids := insert (pr_call_id req) (pk_seen_call_ids p)\<rparr>"

text \<open>What a call does to the broker's own state.\<close>

definition install_step :: "pkg_broker \<Rightarrow> (string \<times> json) list res \<Rightarrow> pkg_broker \<Rightarrow> bool" where
  "install_step p r p' \<longleftrightarrow> (\<exists>e. r = Inl e \<and> p' = p) \<or>
     (\<exists>req adm. pr_call_id req \<in> pk_seen_call_ids p \<and> answered_package req ''BLOCK'' adm p r p') \<or>
     (\<exists>req dec adm. pr_call_id req \<notin> pk_seen_call_ids p \<and> answered_package req dec adm (call_seen req p) r p')"

text \<open>The path to the installer: a fresh call whose request names the bound package, one use of a
  \<open>package.install\<close> capability, then the isolated run with its own \<open>process.execute\<close> capability.\<close>

definition package_effect ::
  "(isolated_plan \<Rightarrow> (broker \<times> 'w, observation option) op) \<Rightarrow> package_request \<Rightarrow> pkg_broker \<Rightarrow> broker \<Rightarrow> 'w \<Rightarrow> broker \<times> 'w \<Rightarrow> bool" where
  "package_effect backend request p b w bw' \<longleftrightarrow> (\<exists>req binding plan_sha now sc b1. pr_normalized request = Inr req \<and>
     pr_call_id req \<notin> pk_seen_call_ids p \<and> map_of (pk_bindings p) (pr_workspace_binding_id req) = Some binding \<and>
     same_package req binding \<and> charged b (package_authz req binding plan_sha now) sc b1 \<and>
     installer_ran backend req binding now b1 w bw')"

definition not_admitted :: "(string \<times> json) list res \<Rightarrow> bool" where
  "not_admitted r \<longleftrightarrow> (\<forall>doc. r = Inr doc \<longrightarrow> dget doc ''process_admission_decision'' \<noteq> JStr ''ALLOW'')"

lemma answered_not_admitted: "answered_package req dec adm p r p' \<Longrightarrow> adm \<noteq> ''ALLOW'' \<Longrightarrow> not_admitted r"
  by (auto simp: answered_package_def not_admitted_def pp_as_document_def pp_body_def dget_def split: sum.splits)

lemma on_host_eq: "on_host f ((((b, m), rs), p)) = (r, ((((b', m'), rs'), p'))) \<longleftrightarrow> f b = (r, b') \<and> m' = m \<and> rs' = rs \<and> p' = p"
  by (auto simp: on_host_def on_fst_eq simp del: on_pair)

lemma install_authorized:
  assumes wf: "wf_broker b" and fresh: "pr_call_id req \<notin> pk_seen_call_ids p"
    and bound: "map_of (pk_bindings p) (pr_workspace_binding_id req) = Some binding" "same_package req binding"
    and norm: "pr_normalized request = Inr req"
    and run: "pk_install_bound (\<lambda>rq. on_fst (b_authorize rq)) backend req sha binding now ((((b, w), m), rs), call_seen req p) =
      (r, ((((b', w'), m'), rs'), p'))"
  obtains (idle) dec adm where "w' = w" "wf_broker b'" "adm \<noteq> ''ALLOW''" "answered_package req dec adm (call_seen req p) r p'"
  | (ran) "package_effect backend request p b w (b', w')" "answered_package req ''ALLOW'' ''ALLOW'' (call_seen req p) r p'"
proof -
  let ?rq = "package_authz req binding (package_plan_sha sha binding) now"
  obtain ra b1 where a: "b_authorize ?rq b = (ra, b1)" by (metis prod.collapse)
  have wf1: "wf_broker b1" using steps_b_authorize [OF wf a] wf_bsteps wf by blast
  have host: "on_host (on_fst (b_authorize ?rq)) ((((b, w), m), rs), call_seen req p) = (ra, ((((b1, w), m), rs), call_seen req p))"
    using a by (simp add: on_host_eq on_fst_eq del: on_pair)
  show thesis
  proof (cases "\<exists>d. ra = Inr d \<and> dreq d ''decision'' = Inr (JStr ''ALLOW'')")
    case False
    have "w' = w \<and> b' = b1 \<and> ((\<exists>e. r = Inl e \<and> p' = call_seen req p) \<or> (\<exists>csha reasons.
        pk_finish req sha (Some binding) (package_plan_sha sha binding) csha ''BLOCK'' ZERO_SHA256 ''NOT_REQUESTED'' ''NOT_EXECUTED'' reasons now (call_seen req p) = (r, p')))"
      using run host False
      by (cases ra) (auto simp: pk_install_bound_def Let_def obind_cases on_snd_eq py_eq_text simp del: on_pair split: if_splits)
    then have "w' = w" "b' = b1" "answered_package req ''BLOCK'' ''NOT_REQUESTED'' (call_seen req p) r p'"
      using pk_finish_run by (auto simp: answered_package_def)
    with wf1 show thesis by (intro idle [of "''NOT_REQUESTED''" "''BLOCK''"]) simp_all
  next
    case True
    then obtain d where d: "ra = Inr d" "dreq d ''decision'' = Inr (JStr ''ALLOW'')" by blast
    obtain dr sc where "validate_scope (rq_capability_type ?rq) (JObj (rq_requested_scope ?rq)) = Inr sc"
      using a d(1) by (auto simp: b_authorize_def split: if_splits sum.splits)
    from authorize_charged [OF wf a [unfolded d(1)] d(2) this] have ch: "charged b ?rq sc b1" .
    have inst: "pk_run_installer (\<lambda>rq. on_fst (b_authorize rq)) backend req sha binding (package_plan_sha sha binding) d now ((((b1, w), m), rs), call_seen req p) =
        (r, ((((b', w'), m'), rs'), p'))"
      using run host d by (simp add: pk_install_bound_def Let_def obind_def py_eq_text)
    show thesis
    proof (rule installer_run [OF wf1 inst])
      assume "installer_ran backend req binding now b1 w (b', w')" "answered_package req ''ALLOW'' ''ALLOW'' (call_seen req p) r p'"
      then show thesis using ran norm fresh bound ch unfolding package_effect_def by blast
    qed (use idle in blast)
  qed
qed

lemma mark_seen: "on_snd (omodify (\<lambda>p. p\<lparr>pk_seen_call_ids := insert (pr_call_id req) (pk_seen_call_ids p)\<rparr>)) (s, p) = (Inr (), (s, call_seen req p))"
  by (simp add: on_snd_def call_seen_def)

text \<open>The clock acts on the host's world only.\<close>

lemma pk_install_run:
  assumes wf: "wf_broker b"
    and run: "pk_install (\<lambda>rq. on_fst (b_authorize rq)) backend (on_snd tick) request ((((b, w), m), rs), p) =
      (r, ((((b', w'), m'), rs'), p'))"
  obtains (idle) "w' = w \<or> w' = snd (tick w)" "wf_broker b'" "not_admitted r" "install_step p r p'"
  | (ran) "package_effect backend request p b (snd (tick w)) (b', w')" "install_step p r p'"
proof (cases "pr_normalized request")
  case (Inl e)
  then have "r = Inl e" "b' = b" "w' = w" "p' = p" using run by (auto simp: pk_install_def)
  with wf idle show thesis by (simp add: not_admitted_def install_step_def)
next
  case norm: (Inr req)
  obtain rt w1 where t: "tick w = (rt, w1)" by (metis prod.collapse)
  show thesis
  proof (cases "\<exists>now body. rt = Inr now \<and> 0 \<le> now \<and> pr_safe_body req = Inr body")
    case False
    have "(\<exists>e. r = Inl e) \<and> b' = b \<and> w' = w1 \<and> p' = p"
      using run norm t False
      by (cases rt) (auto simp: pk_install_def obind_cases on_host_eq on_snd_eq pk_now_def simp del: on_pair split: if_splits)
    with wf idle t show thesis by (auto simp: not_admitted_def install_step_def)
  next
    case True
    then obtain now body where now: "rt = Inr now" "0 \<le> now" and body: "pr_safe_body req = Inr body" by blast
    have clock: "on_host (pk_now (on_snd tick)) ((((b, w), m), rs), p) = (Inr now, ((((b, w1), m), rs), p))"
      using t now by (simp add: on_host_eq pk_now_def obind_def on_snd_eq del: on_pair) (simp add: on_snd_def t)
    have block: thesis if "pk_finish req sha bd psha csha ''BLOCK'' isha ''NOT_REQUESTED'' out reasons now q = (r, p')" "b' = b" "w' = w1"
        "q = p \<and> pr_call_id req \<in> pk_seen_call_ids p \<or> q = call_seen req p \<and> pr_call_id req \<notin> pk_seen_call_ids p"
      for sha bd psha csha isha out reasons q
    proof (rule idle)
      note ans = pk_finish_run [OF that(1)]
      show "not_admitted r" by (rule answered_not_admitted [OF ans]) simp
      show "install_step p r p'" using that(4) ans unfolding install_step_def by blast
    qed (use that wf t in simp_all)
    show thesis
    proof (cases "pr_call_id req \<in> pk_seen_call_ids p")
      case True
      with run norm clock body block show thesis
        by (auto simp: pk_install_def obind_def Let_def on_snd_eq simp del: on_pair)
    next
      case fresh: False
      show thesis
      proof (cases "\<exists>binding. map_of (pk_bindings p) (pr_workspace_binding_id req) = Some binding \<and> same_package req binding")
        case False
        then have "\<exists>bd reasons. pk_finish req (canonical_sha256 (JObj body)) bd ZERO_SHA256 ZERO_SHA256 ''BLOCK'' ZERO_SHA256 ''NOT_REQUESTED''
            ''NOT_EXECUTED'' reasons now (call_seen req p) = (r, p') \<and> b' = b \<and> w' = w1"
          using run norm clock body fresh
          by (auto simp: pk_install_def obind_def Let_def mark_seen on_snd_eq no_mismatch simp del: on_pair split: option.splits if_splits)
        with block fresh show thesis by blast
      next
        case True
        then obtain binding where bd: "map_of (pk_bindings p) (pr_workspace_binding_id req) = Some binding" "same_package req binding" by blast
        then have none: "mismatch_reasons req binding = []" by (simp add: no_mismatch)
        have inst: "pk_install_bound (\<lambda>rq. on_fst (b_authorize rq)) backend req (canonical_sha256 (JObj body)) binding now
            ((((b, w1), m), rs), call_seen req p) = (r, ((((b', w'), m'), rs'), p'))"
          using run norm clock body fresh bd(1) none by (simp add: pk_install_def obind_def Let_def mark_seen del: on_pair)
        show thesis
        proof (rule install_authorized [OF wf fresh bd norm inst])
          fix dec adm
          assume "w' = w1" "wf_broker b'" "adm \<noteq> ''ALLOW''" and ans: "answered_package req dec adm (call_seen req p) r p'"
          moreover have "install_step p r p'" using ans fresh unfolding install_step_def by blast
          ultimately show thesis using idle t answered_not_admitted [OF ans] by simp
        next
          assume "package_effect backend request p b w1 (b', w')" and ans: "answered_package req ''ALLOW'' ''ALLOW'' (call_seen req p) r p'"
          moreover have "install_step p r p'" using ans fresh unfolding install_step_def by blast
          ultimately show thesis using ran t by simp
        qed
      qed
    qed
  qed
qed

subsection \<open>Runs of the broker\<close>

text \<open>Between calls the host, the capability broker, the mediator and the isolated broker may change in any way.\<close>

inductive pkg_reach :: "'s pkg_system \<Rightarrow> bool" where
  init: "pkg_init bindings = Inr p \<Longrightarrow> pkg_reach (s, p)"
| install: "pkg_reach s \<Longrightarrow> pkg_reach (snd (pk_install authorize backend clock request s))"
| other: "pkg_reach (s, p) \<Longrightarrow> pkg_reach (s', p)"

definition admitted :: "package_receipt list \<Rightarrow> package_receipt list" where
  "admitted rs = filter (\<lambda>r. pp_package_decision r = ''ALLOW'') rs"

definition wf_pkg :: "pkg_broker \<Rightarrow> bool" where
  "wf_pkg p \<longleftrightarrow> list_all wf_package_receipt (pk_receipts p) \<and> distinct (map pp_call_id (admitted (pk_receipts p))) \<and>
     (\<forall>r \<in> set (pk_receipts p). pp_call_id r \<in> pk_seen_call_ids p)"

lemma install_step_wf: "install_step p r p' \<Longrightarrow> wf_pkg p \<Longrightarrow> wf_pkg p'"
  by (cases r) (auto simp: install_step_def answered_package_def wf_pkg_def admitted_def call_seen_def)

text \<open>The step of a call, whatever authorization, back end and clock are.\<close>

lemma host_keeps_broker: "on_host f s = (r, s') \<Longrightarrow> snd s' = snd s" "on_fst g s = (r', s') \<Longrightarrow> snd s' = snd s"
  by (auto simp: on_host_def on_fst_def split: prod.splits)

lemma on_snd_snd: "on_snd f s = (r, s') \<Longrightarrow> f (snd s) = (r, snd s')"
  by (auto simp: on_snd_def split: prod.splits)

lemma answered_Inl [simp]: "answered_package req dec adm p (Inl e) p' \<longleftrightarrow> p' = p"
  by (simp add: answered_package_def)

lemma installer_step:
  "pk_run_installer authorize backend req sha bd psha cap now s = (r, s') \<Longrightarrow> \<exists>adm. answered_package req ''ALLOW'' adm (snd s) r (snd s')"
  unfolding pk_run_installer_def obind_cases [of "olift _"] obind_cases [of "on_fst _"]
  by (auto dest!: host_keeps_broker on_snd_snd pk_finish_run simp del: on_pair)

lemma bound_step:
  "pk_install_bound authorize backend req sha bd now s = (r, s') \<Longrightarrow> \<exists>dec adm. answered_package req dec adm (snd s) r (snd s')"
  unfolding pk_install_bound_def Let_def obind_cases [of "olift _"] obind_cases [of "on_host _"]
  by (auto dest!: host_keeps_broker on_snd_snd pk_finish_run installer_step split: if_splits simp: obind_cases simp del: on_pair)
    (intro exI, assumption)+

lemma pk_install_step:
  assumes "pk_install authorize backend clock request s = (r, s')"
  shows "install_step (snd s) r (snd s')"
proof -
  have mark: "on_snd (omodify (\<lambda>p. p\<lparr>pk_seen_call_ids := insert (pr_call_id req) (pk_seen_call_ids p)\<rparr>)) t = (Inr (), (fst t, call_seen req (snd t)))"
    for req t by (simp add: on_snd_def call_seen_def)
  obtain rn s1 where clock: "on_host (pk_now clock) s = (rn, s1)" by (metis prod.collapse)
  have s1: "snd s1 = snd s" using host_keeps_broker(1) [OF clock] .
  show ?thesis
  proof (cases "\<exists>req now body. pr_normalized request = Inr req \<and> rn = Inr now \<and> pr_safe_body req = Inr body")
    case False
    have "(\<exists>e. r = Inl e) \<and> snd s' = snd s"
      using assms clock s1 False
      by (cases "pr_normalized request"; cases rn; cases "pr_safe_body (projr (pr_normalized request))")
        (auto simp: pk_install_def obind_def intro: sym)
    then show ?thesis by (auto simp: install_step_def)
  next
    case True
    then obtain req now body where ok: "pr_normalized request = Inr req" "rn = Inr now" "pr_safe_body req = Inr body" by blast
    let ?sha = "canonical_sha256 (JObj body)" and ?p = "call_seen req (snd s)"
    have replay: "pr_call_id req \<in> pk_seen_call_ids (snd s) \<Longrightarrow> \<exists>adm. answered_package req ''BLOCK'' adm (snd s) r (snd s')"
      using assms clock s1 ok by (auto simp: pk_install_def obind_def Let_def dest!: on_snd_snd pk_finish_run simp del: on_pair)
    have "\<exists>dec adm. answered_package req dec adm ?p r (snd s')" if fresh: "pr_call_id req \<notin> pk_seen_call_ids (snd s)"
    proof (cases "\<exists>bd. map_of (pk_bindings (snd s)) (pr_workspace_binding_id req) = Some bd \<and> mismatch_reasons req bd = []")
      case True
      then obtain bd where bd: "map_of (pk_bindings (snd s)) (pr_workspace_binding_id req) = Some bd" "mismatch_reasons req bd = []" by blast
      then have "pk_install_bound authorize backend req ?sha bd now (fst s1, ?p) = (r, s')"
        using assms clock s1 ok fresh by (simp add: pk_install_def obind_def Let_def mark del: on_pair)
      from bound_step [OF this] show ?thesis by simp
    next
      case False
      have "\<exists>bd reasons. on_snd (pk_finish req ?sha bd ZERO_SHA256 ZERO_SHA256 ''BLOCK'' ZERO_SHA256 ''NOT_REQUESTED'' ''NOT_EXECUTED''
          reasons now) (fst s1, ?p) = (r, s')"
        using assms clock s1 ok fresh False
        by (cases "map_of (pk_bindings (snd s)) (pr_workspace_binding_id req)")
          (auto simp: pk_install_def obind_def Let_def mark simp del: on_pair)
      then show ?thesis by (auto dest!: on_snd_snd pk_finish_run simp del: on_pair) (intro exI, assumption)
    qed
    with replay show ?thesis unfolding install_step_def by blast
  qed
qed

lemma pkg_reach_wf: "pkg_reach s \<Longrightarrow> wf_pkg (snd s)"
proof (induction rule: pkg_reach.induct)
  case (init bindings p s)
  then show ?case by (auto simp: pkg_init_def rbind_eq_Inr wf_pkg_def admitted_def split: if_splits)
next
  case (install s authorize backend clock request)
  obtain r s' where "pk_install authorize backend clock request s = (r, s')" by (metis prod.collapse)
  with install_step_wf [OF pk_install_step] install.IH show ?case by simp
qed simp

subsection \<open>Properties of package installation\<close>

text \<open>C34: A package reaches the installer only through both gates. Whatever the host, the back end and the clock
  of the host do, a call of \<open>install\<close> either leaves the host as it was, apart from the reading of the clock, and its
  receipt, if there is one, does not say that the process was admitted; or the call identifier is fresh, the
  request names registry, coordinate, artifact, dependency plan, manifest and count of the prepared binding
  exactly, one use of a \<open>package.install\<close> capability was charged, then one use of a \<open>process.execute\<close> capability for
  the plan built from that binding (its image, its workspace, the fixed installer command and profile), and
  the back end ran once on that plan. In both cases the broker's own state makes one step.\<close>

theorem package_install_gated:
  assumes "broker_reach b"
    and "pk_install (\<lambda>rq. on_fst (b_authorize rq)) backend (on_snd tick) request ((((b, w), m), rs), p) =
      (r, ((((b', w'), m'), rs'), p'))"
  shows "((w' = w \<or> w' = snd (tick w)) \<and> not_admitted r \<or> package_effect backend request p b (snd (tick w)) (b', w')) \<and>
    install_step p r p'"
  by (rule pk_install_run [OF reach_wf [OF assms(1)] assms(2)]) simp_all

text \<open>In every run of the package install broker, whatever its collaborators do between and during its calls,
  all its receipts are accepted by the verifier, and a call identifier passes the package gate at most once.\<close>

lemma package_calls_once:
  assumes "pkg_reach s"
  shows "(\<forall>x \<in> set (pk_receipts (snd s)). pk_verify_receipt (pp_as_document x) = Inr (pp_as_document x) \<and>
      pp_call_id x \<in> pk_seen_call_ids (snd s)) \<and>
    distinct (map pp_call_id (admitted (pk_receipts (snd s))))"
  using pkg_reach_wf [OF assms] pk_verify_receipt_ok by (auto simp: wf_pkg_def list_all_iff)

definition demo_binding :: package_binding where
  "demo_binding = (let b = \<lparr>pb_binding_id = ''ws:1'', pb_host_workspace = ''/srv/ws'', pb_registry = ''pypi.org'', pb_package_name = ''demo'',
     pb_version = ''1.0'', pb_artifact_sha256 = ZERO_SHA256, pb_dependency_plan_sha256 = ZERO_SHA256, pb_staged_manifest_sha256 = ZERO_SHA256,
     pb_dependency_count = 0, pb_installer_image_id = ''sha256:'' @ ZERO_SHA256, pb_binding_sha256 = []\<rparr>
     in b\<lparr>pb_binding_sha256 := canonical_sha256 (JObj (pb_safe_body b))\<rparr>)"

definition demo_package_request :: package_request where
  "demo_package_request = \<lparr>pr_call_id = ''call:1'', pr_subject_id = ''agent:a'', pr_policy_sha256 = ZERO_SHA256, pr_workspace_binding_id = ''ws:1'',
     pr_registry = ''pypi.org'', pr_package_name = ''demo'', pr_version = ''1.0'', pr_artifact_sha256 = ZERO_SHA256,
     pr_dependency_plan_sha256 = ZERO_SHA256, pr_staged_manifest_sha256 = ZERO_SHA256, pr_dependency_count = 0\<rparr>"

lemma demo_binding_built: "pb_build demo_binding = Inr demo_binding"
proof -
  have "pk_ident ''ws:1'' ''binding_id'' = Inr ''ws:1''" "pk_registry ''pypi.org'' = Inr ''pypi.org''" "pk_package ''demo'' = Inr ''demo''"
      "pk_version ''1.0'' = Inr ''1.0''" "py_len ''/srv/ws'' = 7" "image_re (''sha256:'' @ ZERO_SHA256)" "is_sha256 ZERO_SHA256"
    by code_simp+
  then show ?thesis
    by (simp add: pb_build_def demo_binding_def Let_def pk_sha_def pk_bounded_def MAX_DEPENDENCIES_def starts_with_def pb_safe_body_def pb_package_coordinate_def)
qed

definition demo_pkg :: pkg_broker where
  "demo_pkg = \<lparr>pk_bindings = [(pb_binding_id demo_binding, demo_binding)], pk_seen_call_ids = {}, pk_receipts = []\<rparr>"

lemma demo_pkg_reach: "pkg_reach (s, demo_pkg)"
  by (rule pkg_reach.init [of "[demo_binding]"]) (simp add: pkg_init_def demo_binding_built demo_pkg_def)

definition demo_clock :: "(nat, int) op" where
  "demo_clock = oret 30"

definition demo_install :: "((broker \<times> nat) pkg_system, (string \<times> json) list) op" where
  "demo_install = pk_install (\<lambda>rq. on_fst (b_authorize rq)) (\<lambda>_. oret None) (on_snd demo_clock) demo_package_request"

text \<open>The demo broker holds no \<open>package.install\<close> capability, so the call leaves the host alone.\<close>

theorem package_install_gated_witness:
  "snd (fst (fst (fst (snd (demo_install ((((demo_broker, 7), mediator_init), []), demo_pkg)))))) = 7"
proof -
  obtain r b' w' m' rs' p' where run: "demo_install ((((demo_broker, 7), mediator_init), []), demo_pkg) = (r, ((((b', w'), m'), rs'), p'))"
    by (metis prod.collapse)
  have "\<not> charged demo_broker (package_authz req binding psha now) sc b1" for req binding psha now sc b1
    by (simp add: charged_def eligible_def demo_states new_state_def package_authz_def)
  then have "\<not> package_effect backend req demo_pkg demo_broker w bw"
    for backend :: "isolated_plan \<Rightarrow> (broker \<times> nat, observation option) op" and req w bw
    by (simp add: package_effect_def)
  then show ?thesis
    using package_install_gated [OF demo_reach run [unfolded demo_install_def]] by (simp add: run demo_clock_def)
qed

end
