(* ===== verification/File_Mutation.thy ===== *)
theory File_Mutation
  imports Isolated_Execution
begin

section \<open>File mutation broker\<close>

text \<open>
  Model of src/sdk/liminal_file_mutation_broker: root bindings read from documents, replace requests, the
  authorization that issues a lease on an ALLOW of the capability broker, and the consumption of the lease by
  the trusted adapter. A call acts on the capability broker, the host's world \<open>'w\<close> that its clock reads, and
  the broker's own state.
\<close>

subsection \<open>Fields\<close>

abbreviation FileMutationError :: "string \<Rightarrow> exn" where
  "FileMutationError code \<equiv> Exn ''FileMutationError'' code"

definition FILE_AUTH_SCHEMA :: string where
  "FILE_AUTH_SCHEMA = ''liminal-file-mutation-authorization-receipt-v0.1''"

definition FILE_BINDING_SCHEMA :: string where
  "FILE_BINDING_SCHEMA = ''liminal-file-root-binding-v0.1''"

definition FILE_MAX_LEASE_TTL_SECONDS :: int where
  "FILE_MAX_LEASE_TTL_SECONDS = 30"

definition MAX_CONTENT_BYTES :: int where
  "MAX_CONTENT_BYTES = 8 * 1024 * 1024"

definition FILE_AUTHORITY :: json where
  "FILE_AUTHORITY = JObj
     [(''mode'', JStr ''file_mutation_governance_only''), (''binding_registration'', JBool False), (''filesystem_access'', JBool False),
      (''file_create'', JBool False), (''file_delete'', JBool False), (''file_rename'', JBool False),
      (''existing_file_replace_admission'', JBool True), (''opaque_lease_issue'', JBool True),
      (''trusted_adapter_authentication'', JBool True), (''network_authority'', JBool False), (''process_authority'', JBool False),
      (''deployment'', JBool False)]"

fun fm_ident :: "json \<Rightarrow> string \<Rightarrow> string res" where
  "fm_ident (JStr v) name =
     (if py_strip v = [] \<or> v \<noteq> py_strip v \<or> CHR 0x00 \<in> set v then Inl (FileMutationError (''invalid_'' @ name))
      else if \<not> ident_re v then Inl (FileMutationError (''invalid_'' @ name)) else Inr v)"
| "fm_ident v name = Inl (FileMutationError (''invalid_'' @ name))"

fun fm_sha :: "json \<Rightarrow> string \<Rightarrow> string res" where
  "fm_sha (JStr v) name = (if \<not> is_sha256 v then Inl (FileMutationError (''invalid_'' @ name)) else Inr v)"
| "fm_sha v name = Inl (FileMutationError (''invalid_'' @ name))"

fun fm_positive :: "json \<Rightarrow> string \<Rightarrow> int \<Rightarrow> int res" where
  "fm_positive (JInt v) name maximum =
     (if v < 1 then Inl (FileMutationError (''invalid_'' @ name))
      else if v > maximum then Inl (FileMutationError (''invalid_'' @ name)) else Inr v)"
| "fm_positive v name maximum = Inl (FileMutationError (''invalid_'' @ name))"

text \<open>\<open>^[A-Za-z0-9][A-Za-z0-9_.:@-]{0,95}$\<close>\<close>

fun prefix_re :: "string \<Rightarrow> bool" where
  "prefix_re [] = False"
| "prefix_re (c # cs) = (is_alnum c \<and> length cs \<le> 95 \<and> list_all (\<lambda>c. is_alnum c \<or> c \<in> set ''_.:@-'') cs)"

definition double_slash :: "string \<Rightarrow> bool" where
  "double_slash v \<longleftrightarrow> list_ex (\<lambda>(a, b). a = CHR ''/'' \<and> b = CHR ''/'') (zip v (tl v))"

text \<open>Text is its UTF-8 encoding, so \<open>len(value.encode("utf-8"))\<close> is the length.\<close>

definition normalize_relative_path :: "string \<Rightarrow> string res" where
  "normalize_relative_path value =
     (if value = [] \<or> value \<noteq> py_strip value \<or> CHR 0x00 \<in> set value then Inl (FileMutationError ''invalid_relative_path'')
      else if starts_with ''/'' value \<or> CHR 0x5C \<in> set value \<or> double_slash value then Inl (FileMutationError ''invalid_relative_path'')
      else (let parts = split_on (CHR ''/'') value in
        if list_ex (\<lambda>part. part \<in> set [[], ''.'', ''..'']) parts then Inl (FileMutationError ''invalid_relative_path'')
        else if length parts > 64 \<or> length value > 1024 then Inl (FileMutationError ''invalid_relative_path'')
        else if list_ex (\<lambda>part. length part > 255) parts then Inl (FileMutationError ''invalid_relative_path'')
        else Inr (join ''/'' parts)))"

definition fm_adapter_digest :: "string \<Rightarrow> string res" where
  "fm_adapter_digest token =
     (if token = [] then Inl (FileMutationError ''invalid_adapter_token'') else Inr (sha256_hex token))"

subsection \<open>Bindings and requests\<close>

record file_binding =
  fr_root_id :: string
  fr_logical_prefix :: string
  fr_max_content_bytes :: int
  fr_binding_sha256 :: string

definition fr_body :: "file_binding \<Rightarrow> (string \<times> json) list" where
  "fr_body b =
     [(''schema'', JStr FILE_BINDING_SCHEMA), (''root_id'', JStr (fr_root_id b)), (''logical_prefix'', JStr (fr_logical_prefix b)),
      (''max_content_bytes'', JInt (fr_max_content_bytes b)), (''authority'', FILE_AUTHORITY)]"

definition fr_as_document :: "file_binding \<Rightarrow> (string \<times> json) list" where
  "fr_as_document b = fr_body b @ [(''binding_sha256'', JStr (fr_binding_sha256 b))]"

definition fr_build :: "json \<Rightarrow> json \<Rightarrow> json \<Rightarrow> file_binding res" where
  "fr_build root_id logical_prefix max_content_bytes =
     rbind (fm_ident root_id ''root_id'') (\<lambda>root.
     rbind (case logical_prefix of
              JStr p \<Rightarrow> if \<not> prefix_re p then Inl (FileMutationError ''invalid_logical_prefix'') else Inr p
            | _ \<Rightarrow> Inl (FileMutationError ''invalid_logical_prefix'')) (\<lambda>prefix.
     rbind (fm_positive max_content_bytes ''max_content_bytes'' MAX_CONTENT_BYTES) (\<lambda>limit.
       let item = \<lparr>fr_root_id = root, fr_logical_prefix = prefix, fr_max_content_bytes = limit, fr_binding_sha256 = []\<rparr>
       in Inr (item\<lparr>fr_binding_sha256 := canonical_sha256 (JObj (fr_body item))\<rparr>))))"

definition fr_from_document :: "(string \<times> json) list \<Rightarrow> file_binding res" where
  "fr_from_document raw =
     (if \<not> same_keys raw [''schema'', ''root_id'', ''logical_prefix'', ''max_content_bytes'', ''authority'', ''binding_sha256''] \<or>
         \<not> py_eq (dget raw ''schema'') (JStr FILE_BINDING_SCHEMA) \<or> \<not> py_eq (dget raw ''authority'') FILE_AUTHORITY
      then Inl (FileMutationError ''binding_schema_mismatch'')
      else rbind (fr_build (dget raw ''root_id'') (dget raw ''logical_prefix'') (dget raw ''max_content_bytes'')) (\<lambda>item.
        rbind (fm_sha (dget raw ''binding_sha256'') ''binding_sha256'') (\<lambda>sha.
        if fr_binding_sha256 item \<noteq> sha then Inl (FileMutationError ''binding_digest_mismatch'') else Inr item)))"

record file_request =
  fq_call_id :: string
  fq_subject_id :: string
  fq_policy_sha256 :: string
  fq_root_id :: string
  fq_relative_path :: string
  fq_expected_before_sha256 :: string
  fq_desired_content_sha256 :: string
  fq_content_length :: int

definition fq_normalized :: "file_request \<Rightarrow> file_request res" where
  "fq_normalized r =
     rbind (fm_ident (JStr (fq_call_id r)) ''call_id'') (\<lambda>call_id.
     rbind (fm_ident (JStr (fq_subject_id r)) ''subject_id'') (\<lambda>subject_id.
     rbind (fm_sha (JStr (fq_policy_sha256 r)) ''policy_sha256'') (\<lambda>policy.
     rbind (fm_ident (JStr (fq_root_id r)) ''root_id'') (\<lambda>root_id.
     rbind (normalize_relative_path (fq_relative_path r)) (\<lambda>path.
     rbind (fm_sha (JStr (fq_expected_before_sha256 r)) ''expected_before_sha256'') (\<lambda>before.
     rbind (fm_sha (JStr (fq_desired_content_sha256 r)) ''desired_content_sha256'') (\<lambda>desired.
     rbind (fm_positive (JInt (fq_content_length r)) ''content_length'' MAX_CONTENT_BYTES) (\<lambda>len.
       Inr \<lparr>fq_call_id = call_id, fq_subject_id = subject_id, fq_policy_sha256 = policy, fq_root_id = root_id,
            fq_relative_path = path, fq_expected_before_sha256 = before, fq_desired_content_sha256 = desired,
            fq_content_length = len\<rparr>))))))))"

definition fq_body :: "file_request \<Rightarrow> (string \<times> json) list res" where
  "fq_body request = rbind (fq_normalized request) (\<lambda>r. Inr
     [(''call_id'', JStr (fq_call_id r)), (''subject_id'', JStr (fq_subject_id r)), (''policy_sha256'', JStr (fq_policy_sha256 r)),
      (''root_id'', JStr (fq_root_id r)), (''relative_path_sha256'', JStr (canonical_sha256 (JStr (fq_relative_path r)))),
      (''expected_before_sha256'', JStr (fq_expected_before_sha256 r)),
      (''desired_content_sha256'', JStr (fq_desired_content_sha256 r)), (''content_length'', JInt (fq_content_length r)),
      (''operation'', JStr ''replace_existing_regular_file'')])"

subsection \<open>Receipts, leases and the broker's state\<close>

record file_receipt =
  fa_authorization_id :: string
  fa_call_id :: string
  fa_subject_id :: string
  fa_request_sha256 :: string
  fa_binding_sha256 :: string
  fa_logical_path_sha256 :: string
  fa_expected_before_sha256 :: string
  fa_desired_content_sha256 :: string
  fa_content_length :: int
  fa_capability_receipt_sha256 :: string
  fa_decision :: string
  fa_reason_codes :: "string list"
  fa_lease_id :: "string option"
  fa_lease_expires_at_unix :: "int option"
  fa_at_unix :: int
  fa_receipt_sha256 :: string

definition jopt_int :: "int option \<Rightarrow> json" where
  "jopt_int v = (case v of None \<Rightarrow> JNull | Some i \<Rightarrow> JInt i)"

definition fa_body :: "file_receipt \<Rightarrow> (string \<times> json) list" where
  "fa_body r =
     [(''schema'', JStr FILE_AUTH_SCHEMA), (''authorization_id'', JStr (fa_authorization_id r)), (''call_id'', JStr (fa_call_id r)),
      (''subject_id'', JStr (fa_subject_id r)), (''request_sha256'', JStr (fa_request_sha256 r)),
      (''binding_sha256'', JStr (fa_binding_sha256 r)), (''logical_path_sha256'', JStr (fa_logical_path_sha256 r)),
      (''expected_before_sha256'', JStr (fa_expected_before_sha256 r)), (''desired_content_sha256'', JStr (fa_desired_content_sha256 r)),
      (''content_length'', JInt (fa_content_length r)), (''capability_receipt_sha256'', JStr (fa_capability_receipt_sha256 r)),
      (''decision'', JStr (fa_decision r)), (''reason_codes'', JList (map JStr (fa_reason_codes r))), (''lease_id'', jopt (fa_lease_id r)),
      (''lease_expires_at_unix'', jopt_int (fa_lease_expires_at_unix r)), (''at_unix'', JInt (fa_at_unix r)), (''authority'', FILE_AUTHORITY)]"

definition fa_as_document :: "file_receipt \<Rightarrow> (string \<times> json) list" where
  "fa_as_document r = fa_body r @ [(''receipt_sha256'', JStr (fa_receipt_sha256 r))]"

record file_lease =
  fl_lease_id :: string
  fl_request :: file_request
  fl_binding :: file_binding
  fl_logical_path :: string
  fl_capability_id :: string
  fl_capability_receipt_sha256 :: string
  fl_authorization_receipt_sha256 :: string
  fl_issued_at_unix :: int
  fl_expires_at_unix :: int
  fl_consumed :: bool

record file_reference =
  ff_lease_id :: string
  ff_root_id :: string
  ff_relative_path :: string
  ff_expected_before_sha256 :: string
  ff_desired_content_sha256 :: string
  ff_content_length :: int
  ff_binding_sha256 :: string
  ff_authorization_receipt_sha256 :: string

record file_broker =
  fb_lease_ttl_seconds :: int
  fb_adapter_token_sha256 :: string
  fb_bindings :: "(string \<times> file_binding) list"
  fb_leases :: "(string \<times> file_lease) list"
  fb_seen_call_ids :: "string set"
  fb_receipts :: "file_receipt list"
  fb_contained :: bool

fun fb_collect :: "file_binding list \<Rightarrow> (string \<times> file_binding) list \<Rightarrow> (string \<times> file_binding) list res" where
  "fb_collect [] by_id = Inr by_id"
| "fb_collect (item # items) by_id =
     (if map_of by_id (fr_root_id item) \<noteq> None then Inl (FileMutationError ''duplicate_root_id'')
      else fb_collect items (AList.update (fr_root_id item) item by_id))"

definition file_broker_init :: "(string \<times> json) list list \<Rightarrow> string \<Rightarrow> int \<Rightarrow> file_broker res" where
  "file_broker_init bindings adapter_token_sha256 lease_ttl_seconds =
     rbind (fm_positive (JInt lease_ttl_seconds) ''lease_ttl_seconds'' FILE_MAX_LEASE_TTL_SECONDS) (\<lambda>ttl.
     rbind (fm_sha (JStr adapter_token_sha256) ''adapter_token_sha256'') (\<lambda>token.
     rbind (rmap fr_from_document bindings) (\<lambda>parsed.
     if parsed = [] then Inl (FileMutationError ''bindings_required'')
     else rbind (fb_collect parsed []) (\<lambda>by_id.
       Inr \<lparr>fb_lease_ttl_seconds = ttl, fb_adapter_token_sha256 = token, fb_bindings = by_id, fb_leases = [], fb_seen_call_ids = {},
            fb_receipts = [], fb_contained = False\<rparr>))))"

subsection \<open>Operations\<close>

definition fb_enter_containment :: "string \<Rightarrow> (file_broker, unit) op" where
  "fb_enter_containment incident_receipt_sha256 =
     obind (olift (fm_sha (JStr incident_receipt_sha256) ''incident_receipt_sha256'')) (\<lambda>_. omodify (\<lambda>f. f\<lparr>fb_contained := True\<rparr>))"

definition fb_exit_containment :: "string \<Rightarrow> (file_broker, unit) op" where
  "fb_exit_containment human_release_receipt_sha256 =
     obind (olift (fm_sha (JStr human_release_receipt_sha256) ''human_release_receipt_sha256'')) (\<lambda>_. omodify (\<lambda>f. f\<lparr>fb_contained := False\<rparr>))"

type_synonym 'w file_system = "(broker \<times> 'w) \<times> file_broker"

definition fm_now :: "('w, int) op \<Rightarrow> ('w, int) op" where
  "fm_now clock = obind clock (\<lambda>value. if value < 0 then oraise (FileMutationError ''invalid_host_clock'') else oret value)"

definition fb_receipt ::
  "file_request \<Rightarrow> string \<Rightarrow> string \<Rightarrow> string \<Rightarrow> string \<Rightarrow> string \<Rightarrow> string list \<Rightarrow> string option \<Rightarrow> int option \<Rightarrow> int \<Rightarrow>
   (file_broker, (string \<times> json) list) op" where
  "fb_receipt req request_sha binding_sha logical_path_sha capability_receipt_sha decision reasons lease_id lease_expires now f =
     (let base = \<lparr>fa_authorization_id = ''file-auth:'' @ nat_str (length (fb_receipts f) + 1), fa_call_id = fq_call_id req,
            fa_subject_id = fq_subject_id req, fa_request_sha256 = request_sha, fa_binding_sha256 = binding_sha,
            fa_logical_path_sha256 = logical_path_sha, fa_expected_before_sha256 = fq_expected_before_sha256 req,
            fa_desired_content_sha256 = fq_desired_content_sha256 req, fa_content_length = fq_content_length req,
            fa_capability_receipt_sha256 = capability_receipt_sha, fa_decision = decision, fa_reason_codes = sort (remdups reasons),
            fa_lease_id = lease_id, fa_lease_expires_at_unix = lease_expires, fa_at_unix = now, fa_receipt_sha256 = []\<rparr>;
          receipt = base\<lparr>fa_receipt_sha256 := canonical_sha256 (JObj (fa_body base))\<rparr>
      in (Inr (fa_as_document receipt), f\<lparr>fb_receipts := fb_receipts f @ [receipt]\<rparr>))"

definition file_authz :: "file_request \<Rightarrow> string \<Rightarrow> file_binding \<Rightarrow> string \<Rightarrow> int \<Rightarrow> authz_request" where
  "file_authz req request_sha binding logical_path now =
     \<lparr>rq_subject_id = fq_subject_id req, rq_capability_type = ''filesystem.write_outside_workspace'', rq_policy_sha256 = fq_policy_sha256 req,
      rq_requested_scope = [(''paths'', JList [JStr logical_path])],
      rq_action = [(''operation'', JStr ''replace_existing_regular_file''), (''call_id'', JStr (fq_call_id req)),
        (''request_sha256'', JStr request_sha), (''binding_sha256'', JStr (fr_binding_sha256 binding)),
        (''logical_path_sha256'', JStr (canonical_sha256 (JStr logical_path))),
        (''expected_before_sha256'', JStr (fq_expected_before_sha256 req)),
        (''desired_content_sha256'', JStr (fq_desired_content_sha256 req)), (''content_length'', JInt (fq_content_length req))],
      rq_at_unix = now, rq_recorder_event_id = None, rq_recorder_entry_sha256 = None\<rparr>"

definition file_lease_id :: "file_broker \<Rightarrow> file_request \<Rightarrow> string \<Rightarrow> string" where
  "file_lease_id f req logical_path_sha =
     ''file-lease:'' @ nat_str (length (fb_leases f) + 1) @ '':'' @ take 16 (canonical_sha256 (JObj
       [(''call'', JStr (fq_call_id req)), (''path'', JStr logical_path_sha)]))"

text \<open>\<open>authorize\<close> after an ALLOW: the receipt, then the lease that names it.\<close>

definition fb_issue ::
  "file_request \<Rightarrow> string \<Rightarrow> file_binding \<Rightarrow> string \<Rightarrow> (string \<times> json) list \<Rightarrow> int \<Rightarrow> (file_broker, (string \<times> json) list) op" where
  "fb_issue req request_sha binding logical_path capability now f =
     (let logical_path_sha = canonical_sha256 (JStr logical_path);
          lease_id = file_lease_id f req logical_path_sha;
          expires = now + fb_lease_ttl_seconds f
      in obind (olift (dreq capability ''receipt_sha256'')) (\<lambda>receipt_sha.
         obind (fb_receipt req request_sha (fr_binding_sha256 binding) logical_path_sha (jstr receipt_sha) ''ALLOW''
           [''root_binding_match'', ''file_capability_admitted'', ''opaque_lease_issued''] (Some lease_id) (Some expires) now) (\<lambda>receipt.
         obind (olift (dreq capability ''capability_id'')) (\<lambda>capability_id.
         obind (omodify (\<lambda>f. f\<lparr>fb_leases := AList.update lease_id
             \<lparr>fl_lease_id = lease_id, fl_request = req, fl_binding = binding, fl_logical_path = logical_path,
              fl_capability_id = jstr capability_id, fl_capability_receipt_sha256 = jstr receipt_sha,
              fl_authorization_receipt_sha256 = jstr (dget receipt ''receipt_sha256''), fl_issued_at_unix = now,
              fl_expires_at_unix = expires, fl_consumed = False\<rparr> (fb_leases f)\<rparr>)) (\<lambda>_. oret receipt)))) f)"

text \<open>\<open>authorize\<close> once the request fits a binding: the capability broker decides.\<close>

definition fb_admit :: "file_request \<Rightarrow> string \<Rightarrow> file_binding \<Rightarrow> string \<Rightarrow> int \<Rightarrow> ('w file_system, (string \<times> json) list) op" where
  "fb_admit req request_sha b logical_path now =
     obind (on_fst (on_fst (b_authorize (file_authz req request_sha b logical_path now)))) (\<lambda>capability.
     obind (olift (dreq capability ''decision'')) (\<lambda>decision.
     if \<not> py_eq decision (JStr ''ALLOW'')
     then obind (olift (dreq capability ''receipt_sha256'')) (\<lambda>receipt_sha.
       obind (olift (dreq capability ''reason_codes'')) (\<lambda>reasons.
       on_snd (fb_receipt req request_sha (fr_binding_sha256 b) (canonical_sha256 (JStr logical_path)) (jstr receipt_sha) ''BLOCK''
         (jstrs reasons) None None now)))
     else on_snd (fb_issue req request_sha b logical_path capability now)))"

definition fb_authorize :: "('w, int) op \<Rightarrow> file_request \<Rightarrow> ('w file_system, (string \<times> json) list) op" where
  "fb_authorize clock request =
     obind (olift (fq_normalized request)) (\<lambda>req.
     obind (on_fst (on_snd (fm_now clock))) (\<lambda>now.
     obind (olift (fq_body req)) (\<lambda>body s.
       let request_sha = canonical_sha256 (JObj body);
           binding = map_of (fb_bindings (snd s)) (fq_root_id req);
           logical_path = (case binding of None \<Rightarrow> [] | Some b \<Rightarrow> fr_logical_prefix b @ ''/'' @ fq_relative_path req);
           logical_path_sha = (if logical_path \<noteq> [] then canonical_sha256 (JStr logical_path) else ZERO_SHA256);
           blocked = (\<lambda>binding_sha path_sha reasons.
             on_snd (fb_receipt req request_sha binding_sha path_sha ZERO_SHA256 ''BLOCK'' reasons None None now))
       in if fq_call_id req \<in> fb_seen_call_ids (snd s) then blocked ZERO_SHA256 logical_path_sha [''replayed_call_id''] s
          else obind (on_snd (omodify (\<lambda>f. f\<lparr>fb_seen_call_ids := insert (fq_call_id req) (fb_seen_call_ids f)\<rparr>))) (\<lambda>_.
            if fb_contained (snd s) then blocked ZERO_SHA256 logical_path_sha [''containment_active'']
            else (case binding of
              None \<Rightarrow> blocked ZERO_SHA256 ZERO_SHA256 [''unknown_root_binding'']
            | Some b \<Rightarrow>
                if fq_content_length req > fr_max_content_bytes b
                then blocked (fr_binding_sha256 b) logical_path_sha [''content_length_exceeds_binding'']
                else fb_admit req request_sha b logical_path now)) s)))"

text \<open>The status of the capability in the state document of the capability broker.\<close>

definition capability_still_active :: "broker \<Rightarrow> string \<Rightarrow> int \<Rightarrow> bool" where
  "capability_still_active b capability_id now =
     (case find (\<lambda>item. py_eq (dget item ''capability_id'') (JStr capability_id)) (b_capabilities b) of
        None \<Rightarrow> False
      | Some item \<Rightarrow> py_eq (dget item ''status'') (JStr ''active'') \<and>
          (case dget item ''expires_at_unix'' of JInt t \<Rightarrow> now < t | _ \<Rightarrow> False))"

definition file_reference_of :: "file_lease \<Rightarrow> file_reference" where
  "file_reference_of lease =
     \<lparr>ff_lease_id = fl_lease_id lease, ff_root_id = fq_root_id (fl_request lease), ff_relative_path = fq_relative_path (fl_request lease),
      ff_expected_before_sha256 = fq_expected_before_sha256 (fl_request lease),
      ff_desired_content_sha256 = fq_desired_content_sha256 (fl_request lease), ff_content_length = fq_content_length (fl_request lease),
      ff_binding_sha256 = fr_binding_sha256 (fl_binding lease), ff_authorization_receipt_sha256 = fl_authorization_receipt_sha256 lease\<rparr>"

definition fb_consume :: "('w, int) op \<Rightarrow> string \<Rightarrow> string \<Rightarrow> ('w file_system, file_reference) op" where
  "fb_consume clock lease_id adapter_token s =
     obind (olift (fm_adapter_digest adapter_token)) (\<lambda>supplied.
       if supplied \<noteq> fb_adapter_token_sha256 (snd s) then oraise (FileMutationError ''adapter_auth_failed'')
       else obind (on_fst (on_snd (fm_now clock))) (\<lambda>now s.
         if fb_contained (snd s) then (Inl (FileMutationError ''containment_active''), s)
         else (case map_of (fb_leases (snd s)) lease_id of
             None \<Rightarrow> (Inl (FileMutationError ''unknown_lease''), s)
           | Some lease \<Rightarrow>
               if fl_consumed lease then (Inl (FileMutationError ''lease_replayed''), s)
               else if now > fl_expires_at_unix lease then (Inl (FileMutationError ''lease_expired''), s)
               else if now < fl_issued_at_unix lease then (Inl (FileMutationError ''clock_regression''), s)
               else if \<not> capability_still_active (fst (fst s)) (fl_capability_id lease) now
               then (Inl (FileMutationError ''source_capability_inactive''), s)
               else (Inr (file_reference_of lease),
                     (fst s, (snd s)\<lparr>fb_leases := AList.update lease_id (lease\<lparr>fl_consumed := True\<rparr>) (fb_leases (snd s))\<rparr>))))) s"

definition fb_receipt_documents :: "file_broker \<Rightarrow> (string \<times> json) list list" where
  "fb_receipt_documents f = map fa_as_document (fb_receipts f)"

definition fm_verify_receipt :: "(string \<times> json) list \<Rightarrow> (string \<times> json) list res" where
  "fm_verify_receipt document =
     (if \<not> same_keys document [''schema'', ''authorization_id'', ''call_id'', ''subject_id'', ''request_sha256'', ''binding_sha256'',
           ''logical_path_sha256'', ''expected_before_sha256'', ''desired_content_sha256'', ''content_length'',
           ''capability_receipt_sha256'', ''decision'', ''reason_codes'', ''lease_id'', ''lease_expires_at_unix'', ''at_unix'',
           ''authority'', ''receipt_sha256'']
      then Inl (FileMutationError ''authorization_receipt_schema_mismatch'')
      else (let digest = dget document ''receipt_sha256''; raw = dpop document ''receipt_sha256'' in
        if \<not> py_eq (dget raw ''schema'') (JStr FILE_AUTH_SCHEMA) \<or> \<not> py_eq (dget raw ''authority'') FILE_AUTHORITY
        then Inl (FileMutationError ''authorization_receipt_schema_mismatch'')
        else if \<not> py_eq digest (JStr (canonical_sha256 (JObj raw))) then Inl (FileMutationError ''authorization_receipt_digest_mismatch'')
        else Inr document))"

end
