(* ===== verification/Sample_Brokers.thy ===== *)
theory Sample_Brokers
  imports Broker_Properties
begin

section \<open>Concrete brokers\<close>

text \<open>
  For the witnesses of the components above the capability broker: a broker that holds one active capability of a
  given type and scope, valid from 10 to 99 for the subject \<open>agent:a\<close>.
\<close>

definition sample_contract :: "string \<Rightarrow> (string \<times> json) list \<Rightarrow> capability_contract" where
  "sample_contract ct sc = seal_contract
     \<lparr>cc_capability_id = ''cap:sample'', cc_capability_type = ct, cc_subject_id = ''agent:a'', cc_issuer_id = ''operator:o'', cc_scope = sc,
      cc_issued_at_unix = 10, cc_not_before_unix = 10, cc_expires_at_unix = 100, cc_max_uses = 1, cc_delegable = False,
      cc_parent_capability_id = None, cc_policy_sha256 = ZERO_SHA256, cc_contract_sha256 = []\<rparr>"

definition sample_broker :: "string \<Rightarrow> (string \<times> json) list \<Rightarrow> broker" where
  "sample_broker ct sc = demo_broker0\<lparr>b_states := [(''cap:sample'', new_state (sample_contract ct sc))]\<rparr>"

lemma sample_fields [simp]:
  "cc_capability_id (sample_contract ct sc) = ''cap:sample''" "cc_capability_type (sample_contract ct sc) = ct"
  "cc_subject_id (sample_contract ct sc) = ''agent:a''" "cc_scope (sample_contract ct sc) = sc"
  "cc_issued_at_unix (sample_contract ct sc) = 10" "cc_not_before_unix (sample_contract ct sc) = 10"
  "cc_expires_at_unix (sample_contract ct sc) = 100" "cc_max_uses (sample_contract ct sc) = 1"
  "cc_parent_capability_id (sample_contract ct sc) = None" "cc_policy_sha256 (sample_contract ct sc) = ZERO_SHA256"
  "cc_delegable (sample_contract ct sc) = False" "cc_issuer_id (sample_contract ct sc) = ''operator:o''"
  by (simp_all add: sample_contract_def seal_contract_def)

lemma sample_sha: "cc_contract_sha256 (sample_contract ct sc) = canonical_sha256 (JObj (cc_body (sample_contract ct sc)))"
  unfolding sample_contract_def by (rule seal_contract_sha)

lemma sample_wf:
  assumes "wf_scope ct sc" "ct \<in> set CAPABILITY_TYPES"
  shows "wf_broker (sample_broker ct sc)"
proof -
  have "wf_contract (sample_contract ct sc)" using assms by (simp add: sample_sha wf_contract_def is_alnum_def is_alpha_def)
  moreover have "wf_broker demo_broker0" by (rule reach_wf [OF demo_broker0_reach])
  ultimately show ?thesis by (simp add: sample_broker_def wf_broker_def state_ok_def new_state_def demo_broker0_def)
qed

lemma sample_capacity: "log_capacity (sample_broker ct sc) 1"
  by (simp add: log_capacity_def sample_broker_def demo_broker0_def)

lemma sample_eligible:
  assumes "rq_subject_id rq = ''agent:a''" "rq_capability_type rq = ct" "rq_policy_sha256 rq = ZERO_SHA256"
    and "10 \<le> rq_at_unix rq" "rq_at_unix rq < 100" "scope_contains ct sc sc'"
  shows "eligible (sample_broker ct sc) rq sc' ''cap:sample''"
  using assms by (simp add: eligible_def sample_broker_def new_state_def)

end
