(* ===== verification/File_Properties.thy ===== *)
theory File_Properties
  imports File_Mutation Execution_Properties One_Time_Store Sample_Brokers
begin

section \<open>File mutation: facts and properties\<close>

text \<open>
  The paths a request can name, what an authorization leaves behind, and the leases as one-time tokens.
\<close>

subsection \<open>Relative paths\<close>

lemma join_split_on: "join [d] (split_on d s) = s"
proof (induction s)
  case (Cons c cs)
  then show ?case by (cases "split_on d cs"; cases "tl (split_on d cs)") (auto simp: split_on_nonempty)
qed simp

lemma relative_path_ok:
  assumes "normalize_relative_path v = Inr p"
  shows "p = v" "normal_path (CHR ''/'' # p)" "length p \<le> 1024" "p \<noteq> []"
proof -
  let ?parts = "split_on (CHR ''/'') v"
  from assms have parts: "\<not> list_ex (\<lambda>part. part \<in> set [[], ''.'', ''..'']) ?parts" "length v \<le> 1024" "p = join ''/'' ?parts" "v \<noteq> []"
    unfolding normalize_relative_path_def Let_def by (simp_all add: if_Inl_eq_Inr)
  then show "p = v" "length p \<le> 1024" "p \<noteq> []" using join_split_on by simp_all
  have "list_all path_segment ?parts"
    using parts(1) split_on_parts by (auto simp: list_all_iff list_ex_iff path_segment_def)
  with parts(3) show "normal_path (CHR ''/'' # p)" unfolding normal_path_def by blast
qed

subsection \<open>Receipts\<close>

definition wf_file_receipt :: "file_receipt \<Rightarrow> bool" where
  "wf_file_receipt r \<longleftrightarrow> fa_receipt_sha256 r = canonical_sha256 (JObj (fa_body r))"

lemma fa_facts:
  "dget (fa_as_document r) ''receipt_sha256'' = JStr (fa_receipt_sha256 r)" "dpop (fa_as_document r) ''receipt_sha256'' = fa_body r"
  "dget (fa_body r) ''schema'' = JStr FILE_AUTH_SCHEMA" "dget (fa_body r) ''authority'' = FILE_AUTHORITY"
  by (simp_all add: fa_as_document_def fa_body_def dpop_def dget_def)

lemma fa_keys: "dkeys (fa_as_document r) = [''schema'', ''authorization_id'', ''call_id'', ''subject_id'', ''request_sha256'', ''binding_sha256'',
           ''logical_path_sha256'', ''expected_before_sha256'', ''desired_content_sha256'', ''content_length'',
           ''capability_receipt_sha256'', ''decision'', ''reason_codes'', ''lease_id'', ''lease_expires_at_unix'', ''at_unix'',
           ''authority'', ''receipt_sha256'']"
  by (simp add: fa_as_document_def fa_body_def dkeys_def)

lemma fm_verify_receipt_ok: "wf_file_receipt r \<Longrightarrow> fm_verify_receipt (fa_as_document r) = Inr (fa_as_document r)"
  unfolding fm_verify_receipt_def same_keys_def fa_keys fa_facts Let_def by (simp add: wf_file_receipt_def py_eq_def)

text \<open>A receipt of the request \<open>req\<close> with the given decision and lease.\<close>

definition file_receipt_of :: "file_request \<Rightarrow> string \<Rightarrow> string option \<Rightarrow> int option \<Rightarrow> int \<Rightarrow> file_receipt \<Rightarrow> bool" where
  "file_receipt_of req dec lid ex now r \<longleftrightarrow> wf_file_receipt r \<and> fa_decision r = dec \<and> fa_lease_id r = lid \<and> fa_lease_expires_at_unix r = ex \<and>
     fa_at_unix r = now \<and> fa_call_id r = fq_call_id req \<and> fa_subject_id r = fq_subject_id req \<and>
     fa_expected_before_sha256 r = fq_expected_before_sha256 req \<and> fa_desired_content_sha256 r = fq_desired_content_sha256 req \<and>
     fa_content_length r = fq_content_length req"

definition log_file_receipt :: "file_receipt \<Rightarrow> file_broker \<Rightarrow> file_broker" where
  "log_file_receipt r f = f\<lparr>fb_receipts := fb_receipts f @ [r]\<rparr>"

lemma fb_receipt_run:
  obtains r where "fb_receipt req sha bsha psha csha dec rs lid ex now f = (Inr (fa_as_document r), log_file_receipt r f)"
    "file_receipt_of req dec lid ex now r"
proof -
  have "\<exists>r. fb_receipt req sha bsha psha csha dec rs lid ex now f = (Inr (fa_as_document r), log_file_receipt r f) \<and>
      file_receipt_of req dec lid ex now r"
    unfolding fb_receipt_def Let_def log_file_receipt_def
    by (rule exI, rule conjI, rule refl) (simp add: file_receipt_of_def wf_file_receipt_def fa_body_def)
  with that show thesis by blast
qed

subsection \<open>Leases\<close>

text \<open>A lease is well formed if it runs for the broker's time from its issue and an ALLOW receipt of the same
  request announced it.\<close>

definition wf_file_lease :: "file_broker \<Rightarrow> string \<Rightarrow> file_lease \<Rightarrow> bool" where
  "wf_file_lease f k l \<longleftrightarrow> fl_lease_id l = k \<and> 0 \<le> fl_issued_at_unix l \<and>
     fl_expires_at_unix l = fl_issued_at_unix l + fb_lease_ttl_seconds f \<and>
     (\<exists>r \<in> set (fb_receipts f). file_receipt_of (fl_request l) ''ALLOW'' (Some k) (Some (fl_expires_at_unix l)) (fl_issued_at_unix l) r \<and>
        fa_receipt_sha256 r = fl_authorization_receipt_sha256 l)"

abbreviation file_table_step :: "(string \<times> file_lease) list \<Rightarrow> (string \<times> file_lease) list \<Rightarrow> bool" where
  "file_table_step \<equiv> table_step ''file-lease:'' fl_consumed (\<lambda>l. l\<lparr>fl_consumed := True\<rparr>)"

interpretation file_leases: lease_table "''file-lease:''" fl_consumed "\<lambda>l. l\<lparr>fl_consumed := True\<rparr>"
  by unfold_locales simp

definition wf_file_broker :: "file_broker \<Rightarrow> bool" where
  "wf_file_broker f \<longleftrightarrow> table_ok ''file-lease:'' (fb_leases f) \<and> 1 \<le> fb_lease_ttl_seconds f \<and>
     fb_lease_ttl_seconds f \<le> FILE_MAX_LEASE_TTL_SECONDS \<and> (\<forall>r \<in> set (fb_receipts f). wf_file_receipt r) \<and>
     (\<forall>(k, l) \<in> set (fb_leases f). wf_file_lease f k l)"

inductive file_step :: "file_broker \<Rightarrow> file_broker \<Rightarrow> bool" where
  seen: "file_step f (f\<lparr>fb_seen_call_ids := S\<rparr>)"
| contain: "file_step f (f\<lparr>fb_contained := c\<rparr>)"
| log: "wf_file_receipt r \<Longrightarrow> file_step f (log_file_receipt r f)"
| issue: "lease_number ''file-lease:'' (length (fb_leases f) + 1) k \<Longrightarrow> \<not> fl_consumed l \<Longrightarrow> wf_file_lease f k l \<Longrightarrow>
    file_step f (f\<lparr>fb_leases := AList.update k l (fb_leases f)\<rparr>)"
| burn: "map_of (fb_leases f) k = Some l \<Longrightarrow> \<not> fl_consumed l \<Longrightarrow>
    file_step f (f\<lparr>fb_leases := AList.update k (l\<lparr>fl_consumed := True\<rparr>) (fb_leases f)\<rparr>)"

abbreviation file_steps :: "file_broker \<Rightarrow> file_broker \<Rightarrow> bool" where
  "file_steps \<equiv> file_step\<^sup>*\<^sup>*"

lemma file_step_table: "file_step f g \<Longrightarrow> fb_leases g = fb_leases f \<or> file_table_step (fb_leases f) (fb_leases g)"
  by (induction rule: file_step.induct) (auto simp: log_file_receipt_def intro: table_step.intros)

lemma file_step_ok:
  assumes "wf_file_broker f" "file_step f g"
  shows "wf_file_broker g"
proof -
  have "table_ok ''file-lease:'' (fb_leases g)"
    using file_step_table [OF assms(2)] assms(1) file_leases.step_table_ok by (auto simp: wf_file_broker_def)
  moreover have "fb_lease_ttl_seconds g = fb_lease_ttl_seconds f \<and> (\<forall>r \<in> set (fb_receipts g). wf_file_receipt r)"
    using assms(2,1) by (induction rule: file_step.induct) (auto simp: wf_file_broker_def log_file_receipt_def)
  moreover have "\<forall>(k, l) \<in> set (fb_leases g). wf_file_lease g k l"
    using assms(2,1)
  proof (induction rule: file_step.induct)
    case (burn f k l)
    then have "wf_file_lease f k l" using map_of_SomeD [OF burn.hyps(1)] by (auto simp: wf_file_broker_def)
    with burn show ?case by (auto simp: wf_file_broker_def wf_file_lease_def dest!: set_AList_update)
  qed (auto simp: wf_file_broker_def wf_file_lease_def log_file_receipt_def dest!: set_AList_update)
  ultimately show ?thesis using assms(1) by (simp add: wf_file_broker_def)
qed

lemma file_step_token:
  assumes "wf_file_broker f" "file_step f g"
  shows "(keys_of (fb_leases g), spent_of fl_consumed (fb_leases g)) = (keys_of (fb_leases f), spent_of fl_consumed (fb_leases f)) \<or>
    token_step (keys_of (fb_leases f), spent_of fl_consumed (fb_leases f)) (keys_of (fb_leases g), spent_of fl_consumed (fb_leases g))"
  using file_step_table [OF assms(2)] file_leases.step_table_token assms(1) by (auto simp: wf_file_broker_def)

interpretation file_store: one_time_store wf_file_broker "\<lambda>f. keys_of (fb_leases f)" "\<lambda>f. spent_of fl_consumed (fb_leases f)" file_step
  by unfold_locales (rule file_step_ok, assumption+, rule file_step_token, assumption+)

lemma file_init_ok: "file_broker_init bs token ttl = Inr f \<Longrightarrow> wf_file_broker f \<and> fb_leases f = []"
  by (cases "fm_positive (JInt ttl) ''lease_ttl_seconds'' FILE_MAX_LEASE_TTL_SECONDS")
    (auto simp: file_broker_init_def rbind_eq_Inr wf_file_broker_def split: if_splits)

subsection \<open>One authorization\<close>

definition file_blocked :: "(string \<times> json) list res \<Rightarrow> file_broker \<Rightarrow> file_broker \<Rightarrow> bool" where
  "file_blocked r f f' \<longleftrightarrow> (case r of Inl _ \<Rightarrow> f' = f
     | Inr doc \<Rightarrow> \<exists>x. doc = fa_as_document x \<and> wf_file_receipt x \<and> fa_decision x = ''BLOCK'' \<and> f' = log_file_receipt x f)"

definition logical_path_of :: "file_binding \<Rightarrow> file_request \<Rightarrow> string" where
  "logical_path_of bd req = fr_logical_prefix bd @ ''/'' @ fq_relative_path req"

text \<open>The lease \<open>l\<close> is new, fresh and of exactly this request; \<open>x\<close> is its receipt.\<close>

definition lease_issued :: "file_request \<Rightarrow> file_binding \<Rightarrow> string \<Rightarrow> int \<Rightarrow> (string \<times> json) list res \<Rightarrow> file_broker \<Rightarrow> file_broker \<Rightarrow> bool" where
  "lease_issued req bd cid now r f f' \<longleftrightarrow> (\<exists>k l x. r = Inr (fa_as_document x) \<and>
     lease_number ''file-lease:'' (length (fb_leases f) + 1) k \<and>
     file_receipt_of req ''ALLOW'' (Some k) (Some (now + fb_lease_ttl_seconds f)) now x \<and>
     fl_lease_id l = k \<and> fl_request l = req \<and> fl_binding l = bd \<and> fl_logical_path l = logical_path_of bd req \<and> fl_capability_id l = cid \<and> \<not> fl_consumed l \<and>
     fl_issued_at_unix l = now \<and> fl_expires_at_unix l = now + fb_lease_ttl_seconds f \<and>
     fl_authorization_receipt_sha256 l = fa_receipt_sha256 x \<and>
     f' = (log_file_receipt x f)\<lparr>fb_leases := AList.update k l (fb_leases f)\<rparr>)"

lemma file_lease_id_number: "lease_number ''file-lease:'' (length (fb_leases f) + 1) (file_lease_id f req sha)"
  unfolding lease_number_def file_lease_id_def by (rule exI, rule refl)

lemma fb_issue_run:
  assumes "dreq capability ''receipt_sha256'' = Inr rsha" "dreq capability ''capability_id'' = Inr (JStr cid)"
    and "fb_issue req sha bd (logical_path_of bd req) capability now f = (r, f')"
  shows "lease_issued req bd cid now r f f'"
proof -
  let ?k = "file_lease_id f req (canonical_sha256 (JStr (logical_path_of bd req)))"
  obtain x where x: "fb_receipt req sha (fr_binding_sha256 bd) (canonical_sha256 (JStr (logical_path_of bd req))) (jstr rsha) ''ALLOW''
      [''root_binding_match'', ''file_capability_admitted'', ''opaque_lease_issued''] (Some ?k) (Some (now + fb_lease_ttl_seconds f)) now f =
      (Inr (fa_as_document x), log_file_receipt x f)" "file_receipt_of req ''ALLOW'' (Some ?k) (Some (now + fb_lease_ttl_seconds f)) now x"
    by (rule fb_receipt_run)
  let ?l = "\<lparr>fl_lease_id = ?k, fl_request = req, fl_binding = bd, fl_logical_path = logical_path_of bd req, fl_capability_id = cid,
      fl_capability_receipt_sha256 = jstr rsha, fl_authorization_receipt_sha256 = fa_receipt_sha256 x, fl_issued_at_unix = now,
      fl_expires_at_unix = now + fb_lease_ttl_seconds f, fl_consumed = False\<rparr>"
  have "r = Inr (fa_as_document x)" "f' = (log_file_receipt x f)\<lparr>fb_leases := AList.update ?k ?l (fb_leases f)\<rparr>"
    using assms x(1) by (simp_all add: fb_issue_def Let_def obind_def fa_facts log_file_receipt_def)
  then show ?thesis
    unfolding lease_issued_def using x(2) file_lease_id_number by (intro exI [of _ ?k] exI [of _ ?l] exI [of _ x]) simp
qed

lemma find_cap_item:
  "find (\<lambda>item. py_eq (dget item ''capability_id'') (JStr k)) (map (\<lambda>(cid, st). cap_item cid st) xs) = map_option (cap_item k) (map_of xs k)"
  by (induction xs) (auto simp: cap_item_def dget_def py_eq_text)

lemma still_active_iff:
  "capability_still_active b k now \<longleftrightarrow>
    (\<exists>st. map_of (b_states b) k = Some st \<and> st_status st = Active \<and> now < cc_expires_at_unix (st_contract st))"
proof -
  have "dget (cap_item k st) ''expires_at_unix'' = JInt (cc_expires_at_unix (st_contract st))" for st
    by (simp add: cap_item_def dget_def)
  then show ?thesis
    unfolding capability_still_active_def b_capabilities_def find_cap_item map_of_sort_key
    by (cases "map_of (b_states b) k") (simp_all add: cap_item_get py_eq_text status_active)
qed

text \<open>The capability \<open>k\<close> is the one that was charged.\<close>

definition charged_by :: "broker \<Rightarrow> authz_request \<Rightarrow> (string \<times> json) list \<Rightarrow> string \<Rightarrow> broker \<Rightarrow> bool" where
  "charged_by b rq sc k b1 \<longleftrightarrow> eligible b rq sc k \<and> (\<exists>st. map_of (b_states b) k = Some st \<and>
     b_states b1 = AList.update k (st\<lparr>st_use_count := st_use_count st + 1\<rparr>) (b_states b))"

lemma charged_by_charged: "charged_by b rq sc k b1 \<Longrightarrow> charged b rq sc b1"
  unfolding charged_by_def charged_def by blast

lemma charged_by_active: "charged_by b rq sc k b1 \<Longrightarrow> capability_still_active b1 k (rq_at_unix rq)"
  by (auto simp: charged_by_def still_active_iff update_conv' eligible_def)

lemma dr_capability: "dr_capability_id dr = Some k \<Longrightarrow> dreq (dr_as_document dr) ''capability_id'' = Inr (JStr k)"
  by (simp add: dr_as_document_def dr_body_def dreq_def jopt_def)

lemma authorize_charged_by:
  assumes "wf_broker b" "b_authorize rq b = (Inr d, b1)" "dreq d ''decision'' = Inr (JStr ''ALLOW'')"
  obtains dr k sc where "d = dr_as_document dr" "dr_capability_id dr = Some k" "charged_by b rq sc k b1"
    "validate_scope (rq_capability_type rq) (JObj (rq_requested_scope rq)) = Inr sc"
proof -
  obtain dr where dr: "delegate_answer b rq d b1 dr" using b_authorize_answer [OF assms(1,2)] by blast
  then have d: "d = dr_as_document dr" by (simp add: delegate_answer_def)
  with assms(3) have "dr_decision dr = ''ALLOW''" by (simp add: dr_dget)
  with dr d that show thesis unfolding delegate_answer_def charged_by_def by auto
qed

text \<open>The decision of the capability broker, and what follows from it.\<close>

lemma fb_admit_run:
  assumes wf: "wf_broker b"
    and run: "fb_admit req sha bd (logical_path_of bd req) now ((b, w), f) = (r, ((b', w'), f'))"
  obtains (blocked) "w' = w" "wf_broker b'" "file_blocked r f f'"
  | (issued) sc cid where "w' = w" "wf_broker b'" "charged_by b (file_authz req sha bd (logical_path_of bd req) now) sc cid b'" "lease_issued req bd cid now r f f'"
proof -
  let ?rq = "file_authz req sha bd (logical_path_of bd req) now"
  obtain ra b1 where a: "b_authorize ?rq b = (ra, b1)" by (metis prod.collapse)
  have wf1: "wf_broker b1" using steps_b_authorize [OF wf a] wf_bsteps wf by blast
  show thesis
  proof (cases ra)
    case (Inl e)
    with run a have "r = Inl e" "b' = b1" "w' = w" "f' = f" by (simp_all add: fb_admit_def obind_def)
    with wf1 blocked show thesis by (simp add: file_blocked_def)
  next
    case (Inr d)
    obtain dr where dr: "delegate_answer b ?rq d b1 dr" using b_authorize_answer [OF wf a [unfolded Inr]] by blast
    then have d: "d = dr_as_document dr" by (simp add: delegate_answer_def)
    show thesis
    proof (cases "dr_decision dr = ''ALLOW''")
      case True
      then obtain sc k where k: "dr_capability_id dr = Some k" "charged_by b ?rq sc k b1"
        using dr unfolding delegate_answer_def charged_by_def by auto
      moreover have "fb_issue req sha bd (logical_path_of bd req) d now f = (r, f')" "b' = b1" "w' = w"
        using run a Inr True d by (auto simp: fb_admit_def obind_def dr_dget)
      ultimately show thesis
        using issued wf1 fb_issue_run [OF _ dr_capability [OF k(1)]] by (simp add: d dr_dget)
    next
      case False
      obtain x where x: "fb_receipt req sha (fr_binding_sha256 bd) (canonical_sha256 (JStr (logical_path_of bd req))) (dr_receipt_sha256 dr) ''BLOCK''
          (jstrs (JList (map JStr (dr_reason_codes dr)))) None None now f = (Inr (fa_as_document x), log_file_receipt x f)"
          "file_receipt_of req ''BLOCK'' None None now x" by (rule fb_receipt_run)
      have "r = Inr (fa_as_document x)" "f' = log_file_receipt x f" "b' = b1" "w' = w"
        using run a Inr False d x(1) by (auto simp: fb_admit_def obind_def dr_dget)
      with blocked wf1 x(2) show thesis by (simp add: file_blocked_def file_receipt_of_def) blast
    qed
  qed
qed

definition file_seen :: "file_request \<Rightarrow> file_broker \<Rightarrow> file_broker" where
  "file_seen req f = f\<lparr>fb_seen_call_ids := insert (fq_call_id req) (fb_seen_call_ids f)\<rparr>"

definition file_admitted :: "file_request \<Rightarrow> broker \<Rightarrow> file_broker \<Rightarrow> broker \<Rightarrow> (string \<times> json) list res \<Rightarrow> file_broker \<Rightarrow> bool" where
  "file_admitted request b f b' r f' \<longleftrightarrow> (\<exists>req bd cid now sc sha. fq_normalized request = Inr req \<and> fq_call_id req \<notin> fb_seen_call_ids f \<and>
     \<not> fb_contained f \<and> map_of (fb_bindings f) (fq_root_id req) = Some bd \<and> fq_content_length req \<le> fr_max_content_bytes bd \<and> 0 \<le> now \<and>
     charged_by b (file_authz req sha bd (logical_path_of bd req) now) sc cid b' \<and> lease_issued req bd cid now r (file_seen req f) f')"

lemma file_mark: "on_snd (omodify (\<lambda>f. f\<lparr>fb_seen_call_ids := insert (fq_call_id req) (fb_seen_call_ids f)\<rparr>)) (s, f) = (Inr (), (s, file_seen req f))"
  by (simp add: on_snd_def file_seen_def)

lemma fm_now_run: "fm_now tick w = (Inr now, w') \<Longrightarrow> 0 \<le> now" "fm_now tick w = (r, w') \<Longrightarrow> w' = snd (tick w)"
  by (auto simp: fm_now_def obind_cases split: if_splits)

lemma fb_authorize_run:
  assumes wf: "wf_broker b" and run: "fb_authorize tick request ((b, w), f) = (r, ((b', w'), f'))"
  obtains (blocked) f0 where "w' = w \<or> w' = snd (tick w)" "wf_broker b'" "f0 = f \<or> (\<exists>req. f0 = file_seen req f)" "file_blocked r f0 f'"
  | (issued) "w' = snd (tick w)" "wf_broker b'" "file_admitted request b f b' r f'"
proof (cases "fq_normalized request")
  case (Inl e)
  then have "r = Inl e" "b' = b" "w' = w" "f' = f" using run by (auto simp: fb_authorize_def)
  with wf blocked show thesis by (simp add: file_blocked_def)
next
  case norm: (Inr req)
  obtain rt w1 where t: "fm_now tick w = (rt, w1)" by (metis prod.collapse)
  then have clock: "on_fst (on_snd (fm_now tick)) ((b, w), f) = (rt, ((b, w1), f))" by (simp add: on_fst_def on_snd_def)
  have w1: "w1 = snd (tick w)" using fm_now_run(2) [OF t] .
  show thesis
  proof (cases "\<exists>now body. rt = Inr now \<and> fq_body req = Inr body")
    case False
    have "(\<exists>e. r = Inl e) \<and> b' = b \<and> w' = w1 \<and> f' = f"
      using run norm clock False by (cases rt; cases "fq_body req") (auto simp: fb_authorize_def obind_def simp del: on_pair intro: sym)
    with wf w1 show thesis by (intro blocked [of f]) (auto simp: file_blocked_def)
  next
    case True
    then obtain now body where now: "rt = Inr now" and body: "fq_body req = Inr body" by blast
    let ?sha = "canonical_sha256 (JObj body)" and ?f = "file_seen req f"
    have stop: thesis if "fb_receipt req ?sha bsha psha csha ''BLOCK'' rs None None now f0 = (r, f')" "b' = b" "w' = w1" "f0 = f \<or> f0 = ?f"
      for bsha psha csha rs f0
    proof -
      obtain x where x: "fb_receipt req ?sha bsha psha csha ''BLOCK'' rs None None now f0 = (Inr (fa_as_document x), log_file_receipt x f0)"
          "file_receipt_of req ''BLOCK'' None None now x" by (rule fb_receipt_run)
      with that(1) have "file_blocked r f0 f'" by (auto simp: file_blocked_def file_receipt_of_def)
      with blocked [of f0] wf w1 that(2-4) show thesis by blast
    qed
    note unfold = fb_authorize_def obind_def Let_def file_mark on_snd_eq
    show thesis
    proof (cases "fq_call_id req \<in> fb_seen_call_ids f")
      case True
      with run norm clock now body stop [of _ _ _ _ f] show thesis by (auto simp: unfold simp del: on_pair)
    next
      case fresh: False
      show thesis
      proof (cases "\<not> fb_contained f \<and> (\<exists>bd. map_of (fb_bindings f) (fq_root_id req) = Some bd \<and> fq_content_length req \<le> fr_max_content_bytes bd)")
        case False
        have keep: "fb_contained ?f = fb_contained f" by (simp add: file_seen_def)
        have "\<exists>bsha psha csha rs. fb_receipt req ?sha bsha psha csha ''BLOCK'' rs None None now ?f = (r, f') \<and> b' = b \<and> w' = w1"
          using run norm clock now body fresh False
          by (cases "map_of (fb_bindings f) (fq_root_id req)") (auto simp: unfold keep simp del: on_pair split: if_splits)
        with stop [of _ _ _ _ ?f] show thesis by blast
      next
        case True
        then obtain bd where bd: "\<not> fb_contained f" "map_of (fb_bindings f) (fq_root_id req) = Some bd" "fq_content_length req \<le> fr_max_content_bytes bd"
          by blast
        then have "fb_admit req ?sha bd (logical_path_of bd req) now ((b, w1), ?f) = (r, ((b', w'), f'))"
          using run norm clock now body fresh by (simp add: unfold logical_path_of_def file_seen_def del: on_pair)
        then show thesis
        proof (rule fb_admit_run [OF wf])
          assume "w' = w1" "wf_broker b'" "file_blocked r ?f f'"
          then show thesis using w1 by (intro blocked [of ?f]) auto
        next
          fix sc cid
          assume "w' = w1" "wf_broker b'" "charged_by b (file_authz req ?sha bd (logical_path_of bd req) now) sc cid b'" "lease_issued req bd cid now r ?f f'"
          then show thesis
            using w1 norm fresh bd fm_now_run(1) [of tick w now w1] t now by (intro issued) (auto simp: file_admitted_def)
        qed
      qed
    qed
  qed
qed

subsection \<open>Consuming a lease\<close>

text \<open>What holds at the moment the adapter receives the reference of a lease.\<close>

definition file_consumable :: "broker \<Rightarrow> file_broker \<Rightarrow> string \<Rightarrow> string \<Rightarrow> int \<Rightarrow> file_lease \<Rightarrow> bool" where
  "file_consumable b f lid token now l \<longleftrightarrow> sha256_hex token = fb_adapter_token_sha256 f \<and> \<not> fb_contained f \<and>
     map_of (fb_leases f) lid = Some l \<and> \<not> fl_consumed l \<and> fl_issued_at_unix l \<le> now \<and> now \<le> fl_expires_at_unix l \<and>
     capability_still_active b (fl_capability_id l) now"

lemma fb_consume_run:
  assumes "fb_consume tick lid token ((b, w), f) = (r, ((b', w'), f'))"
  obtains (refused) e where "r = Inl e" "b' = b" "f' = f"
  | (consumed) now l where "r = Inr (file_reference_of l)" "b' = b" "file_consumable b f lid token now l"
      "f' = f\<lparr>fb_leases := AList.update lid (l\<lparr>fl_consumed := True\<rparr>) (fb_leases f)\<rparr>"
proof (cases "token \<noteq> [] \<and> sha256_hex token = fb_adapter_token_sha256 f")
  case False
  then obtain e where "fb_consume tick lid token ((b, w), f) = (Inl e, ((b, w), f))"
    by (cases "token = []") (simp_all add: fb_consume_def fm_adapter_digest_def)
  with assms have "r = Inl e" "b' = b" "f' = f" by auto
  with refused show thesis by blast
next
  case True
  obtain rt w1 where t: "on_fst (on_snd (fm_now tick)) ((b, w), f) = (rt, ((b, w1), f))"
    by (cases "fm_now tick w") (simp add: on_fst_def on_snd_def)
  show thesis
  proof (cases "\<exists>now l. rt = Inr now \<and> file_consumable b f lid token now l")
    case False
    have "(\<exists>e. r = Inl e) \<and> b' = b \<and> f' = f"
      using assms True t False
      by (cases rt; cases "map_of (fb_leases f) lid")
        (auto simp: fb_consume_def fm_adapter_digest_def obind_def file_consumable_def not_less simp del: on_pair split: if_splits)
    with refused show thesis by blast
  next
    case True': True
    then obtain now l where l: "rt = Inr now" "file_consumable b f lid token now l" by blast
    have "r = Inr (file_reference_of l) \<and> b' = b \<and> f' = f\<lparr>fb_leases := AList.update lid (l\<lparr>fl_consumed := True\<rparr>) (fb_leases f)\<rparr>"
      using assms True t l by (auto simp: fb_consume_def fm_adapter_digest_def obind_def file_consumable_def simp del: on_pair)
    with consumed l show thesis by blast
  qed
qed

subsection \<open>Runs\<close>

text \<open>A call of the broker, with any clock, or anything that happens outside it.\<close>

inductive file_call :: "'w file_system \<Rightarrow> 'w file_system \<Rightarrow> bool" where
  authorize: "wf_broker b \<Longrightarrow> file_call ((b, w), f) (snd (fb_authorize tick request ((b, w), f)))"
| consume: "file_call s (snd (fb_consume tick lid token s))"
| enter: "file_call s (snd (on_snd (fb_enter_containment sha) s))"
| leave: "file_call s (snd (on_snd (fb_exit_containment sha) s))"
| other: "file_call (bw, f) (bw', f)"

abbreviation file_calls :: "'w file_system \<Rightarrow> 'w file_system \<Rightarrow> bool" where
  "file_calls \<equiv> file_call\<^sup>*\<^sup>*"

lemma blocked_steps: "file_blocked r f f' \<Longrightarrow> file_steps f f'"
  by (auto simp: file_blocked_def split: sum.splits intro: file_step.log)

lemma issued_steps:
  assumes "lease_issued req bd cid now r f f'" "0 \<le> now"
  shows "file_steps f f'"
proof -
  from assms(1) obtain k l x where new: "lease_number ''file-lease:'' (length (fb_leases f) + 1) k" "\<not> fl_consumed l"
    and x: "file_receipt_of req ''ALLOW'' (Some k) (Some (now + fb_lease_ttl_seconds f)) now x"
    and l: "fl_lease_id l = k" "fl_request l = req" "fl_issued_at_unix l = now" "fl_expires_at_unix l = now + fb_lease_ttl_seconds f"
      "fl_authorization_receipt_sha256 l = fa_receipt_sha256 x"
    and f': "f' = (log_file_receipt x f)\<lparr>fb_leases := AList.update k l (fb_leases f)\<rparr>"
    unfolding lease_issued_def by blast
  let ?g = "log_file_receipt x f"
  have same: "fb_leases ?g = fb_leases f" "fb_lease_ttl_seconds ?g = fb_lease_ttl_seconds f" "x \<in> set (fb_receipts ?g)"
    by (simp_all add: log_file_receipt_def)
  have "wf_file_lease ?g k l"
    unfolding wf_file_lease_def using same l x assms(2) by (intro conjI bexI [of _ x]) simp_all
  then have "file_step ?g f'" using file_step.issue [of ?g k l] new same f' by simp
  moreover have "file_step f ?g" using x by (simp add: file_receipt_of_def file_step.log)
  ultimately show ?thesis by (meson r_into_rtranclp rtranclp.rtrancl_into_rtrancl)
qed

lemma file_seen_step: "file_step f (file_seen req f)"
  unfolding file_seen_def by (rule file_step.seen)

lemma authorize_steps:
  assumes "wf_broker b" "fb_authorize tick request ((b, w), f) = (r, ((b', w'), f'))"
  shows "file_steps f f'"
proof (rule fb_authorize_run [OF assms])
  fix f0
  assume "f0 = f \<or> (\<exists>req. f0 = file_seen req f)" "file_blocked r f0 f'"
  then have "file_steps f f0" "file_steps f0 f'" using file_seen_step blocked_steps by blast+
  then show ?thesis by simp
next
  assume "file_admitted request b f b' r f'"
  then obtain req where "file_steps (file_seen req f) f'" unfolding file_admitted_def using issued_steps by blast
  with file_seen_step [of f req] show ?thesis by (rule converse_rtranclp_into_rtranclp)
qed

lemma consume_steps:
  assumes "fb_consume tick lid token ((b, w), f) = (r, ((b', w'), f'))"
  shows "file_steps f f'"
  by (rule fb_consume_run [OF assms]) (auto simp: file_consumable_def intro: file_step.burn)

lemma file_call_steps: "file_call s t \<Longrightarrow> file_steps (snd s) (snd t)"
proof (induction rule: file_call.induct)
  case (authorize b w f tick request)
  obtain r b' w' f' where "fb_authorize tick request ((b, w), f) = (r, ((b', w'), f'))" by (metis prod.collapse)
  with authorize_steps [OF authorize this] show ?case by simp
next
  case (consume s tick lid token)
  obtain b w f where s: "s = ((b, w), f)" by (metis prod.collapse)
  obtain r b' w' f' where "fb_consume tick lid token ((b, w), f) = (r, ((b', w'), f'))" by (metis prod.collapse)
  with consume_steps [OF this] s show ?case by simp
next
  case (enter s sha)
  then show ?case by (cases s) (auto simp: fb_enter_containment_def obind_def intro: file_step.contain)
next
  case (leave s sha)
  then show ?case by (cases s) (auto simp: fb_exit_containment_def obind_def intro: file_step.contain)
qed simp

lemma file_calls_steps: "file_calls s t \<Longrightarrow> file_steps (snd s) (snd t)"
  by (induction rule: rtranclp_induct) (auto dest: file_call_steps)

subsection \<open>A granted request\<close>

lemma file_grant:
  assumes wf: "wf_broker b" "log_capacity b 1"
    and norm: "fq_normalized request = Inr req" "fq_body req = Inr body" and fresh: "fq_call_id req \<notin> fb_seen_call_ids f"
    and free: "\<not> fb_contained f" and bd: "map_of (fb_bindings f) (fq_root_id req) = Some bd" "fq_content_length req \<le> fr_max_content_bytes bd"
    and clock: "tick w = (Inr now, w1)" "0 \<le> now"
    and rq: "request_ok (file_authz req (canonical_sha256 (JObj body)) bd (logical_path_of bd req) now) sc"
      "eligible b (file_authz req (canonical_sha256 (JObj body)) bd (logical_path_of bd req) now) sc k"
  obtains r b' f' cid where "fb_authorize tick request ((b, w), f) = (r, ((b', w1), f'))"
    "charged_by b (file_authz req (canonical_sha256 (JObj body)) bd (logical_path_of bd req) now) sc cid b'"
    "lease_issued req bd cid now r (file_seen req f) f'"
proof -
  let ?rq = "file_authz req (canonical_sha256 (JObj body)) bd (logical_path_of bd req) now"
  obtain dr ev b' where a: "b_authorize ?rq b = (Inr (dr_as_document dr), b')" and dec: "decided b ?rq sc b' ev dr"
    using authorize_decided [OF wf rq(1)] by blast
  have allow: "dr_decision dr = ''ALLOW''" using dec rq(2) unfolding decided_def by (auto split: if_splits)
  have dd: "dreq (dr_as_document dr) ''decision'' = Inr (JStr ''ALLOW'')" by (simp add: dr_dget allow)
  have scope: "validate_scope (rq_capability_type ?rq) (JObj (rq_requested_scope ?rq)) = Inr sc"
    using rq(1) unfolding request_ok_def by (elim conjE) assumption
  obtain dr' k where k: "dr_as_document dr = dr_as_document dr'" "dr_capability_id dr' = Some k" "charged_by b ?rq sc k b'"
    using authorize_charged_by [OF wf(1) a dd] scope by (metis sum.inject(2))
  note cid = dr_capability [OF k(2), folded k(1)]
  let ?f = "file_seen req f"
  obtain r f' where iss: "fb_issue req (canonical_sha256 (JObj body)) bd (logical_path_of bd req) (dr_as_document dr) now ?f = (r, f')"
    by (metis prod.collapse)
  have "fm_now tick w = (Inr now, w1)" using clock by (simp add: fm_now_def obind_def)
  then have t: "on_fst (on_snd (fm_now tick)) ((b, w), f) = (Inr now, ((b, w1), f))" by (simp add: on_fst_def on_snd_def)
  have "fb_authorize tick request ((b, w), f) = fb_admit req (canonical_sha256 (JObj body)) bd (logical_path_of bd req) now ((b, w1), ?f)"
    using norm fresh free bd t
    by (simp add: fb_authorize_def obind_def Let_def file_mark logical_path_of_def file_seen_def del: on_pair)
  also have "\<dots> = (r, ((b', w1), f'))"
    using a allow iss by (simp add: fb_admit_def obind_def dr_dget)
  finally show thesis using that k(3) fb_issue_run [OF _ cid iss] by (simp add: dr_dget)
qed

lemma consume_granted:
  assumes "file_consumable b f lid token now l" "token \<noteq> []" "tick w = (Inr now, w1)" "0 \<le> now"
  shows "fb_consume tick lid token ((b, w), f) =
    (Inr (file_reference_of l), ((b, w1), f\<lparr>fb_leases := AList.update lid (l\<lparr>fl_consumed := True\<rparr>) (fb_leases f)\<rparr>))"
proof -
  have "fm_now tick w = (Inr now, w1)" using assms(3,4) by (simp add: fm_now_def obind_def)
  then have "on_fst (on_snd (fm_now tick)) ((b, w), f) = (Inr now, ((b, w1), f))" by (simp add: on_fst_def on_snd_def)
  then show ?thesis
    using assms(1,2) by (auto simp: fb_consume_def fm_adapter_digest_def obind_def file_consumable_def simp del: on_pair)
qed

lemma file_grant_consume:
  assumes "wf_broker b" "log_capacity b 1" "wf_file_broker f" "fq_normalized request = Inr req" "fq_body req = Inr body"
    and "fq_call_id req \<notin> fb_seen_call_ids f" "\<not> fb_contained f" "map_of (fb_bindings f) (fq_root_id req) = Some bd"
    and "fq_content_length req \<le> fr_max_content_bytes bd" "tick w = (Inr now, w1)" "0 \<le> now"
    and "request_ok (file_authz req (canonical_sha256 (JObj body)) bd (logical_path_of bd req) now) sc"
    and "eligible b (file_authz req (canonical_sha256 (JObj body)) bd (logical_path_of bd req) now) sc k"
    and "token \<noteq> []" "sha256_hex token = fb_adapter_token_sha256 f"
  obtains x b1 f1 lid l f2 where "fb_authorize tick request ((b, w), f) = (Inr (fa_as_document x), ((b1, w1), f1))"
    "fa_decision x = ''ALLOW''" "fa_lease_id x = Some lid"
    "fb_consume (oret now) lid token ((b1, w1), f1) = (Inr (file_reference_of l), ((b1, w1), f2))"
    "fl_request l = req" "fl_authorization_receipt_sha256 l = fa_receipt_sha256 x"
proof -
  let ?rq = "file_authz req (canonical_sha256 (JObj body)) bd (logical_path_of bd req) now"
  obtain r b1 f1 cid where auth: "fb_authorize tick request ((b, w), f) = (r, ((b1, w1), f1))" "charged_by b ?rq sc cid b1"
      "lease_issued req bd cid now r (file_seen req f) f1"
    by (rule file_grant [where tick = tick and w = w, OF assms(1,2,4-13)])
  from auth(3) obtain lid l x where x: "r = Inr (fa_as_document x)" "fa_decision x = ''ALLOW''" "fa_lease_id x = Some lid"
    and l: "fl_request l = req" "fl_capability_id l = cid" "\<not> fl_consumed l" "fl_issued_at_unix l = now"
      "fl_expires_at_unix l = now + fb_lease_ttl_seconds f" "fl_authorization_receipt_sha256 l = fa_receipt_sha256 x"
    and f1: "f1 = (log_file_receipt x (file_seen req f))\<lparr>fb_leases := AList.update lid l (fb_leases f)\<rparr>"
    unfolding lease_issued_def file_receipt_of_def by (auto simp: file_seen_def)
  have "capability_still_active b1 cid now" using charged_by_active [OF auth(2)] by (simp add: file_authz_def)
  moreover have "0 \<le> fb_lease_ttl_seconds f" using assms(3) by (simp add: wf_file_broker_def)
  ultimately have "file_consumable b1 f1 lid token now l"
    using assms(7,15) l f1 by (simp add: file_consumable_def log_file_receipt_def file_seen_def update_conv')
  from consume_granted [OF this assms(14), of "oret now" w1 w1] assms(11) auth(1) x l that show thesis by simp
qed

subsection \<open>Properties of the file mutation broker\<close>

text \<open>C33: In every run of the file mutation broker a call of \<open>authorize\<close> either leaves the leases as they are and
  answers, if at all, with a BLOCK; or the request is valid, its call identifier fresh, the broker not contained,
  its root bound and the content within the bound, the relative path has no empty, dot or parent segment, one
  use of a capability for exactly the logical path was charged, and one fresh lease of exactly this request,
  naming that capability and its ALLOW receipt, was added. Every receipt is accepted by the verifier, and the
  host is only asked for the time.\<close>

theorem file_authorize_sound:
  assumes "file_broker_init docs token ttl = Inr f0" "file_calls (bw, f0) ((b, w), f)" "broker_reach b"
    and "fb_authorize tick request ((b, w), f) = (r, ((b', w'), f'))"
  shows "(fb_leases f' = fb_leases f \<and> (\<forall>doc. r = Inr doc \<longrightarrow> dget doc ''decision'' = JStr ''BLOCK'') \<or>
      file_admitted request b f b' r f' \<and> (\<forall>req. fq_normalized request = Inr req \<longrightarrow> normal_path (CHR ''/'' # fq_relative_path req))) \<and>
    (\<forall>x \<in> set (fb_receipts f'). fm_verify_receipt (fa_as_document x) = Inr (fa_as_document x)) \<and> (w' = w \<or> w' = snd (tick w))"
proof -
  note wf = reach_wf [OF assms(3)]
  have "file_steps f0 f" "file_steps f f'" using file_calls_steps [OF assms(2)] authorize_steps [OF wf assms(4)] by simp_all
  then have "wf_file_broker f'" using file_store.steps_ok file_init_ok [OF assms(1)] by blast
  then have ok: "\<forall>x \<in> set (fb_receipts f'). fm_verify_receipt (fa_as_document x) = Inr (fa_as_document x)"
    using fm_verify_receipt_ok by (simp add: wf_file_broker_def)
  have path: "normal_path (CHR ''/'' # fq_relative_path req)" if "fq_normalized request = Inr req" for req
    using that relative_path_ok(2) by (auto simp: fq_normalized_def rbind_eq_Inr)
  show ?thesis
  proof (rule fb_authorize_run [OF wf assms(4)])
    fix f1
    assume "w' = w \<or> w' = snd (tick w)" "f1 = f \<or> (\<exists>req. f1 = file_seen req f)" "file_blocked r f1 f'"
    then show ?thesis using ok
      by (auto simp: file_blocked_def file_seen_def log_file_receipt_def fa_as_document_def fa_body_def dget_def split: sum.splits)
  qed (use ok path in auto)
qed


text \<open>A granted replacement goes through. For a valid fresh request on a bound root, in a broker that is not
  contained, with an eligible capability for exactly its logical path, \<open>authorize\<close> returns an ALLOW, and the adapter
  that consumes the new lease with the bound token within its lifetime, while the capability has not expired,
  receives the reference of exactly this request.\<close>

lemma granted_replace_consumed:
  assumes "wf_broker b" "log_capacity b 1" "wf_file_broker f" "fq_normalized request = Inr req" "fq_body req = Inr body"
    and "fq_call_id req \<notin> fb_seen_call_ids f" "\<not> fb_contained f" "map_of (fb_bindings f) (fq_root_id req) = Some bd"
    and "fq_content_length req \<le> fr_max_content_bytes bd" "tick w = (Inr now, w1)" "0 \<le> now"
    and "request_ok (file_authz req (canonical_sha256 (JObj body)) bd (logical_path_of bd req) now) sc"
    and "eligible b (file_authz req (canonical_sha256 (JObj body)) bd (logical_path_of bd req) now) sc k"
    and "token \<noteq> []" "sha256_hex token = fb_adapter_token_sha256 f"
  shows "\<exists>x b1 f1 lid ref f2 w2. fb_authorize tick request ((b, w), f) = (Inr (fa_as_document x), ((b1, w1), f1)) \<and>
    fa_decision x = ''ALLOW'' \<and> fa_lease_id x = Some lid \<and>
    fb_consume (oret now) lid token ((b1, w1), f1) = (Inr ref, ((b1, w2), f2)) \<and>
    ff_root_id ref = fq_root_id req \<and> ff_relative_path ref = fq_relative_path req \<and>
    ff_expected_before_sha256 ref = fq_expected_before_sha256 req \<and> ff_desired_content_sha256 ref = fq_desired_content_sha256 req \<and>
    ff_content_length ref = fq_content_length req \<and> ff_authorization_receipt_sha256 ref = fa_receipt_sha256 x"
proof -
  obtain x b1 f1 lid l f2 where "fb_authorize tick request ((b, w), f) = (Inr (fa_as_document x), ((b1, w1), f1))"
      "fa_decision x = ''ALLOW''" "fa_lease_id x = Some lid"
      "fb_consume (oret now) lid token ((b1, w1), f1) = (Inr (file_reference_of l), ((b1, w1), f2))"
      "fl_request l = req" "fl_authorization_receipt_sha256 l = fa_receipt_sha256 x"
    by (rule file_grant_consume [where tick = tick and w = w, OF assms])
  then show ?thesis
    by (intro exI [of _ x] exI [of _ b1] exI [of _ f1] exI [of _ lid] exI [of _ "file_reference_of l"] exI conjI) (simp_all add: file_reference_of_def)
qed

subsection \<open>Witnesses\<close>

definition sample_root :: file_binding where
  "sample_root = \<lparr>fr_root_id = ''root:1'', fr_logical_prefix = ''etc'', fr_max_content_bytes = 1024,
     fr_binding_sha256 = canonical_sha256 (JObj (fr_body \<lparr>fr_root_id = ''root:1'', fr_logical_prefix = ''etc'', fr_max_content_bytes = 1024,
       fr_binding_sha256 = []\<rparr>))\<rparr>"

definition sample_file_broker :: file_broker where
  "sample_file_broker = \<lparr>fb_lease_ttl_seconds = 10, fb_adapter_token_sha256 = sha256_hex ''token'', fb_bindings = [(''root:1'', sample_root)],
     fb_leases = [], fb_seen_call_ids = {}, fb_receipts = [], fb_contained = False\<rparr>"

definition sample_file_request :: file_request where
  "sample_file_request = \<lparr>fq_call_id = ''call:1'', fq_subject_id = ''agent:a'', fq_policy_sha256 = ZERO_SHA256, fq_root_id = ''root:1'',
     fq_relative_path = ''app/conf'', fq_expected_before_sha256 = ZERO_SHA256, fq_desired_content_sha256 = ZERO_SHA256, fq_content_length = 10\<rparr>"

definition file_scope :: "(string \<times> json) list" where
  "file_scope = [(''paths'', JList [JStr ''etc/app/conf''])]"

definition file_sample :: "(broker \<times> unit) \<times> file_broker" where
  "file_sample = ((sample_broker ''filesystem.write_outside_workspace'' file_scope, ()), sample_file_broker)"

lemma sample_root_document: "fr_from_document (fr_as_document sample_root) = Inr sample_root"
proof -
  have "ident_re ''root:1''" "prefix_re ''etc''" "py_strip ''root:1'' = ''root:1''" by code_simp+
  moreover have "fr_body (sample_root\<lparr>fr_binding_sha256 := []\<rparr>) = fr_body sample_root" by (simp add: fr_body_def)
  ultimately show ?thesis
    by (simp add: fr_from_document_def fr_as_document_def fr_body_def same_keys_def dkeys_def dget_def py_eq_text fr_build_def sample_root_def
        MAX_CONTENT_BYTES_def Let_def)
qed

lemma file_sample_init: "file_broker_init [fr_as_document sample_root] (sha256_hex ''token'') 10 = Inr sample_file_broker"
proof -
  have "fr_root_id sample_root = ''root:1''" by (simp add: sample_root_def)
  then show ?thesis
    by (simp add: file_broker_init_def sample_root_document FILE_MAX_LEASE_TTL_SECONDS_def sample_file_broker_def)
qed

lemma file_sample_facts:
  "fq_normalized sample_file_request = Inr sample_file_request"
  "validate_scope ''filesystem.write_outside_workspace'' (JObj file_scope) = Inr file_scope"
  by code_simp+

lemma file_sample_broker: "wf_broker (sample_broker ''filesystem.write_outside_workspace'' file_scope)"
  by (rule sample_wf) (simp_all add: wf_scope_def file_sample_facts CAPABILITY_TYPES_def)

lemma file_sample_path: "logical_path_of sample_root sample_file_request = ''etc/app/conf''"
  by (simp add: logical_path_of_def sample_root_def sample_file_request_def)

lemma file_sample_ok:
  "request_ok (file_authz sample_file_request sha sample_root ''etc/app/conf'' 30) file_scope"
  "eligible (sample_broker ''filesystem.write_outside_workspace'' file_scope) (file_authz sample_file_request sha sample_root ''etc/app/conf'' 30)
     file_scope ''cap:sample''"
proof -
  have rq: "rq_requested_scope (file_authz sample_file_request sha sample_root ''etc/app/conf'' 30) = file_scope"
    by (simp add: file_authz_def file_scope_def)
  show "request_ok (file_authz sample_file_request sha sample_root ''etc/app/conf'' 30) file_scope"
    unfolding request_ok_def rq using file_sample_facts(2)
    by (simp add: file_authz_def CAPABILITY_TYPES_def sample_file_request_def is_alnum_def is_alpha_def)
  show "eligible (sample_broker ''filesystem.write_outside_workspace'' file_scope) (file_authz sample_file_request sha sample_root ''etc/app/conf'' 30)
     file_scope ''cap:sample''"
    by (rule sample_eligible) (simp_all add: file_authz_def sample_file_request_def scope_contains_def file_scope_def scope_value_contains_def)
qed

lemmas file_sample_hyps = file_sample_broker sample_capacity conjunct1 [OF file_init_ok [OF file_sample_init]] file_sample_facts(1)

lemma file_sample_state:
  "fq_call_id sample_file_request \<notin> fb_seen_call_ids sample_file_broker" "\<not> fb_contained sample_file_broker"
  "map_of (fb_bindings sample_file_broker) (fq_root_id sample_file_request) = Some sample_root"
  "fq_content_length sample_file_request \<le> fr_max_content_bytes sample_root" "oret 30 () = (Inr 30, ())" "(0::int) \<le> 30"
  by (simp_all add: sample_file_broker_def sample_file_request_def sample_root_def)

lemma file_sample_token: "''token'' \<noteq> []" "sha256_hex ''token'' = fb_adapter_token_sha256 sample_file_broker"
  by (simp_all add: sample_file_broker_def)

lemma file_sample_run:
  obtains x b1 f1 lid l f2 where "fb_authorize (oret 30) sample_file_request file_sample = (Inr (fa_as_document x), ((b1, ()), f1))"
    "fb_consume (oret 30) lid ''token'' ((b1, ()), f1) = (Inr (file_reference_of l), ((b1, ()), f2))"
    "fl_request l = sample_file_request"
proof -
  obtain body where body: "fq_body sample_file_request = Inr body" by (simp add: fq_body_def file_sample_facts)
  let ?b = "sample_broker ''filesystem.write_outside_workspace'' file_scope"
  show thesis
    by (rule file_grant_consume [where tick = "oret 30" and w = "()", OF file_sample_hyps body file_sample_state
          file_sample_ok [folded file_sample_path] file_sample_token])
      (use that in \<open>simp add: file_sample_def\<close>)
qed


theorem file_authorize_sound_witness:
  "list_all (\<lambda>x. fm_verify_receipt (fa_as_document x) = Inr (fa_as_document x))
     (fb_receipts (snd (snd (fb_authorize (oret 30) sample_file_request ((demo_broker, 7 :: nat), sample_file_broker)))))"
proof -
  obtain r b' w' f' where run: "fb_authorize (oret 30) sample_file_request ((demo_broker, 7 :: nat), sample_file_broker) = (r, ((b', w'), f'))"
    by (metis prod.collapse)
  show ?thesis
    using file_authorize_sound [OF file_sample_init rtranclp.rtrancl_refl demo_reach run] unfolding run list_all_iff by simp
qed

end
