(* ===== verification/Credential_Broker.thy ===== *)
theory Credential_Broker
  imports File_Mutation
begin

section \<open>Credential broker\<close>

text \<open>
  Model of src/sdk/liminal_credential_broker: credential bindings read from documents, use requests, the
  authorization that issues a lease on an ALLOW of the capability broker for exactly one bound credential and
  destination, and the consumption of the lease by the trusted adapter. No secret is part of the state.
\<close>

subsection \<open>Fields\<close>

abbreviation CredentialError :: "string \<Rightarrow> exn" where
  "CredentialError code \<equiv> Exn ''CredentialError'' code"

definition CREDENTIAL_AUTH_SCHEMA :: string where
  "CREDENTIAL_AUTH_SCHEMA = ''liminal-credential-authorization-receipt-v0.1''"

definition CREDENTIAL_BINDING_SCHEMA :: string where
  "CREDENTIAL_BINDING_SCHEMA = ''liminal-credential-binding-v0.1''"

definition CREDENTIAL_MAX_LEASE_TTL :: int where
  "CREDENTIAL_MAX_LEASE_TTL = 30"

definition CREDENTIAL_AUTHORITY :: json where
  "CREDENTIAL_AUTHORITY = JObj
     [(''mode'', JStr ''credential_use_governance_only''), (''immutable_host_bindings'', JBool True),
      (''credential_capability_admission'', JBool True), (''opaque_lease_issue'', JBool True), (''lease_consumption'', JBool True),
      (''trusted_clock'', JBool True), (''atomic_state_transitions'', JBool True), (''secret_provider_access'', JBool False),
      (''secret_material_export'', JBool False), (''network_authority'', JBool False), (''process_authority'', JBool False),
      (''deployment'', JBool False), (''automatic_release'', JBool False)]"

fun cr_ident :: "json \<Rightarrow> string \<Rightarrow> string res" where
  "cr_ident (JStr v) name = (if \<not> ident_re v then Inl (CredentialError (''invalid_'' @ name)) else Inr v)"
| "cr_ident v name = Inl (CredentialError (''invalid_'' @ name))"

fun cr_sha :: "json \<Rightarrow> string \<Rightarrow> string res" where
  "cr_sha (JStr v) name = (if \<not> is_sha256 v then Inl (CredentialError (''invalid_'' @ name)) else Inr v)"
| "cr_sha v name = Inl (CredentialError (''invalid_'' @ name))"

fun cr_protocol :: "json \<Rightarrow> string res" where
  "cr_protocol (JStr v) =
     (if py_lower v \<noteq> ''https'' then Inl (CredentialError ''credential_destination_requires_https'') else Inr ''https'')"
| "cr_protocol v = Inl (CredentialError ''credential_destination_requires_https'')"

fun cr_domain :: "json \<Rightarrow> string res" where
  "cr_domain (JStr v) =
     (let domain = py_lower v in
      if CHR ''*'' \<in> set domain \<or> \<not> domain_re domain then Inl (CredentialError ''invalid_domain'') else Inr domain)"
| "cr_domain v = Inl (CredentialError ''invalid_domain'')"

fun cr_port :: "json \<Rightarrow> int res" where
  "cr_port (JInt v) = (if \<not> (1 \<le> v \<and> v \<le> 65535) then Inl (CredentialError ''invalid_port'') else Inr v)"
| "cr_port v = Inl (CredentialError ''invalid_port'')"

text \<open>\<open>^[A-Za-z0-9!#$%&'*+.^_`|~-]{1,128}$\<close>\<close>

definition header_re :: "string \<Rightarrow> bool" where
  "header_re s \<longleftrightarrow> 1 \<le> length s \<and> length s \<le> 128 \<and>
     list_all (\<lambda>c. is_alnum c \<or> c \<in> set (''!#$%&*+.^_|~-'' @ [CHR 0x27, CHR 0x60])) s"

fun cr_target :: "json \<Rightarrow> string res" where
  "cr_target (JStr v) =
     (if \<not> starts_with ''http_header:'' v then Inl (CredentialError ''invalid_injection_target'')
      else (let header = drop 12 v in
        if \<not> header_re header then Inl (CredentialError ''invalid_injection_target'') else Inr (''http_header:'' @ py_lower header)))"
| "cr_target v = Inl (CredentialError ''invalid_injection_target'')"

fun cr_time :: "json \<Rightarrow> int res" where
  "cr_time (JInt v) = (if v < 0 then Inl (CredentialError ''invalid_time'') else Inr v)"
| "cr_time v = Inl (CredentialError ''invalid_time'')"

subsection \<open>Bindings and requests\<close>

record credential_binding =
  cb_binding_id :: string
  cb_credential_id :: string
  cb_purpose :: string
  cb_protocol :: string
  cb_domain :: string
  cb_port :: int
  cb_injection_target :: string
  cb_binding_sha256 :: string

definition cbind_body :: "credential_binding \<Rightarrow> (string \<times> json) list" where
  "cbind_body b =
     [(''schema'', JStr CREDENTIAL_BINDING_SCHEMA), (''binding_id'', JStr (cb_binding_id b)), (''credential_id'', JStr (cb_credential_id b)),
      (''purpose'', JStr (cb_purpose b)), (''protocol'', JStr (cb_protocol b)), (''domain'', JStr (cb_domain b)),
      (''port'', JInt (cb_port b)), (''injection_target'', JStr (cb_injection_target b)), (''authority'', CREDENTIAL_AUTHORITY)]"

definition cbind_as_document :: "credential_binding \<Rightarrow> (string \<times> json) list" where
  "cbind_as_document b = cbind_body b @ [(''binding_sha256'', JStr (cb_binding_sha256 b))]"

text \<open>The fields that \<open>build\<close> and \<open>from_document\<close> validate, in their order.\<close>

definition cbind_fields :: "(string \<Rightarrow> json) \<Rightarrow> credential_binding res" where
  "cbind_fields get =
     rbind (cr_ident (get ''binding_id'') ''binding_id'') (\<lambda>binding_id.
     rbind (cr_ident (get ''credential_id'') ''credential_id'') (\<lambda>credential_id.
     rbind (cr_ident (get ''purpose'') ''purpose'') (\<lambda>purpose.
     rbind (cr_protocol (get ''protocol'')) (\<lambda>protocol.
     rbind (cr_domain (get ''domain'')) (\<lambda>domain.
     rbind (cr_port (get ''port'')) (\<lambda>port.
     rbind (cr_target (get ''injection_target'')) (\<lambda>target.
       Inr \<lparr>cb_binding_id = binding_id, cb_credential_id = credential_id, cb_purpose = purpose, cb_protocol = protocol, cb_domain = domain,
            cb_port = port, cb_injection_target = target, cb_binding_sha256 = []\<rparr>)))))))"

definition cbind_build :: "(string \<Rightarrow> json) \<Rightarrow> credential_binding res" where
  "cbind_build get = rbind (cbind_fields get) (\<lambda>item. Inr (item\<lparr>cb_binding_sha256 := canonical_sha256 (JObj (cbind_body item))\<rparr>))"

definition cbind_from_document :: "(string \<times> json) list \<Rightarrow> credential_binding res" where
  "cbind_from_document raw =
     (if \<not> same_keys raw [''schema'', ''binding_id'', ''credential_id'', ''purpose'', ''protocol'', ''domain'', ''port'',
           ''injection_target'', ''authority'', ''binding_sha256''] \<or>
         \<not> py_eq (dget raw ''schema'') (JStr CREDENTIAL_BINDING_SCHEMA) \<or> \<not> py_eq (dget raw ''authority'') CREDENTIAL_AUTHORITY
      then Inl (CredentialError ''binding_schema_mismatch'')
      else rbind (cbind_fields (dget raw)) (\<lambda>item.
        rbind (cr_sha (dget raw ''binding_sha256'') ''binding_sha256'') (\<lambda>sha.
        if canonical_sha256 (JObj (cbind_body item)) \<noteq> sha then Inl (CredentialError ''binding_digest_mismatch'')
        else Inr (item\<lparr>cb_binding_sha256 := sha\<rparr>))))"

record credential_request =
  cq_call_id :: string
  cq_subject_id :: string
  cq_policy_sha256 :: string
  cq_credential_id :: string
  cq_purpose :: string
  cq_protocol :: string
  cq_domain :: string
  cq_port :: int
  cq_injection_target :: string
  cq_at_unix :: int

definition cq_normalized :: "credential_request \<Rightarrow> credential_request res" where
  "cq_normalized r =
     rbind (cr_ident (JStr (cq_call_id r)) ''call_id'') (\<lambda>call_id.
     rbind (cr_ident (JStr (cq_subject_id r)) ''subject_id'') (\<lambda>subject_id.
     rbind (cr_sha (JStr (cq_policy_sha256 r)) ''policy_sha256'') (\<lambda>policy.
     rbind (cr_ident (JStr (cq_credential_id r)) ''credential_id'') (\<lambda>credential_id.
     rbind (cr_ident (JStr (cq_purpose r)) ''purpose'') (\<lambda>purpose.
     rbind (cr_protocol (JStr (cq_protocol r))) (\<lambda>protocol.
     rbind (cr_domain (JStr (cq_domain r))) (\<lambda>domain.
     rbind (cr_port (JInt (cq_port r))) (\<lambda>port.
     rbind (cr_target (JStr (cq_injection_target r))) (\<lambda>target.
     rbind (cr_time (JInt (cq_at_unix r))) (\<lambda>at.
       Inr \<lparr>cq_call_id = call_id, cq_subject_id = subject_id, cq_policy_sha256 = policy, cq_credential_id = credential_id,
            cq_purpose = purpose, cq_protocol = protocol, cq_domain = domain, cq_port = port, cq_injection_target = target,
            cq_at_unix = at\<rparr>))))))))))"

definition cq_body :: "credential_request \<Rightarrow> (string \<times> json) list res" where
  "cq_body request = rbind (cq_normalized request) (\<lambda>r. Inr
     [(''call_id'', JStr (cq_call_id r)), (''subject_id'', JStr (cq_subject_id r)), (''policy_sha256'', JStr (cq_policy_sha256 r)),
      (''credential_id'', JStr (cq_credential_id r)), (''purpose'', JStr (cq_purpose r)), (''protocol'', JStr (cq_protocol r)),
      (''domain'', JStr (cq_domain r)), (''port'', JInt (cq_port r)), (''injection_target'', JStr (cq_injection_target r)),
      (''at_unix'', JInt (cq_at_unix r))])"

subsection \<open>Receipts, leases and the broker's state\<close>

record credential_receipt =
  ca_authorization_id :: string
  ca_call_id :: string
  ca_subject_id :: string
  ca_credential_ref_sha256 :: string
  ca_request_sha256 :: string
  ca_binding_sha256 :: string
  ca_capability_receipt_sha256 :: string
  ca_decision :: string
  ca_reason_codes :: "string list"
  ca_lease_id :: "string option"
  ca_lease_expires_at_unix :: "int option"
  ca_request_declared_at_unix :: int
  ca_decision_at_unix :: int
  ca_receipt_sha256 :: string

definition ca_body :: "credential_receipt \<Rightarrow> (string \<times> json) list" where
  "ca_body r =
     [(''schema'', JStr CREDENTIAL_AUTH_SCHEMA), (''authorization_id'', JStr (ca_authorization_id r)), (''call_id'', JStr (ca_call_id r)),
      (''subject_id'', JStr (ca_subject_id r)), (''credential_ref_sha256'', JStr (ca_credential_ref_sha256 r)),
      (''request_sha256'', JStr (ca_request_sha256 r)), (''binding_sha256'', JStr (ca_binding_sha256 r)),
      (''capability_receipt_sha256'', JStr (ca_capability_receipt_sha256 r)), (''decision'', JStr (ca_decision r)),
      (''reason_codes'', JList (map JStr (ca_reason_codes r))), (''lease_id'', jopt (ca_lease_id r)),
      (''lease_expires_at_unix'', jopt_int (ca_lease_expires_at_unix r)),
      (''request_declared_at_unix'', JInt (ca_request_declared_at_unix r)), (''decision_at_unix'', JInt (ca_decision_at_unix r)),
      (''authority'', CREDENTIAL_AUTHORITY)]"

definition ca_as_document :: "credential_receipt \<Rightarrow> (string \<times> json) list" where
  "ca_as_document r = ca_body r @ [(''receipt_sha256'', JStr (ca_receipt_sha256 r))]"

record credential_lease =
  cl_lease_id :: string
  cl_request :: credential_request
  cl_binding :: credential_binding
  cl_capability_id :: string
  cl_authorization_receipt_sha256 :: string
  cl_issued_at_unix :: int
  cl_expires_at_unix :: int
  cl_consumed :: bool

record credential_reference =
  cf_lease_id :: string
  cf_credential_id :: string
  cf_purpose :: string
  cf_protocol :: string
  cf_domain :: string
  cf_port :: int
  cf_injection_target :: string
  cf_authorization_receipt_sha256 :: string
  cf_binding_sha256 :: string

record credential_broker =
  cx_bindings :: "(string \<times> credential_binding) list"
  cx_adapter_token_sha256 :: string
  cx_lease_ttl_seconds :: int
  cx_leases :: "(string \<times> credential_lease) list"
  cx_seen_call_ids :: "string set"
  cx_receipts :: "credential_receipt list"
  cx_contained :: bool
  cx_containment_evidence_sha256 :: string

fun cx_collect :: "(string \<times> json) list list \<Rightarrow> (string \<times> credential_binding) list \<Rightarrow> (string \<times> credential_binding) list res" where
  "cx_collect [] binding_map = Inr binding_map"
| "cx_collect (document # documents) binding_map =
     rbind (cbind_from_document document) (\<lambda>binding.
       case map_of binding_map (cb_binding_id binding) of
         None \<Rightarrow> cx_collect documents (AList.update (cb_binding_id binding) binding binding_map)
       | Some existing \<Rightarrow>
           if cb_binding_sha256 existing \<noteq> cb_binding_sha256 binding then Inl (CredentialError ''duplicate_binding_id'')
           else cx_collect documents (AList.update (cb_binding_id binding) binding binding_map))"

definition credential_broker_init :: "(string \<times> json) list list \<Rightarrow> string \<Rightarrow> int \<Rightarrow> credential_broker res" where
  "credential_broker_init bindings adapter_token lease_ttl_seconds =
     (if \<not> (1 \<le> lease_ttl_seconds \<and> lease_ttl_seconds \<le> CREDENTIAL_MAX_LEASE_TTL) then Inl (CredentialError ''invalid_lease_ttl'')
      else if py_len adapter_token < 32 \<or> CHR 0x00 \<in> set adapter_token then Inl (CredentialError ''invalid_adapter_token'')
      else rbind (cx_collect bindings []) (\<lambda>binding_map.
        if binding_map = [] then Inl (CredentialError ''bindings_required'')
        else Inr \<lparr>cx_bindings = binding_map, cx_adapter_token_sha256 = sha256_hex adapter_token,
               cx_lease_ttl_seconds = lease_ttl_seconds, cx_leases = [], cx_seen_call_ids = {}, cx_receipts = [],
               cx_contained = False, cx_containment_evidence_sha256 = ZERO_SHA256\<rparr>))"

subsection \<open>Operations\<close>

definition cx_enter_containment :: "string \<Rightarrow> (credential_broker, unit) op" where
  "cx_enter_containment incident_receipt_sha256 =
     obind (olift (cr_sha (JStr incident_receipt_sha256) ''incident_receipt_sha256'')) (\<lambda>sha.
       omodify (\<lambda>c. c\<lparr>cx_containment_evidence_sha256 := sha, cx_contained := True\<rparr>))"

definition cx_exit_containment :: "string \<Rightarrow> (credential_broker, unit) op" where
  "cx_exit_containment human_release_receipt_sha256 =
     obind (olift (cr_sha (JStr human_release_receipt_sha256) ''human_release_receipt_sha256'')) (\<lambda>sha.
       omodify (\<lambda>c. c\<lparr>cx_containment_evidence_sha256 := sha, cx_contained := False\<rparr>))"

type_synonym 'w credential_system = "(broker \<times> 'w) \<times> credential_broker"

definition cx_now :: "('w, int) op \<Rightarrow> ('w, int) op" where
  "cx_now clock = obind clock (\<lambda>value. if value < 0 then oraise (CredentialError ''trusted_clock_invalid'') else oret value)"

definition cx_receipt ::
  "credential_request \<Rightarrow> int \<Rightarrow> string \<Rightarrow> string \<Rightarrow> string \<Rightarrow> string \<Rightarrow> string \<Rightarrow> string list \<Rightarrow> string option \<Rightarrow> int option \<Rightarrow>
   (credential_broker, (string \<times> json) list) op" where
  "cx_receipt req decision_at credential_ref_sha request_sha binding_sha capability_receipt_sha decision reasons lease_id lease_expires c =
     (let base = \<lparr>ca_authorization_id = ''credential-auth:'' @ nat_str (length (cx_receipts c) + 1), ca_call_id = cq_call_id req,
            ca_subject_id = cq_subject_id req, ca_credential_ref_sha256 = credential_ref_sha, ca_request_sha256 = request_sha,
            ca_binding_sha256 = binding_sha, ca_capability_receipt_sha256 = capability_receipt_sha, ca_decision = decision,
            ca_reason_codes = sort (remdups reasons), ca_lease_id = lease_id, ca_lease_expires_at_unix = lease_expires,
            ca_request_declared_at_unix = cq_at_unix req, ca_decision_at_unix = decision_at, ca_receipt_sha256 = []\<rparr>;
          receipt = base\<lparr>ca_receipt_sha256 := canonical_sha256 (JObj (ca_body base))\<rparr>
      in (Inr (ca_as_document receipt), c\<lparr>cx_receipts := cx_receipts c @ [receipt]\<rparr>))"

definition binding_matches :: "credential_request \<Rightarrow> credential_binding \<Rightarrow> bool" where
  "binding_matches req b \<longleftrightarrow> cb_credential_id b = cq_credential_id req \<and> cb_purpose b = cq_purpose req \<and> cb_protocol b = cq_protocol req \<and>
     cb_domain b = cq_domain req \<and> cb_port b = cq_port req \<and> cb_injection_target b = cq_injection_target req"

definition match_binding :: "credential_request \<Rightarrow> credential_broker \<Rightarrow> credential_binding option" where
  "match_binding req c =
     (let matches = filter (binding_matches req) (map snd (cx_bindings c))
      in if length matches = 1 then Some (matches ! 0) else None)"

definition credential_authz :: "credential_request \<Rightarrow> string \<Rightarrow> credential_binding \<Rightarrow> int \<Rightarrow> authz_request" where
  "credential_authz req request_sha binding now =
     \<lparr>rq_subject_id = cq_subject_id req, rq_capability_type = ''credential.access'', rq_policy_sha256 = cq_policy_sha256 req,
      rq_requested_scope = [(''credential_ids'', JList [JStr (cq_credential_id req)]), (''purpose'', JStr (cq_purpose req))],
      rq_action = [(''operation'', JStr ''credential_use''), (''call_id'', JStr (cq_call_id req)), (''request_sha256'', JStr request_sha),
        (''binding_sha256'', JStr (cb_binding_sha256 binding)),
        (''destination_sha256'', JStr (canonical_sha256 (JObj [(''protocol'', JStr (cq_protocol req)), (''domain'', JStr (cq_domain req)),
          (''port'', JInt (cq_port req))]))),
        (''injection_target_sha256'', JStr (canonical_sha256 (JStr (cq_injection_target req))))],
      rq_at_unix = now, rq_recorder_event_id = None, rq_recorder_entry_sha256 = None\<rparr>"

definition credential_lease_id :: "credential_broker \<Rightarrow> credential_request \<Rightarrow> credential_binding \<Rightarrow> int \<Rightarrow> string" where
  "credential_lease_id c req binding now =
     ''credential-lease:'' @ nat_str (length (cx_leases c) + 1) @ '':'' @ take 16 (canonical_sha256 (JObj
       [(''call_id'', JStr (cq_call_id req)), (''binding'', JStr (cb_binding_sha256 binding)), (''decision_at'', JInt now)]))"

text \<open>\<open>authorize\<close> after an ALLOW.\<close>

definition cx_issue ::
  "credential_request \<Rightarrow> string \<Rightarrow> string \<Rightarrow> credential_binding \<Rightarrow> (string \<times> json) list \<Rightarrow> int \<Rightarrow>
   (credential_broker, (string \<times> json) list) op" where
  "cx_issue req ref_sha request_sha binding capability now c =
     (let lease_id = credential_lease_id c req binding now; expires = now + cx_lease_ttl_seconds c
      in obind (olift (dreq capability ''receipt_sha256'')) (\<lambda>receipt_sha.
         obind (cx_receipt req now ref_sha request_sha (cb_binding_sha256 binding) (jstr receipt_sha) ''ALLOW''
           [''binding_match'', ''credential_capability_admitted'', ''opaque_lease_issued''] (Some lease_id) (Some expires)) (\<lambda>receipt.
         obind (olift (dreq capability ''capability_id'')) (\<lambda>capability_id.
         obind (omodify (\<lambda>c. c\<lparr>cx_leases := AList.update lease_id
             \<lparr>cl_lease_id = lease_id, cl_request = req, cl_binding = binding, cl_capability_id = jstr capability_id,
              cl_authorization_receipt_sha256 = jstr (dget receipt ''receipt_sha256''), cl_issued_at_unix = now,
              cl_expires_at_unix = expires, cl_consumed = False\<rparr> (cx_leases c)\<rparr>)) (\<lambda>_. oret receipt)))) c)"

text \<open>\<open>authorize\<close> once exactly one binding matches: the capability broker decides.\<close>

definition cx_admit ::
  "credential_request \<Rightarrow> string \<Rightarrow> string \<Rightarrow> credential_binding \<Rightarrow> int \<Rightarrow> ('w credential_system, (string \<times> json) list) op" where
  "cx_admit req ref_sha request_sha binding now =
     obind (on_fst (on_fst (b_authorize (credential_authz req request_sha binding now)))) (\<lambda>capability.
     obind (olift (dreq capability ''decision'')) (\<lambda>decision.
     if \<not> py_eq decision (JStr ''ALLOW'')
     then obind (olift (dreq capability ''receipt_sha256'')) (\<lambda>receipt_sha.
       obind (olift (dreq capability ''reason_codes'')) (\<lambda>reasons.
       on_snd (cx_receipt req now ref_sha request_sha (cb_binding_sha256 binding) (jstr receipt_sha) ''BLOCK'' (jstrs reasons) None None)))
     else on_snd (cx_issue req ref_sha request_sha binding capability now)))"

definition cx_authorize :: "('w, int) op \<Rightarrow> credential_request \<Rightarrow> ('w credential_system, (string \<times> json) list) op" where
  "cx_authorize clock request =
     obind (olift (cq_normalized request)) (\<lambda>req.
     obind (olift (cq_body req)) (\<lambda>body.
     obind (on_fst (on_snd (cx_now clock))) (\<lambda>now s.
       let request_sha = canonical_sha256 (JObj body);
           ref_sha = canonical_sha256 (JObj [(''credential_id'', JStr (cq_credential_id req))]);
           blocked = (\<lambda>reasons. on_snd (cx_receipt req now ref_sha request_sha ZERO_SHA256 ZERO_SHA256 ''BLOCK'' reasons None None))
       in if cq_call_id req \<in> cx_seen_call_ids (snd s) then blocked [''replayed_call_id''] s
          else obind (on_snd (omodify (\<lambda>c. c\<lparr>cx_seen_call_ids := insert (cq_call_id req) (cx_seen_call_ids c)\<rparr>))) (\<lambda>_.
            if cx_contained (snd s) then blocked [''containment_active'']
            else (case match_binding req (snd s) of
              None \<Rightarrow> blocked [''binding_mismatch'']
            | Some binding \<Rightarrow> cx_admit req ref_sha request_sha binding now)) s)))"

definition credential_reference_of :: "credential_lease \<Rightarrow> credential_reference" where
  "credential_reference_of lease =
     \<lparr>cf_lease_id = cl_lease_id lease, cf_credential_id = cq_credential_id (cl_request lease), cf_purpose = cq_purpose (cl_request lease),
      cf_protocol = cq_protocol (cl_request lease), cf_domain = cq_domain (cl_request lease), cf_port = cq_port (cl_request lease),
      cf_injection_target = cq_injection_target (cl_request lease),
      cf_authorization_receipt_sha256 = cl_authorization_receipt_sha256 lease, cf_binding_sha256 = cb_binding_sha256 (cl_binding lease)\<rparr>"

definition cx_consume :: "('w, int) op \<Rightarrow> string \<Rightarrow> string \<Rightarrow> ('w credential_system, credential_reference) op" where
  "cx_consume clock lease_id adapter_token s =
     (if sha256_hex adapter_token \<noteq> cx_adapter_token_sha256 (snd s) then (Inl (CredentialError ''trusted_adapter_auth_failed''), s)
      else obind (on_fst (on_snd (cx_now clock))) (\<lambda>now s.
        if cx_contained (snd s) then (Inl (CredentialError ''containment_active''), s)
        else (case map_of (cx_leases (snd s)) lease_id of
            None \<Rightarrow> (Inl (CredentialError ''unknown_lease''), s)
          | Some lease \<Rightarrow>
              if cl_consumed lease then (Inl (CredentialError ''lease_replayed''), s)
              else if now \<ge> cl_expires_at_unix lease then (Inl (CredentialError ''lease_expired''), s)
              else if now < cl_issued_at_unix lease then (Inl (CredentialError ''trusted_clock_regression''), s)
              else if \<not> capability_still_active (fst (fst s)) (cl_capability_id lease) now
              then (Inl (CredentialError ''source_capability_inactive''), s)
              else (Inr (credential_reference_of lease),
                    (fst s, (snd s)\<lparr>cx_leases := AList.update lease_id (lease\<lparr>cl_consumed := True\<rparr>) (cx_leases (snd s))\<rparr>)))) s)"

definition cx_receipt_documents :: "credential_broker \<Rightarrow> (string \<times> json) list list" where
  "cx_receipt_documents c = map ca_as_document (cx_receipts c)"

definition cx_verify_receipt :: "(string \<times> json) list \<Rightarrow> (string \<times> json) list res" where
  "cx_verify_receipt document =
     (if \<not> same_keys document [''schema'', ''authorization_id'', ''call_id'', ''subject_id'', ''credential_ref_sha256'', ''request_sha256'',
           ''binding_sha256'', ''capability_receipt_sha256'', ''decision'', ''reason_codes'', ''lease_id'', ''lease_expires_at_unix'',
           ''request_declared_at_unix'', ''decision_at_unix'', ''authority'', ''receipt_sha256'']
      then Inl (CredentialError ''authorization_schema_mismatch'')
      else (let digest = dget document ''receipt_sha256''; raw = dpop document ''receipt_sha256'' in
        if \<not> py_eq (dget raw ''schema'') (JStr CREDENTIAL_AUTH_SCHEMA) \<or> \<not> py_eq (dget raw ''authority'') CREDENTIAL_AUTHORITY
        then Inl (CredentialError ''authorization_schema_mismatch'')
        else if \<not> py_eq digest (JStr (canonical_sha256 (JObj raw))) then Inl (CredentialError ''authorization_digest_mismatch'')
        else Inr document))"

end
