(* ===== verification/Credential_Properties.thy ===== *)
theory Credential_Properties
  imports Credential_Broker File_Properties
begin

section \<open>Credentials: facts and properties\<close>

text \<open>
  What the matching of bindings establishes, what an authorization leaves behind, and the leases as one-time
  tokens. The facts on the charged capability are those of the file mutation broker.
\<close>

subsection \<open>Receipts and bindings\<close>

definition wf_credential_receipt :: "credential_receipt \<Rightarrow> bool" where
  "wf_credential_receipt r \<longleftrightarrow> ca_receipt_sha256 r = canonical_sha256 (JObj (ca_body r))"

lemma ca_facts:
  "dget (ca_as_document r) ''receipt_sha256'' = JStr (ca_receipt_sha256 r)" "dpop (ca_as_document r) ''receipt_sha256'' = ca_body r"
  "dget (ca_body r) ''schema'' = JStr CREDENTIAL_AUTH_SCHEMA" "dget (ca_body r) ''authority'' = CREDENTIAL_AUTHORITY"
  "dget (ca_as_document r) ''decision'' = JStr (ca_decision r)"
  by (simp_all add: ca_as_document_def ca_body_def dpop_def dget_def)

lemma ca_keys: "dkeys (ca_as_document r) = [''schema'', ''authorization_id'', ''call_id'', ''subject_id'', ''credential_ref_sha256'', ''request_sha256'',
           ''binding_sha256'', ''capability_receipt_sha256'', ''decision'', ''reason_codes'', ''lease_id'', ''lease_expires_at_unix'',
           ''request_declared_at_unix'', ''decision_at_unix'', ''authority'', ''receipt_sha256'']"
  by (simp add: ca_as_document_def ca_body_def dkeys_def)

lemma cx_verify_receipt_ok: "wf_credential_receipt r \<Longrightarrow> cx_verify_receipt (ca_as_document r) = Inr (ca_as_document r)"
  unfolding cx_verify_receipt_def same_keys_def ca_keys ca_facts Let_def by (simp add: wf_credential_receipt_def py_eq_def)

definition credential_receipt_of :: "credential_request \<Rightarrow> string \<Rightarrow> string option \<Rightarrow> int option \<Rightarrow> int \<Rightarrow> credential_receipt \<Rightarrow> bool" where
  "credential_receipt_of req dec lid ex now r \<longleftrightarrow> wf_credential_receipt r \<and> ca_decision r = dec \<and> ca_lease_id r = lid \<and>
     ca_lease_expires_at_unix r = ex \<and> ca_decision_at_unix r = now \<and> ca_call_id r = cq_call_id req \<and> ca_subject_id r = cq_subject_id req \<and>
     ca_request_declared_at_unix r = cq_at_unix req"

definition log_credential_receipt :: "credential_receipt \<Rightarrow> credential_broker \<Rightarrow> credential_broker" where
  "log_credential_receipt r c = c\<lparr>cx_receipts := cx_receipts c @ [r]\<rparr>"

lemma cx_receipt_run:
  obtains r where "cx_receipt req now ref sha bsha csha dec rs lid ex c = (Inr (ca_as_document r), log_credential_receipt r c)"
    "credential_receipt_of req dec lid ex now r"
proof -
  have "\<exists>r. cx_receipt req now ref sha bsha csha dec rs lid ex c = (Inr (ca_as_document r), log_credential_receipt r c) \<and>
      credential_receipt_of req dec lid ex now r"
    unfolding cx_receipt_def Let_def log_credential_receipt_def
    by (rule exI, rule conjI, rule refl) (simp add: credential_receipt_of_def wf_credential_receipt_def ca_body_def)
  with that show thesis by blast
qed

text \<open>Exactly one configured binding is the destination of the request.\<close>

definition sole_binding :: "credential_broker \<Rightarrow> credential_request \<Rightarrow> credential_binding \<Rightarrow> bool" where
  "sole_binding c req bd \<longleftrightarrow> filter (binding_matches req) (map snd (cx_bindings c)) = [bd]"

lemma match_binding_iff: "match_binding req c = Some bd \<longleftrightarrow> sole_binding c req bd"
proof -
  have "(if length xs = 1 then Some (xs ! 0) else None) = Some bd \<longleftrightarrow> xs = [bd]" for xs :: "credential_binding list"
    by (cases xs) auto
  then show ?thesis unfolding match_binding_def sole_binding_def Let_def .
qed

lemma sole_bindingD:
  assumes "sole_binding c req bd"
  shows "binding_matches req bd" "\<exists>k. (k, bd) \<in> set (cx_bindings c)"
    "(k, bd') \<in> set (cx_bindings c) \<Longrightarrow> binding_matches req bd' \<Longrightarrow> bd' = bd"
proof -
  have "bd \<in> set (filter (binding_matches req) (map snd (cx_bindings c)))" using assms unfolding sole_binding_def by simp
  then show "binding_matches req bd" "\<exists>k. (k, bd) \<in> set (cx_bindings c)" by auto
  assume "(k, bd') \<in> set (cx_bindings c)" "binding_matches req bd'"
  then have "bd' \<in> set (filter (binding_matches req) (map snd (cx_bindings c)))" by force
  then show "bd' = bd" using assms unfolding sole_binding_def by simp
qed

lemma cx_collect_documents:
  "cx_collect docs m = Inr bs \<Longrightarrow> (k, b) \<in> set bs \<Longrightarrow> (k, b) \<in> set m \<or> (\<exists>doc \<in> set docs. cbind_from_document doc = Inr b)"
proof (induction docs arbitrary: m)
  case (Cons doc docs)
  then obtain b' where b': "cbind_from_document doc = Inr b'" "cx_collect docs (AList.update (cb_binding_id b') b' m) = Inr bs"
    by (auto simp: rbind_eq_Inr split: option.splits if_splits)
  from Cons.IH [OF b'(2) Cons.prems(2)] b'(1) show ?case by (auto dest: set_AList_update)
qed simp

lemma normalized_https: "cq_normalized q = Inr req \<Longrightarrow> cq_protocol req = ''https''"
proof -
  have "cr_protocol v = Inr p \<Longrightarrow> p = ''https''" for v p by (cases v) (auto split: if_splits)
  then show "cq_normalized q = Inr req \<Longrightarrow> cq_protocol req = ''https''"
    by (auto simp: cq_normalized_def rbind_eq_Inr simp del: cr_protocol.simps cr_domain.simps cr_target.simps cr_ident.simps cr_sha.simps)
qed

subsection \<open>Leases\<close>

definition wf_credential_lease :: "credential_broker \<Rightarrow> string \<Rightarrow> credential_lease \<Rightarrow> bool" where
  "wf_credential_lease c k l \<longleftrightarrow> cl_lease_id l = k \<and> 0 \<le> cl_issued_at_unix l \<and>
     cl_expires_at_unix l = cl_issued_at_unix l + cx_lease_ttl_seconds c \<and> cq_protocol (cl_request l) = ''https'' \<and>
     sole_binding c (cl_request l) (cl_binding l) \<and>
     (\<exists>r \<in> set (cx_receipts c). credential_receipt_of (cl_request l) ''ALLOW'' (Some k) (Some (cl_expires_at_unix l)) (cl_issued_at_unix l) r \<and>
        ca_receipt_sha256 r = cl_authorization_receipt_sha256 l)"

abbreviation credential_table_step :: "(string \<times> credential_lease) list \<Rightarrow> (string \<times> credential_lease) list \<Rightarrow> bool" where
  "credential_table_step \<equiv> table_step ''credential-lease:'' cl_consumed (\<lambda>l. l\<lparr>cl_consumed := True\<rparr>)"

interpretation credential_leases: lease_table "''credential-lease:''" cl_consumed "\<lambda>l. l\<lparr>cl_consumed := True\<rparr>"
  by unfold_locales simp

definition wf_credential_broker :: "credential_broker \<Rightarrow> bool" where
  "wf_credential_broker c \<longleftrightarrow> table_ok ''credential-lease:'' (cx_leases c) \<and> 1 \<le> cx_lease_ttl_seconds c \<and>
     cx_lease_ttl_seconds c \<le> CREDENTIAL_MAX_LEASE_TTL \<and> (\<forall>r \<in> set (cx_receipts c). wf_credential_receipt r) \<and>
     (\<forall>(k, l) \<in> set (cx_leases c). wf_credential_lease c k l)"

inductive credential_step :: "credential_broker \<Rightarrow> credential_broker \<Rightarrow> bool" where
  seen: "credential_step c (c\<lparr>cx_seen_call_ids := S\<rparr>)"
| contain: "credential_step c (c\<lparr>cx_containment_evidence_sha256 := sha, cx_contained := b\<rparr>)"
| log: "wf_credential_receipt r \<Longrightarrow> credential_step c (log_credential_receipt r c)"
| issue: "lease_number ''credential-lease:'' (length (cx_leases c) + 1) k \<Longrightarrow> \<not> cl_consumed l \<Longrightarrow> wf_credential_lease c k l \<Longrightarrow>
    credential_step c (c\<lparr>cx_leases := AList.update k l (cx_leases c)\<rparr>)"
| burn: "map_of (cx_leases c) k = Some l \<Longrightarrow> \<not> cl_consumed l \<Longrightarrow>
    credential_step c (c\<lparr>cx_leases := AList.update k (l\<lparr>cl_consumed := True\<rparr>) (cx_leases c)\<rparr>)"

abbreviation credential_steps :: "credential_broker \<Rightarrow> credential_broker \<Rightarrow> bool" where
  "credential_steps \<equiv> credential_step\<^sup>*\<^sup>*"

lemma credential_step_table: "credential_step c d \<Longrightarrow> cx_leases d = cx_leases c \<or> credential_table_step (cx_leases c) (cx_leases d)"
  by (induction rule: credential_step.induct) (auto simp: log_credential_receipt_def intro: table_step.intros)

lemma credential_step_fixed:
  "credential_step c d \<Longrightarrow> cx_bindings d = cx_bindings c \<and> cx_adapter_token_sha256 d = cx_adapter_token_sha256 c"
  by (induction rule: credential_step.induct) (simp_all add: log_credential_receipt_def)

lemma credential_steps_fixed:
  "credential_steps c d \<Longrightarrow> cx_bindings d = cx_bindings c \<and> cx_adapter_token_sha256 d = cx_adapter_token_sha256 c"
  by (induction rule: rtranclp_induct) (auto dest: credential_step_fixed)

lemma wf_credential_lease_mono:
  assumes "wf_credential_lease c k l" "cx_lease_ttl_seconds d = cx_lease_ttl_seconds c" "cx_bindings d = cx_bindings c"
    and "set (cx_receipts c) \<subseteq> set (cx_receipts d)"
  shows "wf_credential_lease d k l"
  using assms unfolding wf_credential_lease_def sole_binding_def by auto

lemma credential_step_ok:
  assumes "wf_credential_broker c" "credential_step c d"
  shows "wf_credential_broker d"
proof -
  have "table_ok ''credential-lease:'' (cx_leases d)"
    using credential_step_table [OF assms(2)] assms(1) credential_leases.step_table_ok by (auto simp: wf_credential_broker_def)
  moreover have keep: "cx_lease_ttl_seconds d = cx_lease_ttl_seconds c" "\<forall>r \<in> set (cx_receipts d). wf_credential_receipt r"
      "set (cx_receipts c) \<subseteq> set (cx_receipts d)"
    using assms(2,1) by (induction rule: credential_step.induct) (auto simp: wf_credential_broker_def log_credential_receipt_def)
  moreover have "\<forall>(k, l) \<in> set (cx_leases d). wf_credential_lease c k l"
    using assms(2,1)
  proof (induction rule: credential_step.induct)
    case (burn c k l)
    then have "wf_credential_lease c k l" using map_of_SomeD [OF burn.hyps(1)] by (auto simp: wf_credential_broker_def)
    with burn show ?case by (auto simp: wf_credential_broker_def wf_credential_lease_def dest!: set_AList_update)
  qed (auto simp: wf_credential_broker_def log_credential_receipt_def dest!: set_AList_update)
  then have "\<forall>(k, l) \<in> set (cx_leases d). wf_credential_lease d k l"
    using wf_credential_lease_mono keep(1,3) credential_step_fixed [OF assms(2)] by blast
  ultimately show ?thesis using assms(1) by (simp add: wf_credential_broker_def)
qed

lemma credential_step_token:
  assumes "wf_credential_broker c" "credential_step c d"
  shows "(keys_of (cx_leases d), spent_of cl_consumed (cx_leases d)) = (keys_of (cx_leases c), spent_of cl_consumed (cx_leases c)) \<or>
    token_step (keys_of (cx_leases c), spent_of cl_consumed (cx_leases c)) (keys_of (cx_leases d), spent_of cl_consumed (cx_leases d))"
  using credential_step_table [OF assms(2)] credential_leases.step_table_token assms(1) by (auto simp: wf_credential_broker_def)

interpretation credential_store: one_time_store wf_credential_broker "\<lambda>c. keys_of (cx_leases c)"
    "\<lambda>c. spent_of cl_consumed (cx_leases c)" credential_step
  by unfold_locales (rule credential_step_ok, assumption+, rule credential_step_token, assumption+)

lemma credential_init_ok:
  assumes "credential_broker_init docs token ttl = Inr c"
  shows "wf_credential_broker c" "cx_leases c = []" "sha256_hex token = cx_adapter_token_sha256 c"
    "(k, b) \<in> set (cx_bindings c) \<Longrightarrow> \<exists>doc \<in> set docs. cbind_from_document doc = Inr b"
proof -
  from assms obtain bs where "cx_collect docs [] = Inr bs" "cx_bindings c = bs" "wf_credential_broker c" "cx_leases c = []"
      "sha256_hex token = cx_adapter_token_sha256 c"
    by (auto simp: credential_broker_init_def rbind_eq_Inr wf_credential_broker_def split: if_splits)
  then show "wf_credential_broker c" "cx_leases c = []" "sha256_hex token = cx_adapter_token_sha256 c"
    "(k, b) \<in> set (cx_bindings c) \<Longrightarrow> \<exists>doc \<in> set docs. cbind_from_document doc = Inr b"
    using cx_collect_documents [of docs "[]" bs k b] by auto
qed

subsection \<open>One authorization\<close>

definition credential_blocked :: "(string \<times> json) list res \<Rightarrow> credential_broker \<Rightarrow> credential_broker \<Rightarrow> bool" where
  "credential_blocked r c c' \<longleftrightarrow> (case r of Inl _ \<Rightarrow> c' = c
     | Inr doc \<Rightarrow> \<exists>x. doc = ca_as_document x \<and> wf_credential_receipt x \<and> ca_decision x = ''BLOCK'' \<and> c' = log_credential_receipt x c)"

text \<open>A new, fresh lease of exactly this request and its receipt \<open>x\<close>.\<close>

definition credential_lease_issued ::
  "credential_request \<Rightarrow> credential_binding \<Rightarrow> string \<Rightarrow> int \<Rightarrow> (string \<times> json) list res \<Rightarrow> credential_broker \<Rightarrow> credential_broker \<Rightarrow> bool" where
  "credential_lease_issued req bd cid now r c c' \<longleftrightarrow> (\<exists>k l x. r = Inr (ca_as_document x) \<and>
     lease_number ''credential-lease:'' (length (cx_leases c) + 1) k \<and>
     credential_receipt_of req ''ALLOW'' (Some k) (Some (now + cx_lease_ttl_seconds c)) now x \<and>
     cl_lease_id l = k \<and> cl_request l = req \<and> cl_binding l = bd \<and> cl_capability_id l = cid \<and> \<not> cl_consumed l \<and>
     cl_issued_at_unix l = now \<and> cl_expires_at_unix l = now + cx_lease_ttl_seconds c \<and>
     cl_authorization_receipt_sha256 l = ca_receipt_sha256 x \<and>
     c' = (log_credential_receipt x c)\<lparr>cx_leases := AList.update k l (cx_leases c)\<rparr>)"

lemma cx_issue_run:
  assumes "dreq capability ''receipt_sha256'' = Inr rsha" "dreq capability ''capability_id'' = Inr (JStr cid)"
    and "cx_issue req ref sha bd capability now c = (r, c')"
  shows "credential_lease_issued req bd cid now r c c'"
proof -
  let ?k = "credential_lease_id c req bd now"
  obtain x where x: "cx_receipt req now ref sha (cb_binding_sha256 bd) (jstr rsha) ''ALLOW''
      [''binding_match'', ''credential_capability_admitted'', ''opaque_lease_issued''] (Some ?k) (Some (now + cx_lease_ttl_seconds c)) c =
      (Inr (ca_as_document x), log_credential_receipt x c)"
      "credential_receipt_of req ''ALLOW'' (Some ?k) (Some (now + cx_lease_ttl_seconds c)) now x"
    by (rule cx_receipt_run)
  let ?l = "\<lparr>cl_lease_id = ?k, cl_request = req, cl_binding = bd, cl_capability_id = cid,
      cl_authorization_receipt_sha256 = ca_receipt_sha256 x, cl_issued_at_unix = now,
      cl_expires_at_unix = now + cx_lease_ttl_seconds c, cl_consumed = False\<rparr>"
  have "r = Inr (ca_as_document x)" "c' = (log_credential_receipt x c)\<lparr>cx_leases := AList.update ?k ?l (cx_leases c)\<rparr>"
    using assms x(1) by (simp_all add: cx_issue_def Let_def obind_def ca_facts log_credential_receipt_def)
  moreover have "lease_number ''credential-lease:'' (length (cx_leases c) + 1) ?k"
    unfolding lease_number_def credential_lease_id_def by (rule exI, rule refl)
  ultimately show ?thesis
    unfolding credential_lease_issued_def using x(2) by (intro exI [of _ ?k] exI [of _ ?l] exI [of _ x]) simp
qed

lemma cx_admit_run:
  assumes wf: "wf_broker b" and run: "cx_admit req ref sha bd now ((b, w), c) = (r, ((b', w'), c'))"
  obtains (blocked) "w' = w" "wf_broker b'" "credential_blocked r c c'"
  | (issued) sc cid where "w' = w" "wf_broker b'" "charged_by b (credential_authz req sha bd now) sc cid b'"
      "credential_lease_issued req bd cid now r c c'"
proof -
  let ?rq = "credential_authz req sha bd now"
  obtain ra b1 where a: "b_authorize ?rq b = (ra, b1)" by (metis prod.collapse)
  have wf1: "wf_broker b1" using steps_b_authorize [OF wf a] wf_bsteps wf by blast
  show thesis
  proof (cases ra)
    case (Inl e)
    with run a have "r = Inl e" "b' = b1" "w' = w" "c' = c" by (simp_all add: cx_admit_def obind_def)
    with wf1 blocked show thesis by (simp add: credential_blocked_def)
  next
    case (Inr d)
    obtain dr where dr: "delegate_answer b ?rq d b1 dr" using b_authorize_answer [OF wf a [unfolded Inr]] by blast
    then have d: "d = dr_as_document dr" by (simp add: delegate_answer_def)
    show thesis
    proof (cases "dr_decision dr = ''ALLOW''")
      case True
      then obtain sc k where k: "dr_capability_id dr = Some k" "charged_by b ?rq sc k b1"
        using dr unfolding delegate_answer_def charged_by_def by auto
      moreover have "cx_issue req ref sha bd d now c = (r, c')" "b' = b1" "w' = w"
        using run a Inr True d by (auto simp: cx_admit_def obind_def dr_dget)
      ultimately show thesis
        using issued wf1 cx_issue_run [OF _ dr_capability [OF k(1)]] by (simp add: d dr_dget)
    next
      case False
      obtain x where x: "cx_receipt req now ref sha (cb_binding_sha256 bd) (dr_receipt_sha256 dr) ''BLOCK''
          (jstrs (JList (map JStr (dr_reason_codes dr)))) None None c = (Inr (ca_as_document x), log_credential_receipt x c)"
          "credential_receipt_of req ''BLOCK'' None None now x" by (rule cx_receipt_run)
      have "r = Inr (ca_as_document x)" "c' = log_credential_receipt x c" "b' = b1" "w' = w"
        using run a Inr False d x(1) by (auto simp: cx_admit_def obind_def dr_dget)
      with blocked wf1 x(2) show thesis by (simp add: credential_blocked_def credential_receipt_of_def) blast
    qed
  qed
qed

definition credential_seen :: "credential_request \<Rightarrow> credential_broker \<Rightarrow> credential_broker" where
  "credential_seen req c = c\<lparr>cx_seen_call_ids := insert (cq_call_id req) (cx_seen_call_ids c)\<rparr>"

definition credential_admitted :: "credential_request \<Rightarrow> broker \<Rightarrow> credential_broker \<Rightarrow> broker \<Rightarrow> (string \<times> json) list res \<Rightarrow> credential_broker \<Rightarrow> bool" where
  "credential_admitted request b c b' r c' \<longleftrightarrow> (\<exists>req bd cid now sc sha. cq_normalized request = Inr req \<and> cq_call_id req \<notin> cx_seen_call_ids c \<and>
     \<not> cx_contained c \<and> sole_binding c req bd \<and> 0 \<le> now \<and>
     charged_by b (credential_authz req sha bd now) sc cid b' \<and> credential_lease_issued req bd cid now r (credential_seen req c) c')"

lemma credential_mark:
  "on_snd (omodify (\<lambda>c. c\<lparr>cx_seen_call_ids := insert (cq_call_id req) (cx_seen_call_ids c)\<rparr>)) (s, c) = (Inr (), (s, credential_seen req c))"
  by (simp add: on_snd_def credential_seen_def)

lemma cx_now_run: "cx_now tick w = (Inr now, w') \<Longrightarrow> 0 \<le> now" "cx_now tick w = (r, w') \<Longrightarrow> w' = snd (tick w)"
  by (auto simp: cx_now_def obind_cases split: if_splits)

lemma credential_seen_same:
  "cx_contained (credential_seen req c) = cx_contained c" "match_binding req' (credential_seen req c) = match_binding req' c"
  by (simp_all add: credential_seen_def match_binding_def)

lemma cx_authorize_run:
  assumes wf: "wf_broker b" and run: "cx_authorize tick request ((b, w), c) = (r, ((b', w'), c'))"
  obtains (blocked) c0 where "w' = w \<or> w' = snd (tick w)" "wf_broker b'" "c0 = c \<or> (\<exists>req. c0 = credential_seen req c)" "credential_blocked r c0 c'"
  | (issued) "w' = snd (tick w)" "wf_broker b'" "credential_admitted request b c b' r c'"
proof (cases "\<exists>req body. cq_normalized request = Inr req \<and> cq_body req = Inr body")
  case False
  obtain e where "cx_authorize tick request ((b, w), c) = (Inl e, ((b, w), c))"
    using False by (cases "cq_normalized request"; cases "cq_body (projr (cq_normalized request))") (auto simp: cx_authorize_def obind_def)
  with run have "r = Inl e" "b' = b" "w' = w" "c' = c" by auto
  with wf show thesis by (intro blocked [of c]) (auto simp: credential_blocked_def)
next
  case True
  then obtain req body where norm: "cq_normalized request = Inr req" and body: "cq_body req = Inr body" by blast
  obtain rt w1 where t: "cx_now tick w = (rt, w1)" by (metis prod.collapse)
  then have clock: "on_fst (on_snd (cx_now tick)) ((b, w), c) = (rt, ((b, w1), c))" by (simp add: on_fst_def on_snd_def)
  have w1: "w1 = snd (tick w)" using cx_now_run(2) [OF t] .
  show thesis
  proof (cases rt)
    case (Inl e)
    then have "r = Inl e \<and> b' = b \<and> w' = w1 \<and> c' = c"
      using run norm body clock by (auto simp: cx_authorize_def obind_def simp del: on_pair)
    with wf w1 show thesis by (intro blocked [of c]) (auto simp: credential_blocked_def)
  next
    case now: (Inr now)
    let ?sha = "canonical_sha256 (JObj body)" and ?c = "credential_seen req c"
    let ?ref = "canonical_sha256 (JObj [(''credential_id'', JStr (cq_credential_id req))])"
    have stop: thesis if "cx_receipt req now ?ref ?sha ZERO_SHA256 ZERO_SHA256 ''BLOCK'' rs None None c0 = (r, c')" "b' = b" "w' = w1"
        "c0 = c \<or> c0 = ?c" for rs c0
    proof -
      obtain x where x: "cx_receipt req now ?ref ?sha ZERO_SHA256 ZERO_SHA256 ''BLOCK'' rs None None c0 = (Inr (ca_as_document x), log_credential_receipt x c0)"
          "credential_receipt_of req ''BLOCK'' None None now x" by (rule cx_receipt_run)
      with that(1) have "credential_blocked r c0 c'" by (auto simp: credential_blocked_def credential_receipt_of_def)
      with blocked [of c0] wf w1 that(2-4) show thesis by blast
    qed
    note unfold = cx_authorize_def obind_def Let_def credential_mark on_snd_eq credential_seen_same
    consider (seen) "cq_call_id req \<in> cx_seen_call_ids c"
      | (stopped) "cq_call_id req \<notin> cx_seen_call_ids c" "cx_contained c \<or> match_binding req c = None"
      | (bound) bd where "cq_call_id req \<notin> cx_seen_call_ids c" "\<not> cx_contained c" "match_binding req c = Some bd" by fastforce
    then show thesis
    proof cases
      case seen
      with run norm clock now body stop [of _ c] show thesis by (auto simp: unfold simp del: on_pair)
    next
      case stopped
      then have "\<exists>rs. cx_receipt req now ?ref ?sha ZERO_SHA256 ZERO_SHA256 ''BLOCK'' rs None None ?c = (r, c') \<and> b' = b \<and> w' = w1"
        using run norm clock now body by (auto simp: unfold simp del: on_pair split: if_splits)
      with stop [of _ ?c] show thesis by blast
    next
      case bound
      then have "cx_admit req ?ref ?sha bd now ((b, w1), ?c) = (r, ((b', w'), c'))"
        using run norm clock now body by (simp add: unfold del: on_pair)
      then show thesis
      proof (rule cx_admit_run [OF wf])
        assume "w' = w1" "wf_broker b'" "credential_blocked r ?c c'"
        then show thesis using w1 by (intro blocked [of ?c]) auto
      next
        fix sc cid
        assume "w' = w1" "wf_broker b'" "charged_by b (credential_authz req ?sha bd now) sc cid b'" "credential_lease_issued req bd cid now r ?c c'"
        moreover have "0 \<le> now" "sole_binding c req bd" using cx_now_run(1) [of tick w now w1] t now bound(3) by (simp_all add: match_binding_iff)
        ultimately have "credential_admitted request b c b' r c'"
          unfolding credential_admitted_def using norm bound(1,2) by blast
        with \<open>w' = w1\<close> w1 \<open>wf_broker b'\<close> show thesis by (intro issued) simp_all
      qed
    qed
  qed
qed

subsection \<open>Consuming a lease\<close>

text \<open>What holds at the moment the adapter receives the reference of a lease.\<close>

definition credential_consumable :: "broker \<Rightarrow> credential_broker \<Rightarrow> string \<Rightarrow> string \<Rightarrow> int \<Rightarrow> credential_lease \<Rightarrow> bool" where
  "credential_consumable b c lid token now l \<longleftrightarrow> sha256_hex token = cx_adapter_token_sha256 c \<and> \<not> cx_contained c \<and>
     map_of (cx_leases c) lid = Some l \<and> \<not> cl_consumed l \<and> cl_issued_at_unix l \<le> now \<and> now < cl_expires_at_unix l \<and>
     capability_still_active b (cl_capability_id l) now"

lemma cx_consume_run:
  assumes "cx_consume tick lid token ((b, w), c) = (r, ((b', w'), c'))"
  obtains (refused) e where "r = Inl e" "b' = b" "c' = c"
  | (consumed) now l where "r = Inr (credential_reference_of l)" "b' = b" "credential_consumable b c lid token now l"
      "c' = c\<lparr>cx_leases := AList.update lid (l\<lparr>cl_consumed := True\<rparr>) (cx_leases c)\<rparr>"
proof -
  obtain rt w1 where t: "on_fst (on_snd (cx_now tick)) ((b, w), c) = (rt, ((b, w1), c))"
    by (cases "cx_now tick w") (simp add: on_fst_def on_snd_def)
  show thesis
  proof (cases "\<exists>now l. rt = Inr now \<and> credential_consumable b c lid token now l")
    case False
    have "(\<exists>e. r = Inl e) \<and> b' = b \<and> c' = c"
      using assms t False
      by (cases rt; cases "map_of (cx_leases c) lid")
        (auto simp: cx_consume_def obind_def credential_consumable_def not_less not_le simp del: on_pair split: if_splits)
    with refused show thesis by blast
  next
    case True
    then obtain now l where l: "rt = Inr now" "credential_consumable b c lid token now l" by blast
    have "r = Inr (credential_reference_of l) \<and> b' = b \<and> c' = c\<lparr>cx_leases := AList.update lid (l\<lparr>cl_consumed := True\<rparr>) (cx_leases c)\<rparr>"
      using assms t l by (auto simp: cx_consume_def obind_def credential_consumable_def simp del: on_pair)
    with consumed l show thesis by blast
  qed
qed

subsection \<open>Runs\<close>

text \<open>A call of the broker, with any clock, or anything that happens outside it.\<close>

inductive credential_call :: "'w credential_system \<Rightarrow> 'w credential_system \<Rightarrow> bool" where
  authorize: "wf_broker b \<Longrightarrow> credential_call ((b, w), c) (snd (cx_authorize tick request ((b, w), c)))"
| consume: "credential_call s (snd (cx_consume tick lid token s))"
| enter: "credential_call s (snd (on_snd (cx_enter_containment sha) s))"
| leave: "credential_call s (snd (on_snd (cx_exit_containment sha) s))"
| other: "credential_call (bw, c) (bw', c)"

abbreviation credential_calls :: "'w credential_system \<Rightarrow> 'w credential_system \<Rightarrow> bool" where
  "credential_calls \<equiv> credential_call\<^sup>*\<^sup>*"

lemma credential_blocked_steps: "credential_blocked r c c' \<Longrightarrow> credential_steps c c'"
  by (auto simp: credential_blocked_def split: sum.splits intro: credential_step.log)

lemma credential_issued_steps:
  assumes "credential_lease_issued req bd cid now r c c'" "0 \<le> now" "cq_protocol req = ''https''" "sole_binding c req bd"
  shows "credential_steps c c'"
proof -
  from assms(1) obtain k l x where new: "lease_number ''credential-lease:'' (length (cx_leases c) + 1) k" "\<not> cl_consumed l"
    and x: "credential_receipt_of req ''ALLOW'' (Some k) (Some (now + cx_lease_ttl_seconds c)) now x"
    and l: "cl_lease_id l = k" "cl_request l = req" "cl_binding l = bd" "cl_issued_at_unix l = now"
      "cl_expires_at_unix l = now + cx_lease_ttl_seconds c" "cl_authorization_receipt_sha256 l = ca_receipt_sha256 x"
    and c': "c' = (log_credential_receipt x c)\<lparr>cx_leases := AList.update k l (cx_leases c)\<rparr>"
    unfolding credential_lease_issued_def by blast
  let ?d = "log_credential_receipt x c"
  have same: "cx_leases ?d = cx_leases c" "cx_lease_ttl_seconds ?d = cx_lease_ttl_seconds c" "x \<in> set (cx_receipts ?d)"
    "sole_binding ?d req bd"
    using assms(4) by (simp_all add: log_credential_receipt_def sole_binding_def)
  have "wf_credential_lease ?d k l"
    unfolding wf_credential_lease_def using same l x assms(2,3) by (intro conjI bexI [of _ x]) simp_all
  then have "credential_step ?d c'" using credential_step.issue [of ?d k l] new same c' by simp
  moreover have "credential_step c ?d" using x by (simp add: credential_receipt_of_def credential_step.log)
  ultimately show ?thesis by (meson r_into_rtranclp rtranclp.rtrancl_into_rtrancl)
qed

lemma credential_seen_step: "credential_step c (credential_seen req c)"
  unfolding credential_seen_def by (rule credential_step.seen)

lemma credential_authorize_steps:
  assumes "wf_broker b" "cx_authorize tick request ((b, w), c) = (r, ((b', w'), c'))"
  shows "credential_steps c c'"
proof (rule cx_authorize_run [OF assms])
  fix c0
  assume "c0 = c \<or> (\<exists>req. c0 = credential_seen req c)" "credential_blocked r c0 c'"
  then have "credential_steps c c0" "credential_steps c0 c'" using credential_seen_step credential_blocked_steps by blast+
  then show ?thesis by simp
next
  assume "credential_admitted request b c b' r c'"
  then obtain req bd cid now where req: "cq_normalized request = Inr req" "sole_binding c req bd" "0 \<le> now"
      "credential_lease_issued req bd cid now r (credential_seen req c) c'"
    unfolding credential_admitted_def by blast
  have "sole_binding (credential_seen req c) req bd" using req(2) by (simp add: sole_binding_def credential_seen_def)
  from credential_issued_steps [OF req(4,3) normalized_https [OF req(1)] this]
  show ?thesis using credential_seen_step by (meson converse_rtranclp_into_rtranclp)
qed

lemma credential_consume_steps:
  assumes "cx_consume tick lid token ((b, w), c) = (r, ((b', w'), c'))"
  shows "credential_steps c c'"
  by (rule cx_consume_run [OF assms]) (auto simp: credential_consumable_def intro: credential_step.burn)

lemma credential_call_steps: "credential_call s t \<Longrightarrow> credential_steps (snd s) (snd t)"
proof (induction rule: credential_call.induct)
  case (authorize b w c tick request)
  obtain r b' w' c' where "cx_authorize tick request ((b, w), c) = (r, ((b', w'), c'))" by (metis prod.collapse)
  with credential_authorize_steps [OF authorize this] show ?case by simp
next
  case (consume s tick lid token)
  obtain b w c where s: "s = ((b, w), c)" by (metis prod.collapse)
  obtain r b' w' c' where "cx_consume tick lid token ((b, w), c) = (r, ((b', w'), c'))" by (metis prod.collapse)
  with credential_consume_steps [OF this] s show ?case by simp
next
  case (enter s sha)
  then show ?case by (cases s) (auto simp: cx_enter_containment_def obind_def intro: credential_step.contain)
next
  case (leave s sha)
  then show ?case by (cases s) (auto simp: cx_exit_containment_def obind_def intro: credential_step.contain)
qed simp

lemma credential_calls_steps: "credential_calls s t \<Longrightarrow> credential_steps (snd s) (snd t)"
  by (induction rule: rtranclp_induct) (auto dest: credential_call_steps)

subsection \<open>A granted request\<close>

definition credential_sha :: "(string \<times> json) list \<Rightarrow> string" where
  "credential_sha body = canonical_sha256 (JObj body)"

lemma credential_grant:
  assumes wf: "wf_broker b" "log_capacity b 1"
    and norm: "cq_normalized request = Inr req" "cq_body req = Inr body" and fresh: "cq_call_id req \<notin> cx_seen_call_ids c"
    and free: "\<not> cx_contained c" and bd: "sole_binding c req bd"
    and clock: "tick w = (Inr now, w1)" "0 \<le> now"
    and rq: "request_ok (credential_authz req (credential_sha body) bd now) sc"
      "eligible b (credential_authz req (credential_sha body) bd now) sc k"
  obtains r b' c' cid where "cx_authorize tick request ((b, w), c) = (r, ((b', w1), c'))"
    "charged_by b (credential_authz req (credential_sha body) bd now) sc cid b'"
    "credential_lease_issued req bd cid now r (credential_seen req c) c'"
proof -
  let ?rq = "credential_authz req (credential_sha body) bd now"
  let ?ref = "canonical_sha256 (JObj [(''credential_id'', JStr (cq_credential_id req))])"
  obtain dr ev b' where a: "b_authorize ?rq b = (Inr (dr_as_document dr), b')" and dec: "decided b ?rq sc b' ev dr"
    using authorize_decided [OF wf rq(1)] by blast
  have allow: "dr_decision dr = ''ALLOW''" using dec rq(2) unfolding decided_def by (auto split: if_splits)
  have dd: "dreq (dr_as_document dr) ''decision'' = Inr (JStr ''ALLOW'')" by (simp add: dr_dget allow)
  have scope: "validate_scope (rq_capability_type ?rq) (JObj (rq_requested_scope ?rq)) = Inr sc"
    using rq(1) unfolding request_ok_def by (elim conjE) assumption
  obtain dr' k where k: "dr_as_document dr = dr_as_document dr'" "dr_capability_id dr' = Some k" "charged_by b ?rq sc k b'"
    using authorize_charged_by [OF wf(1) a dd] scope by (metis sum.inject(2))
  note cid = dr_capability [OF k(2), folded k(1)]
  let ?c = "credential_seen req c"
  obtain r c' where iss: "cx_issue req ?ref (credential_sha body) bd (dr_as_document dr) now ?c = (r, c')"
    by (metis prod.collapse)
  have "cx_now tick w = (Inr now, w1)" using clock by (simp add: cx_now_def obind_def)
  then have t: "on_fst (on_snd (cx_now tick)) ((b, w), c) = (Inr now, ((b, w1), c))" by (simp add: on_fst_def on_snd_def)
  have "cx_authorize tick request ((b, w), c) = cx_admit req ?ref (credential_sha body) bd now ((b, w1), ?c)"
    using norm fresh free bd t
    by (simp add: cx_authorize_def obind_def Let_def credential_mark credential_seen_same match_binding_iff [symmetric] credential_sha_def del: on_pair)
  also have "\<dots> = (r, ((b', w1), c'))"
    using a allow iss by (simp add: cx_admit_def obind_def dr_dget)
  finally show thesis using that k(3) cx_issue_run [OF _ cid iss] by (simp add: dr_dget)
qed

lemma credential_consume_granted:
  assumes "credential_consumable b c lid token now l" "tick w = (Inr now, w1)" "0 \<le> now"
  shows "cx_consume tick lid token ((b, w), c) =
    (Inr (credential_reference_of l), ((b, w1), c\<lparr>cx_leases := AList.update lid (l\<lparr>cl_consumed := True\<rparr>) (cx_leases c)\<rparr>))"
proof -
  have "cx_now tick w = (Inr now, w1)" using assms(2,3) by (simp add: cx_now_def obind_def)
  then have "on_fst (on_snd (cx_now tick)) ((b, w), c) = (Inr now, ((b, w1), c))" by (simp add: on_fst_def on_snd_def)
  then show ?thesis
    using assms(1) by (auto simp: cx_consume_def obind_def credential_consumable_def simp del: on_pair)
qed

text \<open>An authorization that issued a lease makes it consumable at once.\<close>

lemma credential_issued_consumable:
  assumes "charged_by b (credential_authz req sha bd now) sc cid b1" "credential_lease_issued req bd cid now r c c1"
    and "sha256_hex token = cx_adapter_token_sha256 c" "\<not> cx_contained c" "1 \<le> cx_lease_ttl_seconds c"
  obtains x lid l where "r = Inr (ca_as_document x)" "ca_lease_id x = Some lid" "cl_request l = req" "cl_binding l = bd"
    "credential_consumable b1 c1 lid token now l"
proof -
  from assms(2) obtain lid l x where x: "r = Inr (ca_as_document x)" "ca_lease_id x = Some lid"
    and l: "cl_request l = req" "cl_binding l = bd" "cl_capability_id l = cid" "\<not> cl_consumed l" "cl_issued_at_unix l = now"
      "cl_expires_at_unix l = now + cx_lease_ttl_seconds c"
    and c1: "c1 = (log_credential_receipt x c)\<lparr>cx_leases := AList.update lid l (cx_leases c)\<rparr>"
    unfolding credential_lease_issued_def credential_receipt_of_def by auto
  have "capability_still_active b1 cid now" using charged_by_active [OF assms(1)] by (simp add: credential_authz_def)
  then have "credential_consumable b1 c1 lid token now l"
    using assms(3-5) l c1 by (simp add: credential_consumable_def log_credential_receipt_def update_conv')
  with x l that show thesis by blast
qed

subsection \<open>Properties of the credential broker\<close>

text \<open>C31: In every run of the credential broker a call of \<open>authorize\<close> either leaves the leases as they are and
  answers, if at all, with a BLOCK; or the request is valid, its call identifier fresh, the broker not contained,
  exactly one configured binding has the credential, purpose, protocol, domain, port and target of the request,
  one use of a capability for exactly this credential and purpose was charged, and one fresh lease of exactly
  this request and binding, naming that capability and its ALLOW receipt, was added. Every receipt is accepted
  by the verifier, and the host is only asked for the time.\<close>

theorem credential_authorize_sound:
  assumes "credential_broker_init docs token ttl = Inr c0" "credential_calls (bw, c0) ((b, w), c)" "broker_reach b"
    and "cx_authorize tick request ((b, w), c) = (r, ((b', w'), c'))"
  shows "(cx_leases c' = cx_leases c \<and> (\<forall>doc. r = Inr doc \<longrightarrow> dget doc ''decision'' = JStr ''BLOCK'') \<or>
      credential_admitted request b c b' r c') \<and>
    (\<forall>x \<in> set (cx_receipts c'). cx_verify_receipt (ca_as_document x) = Inr (ca_as_document x)) \<and> (w' = w \<or> w' = snd (tick w))"
proof -
  note wf = reach_wf [OF assms(3)]
  have "credential_steps c0 c" "credential_steps c c'"
    using credential_calls_steps [OF assms(2)] credential_authorize_steps [OF wf assms(4)] by simp_all
  then have "wf_credential_broker c'" using credential_store.steps_ok credential_init_ok(1) [OF assms(1)] by blast
  then have ok: "\<forall>x \<in> set (cx_receipts c'). cx_verify_receipt (ca_as_document x) = Inr (ca_as_document x)"
    using cx_verify_receipt_ok by (simp add: wf_credential_broker_def)
  show ?thesis
  proof (rule cx_authorize_run [OF wf assms(4)])
    fix c1
    assume "w' = w \<or> w' = snd (tick w)" "c1 = c \<or> (\<exists>req. c1 = credential_seen req c)" "credential_blocked r c1 c'"
    then show ?thesis using ok
      by (auto simp: credential_blocked_def credential_seen_def log_credential_receipt_def ca_facts split: sum.splits)
  qed (use ok in auto)
qed


subsection \<open>Witnesses\<close>

definition sample_destination :: credential_binding where
  "sample_destination =
     (let item = \<lparr>cb_binding_id = ''binding:1'', cb_credential_id = ''cred:db'', cb_purpose = ''read'', cb_protocol = ''https'',
        cb_domain = ''db.example.com'', cb_port = 443, cb_injection_target = ''http_header:authorization'', cb_binding_sha256 = []\<rparr>
      in item\<lparr>cb_binding_sha256 := canonical_sha256 (JObj (cbind_body item))\<rparr>)"

definition sample_token :: string where
  "sample_token = replicate 32 (CHR ''t'')"

definition sample_credential_broker :: credential_broker where
  "sample_credential_broker = \<lparr>cx_bindings = [(''binding:1'', sample_destination)], cx_adapter_token_sha256 = sha256_hex sample_token,
     cx_lease_ttl_seconds = 10, cx_leases = [], cx_seen_call_ids = {}, cx_receipts = [], cx_contained = False,
     cx_containment_evidence_sha256 = ZERO_SHA256\<rparr>"

definition sample_credential_request :: credential_request where
  "sample_credential_request = \<lparr>cq_call_id = ''call:1'', cq_subject_id = ''agent:a'', cq_policy_sha256 = ZERO_SHA256, cq_credential_id = ''cred:db'',
     cq_purpose = ''read'', cq_protocol = ''https'', cq_domain = ''db.example.com'', cq_port = 443,
     cq_injection_target = ''http_header:authorization'', cq_at_unix = 7\<rparr>"

definition credential_scope :: "(string \<times> json) list" where
  "credential_scope = [(''credential_ids'', JList [JStr ''cred:db'']), (''purpose'', JStr ''read'')]"

definition credential_sample :: "(broker \<times> unit) \<times> credential_broker" where
  "credential_sample = ((sample_broker ''credential.access'' credential_scope, ()), sample_credential_broker)"

lemma sample_destination_fields:
  "cb_binding_id sample_destination = ''binding:1''" "cb_credential_id sample_destination = ''cred:db''" "cb_purpose sample_destination = ''read''"
  "cb_protocol sample_destination = ''https''" "cb_domain sample_destination = ''db.example.com''" "cb_port sample_destination = 443"
  "cb_injection_target sample_destination = ''http_header:authorization''"
  by (simp_all add: sample_destination_def Let_def)

lemma credential_sample_facts:
  "ident_re ''binding:1''" "ident_re ''cred:db''" "ident_re ''read''" "cr_protocol (JStr ''https'') = Inr ''https''"
  "cr_domain (JStr ''db.example.com'') = Inr ''db.example.com''"
  "cr_target (JStr ''http_header:authorization'') = Inr ''http_header:authorization''"
  "cq_normalized sample_credential_request = Inr sample_credential_request"
  "validate_scope ''credential.access'' (JObj credential_scope) = Inr credential_scope"
  "length sample_token = 32" "py_len sample_token = 32" "CHR 0x00 \<notin> set sample_token"
  by code_simp+

lemma sample_destination_sha:
  "cb_binding_sha256 sample_destination = canonical_sha256 (JObj (cbind_body (sample_destination\<lparr>cb_binding_sha256 := x\<rparr>)))"
  by (simp add: sample_destination_def cbind_body_def Let_def)

lemma sample_destination_document: "cbind_from_document (cbind_as_document sample_destination) = Inr sample_destination"
proof -
  have get: "dget (cbind_as_document sample_destination) ''schema'' = JStr CREDENTIAL_BINDING_SCHEMA"
    "dget (cbind_as_document sample_destination) ''authority'' = CREDENTIAL_AUTHORITY"
    "dget (cbind_as_document sample_destination) ''binding_sha256'' = JStr (cb_binding_sha256 sample_destination)"
    by (simp_all add: cbind_as_document_def cbind_body_def dget_def)
  have "cbind_fields (dget (cbind_as_document sample_destination)) = Inr (sample_destination\<lparr>cb_binding_sha256 := []\<rparr>)"
    by (simp add: cbind_fields_def cbind_as_document_def cbind_body_def dget_def sample_destination_fields credential_sample_facts
        is_alnum_def is_alpha_def del: cr_protocol.simps cr_domain.simps cr_target.simps)
  then show ?thesis
    by (simp add: cbind_from_document_def get py_eq_def sample_destination_sha [of "[]"])
      (simp add: same_keys_def dkeys_def cbind_as_document_def cbind_body_def sample_destination_sha [of "[]", symmetric])
qed

lemma credential_sample_init: "credential_broker_init [cbind_as_document sample_destination] sample_token 10 = Inr sample_credential_broker"
  by (simp add: credential_broker_init_def sample_destination_document CREDENTIAL_MAX_LEASE_TTL_def sample_credential_broker_def
      sample_destination_fields credential_sample_facts)

lemma credential_sample_state:
  "cq_call_id sample_credential_request \<notin> cx_seen_call_ids sample_credential_broker" "\<not> cx_contained sample_credential_broker"
  "sole_binding sample_credential_broker sample_credential_request sample_destination" "oret 30 () = (Inr 30, ())" "(0::int) \<le> 30"
  by (simp_all add: sample_credential_broker_def sample_credential_request_def sole_binding_def binding_matches_def sample_destination_fields)

lemma credential_sample_broker: "wf_broker (sample_broker ''credential.access'' credential_scope)"
  by (rule sample_wf) (simp_all add: wf_scope_def credential_sample_facts CAPABILITY_TYPES_def)

lemma credential_sample_ok:
  "request_ok (credential_authz sample_credential_request sha sample_destination 30) credential_scope"
  "eligible (sample_broker ''credential.access'' credential_scope) (credential_authz sample_credential_request sha sample_destination 30)
     credential_scope ''cap:sample''"
proof -
  have rq: "rq_requested_scope (credential_authz sample_credential_request sha sample_destination 30) = credential_scope"
    by (simp add: credential_authz_def credential_scope_def sample_credential_request_def)
  show "request_ok (credential_authz sample_credential_request sha sample_destination 30) credential_scope"
    unfolding request_ok_def rq using credential_sample_facts(8)
    by (simp add: credential_authz_def CAPABILITY_TYPES_def sample_credential_request_def is_alnum_def is_alpha_def)
  show "eligible (sample_broker ''credential.access'' credential_scope) (credential_authz sample_credential_request sha sample_destination 30)
     credential_scope ''cap:sample''"
    by (rule sample_eligible)
      (simp_all add: credential_authz_def sample_credential_request_def scope_contains_def credential_scope_def scope_value_contains_def)
qed

lemma credential_sample_run:
  obtains x b1 c1 lid l c2 where "cx_authorize (oret 30) sample_credential_request credential_sample = (Inr (ca_as_document x), ((b1, ()), c1))"
    "cx_consume (oret 30) lid sample_token ((b1, ()), c1) = (Inr (credential_reference_of l), ((b1, ()), c2))"
    "cl_request l = sample_credential_request"
proof -
  obtain body where body: "cq_body sample_credential_request = Inr body" by (simp add: cq_body_def credential_sample_facts)
  obtain r b1 c1 cid where run: "cx_authorize (oret 30) sample_credential_request credential_sample = (r, ((b1, ()), c1))"
    "charged_by (sample_broker ''credential.access'' credential_scope)
       (credential_authz sample_credential_request (credential_sha body) sample_destination 30) credential_scope cid b1"
    "credential_lease_issued sample_credential_request sample_destination cid 30 r
       (credential_seen sample_credential_request sample_credential_broker) c1"
    unfolding credential_sample_def
    by (rule credential_grant [where tick = "oret 30" and w = "()", OF credential_sample_broker sample_capacity credential_sample_facts(7) body
          credential_sample_state credential_sample_ok])
  obtain x lid l where l: "r = Inr (ca_as_document x)" "cl_request l = sample_credential_request"
      "credential_consumable b1 c1 lid sample_token 30 l"
    by (rule credential_issued_consumable [OF run(2,3), of sample_token])
      (simp_all add: credential_seen_def sample_credential_broker_def)
  from credential_consume_granted [OF l(3), of "oret 30" "()" "()"] that run(1) l(1,2) show thesis by simp
qed

theorem credential_authorize_sound_witness:
  "list_all (\<lambda>x. cx_verify_receipt (ca_as_document x) = Inr (ca_as_document x))
     (cx_receipts (snd (snd (cx_authorize (oret 30) sample_credential_request ((demo_broker, 7 :: nat), sample_credential_broker)))))"
proof -
  obtain r b' w' c' where run: "cx_authorize (oret 30) sample_credential_request ((demo_broker, 7 :: nat), sample_credential_broker) = (r, ((b', w'), c'))"
    by (metis prod.collapse)
  show ?thesis
    using credential_authorize_sound [OF credential_sample_init rtranclp.rtrancl_refl demo_reach run] unfolding run list_all_iff by simp
qed


end
