(* ===== verification/Objective_Integrity.thy ===== *)
theory Objective_Integrity
  imports Runtime_Mediation Multi_Agent
begin

section \<open>Objective integrity\<close>

text \<open>
  Model of src/sdk/liminal_objective_integrity: method rules and the policy of an objective, actions, externally
  verified observations and their chain, the guard that judges actions and completions, and the mediator that
  asks the guard first. The verifier of observations is the host's: it acts on the world \<open>'w\<close> and answers with
  any value. \<open>upper\<close> stands for \<open>str.upper\<close>, whose tables are the Unicode database.
\<close>

subsection \<open>Fields\<close>

abbreviation ObjectiveIntegrityError :: "string \<Rightarrow> exn" where
  "ObjectiveIntegrityError m \<equiv> Exn ''ObjectiveIntegrityError'' m"

definition POLICY_SCHEMA :: string where
  "POLICY_SCHEMA = ''liminal-objective-method-policy-v0.1''"

definition RULE_SCHEMA :: string where
  "RULE_SCHEMA = ''liminal-objective-method-rule-v0.1''"

definition OBSERVATION_SCHEMA :: string where
  "OBSERVATION_SCHEMA = ''liminal-objective-integrity-observation-v0.1''"

definition OBJECTIVE_DECISION_SCHEMA :: string where
  "OBJECTIVE_DECISION_SCHEMA = ''liminal-objective-integrity-decision-v0.1''"

definition COMPLETION_SCHEMA :: string where
  "COMPLETION_SCHEMA = ''liminal-objective-integrity-completion-v0.1''"

definition GUARDED_MEDIATION_SCHEMA :: string where
  "GUARDED_MEDIATION_SCHEMA = ''liminal-objective-guarded-mediation-v0.1''"

definition OBJECTIVE_AUTHORITY :: json where
  "OBJECTIVE_AUTHORITY = JObj
     [(''mode'', JStr ''objective_method_integrity_governance''), (''deterministic_policy_evaluation'', JBool True),
      (''trusted_observation_verification_required'', JBool True), (''method_integrity_completion_gate'', JBool True),
      (''capability_grant'', JBool False), (''runtime_execution'', JBool False), (''network_execution'', JBool False),
      (''secret_access'', JBool False), (''policy_mutation'', JBool False), (''runtime_mutation'', JBool False),
      (''hidden_answer_access'', JBool False), (''evaluator_state_access'', JBool False), (''semantic_omniscience'', JBool False),
      (''automatic_containment_execution'', JBool False)]"

definition DECISION_RANK :: "(string \<times> nat) list" where
  "DECISION_RANK = [(''ALLOW'', 0), (''REVISE'', 1), (''BLOCK'', 2), (''CONTAIN'', 3)]"

definition CRITICAL_VIOLATIONS :: "string list" where
  "CRITICAL_VIOLATIONS =
     [''hidden_answer_access'', ''evaluator_state_access'', ''grader_or_benchmark_modification'', ''evidence_tampering'',
      ''evaluation_environment_exploitation'', ''unauthorized_policy_mutation'', ''unauthorized_runtime_mutation'']"

definition NONCRITICAL_VIOLATIONS :: "string list" where
  "NONCRITICAL_VIOLATIONS = filter (\<lambda>v. v \<notin> set CRITICAL_VIOLATIONS) OBJECTIVE_VIOLATIONS"

fun oi_sha :: "json \<Rightarrow> string \<Rightarrow> bool \<Rightarrow> string res" where
  "oi_sha (JStr v) name allow_zero =
     (if \<not> is_sha256 v then Inl (ObjectiveIntegrityError (name @ '' must be lowercase SHA-256''))
      else if \<not> allow_zero \<and> v = ZERO_SHA256 then Inl (ObjectiveIntegrityError (name @ '' must not be zero SHA-256''))
      else Inr v)"
| "oi_sha v name allow_zero = Inl (ObjectiveIntegrityError (name @ '' must be lowercase SHA-256''))"

fun oi_text :: "json \<Rightarrow> string \<Rightarrow> string res" where
  "oi_text (JStr v) name =
     (if py_strip v = [] \<or> v \<noteq> py_strip v \<or> CHR 0x00 \<in> set v \<or> py_len v > 192
      then Inl (ObjectiveIntegrityError (name @ '' must be a bounded non-empty string'')) else Inr v)"
| "oi_text v name = Inl (ObjectiveIntegrityError (name @ '' must be a bounded non-empty string''))"

fun oi_time :: "json \<Rightarrow> string \<Rightarrow> int res" where
  "oi_time (JInt v) name = (if v < 0 then Inl (ObjectiveIntegrityError (name @ '' must be a non-negative integer'')) else Inr v)"
| "oi_time v name = Inl (ObjectiveIntegrityError (name @ '' must be a non-negative integer''))"

definition oi_exact :: "(string \<times> json) list \<Rightarrow> string list \<Rightarrow> string \<Rightarrow> unit res" where
  "oi_exact raw expected name = (if \<not> same_keys raw expected then Inl (ObjectiveIntegrityError (name @ '' keys mismatch'')) else Inr ())"

text \<open>\<open>max(values, key=DECISION_RANK)\<close>: the first of the highest ranked.\<close>

definition decision_rank :: "string \<Rightarrow> nat res" where
  "decision_rank item = (case map_of DECISION_RANK item of
     None \<Rightarrow> Inl (Exn ''KeyError'' (CHR 0x27 # item @ [CHR 0x27])) | Some n \<Rightarrow> Inr n)"

fun first_max :: "(string \<times> nat) list \<Rightarrow> string \<times> nat \<Rightarrow> string" where
  "first_max [] best = fst best"
| "first_max (x # xs) best = (if snd x > snd best then first_max xs x else first_max xs best)"

definition decision_max :: "string list \<Rightarrow> string res" where
  "decision_max values =
     (if values = [] then Inr ''ALLOW''
      else rbind (rmap decision_rank values) (\<lambda>ranks. Inr (case zip values ranks of (x # xs) \<Rightarrow> first_max xs x | [] \<Rightarrow> ''ALLOW'')))"

definition decision_for_violation :: "string \<Rightarrow> string res" where
  "decision_for_violation code =
     (if code \<in> set CRITICAL_VIOLATIONS then Inr ''CONTAIN''
      else if code \<in> set NONCRITICAL_VIOLATIONS then Inr ''BLOCK''
      else Inl (ObjectiveIntegrityError ''unknown objective integrity violation''))"

subsection \<open>Method rules\<close>

record method_rule =
  mt_rule_id :: string
  mt_runtime_kind :: string
  mt_violation_code :: string
  mt_decision :: string
  mt_scope_sha256 :: string
  mt_payload_sha256 :: string
  mt_rule_sha256 :: string

definition mt_validate :: "method_rule \<Rightarrow> unit res" where
  "mt_validate r =
     rbind (oi_text (JStr (mt_rule_id r)) ''rule_id'') (\<lambda>_.
     if mt_runtime_kind r \<notin> set CAPABILITY_TYPES
     then Inl (ObjectiveIntegrityError ''runtime_kind is not a known capability/method kind'')
     else if mt_violation_code r \<notin> set OBJECTIVE_VIOLATIONS
     then Inl (ObjectiveIntegrityError ''unknown objective-integrity violation code'')
     else if mt_decision r \<notin> set [''REVISE'', ''BLOCK'', ''CONTAIN'']
     then Inl (ObjectiveIntegrityError ''forbidden-method rule cannot yield ALLOW'')
     else rbind (oi_sha (JStr (mt_scope_sha256 r)) ''scope_sha256'' True) (\<lambda>_.
       rbind (oi_sha (JStr (mt_payload_sha256 r)) ''payload_sha256'' True) (\<lambda>_. Inr ())))"

definition mt_body :: "method_rule \<Rightarrow> (string \<times> json) list res" where
  "mt_body r = rbind (mt_validate r) (\<lambda>_. Inr
     [(''schema'', JStr RULE_SCHEMA), (''rule_id'', JStr (mt_rule_id r)), (''runtime_kind'', JStr (mt_runtime_kind r)),
      (''violation_code'', JStr (mt_violation_code r)), (''decision'', JStr (mt_decision r)),
      (''scope_sha256'', JStr (mt_scope_sha256 r)), (''payload_sha256'', JStr (mt_payload_sha256 r)),
      (''authority'', OBJECTIVE_AUTHORITY)])"

definition mt_as_document :: "method_rule \<Rightarrow> (string \<times> json) list res" where
  "mt_as_document r = rbind (mt_body r) (\<lambda>body. Inr (body @ [(''rule_sha256'', JStr (mt_rule_sha256 r))]))"

text \<open>\<open>build\<close> reads its keyword arguments from \<open>get\<close>.\<close>

definition mt_build :: "(string \<Rightarrow> json) \<Rightarrow> method_rule res" where
  "mt_build get =
     rbind (oi_text (get ''rule_id'') ''rule_id'') (\<lambda>rule_id.
     rbind (oi_text (get ''runtime_kind'') ''runtime_kind'') (\<lambda>kind.
     rbind (oi_text (get ''violation_code'') ''violation_code'') (\<lambda>code.
     rbind (oi_text (get ''decision'') ''decision'') (\<lambda>decision.
     rbind (oi_sha (get ''scope_sha256'') ''scope_sha256'' True) (\<lambda>scope.
     rbind (oi_sha (get ''payload_sha256'') ''payload_sha256'' True) (\<lambda>payload.
       let item = \<lparr>mt_rule_id = rule_id, mt_runtime_kind = kind, mt_violation_code = code, mt_decision = decision,
              mt_scope_sha256 = scope, mt_payload_sha256 = payload, mt_rule_sha256 = []\<rparr>
       in rbind (mt_validate item) (\<lambda>_. rbind (mt_body item) (\<lambda>body.
            Inr (item\<lparr>mt_rule_sha256 := canonical_sha256 (JObj body)\<rparr>)))))))))"

definition mt_from_document :: "json \<Rightarrow> method_rule res" where
  "mt_from_document v =
     rbind (value_dict v) (\<lambda>pairs.
     if \<not> list_all (\<lambda>p. is_text (fst p)) pairs then Inl (ObjectiveIntegrityError ''objective method rule keys mismatch'')
     else (let raw = map (\<lambda>(k, x). (jstr k, x)) pairs in
       rbind (oi_exact raw [''schema'', ''rule_id'', ''runtime_kind'', ''violation_code'', ''decision'', ''scope_sha256'',
           ''payload_sha256'', ''authority'', ''rule_sha256''] ''objective method rule'') (\<lambda>_.
       if \<not> py_eq (dget raw ''schema'') (JStr RULE_SCHEMA) \<or> \<not> py_eq (dget raw ''authority'') OBJECTIVE_AUTHORITY
       then Inl (ObjectiveIntegrityError ''objective method rule schema/authority mismatch'')
       else rbind (mt_build (dget raw)) (\<lambda>item.
         rbind (oi_sha (dget raw ''rule_sha256'') ''rule_sha256'' True) (\<lambda>sha.
         if mt_rule_sha256 item \<noteq> sha then Inl (ObjectiveIntegrityError ''objective method rule digest mismatch'')
         else Inr item)))))"

subsection \<open>Actions\<close>

record objective_action =
  oa_action_id :: string
  oa_subject_id :: string
  oa_policy_sha256 :: string
  oa_runtime_kind :: string
  oa_scope_sha256 :: string
  oa_payload_sha256 :: string
  oa_at_unix :: int

definition oa_validate :: "objective_action \<Rightarrow> unit res" where
  "oa_validate a =
     rbind (oi_text (JStr (oa_action_id a)) ''action_id'') (\<lambda>_.
     rbind (oi_text (JStr (oa_subject_id a)) ''subject_id'') (\<lambda>_.
     rbind (oi_sha (JStr (oa_policy_sha256 a)) ''policy_sha256'' True) (\<lambda>_.
     if oa_runtime_kind a \<notin> set CAPABILITY_TYPES
     then Inl (ObjectiveIntegrityError ''unsupported objective action runtime_kind'')
     else rbind (oi_sha (JStr (oa_scope_sha256 a)) ''scope_sha256'' True) (\<lambda>_.
       rbind (oi_sha (JStr (oa_payload_sha256 a)) ''payload_sha256'' True) (\<lambda>_.
       rbind (oi_time (JInt (oa_at_unix a)) ''at_unix'') (\<lambda>_. Inr ()))))))"

definition oa_from_operation :: "runtime_operation \<Rightarrow> objective_action res" where
  "oa_from_operation operation =
     rbind (ro_validate operation) (\<lambda>_.
     rbind (ro_normalized_scope operation) (\<lambda>scope.
       Inr \<lparr>oa_action_id = ro_operation_id operation, oa_subject_id = ro_subject_id operation,
            oa_policy_sha256 = ro_policy_sha256 operation, oa_runtime_kind = ro_kind operation,
            oa_scope_sha256 = canonical_sha256 (JObj scope), oa_payload_sha256 = ro_payload_sha256 operation,
            oa_at_unix = ro_at_unix operation\<rparr>))"

definition oa_from_network :: "(string \<Rightarrow> string) \<Rightarrow> gateway_request \<Rightarrow> objective_action res" where
  "oa_from_network upper request =
     rbind (oi_text (JStr (gr_method request)) ''network method'') (\<lambda>verb.
     rbind (oi_text (JStr (gr_url request)) ''network url'') (\<lambda>url.
     rbind (oi_sha (JStr (gr_body_sha256 request)) ''network body_sha256'' True) (\<lambda>body_sha.
     rbind (oi_text (JStr (gr_call_id request)) ''network call_id'') (\<lambda>call_id.
     rbind (oi_text (JStr (gr_subject_id request)) ''network subject_id'') (\<lambda>subject_id.
     rbind (oi_sha (JStr (gr_policy_sha256 request)) ''network policy_sha256'' True) (\<lambda>policy.
     rbind (oi_time (JInt (gr_at_unix request)) ''network at_unix'') (\<lambda>at.
       let item = \<lparr>oa_action_id = call_id, oa_subject_id = subject_id, oa_policy_sha256 = policy,
              oa_runtime_kind = ''network.connect_domain'',
              oa_scope_sha256 = canonical_sha256 (JObj [(''method'', JStr (upper verb)),
                (''requested_url_sha256'', JStr (canonical_sha256 (JStr url)))]),
              oa_payload_sha256 = body_sha, oa_at_unix = at\<rparr>
       in rbind (oa_validate item) (\<lambda>_. Inr item))))))))"

definition mt_matches :: "objective_action \<Rightarrow> method_rule \<Rightarrow> bool" where
  "mt_matches action r \<longleftrightarrow>
     (if oa_runtime_kind action \<noteq> mt_runtime_kind r then False
      else if mt_scope_sha256 r \<noteq> ZERO_SHA256 \<and> oa_scope_sha256 action \<noteq> mt_scope_sha256 r then False
      else if mt_payload_sha256 r \<noteq> ZERO_SHA256 \<and> oa_payload_sha256 action \<noteq> mt_payload_sha256 r then False
      else True)"

subsection \<open>The policy of an objective\<close>

record method_policy =
  mp_objective_id :: string
  mp_objective_sha256 :: string
  mp_method_policy_id :: string
  mp_governance_policy_sha256 :: string
  mp_allowed_runtime_kinds :: "string list"
  mp_rules :: "method_rule list"
  mp_require_completion_evidence :: bool
  mp_policy_sha256 :: string

definition mp_body :: "method_policy \<Rightarrow> (string \<times> json) list res" where
  "mp_body p =
     rbind (rmap mt_as_document (sort_key mt_rule_id (mp_rules p))) (\<lambda>rules. Inr
       [(''schema'', JStr POLICY_SCHEMA), (''objective_id'', JStr (mp_objective_id p)),
        (''objective_sha256'', JStr (mp_objective_sha256 p)), (''method_policy_id'', JStr (mp_method_policy_id p)),
        (''governance_policy_sha256'', JStr (mp_governance_policy_sha256 p)),
        (''allowed_runtime_kinds'', JList (map JStr (mp_allowed_runtime_kinds p))), (''rules'', JList (map JObj rules)),
        (''require_completion_evidence'', JBool (mp_require_completion_evidence p)), (''authority'', OBJECTIVE_AUTHORITY)])"

definition mp_as_document :: "method_policy \<Rightarrow> (string \<times> json) list res" where
  "mp_as_document p = rbind (mp_body p) (\<lambda>body. Inr (body @ [(''policy_sha256'', JStr (mp_policy_sha256 p))]))"

text \<open>\<open>tuple(sorted(set(raw_kinds)))\<close> and the checks on it.\<close>

definition policy_kinds :: "json list \<Rightarrow> string list res" where
  "policy_kinds raw_kinds =
     rbind (rmap py_hash raw_kinds) (\<lambda>hashed.
     rbind (sorted_keys (remdups hashed)) (\<lambda>kinds.
     if kinds = [] \<or> length kinds \<noteq> length raw_kinds
     then Inl (ObjectiveIntegrityError ''allowed_runtime_kinds must be non-empty and unique'')
     else if list_ex (\<lambda>kind. \<not> is_text kind \<or> jstr kind \<notin> set CAPABILITY_TYPES) kinds
     then Inl (ObjectiveIntegrityError ''allowed_runtime_kinds contains unknown kind'')
     else Inr (map jstr kinds)))"

definition mp_build :: "(string \<Rightarrow> json) \<Rightarrow> json list \<Rightarrow> method_rule list \<Rightarrow> method_policy res" where
  "mp_build get allowed_runtime_kinds rules =
     rbind (policy_kinds allowed_runtime_kinds) (\<lambda>kinds.
     if list_ex (\<lambda>r. mt_runtime_kind r \<notin> set kinds) rules
     then Inl (ObjectiveIntegrityError ''objective method rule kind must be allowed by the same policy'')
     else if \<not> distinct (map mt_rule_id rules)
     then Inl (ObjectiveIntegrityError ''objective method rule IDs must be unique'')
     else rbind (case get ''require_completion_evidence'' of
                   JBool b \<Rightarrow> Inr b
                 | _ \<Rightarrow> Inl (ObjectiveIntegrityError ''require_completion_evidence must be boolean'')) (\<lambda>require.
       rbind (oi_text (get ''objective_id'') ''objective_id'') (\<lambda>objective_id.
       rbind (oi_sha (get ''objective_sha256'') ''objective_sha256'' False) (\<lambda>objective_sha.
       rbind (oi_text (get ''method_policy_id'') ''method_policy_id'') (\<lambda>method_policy_id.
       rbind (oi_sha (get ''governance_policy_sha256'') ''governance_policy_sha256'' False) (\<lambda>governance.
         let item = \<lparr>mp_objective_id = objective_id, mp_objective_sha256 = objective_sha, mp_method_policy_id = method_policy_id,
                mp_governance_policy_sha256 = governance, mp_allowed_runtime_kinds = kinds, mp_rules = rules,
                mp_require_completion_evidence = require, mp_policy_sha256 = []\<rparr>
         in rbind (mp_body item) (\<lambda>body. Inr (item\<lparr>mp_policy_sha256 := canonical_sha256 (JObj body)\<rparr>))))))))"

definition mp_from_document :: "(string \<times> json) list \<Rightarrow> method_policy res" where
  "mp_from_document raw =
     rbind (oi_exact raw [''schema'', ''objective_id'', ''objective_sha256'', ''method_policy_id'', ''governance_policy_sha256'',
         ''allowed_runtime_kinds'', ''rules'', ''require_completion_evidence'', ''authority'', ''policy_sha256'']
         ''objective method policy'') (\<lambda>_.
     if \<not> py_eq (dget raw ''schema'') (JStr POLICY_SCHEMA) \<or> \<not> py_eq (dget raw ''authority'') OBJECTIVE_AUTHORITY
     then Inl (ObjectiveIntegrityError ''objective method policy schema/authority mismatch'')
     else (case (dget raw ''rules'', dget raw ''allowed_runtime_kinds'') of
         (JList raw_rules, JList raw_kinds) \<Rightarrow>
           rbind (rmap mt_from_document raw_rules) (\<lambda>rules.
           rbind (mp_build (dget raw) raw_kinds rules) (\<lambda>item.
           rbind (oi_sha (dget raw ''policy_sha256'') ''policy_sha256'' True) (\<lambda>sha.
           if mp_policy_sha256 item \<noteq> sha then Inl (ObjectiveIntegrityError ''objective method policy digest mismatch'')
           else Inr item)))
       | _ \<Rightarrow> Inl (ObjectiveIntegrityError ''objective method policy kinds/rules must be arrays'')))"

subsection \<open>Observations\<close>

record objective_observation =
  oo_observation_id :: string
  oo_objective_id :: string
  oo_method_policy_sha256 :: string
  oo_source_id :: string
  oo_source_binding_sha256 :: string
  oo_violation_code :: string
  oo_evidence_sha256 :: string
  oo_observed_at_unix :: int
  oo_previous_observation_sha256 :: string
  oo_observation_sha256 :: string

definition oo_body :: "objective_observation \<Rightarrow> (string \<times> json) list" where
  "oo_body x =
     [(''schema'', JStr OBSERVATION_SCHEMA), (''observation_id'', JStr (oo_observation_id x)), (''objective_id'', JStr (oo_objective_id x)),
      (''method_policy_sha256'', JStr (oo_method_policy_sha256 x)), (''source_id'', JStr (oo_source_id x)),
      (''source_binding_sha256'', JStr (oo_source_binding_sha256 x)), (''violation_code'', JStr (oo_violation_code x)),
      (''evidence_sha256'', JStr (oo_evidence_sha256 x)), (''observed_at_unix'', JInt (oo_observed_at_unix x)),
      (''previous_observation_sha256'', JStr (oo_previous_observation_sha256 x)), (''authority'', OBJECTIVE_AUTHORITY)]"

definition oo_as_document :: "objective_observation \<Rightarrow> (string \<times> json) list" where
  "oo_as_document x = oo_body x @ [(''observation_sha256'', JStr (oo_observation_sha256 x))]"

definition oo_build :: "(string \<Rightarrow> json) \<Rightarrow> objective_observation res" where
  "oo_build get =
     rbind (oi_text (get ''observation_id'') ''observation_id'') (\<lambda>observation_id.
     rbind (oi_text (get ''objective_id'') ''objective_id'') (\<lambda>objective_id.
     rbind (oi_sha (get ''method_policy_sha256'') ''method_policy_sha256'' True) (\<lambda>policy.
     rbind (oi_text (get ''source_id'') ''source_id'') (\<lambda>source_id.
     rbind (oi_sha (get ''source_binding_sha256'') ''source_binding_sha256'' False) (\<lambda>binding.
     rbind (oi_text (get ''violation_code'') ''violation_code'') (\<lambda>code.
     rbind (oi_sha (get ''evidence_sha256'') ''evidence_sha256'' False) (\<lambda>evidence.
     rbind (oi_time (get ''observed_at_unix'') ''observed_at_unix'') (\<lambda>at.
     rbind (oi_sha (get ''previous_observation_sha256'') ''previous_observation_sha256'' True) (\<lambda>previous.
       let item = \<lparr>oo_observation_id = observation_id, oo_objective_id = objective_id, oo_method_policy_sha256 = policy,
              oo_source_id = source_id, oo_source_binding_sha256 = binding, oo_violation_code = code, oo_evidence_sha256 = evidence,
              oo_observed_at_unix = at, oo_previous_observation_sha256 = previous, oo_observation_sha256 = []\<rparr>
       in if oo_violation_code item \<notin> set OBJECTIVE_VIOLATIONS
          then Inl (ObjectiveIntegrityError ''unknown objective integrity violation'')
          else Inr (item\<lparr>oo_observation_sha256 := canonical_sha256 (JObj (oo_body item))\<rparr>))))))))))"

definition oo_from_document :: "(string \<times> json) list \<Rightarrow> objective_observation res" where
  "oo_from_document raw =
     rbind (oi_exact raw [''schema'', ''observation_id'', ''objective_id'', ''method_policy_sha256'', ''source_id'', ''source_binding_sha256'',
         ''violation_code'', ''evidence_sha256'', ''observed_at_unix'', ''previous_observation_sha256'', ''authority'', ''observation_sha256'']
         ''objective integrity observation'') (\<lambda>_.
     if \<not> py_eq (dget raw ''schema'') (JStr OBSERVATION_SCHEMA) \<or> \<not> py_eq (dget raw ''authority'') OBJECTIVE_AUTHORITY
     then Inl (ObjectiveIntegrityError ''objective integrity observation schema/authority mismatch'')
     else rbind (oo_build (dget raw)) (\<lambda>item.
       rbind (oi_sha (dget raw ''observation_sha256'') ''observation_sha256'' True) (\<lambda>sha.
       if oo_observation_sha256 item \<noteq> sha then Inl (ObjectiveIntegrityError ''objective integrity observation digest mismatch'')
       else Inr item)))"

subsection \<open>Decisions and completions\<close>

record objective_decision =
  od_decision_id :: string
  od_objective_id :: string
  od_method_policy_sha256 :: string
  od_action_id_sha256 :: string
  od_subject_id_sha256 :: string
  od_runtime_kind :: string
  od_scope_sha256 :: string
  od_payload_sha256 :: string
  od_matched_rule_ids :: "string list"
  od_observed_violation_codes :: "string list"
  od_observation_head_sha256 :: string
  od_evidence_sha256 :: string
  od_phase0_contract_sha256 :: string
  od_decision :: string
  od_reason_codes :: "string list"
  od_at_unix :: int
  od_receipt_sha256 :: string

definition od_body :: "objective_decision \<Rightarrow> (string \<times> json) list" where
  "od_body d =
     [(''schema'', JStr OBJECTIVE_DECISION_SCHEMA), (''decision_id'', JStr (od_decision_id d)), (''objective_id'', JStr (od_objective_id d)),
      (''method_policy_sha256'', JStr (od_method_policy_sha256 d)), (''action_id_sha256'', JStr (od_action_id_sha256 d)),
      (''subject_id_sha256'', JStr (od_subject_id_sha256 d)), (''runtime_kind'', JStr (od_runtime_kind d)),
      (''scope_sha256'', JStr (od_scope_sha256 d)), (''payload_sha256'', JStr (od_payload_sha256 d)),
      (''matched_rule_ids'', JList (map JStr (od_matched_rule_ids d))),
      (''observed_violation_codes'', JList (map JStr (od_observed_violation_codes d))),
      (''observation_head_sha256'', JStr (od_observation_head_sha256 d)), (''evidence_sha256'', JStr (od_evidence_sha256 d)),
      (''phase0_contract_sha256'', JStr (od_phase0_contract_sha256 d)), (''decision'', JStr (od_decision d)),
      (''reason_codes'', JList (map JStr (od_reason_codes d))), (''at_unix'', JInt (od_at_unix d)), (''authority'', OBJECTIVE_AUTHORITY)]"

definition od_as_document :: "objective_decision \<Rightarrow> (string \<times> json) list" where
  "od_as_document d = od_body d @ [(''receipt_sha256'', JStr (od_receipt_sha256 d))]"

record completion_receipt =
  oc_objective_id :: string
  oc_method_policy_sha256 :: string
  oc_result_sha256 :: string
  oc_trajectory_sha256 :: string
  oc_method_evidence_sha256 :: string
  oc_observation_head_sha256 :: string
  oc_observed_violation_codes :: "string list"
  oc_decision :: string
  oc_reason_codes :: "string list"
  oc_at_unix :: int
  oc_receipt_sha256 :: string

definition oc_body :: "completion_receipt \<Rightarrow> (string \<times> json) list" where
  "oc_body c =
     [(''schema'', JStr COMPLETION_SCHEMA), (''objective_id'', JStr (oc_objective_id c)),
      (''method_policy_sha256'', JStr (oc_method_policy_sha256 c)), (''result_sha256'', JStr (oc_result_sha256 c)),
      (''trajectory_sha256'', JStr (oc_trajectory_sha256 c)), (''method_evidence_sha256'', JStr (oc_method_evidence_sha256 c)),
      (''observation_head_sha256'', JStr (oc_observation_head_sha256 c)),
      (''observed_violation_codes'', JList (map JStr (oc_observed_violation_codes c))), (''decision'', JStr (oc_decision c)),
      (''reason_codes'', JList (map JStr (oc_reason_codes c))), (''at_unix'', JInt (oc_at_unix c)), (''authority'', OBJECTIVE_AUTHORITY)]"

definition oc_as_document :: "completion_receipt \<Rightarrow> (string \<times> json) list" where
  "oc_as_document c = oc_body c @ [(''receipt_sha256'', JStr (oc_receipt_sha256 c))]"

subsection \<open>The guard\<close>

record integrity_guard =
  og_policy :: method_policy
  og_trusted_source_bindings :: "(string \<times> string) list"
  og_observations :: "objective_observation list"
  og_observation_head :: string
  og_observation_ids :: "string set"
  og_last_observed_at :: int
  og_decisions :: "objective_decision list"
  og_completions :: "completion_receipt list"
  og_contained :: bool
  og_containment_evidence_sha256 :: string

type_synonym 'w observation_verifier = "((string \<times> json) list \<Rightarrow> ('w, json) op) option"

text \<open>The policy is a document or already a policy.\<close>

definition guard_init ::
  "(string \<times> json) list + method_policy \<Rightarrow> (string \<times> string) list \<Rightarrow> 'w observation_verifier \<Rightarrow> integrity_guard res" where
  "guard_init policy trusted_source_bindings verifier =
     rbind (case policy of Inl document \<Rightarrow> mp_from_document document | Inr p \<Rightarrow> Inr p) (\<lambda>p.
     rbind (rmap (\<lambda>(source_id, binding_sha). rbind (oi_text (JStr source_id) ''trusted source_id'') (\<lambda>_.
         oi_sha (JStr binding_sha) ''trusted source binding'' False)) trusted_source_bindings) (\<lambda>_.
     if trusted_source_bindings \<noteq> [] \<and> verifier = None
     then Inl (ObjectiveIntegrityError ''trusted observation verifier required when detector bindings are configured'')
     else Inr \<lparr>og_policy = p, og_trusted_source_bindings = trusted_source_bindings, og_observations = [],
            og_observation_head = ZERO_SHA256, og_observation_ids = {}, og_last_observed_at = -1, og_decisions = [],
            og_completions = [], og_contained = False, og_containment_evidence_sha256 = ZERO_SHA256\<rparr>))"

definition og_enter_containment :: "string \<Rightarrow> (integrity_guard, unit) op" where
  "og_enter_containment incident_receipt_sha256 =
     obind (olift (oi_sha (JStr incident_receipt_sha256) ''incident_receipt_sha256'' False)) (\<lambda>sha.
       omodify (\<lambda>g. g\<lparr>og_containment_evidence_sha256 := sha, og_contained := True\<rparr>))"

definition og_exit_containment :: "string \<Rightarrow> (integrity_guard, unit) op" where
  "og_exit_containment human_release_receipt_sha256 =
     obind (olift (oi_sha (JStr human_release_receipt_sha256) ''human_release_receipt_sha256'' False)) (\<lambda>sha.
       omodify (\<lambda>g. g\<lparr>og_containment_evidence_sha256 := sha, og_contained := False\<rparr>))"

text \<open>The checks of an observation after the host's verifier accepted it.\<close>

definition observation_checks :: "integrity_guard \<Rightarrow> objective_observation \<Rightarrow> unit res" where
  "observation_checks g item =
     (if oo_objective_id item \<noteq> mp_objective_id (og_policy g)
      then Inl (ObjectiveIntegrityError ''objective observation objective_id mismatch'')
      else if oo_method_policy_sha256 item \<noteq> mp_policy_sha256 (og_policy g)
      then Inl (ObjectiveIntegrityError ''objective observation method policy mismatch'')
      else if oo_observation_id item \<in> og_observation_ids g
      then Inl (ObjectiveIntegrityError ''objective observation replay/duplicate'')
      else if oo_previous_observation_sha256 item \<noteq> og_observation_head g
      then Inl (ObjectiveIntegrityError ''objective observation chain is disconnected'')
      else if oo_observed_at_unix item < og_last_observed_at g
      then Inl (ObjectiveIntegrityError ''objective observation time moved backwards'')
      else Inr ())"

definition verified_by :: "'w observation_verifier \<Rightarrow> objective_observation \<Rightarrow> ('w, bool) op" where
  "verified_by verifier item =
     (case verifier of None \<Rightarrow> oret False
      | Some verify \<Rightarrow> obind (verify (oo_as_document item)) (\<lambda>answer. oret (answer = JBool True)))"

definition og_ingest_observation ::
  "'w observation_verifier \<Rightarrow> (string \<times> json) list \<Rightarrow> ('w \<times> integrity_guard, (string \<times> json) list) op" where
  "og_ingest_observation verifier document =
     obind (olift (oo_from_document document)) (\<lambda>item s.
       (case map_of (og_trusted_source_bindings (snd s)) (oo_source_id item) of
          None \<Rightarrow> (Inl (ObjectiveIntegrityError ''objective observation source is not trusted''), s)
        | Some expected_binding \<Rightarrow>
            if oo_source_binding_sha256 item \<noteq> expected_binding
            then (Inl (ObjectiveIntegrityError ''objective observation source binding mismatch''), s)
            else obind (on_fst (verified_by verifier item)) (\<lambda>verified.
              if \<not> verified then oraise (ObjectiveIntegrityError ''objective observation external verification failed'')
              else on_snd (\<lambda>g. (case observation_checks g item of
                  Inl e \<Rightarrow> (Inl e, g)
                | Inr _ \<Rightarrow>
                    obind (omodify (\<lambda>g. g\<lparr>og_observations := og_observations g @ [item],
                        og_observation_ids := insert (oo_observation_id item) (og_observation_ids g),
                        og_observation_head := oo_observation_sha256 item, og_last_observed_at := oo_observed_at_unix item\<rparr>)) (\<lambda>_.
                    obind (olift (decision_for_violation (oo_violation_code item))) (\<lambda>decision_floor.
                      oret [(''observation_id'', JStr (oo_observation_id item)), (''violation_code'', JStr (oo_violation_code item)),
                        (''decision_floor'', JStr decision_floor), (''observation_sha256'', JStr (oo_observation_sha256 item))])) g))) s))"

text \<open>What \<open>evaluate_action\<close> collects in the order of the code: violations, decisions, reasons.\<close>

definition observed_codes :: "integrity_guard \<Rightarrow> string list" where
  "observed_codes g = remdups (map oo_violation_code (og_observations g))"

definition rules_matching :: "integrity_guard \<Rightarrow> objective_action \<Rightarrow> method_rule list" where
  "rules_matching g action = filter (mt_matches action) (mp_rules (og_policy g))"

definition action_violations :: "integrity_guard \<Rightarrow> objective_action \<Rightarrow> string list" where
  "action_violations g action =
     observed_codes g @
     (if oa_policy_sha256 action \<noteq> mp_governance_policy_sha256 (og_policy g) then [''unauthorized_policy_mutation''] else []) @
     (if oa_runtime_kind action \<notin> set (mp_allowed_runtime_kinds (og_policy g)) then [''task_constraint_mutation''] else []) @
     map mt_violation_code (rules_matching g action)"

definition action_decisions :: "integrity_guard \<Rightarrow> objective_action \<Rightarrow> string list res" where
  "action_decisions g action =
     rbind (rmap decision_for_violation (observed_codes g)) (\<lambda>floors. Inr (floors @
       (if og_contained g then [''CONTAIN''] else []) @
       (if oa_policy_sha256 action \<noteq> mp_governance_policy_sha256 (og_policy g) then [''CONTAIN''] else []) @
       (if oa_runtime_kind action \<notin> set (mp_allowed_runtime_kinds (og_policy g)) then [''BLOCK''] else []) @
       map mt_decision (rules_matching g action)))"

definition action_reasons :: "integrity_guard \<Rightarrow> objective_action \<Rightarrow> string \<Rightarrow> string list" where
  "action_reasons g action decision =
     (if og_contained g then [''containment_active''] else []) @
     (if oa_policy_sha256 action \<noteq> mp_governance_policy_sha256 (og_policy g) then [''governance_policy_binding_mismatch''] else []) @
     (if oa_runtime_kind action \<notin> set (mp_allowed_runtime_kinds (og_policy g)) then [''runtime_kind_outside_method_policy'']
      else [''runtime_kind_allowed'']) @
     map (\<lambda>r. ''matched_rule:'' @ mt_rule_id r) (rules_matching g action) @
     (if og_observations g \<noteq> [] then [''trusted_integrity_observation_present''] else []) @
     (if decision = ''ALLOW'' then [''no_objective_integrity_violation_observed''] else [])"

definition action_evidence :: "integrity_guard \<Rightarrow> objective_action \<Rightarrow> string" where
  "action_evidence g action = canonical_sha256 (JObj
     [(''objective_sha256'', JStr (mp_objective_sha256 (og_policy g))), (''method_policy_sha256'', JStr (mp_policy_sha256 (og_policy g))),
      (''action'', JObj
        [(''action_id_sha256'', JStr (canonical_sha256 (JStr (oa_action_id action)))),
         (''subject_id_sha256'', JStr (canonical_sha256 (JStr (oa_subject_id action)))),
         (''runtime_kind'', JStr (oa_runtime_kind action)), (''scope_sha256'', JStr (oa_scope_sha256 action)),
         (''payload_sha256'', JStr (oa_payload_sha256 action))]),
      (''matched_rule_sha256'', JList (map (\<lambda>r. JStr (mt_rule_sha256 r)) (sort_key mt_rule_id (rules_matching g action)))),
      (''observation_head_sha256'', JStr (og_observation_head g)),
      (''containment_evidence_sha256'', JStr (og_containment_evidence_sha256 g))])"

definition phase0_document :: "integrity_guard \<Rightarrow> objective_action \<Rightarrow> string \<Rightarrow> json" where
  "phase0_document g action decision = JObj
     [(''schema'', JStr OBJECTIVE_INTEGRITY_SCHEMA), (''objective_id'', JStr (mp_objective_id (og_policy g))),
      (''method_policy_sha256'', JStr (mp_policy_sha256 (og_policy g))),
      (''observed_violation_codes'', JList (map JStr (sort (remdups (action_violations g action))))), (''decision'', JStr decision),
      (''evidence_sha256'', JStr (action_evidence g action)), (''authority'', AUTHORITY)]"

definition og_record_decision :: "objective_action \<Rightarrow> string \<Rightarrow> json \<Rightarrow> (integrity_guard, (string \<times> json) list) op" where
  "og_record_decision action decision phase0 g =
     (let base = \<lparr>od_decision_id = ''objective-decision:'' @ nat_str (length (og_decisions g) + 1),
            od_objective_id = mp_objective_id (og_policy g), od_method_policy_sha256 = mp_policy_sha256 (og_policy g),
            od_action_id_sha256 = canonical_sha256 (JStr (oa_action_id action)),
            od_subject_id_sha256 = canonical_sha256 (JStr (oa_subject_id action)), od_runtime_kind = oa_runtime_kind action,
            od_scope_sha256 = oa_scope_sha256 action, od_payload_sha256 = oa_payload_sha256 action,
            od_matched_rule_ids = sort (map mt_rule_id (rules_matching g action)),
            od_observed_violation_codes = sort (remdups (action_violations g action)),
            od_observation_head_sha256 = og_observation_head g, od_evidence_sha256 = action_evidence g action,
            od_phase0_contract_sha256 = canonical_sha256 phase0, od_decision = decision,
            od_reason_codes = sort (remdups (action_reasons g action decision)), od_at_unix = oa_at_unix action, od_receipt_sha256 = []\<rparr>;
          receipt = base\<lparr>od_receipt_sha256 := canonical_sha256 (JObj (od_body base))\<rparr>
      in (Inr (od_as_document receipt), g\<lparr>og_decisions := og_decisions g @ [receipt]\<rparr>))"

definition og_evaluate_action :: "objective_action \<Rightarrow> (integrity_guard, (string \<times> json) list) op" where
  "og_evaluate_action action g =
     obind (olift (oa_validate action)) (\<lambda>_.
     obind (olift (action_decisions g action)) (\<lambda>decisions.
     obind (olift (decision_max decisions)) (\<lambda>decision.
     obind (olift (validate_objective_integrity (phase0_document g action decision))) (\<lambda>phase0.
       og_record_decision action decision phase0)))) g"

definition og_evaluate_operation :: "runtime_operation \<Rightarrow> (integrity_guard, (string \<times> json) list) op" where
  "og_evaluate_operation operation = obind (olift (oa_from_operation operation)) og_evaluate_action"

definition og_evaluate_network_request :: "(string \<Rightarrow> string) \<Rightarrow> gateway_request \<Rightarrow> (integrity_guard, (string \<times> json) list) op" where
  "og_evaluate_network_request upper request = obind (olift (oa_from_network upper request)) og_evaluate_action"

definition completion_decisions :: "integrity_guard \<Rightarrow> bool \<Rightarrow> string list res" where
  "completion_decisions g missing =
     rbind (rmap decision_for_violation (sort (observed_codes g))) (\<lambda>floors. Inr (floors @
       (if og_contained g then [''CONTAIN''] else []) @ (if missing then [''BLOCK''] else [])))"

definition og_record_completion ::
  "string \<Rightarrow> string \<Rightarrow> string \<Rightarrow> int \<Rightarrow> bool \<Rightarrow> string \<Rightarrow> (integrity_guard, (string \<times> json) list) op" where
  "og_record_completion result trajectory method_evidence at_unix missing decision g =
     (let violations = sort (observed_codes g);
          reasons = (if og_contained g then [''containment_active''] else []) @ (if missing then [''completion_evidence_missing''] else []) @
            (if violations \<noteq> [] then [''method_integrity_not_clean''] else []) @
            (if decision = ''ALLOW'' then [''result_digest_present'', ''method_integrity_proven''] else []);
          base = \<lparr>oc_objective_id = mp_objective_id (og_policy g), oc_method_policy_sha256 = mp_policy_sha256 (og_policy g),
            oc_result_sha256 = result, oc_trajectory_sha256 = trajectory, oc_method_evidence_sha256 = method_evidence,
            oc_observation_head_sha256 = og_observation_head g, oc_observed_violation_codes = violations, oc_decision = decision,
            oc_reason_codes = sort (remdups reasons), oc_at_unix = at_unix, oc_receipt_sha256 = []\<rparr>;
          receipt = base\<lparr>oc_receipt_sha256 := canonical_sha256 (JObj (oc_body base))\<rparr>
      in (Inr (oc_as_document receipt), g\<lparr>og_completions := og_completions g @ [receipt]\<rparr>))"

definition og_verify_completion :: "string \<Rightarrow> string \<Rightarrow> string \<Rightarrow> int \<Rightarrow> (integrity_guard, (string \<times> json) list) op" where
  "og_verify_completion result_sha256 trajectory_sha256 method_evidence_sha256 at_unix g =
     obind (olift (oi_sha (JStr result_sha256) ''result_sha256'' False)) (\<lambda>result.
     obind (olift (oi_sha (JStr trajectory_sha256) ''trajectory_sha256'' True)) (\<lambda>trajectory.
     obind (olift (oi_sha (JStr method_evidence_sha256) ''method_evidence_sha256'' True)) (\<lambda>method_evidence.
     obind (olift (oi_time (JInt at_unix) ''at_unix'')) (\<lambda>_.
       let missing = (mp_require_completion_evidence (og_policy g) \<and> (trajectory = ZERO_SHA256 \<or> method_evidence = ZERO_SHA256))
       in obind (olift (rbind (completion_decisions g missing) decision_max)) (\<lambda>decision.
         og_record_completion result trajectory method_evidence at_unix missing decision))))) g"

definition og_state_document :: "integrity_guard \<Rightarrow> (string \<times> json) list res" where
  "og_state_document g =
     (let violations = sort (observed_codes g) in
      rbind (rmap decision_for_violation violations) (\<lambda>floors.
      rbind (decision_max floors) (\<lambda>highest.
        let body = [(''objective_id'', JStr (mp_objective_id (og_policy g))), (''objective_sha256'', JStr (mp_objective_sha256 (og_policy g))),
              (''method_policy_sha256'', JStr (mp_policy_sha256 (og_policy g))),
              (''observation_head_sha256'', JStr (og_observation_head g)),
              (''observation_count'', JInt (int (length (og_observations g)))),
              (''observed_violation_codes'', JList (map JStr violations)),
              (''decision_floor'', JStr (if og_contained g then ''CONTAIN'' else highest)), (''contained'', JBool (og_contained g)),
              (''containment_evidence_sha256'', JStr (og_containment_evidence_sha256 g)), (''authority'', OBJECTIVE_AUTHORITY)]
        in Inr (body @ [(''state_sha256'', JStr (canonical_sha256 (JObj body)))]))))"

definition og_decision_documents :: "integrity_guard \<Rightarrow> (string \<times> json) list list" where
  "og_decision_documents g = map od_as_document (og_decisions g)"

definition og_completion_documents :: "integrity_guard \<Rightarrow> (string \<times> json) list list" where
  "og_completion_documents g = map oc_as_document (og_completions g)"

subsection \<open>The guarded mediator\<close>

text \<open>It holds the guard and its own receipts; the delegate is the mediator over the broker and the host.\<close>

record guarded =
  gd_guard :: integrity_guard
  gd_receipts :: "(string \<times> json) list list"

type_synonym 's guarded_system = "('s \<times> mediator) \<times> guarded"

definition on_guard :: "(integrity_guard, 'a) op \<Rightarrow> (guarded, 'a) op" where
  "on_guard m gd = (case m (gd_guard gd) of (r, g) \<Rightarrow> (r, gd\<lparr>gd_guard := g\<rparr>))"

definition gd_enter_containment :: "string \<Rightarrow> ('s guarded_system, unit) op" where
  "gd_enter_containment sha = obind (on_snd (on_guard (og_enter_containment sha))) (\<lambda>_. on_fst (on_snd (m_enter_containment sha)))"

definition gd_exit_containment :: "string \<Rightarrow> ('s guarded_system, unit) op" where
  "gd_exit_containment sha = obind (on_snd (on_guard (og_exit_containment sha))) (\<lambda>_. on_fst (on_snd (m_exit_containment sha)))"

definition gd_record :: "(string \<times> json) list \<Rightarrow> (guarded, (string \<times> json) list) op" where
  "gd_record body gd =
     (let receipt = body @ [(''receipt_sha256'', JStr (canonical_sha256 (JObj body)))]
      in (Inr receipt, gd\<lparr>gd_receipts := gd_receipts gd @ [receipt]\<rparr>))"

definition gd_finish_blocked ::
  "string \<Rightarrow> string \<Rightarrow> (string \<times> json) list \<Rightarrow> int \<Rightarrow> (guarded, (string \<times> json) list) op" where
  "gd_finish_blocked action_id runtime_kind gate at_unix =
     obind (olift (dreq gate ''decision'')) (\<lambda>decision.
     obind (olift (dreq gate ''receipt_sha256'')) (\<lambda>receipt_sha.
       gd_record
         [(''schema'', JStr GUARDED_MEDIATION_SCHEMA), (''action_id_sha256'', JStr (canonical_sha256 (JStr action_id))),
          (''runtime_kind'', JStr runtime_kind), (''objective_integrity_receipt_sha256'', receipt_sha),
          (''runtime_mediation_receipt_sha256'', JStr ZERO_SHA256), (''objective_decision'', decision),
          (''admission_decision'', JStr ''BLOCK''), (''execution_outcome'', JStr ''NOT_EXECUTED''),
          (''reason_codes'', JList (map JStr (sort (remdups (jstrs (dget gate ''reason_codes'') @
             [''objective_integrity_gate_blocked'', ''objective_decision:'' @ jstr decision]))))),
          (''at_unix'', JInt at_unix), (''authority'', OBJECTIVE_AUTHORITY)]))"

definition gd_finish_delegated ::
  "string \<Rightarrow> string \<Rightarrow> (string \<times> json) list \<Rightarrow> (string \<times> json) list \<Rightarrow> int \<Rightarrow> (guarded, (string \<times> json) list) op" where
  "gd_finish_delegated action_id runtime_kind gate runtime at_unix =
     obind (olift (dreq gate ''receipt_sha256'')) (\<lambda>gate_sha.
     obind (olift (dreq runtime ''receipt_sha256'')) (\<lambda>runtime_sha.
     obind (olift (dreq gate ''decision'')) (\<lambda>decision.
     obind (olift (dreq runtime ''admission_decision'')) (\<lambda>admission.
     obind (olift (dreq runtime ''execution_outcome'')) (\<lambda>outcome.
       gd_record
         [(''schema'', JStr GUARDED_MEDIATION_SCHEMA), (''action_id_sha256'', JStr (canonical_sha256 (JStr action_id))),
          (''runtime_kind'', JStr runtime_kind), (''objective_integrity_receipt_sha256'', gate_sha),
          (''runtime_mediation_receipt_sha256'', runtime_sha), (''objective_decision'', decision),
          (''admission_decision'', admission), (''execution_outcome'', outcome),
          (''reason_codes'', JList (map JStr (sort (remdups (jstrs (dget runtime ''reason_codes'') @ [''objective_integrity_allow'']))))),
          (''at_unix'', JInt at_unix), (''authority'', OBJECTIVE_AUTHORITY)])))))"

definition gd_mediate ::
  "(authz_request \<Rightarrow> ('s, (string \<times> json) list) op) \<Rightarrow> (runtime_operation \<Rightarrow> ('s, observation option) op) \<Rightarrow>
   runtime_operation \<Rightarrow> ('s guarded_system, (string \<times> json) list) op" where
  "gd_mediate authorize executor operation =
     obind (on_snd (on_guard (og_evaluate_operation operation))) (\<lambda>gate.
     obind (olift (dreq gate ''decision'')) (\<lambda>decision.
     if \<not> py_eq decision (JStr ''ALLOW'')
     then on_snd (gd_finish_blocked (ro_operation_id operation) (ro_kind operation) gate (ro_at_unix operation))
     else obind (on_fst (m_mediate authorize executor operation)) (\<lambda>runtime.
       on_snd (gd_finish_delegated (ro_operation_id operation) (ro_kind operation) gate runtime (ro_at_unix operation)))))"

definition gd_mediate_network ::
  "(string \<Rightarrow> string) \<Rightarrow> (gateway_request \<Rightarrow> ('s, (string \<times> json) list) op) option \<Rightarrow> gateway_request \<Rightarrow>
   ('s guarded_system, (string \<times> json) list) op" where
  "gd_mediate_network upper gateway request =
     obind (on_snd (on_guard (og_evaluate_network_request upper request))) (\<lambda>gate.
     obind (olift (dreq gate ''decision'')) (\<lambda>decision.
     if \<not> py_eq decision (JStr ''ALLOW'')
     then on_snd (gd_finish_blocked (gr_call_id request) ''network.connect_domain'' gate (gr_at_unix request))
     else obind (on_fst (m_mediate_network gateway request)) (\<lambda>runtime.
       on_snd (gd_finish_delegated (gr_call_id request) ''network.connect_domain'' gate runtime (gr_at_unix request)))))"

subsection \<open>Verifying documents\<close>

definition verify_policy :: "(string \<times> json) list \<Rightarrow> (string \<times> json) list res" where
  "verify_policy document = rbind (mp_from_document document) mp_as_document"

definition verify_observation :: "(string \<times> json) list \<Rightarrow> (string \<times> json) list res" where
  "verify_observation document = rbind (oo_from_document document) (\<lambda>item. Inr (oo_as_document item))"

text \<open>\<open>x not in DECISION_RANK\<close> of an unhashable value raises.\<close>

definition not_in_rank :: "json \<Rightarrow> bool res" where
  "not_in_rank v = rbind (py_hash v) (\<lambda>h. Inr (\<not> (is_text h \<and> jstr h \<in> set (map fst DECISION_RANK))))"

definition verify_decision :: "(string \<times> json) list \<Rightarrow> (string \<times> json) list res" where
  "verify_decision document =
     (let digest = dget document ''receipt_sha256''; raw = dpop document ''receipt_sha256'' in
      if \<not> py_eq (dget raw ''schema'') (JStr OBJECTIVE_DECISION_SCHEMA) \<or> \<not> py_eq (dget raw ''authority'') OBJECTIVE_AUTHORITY
      then Inl (ObjectiveIntegrityError ''objective decision schema/authority mismatch'')
      else rbind (not_in_rank (dget raw ''decision'')) (\<lambda>unknown.
        if unknown then Inl (ObjectiveIntegrityError ''objective decision value invalid'')
        else if \<not> py_eq digest (JStr (canonical_sha256 (JObj raw)))
        then Inl (ObjectiveIntegrityError ''objective decision receipt digest mismatch'')
        else Inr document))"

definition verify_completion :: "(string \<times> json) list \<Rightarrow> (string \<times> json) list res" where
  "verify_completion document =
     (let digest = dget document ''receipt_sha256''; raw = dpop document ''receipt_sha256'' in
      if \<not> py_eq (dget raw ''schema'') (JStr COMPLETION_SCHEMA) \<or> \<not> py_eq (dget raw ''authority'') OBJECTIVE_AUTHORITY
      then Inl (ObjectiveIntegrityError ''objective completion schema/authority mismatch'')
      else rbind (not_in_rank (dget raw ''decision'')) (\<lambda>unknown.
        if unknown then Inl (ObjectiveIntegrityError ''objective completion decision invalid'')
        else if \<not> py_eq digest (JStr (canonical_sha256 (JObj raw)))
        then Inl (ObjectiveIntegrityError ''objective completion receipt digest mismatch'')
        else Inr document))"

end
