(* ===== verification/Objective_Properties.thy ===== *)
theory Objective_Properties
  imports Objective_Integrity Mediation_Properties
begin

section \<open>Objective integrity: facts and properties\<close>

text \<open>
  The strictest of a set of decisions, the chain of observations, what a judgement says about an action and what
  the guarded mediator then does.
\<close>

subsection \<open>The strictest decision\<close>

definition strictest :: "string set \<Rightarrow> string" where
  "strictest S = (if ''CONTAIN'' \<in> S then ''CONTAIN'' else if ''BLOCK'' \<in> S then ''BLOCK'' else if ''REVISE'' \<in> S then ''REVISE'' else ''ALLOW'')"

definition rank_of :: "string \<Rightarrow> nat" where
  "rank_of d = the (map_of DECISION_RANK d)"

lemma decision_cases:
  assumes "d \<in> set DECISIONS"
  obtains "d = ''ALLOW''" | "d = ''REVISE''" | "d = ''BLOCK''" | "d = ''CONTAIN''"
  using assms unfolding DECISIONS_def by simp metis

lemma rank_simps: "rank_of ''ALLOW'' = 0" "rank_of ''REVISE'' = 1" "rank_of ''BLOCK'' = 2" "rank_of ''CONTAIN'' = 3"
  by (simp_all add: rank_of_def DECISION_RANK_def)

lemma decision_rank_ok: "d \<in> set DECISIONS \<Longrightarrow> decision_rank d = Inr (rank_of d)"
  by (erule decision_cases) (simp_all add: decision_rank_def rank_of_def DECISION_RANK_def)

lemma strictest_insert:
  assumes "a \<in> set DECISIONS" "b \<in> set DECISIONS" "rank_of b \<le> rank_of a"
  shows "strictest (insert b (insert a S)) = strictest (insert a S)"
  by (rule decision_cases [OF assms(1)]; rule decision_cases [OF assms(2)]) (use assms(3) in \<open>simp_all add: strictest_def rank_simps\<close>)

lemma first_max_strictest:
  "b \<in> set DECISIONS \<Longrightarrow> set vs \<subseteq> set DECISIONS \<Longrightarrow>
    first_max (map (\<lambda>v. (v, rank_of v)) vs) (b, rank_of b) = strictest (insert b (set vs))"
proof (induction vs arbitrary: b)
  case Nil
  then show ?case by (auto elim: decision_cases simp: strictest_def)
next
  case (Cons v vs)
  have "strictest (insert b (insert v (set vs))) = strictest (insert (if rank_of v > rank_of b then v else b) (set vs))"
    using strictest_insert [of v b "set vs"] strictest_insert [of b v "set vs"] Cons.prems by (auto simp: insert_commute)
  with Cons show ?case by simp
qed

lemma decision_max_strictest:
  assumes "set vs \<subseteq> set DECISIONS"
  shows "decision_max vs = Inr (strictest (set vs))"
proof (cases vs)
  case (Cons v vs')
  have "rmap decision_rank vs = Inr (map rank_of vs)" by (rule rmap_id) (use assms decision_rank_ok in blast)
  moreover have "zip vs (map rank_of vs) = map (\<lambda>v. (v, rank_of v)) vs" by (induction vs) simp_all
  ultimately show ?thesis using first_max_strictest [of v vs'] assms Cons by (simp add: decision_max_def)
qed (simp add: decision_max_def strictest_def)

lemma strictest_simps: "strictest S \<in> set DECISIONS" "strictest S = ''CONTAIN'' \<longleftrightarrow> ''CONTAIN'' \<in> S"
  "strictest S = ''BLOCK'' \<longleftrightarrow> ''CONTAIN'' \<notin> S \<and> ''BLOCK'' \<in> S"
  "strictest S = ''ALLOW'' \<longleftrightarrow> ''CONTAIN'' \<notin> S \<and> ''BLOCK'' \<notin> S \<and> ''REVISE'' \<notin> S"
  by (simp_all add: strictest_def DECISIONS_def)

definition violation_floor :: "string \<Rightarrow> string" where
  "violation_floor code = (if code \<in> set CRITICAL_VIOLATIONS then ''CONTAIN'' else ''BLOCK'')"

lemma violation_floor_ok: "code \<in> set OBJECTIVE_VIOLATIONS \<Longrightarrow> decision_for_violation code = Inr (violation_floor code)"
  by (simp add: decision_for_violation_def violation_floor_def NONCRITICAL_VIOLATIONS_def)

lemma violation_floor_decision: "violation_floor code \<in> set DECISIONS" "violation_floor code \<noteq> ''ALLOW''" "violation_floor code \<noteq> ''REVISE''"
  by (simp_all add: violation_floor_def DECISIONS_def)

lemma floors_no_allow: "''ALLOW'' \<notin> (violation_floor \<circ> f) ` X"
proof
  assume "''ALLOW'' \<in> (violation_floor \<circ> f) ` X"
  then show False
  proof (rule imageE)
    fix x
    assume "''ALLOW'' = (violation_floor \<circ> f) x"
    then show False using violation_floor_decision(2) [of "f x"] by simp
  qed
qed

subsection \<open>Policies\<close>

definition wf_policy :: "method_policy \<Rightarrow> bool" where
  "wf_policy p \<longleftrightarrow> is_sha256 (mp_policy_sha256 p) \<and> mp_allowed_runtime_kinds p \<noteq> [] \<and>
     (\<forall>r \<in> set (mp_rules p). mt_violation_code r \<in> set OBJECTIVE_VIOLATIONS \<and> mt_decision r \<in> set [''REVISE'', ''BLOCK'', ''CONTAIN''] \<and>
        mt_runtime_kind r \<in> set (mp_allowed_runtime_kinds p))"

lemma rmap_defined: "rmap f xs = Inr ys \<Longrightarrow> x \<in> set xs \<Longrightarrow> \<exists>y. f x = Inr y"
  by (induction xs arbitrary: ys) (auto simp: rbind_eq_Inr)

lemma mp_build_wf:
  assumes "mp_build get kinds rules = Inr p"
  shows "wf_policy p \<and> mp_rules p = rules"
proof -
  obtain ks require oid osha mid gov body where p: "policy_kinds kinds = Inr ks" "\<not> list_ex (\<lambda>r. mt_runtime_kind r \<notin> set ks) rules"
    "mp_body \<lparr>mp_objective_id = oid, mp_objective_sha256 = osha, mp_method_policy_id = mid, mp_governance_policy_sha256 = gov,
       mp_allowed_runtime_kinds = ks, mp_rules = rules, mp_require_completion_evidence = require, mp_policy_sha256 = []\<rparr> = Inr body"
    "\<lparr>mp_objective_id = oid, mp_objective_sha256 = osha, mp_method_policy_id = mid, mp_governance_policy_sha256 = gov,
       mp_allowed_runtime_kinds = ks, mp_rules = rules, mp_require_completion_evidence = require, mp_policy_sha256 = []\<rparr>
       \<lparr>mp_policy_sha256 := canonical_sha256 (JObj body)\<rparr> = p"
    using assms unfolding mp_build_def rbind_eq_Inr if_Inl_eq_Inr Let_def
    by - (elim exE conjE, drule Inr_inject, rule that, assumption+)
  have "\<exists>docs. rmap mt_as_document (sort_key mt_rule_id rules) = Inr docs" 
    by (cases "rmap mt_as_document (sort_key mt_rule_id rules)") (use p(3) in \<open>simp_all add: mp_body_def\<close>)
  then have valid: "mt_validate r = Inr ()" if "r \<in> set rules" for r
    using rmap_defined [of mt_as_document] that by (fastforce simp: mt_as_document_def mt_body_def rbind_eq_Inr)
  have "mt_violation_code r \<in> set OBJECTIVE_VIOLATIONS \<and> mt_decision r \<in> set [''REVISE'', ''BLOCK'', ''CONTAIN'']" if "r \<in> set rules" for r
    using valid [OF that] unfolding mt_validate_def rbind_eq_Inr if_Inl_eq_Inr by blast
  moreover have "ks \<noteq> []" using p(1) unfolding policy_kinds_def by (simp add: rbind_eq_Inr if_Inl_eq_Inr) blast
  ultimately show ?thesis using p(2) p(4) [symmetric] by (simp add: wf_policy_def list_ex_iff)
qed

lemma mp_from_document_wf: "mp_from_document d = Inr p \<Longrightarrow> wf_policy p"
  unfolding mp_from_document_def rbind_eq_Inr if_Inl_eq_Inr prod.case
  by (cases "dget d ''rules''"; cases "dget d ''allowed_runtime_kinds''")
    (simp_all add: rbind_eq_Inr if_Inl_eq_Inr, blast dest: mp_build_wf)

subsection \<open>Observations\<close>

definition sealed_observation :: "objective_observation \<Rightarrow> bool" where
  "sealed_observation x \<longleftrightarrow> oo_observation_sha256 x = canonical_sha256 (JObj (oo_body x)) \<and> oo_violation_code x \<in> set OBJECTIVE_VIOLATIONS"

lemma oo_build_sealed:
  assumes "oo_build get = Inr x"
  shows "sealed_observation x"
proof -
  from assms obtain item where item: "oo_violation_code item \<in> set OBJECTIVE_VIOLATIONS"
      "item\<lparr>oo_observation_sha256 := canonical_sha256 (JObj (oo_body item))\<rparr> = x"
    unfolding oo_build_def rbind_eq_Inr if_Inl_eq_Inr Let_def not_not
    by - (elim exE conjE, drule Inr_inject, rule that, assumption+)
  have "oo_body x = oo_body item" unfolding item(2) [symmetric] by (simp add: oo_body_def)
  then show ?thesis using item(1) unfolding item(2) [symmetric] sealed_observation_def by simp
qed

lemma oo_from_document_sealed: "oo_from_document d = Inr x \<Longrightarrow> sealed_observation x"
  unfolding oo_from_document_def rbind_eq_Inr if_Inl_eq_Inr using oo_build_sealed by blast

lemma oo_dget:
  "dget (oo_body x) ''observation_id'' = JStr (oo_observation_id x)" "dget (oo_body x) ''objective_id'' = JStr (oo_objective_id x)"
  "dget (oo_body x) ''method_policy_sha256'' = JStr (oo_method_policy_sha256 x)" "dget (oo_body x) ''source_id'' = JStr (oo_source_id x)"
  "dget (oo_body x) ''source_binding_sha256'' = JStr (oo_source_binding_sha256 x)"
  "dget (oo_body x) ''violation_code'' = JStr (oo_violation_code x)" "dget (oo_body x) ''evidence_sha256'' = JStr (oo_evidence_sha256 x)"
  "dget (oo_body x) ''observed_at_unix'' = JInt (oo_observed_at_unix x)"
  "dget (oo_body x) ''previous_observation_sha256'' = JStr (oo_previous_observation_sha256 x)"
  by (simp_all add: oo_body_def dget_def)

lemma oo_body_inj:
  assumes "sealed_observation x" "sealed_observation y" and norm: "json_norm (JObj (oo_body x)) = json_norm (JObj (oo_body y))"
  shows "x = y"
proof -
  note eq = json_norm_dget [OF norm]
  have "oo_observation_id x = oo_observation_id y" using eq [of "''observation_id''"] by (simp add: oo_dget)
  moreover have "oo_objective_id x = oo_objective_id y" using eq [of "''objective_id''"] by (simp add: oo_dget)
  moreover have "oo_method_policy_sha256 x = oo_method_policy_sha256 y" using eq [of "''method_policy_sha256''"] by (simp add: oo_dget)
  moreover have "oo_source_id x = oo_source_id y" using eq [of "''source_id''"] by (simp add: oo_dget)
  moreover have "oo_source_binding_sha256 x = oo_source_binding_sha256 y" using eq [of "''source_binding_sha256''"] by (simp add: oo_dget)
  moreover have "oo_violation_code x = oo_violation_code y" using eq [of "''violation_code''"] by (simp add: oo_dget)
  moreover have "oo_evidence_sha256 x = oo_evidence_sha256 y" using eq [of "''evidence_sha256''"] by (simp add: oo_dget)
  moreover have "oo_observed_at_unix x = oo_observed_at_unix y" using eq [of "''observed_at_unix''"] by (simp add: oo_dget)
  moreover have "oo_previous_observation_sha256 x = oo_previous_observation_sha256 y"
    using eq [of "''previous_observation_sha256''"] by (simp add: oo_dget)
  moreover have "oo_observation_sha256 x = oo_observation_sha256 y"
    using assms(1,2) norm_same_sha [OF norm] by (simp add: sealed_observation_def)
  ultimately show ?thesis by simp
qed

interpretation observation_log: hash_linked oo_observation_sha256 "\<lambda>x. JObj (oo_body x)" sealed_observation oo_previous_observation_sha256
  by unfold_locales (simp only: sealed_observation_def, rule oo_body_inj)

subsection \<open>Receipts\<close>

definition wf_decision :: "objective_decision \<Rightarrow> bool" where
  "wf_decision d \<longleftrightarrow> od_receipt_sha256 d = canonical_sha256 (JObj (od_body d)) \<and> od_decision d \<in> set DECISIONS"

definition wf_completion :: "completion_receipt \<Rightarrow> bool" where
  "wf_completion c \<longleftrightarrow> oc_receipt_sha256 c = canonical_sha256 (JObj (oc_body c)) \<and> oc_decision c \<in> set DECISIONS"

lemma od_facts:
  "dget (od_as_document d) ''receipt_sha256'' = JStr (od_receipt_sha256 d)" "dpop (od_as_document d) ''receipt_sha256'' = od_body d"
  "dget (od_body d) ''schema'' = JStr OBJECTIVE_DECISION_SCHEMA" "dget (od_body d) ''authority'' = OBJECTIVE_AUTHORITY"
  "dget (od_body d) ''decision'' = JStr (od_decision d)" "dget (od_as_document d) ''decision'' = JStr (od_decision d)"
  "dreq (od_as_document d) ''decision'' = Inr (JStr (od_decision d))" "dreq (od_as_document d) ''receipt_sha256'' = Inr (JStr (od_receipt_sha256 d))"
  by (simp_all add: od_as_document_def od_body_def dpop_def dget_def dreq_def)

lemma oc_facts:
  "dget (oc_as_document c) ''receipt_sha256'' = JStr (oc_receipt_sha256 c)" "dpop (oc_as_document c) ''receipt_sha256'' = oc_body c"
  "dget (oc_body c) ''schema'' = JStr COMPLETION_SCHEMA" "dget (oc_body c) ''authority'' = OBJECTIVE_AUTHORITY"
  "dget (oc_body c) ''decision'' = JStr (oc_decision c)" "dget (oc_as_document c) ''decision'' = JStr (oc_decision c)"
  by (simp_all add: oc_as_document_def oc_body_def dpop_def dget_def)

lemma not_in_rank_ok: "d \<in> set DECISIONS \<Longrightarrow> not_in_rank (JStr d) = Inr False"
  by (simp add: not_in_rank_def DECISION_RANK_def DECISIONS_def)

lemma verify_decision_ok: "wf_decision d \<Longrightarrow> verify_decision (od_as_document d) = Inr (od_as_document d)"
  unfolding verify_decision_def od_facts Let_def by (simp add: wf_decision_def not_in_rank_ok py_eq_def)

lemma verify_completion_ok: "wf_completion c \<Longrightarrow> verify_completion (oc_as_document c) = Inr (oc_as_document c)"
  unfolding verify_completion_def oc_facts Let_def by (simp add: wf_completion_def not_in_rank_ok py_eq_def)

subsection \<open>The guard's invariant and its steps\<close>

definition wf_observation :: "integrity_guard \<Rightarrow> objective_observation \<Rightarrow> bool" where
  "wf_observation g x \<longleftrightarrow> sealed_observation x \<and> map_of (og_trusted_source_bindings g) (oo_source_id x) = Some (oo_source_binding_sha256 x) \<and>
     oo_objective_id x = mp_objective_id (og_policy g) \<and> oo_method_policy_sha256 x = mp_policy_sha256 (og_policy g)"

definition wf_guard :: "integrity_guard \<Rightarrow> bool" where
  "wf_guard g \<longleftrightarrow> wf_policy (og_policy g) \<and> list_all (wf_observation g) (og_observations g) \<and>
     linked oo_previous_observation_sha256 oo_observation_sha256 ZERO_SHA256 (og_observations g) (og_observation_head g) \<and>
     distinct (map oo_observation_id (og_observations g)) \<and> og_observation_ids g = set (map oo_observation_id (og_observations g)) \<and>
     sorted (map oo_observed_at_unix (og_observations g)) \<and>
     (\<forall>x \<in> set (og_observations g). oo_observed_at_unix x \<le> og_last_observed_at g) \<and>
     list_all wf_decision (og_decisions g) \<and> list_all wf_completion (og_completions g)"

definition observed :: "objective_observation \<Rightarrow> integrity_guard \<Rightarrow> integrity_guard" where
  "observed x g = g\<lparr>og_observations := og_observations g @ [x], og_observation_ids := insert (oo_observation_id x) (og_observation_ids g),
     og_observation_head := oo_observation_sha256 x, og_last_observed_at := oo_observed_at_unix x\<rparr>"

definition judged :: "objective_decision \<Rightarrow> integrity_guard \<Rightarrow> integrity_guard" where
  "judged d g = g\<lparr>og_decisions := og_decisions g @ [d]\<rparr>"

definition concluded :: "completion_receipt \<Rightarrow> integrity_guard \<Rightarrow> integrity_guard" where
  "concluded c g = g\<lparr>og_completions := og_completions g @ [c]\<rparr>"

inductive guard_step :: "integrity_guard \<Rightarrow> integrity_guard \<Rightarrow> bool" where
  observe: "wf_observation g x \<Longrightarrow> observation_checks g x = Inr () \<Longrightarrow> guard_step g (observed x g)"
| judge: "wf_decision d \<Longrightarrow> guard_step g (judged d g)"
| conclude: "wf_completion c \<Longrightarrow> guard_step g (concluded c g)"
| contain: "guard_step g (g\<lparr>og_containment_evidence_sha256 := sha, og_contained := b\<rparr>)"

abbreviation guard_steps :: "integrity_guard \<Rightarrow> integrity_guard \<Rightarrow> bool" where
  "guard_steps \<equiv> guard_step\<^sup>*\<^sup>*"

lemma guard_step_keeps:
  "guard_step g h \<Longrightarrow> og_policy h = og_policy g \<and> og_trusted_source_bindings h = og_trusted_source_bindings g \<and>
    (\<exists>new. og_observations h = og_observations g @ new)"
  by (induction rule: guard_step.induct) (simp_all add: observed_def judged_def concluded_def)

lemma guard_steps_keep:
  "guard_steps g h \<Longrightarrow> og_policy h = og_policy g \<and> og_trusted_source_bindings h = og_trusted_source_bindings g \<and>
    (\<exists>new. og_observations h = og_observations g @ new)"
proof (induction rule: rtranclp_induct)
  case (step h k)
  from step.IH guard_step_keeps [OF step.hyps(2)] show ?case by auto
qed simp

lemma observation_checks_ok:
  "observation_checks g x = Inr () \<longleftrightarrow> oo_objective_id x = mp_objective_id (og_policy g) \<and> oo_method_policy_sha256 x = mp_policy_sha256 (og_policy g) \<and>
     oo_observation_id x \<notin> og_observation_ids g \<and> oo_previous_observation_sha256 x = og_observation_head g \<and>
     og_last_observed_at g \<le> oo_observed_at_unix x"
  by (auto simp: observation_checks_def)

lemma guard_step_wf: "guard_step g h \<Longrightarrow> wf_guard g \<Longrightarrow> wf_guard h"
proof (induction rule: guard_step.induct)
  case (observe g x)
  have "wf_observation (observed x g) = wf_observation g" by (simp add: fun_eq_iff wf_observation_def observed_def)
  then show ?case
    using observe by (force simp: wf_guard_def observed_def observation_checks_ok linked_snoc sorted_append)
qed (simp_all add: wf_guard_def wf_observation_def judged_def concluded_def list_all_iff)

lemma guard_steps_wf: "guard_steps g h \<Longrightarrow> wf_guard g \<Longrightarrow> wf_guard h"
  by (induction rule: rtranclp_induct) (auto dest: guard_step_wf)

lemma guard_init_wf: "guard_init (Inl document) bindings verifier = Inr g \<Longrightarrow> wf_guard g \<and> og_observations g = []"
  by (auto simp: guard_init_def rbind_eq_Inr wf_guard_def dest: mp_from_document_wf split: if_splits)

subsection \<open>Judging an action\<close>

text \<open>The decisions an action collects, and the actions that collect none.\<close>

definition action_floors :: "integrity_guard \<Rightarrow> objective_action \<Rightarrow> string set" where
  "action_floors g a =
     (violation_floor \<circ> oo_violation_code) ` set (og_observations g) \<union> (if og_contained g then {''CONTAIN''} else {}) \<union>
     (if oa_policy_sha256 a \<noteq> mp_governance_policy_sha256 (og_policy g) then {''CONTAIN''} else {}) \<union>
     (if oa_runtime_kind a \<notin> set (mp_allowed_runtime_kinds (og_policy g)) then {''BLOCK''} else {}) \<union>
     mt_decision ` {r \<in> set (mp_rules (og_policy g)). mt_matches a r}"

definition clean_action :: "integrity_guard \<Rightarrow> objective_action \<Rightarrow> bool" where
  "clean_action g a \<longleftrightarrow> og_observations g = [] \<and> \<not> og_contained g \<and> oa_policy_sha256 a = mp_governance_policy_sha256 (og_policy g) \<and>
     oa_runtime_kind a \<in> set (mp_allowed_runtime_kinds (og_policy g)) \<and> (\<forall>r \<in> set (mp_rules (og_policy g)). \<not> mt_matches a r)"

lemma wf_guard_codes: "wf_guard g \<Longrightarrow> x \<in> set (og_observations g) \<Longrightarrow> oo_violation_code x \<in> set OBJECTIVE_VIOLATIONS"
  by (simp add: wf_guard_def list_all_iff wf_observation_def sealed_observation_def)

lemma wf_guard_rules:
  assumes "wf_guard g" "r \<in> set (mp_rules (og_policy g))"
  shows "mt_violation_code r \<in> set OBJECTIVE_VIOLATIONS" "mt_decision r \<in> set DECISIONS" "mt_decision r \<noteq> ''ALLOW''"
proof -
  have r: "mt_violation_code r \<in> set OBJECTIVE_VIOLATIONS" "mt_decision r \<in> set [''REVISE'', ''BLOCK'', ''CONTAIN'']"
    using assms unfolding wf_guard_def wf_policy_def by blast+
  then show "mt_violation_code r \<in> set OBJECTIVE_VIOLATIONS" by simp
  from r(2) show "mt_decision r \<in> set DECISIONS" "mt_decision r \<noteq> ''ALLOW''" by (auto simp: DECISIONS_def)
qed

lemma observed_codes_set: "set (observed_codes g) = oo_violation_code ` set (og_observations g)" "observed_codes g = [] \<longleftrightarrow> og_observations g = []"
  by (simp_all add: observed_codes_def)

lemma observed_floors:
  assumes "wf_guard g"
  shows "rmap decision_for_violation (observed_codes g) = Inr (map violation_floor (observed_codes g))"
    "rmap decision_for_violation (sort (observed_codes g)) = Inr (map violation_floor (sort (observed_codes g)))"
  using wf_guard_codes [OF assms] by (auto intro!: rmap_id violation_floor_ok simp: observed_codes_set)

lemma floors_decisions: "wf_guard g \<Longrightarrow> action_floors g a \<subseteq> set DECISIONS"
  using wf_guard_rules(2) violation_floor_decision(1) by (auto simp: action_floors_def DECISIONS_def)

lemma strictest_allow:
  assumes "S \<subseteq> set DECISIONS" "''ALLOW'' \<notin> S"
  shows "strictest S = ''ALLOW'' \<longleftrightarrow> S = {}"
proof
  assume "strictest S = ''ALLOW''"
  then have no: "''CONTAIN'' \<notin> S" "''BLOCK'' \<notin> S" "''REVISE'' \<notin> S" by (simp_all add: strictest_simps)
  have "v \<notin> S" for v
  proof
    assume v: "v \<in> S"
    then have "v \<in> set DECISIONS" using assms(1) by blast
    then show False by (rule decision_cases) (use v no assms(2) in blast)+
  qed
  then show "S = {}" by blast
qed (simp add: strictest_def)

lemma floors_clean:
  assumes wf: "wf_guard g"
  shows "strictest (action_floors g a) = ''ALLOW'' \<longleftrightarrow> clean_action g a"
proof -
  have "''ALLOW'' \<notin> mt_decision ` {r \<in> set (mp_rules (og_policy g)). mt_matches a r}"
  proof
    assume "''ALLOW'' \<in> mt_decision ` {r \<in> set (mp_rules (og_policy g)). mt_matches a r}"
    then show False
    proof (rule imageE)
      fix r
      assume "''ALLOW'' = mt_decision r" "r \<in> {r \<in> set (mp_rules (og_policy g)). mt_matches a r}"
      then show False using wf_guard_rules(3) [OF wf, of r] by simp
    qed
  qed
  then have "''ALLOW'' \<notin> action_floors g a" using floors_no_allow [of oo_violation_code "set (og_observations g)"] by (simp add: action_floors_def)
  then have "strictest (action_floors g a) = ''ALLOW'' \<longleftrightarrow> action_floors g a = {}" by (rule strictest_allow [OF floors_decisions [OF wf]])
  also have "\<dots> \<longleftrightarrow> clean_action g a" by (auto simp: action_floors_def clean_action_def)
  finally show ?thesis .
qed

lemma action_decision:
  assumes "wf_guard g"
  obtains ds where "action_decisions g a = Inr ds" "decision_max ds = Inr (strictest (action_floors g a))"
proof -
  let ?ds = "map violation_floor (observed_codes g) @ (if og_contained g then [''CONTAIN''] else []) @
       (if oa_policy_sha256 a \<noteq> mp_governance_policy_sha256 (og_policy g) then [''CONTAIN''] else []) @
       (if oa_runtime_kind a \<notin> set (mp_allowed_runtime_kinds (og_policy g)) then [''BLOCK''] else []) @
       map mt_decision (rules_matching g a)"
  have "set ?ds = action_floors g a"
    by (simp add: action_floors_def observed_codes_set rules_matching_def image_image)
  moreover have "action_decisions g a = Inr ?ds" by (simp add: action_decisions_def observed_floors [OF assms])
  ultimately show thesis using that decision_max_strictest floors_decisions [OF assms] by metis
qed

definition judgement :: "integrity_guard \<Rightarrow> objective_action \<Rightarrow> objective_decision \<Rightarrow> bool" where
  "judgement g a d \<longleftrightarrow> wf_decision d \<and> od_decision d = strictest (action_floors g a) \<and>
     od_matched_rule_ids d = sort (map mt_rule_id (rules_matching g a)) \<and> od_observed_violation_codes d = sort (remdups (action_violations g a)) \<and>
     od_observation_head_sha256 d = og_observation_head g \<and> od_scope_sha256 d = oa_scope_sha256 a \<and> od_payload_sha256 d = oa_payload_sha256 a \<and>
     od_runtime_kind d = oa_runtime_kind a \<and> od_at_unix d = oa_at_unix a"

lemma record_decision:
  assumes "decision = strictest (action_floors g a)"
  obtains d where "og_record_decision a decision phase0 g = (Inr (od_as_document d), judged d g)" "judgement g a d"
proof -
  have "\<exists>d. og_record_decision a decision phase0 g = (Inr (od_as_document d), judged d g) \<and> judgement g a d"
    unfolding og_record_decision_def Let_def judged_def
    by (rule exI, rule conjI, rule refl) (simp add: judgement_def wf_decision_def od_body_def assms strictest_simps(1))
  with that show thesis by blast
qed

lemma evaluate_action_run:
  assumes "wf_guard g" "og_evaluate_action a g = (r, g')"
  obtains (raised) e where "r = Inl e" "g' = g"
  | (judged) d where "r = Inr (od_as_document d)" "g' = judged d g" "judgement g a d" "oa_validate a = Inr ()"
proof -
  obtain ds where ds: "action_decisions g a = Inr ds" "decision_max ds = Inr (strictest (action_floors g a))"
    by (rule action_decision [OF assms(1)])
  show thesis
  proof (cases "oa_validate a")
    case (Inl e)
    with assms(2) raised show thesis by (auto simp: og_evaluate_action_def)
  next
    case valid: (Inr u)
    show thesis
    proof (cases "validate_objective_integrity (phase0_document g a (strictest (action_floors g a)))")
      case (Inl e)
      with assms(2) raised valid ds show thesis by (auto simp: og_evaluate_action_def)
    next
      case (Inr phase0)
      obtain d where "og_record_decision a (strictest (action_floors g a)) phase0 g = (Inr (od_as_document d), judged d g)" "judgement g a d"
        by (rule record_decision [OF refl])
      with assms(2) judged valid ds Inr show thesis by (auto simp: og_evaluate_action_def)
    qed
  qed
qed

lemma violation_codes_ident: "code \<in> set OBJECTIVE_VIOLATIONS \<Longrightarrow> ident_re code"
proof -
  have "list_all ident_re OBJECTIVE_VIOLATIONS" by code_simp
  then show "code \<in> set OBJECTIVE_VIOLATIONS \<Longrightarrow> ident_re code" by (simp add: list_all_iff)
qed

lemma action_violations_known: "wf_guard g \<Longrightarrow> set (action_violations g a) \<subseteq> set OBJECTIVE_VIOLATIONS"
  using wf_guard_codes wf_guard_rules(1) by (auto simp: action_violations_def observed_codes_set rules_matching_def OBJECTIVE_VIOLATIONS_def)

lemma action_violations_clean: "clean_action g a \<Longrightarrow> action_violations g a = []"
  by (simp add: clean_action_def action_violations_def observed_codes_def rules_matching_def)

lemma phase0_accepted:
  assumes "wf_guard g" "ident_re (mp_objective_id (og_policy g))"
  shows "\<exists>v. validate_objective_integrity (phase0_document g a (strictest (action_floors g a))) = Inr v"
proof -
  let ?vs = "sort (remdups (action_violations g a))"
  let ?d = "strictest (action_floors g a)"
  let ?raw = "[(''schema'', JStr OBJECTIVE_INTEGRITY_SCHEMA), (''objective_id'', JStr (mp_objective_id (og_policy g))),
      (''method_policy_sha256'', JStr (mp_policy_sha256 (og_policy g))), (''observed_violation_codes'', JList (map JStr ?vs)),
      (''decision'', JStr ?d), (''evidence_sha256'', JStr (action_evidence g a)), (''authority'', AUTHORITY)]"
  have get: "dget ?raw ''schema'' = JStr OBJECTIVE_INTEGRITY_SCHEMA" "dget ?raw ''authority'' = AUTHORITY"
    "dget ?raw ''observed_violation_codes'' = JList (map JStr ?vs)" "dget ?raw ''decision'' = JStr ?d"
    "dget ?raw ''objective_id'' = JStr (mp_objective_id (og_policy g))"
    "dget ?raw ''method_policy_sha256'' = JStr (mp_policy_sha256 (og_policy g))" "dget ?raw ''evidence_sha256'' = JStr (action_evidence g a)"
    by (simp_all add: dget_def)
  have known: "list_all ident_re ?vs" "filter (\<lambda>c. c \<notin> set OBJECTIVE_VIOLATIONS) ?vs = []"
    using action_violations_known [OF assms(1), of a] violation_codes_ident by (auto simp: list_all_iff filter_empty_conv)
  have keys: "c_exact ?raw [''schema'', ''objective_id'', ''method_policy_sha256'', ''observed_violation_codes'', ''decision'',
        ''evidence_sha256'', ''authority''] ''objective_integrity'' = Inr ()"
    by (simp add: c_exact_Inr same_keys_def dkeys_def)
  have dec: "?d \<in> set DECISIONS" by (rule strictest_simps)
  then have "trimmed ?d" by (rule decision_cases) (simp_all, code_simp+)
  moreover have "?vs = [] \<or> ?d \<noteq> ''ALLOW''" using floors_clean [OF assms(1), of a] action_violations_clean by auto
  moreover have "is_sha256 (mp_policy_sha256 (og_policy g))" using assms(1) by (simp add: wf_guard_def wf_policy_def)
  ultimately show ?thesis
    unfolding validate_objective_integrity_def phase0_document_def c_mapping.simps rbind_Inr keys get
    using known dec assms(2) by (auto simp: field_ok py_eq_def action_evidence_def Let_def)
qed

lemma evaluate_action_answers:
  assumes "wf_guard g" "ident_re (mp_objective_id (og_policy g))" "oa_validate a = Inr ()"
  obtains d where "og_evaluate_action a g = (Inr (od_as_document d), judged d g)" "judgement g a d"
proof -
  obtain ds where ds: "action_decisions g a = Inr ds" "decision_max ds = Inr (strictest (action_floors g a))"
    by (rule action_decision [OF assms(1)])
  obtain v where v: "validate_objective_integrity (phase0_document g a (strictest (action_floors g a))) = Inr v"
    using phase0_accepted [OF assms(1,2)] by blast
  obtain d where d: "og_record_decision a (strictest (action_floors g a)) v g = (Inr (od_as_document d), judged d g)" "judgement g a d"
    by (rule record_decision [OF refl])
  show thesis by (rule that [OF _ d(2)]) (simp add: og_evaluate_action_def assms(3) ds v d(1))
qed

text \<open>A policy may carry any short text as the identifier of its objective, but the contract of a verdict asks for an
  identifier: under another text no action is ever answered.\<close>

lemma plain_objective_unanswered:
  assumes "\<not> ident_re (mp_objective_id (og_policy g))"
  shows "\<exists>e. fst (og_evaluate_action a g) = Inl e"
proof (cases "fst (og_evaluate_action a g)")
  case (Inr doc)
  then obtain d v where "validate_objective_integrity (phase0_document g a d) = Inr v"
    by (auto simp: og_evaluate_action_def obind_def split: prod.splits sum.splits)
  then have "\<exists>i. c_identifier (dget (jobj (phase0_document g a d)) ''objective_id'') ''objective_id'' = Inr i"
    unfolding validate_objective_integrity_def phase0_document_def c_mapping.simps rbind_Inr rbind_eq_Inr if_Inl_eq_Inr Let_def jobj.simps
    by blast
  moreover have "dget (jobj (phase0_document g a d)) ''objective_id'' = JStr (mp_objective_id (og_policy g))"
    by (simp add: phase0_document_def dget_def)
  ultimately show ?thesis using assms by (simp add: c_identifier_Inr)
qed simp

subsection \<open>Ingesting observations and judging completions\<close>

lemma observations_sealed:
  "observation_checks g x = Inr () \<Longrightarrow> sealed_observation x \<Longrightarrow> map_of (og_trusted_source_bindings g) (oo_source_id x) = Some (oo_source_binding_sha256 x) \<Longrightarrow>
    wf_observation g x"
  by (simp add: observation_checks_ok wf_observation_def)

lemma ingest_run:
  assumes "og_ingest_observation verifier document (w, g) = (r, (w', g'))"
  obtains (refused) e where "r = Inl e" "g' = g"
  | (ingested) x where "g' = observed x g" "wf_observation g x" "observation_checks g x = Inr ()" "\<exists>v. verified_by verifier x w = (Inr True, v)"
      "\<exists>doc. r = Inr doc"
proof (cases "oo_from_document document")
  case (Inl e)
  then have "r = Inl e" "g' = g" using assms by (auto simp: og_ingest_observation_def)
  with refused show thesis by blast
next
  case (Inr x)
  obtain rv v where v: "verified_by verifier x w = (rv, v)" by (metis prod.collapse)
  then have on: "on_fst (verified_by verifier x) (w, g) = (rv, (v, g))" by (simp add: on_fst_def)
  show thesis
  proof (cases "map_of (og_trusted_source_bindings g) (oo_source_id x) = Some (oo_source_binding_sha256 x) \<and> rv = Inr True \<and> observation_checks g x = Inr ()")
    case True
    then have wf: "wf_observation g x" using oo_from_document_sealed [OF Inr] observations_sealed by blast
    then have "decision_for_violation (oo_violation_code x) = Inr (violation_floor (oo_violation_code x))"
      by (simp add: wf_observation_def sealed_observation_def violation_floor_ok)
    then have "g' = observed x g" "\<exists>doc. r = Inr doc"
      using assms Inr True on by (auto simp: og_ingest_observation_def obind_def on_snd_def observed_def simp del: on_pair)
    with ingested wf True v show thesis by simp
  next
    case False
    have "(\<exists>e. r = Inl e) \<and> g' = g"
      using assms Inr False on
      by (cases rv; cases "map_of (og_trusted_source_bindings g) (oo_source_id x)"; cases "observation_checks g x")
        (auto simp: og_ingest_observation_def obind_def on_snd_def simp del: on_pair split: if_splits)
    with refused show thesis by blast
  qed
qed

definition evidence_missing :: "integrity_guard \<Rightarrow> string \<Rightarrow> string \<Rightarrow> bool" where
  "evidence_missing g trajectory evidence \<longleftrightarrow>
     mp_require_completion_evidence (og_policy g) \<and> (trajectory = ZERO_SHA256 \<or> evidence = ZERO_SHA256)"

definition completion_floors :: "integrity_guard \<Rightarrow> string \<Rightarrow> string \<Rightarrow> string set" where
  "completion_floors g trajectory evidence = (violation_floor \<circ> oo_violation_code) ` set (og_observations g) \<union>
     (if og_contained g then {''CONTAIN''} else {}) \<union> (if evidence_missing g trajectory evidence then {''BLOCK''} else {})"

lemma completion_floors_decisions:
  "completion_floors g trajectory evidence \<subseteq> set DECISIONS" "''ALLOW'' \<notin> completion_floors g trajectory evidence"
proof -
  show "''ALLOW'' \<notin> completion_floors g trajectory evidence" using floors_no_allow by (simp add: completion_floors_def)
  show "completion_floors g trajectory evidence \<subseteq> set DECISIONS"
    using violation_floor_decision(1) by (auto simp: completion_floors_def DECISIONS_def)
qed

lemma completion_decision:
  assumes "wf_guard g"
  shows "rbind (completion_decisions g (evidence_missing g trajectory evidence)) decision_max = Inr (strictest (completion_floors g trajectory evidence))"
proof -
  let ?ds = "map violation_floor (sort (observed_codes g)) @ (if og_contained g then [''CONTAIN''] else []) @
      (if evidence_missing g trajectory evidence then [''BLOCK''] else [])"
  have "completion_decisions g (evidence_missing g trajectory evidence) = Inr ?ds"
    by (simp add: completion_decisions_def observed_floors [OF assms])
  moreover have "set ?ds = completion_floors g trajectory evidence" by (simp add: completion_floors_def observed_codes_set image_image)
  ultimately show ?thesis using decision_max_strictest [of ?ds] completion_floors_decisions by simp
qed

definition completion_valid :: "string \<Rightarrow> string \<Rightarrow> string \<Rightarrow> int \<Rightarrow> bool" where
  "completion_valid result trajectory evidence at \<longleftrightarrow>
     is_sha256 result \<and> result \<noteq> ZERO_SHA256 \<and> is_sha256 trajectory \<and> is_sha256 evidence \<and> 0 \<le> at"

definition conclusion :: "integrity_guard \<Rightarrow> string \<Rightarrow> string \<Rightarrow> string \<Rightarrow> completion_receipt \<Rightarrow> bool" where
  "conclusion g result trajectory evidence c \<longleftrightarrow> wf_completion c \<and> oc_decision c = strictest (completion_floors g trajectory evidence) \<and>
     oc_result_sha256 c = result \<and> oc_trajectory_sha256 c = trajectory \<and> oc_method_evidence_sha256 c = evidence \<and>
     oc_observation_head_sha256 c = og_observation_head g \<and> oc_observed_violation_codes c = sort (observed_codes g)"

lemma verify_completion_answers:
  assumes "wf_guard g" "completion_valid result trajectory evidence at"
  obtains c where "og_verify_completion result trajectory evidence at g = (Inr (oc_as_document c), concluded c g)"
    "conclusion g result trajectory evidence c"
proof -
  let ?d = "strictest (completion_floors g trajectory evidence)"
  have "\<exists>c. og_record_completion result trajectory evidence at missing ?d g = (Inr (oc_as_document c), concluded c g) \<and>
      conclusion g result trajectory evidence c" for missing
    unfolding og_record_completion_def Let_def concluded_def
    by (rule exI, rule conjI, rule refl) (simp add: conclusion_def wf_completion_def oc_body_def strictest_simps(1))
  then obtain c where c: "og_record_completion result trajectory evidence at (evidence_missing g trajectory evidence) ?d g =
      (Inr (oc_as_document c), concluded c g)" "conclusion g result trajectory evidence c" by blast
  have "og_verify_completion result trajectory evidence at g = (Inr (oc_as_document c), concluded c g)"
    using assms(2) completion_decision [OF assms(1), of trajectory evidence] c(1)
    by (simp add: og_verify_completion_def completion_valid_def evidence_missing_def)
  with that c(2) show thesis by blast
qed

lemma verify_completion_run:
  assumes "wf_guard g" "og_verify_completion result trajectory evidence at g = (r, g')"
  obtains (raised) e where "r = Inl e" "g' = g"
  | (concluded) c where "r = Inr (oc_as_document c)" "g' = concluded c g" "conclusion g result trajectory evidence c"
      "completion_valid result trajectory evidence at"
proof (cases "completion_valid result trajectory evidence at")
  case True
  with verify_completion_answers [OF assms(1) True] assms(2) concluded show thesis by (metis prod.inject)
next
  case False
  have "\<exists>e. og_verify_completion result trajectory evidence at g = (Inl e, g)"
    by (cases "is_sha256 result"; cases "result = ZERO_SHA256"; cases "is_sha256 trajectory"; cases "is_sha256 evidence"; cases "0 \<le> at")
      (use False in \<open>simp_all add: completion_valid_def og_verify_completion_def\<close>)
  with assms(2) raised show thesis by auto
qed

subsection \<open>Runs of the guard\<close>

text \<open>A call of the guard built with \<open>verifier\<close>, or anything that happens outside it.\<close>

inductive guard_call :: "'w observation_verifier \<Rightarrow> 'w \<times> integrity_guard \<Rightarrow> 'w \<times> integrity_guard \<Rightarrow> bool" for verifier where
  ingest: "guard_call verifier s (snd (og_ingest_observation verifier document s))"
| action: "guard_call verifier s (snd (on_snd (og_evaluate_action a) s))"
| operation: "guard_call verifier s (snd (on_snd (og_evaluate_operation op) s))"
| network: "guard_call verifier s (snd (on_snd (og_evaluate_network_request upper request) s))"
| completion: "guard_call verifier s (snd (on_snd (og_verify_completion result trajectory evidence at) s))"
| enter: "guard_call verifier s (snd (on_snd (og_enter_containment sha) s))"
| leave: "guard_call verifier s (snd (on_snd (og_exit_containment sha) s))"
| other: "guard_call verifier (w, g) (w', g)"

abbreviation guard_calls :: "'w observation_verifier \<Rightarrow> 'w \<times> integrity_guard \<Rightarrow> 'w \<times> integrity_guard \<Rightarrow> bool" where
  "guard_calls verifier \<equiv> (guard_call verifier)\<^sup>*\<^sup>*"

lemma evaluate_action_steps: "wf_guard g \<Longrightarrow> guard_steps g (snd (og_evaluate_action a g))"
  by (cases "og_evaluate_action a g", rule evaluate_action_run [of g a])
    (auto simp: judgement_def intro: guard_step.judge)

lemma evaluate_steps:
  "wf_guard g \<Longrightarrow> guard_steps g (snd (og_evaluate_operation op g))"
  "wf_guard g \<Longrightarrow> guard_steps g (snd (og_evaluate_network_request upper request g))"
  using evaluate_action_steps
  by (cases "oa_from_operation op"; simp add: og_evaluate_operation_def)
    (cases "oa_from_network upper request"; simp add: og_evaluate_network_request_def evaluate_action_steps)

lemma guard_call_steps: "guard_call verifier s t \<Longrightarrow> wf_guard (snd s) \<Longrightarrow> guard_steps (snd s) (snd t)"
proof (induction rule: guard_call.induct)
  case (ingest s document)
  obtain w g where s: "s = (w, g)" by (cases s)
  obtain r w' g' where run: "og_ingest_observation verifier document (w, g) = (r, (w', g'))" by (metis prod.collapse)
  have "guard_steps g g'" by (rule ingest_run [OF run]) (auto intro: guard_step.observe)
  with run s show ?case by simp
next
  case (action s a)
  then show ?case by (cases s) (simp add: evaluate_action_steps)
next
  case (operation s op)
  then show ?case by (cases s) (simp add: evaluate_steps)
next
  case (network s upper request)
  then show ?case by (cases s) (simp add: evaluate_steps)
next
  case (completion s result trajectory evidence at)
  obtain w g where s: "s = (w, g)" by (cases s)
  obtain r g' where run: "og_verify_completion result trajectory evidence at g = (r, g')" by (metis prod.collapse)
  have "guard_steps g g'"
    by (rule verify_completion_run [OF _ run]) (use completion s in \<open>auto simp: conclusion_def intro: guard_step.conclude\<close>)
  with run s show ?case by simp
next
  case (enter s sha)
  then show ?case
    by (cases s; cases "oi_sha (JStr sha) ''incident_receipt_sha256'' False")
      (auto simp: og_enter_containment_def simp del: oi_sha.simps intro: guard_step.contain)
next
  case (leave s sha)
  then show ?case
    by (cases s; cases "oi_sha (JStr sha) ''human_release_receipt_sha256'' False")
      (auto simp: og_exit_containment_def simp del: oi_sha.simps intro: guard_step.contain)
qed simp

lemma guard_calls_steps: "guard_calls verifier s t \<Longrightarrow> wf_guard (snd s) \<Longrightarrow> guard_steps (snd s) (snd t)"
proof (induction rule: rtranclp_induct)
  case (step t u)
  then have "guard_steps (snd s) (snd t)" by simp
  moreover from this have "guard_steps (snd t) (snd u)" using guard_call_steps [OF step.hyps(2)] guard_steps_wf step.prems by blast
  ultimately show ?case by simp
qed simp

lemma guard_run_wf:
  assumes "guard_init (Inl document) bindings verifier = Inr g0" "guard_calls verifier (w0, g0) (w, g)"
  shows "wf_guard g" "og_policy g = og_policy g0"
proof -
  note wf0 = guard_init_wf [OF assms(1), THEN conjunct1]
  have "guard_steps g0 g" using guard_calls_steps [OF assms(2)] wf0 by simp
  with guard_steps_wf wf0 guard_steps_keep show "wf_guard g" "og_policy g = og_policy g0" by blast+
qed

subsection \<open>The guarded mediator\<close>

definition guarded_mediate ::
  "(runtime_operation \<Rightarrow> (broker \<times> 'w, observation option) op) \<Rightarrow> runtime_operation \<Rightarrow> ((broker \<times> 'w) guarded_system, (string \<times> json) list) op" where
  "guarded_mediate exec op = gd_mediate (\<lambda>rq. on_fst (b_authorize rq)) exec op"

text \<open>The answer of the guarded mediator to an action its guard did not allow.\<close>

definition blocked_answer :: "(string \<times> json) list res \<Rightarrow> bool" where
  "blocked_answer r \<longleftrightarrow> (\<forall>doc. r = Inr doc \<longrightarrow> dget doc ''admission_decision'' = JStr ''BLOCK'' \<and> dget doc ''execution_outcome'' = JStr ''NOT_EXECUTED'')"

lemma on_guard_eq: "on_guard m gd = (r, gd') \<longleftrightarrow> (\<exists>g. m (gd_guard gd) = (r, g) \<and> gd' = gd\<lparr>gd_guard := g\<rparr>)"
  by (auto simp: on_guard_def split: prod.splits)

lemma finish_blocked_answer: "gd_finish_blocked aid kind gate at gd = (r, gd') \<Longrightarrow> blocked_answer r"
  by (auto simp: gd_finish_blocked_def gd_record_def blocked_answer_def obind_cases dget_def Let_def)

lemma evaluate_blocks:
  assumes "wf_guard g" "obind (olift a) og_evaluate_action g = (r, g')"
  obtains (raised) e where "r = Inl e"
  | (answered) d x where "r = Inr (od_as_document d)" "a = Inr x" "od_decision d = ''ALLOW'' \<longleftrightarrow> clean_action g x"
proof (cases a)
  case (Inr x)
  then have run: "og_evaluate_action x g = (r, g')" using assms(2) by simp
  show thesis
    by (rule evaluate_action_run [OF assms(1) run]) (use Inr floors_clean [OF assms(1)] raised answered in \<open>auto simp: judgement_def\<close>)
qed (use assms(2) raised in auto)

text \<open>Both methods of the guarded mediator: the guard judges, then the delegate acts or the answer is a block.\<close>

lemma guarded_run:
  assumes wf: "wf_guard (gd_guard gd)"
    and run: "obind (on_snd (on_guard (obind (olift ra) og_evaluate_action))) (\<lambda>gate. obind (olift (dreq gate ''decision'')) (\<lambda>decision.
       if \<not> py_eq decision (JStr ''ALLOW'') then on_snd (gd_finish_blocked aid kind gate at)
       else obind (on_fst delegate) (\<lambda>rt. on_snd (gd_finish_delegated aid kind gate rt at)))) (sm, gd) = (r, (sm', gd'))"
  shows "sm' = sm \<and> blocked_answer r \<or> (\<exists>a rt. ra = Inr a \<and> clean_action (gd_guard gd) a \<and> delegate sm = (rt, sm'))"
proof -
  obtain rg g where gate: "obind (olift ra) og_evaluate_action (gd_guard gd) = (rg, g)" by (metis prod.collapse)
  then have on: "on_snd (on_guard (obind (olift ra) og_evaluate_action)) (sm, gd) = (rg, (sm, gd\<lparr>gd_guard := g\<rparr>))"
    by (simp add: on_snd_def on_guard_def)
  show ?thesis
  proof (rule evaluate_blocks [OF wf gate])
    fix e assume "rg = Inl e"
    with run on show ?thesis by (auto simp: obind_def blocked_answer_def simp del: on_pair)
  next
    fix d a
    assume answered: "rg = Inr (od_as_document d)" "ra = Inr a" "od_decision d = ''ALLOW'' \<longleftrightarrow> clean_action (gd_guard gd) a"
    obtain rt s1 where med: "delegate sm = (rt, s1)" by (metis prod.collapse)
    show ?thesis
    proof (cases "od_decision d = ''ALLOW''")
      case True
      have "sm' = s1"
        using run on answered(1) True med by (cases rt) (auto simp: obind_def od_facts on_fst_def on_snd_def split: prod.splits)
      with answered True med show ?thesis by auto
    next
      case False
      then have "on_snd (gd_finish_blocked aid kind (od_as_document d) at) (sm, gd\<lparr>gd_guard := g\<rparr>) = (r, (sm', gd'))"
        using run on answered(1) by (simp add: obind_def od_facts py_eq_text del: on_pair)
      then show ?thesis using finish_blocked_answer by (auto simp: on_snd_eq simp del: on_pair)
    qed
  qed
qed

lemmas guarded_mediate_run = guarded_run [where ra = "oa_from_operation op" for op, folded og_evaluate_operation_def]
lemmas guarded_network_run = guarded_run [where ra = "oa_from_network upper rq" for upper rq, folded og_evaluate_network_request_def]

subsection \<open>Properties of objective integrity\<close>

text \<open>C20: The verdict on an action. In every run of a guard built from a policy document whose objective has an
  identifier, every valid action gets an answer, recorded and accepted by the verifier of decisions: ALLOW exactly
  if no violation was ever observed, the guard is not contained, the action names the governing policy, its kind is
  one the policy allows and no rule forbids it; CONTAIN exactly if the guard is contained, the action names another
  policy, a critical violation was observed or a matching rule says so; BLOCK exactly if none of these holds and the
  kind is not allowed, a violation was observed or a matching rule says so; otherwise REVISE.\<close>

theorem objective_verdict_exact:
  assumes "guard_init (Inl document) bindings verifier = Inr g0" "guard_calls verifier (w0, g0) (w, g)"
    and "ident_re (mp_objective_id (og_policy g0))" "oa_validate a = Inr ()"
  shows "\<exists>d. og_evaluate_action a g = (Inr (od_as_document d), judged d g) \<and> verify_decision (od_as_document d) = Inr (od_as_document d) \<and>
    (od_decision d = ''ALLOW'' \<longleftrightarrow> clean_action g a) \<and>
    (od_decision d = ''CONTAIN'' \<longleftrightarrow> ''CONTAIN'' \<in> action_floors g a) \<and>
    (od_decision d = ''BLOCK'' \<longleftrightarrow> ''CONTAIN'' \<notin> action_floors g a \<and> ''BLOCK'' \<in> action_floors g a) \<and>
    od_decision d \<in> set DECISIONS \<and> od_observed_violation_codes d = sort (remdups (action_violations g a))"
proof -
  note wf = guard_run_wf [OF assms(1,2)]
  obtain d where d: "og_evaluate_action a g = (Inr (od_as_document d), judged d g)" "judgement g a d"
    using evaluate_action_answers [OF wf(1) _ assms(4)] assms(3) wf(2) by auto
  then have "od_decision d = strictest (action_floors g a)" "wf_decision d" by (simp_all add: judgement_def)
  then show ?thesis
    using d floors_clean [OF wf(1), of a] verify_decision_ok by (intro exI [of _ d]) (simp add: judgement_def strictest_simps)
qed

text \<open>The gate before a network request.\<close>

lemma objective_network_gate:
  assumes "guard_init (Inl document) bindings verifier = Inr g0" "guard_calls verifier (w0, g0) (w1, gd_guard gd)"
    and "gd_mediate_network upper gateway rq ((s, m), gd) = (r, ((s', m'), gd'))"
  shows "(s', m') = (s, m) \<and> blocked_answer r \<or>
      (\<exists>a rt. oa_from_network upper rq = Inr a \<and> clean_action (gd_guard gd) a \<and> m_mediate_network gateway rq (s, m) = (rt, (s', m')))"
  by (rule guarded_network_run [OF guard_run_wf(1) [OF assms(1,2)] assms(3) [unfolded gd_mediate_network_def]])

text \<open>C19: No effect outside the objective. Whatever the guard went through, the guarded mediator leaves the capability
  broker, the host and the mediator untouched and answers with a BLOCK that was not executed, unless the action is
  clean under the policy; then the mediator below it runs once, and it changes the host only if it is not contained
  and the broker has an eligible capability for the operation.\<close>

theorem objective_gate_sound:
  assumes "guard_init (Inl document) bindings verifier = Inr g0" "guard_calls verifier (w0, g0) (w1, gd_guard gd)" "broker_reach b"
    and "guarded_mediate exec op (((b, w), m), gd) = (r, (((b', w'), m'), gd'))"
  shows "((b', w'), m') = ((b, w), m) \<and> blocked_answer r \<or>
      (\<exists>a rt. oa_from_operation op = Inr a \<and> clean_action (gd_guard gd) a \<and> mediate_with_broker exec op ((b, w), m) = (rt, ((b', w'), m')) \<and>
         (w' = w \<or> \<not> m_contained m \<and> (\<exists>sc k. ro_normalized_scope op = Inr sc \<and>
            eligible b (mediation_request op (the (map_of OPERATION_TO_CAPABILITY (ro_kind op))) sc) sc k)))"
proof -
  have host: "w' = w \<or> \<not> m_contained m \<and> (\<exists>sc k. ro_normalized_scope op = Inr sc \<and>
      eligible b (mediation_request op (the (map_of OPERATION_TO_CAPABILITY (ro_kind op))) sc) sc k)"
    if "mediate_with_broker exec op ((b, w), m) = (rt, ((b', w'), m'))" for rt
    using mediate_ineligible [OF reach_wf [OF assms(3)] _ that] contained_mediate [OF _ that [unfolded mediate_with_broker_def]] by blast
  have "((b', w'), m') = ((b, w), m) \<and> blocked_answer r \<or>
      (\<exists>a rt. oa_from_operation op = Inr a \<and> clean_action (gd_guard gd) a \<and> mediate_with_broker exec op ((b, w), m) = (rt, ((b', w'), m')))"
    unfolding mediate_with_broker_def
    by (rule guarded_mediate_run [OF guard_run_wf(1) [OF assms(1,2)] assms(4) [unfolded guarded_mediate_def gd_mediate_def]])
  with host show ?thesis by blast
qed

text \<open>C21: A violation stays. Once an observation was ingested, then after any further calls, a human release included,
  it is still in the log, and every verdict on an action and every judgement of a completion is BLOCK or CONTAIN, and
  CONTAIN if the violation is a critical one.\<close>

theorem violation_stays:
  assumes "guard_init (Inl document) bindings verifier = Inr g0" "guard_calls verifier (w0, g0) (w, g)" "x \<in> set (og_observations g)"
    and "guard_calls verifier (w, g) (w', g')"
  shows "x \<in> set (og_observations g') \<and>
    (\<forall>a doc h. og_evaluate_action a g' = (Inr doc, h) \<longrightarrow>
       dget doc ''decision'' = JStr ''CONTAIN'' \<or> dget doc ''decision'' = JStr ''BLOCK'' \<and> oo_violation_code x \<notin> set CRITICAL_VIOLATIONS) \<and>
    (\<forall>res tr ev at doc h. og_verify_completion res tr ev at g' = (Inr doc, h) \<longrightarrow>
       dget doc ''decision'' = JStr ''CONTAIN'' \<or> dget doc ''decision'' = JStr ''BLOCK'' \<and> oo_violation_code x \<notin> set CRITICAL_VIOLATIONS)"
proof -
  note wf = guard_run_wf(1) [OF assms(1,2)]
  have steps: "guard_steps g g'" using guard_calls_steps [OF assms(4)] wf by simp
  then have wf': "wf_guard g'" and x: "x \<in> set (og_observations g')" using guard_steps_wf wf guard_steps_keep [OF steps] assms(3) by auto
  let ?f = "violation_floor (oo_violation_code x)"
  have floor: "strictest S = ''CONTAIN'' \<or> strictest S = ''BLOCK'' \<and> oo_violation_code x \<notin> set CRITICAL_VIOLATIONS" if "?f \<in> S" for S
    using that unfolding strictest_simps violation_floor_def by (cases "oo_violation_code x \<in> set CRITICAL_VIOLATIONS") auto
  have act: "?f \<in> action_floors g' a" for a using x by (auto simp: action_floors_def)
  have comp: "?f \<in> completion_floors g' tr ev" for tr ev using x by (auto simp: completion_floors_def)
  have "dget doc ''decision'' = JStr ''CONTAIN'' \<or> dget doc ''decision'' = JStr ''BLOCK'' \<and> oo_violation_code x \<notin> set CRITICAL_VIOLATIONS"
    if run: "og_evaluate_action a g' = (Inr doc, h)" for a doc h
    by (rule evaluate_action_run [OF wf' run]) (use floor [OF act] in \<open>auto simp: judgement_def od_facts\<close>)
  moreover have "dget doc ''decision'' = JStr ''CONTAIN'' \<or> dget doc ''decision'' = JStr ''BLOCK'' \<and> oo_violation_code x \<notin> set CRITICAL_VIOLATIONS"
    if run: "og_verify_completion res tr ev at g' = (Inr doc, h)" for res tr ev at doc h
    by (rule verify_completion_run [OF wf' run]) (use floor [OF comp] in \<open>auto simp: conclusion_def oc_facts\<close>)
  ultimately show ?thesis using x by blast
qed

text \<open>C22: The log of observations. In every run each observation comes from a configured source with its binding, is about
  this objective and policy and names a known violation; identifiers do not repeat, times do not go back, and the
  observations are hash-linked from the zero digest to the head. Two runs with the same head and number of
  observations have observed the same, or two of their bodies collide under SHA-256.\<close>

theorem observation_log_sound:
  assumes "guard_init (Inl document) bindings verifier = Inr g0" "guard_calls verifier (w0, g0) (w, g)"
    and "guard_init (Inl document2) bindings2 verifier2 = Inr h0" "guard_calls verifier2 (v0, h0) (v, h)"
    and "og_observation_head h = og_observation_head g" "length (og_observations h) = length (og_observations g)"
  shows "list_all (wf_observation g) (og_observations g) \<and> distinct (map oo_observation_id (og_observations g)) \<and>
    sorted (map oo_observed_at_unix (og_observations g)) \<and>
    linked oo_previous_observation_sha256 oo_observation_sha256 ZERO_SHA256 (og_observations g) (og_observation_head g) \<and>
    (og_observations h = og_observations g \<or> collides (map (\<lambda>x. JObj (oo_body x)) (og_observations h @ og_observations g)))"
proof -
  note wf = guard_run_wf(1) [OF assms(1,2)] guard_run_wf(1) [OF assms(3,4)]
  then have sealed: "list_all sealed_observation (og_observations g)" "list_all sealed_observation (og_observations h)"
    by (simp_all add: wf_guard_def list_all_iff wf_observation_def)
  have "og_observations h = og_observations g \<or> collides (map (\<lambda>x. JObj (oo_body x)) (og_observations h @ og_observations g))"
    by (rule observation_log.log_bound_from [where h = ZERO_SHA256 and h' = ZERO_SHA256 and t = "og_observation_head g"])
      (use wf assms(5,6) sealed in \<open>simp_all add: wf_guard_def\<close>)
  with wf(1) show ?thesis by (simp add: wf_guard_def)
qed

text \<open>C23: The completion gate. In every run a completion with a non-zero result digest and well-formed evidence digests
  gets a recorded receipt that the verifier accepts; it is ALLOW exactly if no violation was observed, the guard is not
  contained and, where the policy requires evidence, both the trajectory and the method evidence are present. A
  result without a clean method never completes.\<close>

theorem completion_gate_exact:
  assumes "guard_init (Inl document) bindings verifier = Inr g0" "guard_calls verifier (w0, g0) (w, g)"
    and "completion_valid result trajectory evidence at"
  shows "\<exists>c. og_verify_completion result trajectory evidence at g = (Inr (oc_as_document c), concluded c g) \<and>
    verify_completion (oc_as_document c) = Inr (oc_as_document c) \<and> oc_result_sha256 c = result \<and>
    oc_observation_head_sha256 c = og_observation_head g \<and>
    (oc_decision c = ''ALLOW'' \<longleftrightarrow> og_observations g = [] \<and> \<not> og_contained g \<and>
      (mp_require_completion_evidence (og_policy g) \<longrightarrow> trajectory \<noteq> ZERO_SHA256 \<and> evidence \<noteq> ZERO_SHA256))"
proof -
  note wf = guard_run_wf(1) [OF assms(1,2)]
  obtain c where c: "og_verify_completion result trajectory evidence at g = (Inr (oc_as_document c), concluded c g)"
      "conclusion g result trajectory evidence c"
    by (rule verify_completion_answers [OF wf assms(3)])
  have "strictest (completion_floors g trajectory evidence) = ''ALLOW'' \<longleftrightarrow>
      og_observations g = [] \<and> \<not> og_contained g \<and> \<not> evidence_missing g trajectory evidence"
    unfolding strictest_allow [OF completion_floors_decisions] by (simp add: completion_floors_def)
  with c show ?thesis using verify_completion_ok
    by (intro exI [of _ c]) (auto simp: conclusion_def evidence_missing_def)
qed

subsection \<open>Witnesses\<close>

definition sample_sha :: string where
  "sample_sha = replicate 64 (CHR ''a'')"

definition sample_policy_body :: "(string \<times> json) list" where
  "sample_policy_body =
     [(''schema'', JStr POLICY_SCHEMA), (''objective_id'', JStr ''objective:1''), (''objective_sha256'', JStr sample_sha),
      (''method_policy_id'', JStr ''method:1''), (''governance_policy_sha256'', JStr sample_sha),
      (''allowed_runtime_kinds'', JList [JStr ''process.spawn_child'']), (''rules'', JList []),
      (''require_completion_evidence'', JBool True), (''authority'', OBJECTIVE_AUTHORITY)]"

definition sample_policy :: method_policy where
  "sample_policy =
     \<lparr>mp_objective_id = ''objective:1'', mp_objective_sha256 = sample_sha, mp_method_policy_id = ''method:1'',
      mp_governance_policy_sha256 = sample_sha, mp_allowed_runtime_kinds = [''process.spawn_child''], mp_rules = [],
      mp_require_completion_evidence = True, mp_policy_sha256 = canonical_sha256 (JObj sample_policy_body)\<rparr>"

definition sample_policy_document :: "(string \<times> json) list" where
  "sample_policy_document = sample_policy_body @ [(''policy_sha256'', JStr (mp_policy_sha256 sample_policy))]"

definition sample_verifier :: "unit observation_verifier" where
  "sample_verifier = Some (\<lambda>_. oret (JBool True))"

definition sample_guard :: integrity_guard where
  "sample_guard = \<lparr>og_policy = sample_policy, og_trusted_source_bindings = [(''detector:1'', sample_sha)], og_observations = [],
     og_observation_head = ZERO_SHA256, og_observation_ids = {}, og_last_observed_at = -1, og_decisions = [],
     og_completions = [], og_contained = False, og_containment_evidence_sha256 = ZERO_SHA256\<rparr>"

definition sample_observation :: objective_observation where
  "sample_observation =
     (let item = \<lparr>oo_observation_id = ''obs:1'', oo_objective_id = ''objective:1'', oo_method_policy_sha256 = mp_policy_sha256 sample_policy,
        oo_source_id = ''detector:1'', oo_source_binding_sha256 = sample_sha, oo_violation_code = ''evidence_tampering'',
        oo_evidence_sha256 = sample_sha, oo_observed_at_unix = 20, oo_previous_observation_sha256 = ZERO_SHA256, oo_observation_sha256 = []\<rparr>
      in item\<lparr>oo_observation_sha256 := canonical_sha256 (JObj (oo_body item))\<rparr>)"

definition sample_action :: objective_action where
  "sample_action = \<lparr>oa_action_id = ''op:1'', oa_subject_id = ''agent:a'', oa_policy_sha256 = sample_sha, oa_runtime_kind = ''process.spawn_child'',
     oa_scope_sha256 = sample_sha, oa_payload_sha256 = sample_sha, oa_at_unix = 30\<rparr>"

lemma sample_texts:
  "oi_text (JStr ''objective:1'') ''objective_id'' = Inr ''objective:1''" "oi_text (JStr ''method:1'') ''method_policy_id'' = Inr ''method:1''"
  "oi_text (JStr ''obs:1'') ''observation_id'' = Inr ''obs:1''" "oi_text (JStr ''detector:1'') ''source_id'' = Inr ''detector:1''"
  "oi_text (JStr ''detector:1'') ''trusted source_id'' = Inr ''detector:1''"
  "oi_text (JStr ''evidence_tampering'') ''violation_code'' = Inr ''evidence_tampering''"
  "policy_kinds [JStr ''process.spawn_child''] = Inr [''process.spawn_child'']"
  "is_sha256 sample_sha" "sample_sha \<noteq> ZERO_SHA256" "oa_validate sample_action = Inr ()" "ident_re ''objective:1''"
  by code_simp+

lemma sample_policy_fields:
  "mp_objective_id sample_policy = ''objective:1''" "mp_objective_sha256 sample_policy = sample_sha" "mp_method_policy_id sample_policy = ''method:1''"
  "mp_governance_policy_sha256 sample_policy = sample_sha" "mp_allowed_runtime_kinds sample_policy = [''process.spawn_child'']"
  "mp_rules sample_policy = []" "mp_require_completion_evidence sample_policy = True" "is_sha256 (mp_policy_sha256 sample_policy)"
  by (simp_all add: sample_policy_def)

lemma sample_policy_read: "mp_from_document sample_policy_document = Inr sample_policy"
proof -
  have get: "dget sample_policy_document ''schema'' = JStr POLICY_SCHEMA" "dget sample_policy_document ''authority'' = OBJECTIVE_AUTHORITY"
    "dget sample_policy_document ''rules'' = JList []" "dget sample_policy_document ''allowed_runtime_kinds'' = JList [JStr ''process.spawn_child'']"
    "dget sample_policy_document ''require_completion_evidence'' = JBool True" "dget sample_policy_document ''objective_id'' = JStr ''objective:1''"
    "dget sample_policy_document ''objective_sha256'' = JStr sample_sha" "dget sample_policy_document ''method_policy_id'' = JStr ''method:1''"
    "dget sample_policy_document ''governance_policy_sha256'' = JStr sample_sha"
    "dget sample_policy_document ''policy_sha256'' = JStr (mp_policy_sha256 sample_policy)"
    "dkeys sample_policy_document = [''schema'', ''objective_id'', ''objective_sha256'', ''method_policy_id'', ''governance_policy_sha256'',
       ''allowed_runtime_kinds'', ''rules'', ''require_completion_evidence'', ''authority'', ''policy_sha256'']"
    by (simp_all add: sample_policy_document_def sample_policy_body_def dget_def dkeys_def)
  have "mp_build (dget sample_policy_document) [JStr ''process.spawn_child''] [] = Inr sample_policy"
    by (simp add: mp_build_def get sample_texts mp_body_def Let_def del: oi_text.simps) (simp add: sample_policy_def sample_policy_body_def)
  then show ?thesis
    by (simp add: mp_from_document_def oi_exact_def same_keys_def get py_eq_def sample_policy_fields(8) insert_commute)
qed

lemma sample_guard_init: "guard_init (Inl sample_policy_document) [(''detector:1'', sample_sha)] sample_verifier = Inr sample_guard"
  by (simp add: guard_init_def sample_policy_read sample_texts sample_verifier_def sample_guard_def del: oi_text.simps)

lemma sample_observation_fields:
  "oo_source_id sample_observation = ''detector:1''" "oo_source_binding_sha256 sample_observation = sample_sha"
  "oo_objective_id sample_observation = ''objective:1''" "oo_method_policy_sha256 sample_observation = mp_policy_sha256 sample_policy"
  "oo_observation_id sample_observation = ''obs:1''" "oo_previous_observation_sha256 sample_observation = ZERO_SHA256"
  "oo_observed_at_unix sample_observation = 20" "oo_violation_code sample_observation = ''evidence_tampering''"
  "oo_evidence_sha256 sample_observation = sample_sha" "is_sha256 (oo_observation_sha256 sample_observation)"
  by (simp_all add: sample_observation_def Let_def)

lemma sample_observation_read: "oo_from_document (oo_as_document sample_observation) = Inr sample_observation"
proof -
  have get: "dget (oo_as_document sample_observation) ''schema'' = JStr OBSERVATION_SCHEMA"
    "dget (oo_as_document sample_observation) ''authority'' = OBJECTIVE_AUTHORITY"
    "dget (oo_as_document sample_observation) ''observation_sha256'' = JStr (oo_observation_sha256 sample_observation)"
    "dkeys (oo_as_document sample_observation) = [''schema'', ''observation_id'', ''objective_id'', ''method_policy_sha256'', ''source_id'',
       ''source_binding_sha256'', ''violation_code'', ''evidence_sha256'', ''observed_at_unix'', ''previous_observation_sha256'', ''authority'',
       ''observation_sha256'']"
    by (simp_all add: oo_as_document_def oo_body_def dget_def dkeys_def)
  have fields: "dget (oo_as_document sample_observation) k = dget (oo_body sample_observation) k" if "k \<noteq> ''observation_sha256''" for k
    using that by (simp add: oo_as_document_def dget_def map_add_def split: option.splits)
  have "oo_build (dget (oo_as_document sample_observation)) = Inr sample_observation"
    by (simp add: oo_build_def fields oo_dget sample_observation_fields sample_texts sample_policy_fields(8) OBJECTIVE_VIOLATIONS_def Let_def
        del: oi_text.simps) (simp add: sample_observation_def Let_def)
  then show ?thesis
    by (simp add: oo_from_document_def oi_exact_def same_keys_def get py_eq_def sample_observation_fields(10))
qed

abbreviation sample_observed :: "unit \<times> integrity_guard" where
  "sample_observed \<equiv> ((), observed sample_observation sample_guard)"

lemma sample_ingest: "snd (og_ingest_observation sample_verifier (oo_as_document sample_observation) ((), sample_guard)) = sample_observed"
proof -
  have checks: "observation_checks sample_guard sample_observation = Inr ()"
    by (simp add: observation_checks_ok sample_guard_def sample_observation_fields sample_policy_fields)
  have "on_fst (verified_by sample_verifier sample_observation) ((), sample_guard) = (Inr True, ((), sample_guard))"
    by (simp add: verified_by_def sample_verifier_def)
  moreover have "map_of (og_trusted_source_bindings sample_guard) (oo_source_id sample_observation) = Some sample_sha"
    by (simp add: sample_guard_def sample_observation_fields)
  ultimately show ?thesis
    using violation_floor_ok [of "''evidence_tampering''"]
    by (simp add: og_ingest_observation_def sample_observation_read obind_def on_snd_def checks sample_observation_fields(2,8) observed_def
        OBJECTIVE_VIOLATIONS_def del: on_pair)
qed

lemma sample_call: "guard_calls sample_verifier ((), sample_guard) sample_observed"
  using guard_call.ingest [of sample_verifier "((), sample_guard)" "oo_as_document sample_observation"] sample_ingest by simp

lemma sample_clean: "clean_action sample_guard sample_action"
  by (simp add: clean_action_def sample_guard_def sample_action_def sample_policy_fields)

theorem objective_verdict_exact_witness:
  "\<exists>d. og_evaluate_action sample_action sample_guard = (Inr (od_as_document d), judged d sample_guard) \<and> od_decision d = ''ALLOW''"
proof -
  have "ident_re (mp_objective_id (og_policy sample_guard))" using sample_texts(11) by (simp only: sample_guard_def sample_policy_fields integrity_guard.select_convs)
  from objective_verdict_exact [OF sample_guard_init rtranclp.rtrancl_refl this sample_texts(10)] sample_clean show ?thesis by blast
qed

theorem objective_gate_sound_witness:
  "fst (fst (snd (guarded_mediate demo_executor demo_operation (((demo_broker, 7), mediator_init), \<lparr>gd_guard = sample_guard, gd_receipts = []\<rparr>)))) =
     (demo_broker, 7)"
proof -
  let ?gd = "\<lparr>gd_guard = sample_guard, gd_receipts = []\<rparr>"
  have calls: "guard_calls sample_verifier ((), sample_guard) ((), gd_guard ?gd)" by simp
  obtain r b' w' m' gd' where run: "guarded_mediate demo_executor demo_operation (((demo_broker, 7), mediator_init), ?gd) = (r, (((b', w'), m'), gd'))"
    by (metis prod.collapse)
  have "oa_policy_sha256 a = ZERO_SHA256" if "oa_from_operation demo_operation = Inr a" for a
    using that by (auto simp: oa_from_operation_def rbind_eq_Inr demo_operation_def)
  then have "\<not> clean_action (gd_guard ?gd) a" if "oa_from_operation demo_operation = Inr a" for a
    using that sample_texts(9) by (auto simp: clean_action_def sample_guard_def sample_policy_fields)
  with objective_gate_sound [OF sample_guard_init calls demo_reach run] show ?thesis unfolding run by auto
qed

theorem violation_stays_witness:
  "sample_observation \<in> set (og_observations (snd (snd (on_snd (og_exit_containment sample_sha) sample_observed))))"
proof -
  have x: "sample_observation \<in> set (og_observations (observed sample_observation sample_guard))" by (simp add: observed_def)
  have "guard_calls sample_verifier sample_observed (snd (on_snd (og_exit_containment sample_sha) sample_observed))"
    using guard_call.leave [of sample_verifier sample_observed sample_sha] by (rule r_into_rtranclp)
  then have "guard_calls sample_verifier sample_observed ((), snd (snd (on_snd (og_exit_containment sample_sha) sample_observed)))"
    by (simp add: on_snd_def split: prod.splits)
  from violation_stays [OF sample_guard_init sample_call x this] show ?thesis by blast
qed

theorem observation_log_sound_witness:
  "list_all (wf_observation (observed sample_observation sample_guard)) (og_observations (observed sample_observation sample_guard))"
  using observation_log_sound [OF sample_guard_init sample_call sample_guard_init sample_call refl refl] by (elim conjE) assumption

theorem completion_gate_exact_witness:
  "\<exists>c. og_verify_completion sample_sha sample_sha sample_sha 30 sample_guard = (Inr (oc_as_document c), concluded c sample_guard) \<and>
     oc_decision c = ''ALLOW''"
proof -
  have "completion_valid sample_sha sample_sha sample_sha 30" using sample_texts(8,9) by (simp add: completion_valid_def)
  moreover have "og_observations sample_guard = []" "\<not> og_contained sample_guard" by (simp_all add: sample_guard_def)
  ultimately show ?thesis
    using completion_gate_exact [OF sample_guard_init rtranclp.rtrancl_refl, of sample_sha sample_sha sample_sha 30] sample_texts(9) by blast
qed

end
