(* ===== verification/Spec2Isabelle.thy ===== *)
theory Spec2Isabelle
  imports Mediation_Properties Session_Containment Effect_Safety Delegation_Properties Package_Properties File_Properties Credential_Properties Objective_Properties
begin

text \<open>
  Verification of the LiminalOSAI governance SDK (src/sdk): the components that decide whether an
  autonomous agent may cause an effect, that stop it, and that keep the evidence.

  \<^bold>\<open>The program and its parts.\<close> Every decision rests on capabilities. A \<^emph>\<open>capability contract\<close>
  (liminal\_post\_sandbox\_contracts) names a subject, a type, a scope, a time window and a number of uses and
  carries the SHA-256 digest of its own canonical JSON text. The \<^emph>\<open>capability broker\<close> (liminal\_capability\_broker)
  admits, charges, revokes and expires such contracts and keeps a hash-linked log. The \<^emph>\<open>runtime mediator\<close>
  (liminal\_runtime\_mediation) asks it for every operation, runs the host's executor only after an ALLOW and
  records a trajectory, which the \<^emph>\<open>escalation analysis\<close> (liminal\_causal\_escalation) judges as a whole. The
  \<^emph>\<open>containment coordinator\<close> (liminal\_containment) freezes, revokes, seals and waits for a human release, with the
  \<^emph>\<open>session supervisor\<close> (liminal\_process\_tree) and the \<^emph>\<open>lineage supervisor\<close> (liminal\_process\_lineage) ending the
  processes. The \<^emph>\<open>configuration broker\<close> (liminal\_runtime\_config) changes the runtime and thereby ends an epoch;
  the \<^emph>\<open>epoch-bound broker\<close> (liminal\_epoch\_bound\_capability) wraps the capability broker so that authority of an
  earlier epoch is removed before it decides; the \<^emph>\<open>effect commit fence\<close> (liminal\_effect\_commit) issues one-time
  leases and rechecks world, session and capability at the moment of the effect. \<^emph>\<open>Multi-agent governance\<close>
  (liminal\_multi\_agent) delegates grants between subjects and revokes whole subtrees.

  \<^bold>\<open>How the model reads.\<close> Each Python class is a record of its fields, each method an operation
  \<open>('s, 'a) op\<close> that returns the new state together with a result or an exception, since an exception undoes
  no assignment. A wrapper acts on the pair of the wrapped object's state and its own (\<open>on_fst\<close>, \<open>on_snd\<close>).
  Documents are \<open>json\<close> values and their checks are branches; an argument with a static type annotation has
  that type. Everything injected by the host (executors, callbacks, clocks, providers, back ends) is an
  argument acting on a world of any type \<open>'w\<close>; nothing is assumed of it except where a property says so as a
  hypothesis. A lock makes a call atomic, so concurrent use is a sequence of calls, and a run is an
  inductive predicate over such sequences (\<open>broker_reach\<close>, \<open>mediator_reach\<close>, \<open>co_reach\<close>, \<open>config_reach\<close>,
  \<open>epoch_reach\<close>, \<open>effect_run\<close>, \<open>gov_reach\<close>, \<dots>). SHA-256 is computed, not assumed; a property that depends
  on its strength names the two documents that would collide.

  \<^bold>\<open>The theories.\<close>
  \<^item> \<open>Prelude\<close>, \<open>Pytext\<close>: results, operations, Python text and dictionaries. \<open>Json\<close>, \<open>Json_Injective\<close>:
    documents, \<open>json.dumps\<close>, and that its text determines the value. \<open>Sha256\<close>: the digest.
  \<^item> \<open>Contracts\<close>, \<open>Contract_Facts\<close>, \<open>Hash_Chain\<close>: validators, \<open>validate_scope\<close>, contracts and events;
    the locales \<open>hashed_record\<close> and \<open>hash_linked\<close> of a record that carries its digest and of a linked log,
    interpreted for contracts, broker events, trajectory events, incident transitions and bound contracts.
  \<^item> \<open>Capability_Broker\<close>, \<open>Broker_Facts\<close>, \<open>Broker_Properties\<close>: the broker, its invariant \<open>wf_broker\<close>, its steps
    \<open>bstep\<close>, and its properties (decisions, bounds on uses, finality, completeness of the log).
  \<^item> \<open>Causal_Escalation\<close>: rules as ordered subsequences, score, decision, chain check.
  \<^item> \<open>Runtime_Mediation\<close>, \<open>Mediation_Properties\<close>: \<open>mediate\<close> and \<open>mediate_network\<close> on every branch.
  \<^item> \<open>Process_Tree\<close>, \<open>Process_Lineage\<close>, \<open>Lineage_Properties\<close>: the two supervisors; the lineage check is
    proved equivalent to \<open>being a tree rooted at the bound process\<close>, including that its climb terminates.
  \<^item> \<open>Containment\<close>, \<open>Containment_Properties\<close>, \<open>Session_Containment\<close>: the coordinator refines the transition
    relation of its contract; containment completes whatever the callbacks do; a release with the
    session supervisor as its hooks means that no governed process is left.
  \<^item> \<open>Runtime_Config\<close>, \<open>Config_Properties\<close>: outcomes of a configuration plan, one execution per plan.
  \<^item> \<open>Epoch_Capability\<close>, \<open>Epoch_Properties\<close>: removal of stale authority and what ALLOW then means.
  \<^item> \<open>Effect_Commit\<close>, \<open>Effect_Properties\<close>, \<open>Effect_Safety\<close>: the locale \<open>one_time_store\<close> (a store refines a
    specification of one-time tokens), interpreted on the lease store; runs in which executors call back;
    and mediation on top of the epoch-bound broker.
  \<^item> \<open>Multi_Agent\<close>, \<open>Delegation_Properties\<close>: delegation narrows; the walk of \<open>revoke_tree\<close> terminates and is
    exact; two lemmas show a diamond of delegations that cannot be revoked and a grant that comes back to life.

  \<^bold>\<open>Bounds.\<close> No definition uses fuel: every loop is structural or has a termination proof (\<open>climb\<close>, \<open>descend\<close>).
  An event identifier holds a decimal counter and is limited to 192 characters by its contract, so properties that
  promise an answer ask for \<open>log_capacity\<close>, room for the events of the call.

  \<^bold>\<open>Not modelled.\<close> Floating point numbers in documents; callbacks that re-enter the mediator or the coordinator;
  executors of the effect commit fence may re-enter it. Of the egress gateway only the request record is
  modelled. The command line tools, the Docker, file and package adapters are I/O; the GitHub, TRCP,
  attestation, capsule and portable receipt packages lie outside the runtime governance core; the durable
  fence and the LiminalDB checkpoint rest on SQLite and an external database. PROJECT.json lists every part.
\<close>

end
